(* ===== verification/Prelude.thy ===== *)
theory Prelude
  imports Complex_Main "HOL-Library.AList" "HOL-Library.Code_Target_Nat"
begin

text \<open>
  The part of Foundation that the library's code uses, and the lemmas every component shares:
  nullable strings and the \<open>NSString+MSIDExtensions\<close> helpers, dictionaries as association
  lists, property-list values, errors, dates and unsigned machine integers.
\<close>

named_theorems dict_simps
named_theorems string_simps

section \<open>Machine integers, dates and exceptions\<close>

text \<open>
  \<open>NSUInteger\<close> is 64 bits wide; its additions and subtractions wrap. A date is its number of
  seconds since 1970 (a rational; the rounding of \<open>double\<close> is not modelled). A message that
  Foundation answers by raising (a nil key or value for a dictionary or an array) is the value
  \<open>NSInvalidArgumentException\<close>.
\<close>

definition nsu_add :: "nat \<Rightarrow> nat \<Rightarrow> nat" where
  "nsu_add a b = (a + b) mod 2 ^ 64"

definition nsu_sub :: "nat \<Rightarrow> nat \<Rightarrow> nat" where
  "nsu_sub a b = (a + (2 ^ 64 - b mod 2 ^ 64)) mod 2 ^ 64"

lemma nsu_add_small: "a + b < 2 ^ 64 \<Longrightarrow> nsu_add a b = a + b"
  by (simp add: nsu_add_def)

lemma nsu_sub_small: "b \<le> a \<Longrightarrow> a < 2 ^ 64 \<Longrightarrow> nsu_sub a b = a - b"
proof -
  assume "b \<le> a" and "a < 2 ^ 64"
  then have "a + (2 ^ 64 - b mod 2 ^ 64) = (a - b) + 2 ^ 64" by simp
  with \<open>a < 2 ^ 64\<close> show ?thesis by (simp add: nsu_sub_def)
qed

type_synonym nsdate = rat

datatype objc_exception = NSInvalidArgumentException

definition trunc_rat :: "rat \<Rightarrow> int" where
  "trunc_rat r = (if 0 \<le> r then floor r else - floor (- r))"

section \<open>Dictionaries\<close>

text \<open>
  An \<open>NSDictionary\<close> is an association list with distinct keys. \<open>objectForKey:\<close> is
  \<open>map_of\<close>; \<open>setObject:forKey:\<close> is \<open>AList.update\<close>; \<open>removeObjectForKey:\<close> is
  \<open>AList.delete\<close>; assigning nil through a subscript removes the key. The order of the list
  stands for the unspecified enumeration order.
\<close>

type_synonym ('k, 'v) dict = "('k \<times> 'v) list"

abbreviation dict_get :: "('k, 'v) dict \<Rightarrow> 'k \<Rightarrow> 'v option" where
  "dict_get d k \<equiv> map_of d k"

abbreviation dict_put :: "'k \<Rightarrow> 'v \<Rightarrow> ('k, 'v) dict \<Rightarrow> ('k, 'v) dict" where
  "dict_put k v d \<equiv> AList.update k v d"

abbreviation dict_del :: "'k \<Rightarrow> ('k, 'v) dict \<Rightarrow> ('k, 'v) dict" where
  "dict_del k d \<equiv> AList.delete k d"

abbreviation dict_keys :: "('k, 'v) dict \<Rightarrow> 'k list" where
  "dict_keys d \<equiv> map fst d"

definition dict_assign :: "'k \<Rightarrow> 'v option \<Rightarrow> ('k, 'v) dict \<Rightarrow> ('k, 'v) dict" where
  "dict_assign k vo d = (case vo of None \<Rightarrow> dict_del k d | Some v \<Rightarrow> dict_put k v d)"

definition addEntriesFromDictionary :: "('k, 'v) dict \<Rightarrow> ('k, 'v) dict \<Rightarrow> ('k, 'v) dict" where
  "addEntriesFromDictionary d e = fold (\<lambda>(k, v). dict_put k v) e d"

declare map_of_eq_Some_iff [simp del]
declare Some_eq_map_of_iff [simp del]

lemma dict_get_put [simp, dict_simps]: "dict_get (dict_put k v d) = (dict_get d)(k \<mapsto> v)"
  by (rule update_conv')

lemma dict_get_del [simp, dict_simps]: "dict_get (dict_del k d) = (dict_get d)(k := None)"
  by (rule delete_conv')

lemma dict_get_assign [simp, dict_simps]: "dict_get (dict_assign k vo d) = (dict_get d)(k := vo)"
  by (auto simp: dict_assign_def fun_eq_iff split: option.split)

lemma distinct_dict_put [simp, intro]:
  "distinct (dict_keys d) \<Longrightarrow> distinct (dict_keys (dict_put k v d))"
  by (rule distinct_update)

lemma distinct_dict_del [simp, intro]:
  "distinct (dict_keys d) \<Longrightarrow> distinct (dict_keys (dict_del k d))"
  by (rule distinct_delete)

lemma distinct_dict_assign [simp, intro]:
  "distinct (dict_keys d) \<Longrightarrow> distinct (dict_keys (dict_assign k vo d))"
  by (simp add: dict_assign_def split: option.split)

lemma set_dict_keys: "set (dict_keys d) = dom (dict_get d)"
  by (simp add: dom_map_of_conv_image_fst)

lemma length_dict: "distinct (dict_keys d) \<Longrightarrow> length d = card (dom (dict_get d))"
  by (metis distinct_card length_map set_dict_keys)

lemma dict_get_addEntries:
  "distinct (dict_keys e) \<Longrightarrow> dict_get (addEntriesFromDictionary d e) = dict_get d ++ dict_get e"
proof (induction e arbitrary: d)
  case Nil
  then show ?case by (simp add: addEntriesFromDictionary_def)
next
  case (Cons kv e)
  obtain k v where kv: "kv = (k, v)" by (cases kv)
  with Cons.prems have fresh: "dict_get e k = None" and dist: "distinct (dict_keys e)"
    by (auto simp: map_of_eq_None_iff)
  have "dict_get (addEntriesFromDictionary (dict_put k v d) e) = (dict_get d)(k \<mapsto> v) ++ dict_get e"
    using Cons.IH [OF dist, of "dict_put k v d"] by (simp only: dict_get_put)
  also have "\<dots> = dict_get d ++ (dict_get e)(k \<mapsto> v)"
    using fresh by (auto simp: fun_eq_iff map_add_def split: option.splits)
  finally show ?case by (simp add: kv addEntriesFromDictionary_def fun_upd_def)
qed

lemma distinct_addEntries [simp, intro]:
  "distinct (dict_keys d) \<Longrightarrow> distinct (dict_keys (addEntriesFromDictionary d e))"
  unfolding addEntriesFromDictionary_def
  by (induction e arbitrary: d) auto

section \<open>Strings\<close>

text \<open>
  An \<open>NSString *\<close> is a \<open>string option\<close>, nil being \<open>None\<close>; the text is ASCII. A message
  to nil answers nil, which \<open>map_option\<close> gives. \<open>isEqualToString:\<close> with a nil receiver or a
  nil argument is NO.
\<close>

definition whitespaceAndNewline :: "char \<Rightarrow> bool" where
  "whitespaceAndNewline c \<longleftrightarrow> c \<in> {CHR '' '', CHR 0x09, CHR 0x0A, CHR 0x0B, CHR 0x0C, CHR 0x0D}"

definition lower_table :: "(char \<times> char) list" where
  "lower_table = zip ''ABCDEFGHIJKLMNOPQRSTUVWXYZ'' ''abcdefghijklmnopqrstuvwxyz''"

definition to_lower :: "char \<Rightarrow> char" where
  "to_lower c = (case map_of lower_table c of None \<Rightarrow> c | Some d \<Rightarrow> d)"

definition lowercaseString :: "string \<Rightarrow> string" where
  "lowercaseString s = map to_lower s"

definition msidTrimmedString :: "string \<Rightarrow> string" where
  "msidTrimmedString s =
     rev (dropWhile whitespaceAndNewline (rev (dropWhile whitespaceAndNewline s)))"

definition msidNormalizedString :: "string \<Rightarrow> string" where
  "msidNormalizedString s = lowercaseString (msidTrimmedString s)"

definition msidIsStringNilOrBlank :: "string option \<Rightarrow> bool" where
  "msidIsStringNilOrBlank so = (case so of None \<Rightarrow> True | Some s \<Rightarrow> list_all whitespaceAndNewline s)"

definition isEqualToString :: "string option \<Rightarrow> string option \<Rightarrow> bool" where
  "isEqualToString a b = (case a of None \<Rightarrow> False | Some s \<Rightarrow> b = Some s)"

definition eq_or_both_nil :: "'a option \<Rightarrow> 'a option \<Rightarrow> bool" where
  "eq_or_both_nil a b \<longleftrightarrow> (a = None \<and> b = None) \<or> (a \<noteq> None \<and> a = b)"

definition str_or_empty :: "string option \<Rightarrow> string" where
  "str_or_empty so = (case so of None \<Rightarrow> [] | Some s \<Rightarrow> s)"

text \<open>\<open>%@\<close> of a nil object in a format string prints \<open>(null)\<close>.\<close>

definition fmt_obj :: "string option \<Rightarrow> string" where
  "fmt_obj so = (case so of None \<Rightarrow> ''(null)'' | Some s \<Rightarrow> s)"

definition caseInsensitiveSame :: "string \<Rightarrow> string \<Rightarrow> bool" where
  "caseInsensitiveSame a b \<longleftrightarrow> lowercaseString a = lowercaseString b"

definition msidIsEquivalentWithAnyAlias :: "string option \<Rightarrow> string list \<Rightarrow> bool" where
  "msidIsEquivalentWithAnyAlias self aliases =
     (case self of None \<Rightarrow> False | Some s \<Rightarrow> list_ex (caseInsensitiveSame s) aliases)"

definition hasPrefix :: "string \<Rightarrow> string \<Rightarrow> bool" where
  "hasPrefix s p \<longleftrightarrow> take (length p) s = p"

lemma eq_or_both_nil_iff [simp]: "eq_or_both_nil a b \<longleftrightarrow> a = b"
  by (cases a) (auto simp: eq_or_both_nil_def)

lemma isEqualToString_iff [string_simps]: "isEqualToString a b \<longleftrightarrow> a \<noteq> None \<and> a = b"
  by (cases a) (auto simp: isEqualToString_def)

lemma length_lowercaseString [simp]: "length (lowercaseString s) = length s"
  by (simp add: lowercaseString_def)

lemma lower_table_all:
  "list_all (\<lambda>(c, d). map_of lower_table d = None \<and>
     \<not> whitespaceAndNewline c \<and> \<not> whitespaceAndNewline d) lower_table"
  by code_simp

lemma lower_table_range: "(c, d) \<in> set lower_table \<Longrightarrow> map_of lower_table d = None"
  using lower_table_all by (auto simp: list_all_iff)

lemma to_lower_idem [simp]: "to_lower (to_lower c) = to_lower c"
proof (cases "map_of lower_table c")
  case None
  then show ?thesis by (simp add: to_lower_def)
next
  case (Some d)
  then have "map_of lower_table d = None" by (blast dest: map_of_SomeD lower_table_range)
  with Some show ?thesis by (simp add: to_lower_def)
qed

lemma lowercaseString_idem [simp]: "lowercaseString (lowercaseString s) = lowercaseString s"
  by (simp add: lowercaseString_def)

lemma lower_table_white: "(c, d) \<in> set lower_table \<Longrightarrow> \<not> whitespaceAndNewline c \<and> \<not> whitespaceAndNewline d"
  using lower_table_all by (auto simp: list_all_iff)

lemma white_to_lower [simp]: "whitespaceAndNewline (to_lower c) = whitespaceAndNewline c"
  by (auto simp: to_lower_def split: option.splits dest!: map_of_SomeD lower_table_white)

lemma msidTrimmedString_lowercase:
  "msidTrimmedString (lowercaseString s) = lowercaseString (msidTrimmedString s)"
  by (simp add: msidTrimmedString_def lowercaseString_def dropWhile_map rev_map comp_def)

lemma dropWhile_rev_dropWhile:
  "dropWhile P (rev (dropWhile P (rev (dropWhile P s)))) = rev (dropWhile P (rev (dropWhile P s)))"
proof (cases "\<forall>x \<in> set s. P x")
  case True
  then have nil: "dropWhile P s = []" by simp
  show ?thesis by (simp only: nil) simp
next
  case False
  let ?t = "dropWhile P s"
  from False have ne: "?t \<noteq> []" and hd: "\<not> P (hd ?t)"
    by (auto simp: dropWhile_eq_Nil_conv hd_dropWhile)
  then have "\<exists>x \<in> set ?t. \<not> P x" using hd_in_set by blast
  then have "rev (dropWhile P (rev ?t)) \<noteq> []"
    by (auto simp: dropWhile_eq_Nil_conv simp del: ex_simps)
  moreover have "hd (rev (dropWhile P (rev ?t))) = hd ?t"
  proof -
    obtain a u where t: "?t = a # u" using ne by (cases ?t) auto
    with hd have "\<not> P a" by simp
    then have "\<exists>w. dropWhile P (rev u @ [a]) = w @ [a]"
      by (cases "\<exists>x \<in> set u. \<not> P x") (auto simp: dropWhile_append dropWhile_append2)
    with t show ?thesis by auto
  qed
  ultimately show ?thesis using hd
    by (metis dropWhile_eq_self_iff)
qed

lemma msidTrimmedString_idem [simp]: "msidTrimmedString (msidTrimmedString s) = msidTrimmedString s"
  by (simp add: msidTrimmedString_def dropWhile_rev_dropWhile)

lemma msidNormalizedString_idem [simp]:
  "msidNormalizedString (msidNormalizedString s) = msidNormalizedString s"
  by (simp add: msidNormalizedString_def msidTrimmedString_lowercase)

lemma caseInsensitiveSame_refl [simp]: "caseInsensitiveSame s s"
  by (simp add: caseInsensitiveSame_def)

text \<open>The result of a run that succeeded.\<close>

lemma run_succeeded: "fst (snd p) \<Longrightarrow> p = (fst p, True, snd (snd p))"
  by (cases p) auto

end
