(* ===== verification/Interfaces.thy ===== *)
theory Interfaces
  imports Prelude
begin

text \<open>
  The interfaces the components offer one another, as locales: the operations a client calls and
  the laws it relies on. Every locale is interpreted on the model of the code that provides it,
  in that component's theory.
\<close>

section \<open>A bounded cache of records\<close>

text \<open>
  The contract the throttling service needs of the LRU cache. \<open>view c k\<close> is the record stored
  under \<open>k\<close>; a \<open>spoiled\<close> key has none and cannot be given one; \<open>fresh c x\<close> says that the
  random argument \<open>x\<close> of a store does not repeat an earlier draw. A store under a present key
  keeps the old record; a store under a new key may cost another key its record.
\<close>

locale record_cache =
  fixes inv :: "'c \<Rightarrow> bool"
    and view :: "'c \<Rightarrow> 'k \<Rightarrow> 'r option"
    and spoiled :: "'c \<Rightarrow> 'k \<Rightarrow> bool"
    and fresh :: "'c \<Rightarrow> 'x \<Rightarrow> bool"
    and get :: "'c \<Rightarrow> 'k option \<Rightarrow> objc_exception + ('c \<times> 'r option \<times> 'e option)"
    and put :: "'c \<Rightarrow> 'r option \<Rightarrow> 'k option \<Rightarrow> 'x \<Rightarrow> objc_exception + ('c \<times> bool \<times> 'e option)"
    and del :: "'c \<Rightarrow> 'k option \<Rightarrow> objc_exception + ('c \<times> bool \<times> 'e option)"
  assumes get_law: "inv c \<Longrightarrow> \<exists>c' e. get c (Some k) = Inr (c', view c k, e) \<and>
      (e = None \<longleftrightarrow> view c k \<noteq> None) \<and> inv c' \<and> view c' = view c \<and> spoiled c' = spoiled c \<and>
      (\<forall>x. fresh c x \<longrightarrow> fresh c' x)"
    and put_present: "inv c \<Longrightarrow> fresh c x \<Longrightarrow> view c k \<noteq> None \<Longrightarrow>
      \<exists>c'. put c (Some r) (Some k) x = Inr (c', True, None) \<and> inv c' \<and> view c' = view c"
    and put_new: "inv c \<Longrightarrow> fresh c x \<Longrightarrow> view c k = None \<Longrightarrow> \<not> spoiled c k \<Longrightarrow>
      \<exists>c'. put c (Some r) (Some k) x = Inr (c', True, None) \<and> inv c' \<and> view c' k = Some r \<and>
        (\<forall>k'. k' \<noteq> k \<longrightarrow> view c' k' = view c k' \<or> view c' k' = None)"
    and put_spoiled: "inv c \<Longrightarrow> fresh c x \<Longrightarrow> spoiled c k \<Longrightarrow>
      \<exists>c' e. put c (Some r) (Some k) x = Inr (c', False, Some e) \<and> inv c' \<and> view c' = view c"
    and del_law: "inv c \<Longrightarrow> \<exists>c' e. del c (Some k) = Inr (c', view c k \<noteq> None, e) \<and>
      (e = None \<longleftrightarrow> view c k \<noteq> None) \<and> inv c' \<and> view c' = (view c)(k := None) \<and>
      (\<forall>k'. spoiled c' k' \<longleftrightarrow> k' \<noteq> k \<and> spoiled c k') \<and> (\<forall>x. fresh c x \<longrightarrow> fresh c' x)"
    and spoiled_view: "inv c \<Longrightarrow> spoiled c k \<Longrightarrow> view c k = None"
begin

lemma put_get:
  assumes "inv c" and "fresh c x" and "view c k = None" and "\<not> spoiled c k"
  shows "\<exists>c1 c2. put c (Some r) (Some k) x = Inr (c1, True, None) \<and> get c1 (Some k) = Inr (c2, Some r, None)"
proof -
  obtain c1 where 1: "put c (Some r) (Some k) x = Inr (c1, True, None)" "inv c1" "view c1 k = Some r"
    using put_new [OF assms] by blast
  with get_law [of c1 k] show ?thesis by auto
qed

text \<open>Deleting a key first makes a following store of it succeed, whatever was there.\<close>

lemma del_put:
  assumes "inv c" and "fresh c x"
  shows "\<exists>c1 b e c2. del c (Some k) = Inr (c1, b, e) \<and> put c1 (Some r) (Some k) x = Inr (c2, True, None) \<and>
    inv c2 \<and> view c2 k = Some r"
proof -
  obtain c1 e where 1: "del c (Some k) = Inr (c1, view c k \<noteq> None, e)" "inv c1"
    "view c1 = (view c)(k := None)" "\<not> spoiled c1 k" "fresh c1 x"
    using del_law [OF assms(1), of k] assms(2) by blast
  then have "view c1 k = None" by simp
  from put_new [OF 1(2) 1(5) this 1(4)] 1(1) show ?thesis by blast
qed

lemma get_absent:
  assumes "inv c" and "view c k = None"
  shows "\<exists>c' e. get c (Some k) = Inr (c', None, Some e) \<and> inv c' \<and> view c' = view c"
proof -
  obtain c' e where g: "get c (Some k) = Inr (c', view c k, e)" "e = None \<longleftrightarrow> view c k \<noteq> None"
    "inv c'" "view c' = view c" using get_law [OF assms(1), of k] by blast
  with assms(2) obtain e' where "e = Some e'" by (cases e) auto
  with g assms(2) show ?thesis by auto
qed

end

section \<open>A store of items under keys\<close>

text \<open>
  The contract the macOS token cache needs of its blob. \<open>view st\<close> is the map from addresses to
  items; \<open>addr k\<close> is the address a key names, none if the store keeps no items of that kind;
  \<open>stable k\<close> says that the copy the store makes of \<open>k\<close> has the address of \<open>k\<close>; \<open>exact k\<close>
  says that a lookup with \<open>k\<close> reads one address.
\<close>

locale keyed_store =
  fixes inv :: "'s \<Rightarrow> bool"
    and view :: "'s \<Rightarrow> 'a \<Rightarrow> 'v option"
    and addr :: "'k \<Rightarrow> 'a option"
    and stable :: "'k \<Rightarrow> bool"
    and exact :: "'k \<Rightarrow> bool"
    and put :: "'v \<Rightarrow> 'k \<Rightarrow> 's \<Rightarrow> 's"
    and del :: "'k \<Rightarrow> 's \<Rightarrow> 's"
    and find :: "'k \<Rightarrow> 's \<Rightarrow> 'v list"
    and merge :: "'s \<Rightarrow> 's \<Rightarrow> 's"
  assumes put_inv: "inv st \<Longrightarrow> stable k \<Longrightarrow> inv (put x k st)"
    and put_view: "inv st \<Longrightarrow> stable k \<Longrightarrow> addr k = Some a \<Longrightarrow> view (put x k st) = (view st)(a \<mapsto> x)"
    and put_dropped: "addr k = None \<Longrightarrow> put x k st = st"
    and del_inv: "inv st \<Longrightarrow> inv (del k st)"
    and del_view: "inv st \<Longrightarrow> addr k = Some a \<Longrightarrow> view (del k st) = (view st)(a := None)"
    and find_exact: "inv st \<Longrightarrow> exact k \<Longrightarrow> addr k = Some a \<Longrightarrow>
      find k st = (case view st a of None \<Rightarrow> [] | Some x \<Rightarrow> [x])"
    and merge_inv: "inv st \<Longrightarrow> inv st' \<Longrightarrow> inv (merge st st')"
    and merge_view: "inv st \<Longrightarrow> inv st' \<Longrightarrow> view (merge st st') = view st ++ view st'"
begin

lemma find_put:
  assumes "inv st" "stable k" "exact k'" "addr k = Some a" "addr k' = Some a'"
  shows "find k' (put x k st) = (if a' = a then [x] else find k' st)"
  using assms put_inv put_view find_exact by simp

lemma find_del:
  assumes "inv st" "exact k'" "addr k = Some a" "addr k' = Some a'"
  shows "find k' (del k st) = (if a' = a then [] else find k' st)"
  using assms del_inv del_view find_exact by simp

text \<open>
  A put into a store that was first brought up to date with another, and a delete from it, act on
  the union of the two.
\<close>

lemma put_merged:
  assumes "inv st" "inv st'" "stable k" "addr k = Some a"
  shows "view (put x k (merge st st')) = (view st ++ view st')(a \<mapsto> x)"
  using assms merge_inv merge_view put_view by simp

lemma del_merged:
  assumes "inv st" "inv st'" "addr k = Some a"
  shows "view (del k (merge st st')) = (view st ++ view st')(a := None)"
  using assms merge_inv merge_view del_view by simp

text \<open>Merging what was written back changes nothing.\<close>

lemma merge_written:
  assumes "inv st" "inv st'" "view st' = view st"
  shows "view (merge st st') = view st"
  using assms merge_view by (simp add: map_add_def fun_eq_iff split: option.splits)

end

end
