(* ===== verification/LRUCache.thy ===== *)
theory LRUCache
  imports Interfaces
begin

text \<open>
  \<open>throttling/cache/MSIDLRUCache.m\<close>: an LRU cache whose doubly linked list is a dictionary of
  nodes that name their neighbours by signature, between a dummy \<open>HEAD\<close> and a dummy \<open>TAIL\<close>;
  a second dictionary maps the caller's keys to signatures. The barrier queue makes each public
  method one atomic step on the state. The randomness of \<open>arc4random_uniform\<close> is an argument.
\<close>

section \<open>State\<close>

definition HEAD_SIGNATURE :: string where
  "HEAD_SIGNATURE = ''HEAD''"

definition TAIL_SIGNATURE :: string where
  "TAIL_SIGNATURE = ''TAIL''"

definition DEFAULT_CACHE_SIZE :: nat where
  "DEFAULT_CACHE_SIZE = 1000"

definition DEFAULT_SIGNATURE_LENGTH :: nat where
  "DEFAULT_SIGNATURE_LENGTH = 8"

definition DEFAULT_CACHE_OFFSET_SIZE :: nat where
  "DEFAULT_CACHE_OFFSET_SIZE = 2"

record 'r lru_node =
  signature :: string
  prevSignature :: "string option"
  nextSignature :: "string option"
  nodeRecord :: "'r option"

record ('k, 'r) lru =
  cacheSizeInt :: nat
  cacheUpdateCountInt :: nat
  cacheEvictionCountInt :: nat
  cacheAddCountInt :: nat
  cacheRemoveCountInt :: nat
  container :: "(string, 'r lru_node) dict"
  keySignatureMap :: "('k, string) dict"

text \<open>The error codes the cache creates; the message texts are not modelled.\<close>

datatype lru_error =
    LRUErrorInternal
  | LRUErrorThrottleCacheInvalidSignature
  | LRUErrorThrottleCacheNoRecord

text \<open>\<open>container\<close> accessed through a signature that may be nil.\<close>

definition nodeFor :: "('k, 'r) lru \<Rightarrow> string option \<Rightarrow> 'r lru_node option" where
  "nodeFor c so = (case so of None \<Rightarrow> None | Some s \<Rightarrow> dict_get (container c) s)"

section \<open>Read-only properties and initialisation\<close>

definition cacheSize :: "('k, 'r) lru \<Rightarrow> nat" where
  "cacheSize c = nsu_sub (cacheSizeInt c) DEFAULT_CACHE_OFFSET_SIZE"

definition numCacheRecords :: "('k, 'r) lru \<Rightarrow> nat" where
  "numCacheRecords c = nsu_sub (length (dict_keys (container c))) DEFAULT_CACHE_OFFSET_SIZE"

definition initWithCacheSize :: "nat \<Rightarrow> ('k, 'r) lru" where
  "initWithCacheSize n =
     (let head = \<lparr>signature = HEAD_SIGNATURE, prevSignature = None,
                  nextSignature = Some TAIL_SIGNATURE, nodeRecord = None\<rparr>;
          tail = \<lparr>signature = TAIL_SIGNATURE, prevSignature = Some HEAD_SIGNATURE,
                  nextSignature = None, nodeRecord = None\<rparr>
      in \<lparr>cacheSizeInt = nsu_add n DEFAULT_CACHE_OFFSET_SIZE,
          cacheUpdateCountInt = 0, cacheEvictionCountInt = 0,
          cacheAddCountInt = 0, cacheRemoveCountInt = 0,
          container = dict_put TAIL_SIGNATURE tail (dict_put HEAD_SIGNATURE head []),
          keySignatureMap = []\<rparr>)"

definition lru_sharedInstance :: "('k, 'r) lru" where
  "lru_sharedInstance = initWithCacheSize DEFAULT_CACHE_SIZE"

section \<open>Internal operations\<close>

text \<open>
  An operation answers \<open>Inl\<close> where the code would raise, else the new state, the returned
  value and the error it sets.
\<close>

definition removeObjectForKeyImpl ::
    "('k, 'r) lru \<Rightarrow> string option \<Rightarrow> objc_exception + (('k, 'r) lru \<times> lru_error option)" where
  "removeObjectForKeyImpl c so =
     (case so of
        None \<Rightarrow> Inr (c, Some LRUErrorInternal)
      | Some s \<Rightarrow>
         (case dict_get (container c) s of
            None \<Rightarrow> Inr (c, Some LRUErrorInternal)
          | Some node \<Rightarrow>
             (case (nodeFor c (prevSignature node), nodeFor c (nextSignature node)) of
                (Some prevNode, Some nextNode) \<Rightarrow>
                  (let newPrevNode = prevNode\<lparr>nextSignature := nextSignature node\<rparr>;
                       newNextNode = nextNode\<lparr>prevSignature := prevSignature node\<rparr>;
                       d1 = dict_put (signature newPrevNode) newPrevNode (container c);
                       d2 = dict_put (signature newNextNode) newNextNode d1
                   in Inr (c\<lparr>container := dict_del s d2\<rparr>, None))
              | _ \<Rightarrow> Inl NSInvalidArgumentException)))"

definition addToFrontImpl ::
    "('k, 'r) lru \<Rightarrow> 'r lru_node \<Rightarrow> objc_exception + ('k, 'r) lru" where
  "addToFrontImpl c node =
     (case dict_get (container c) HEAD_SIGNATURE of
        None \<Rightarrow> Inl NSInvalidArgumentException
      | Some dummyHeadNode \<Rightarrow>
         (case nodeFor c (nextSignature dummyHeadNode) of
            None \<Rightarrow> Inl NSInvalidArgumentException
          | Some currentHeadNode \<Rightarrow>
             (let updatedDummyHeadNode = dummyHeadNode\<lparr>nextSignature := Some (signature node)\<rparr>;
                  updatedCurrentHeadNode = currentHeadNode\<lparr>prevSignature := Some (signature node)\<rparr>;
                  node' = node\<lparr>prevSignature := Some HEAD_SIGNATURE,
                               nextSignature := Some (signature updatedCurrentHeadNode)\<rparr>;
                  d1 = dict_put (signature updatedCurrentHeadNode) updatedCurrentHeadNode (container c);
                  d2 = dict_put (signature node') node' d1
              in Inr (c\<lparr>container := dict_put HEAD_SIGNATURE updatedDummyHeadNode d2\<rparr>))))"

definition objectForKeyImpl ::
    "('k, 'r) lru \<Rightarrow> string option \<Rightarrow>
       objc_exception + (('k, 'r) lru \<times> 'r option \<times> lru_error option)" where
  "objectForKeyImpl c so =
     (case so of
        None \<Rightarrow> Inr (c, None, Some LRUErrorThrottleCacheInvalidSignature)
      | Some s \<Rightarrow>
         (case dict_get (container c) s of
            None \<Rightarrow> Inr (c, None, Some LRUErrorThrottleCacheNoRecord)
          | Some node \<Rightarrow>
             (let c1 = c\<lparr>cacheUpdateCountInt := nsu_add (cacheUpdateCountInt c) 1\<rparr>
              in case removeObjectForKeyImpl c1 so of
                   Inl x \<Rightarrow> Inl x
                 | Inr (c2, err) \<Rightarrow>
                     (case addToFrontImpl c2 node of
                        Inl x \<Rightarrow> Inl x
                      | Inr c3 \<Rightarrow> Inr (c3, nodeRecord node, err)))))"

definition validLetters :: string where
  "validLetters = ''abcdefghijklmnopqrstuvwxyzABCDEFGHIJKLMNOPQRSTUVWXYZ0123456789''"

text \<open>\<open>rnd i\<close> is the value behind the \<open>i\<close>-th call of \<open>arc4random_uniform(62)\<close>.\<close>

definition generateRandomSignature :: "(nat \<Rightarrow> nat) \<Rightarrow> string" where
  "generateRandomSignature rnd =
     map (\<lambda>i. validLetters ! (rnd i mod length validLetters)) [0..<DEFAULT_SIGNATURE_LENGTH]"

definition mapKeyToSignature :: "('k, 'r) lru \<Rightarrow> 'k \<Rightarrow> (nat \<Rightarrow> nat) \<Rightarrow> ('k, 'r) lru \<times> string" where
  "mapKeyToSignature c key rnd =
     (let sig = generateRandomSignature rnd
      in (c\<lparr>keySignatureMap := dict_put key sig (keySignatureMap c)\<rparr>, sig))"

section \<open>Public operations\<close>

definition lru_setObject ::
    "('k, 'r) lru \<Rightarrow> 'r option \<Rightarrow> 'k option \<Rightarrow> (nat \<Rightarrow> nat) \<Rightarrow>
       objc_exception + (('k, 'r) lru \<times> bool \<times> lru_error option)" where
  "lru_setObject c cacheRecord key rnd =
     (if cacheSizeInt c \<le> DEFAULT_CACHE_OFFSET_SIZE then Inr (c, False, Some LRUErrorInternal)
      else case (cacheRecord, key) of
        (Some r, Some k) \<Rightarrow>
          (case dict_get (keySignatureMap c) k of
             Some s \<Rightarrow>
               (case objectForKeyImpl c (Some s) of
                  Inl x \<Rightarrow> Inl x
                | Inr (c1, _, subError) \<Rightarrow> Inr (c1, subError = None, subError))
           | None \<Rightarrow>
               (let evicted =
                      (if length (dict_keys (container c)) \<ge> cacheSizeInt c then
                         (case removeObjectForKeyImpl c
                                 (Option.bind (dict_get (container c) TAIL_SIGNATURE) prevSignature) of
                            Inl x \<Rightarrow> Inl x
                          | Inr (c1, err) \<Rightarrow>
                              Inr (c1\<lparr>cacheEvictionCountInt := nsu_add (cacheEvictionCountInt c1) 1\<rparr>, err))
                       else Inr (c, None))
                in case evicted of
                     Inl x \<Rightarrow> Inl x
                   | Inr (c2, subError) \<Rightarrow>
                       (case mapKeyToSignature c2 k rnd of
                          (c3, sig) \<Rightarrow>
                            (case addToFrontImpl c3 \<lparr>signature = sig, prevSignature = None,
                                                     nextSignature = None, nodeRecord = Some r\<rparr> of
                               Inl x \<Rightarrow> Inl x
                             | Inr c4 \<Rightarrow>
                                 Inr (c4\<lparr>cacheAddCountInt := nsu_add (cacheAddCountInt c4) 1\<rparr>,
                                      subError = None, subError)))))
      | _ \<Rightarrow> Inr (c, False, Some LRUErrorInternal))"

definition lru_removeObjectForKey ::
    "('k, 'r) lru \<Rightarrow> 'k option \<Rightarrow> objc_exception + (('k, 'r) lru \<times> bool \<times> lru_error option)" where
  "lru_removeObjectForKey c key =
     (case key of
        None \<Rightarrow> Inr (c, False, Some LRUErrorInternal)
      | Some k \<Rightarrow>
         (case dict_get (keySignatureMap c) k of
            None \<Rightarrow> Inr (c, False, Some LRUErrorInternal)
          | Some s \<Rightarrow>
             (case removeObjectForKeyImpl (c\<lparr>keySignatureMap := dict_del k (keySignatureMap c)\<rparr>) (Some s) of
                Inl x \<Rightarrow> Inl x
              | Inr (c1, subError) \<Rightarrow>
                  Inr (c1\<lparr>cacheRemoveCountInt := nsu_add (cacheRemoveCountInt c1) 1\<rparr>,
                       subError = None, subError))))"

definition lru_objectForKey ::
    "('k, 'r) lru \<Rightarrow> 'k option \<Rightarrow>
       objc_exception + (('k, 'r) lru \<times> 'r option \<times> lru_error option)" where
  "lru_objectForKey c key =
     (case key of
        None \<Rightarrow> Inr (c, None, Some LRUErrorThrottleCacheInvalidSignature)
      | Some k \<Rightarrow>
         (case dict_get (keySignatureMap c) k of
            None \<Rightarrow> Inr (c, None, Some LRUErrorThrottleCacheNoRecord)
          | Some s \<Rightarrow>
             (case objectForKeyImpl c (Some s) of
                Inl x \<Rightarrow> Inl x
              | Inr (c1, cacheRecord, subError) \<Rightarrow>
                  Inr (c1, (if subError = None then cacheRecord else None), subError))))"

text \<open>
  The walk from the dummy head. It would not return on a cyclic list and raises on a broken link
  or a nil record, so its value is an option of a sum.
\<close>

partial_function (option) lru_walk ::
    "(string, 'r lru_node) dict \<Rightarrow> string \<Rightarrow> 'r list \<Rightarrow> (objc_exception + 'r list) option" where
  "lru_walk d sig res =
     (if sig = TAIL_SIGNATURE then Some (Inr (rev res))
      else (case dict_get d sig of
              None \<Rightarrow> Some (Inl NSInvalidArgumentException)
            | Some node \<Rightarrow>
               (case (nextSignature node, nodeRecord node) of
                  (Some next, Some r) \<Rightarrow> lru_walk d next (r # res)
                | _ \<Rightarrow> Some (Inl NSInvalidArgumentException))))"

definition enumerateAndReturnAllObjects ::
    "('k, 'r) lru \<Rightarrow> (objc_exception + 'r list option) option" where
  "enumerateAndReturnAllObjects c =
     (case Option.bind (dict_get (container c) HEAD_SIGNATURE) nextSignature of
        None \<Rightarrow> Some (Inl NSInvalidArgumentException)
      | Some first \<Rightarrow>
         (if first = TAIL_SIGNATURE then Some (Inr None)
          else map_option (map_sum id Some) (lru_walk (container c) first [])))"

fun removeAllKeys ::
    "('k, 'r) lru \<Rightarrow> 'k list \<Rightarrow> lru_error option \<Rightarrow>
       objc_exception + (('k, 'r) lru \<times> lru_error option)" where
  "removeAllKeys c [] subError = Inr (c, subError)"
| "removeAllKeys c (k # ks) subError =
     (let so = dict_get (keySignatureMap c) k
      in case removeObjectForKeyImpl (c\<lparr>keySignatureMap := dict_del k (keySignatureMap c)\<rparr>) so of
           Inl x \<Rightarrow> Inl x
         | Inr (c1, err) \<Rightarrow> removeAllKeys c1 ks (case err of None \<Rightarrow> subError | Some e \<Rightarrow> Some e))"

definition lru_removeAllObjects ::
    "('k, 'r) lru \<Rightarrow> objc_exception + (('k, 'r) lru \<times> bool \<times> lru_error option)" where
  "lru_removeAllObjects c =
     (let objects = dict_keys (keySignatureMap c);
          e0 = (if objects = [] then Some LRUErrorInternal else None)
      in case removeAllKeys c objects e0 of
           Inl x \<Rightarrow> Inl x
         | Inr (c1, subError) \<Rightarrow>
             Inr (c1\<lparr>cacheUpdateCountInt := 0, cacheEvictionCountInt := 0,
                     cacheAddCountInt := 0, cacheRemoveCountInt := 0\<rparr>,
                  subError = None, subError))"

section \<open>The doubly linked list as a sequence of nodes\<close>

text \<open>
  \<open>linked m p xs n\<close>: in the dictionary \<open>m\<close> the signatures of \<open>xs\<close> form a segment of the list,
  with the neighbours \<open>p\<close> before it and \<open>n\<close> after it, and carry the given records.
\<close>

fun hd_or :: "string option \<Rightarrow> (string \<times> 'r) list \<Rightarrow> string option" where
  "hd_or n [] = n"
| "hd_or n ((s, r) # xs) = Some s"

fun last_or :: "string option \<Rightarrow> (string \<times> 'r) list \<Rightarrow> string option" where
  "last_or p [] = p"
| "last_or p ((s, r) # xs) = last_or (Some s) xs"

fun linked :: "(string \<rightharpoonup> 'r lru_node) \<Rightarrow> string option \<Rightarrow> (string \<times> 'r option) list \<Rightarrow>
    string option \<Rightarrow> bool" where
  "linked m p [] n = True"
| "linked m p ((s, r) # xs) n =
     (m s = Some \<lparr>signature = s, prevSignature = p, nextSignature = hd_or n xs, nodeRecord = r\<rparr> \<and>
      linked m (Some s) xs n)"

definition chain :: "(string, 'r lru_node) dict \<Rightarrow> (string \<times> 'r option) list \<Rightarrow> bool" where
  "chain d full \<longleftrightarrow> distinct (dict_keys d) \<and> distinct (map fst full) \<and>
     linked (dict_get d) None full None \<and> dom (dict_get d) = set (map fst full)"

lemma hd_or_append: "hd_or n (xs @ ys) = hd_or (hd_or n ys) xs"
  by (cases xs) auto

lemma last_or_append [simp]: "last_or p (xs @ ys) = last_or (last_or p xs) ys"
  by (induction xs arbitrary: p) auto

lemma linked_append [simp]:
  "linked m p (xs @ ys) n \<longleftrightarrow> linked m p xs (hd_or n ys) \<and> linked m (last_or p xs) ys n"
  by (induction xs arbitrary: p) (auto simp: hd_or_append)

lemma linked_frame:
  "(\<And>s. s \<in> set (map fst xs) \<Longrightarrow> m' s = m s) \<Longrightarrow> linked m' p xs n = linked m p xs n"
  by (induction xs arbitrary: p) auto

lemma linked_upd [simp]: "s \<notin> set (map fst xs) \<Longrightarrow> linked (m(s := v)) p xs n = linked m p xs n"
  by (rule linked_frame) auto

text \<open>The two list surgeries, on the bare map.\<close>

lemma linked_remove:
  assumes "linked m None ((xs @ [(a, ra)]) @ (s, r) # (b, rb) # ys) None"
    and "distinct (map fst ((xs @ [(a, ra)]) @ (s, r) # (b, rb) # ys))"
  shows "linked (m(a \<mapsto> \<lparr>signature = a, prevSignature = last_or None xs, nextSignature = Some b, nodeRecord = ra\<rparr>,
                   b \<mapsto> \<lparr>signature = b, prevSignature = Some a, nextSignature = hd_or None ys, nodeRecord = rb\<rparr>,
                   s := None))
           None ((xs @ [(a, ra)]) @ (b, rb) # ys) None"
  using assms by auto

lemma linked_add_front:
  assumes "linked m None ((h, None) # (b, rb) # ys) None"
    and "distinct (map fst ((h, None) # (b, rb) # ys))"
    and "s \<noteq> h" and "s \<notin> set (map fst ((b, rb) # ys))"
  shows "linked (m(b \<mapsto> \<lparr>signature = b, prevSignature = Some s, nextSignature = hd_or None ys, nodeRecord = rb\<rparr>,
                   s \<mapsto> \<lparr>signature = s, prevSignature = Some h, nextSignature = Some b, nodeRecord = r\<rparr>,
                   h \<mapsto> \<lparr>signature = h, prevSignature = None, nextSignature = Some s, nodeRecord = None\<rparr>))
           None ((h, None) # (s, r) # (b, rb) # ys) None"
  using assms by auto

lemma chainI:
  "distinct (dict_keys d) \<Longrightarrow> distinct (map fst full) \<Longrightarrow> dict_get d = m \<Longrightarrow>
   linked m None full None \<Longrightarrow> dom m = set (map fst full) \<Longrightarrow> chain d full"
  by (simp add: chain_def)

lemma removeImpl_chain:
  assumes ch: "chain (container c) ((xs @ [(a, ra)]) @ (s, r) # (b, rb) # ys)"
  obtains d where "removeObjectForKeyImpl c (Some s) = Inr (c\<lparr>container := d\<rparr>, None)"
    and "chain d ((xs @ [(a, ra)]) @ (b, rb) # ys)"
proof -
  let ?m = "dict_get (container c)"
  let ?na = "\<lparr>signature = a, prevSignature = last_or None xs, nextSignature = Some b, nodeRecord = ra\<rparr>"
  let ?nb = "\<lparr>signature = b, prevSignature = Some a, nextSignature = hd_or None ys, nodeRecord = rb\<rparr>"
  let ?d = "dict_del s (dict_put b ?nb (dict_put a ?na (container c)))"
  have dist: "distinct (dict_keys (container c))" and lk: "linked ?m None ((xs @ [(a, ra)]) @ (s, r) # (b, rb) # ys) None"
    and dfull: "distinct (map fst ((xs @ [(a, ra)]) @ (s, r) # (b, rb) # ys))"
    and dm: "dom ?m = set (map fst ((xs @ [(a, ra)]) @ (s, r) # (b, rb) # ys))"
    using ch by (auto simp only: chain_def)
  have links: "?m s = Some \<lparr>signature = s, prevSignature = Some a, nextSignature = Some b, nodeRecord = r\<rparr>"
    "?m a = Some \<lparr>signature = a, prevSignature = last_or None xs, nextSignature = Some s, nodeRecord = ra\<rparr>"
    "?m b = Some \<lparr>signature = b, prevSignature = Some s, nextSignature = hd_or None ys, nodeRecord = rb\<rparr>"
    using lk by (auto simp only: linked_append linked.simps hd_or.simps last_or_append last_or.simps append.simps)
  have "removeObjectForKeyImpl c (Some s) = Inr (c\<lparr>container := ?d\<rparr>, None)"
    by (simp add: removeObjectForKeyImpl_def nodeFor_def links Let_def)
  moreover have "chain ?d ((xs @ [(a, ra)]) @ (b, rb) # ys)"
  proof (rule chainI)
    show "distinct (dict_keys ?d)" using dist by (intro distinct_dict_del distinct_dict_put)
    show "dict_get ?d = ?m(a \<mapsto> ?na, b \<mapsto> ?nb, s := None)" by (simp only: dict_get_put dict_get_del)
    show "linked (?m(a \<mapsto> ?na, b \<mapsto> ?nb, s := None)) None ((xs @ [(a, ra)]) @ (b, rb) # ys) None"
      using lk dfull by (rule linked_remove)
    show "dom (?m(a \<mapsto> ?na, b \<mapsto> ?nb, s := None)) = set (map fst ((xs @ [(a, ra)]) @ (b, rb) # ys))"
      using dm dfull by auto
  qed (use dfull in auto)
  ultimately show ?thesis by (rule that)
qed

lemma addToFront_chain:
  assumes ch: "chain (container c) ((HEAD_SIGNATURE, None) # (b, rb) # ys)"
    and fresh: "signature node \<noteq> HEAD_SIGNATURE" "signature node \<notin> set (map fst ((b, rb) # ys))"
  obtains d where "addToFrontImpl c node = Inr (c\<lparr>container := d\<rparr>)"
    and "chain d ((HEAD_SIGNATURE, None) # (signature node, nodeRecord node) # (b, rb) # ys)"
proof -
  let ?m = "dict_get (container c)" and ?s = "signature node" and ?h = HEAD_SIGNATURE
  let ?nb = "\<lparr>signature = b, prevSignature = Some ?s, nextSignature = hd_or None ys, nodeRecord = rb\<rparr>"
  let ?ns = "\<lparr>signature = ?s, prevSignature = Some ?h, nextSignature = Some b, nodeRecord = nodeRecord node\<rparr>"
  let ?nh = "\<lparr>signature = ?h, prevSignature = None, nextSignature = Some ?s, nodeRecord = None\<rparr>"
  let ?d = "dict_put ?h ?nh (dict_put ?s ?ns (dict_put b ?nb (container c)))"
  let ?full = "(?h, None) # (?s, nodeRecord node) # (b, rb) # ys"
  have dist: "distinct (dict_keys (container c))" and lk: "linked ?m None ((?h, None) # (b, rb) # ys) None"
    and dfull: "distinct (map fst ((?h, None) # (b, rb) # ys))"
    and dm: "dom ?m = set (map fst ((?h, None) # (b, rb) # ys))"
    using ch by (auto simp only: chain_def)
  have links: "?m ?h = Some \<lparr>signature = ?h, prevSignature = None, nextSignature = Some b, nodeRecord = None\<rparr>"
    "?m b = Some \<lparr>signature = b, prevSignature = Some ?h, nextSignature = hd_or None ys, nodeRecord = rb\<rparr>"
    using lk by (auto simp only: linked.simps hd_or.simps)
  have "addToFrontImpl c node = Inr (c\<lparr>container := ?d\<rparr>)"
    by (cases node) (simp add: addToFrontImpl_def nodeFor_def links Let_def)
  moreover have "chain ?d ?full"
  proof (rule chainI)
    show "distinct (dict_keys ?d)" using dist by (intro distinct_dict_put)
    show "dict_get ?d = ?m(b \<mapsto> ?nb, ?s \<mapsto> ?ns, ?h \<mapsto> ?nh)" by (simp only: dict_get_put)
    show "linked (?m(b \<mapsto> ?nb, ?s \<mapsto> ?ns, ?h \<mapsto> ?nh)) None ?full None"
      using lk dfull fresh by (rule linked_add_front)
    show "dom (?m(b \<mapsto> ?nb, ?s \<mapsto> ?ns, ?h \<mapsto> ?nh)) = set (map fst ?full)"
      using dm by auto
  qed (use dfull fresh in auto)
  ultimately show ?thesis by (rule that)
qed

section \<open>What the cache promises\<close>

text \<open>
  The abstract cache: the entries from the most to the least recently used, and the keys whose
  entry was evicted. The signature of an evicted key stays in \<open>keySignatureMap\<close>, so the
  key is neither stored nor free: a lookup or a store under it fails until it is removed.
\<close>

record ('k, 'r) alru =
  live :: "('k \<times> 'r) list"
  dead :: "'k set"

definition touch :: "'k \<Rightarrow> ('k \<times> 'r) list \<Rightarrow> ('k \<times> 'r) list" where
  "touch k xs = (case map_of xs k of None \<Rightarrow> xs | Some r \<Rightarrow> (k, r) # dict_del k xs)"

definition alru_get :: "'k \<Rightarrow> ('k, 'r) alru \<Rightarrow> ('k, 'r) alru \<times> 'r option \<times> lru_error option" where
  "alru_get k a =
     (case map_of (live a) k of
        Some r \<Rightarrow> (a\<lparr>live := touch k (live a)\<rparr>, Some r, None)
      | None \<Rightarrow> (a, None, Some LRUErrorThrottleCacheNoRecord))"

definition alru_put :: "nat \<Rightarrow> 'k \<Rightarrow> 'r \<Rightarrow> ('k, 'r) alru \<Rightarrow> ('k, 'r) alru \<times> lru_error option" where
  "alru_put cap k r a =
     (if k \<in> fst ` set (live a) then (a\<lparr>live := touch k (live a)\<rparr>, None)
      else if k \<in> dead a then (a, Some LRUErrorThrottleCacheNoRecord)
      else if length (live a) \<ge> cap
        then (\<lparr>live = (k, r) # butlast (live a), dead = insert (fst (last (live a))) (dead a)\<rparr>, None)
      else (a\<lparr>live := (k, r) # live a\<rparr>, None))"

definition alru_del :: "'k \<Rightarrow> ('k, 'r) alru \<Rightarrow> ('k, 'r) alru \<times> lru_error option" where
  "alru_del k a =
     (if k \<in> fst ` set (live a) then (a\<lparr>live := dict_del k (live a)\<rparr>, None)
      else (a\<lparr>dead := dead a - {k}\<rparr>, Some LRUErrorInternal))"

text \<open>The node sequence of an abstract cache, given the signatures of its keys.\<close>

definition lru_nodes :: "('k, string) dict \<Rightarrow> ('k \<times> 'r) list \<Rightarrow> (string \<times> 'r option) list" where
  "lru_nodes ksm xs =
     (HEAD_SIGNATURE, None) # map (\<lambda>(k, r). (the (dict_get ksm k), Some r)) xs @ [(TAIL_SIGNATURE, None)]"

definition signatures_ok :: "('k, string) dict \<Rightarrow> bool" where
  "signatures_ok ksm \<longleftrightarrow> distinct (dict_keys ksm) \<and> inj_on (dict_get ksm) (dom (dict_get ksm)) \<and>
     (\<forall>k s. dict_get ksm k = Some s \<longrightarrow> length s = DEFAULT_SIGNATURE_LENGTH)"

definition lru_rel :: "('k, 'r) lru \<Rightarrow> ('k, 'r) alru \<Rightarrow> bool" where
  "lru_rel c a \<longleftrightarrow>
     distinct (map fst (live a)) \<and> signatures_ok (keySignatureMap c) \<and>
     fst ` set (live a) \<inter> dead a = {} \<and>
     fst ` set (live a) \<union> dead a = dom (dict_get (keySignatureMap c)) \<and>
     chain (container c) (lru_nodes (keySignatureMap c) (live a)) \<and>
     length (live a) + DEFAULT_CACHE_OFFSET_SIZE \<le> max (cacheSizeInt c) DEFAULT_CACHE_OFFSET_SIZE \<and>
     cacheSizeInt c < 2 ^ 64"

lemma lru_relI:
  assumes "distinct (map fst (live a))" and "signatures_ok (keySignatureMap c)"
    and "fst ` set (live a) \<inter> dead a = {}"
    and "fst ` set (live a) \<union> dead a = dom (dict_get (keySignatureMap c))"
    and "chain (container c) (lru_nodes (keySignatureMap c) (live a))"
    and "length (live a) + DEFAULT_CACHE_OFFSET_SIZE \<le> max (cacheSizeInt c) DEFAULT_CACHE_OFFSET_SIZE"
    and "cacheSizeInt c < 2 ^ 64"
  shows "lru_rel c a"
  unfolding lru_rel_def using assms by blast

lemma lru_relD:
  assumes "lru_rel c a"
  shows "distinct (map fst (live a))" and "signatures_ok (keySignatureMap c)"
    and "fst ` set (live a) \<inter> dead a = {}"
    and "fst ` set (live a) \<union> dead a = dom (dict_get (keySignatureMap c))"
    and "chain (container c) (lru_nodes (keySignatureMap c) (live a))"
    and "length (live a) + DEFAULT_CACHE_OFFSET_SIZE \<le> max (cacheSizeInt c) DEFAULT_CACHE_OFFSET_SIZE"
    and "cacheSizeInt c < 2 ^ 64"
  using assms by (simp_all only: lru_rel_def)

text \<open>The signature drawn for a new key differs from every signature handed out so far.\<close>

definition fresh_signature :: "('k, 'r) lru \<Rightarrow> (nat \<Rightarrow> nat) \<Rightarrow> bool" where
  "fresh_signature c rnd \<longleftrightarrow> generateRandomSignature rnd \<notin> snd ` set (keySignatureMap c)"

lemma length_generateRandomSignature [simp]:
  "length (generateRandomSignature rnd) = DEFAULT_SIGNATURE_LENGTH"
  by (simp add: generateRandomSignature_def)

lemma length_dummies: "length s = DEFAULT_SIGNATURE_LENGTH \<Longrightarrow> s \<noteq> HEAD_SIGNATURE \<and> s \<noteq> TAIL_SIGNATURE"
  by (auto simp: DEFAULT_SIGNATURE_LENGTH_def HEAD_SIGNATURE_def TAIL_SIGNATURE_def)

lemma HEAD_neq_TAIL [simp]: "HEAD_SIGNATURE \<noteq> TAIL_SIGNATURE" "TAIL_SIGNATURE \<noteq> HEAD_SIGNATURE"
  by (simp_all add: HEAD_SIGNATURE_def TAIL_SIGNATURE_def)

lemma lru_nodes_split:
  "lru_nodes ksm (xs @ (k, r) # ys) =
     ((HEAD_SIGNATURE, None) # map (\<lambda>(k, r). (the (dict_get ksm k), Some r)) xs) @
     (the (dict_get ksm k), Some r) # map (\<lambda>(k, r). (the (dict_get ksm k), Some r)) ys @ [(TAIL_SIGNATURE, None)]"
  by (simp add: lru_nodes_def)

lemma nonempty_snoc_pair: "xs \<noteq> [] \<Longrightarrow> \<exists>ys a b. xs = ys @ [(a, b)]"
  by (metis append_butlast_last_id prod.exhaust)

lemma nonempty_cons_pair: "xs \<noteq> [] \<Longrightarrow> \<exists>a b ys. xs = (a, b) # ys"
  by (metis list.exhaust prod.exhaust)

text \<open>Removal of one live entry, and insertion in front, on the related states.\<close>

lemma removeImpl_live:
  assumes ch: "chain (container c) (lru_nodes ksm (xs @ (k, r) # ys))"
  obtains d where "removeObjectForKeyImpl c (Some (the (dict_get ksm k))) = Inr (c\<lparr>container := d\<rparr>, None)"
    and "chain d (lru_nodes ksm (xs @ ys))"
proof -
  let ?f = "map (\<lambda>(k, r). (the (dict_get ksm k), Some r))"
  obtain us a ra where us: "(HEAD_SIGNATURE, None) # ?f xs = us @ [(a, ra)]"
    using nonempty_snoc_pair [of "(HEAD_SIGNATURE, None) # ?f xs"] by auto
  obtain b rb vs where vs: "?f ys @ [(TAIL_SIGNATURE, None)] = (b, rb) # vs"
    using nonempty_cons_pair [of "?f ys @ [(TAIL_SIGNATURE, None)]"] by auto
  have "chain (container c) ((us @ [(a, ra)]) @ (the (dict_get ksm k), Some r) # (b, rb) # vs)"
    using ch by (simp only: lru_nodes_split us vs)
  then obtain d where "removeObjectForKeyImpl c (Some (the (dict_get ksm k))) = Inr (c\<lparr>container := d\<rparr>, None)"
    and "chain d ((us @ [(a, ra)]) @ (b, rb) # vs)" by (rule removeImpl_chain)
  moreover have "(us @ [(a, ra)]) @ (b, rb) # vs = lru_nodes ksm (xs @ ys)"
    by (simp only: us [symmetric] vs [symmetric]) (simp add: lru_nodes_def)
  ultimately show ?thesis using that by simp
qed

lemma addToFront_live:
  assumes ch: "chain (container c) (lru_nodes ksm xs)"
    and sig: "length (signature node) = DEFAULT_SIGNATURE_LENGTH"
    and fresh: "signature node \<notin> (\<lambda>(k, r). the (dict_get ksm k)) ` set xs"
  obtains d where "addToFrontImpl c node = Inr (c\<lparr>container := d\<rparr>)"
    and "chain d ((HEAD_SIGNATURE, None) # (signature node, nodeRecord node) # tl (lru_nodes ksm xs))"
proof -
  obtain b rb vs where vs: "tl (lru_nodes ksm xs) = (b, rb) # vs"
    using nonempty_cons_pair [of "tl (lru_nodes ksm xs)"] by (auto simp: lru_nodes_def)
  then have full: "lru_nodes ksm xs = (HEAD_SIGNATURE, None) # (b, rb) # vs" by (simp add: lru_nodes_def)
  have tl: "tl (lru_nodes ksm xs) = map (\<lambda>(k, r). (the (dict_get ksm k), Some r)) xs @ [(TAIL_SIGNATURE, None)]"
    by (simp add: lru_nodes_def)
  have "signature node \<notin> set (map fst (tl (lru_nodes ksm xs)))"
    using fresh length_dummies [OF sig] unfolding tl by auto
  then have new: "signature node \<notin> set (map fst ((b, rb) # vs))" unfolding vs .
  from ch have "chain (container c) ((HEAD_SIGNATURE, None) # (b, rb) # vs)" by (simp only: full)
  from addToFront_chain [OF this _ new] length_dummies [OF sig] obtain d
    where "addToFrontImpl c node = Inr (c\<lparr>container := d\<rparr>)"
      and "chain d ((HEAD_SIGNATURE, None) # (signature node, nodeRecord node) # (b, rb) # vs)" by blast
  then show ?thesis using that by (simp only: vs)
qed

lemma linked_get:
  "linked m p xs n \<Longrightarrow> (s, r) \<in> set xs \<Longrightarrow> \<exists>node. m s = Some node \<and> signature node = s \<and> nodeRecord node = r"
  by (induction xs arbitrary: p) auto

lemma touch_split:
  assumes "distinct (map fst (xs @ (k, r) # ys))"
  shows "touch k (xs @ (k, r) # ys) = (k, r) # xs @ ys" and "dict_del k (xs @ (k, r) # ys) = xs @ ys"
proof -
  have del: "dict_del k zs = zs" if "k \<notin> fst ` set zs" for zs :: "('a \<times> 'b) list"
    using that by (induction zs) auto
  have "dict_del k (xs @ (k, r) # ys) = dict_del k xs @ dict_del k ((k, r) # ys)"
    by (simp add: AList.delete_eq)
  then show 2: "dict_del k (xs @ (k, r) # ys) = xs @ ys" using assms by (simp add: del)
  have "map_of xs k = None" using assms by (simp add: map_of_eq_None_iff)
  then have "map_of (xs @ (k, r) # ys) k = Some r" by (simp add: map_add_def)
  then show "touch k (xs @ (k, r) # ys) = (k, r) # xs @ ys" by (simp only: touch_def 2 option.case)
qed

lemma lru_nodes_cong:
  "(\<And>k. k \<in> fst ` set xs \<Longrightarrow> dict_get ksm' k = dict_get ksm k) \<Longrightarrow> lru_nodes ksm' xs = lru_nodes ksm xs"
  by (force simp: lru_nodes_def)

lemma signature_not_elsewhere:
  assumes "signatures_ok ksm" and "k \<in> dom (dict_get ksm)" and "fst ` set xs \<subseteq> dom (dict_get ksm)"
    and "k \<notin> fst ` set xs"
  shows "the (dict_get ksm k) \<notin> (\<lambda>(k, r). the (dict_get ksm k)) ` set xs"
proof
  assume "the (dict_get ksm k) \<in> (\<lambda>(k, r). the (dict_get ksm k)) ` set xs"
  then obtain k' r' where in': "(k', r') \<in> set xs" and eq: "the (dict_get ksm k) = the (dict_get ksm k')"
    by auto
  have "k' \<in> dom (dict_get ksm)" using in' assms(3) by force
  with assms(2) eq have "dict_get ksm k = dict_get ksm k'" by auto
  then have "k = k'" using assms(1,2) \<open>k' \<in> dom (dict_get ksm)\<close>
    unfolding signatures_ok_def by (metis inj_onD)
  with in' assms(4) show False by force
qed

lemma lru_rel_live_split:
  assumes "lru_rel c a" and "map_of (live a) k = Some r"
  obtains xs ys where "live a = xs @ (k, r) # ys" and "dict_get (keySignatureMap c) k \<noteq> None"
proof -
  have "(k, r) \<in> set (live a)" using assms(2) by (rule map_of_SomeD)
  then obtain xs ys where "live a = xs @ (k, r) # ys" by (meson split_list)
  moreover have "k \<in> fst ` set (live a)" using \<open>(k, r) \<in> set (live a)\<close> by force
  then have "k \<in> dom (dict_get (keySignatureMap c))" using assms(1) unfolding lru_rel_def by blast
  ultimately show ?thesis using that by (auto simp only: dom_def mem_Collect_eq)
qed

lemma objectForKeyImpl_live:
  assumes rel: "lru_rel c a" and get: "map_of (live a) k = Some r"
    and sig: "dict_get (keySignatureMap c) k = Some s"
  obtains c' where "objectForKeyImpl c (Some s) = Inr (c', Some r, None)"
    and "lru_rel c' (a\<lparr>live := touch k (live a)\<rparr>)"
    and "keySignatureMap c' = keySignatureMap c" and "cacheSizeInt c' = cacheSizeInt c"
    and "cacheAddCountInt c' = cacheAddCountInt c" and "cacheEvictionCountInt c' = cacheEvictionCountInt c"
proof -
  let ?ksm = "keySignatureMap c"
  obtain xs ys where live: "live a = xs @ (k, r) # ys" by (rule lru_rel_live_split [OF rel get])
  have dist: "distinct (map fst (xs @ (k, r) # ys))" using rel by (simp add: lru_rel_def live)
  have ch: "chain (container c) (lru_nodes ?ksm (xs @ (k, r) # ys))" using rel by (simp add: lru_rel_def live)
  have sok: "signatures_ok ?ksm" using rel by (simp add: lru_rel_def)
  have dom: "fst ` set (xs @ ys) \<subseteq> dom (dict_get ?ksm)" using rel by (auto simp: lru_rel_def live)
  have the_s: "the (dict_get ?ksm k) = s" using sig by simp
  have "(s, Some r) \<in> set (lru_nodes ?ksm (xs @ (k, r) # ys))" by (simp add: lru_nodes_def the_s)
  then obtain node where node: "dict_get (container c) s = Some node" "signature node = s" "nodeRecord node = Some r"
    using ch linked_get unfolding chain_def by blast
  let ?c1 = "c\<lparr>cacheUpdateCountInt := nsu_add (cacheUpdateCountInt c) 1\<rparr>"
  have "chain (container ?c1) (lru_nodes ?ksm (xs @ (k, r) # ys))" using ch by simp
  then obtain d1 where rem: "removeObjectForKeyImpl ?c1 (Some s) = Inr (?c1\<lparr>container := d1\<rparr>, None)"
    and ch1: "chain d1 (lru_nodes ?ksm (xs @ ys))" by (rule removeImpl_live) (simp only: the_s)
  have len: "length (signature node) = DEFAULT_SIGNATURE_LENGTH"
    using sok sig node(2) by (auto simp only: signatures_ok_def)
  have fresh: "signature node \<notin> (\<lambda>(k, r). the (dict_get ?ksm k)) ` set (xs @ ys)"
  proof -
    have "k \<in> dom (dict_get ?ksm)" using sig by (rule domI)
    moreover have "k \<notin> fst ` set (xs @ ys)" using dist by auto
    ultimately show ?thesis
      using signature_not_elsewhere [OF sok _ dom, of k] unfolding the_s node(2) by blast
  qed
  have ch1': "chain (container (?c1\<lparr>container := d1\<rparr>)) (lru_nodes ?ksm (xs @ ys))" using ch1 by simp
  obtain d2 where add: "addToFrontImpl (?c1\<lparr>container := d1\<rparr>) node = Inr (?c1\<lparr>container := d1\<rparr>\<lparr>container := d2\<rparr>)"
    and ch2: "chain d2 ((HEAD_SIGNATURE, None) # (signature node, nodeRecord node) # tl (lru_nodes ?ksm (xs @ ys)))"
    by (rule addToFront_live [OF ch1' len fresh])
  let ?c' = "?c1\<lparr>container := d2\<rparr>"
  have "objectForKeyImpl c (Some s) = Inr (?c', Some r, None)"
    using rem add by (simp add: objectForKeyImpl_def node Let_def)
  moreover have "(HEAD_SIGNATURE, None) # (signature node, nodeRecord node) # tl (lru_nodes ?ksm (xs @ ys)) =
      lru_nodes ?ksm (touch k (live a))"
    by (simp add: live touch_split(1) [OF dist] lru_nodes_def node the_s)
  with ch2 have "lru_rel ?c' (a\<lparr>live := touch k (live a)\<rparr>)"
    using rel by (auto simp: lru_rel_def live touch_split(1) [OF dist])
  ultimately show ?thesis using that by simp
qed

section \<open>Each operation refines its specification\<close>

lemma lru_rel_init: "lru_rel (initWithCacheSize n) \<lparr>live = [], dead = {}\<rparr>"
proof -
  have "chain (container (initWithCacheSize n)) (lru_nodes [] [])"
    by (auto simp: chain_def initWithCacheSize_def lru_nodes_def Let_def split: if_splits)
  then show ?thesis
    by (simp add: lru_rel_def signatures_ok_def initWithCacheSize_def Let_def nsu_add_def)
qed

lemma lru_rel_length:
  assumes "lru_rel c a"
  shows "length (dict_keys (container c)) = length (live a) + DEFAULT_CACHE_OFFSET_SIZE"
proof -
  let ?full = "lru_nodes (keySignatureMap c) (live a)"
  have ch: "chain (container c) ?full" using assms by (simp add: lru_rel_def)
  then have "length (container c) = card (dom (dict_get (container c)))"
    by (simp add: chain_def length_dict)
  also have "\<dots> = length (map fst ?full)" using ch unfolding chain_def by (metis distinct_card)
  also have "\<dots> = length (live a) + DEFAULT_CACHE_OFFSET_SIZE"
    by (simp add: lru_nodes_def DEFAULT_CACHE_OFFSET_SIZE_def)
  finally show ?thesis by simp
qed

lemma evict_last:
  assumes rel: "lru_rel c a" and live: "live a = l @ [(k0, r0)]"
  obtains d where "removeObjectForKeyImpl c (Option.bind (dict_get (container c) TAIL_SIGNATURE) prevSignature) =
      Inr (c\<lparr>container := d\<rparr>, None)"
    and "lru_rel (c\<lparr>container := d\<rparr>) \<lparr>live = l, dead = insert k0 (dead a)\<rparr>"
proof -
  let ?ksm = "keySignatureMap c"
  have ch: "chain (container c) (lru_nodes ?ksm (l @ (k0, r0) # []))" using rel by (simp add: lru_rel_def live)
  then have "linked (dict_get (container c)) None (lru_nodes ?ksm (l @ (k0, r0) # [])) None"
    by (simp add: chain_def)
  then have tail: "Option.bind (dict_get (container c) TAIL_SIGNATURE) prevSignature = Some (the (dict_get ?ksm k0))"
    by (simp add: lru_nodes_split)
  obtain d where rem: "removeObjectForKeyImpl c (Some (the (dict_get ?ksm k0))) = Inr (c\<lparr>container := d\<rparr>, None)"
    and ch': "chain d (lru_nodes ?ksm (l @ []))" by (rule removeImpl_live [OF ch])
  have "lru_rel (c\<lparr>container := d\<rparr>) \<lparr>live = l, dead = insert k0 (dead a)\<rparr>"
    using rel ch' by (auto simp: lru_rel_def live)
  with rem show ?thesis using that by (simp only: tail)
qed

lemma add_new_entry:
  assumes rel: "lru_rel c a" and new: "k \<notin> fst ` set (live a)" "k \<notin> dead a"
    and fresh: "fresh_signature c rnd" and room: "length (live a) + DEFAULT_CACHE_OFFSET_SIZE < cacheSizeInt c"
  obtains c3 d where "mapKeyToSignature c k rnd = (c3, generateRandomSignature rnd)"
    and "addToFrontImpl c3 \<lparr>signature = generateRandomSignature rnd, prevSignature = None,
           nextSignature = None, nodeRecord = Some r\<rparr> = Inr (c3\<lparr>container := d\<rparr>)"
    and "lru_rel (c3\<lparr>container := d\<rparr>) (a\<lparr>live := (k, r) # live a\<rparr>)" and "cacheSizeInt c3 = cacheSizeInt c"
proof -
  let ?ksm = "keySignatureMap c" and ?sig = "generateRandomSignature rnd"
  let ?ksm' = "dict_put k ?sig ?ksm"
  let ?c3 = "c\<lparr>keySignatureMap := ?ksm'\<rparr>"
  have dom: "fst ` set (live a) \<union> dead a = dom (dict_get ?ksm)" and sok: "signatures_ok ?ksm"
    and ch: "chain (container c) (lru_nodes ?ksm (live a))"
    using rel by (simp_all only: lru_rel_def)
  have kdom: "k \<notin> dom (dict_get ?ksm)" using new dom by blast
  have notin: "dict_get ?ksm k' \<noteq> Some ?sig" for k'
    using fresh unfolding fresh_signature_def by (metis imageI map_of_SomeD snd_conv)
  have same: "lru_nodes ?ksm' (live a) = lru_nodes ?ksm (live a)"
    using new(1) by (intro lru_nodes_cong) (auto simp only: dict_get_put fun_upd_apply split: if_splits)
  have sok': "signatures_ok ?ksm'"
    unfolding signatures_ok_def dict_get_put
  proof (intro conjI)
    show "distinct (dict_keys ?ksm')" using sok by (simp add: signatures_ok_def distinct_dict_put)
    show "inj_on ((dict_get ?ksm)(k \<mapsto> ?sig)) (dom ((dict_get ?ksm)(k \<mapsto> ?sig)))"
    proof (rule inj_onI)
      fix x y assume x: "x \<in> dom ((dict_get ?ksm)(k \<mapsto> ?sig))" and y: "y \<in> dom ((dict_get ?ksm)(k \<mapsto> ?sig))"
        and eq: "((dict_get ?ksm)(k \<mapsto> ?sig)) x = ((dict_get ?ksm)(k \<mapsto> ?sig)) y"
      show "x = y"
      proof (cases "x = k \<or> y = k")
        case True
        then show ?thesis using eq notin [of x] notin [of y] by (auto split: if_splits)
      next
        case False
        with x y eq sok show ?thesis unfolding signatures_ok_def inj_on_def by auto
      qed
    qed
    show "\<forall>k' s. ((dict_get ?ksm)(k \<mapsto> ?sig)) k' = Some s \<longrightarrow> length s = DEFAULT_SIGNATURE_LENGTH"
      using sok unfolding signatures_ok_def by auto
  qed
  have "?sig \<notin> (\<lambda>(k, r). the (dict_get ?ksm' k)) ` set (live a)"
  proof
    assume "?sig \<in> (\<lambda>(k, r). the (dict_get ?ksm' k)) ` set (live a)"
    then obtain k' r' where "(k', r') \<in> set (live a)" "?sig = the (dict_get ?ksm' k')" by auto
    moreover from this have "k' \<noteq> k" and "k' \<in> dom (dict_get ?ksm)" using new(1) dom by (force, force)
    ultimately show False using notin [of k'] by (auto simp only: dict_get_put fun_upd_apply dom_def mem_Collect_eq if_False option.sel)
  qed
  with addToFront_live [of ?c3 ?ksm' "live a" "\<lparr>signature = ?sig, prevSignature = None,
           nextSignature = None, nodeRecord = Some r\<rparr>"] ch same obtain d
    where add: "addToFrontImpl ?c3 \<lparr>signature = ?sig, prevSignature = None,
           nextSignature = None, nodeRecord = Some r\<rparr> = Inr (?c3\<lparr>container := d\<rparr>)"
      and ch': "chain d ((HEAD_SIGNATURE, None) # (?sig, Some r) # tl (lru_nodes ?ksm' (live a)))"
    by auto
  have "(HEAD_SIGNATURE, None) # (?sig, Some r) # tl (lru_nodes ?ksm' (live a)) = lru_nodes ?ksm' ((k, r) # live a)"
    by (simp add: lru_nodes_def)
  with ch' have "chain d (lru_nodes ?ksm' ((k, r) # live a))" by simp
  moreover have "fst ` set ((k, r) # live a) \<union> dead a = dom (dict_get ?ksm')"
    using dom by (auto simp only: dict_get_put dom_fun_upd list.set image_insert fst_conv option.distinct if_False)
  ultimately have "lru_rel (?c3\<lparr>container := d\<rparr>) (a\<lparr>live := (k, r) # live a\<rparr>)"
    using rel new room sok' by (auto simp: lru_rel_def simp del: dict_get_put)
  with add show ?thesis using that [of ?c3 d] by (simp add: mapKeyToSignature_def Let_def)
qed

text \<open>The signature of a key without a live entry is not in the container.\<close>

lemma lru_rel_dead_signature:
  assumes rel: "lru_rel c a" and sig: "dict_get (keySignatureMap c) k = Some s"
    and notlive: "k \<notin> fst ` set (live a)"
  shows "dict_get (container c) s = None"
proof -
  let ?ksm = "keySignatureMap c"
  have sok: "signatures_ok ?ksm" and sub: "fst ` set (live a) \<subseteq> dom (dict_get ?ksm)"
    and ch: "chain (container c) (lru_nodes ?ksm (live a))"
    using rel by (auto simp: lru_rel_def)
  have "k \<in> dom (dict_get ?ksm)" using sig by (rule domI)
  from signature_not_elsewhere [OF sok this sub notlive]
  have "s \<notin> (\<lambda>(k, r). the (dict_get ?ksm k)) ` set (live a)" by (simp only: sig option.sel) simp
  moreover have "length s = DEFAULT_SIGNATURE_LENGTH" using sok sig by (auto simp: signatures_ok_def)
  ultimately have "s \<notin> set (map fst (lru_nodes ?ksm (live a)))"
    using length_dummies [of s] by (auto simp: lru_nodes_def image_iff)
  then show ?thesis using ch unfolding chain_def by blast
qed

lemma dom_dict_del: "dom (dict_get (dict_del k d)) = dom (dict_get d) - {k}"
  by (simp only: dict_get_del dom_fun_upd) simp

lemma signatures_ok_del:
  assumes "signatures_ok ksm"
  shows "signatures_ok (dict_del k ksm)"
proof -
  let ?m = "dict_get ksm"
  have inj: "inj_on ?m (dom ?m)" and dist: "distinct (dict_keys ksm)"
    and len: "\<And>k s. ?m k = Some s \<Longrightarrow> length s = DEFAULT_SIGNATURE_LENGTH"
    using assms by (simp_all only: signatures_ok_def)
  have "inj_on (?m(k := None)) (dom ?m - {k})"
    by (rule inj_onI) (use inj in \<open>auto simp only: fun_upd_apply inj_on_def split: if_splits\<close>)
  moreover have "length s = DEFAULT_SIGNATURE_LENGTH" if "(?m(k := None)) k' = Some s" for k' s
    using that len [of k' s] by (simp split: if_splits)
  ultimately show ?thesis
    unfolding signatures_ok_def dom_dict_del using dist distinct_dict_del
    by (simp only: dict_get_del) blast
qed

lemma lru_get_refines:
  assumes rel: "lru_rel c a"
  obtains c' where "lru_objectForKey c (Some k) =
      Inr (c', fst (snd (alru_get k a)), snd (snd (alru_get k a)))"
    and "lru_rel c' (fst (alru_get k a))" and "cacheSizeInt c' = cacheSizeInt c"
    and "keySignatureMap c' = keySignatureMap c"
proof (cases "dict_get (keySignatureMap c) k")
  case None
  with rel have "k \<notin> fst ` set (live a)" by (auto simp: lru_rel_def)
  then have "map_of (live a) k = None" by (simp add: map_of_eq_None_iff)
  with None rel show ?thesis
    by (intro that [of c]) (simp_all add: lru_objectForKey_def alru_get_def)
next
  case (Some s)
  show ?thesis
  proof (cases "map_of (live a) k")
    case None
    then have notlive: "k \<notin> fst ` set (live a)" by (simp add: map_of_eq_None_iff)
    have "dict_get (container c) s = None"
      using rel Some notlive by (rule lru_rel_dead_signature)
    with Some None rel show ?thesis
      by (intro that [of c]) (simp_all add: lru_objectForKey_def objectForKeyImpl_def alru_get_def)
  next
    case (Some r)
    from objectForKeyImpl_live [OF rel Some \<open>dict_get (keySignatureMap c) k = Some s\<close>] obtain c' where
      "objectForKeyImpl c (Some s) = Inr (c', Some r, None)" "lru_rel c' (a\<lparr>live := touch k (live a)\<rparr>)"
      "keySignatureMap c' = keySignatureMap c" "cacheSizeInt c' = cacheSizeInt c" by blast
    with Some \<open>dict_get (keySignatureMap c) k = Some s\<close> show ?thesis
      by (intro that [of c']) (simp_all add: lru_objectForKey_def alru_get_def)
  qed
qed

lemma lru_put_refines:
  fixes k :: 'k and r :: 'r
  assumes rel: "lru_rel c a" and fresh: "fresh_signature c rnd"
    and size: "DEFAULT_CACHE_OFFSET_SIZE < cacheSizeInt c"
  defines "spec \<equiv> alru_put (cacheSizeInt c - DEFAULT_CACHE_OFFSET_SIZE) k r a"
  obtains c' where "lru_setObject c (Some r) (Some k) rnd = Inr (c', snd spec = None, snd spec)"
    and "lru_rel c' (fst spec)" and "cacheSizeInt c' = cacheSizeInt c"
proof (cases "dict_get (keySignatureMap c) k")
  case (Some s)
  show ?thesis
  proof (cases "map_of (live a) k")
    case None
    then have notlive: "k \<notin> fst ` set (live a)" by (simp add: map_of_eq_None_iff)
    moreover have "k \<in> dead a" using rel Some notlive by (auto simp: lru_rel_def)
    moreover have "dict_get (container c) s = None"
      using rel Some notlive by (rule lru_rel_dead_signature)
    ultimately show ?thesis using rel Some size
      by (intro that [of c]) (simp_all add: lru_setObject_def objectForKeyImpl_def spec_def alru_put_def)
  next
    case (Some r0)
    then have islive: "k \<in> fst ` set (live a)" by (force dest: map_of_SomeD)
    from objectForKeyImpl_live [OF rel Some \<open>dict_get (keySignatureMap c) k = Some s\<close>] obtain c' where
      "objectForKeyImpl c (Some s) = Inr (c', Some r0, None)" "lru_rel c' (a\<lparr>live := touch k (live a)\<rparr>)"
      "cacheSizeInt c' = cacheSizeInt c" by blast
    with islive \<open>dict_get (keySignatureMap c) k = Some s\<close> size show ?thesis
      by (intro that [of c']) (simp_all add: lru_setObject_def spec_def alru_put_def)
  qed
next
  case None
  with rel have new: "k \<notin> fst ` set (live a)" "k \<notin> dead a" by (auto simp: lru_rel_def)
  note len = lru_rel_length [OF rel]
  show ?thesis
  proof (cases "length (dict_keys (container c)) \<ge> cacheSizeInt c")
    case False
    with len have room: "length (live a) + DEFAULT_CACHE_OFFSET_SIZE < cacheSizeInt c" by simp
    obtain c3 d where "mapKeyToSignature c k rnd = (c3, generateRandomSignature rnd)"
      "addToFrontImpl c3 \<lparr>signature = generateRandomSignature rnd, prevSignature = None,
           nextSignature = None, nodeRecord = Some r\<rparr> = Inr (c3\<lparr>container := d\<rparr>)"
      "lru_rel (c3\<lparr>container := d\<rparr>) (a\<lparr>live := (k, r) # live a\<rparr>)" "cacheSizeInt c3 = cacheSizeInt c"
      by (rule add_new_entry [OF rel new fresh room])
    with False None room size new show ?thesis
      by (intro that [of "c3\<lparr>container := d, cacheAddCountInt := nsu_add (cacheAddCountInt c3) 1\<rparr>"])
        (simp_all add: lru_setObject_def spec_def alru_put_def lru_rel_def)
  next
    case True
    with len size have "live a \<noteq> []" by auto
    then obtain l k0 r0 where live: "live a = l @ [(k0, r0)]" using nonempty_snoc_pair by blast
    let ?a1 = "\<lparr>live = l, dead = insert k0 (dead a)\<rparr>"
    obtain d where rem: "removeObjectForKeyImpl c (Option.bind (dict_get (container c) TAIL_SIGNATURE) prevSignature) =
        Inr (c\<lparr>container := d\<rparr>, None)" and rel1: "lru_rel (c\<lparr>container := d\<rparr>) ?a1"
      by (rule evict_last [OF rel live])
    let ?c2 = "c\<lparr>container := d, cacheEvictionCountInt := nsu_add (cacheEvictionCountInt c) 1\<rparr>"
    have rel2: "lru_rel ?c2 ?a1" using rel1 by (simp add: lru_rel_def)
    have new2: "k \<notin> fst ` set (live ?a1)" "k \<notin> dead ?a1" using new live by auto
    have fresh2: "fresh_signature ?c2 rnd" using fresh by (simp add: fresh_signature_def)
    have "length (live a) + DEFAULT_CACHE_OFFSET_SIZE \<le> cacheSizeInt c"
      using rel size by (simp add: lru_rel_def max_def split: if_splits)
    then have room2: "length (live ?a1) + DEFAULT_CACHE_OFFSET_SIZE < cacheSizeInt ?c2" by (simp add: live)
    obtain c3 d' where "mapKeyToSignature ?c2 k rnd = (c3, generateRandomSignature rnd)"
      "addToFrontImpl c3 \<lparr>signature = generateRandomSignature rnd, prevSignature = None,
           nextSignature = None, nodeRecord = Some r\<rparr> = Inr (c3\<lparr>container := d'\<rparr>)"
      "lru_rel (c3\<lparr>container := d'\<rparr>) (?a1\<lparr>live := (k, r) # live ?a1\<rparr>)" "cacheSizeInt c3 = cacheSizeInt ?c2"
      by (rule add_new_entry [OF rel2 new2 fresh2 room2])
    moreover have "length (live a) \<ge> cacheSizeInt c - DEFAULT_CACHE_OFFSET_SIZE" using True len by simp
    ultimately show ?thesis
      using True None size new live rem
      by (intro that [of "c3\<lparr>container := d', cacheAddCountInt := nsu_add (cacheAddCountInt c3) 1\<rparr>"])
        (simp_all add: lru_setObject_def spec_def alru_put_def lru_rel_def)
  qed
qed

lemma removeImpl_del:
  assumes rel: "lru_rel c a" and sig: "dict_get (keySignatureMap c) k = Some s"
  obtains c' where "removeObjectForKeyImpl (c\<lparr>keySignatureMap := dict_del k (keySignatureMap c)\<rparr>) (Some s) =
      Inr (c', snd (alru_del k a))"
    and "lru_rel c' (fst (alru_del k a))" and "cacheSizeInt c' = cacheSizeInt c"
    and "keySignatureMap c' = dict_del k (keySignatureMap c)"
proof -
  let ?ksm = "keySignatureMap c"
  let ?c1 = "c\<lparr>keySignatureMap := dict_del k ?ksm\<rparr>"
  have sok: "signatures_ok (dict_del k ?ksm)"
    using rel unfolding lru_rel_def by (auto intro: signatures_ok_del)
  show ?thesis
  proof (cases "k \<in> fst ` set (live a)")
    case False
    then have "dict_get (container c) s = None" using rel sig by (blast intro: lru_rel_dead_signature)
    then have "removeObjectForKeyImpl ?c1 (Some s) = Inr (?c1, Some LRUErrorInternal)"
      by (simp add: removeObjectForKeyImpl_def)
    moreover have "lru_nodes (dict_del k ?ksm) (live a) = lru_nodes ?ksm (live a)"
      using False by (intro lru_nodes_cong) (auto simp only: dict_get_del fun_upd_apply split: if_splits)
    then have "lru_rel ?c1 (a\<lparr>dead := dead a - {k}\<rparr>)"
      using lru_relD [OF rel] sok False by (intro lru_relI) (auto simp: dom_dict_del simp del: dict_get_del)
    ultimately show ?thesis using False by (intro that [of ?c1]) (simp_all add: alru_del_def)
  next
    case True
    then obtain r where get: "map_of (live a) k = Some r" by (metis map_of_eq_None_iff not_None_eq)
    obtain xs ys where live: "live a = xs @ (k, r) # ys" by (rule lru_rel_live_split [OF rel get])
    have dist: "distinct (map fst (xs @ (k, r) # ys))" using rel by (simp add: lru_rel_def live)
    have "chain (container ?c1) (lru_nodes ?ksm (xs @ (k, r) # ys))" using rel by (simp add: lru_rel_def live)
    then obtain d where rem: "removeObjectForKeyImpl ?c1 (Some s) = Inr (?c1\<lparr>container := d\<rparr>, None)"
      and ch: "chain d (lru_nodes ?ksm (xs @ ys))" by (rule removeImpl_live) (simp only: sig option.sel)
    let ?c' = "?c1\<lparr>container := d\<rparr>"
    have notk: "k \<notin> fst ` set (xs @ ys)" using dist by auto
    then have "lru_nodes (dict_del k ?ksm) (xs @ ys) = lru_nodes ?ksm (xs @ ys)"
      by (intro lru_nodes_cong) (auto simp only: dict_get_del fun_upd_apply split: if_splits)
    with ch have ch': "chain d (lru_nodes (dict_del k ?ksm) (xs @ ys))" by simp
    have "lru_rel ?c' (a\<lparr>live := xs @ ys\<rparr>)"
      using lru_relD [OF rel] sok dist notk ch'
      by (intro lru_relI) (auto simp: live dom_dict_del simp del: dict_get_del)
    with rem show ?thesis using True touch_split(2) [OF dist]
      by (intro that [of ?c']) (simp_all add: alru_del_def live [symmetric])
  qed
qed

lemma lru_rel_counters [simp]:
  "lru_rel (c\<lparr>cacheRemoveCountInt := n\<rparr>) a = lru_rel c a"
  "lru_rel (c\<lparr>cacheUpdateCountInt := n\<rparr>) a = lru_rel c a"
  "lru_rel (c\<lparr>cacheEvictionCountInt := n\<rparr>) a = lru_rel c a"
  "lru_rel (c\<lparr>cacheAddCountInt := n\<rparr>) a = lru_rel c a"
  by (simp_all add: lru_rel_def)

lemma lru_del_refines:
  assumes rel: "lru_rel c a"
  obtains c' where "lru_removeObjectForKey c (Some k) =
      Inr (c', snd (alru_del k a) = None, snd (alru_del k a))"
    and "lru_rel c' (fst (alru_del k a))" and "cacheSizeInt c' = cacheSizeInt c"
    and "keySignatureMap c' = dict_del k (keySignatureMap c)"
proof (cases "dict_get (keySignatureMap c) k")
  case None
  with rel have new: "k \<notin> fst ` set (live a)" "k \<notin> dead a" by (auto simp: lru_rel_def)
  moreover have "dict_del k (keySignatureMap c) = keySignatureMap c"
    using None by (simp add: delete_idem map_of_eq_None_iff)
  ultimately show ?thesis using None rel
    by (intro that [of c]) (simp_all add: lru_removeObjectForKey_def alru_del_def)
next
  case (Some s)
  obtain c' where "removeObjectForKeyImpl (c\<lparr>keySignatureMap := dict_del k (keySignatureMap c)\<rparr>) (Some s) =
      Inr (c', snd (alru_del k a))" "lru_rel c' (fst (alru_del k a))" "cacheSizeInt c' = cacheSizeInt c"
    "keySignatureMap c' = dict_del k (keySignatureMap c)"
    by (rule removeImpl_del [OF rel Some])
  then show ?thesis
    by (intro that [of "c'\<lparr>cacheRemoveCountInt := nsu_add (cacheRemoveCountInt c') 1\<rparr>"])
      (simp_all add: lru_removeObjectForKey_def Some)
qed

section \<open>Enumeration and removal of everything\<close>

lemma lru_walk_linked:
  assumes "linked (dict_get d) p (map (\<lambda>(s, r). (s, Some r)) xs @ [(TAIL_SIGNATURE, None)]) None"
    and "TAIL_SIGNATURE \<notin> fst ` set xs"
  shows "lru_walk d (the (hd_or (Some TAIL_SIGNATURE) xs)) res = Some (Inr (rev res @ map snd xs))"
  using assms
proof (induction xs arbitrary: p res)
  case Nil
  then show ?case by (subst lru_walk.simps) simp
next
  case (Cons e xs)
  obtain s r where e: "e = (s, r)" by (cases e)
  have node: "dict_get d s = Some \<lparr>signature = s, prevSignature = p,
      nextSignature = hd_or (Some TAIL_SIGNATURE) xs, nodeRecord = Some r\<rparr>"
    using Cons.prems(1) by (cases xs) (auto simp: e)
  obtain t where t: "hd_or (Some TAIL_SIGNATURE) xs = Some t" by (cases xs) auto
  have "s \<noteq> TAIL_SIGNATURE" using Cons.prems(2) by (auto simp: e)
  moreover have "lru_walk d t (r # res) = Some (Inr (rev (r # res) @ map snd xs))"
    using Cons.IH [of "Some s" "r # res"] Cons.prems by (simp add: e t)
  ultimately show ?case by (subst lru_walk.simps) (simp add: e node t)
qed

lemma live_signature_not_TAIL:
  assumes "lru_rel c a" and "k \<in> fst ` set (live a)"
  shows "the (dict_get (keySignatureMap c) k) \<noteq> TAIL_SIGNATURE"
proof -
  note R = lru_relD [OF assms(1)]
  have "k \<in> dom (dict_get (keySignatureMap c))" using R(4) assms(2) by blast
  then obtain s where s: "dict_get (keySignatureMap c) k = Some s" by blast
  with R(2) have "length s = DEFAULT_SIGNATURE_LENGTH" unfolding signatures_ok_def by blast
  with length_dummies [of s] s show ?thesis by simp
qed

lemma enumerate_live:
  assumes rel: "lru_rel c a"
  shows "enumerateAndReturnAllObjects c =
    Some (Inr (if live a = [] then None else Some (map snd (live a))))"
proof -
  let ?ksm = "keySignatureMap c"
  let ?xs = "map (\<lambda>(k, r). (the (dict_get ?ksm k), r)) (live a)"
  have split: "lru_nodes ?ksm (live a) =
      (HEAD_SIGNATURE, None) # map (\<lambda>(s, r). (s, Some r)) ?xs @ [(TAIL_SIGNATURE, None)]"
    by (simp add: lru_nodes_def comp_def case_prod_unfold)
  have lk: "linked (dict_get (container c)) None (lru_nodes ?ksm (live a)) None"
    using lru_relD(5) [OF rel] by (simp add: chain_def)
  have first: "Option.bind (dict_get (container c) HEAD_SIGNATURE) nextSignature =
      hd_or (Some TAIL_SIGNATURE) ?xs"
    using lk unfolding split by (cases "live a") (auto simp: case_prod_unfold)
  have notail: "TAIL_SIGNATURE \<notin> fst ` set ?xs"
    using live_signature_not_TAIL [OF rel] by force
  have lk': "linked (dict_get (container c)) (Some HEAD_SIGNATURE)
      (map (\<lambda>(s, r). (s, Some r)) ?xs @ [(TAIL_SIGNATURE, None)]) None"
    using lk unfolding split by simp
  note walk = lru_walk_linked [OF lk' notail, of "[]"]
  show ?thesis
  proof (cases "live a")
    case Nil
    then show ?thesis using first by (simp add: enumerateAndReturnAllObjects_def)
  next
    case (Cons e l)
    obtain k r where e: "e = (k, r)" by (cases e)
    have "the (dict_get ?ksm k) \<noteq> TAIL_SIGNATURE"
      using live_signature_not_TAIL [OF rel] by (simp add: Cons e)
    with first walk show ?thesis
      by (simp add: enumerateAndReturnAllObjects_def Cons e comp_def case_prod_unfold)
  qed
qed

text \<open>Removing every key empties the cache; the answer is NO when a key had been evicted.\<close>

lemma removeAllKeys_refines:
  assumes "lru_rel c a" and "distinct ks" and "set ks \<subseteq> dom (dict_get (keySignatureMap c))"
  shows "\<exists>c' e'. removeAllKeys c ks e = Inr (c', e') \<and>
    lru_rel c' \<lparr>live = filter (\<lambda>p. fst p \<notin> set ks) (live a), dead = dead a - set ks\<rparr> \<and>
    (e' = None \<longleftrightarrow> e = None \<and> set ks \<inter> dead a = {}) \<and> cacheSizeInt c' = cacheSizeInt c"
  using assms
proof (induction ks arbitrary: c a e)
  case Nil
  then show ?case by (cases a) simp
next
  case (Cons k ks)
  then obtain s where s: "dict_get (keySignatureMap c) k = Some s" by auto
  let ?a = "fst (alru_del k a)"
  let ?e = "case snd (alru_del k a) of None \<Rightarrow> e | Some e' \<Rightarrow> Some e'"
  obtain c1 where c1: "removeObjectForKeyImpl (c\<lparr>keySignatureMap := dict_del k (keySignatureMap c)\<rparr>) (Some s) =
      Inr (c1, snd (alru_del k a))" "lru_rel c1 ?a" "cacheSizeInt c1 = cacheSizeInt c"
    "keySignatureMap c1 = dict_del k (keySignatureMap c)"
    by (rule removeImpl_del [OF Cons.prems(1) s])
  have sub: "set ks \<subseteq> dom (dict_get (keySignatureMap c1))"
    unfolding c1(4) dom_dict_del using Cons.prems by auto
  have where_k: "k \<in> fst ` set (live a) \<or> k \<in> dead a" "fst ` set (live a) \<inter> dead a = {}"
    using lru_relD(3,4) [OF Cons.prems(1)] s by blast+
  have del: "dict_del k (live a) = filter (\<lambda>p. fst p \<noteq> k) (live a)"
    by (simp add: AList.delete_eq case_prod_unfold eq_commute)
  have keep: "k \<notin> fst ` set (live a) \<Longrightarrow>
      filter (\<lambda>p. fst p \<notin> set (k # ks)) (live a) = filter (\<lambda>p. fst p \<notin> set ks) (live a)"
    by (rule filter_cong) auto
  have live': "filter (\<lambda>p. fst p \<notin> set ks) (live ?a) = filter (\<lambda>p. fst p \<notin> set (k # ks)) (live a)"
    using keep by (auto simp: alru_del_def del conj_commute)
  have dead': "dead ?a - set ks = dead a - set (k # ks)"
    using where_k by (auto simp: alru_del_def)
  have err: "(?e = None \<and> set ks \<inter> dead ?a = {}) \<longleftrightarrow> (e = None \<and> set (k # ks) \<inter> dead a = {})"
    using where_k Cons.prems(2) by (auto simp: alru_del_def)
  obtain c' e' where "removeAllKeys c1 ks ?e = Inr (c', e')"
    "lru_rel c' \<lparr>live = filter (\<lambda>p. fst p \<notin> set ks) (live ?a), dead = dead ?a - set ks\<rparr>"
    "(e' = None) = (?e = None \<and> set ks \<inter> dead ?a = {})" "cacheSizeInt c' = cacheSizeInt c1"
    using Cons.IH [OF c1(2) _ sub, of ?e] Cons.prems(2) by auto
  then show ?case using c1(1,3) unfolding live' dead' err by (simp add: s)
qed

lemma removeAll_refines:
  assumes rel: "lru_rel c a"
  shows "\<exists>c' e. lru_removeAllObjects c = Inr (c', e = None, e) \<and> lru_rel c' \<lparr>live = [], dead = {}\<rparr> \<and>
    (e = None \<longleftrightarrow> live a \<noteq> [] \<and> dead a = {}) \<and> cacheSizeInt c' = cacheSizeInt c"
proof -
  let ?ks = "dict_keys (keySignatureMap c)"
  let ?e0 = "if ?ks = [] then Some LRUErrorInternal else None"
  note R = lru_relD [OF rel]
  have keys: "set ?ks = fst ` set (live a) \<union> dead a" using R(4) by (simp only: set_dict_keys)
  have dist: "distinct ?ks" using R(2) by (simp add: signatures_ok_def)
  have sub: "set ?ks \<subseteq> dom (dict_get (keySignatureMap c))" by (simp only: set_dict_keys order_refl)
  from removeAllKeys_refines [OF rel dist sub, of ?e0] obtain c' e' where
    1: "removeAllKeys c ?ks ?e0 = Inr (c', e')"
      "lru_rel c' \<lparr>live = filter (\<lambda>p. fst p \<notin> set ?ks) (live a), dead = dead a - set ?ks\<rparr>"
      "(e' = None) = (?e0 = None \<and> set ?ks \<inter> dead a = {})" "cacheSizeInt c' = cacheSizeInt c"
    by blast
  have "filter (\<lambda>p. fst p \<notin> set ?ks) (live a) = []" "dead a - set ?ks = {}"
    using keys by (auto simp: filter_empty_conv)
  with 1(2) have 2: "lru_rel c' \<lparr>live = [], dead = {}\<rparr>" by (simp only:)
  have "?ks = [] \<longleftrightarrow> live a = [] \<and> dead a = {}"
    using keys by (metis Un_empty image_is_empty set_empty)
  with 1(3) keys have 3: "e' = None \<longleftrightarrow> live a \<noteq> [] \<and> dead a = {}"
    by (auto split: if_splits)
  show ?thesis using 1(1,4) 2 3 by (simp add: lru_removeAllObjects_def Let_def)
qed

section \<open>The cache as a provider of the record cache interface\<close>

definition lru_view :: "('k, 'r) lru \<Rightarrow> 'k \<Rightarrow> 'r option" where
  "lru_view c k = Option.bind (nodeFor c (dict_get (keySignatureMap c) k)) nodeRecord"

definition lru_spoiled :: "('k, 'r) lru \<Rightarrow> 'k \<Rightarrow> bool" where
  "lru_spoiled c k \<longleftrightarrow> k \<in> set (dict_keys (keySignatureMap c)) \<and> lru_view c k = None"

definition lru_inv :: "('k, 'r) lru \<Rightarrow> bool" where
  "lru_inv c \<longleftrightarrow> (\<exists>a. lru_rel c a) \<and> DEFAULT_CACHE_OFFSET_SIZE < cacheSizeInt c"

lemma lru_rel_view:
  assumes rel: "lru_rel c a"
  shows "lru_view c = map_of (live a)"
proof
  fix k
  let ?ksm = "keySignatureMap c"
  note R = lru_relD [OF rel]
  show "lru_view c k = map_of (live a) k"
  proof (cases "dict_get ?ksm k")
    case None
    then have "k \<notin> fst ` set (live a)" using R(4) by blast
    then have "map_of (live a) k = None" by (simp only: map_of_eq_None_iff not_False_eq_True)
    with None show ?thesis by (simp only: lru_view_def nodeFor_def option.case Option.bind.bind_lzero)
  next
    case (Some s)
    show ?thesis
    proof (cases "map_of (live a) k")
      case None
      then have "k \<notin> fst ` set (live a)" by (simp add: map_of_eq_None_iff)
      with lru_rel_dead_signature [OF rel Some] Some None show ?thesis
        by (simp add: lru_view_def nodeFor_def)
    next
      case (Some r)
      then have "(k, r) \<in> set (live a)" by (rule map_of_SomeD)
      then have "(the (dict_get ?ksm k), Some r) \<in> set (lru_nodes ?ksm (live a))"
        by (force simp: lru_nodes_def)
      moreover have "linked (dict_get (container c)) None (lru_nodes ?ksm (live a)) None"
        using R(5) by (simp add: chain_def)
      ultimately obtain node where "dict_get (container c) s = Some node" "nodeRecord node = Some r"
        using linked_get \<open>dict_get ?ksm k = Some s\<close> by (metis option.sel)
      with Some \<open>dict_get ?ksm k = Some s\<close> show ?thesis by (simp add: lru_view_def nodeFor_def)
    qed
  qed
qed

lemma lru_rel_spoiled:
  assumes rel: "lru_rel c a"
  shows "lru_spoiled c k \<longleftrightarrow> k \<in> dead a"
proof -
  note R = lru_relD [OF rel]
  have "lru_spoiled c k \<longleftrightarrow> k \<in> fst ` set (live a) \<union> dead a \<and> k \<notin> fst ` set (live a)"
    unfolding lru_spoiled_def lru_rel_view [OF rel] R(4) by (simp only: set_dict_keys map_of_eq_None_iff)
  then show ?thesis using R(3) by blast
qed

lemma fresh_signature_del:
  "keySignatureMap c' = dict_del k (keySignatureMap c) \<Longrightarrow> fresh_signature c rnd \<Longrightarrow> fresh_signature c' rnd"
  by (auto simp: fresh_signature_def AList.delete_eq)

lemma map_of_touch: "map_of (touch k xs) = map_of xs"
  by (auto simp: touch_def fun_eq_iff split: option.split)

lemma map_of_snoc_other: "k' \<noteq> k \<Longrightarrow> map_of (xs @ [(k, r)]) k' = map_of xs k'"
  by (simp add: map_add_def split: option.split)

lemma map_of_butlast:
  "distinct (map fst xs) \<Longrightarrow> map_of (butlast xs) k = map_of xs k \<or> map_of (butlast xs) k = None"
proof (cases xs rule: rev_cases)
  case (snoc ys p)
  assume "distinct (map fst xs)"
  with snoc show ?thesis
    by (cases p; cases "k = fst p") (auto simp: map_add_def map_of_eq_None_iff split: option.split)
qed simp

lemma lru_get_law:
  assumes inv: "lru_inv c"
  shows "\<exists>c' e. lru_objectForKey c (Some k) = Inr (c', lru_view c k, e) \<and>
      (e = None \<longleftrightarrow> lru_view c k \<noteq> None) \<and> lru_inv c' \<and> lru_view c' = lru_view c \<and>
      lru_spoiled c' = lru_spoiled c \<and> (\<forall>x. fresh_signature c x \<longrightarrow> fresh_signature c' x)"
proof -
  obtain a where rel: "lru_rel c a" and size: "DEFAULT_CACHE_OFFSET_SIZE < cacheSizeInt c"
    using inv by (auto simp: lru_inv_def)
  obtain c' where c': "lru_objectForKey c (Some k) = Inr (c', fst (snd (alru_get k a)), snd (snd (alru_get k a)))"
    "lru_rel c' (fst (alru_get k a))" "cacheSizeInt c' = cacheSizeInt c" "keySignatureMap c' = keySignatureMap c"
    by (rule lru_get_refines [OF rel])
  have same: "lru_view c' = lru_view c" "lru_spoiled c' = lru_spoiled c"
    unfolding fun_eq_iff lru_rel_spoiled [OF rel] lru_rel_spoiled [OF c'(2)] lru_rel_view [OF rel] lru_rel_view [OF c'(2)]
    by (simp_all add: alru_get_def map_of_touch split: option.split)
  have "lru_inv c'" using c' size by (auto simp: lru_inv_def)
  moreover have "fst (snd (alru_get k a)) = lru_view c k \<and> (snd (snd (alru_get k a)) = None \<longleftrightarrow> lru_view c k \<noteq> None)"
    by (simp add: lru_rel_view [OF rel] alru_get_def split: option.split)
  ultimately show ?thesis using c'(1,4) same by (auto simp: fresh_signature_def)
qed

lemma lru_put_law:
  assumes inv: "lru_inv c" and fresh: "fresh_signature c x"
  shows "\<exists>c' e. lru_setObject c (Some r) (Some k) x = Inr (c', e = None, e) \<and> lru_inv c' \<and>
    (e = None \<longleftrightarrow> \<not> lru_spoiled c k) \<and> (lru_view c k \<noteq> None \<or> lru_spoiled c k \<longrightarrow> lru_view c' = lru_view c) \<and>
    (lru_view c k = None \<and> \<not> lru_spoiled c k \<longrightarrow> lru_view c' k = Some r \<and>
        (\<forall>k'. k' \<noteq> k \<longrightarrow> lru_view c' k' = lru_view c k' \<or> lru_view c' k' = None))"
proof -
  obtain a where rel: "lru_rel c a" and size: "DEFAULT_CACHE_OFFSET_SIZE < cacheSizeInt c"
    using inv by (auto simp: lru_inv_def)
  let ?spec = "alru_put (cacheSizeInt c - DEFAULT_CACHE_OFFSET_SIZE) k r a"
  obtain c' where c': "lru_setObject c (Some r) (Some k) x = Inr (c', snd ?spec = None, snd ?spec)"
    "lru_rel c' (fst ?spec)" "cacheSizeInt c' = cacheSizeInt c"
    by (rule lru_put_refines [OF rel fresh size])
  have disj: "fst ` set (live a) \<inter> dead a = {}" and dist: "distinct (map fst (live a))"
    using lru_relD [OF rel] by blast+
  have inv': "lru_inv c'" using c' size by (auto simp: lru_inv_def)
  have ok: "snd ?spec = None \<longleftrightarrow> \<not> lru_spoiled c k"
    using disj by (auto simp: lru_rel_spoiled [OF rel] alru_put_def)
  have keep: "lru_view c' = lru_view c" if "lru_view c k \<noteq> None \<or> lru_spoiled c k"
    using that disj unfolding lru_rel_spoiled [OF rel] lru_rel_view [OF rel] lru_rel_view [OF c'(2)]
    by (auto simp: alru_put_def map_of_touch map_of_eq_None_iff)
  have new: "lru_view c' k = Some r \<and> (\<forall>k'. k' \<noteq> k \<longrightarrow> lru_view c' k' = lru_view c k' \<or> lru_view c' k' = None)"
    if "lru_view c k = None \<and> \<not> lru_spoiled c k"
  proof -
    have k: "k \<notin> fst ` set (live a)" "k \<notin> dead a"
      using that by (simp_all add: lru_rel_spoiled [OF rel] lru_rel_view [OF rel] map_of_eq_None_iff)
    then show ?thesis using map_of_butlast [OF dist]
      unfolding lru_rel_view [OF rel] lru_rel_view [OF c'(2)] by (simp add: alru_put_def)
  qed
  show ?thesis
    by (rule exI [of _ c'], rule exI [of _ "snd ?spec"], intro conjI impI)
      (fact c'(1) inv' ok keep new [THEN conjunct1] new [THEN conjunct2])+
qed

lemma lru_del_law:
  assumes inv: "lru_inv c"
  shows "\<exists>c' e. lru_removeObjectForKey c (Some k) = Inr (c', lru_view c k \<noteq> None, e) \<and>
      (e = None \<longleftrightarrow> lru_view c k \<noteq> None) \<and> lru_inv c' \<and> lru_view c' = (lru_view c)(k := None) \<and>
      (\<forall>k'. lru_spoiled c' k' \<longleftrightarrow> k' \<noteq> k \<and> lru_spoiled c k') \<and>
      (\<forall>x. fresh_signature c x \<longrightarrow> fresh_signature c' x)"
proof -
  obtain a where rel: "lru_rel c a" and size: "DEFAULT_CACHE_OFFSET_SIZE < cacheSizeInt c"
    using inv by (auto simp: lru_inv_def)
  obtain c' where c': "lru_removeObjectForKey c (Some k) = Inr (c', snd (alru_del k a) = None, snd (alru_del k a))"
    "lru_rel c' (fst (alru_del k a))" "cacheSizeInt c' = cacheSizeInt c"
    "keySignatureMap c' = dict_del k (keySignatureMap c)"
    by (rule lru_del_refines [OF rel])
  have disj: "fst ` set (live a) \<inter> dead a = {}" using lru_relD [OF rel] by blast
  have ok: "snd (alru_del k a) = None \<longleftrightarrow> lru_view c k \<noteq> None"
    by (auto simp: lru_rel_view [OF rel] alru_del_def map_of_eq_None_iff)
  moreover have "lru_view c' = (lru_view c)(k := None)"
    unfolding lru_rel_view [OF rel] lru_rel_view [OF c'(2)]
    by (auto simp: alru_del_def fun_eq_iff map_of_eq_None_iff)
  moreover have "lru_spoiled c' k' \<longleftrightarrow> k' \<noteq> k \<and> lru_spoiled c k'" for k'
    unfolding lru_rel_spoiled [OF rel] lru_rel_spoiled [OF c'(2)] using disj by (auto simp: alru_del_def)
  moreover have "lru_inv c'" using c' size by (auto simp: lru_inv_def)
  ultimately show ?thesis using c'(1) fresh_signature_del [OF c'(4)] by auto
qed

interpretation lru: record_cache lru_inv lru_view lru_spoiled fresh_signature
    lru_objectForKey lru_setObject lru_removeObjectForKey
proof (unfold_locales, goal_cases)
  case (1 c k)
  then show ?case by (rule lru_get_law)
next
  case (2 c x k r)
  then show ?case using lru_put_law [OF 2(1,2), of r k] by (auto simp: lru_spoiled_def)
next
  case (3 c x k r)
  then show ?case using lru_put_law [OF 3(1,2), of r k] by auto
next
  case (4 c x k r)
  then show ?case using lru_put_law [OF 4(1,2), of r k] by auto
next
  case (5 c k)
  then show ?case by (rule lru_del_law)
next
  case (6 c k)
  then show ?case by (simp add: lru_spoiled_def)
qed

section \<open>Reachable caches\<close>

text \<open>
  The caches that a sequence of public calls reaches from a fresh one of capacity \<open>cap\<close>; each
  store of a new key draws a signature not in use, which \<open>arc4random_uniform\<close> makes likely but
  does not promise.
\<close>

inductive lru_reachable :: "nat \<Rightarrow> ('k, 'r) lru \<Rightarrow> bool" for cap where
  init: "lru_reachable cap (initWithCacheSize cap)"
| set_step: "lru_reachable cap c \<Longrightarrow> fresh_signature c rnd \<Longrightarrow>
    lru_setObject c ro ko rnd = Inr (c', ok, e) \<Longrightarrow> lru_reachable cap c'"
| get_step: "lru_reachable cap c \<Longrightarrow> lru_objectForKey c ko = Inr (c', ro, e) \<Longrightarrow> lru_reachable cap c'"
| remove_step: "lru_reachable cap c \<Longrightarrow> lru_removeObjectForKey c ko = Inr (c', ok, e) \<Longrightarrow> lru_reachable cap c'"
| clear_step: "lru_reachable cap c \<Longrightarrow> lru_removeAllObjects c = Inr (c', ok, e) \<Longrightarrow> lru_reachable cap c'"

inductive_cases lru_reachableE: "lru_reachable cap c"

lemma lru_set_total:
  assumes rel: "lru_rel c a" and fresh: "fresh_signature c rnd"
  shows "\<exists>c' ok e a'. lru_setObject c ro ko rnd = Inr (c', ok, e) \<and> lru_rel c' a' \<and>
    cacheSizeInt c' = cacheSizeInt c"
proof (cases "cacheSizeInt c \<le> DEFAULT_CACHE_OFFSET_SIZE")
  case True
  then show ?thesis using rel by (auto simp: lru_setObject_def)
next
  case False
  show ?thesis
  proof (cases "ro = None \<or> ko = None")
    case True
    then have "lru_setObject c ro ko rnd = Inr (c, False, Some LRUErrorInternal)"
      by (auto simp: lru_setObject_def split: option.split)
    then show ?thesis using rel by blast
  next
    case nonnil: False
    from nonnil obtain r where r: "ro = Some r" by auto
    from nonnil obtain k where k: "ko = Some k" by auto
    have size: "DEFAULT_CACHE_OFFSET_SIZE < cacheSizeInt c" using False by simp
    show ?thesis unfolding r k by (rule lru_put_refines [OF rel fresh size, of r k]) blast
  qed
qed

lemma lru_get_total:
  assumes rel: "lru_rel c a"
  shows "\<exists>c' ro e a'. lru_objectForKey c ko = Inr (c', ro, e) \<and> lru_rel c' a' \<and>
    cacheSizeInt c' = cacheSizeInt c"
proof (cases ko)
  case None
  then show ?thesis using rel by (auto simp: lru_objectForKey_def)
next
  case (Some k)
  show ?thesis unfolding Some by (rule lru_get_refines [OF rel, of k]) blast
qed

lemma lru_del_total:
  assumes rel: "lru_rel c a"
  shows "\<exists>c' ok e a'. lru_removeObjectForKey c ko = Inr (c', ok, e) \<and> lru_rel c' a' \<and>
    cacheSizeInt c' = cacheSizeInt c"
proof (cases ko)
  case None
  then show ?thesis using rel by (auto simp: lru_removeObjectForKey_def)
next
  case (Some k)
  show ?thesis unfolding Some by (rule lru_del_refines [OF rel, of k]) blast
qed

lemma lru_reachable_rel:
  assumes "lru_reachable cap c" and cap: "cap + DEFAULT_CACHE_OFFSET_SIZE < 2 ^ 64"
  shows "(\<exists>a. lru_rel c a) \<and> cacheSizeInt c = cap + DEFAULT_CACHE_OFFSET_SIZE"
  using assms(1)
proof (induction rule: lru_reachable.induct)
  case init
  have "cacheSizeInt (initWithCacheSize cap) = cap + DEFAULT_CACHE_OFFSET_SIZE"
    using cap by (simp add: initWithCacheSize_def nsu_add_small)
  then show ?case using lru_rel_init [of cap] cap by blast
next
  case (set_step c rnd ro ko c' ok e)
  then obtain a where "lru_rel c a" by blast
  from lru_set_total [OF this set_step.hyps(2), of ro ko] set_step show ?case by auto
next
  case (get_step c ko c' ro e)
  then obtain a where "lru_rel c a" by blast
  from lru_get_total [OF this, of ko] get_step show ?case by auto
next
  case (remove_step c ko c' ok e)
  then obtain a where "lru_rel c a" by blast
  from lru_del_total [OF this, of ko] remove_step show ?case by auto
next
  case (clear_step c c' ok e)
  then obtain a where "lru_rel c a" by blast
  from removeAll_refines [OF this] clear_step show ?case by auto
qed

section \<open>Properties\<close>

text \<open>
  C16: however the public methods of a cache of capacity \<open>cap\<close> are called, no call raises, the
  enumeration of its list returns, and it never holds more than \<open>cap\<close> records.
\<close>

theorem lru_calls_are_safe:
  assumes "lru_reachable cap c" and "cap + DEFAULT_CACHE_OFFSET_SIZE < 2 ^ 64" and "fresh_signature c rnd"
  shows "numCacheRecords c \<le> cap \<and> cacheSize c = cap \<and>
    (\<exists>c' ok e. lru_setObject c ro ko rnd = Inr (c', ok, e)) \<and>
    (\<exists>c' r e. lru_objectForKey c ko = Inr (c', r, e)) \<and>
    (\<exists>c' ok e. lru_removeObjectForKey c ko = Inr (c', ok, e)) \<and>
    (\<exists>c' ok e. lru_removeAllObjects c = Inr (c', ok, e)) \<and>
    (\<exists>rs. enumerateAndReturnAllObjects c = Some (Inr rs))"
proof -
  obtain a where rel: "lru_rel c a" and size: "cacheSizeInt c = cap + DEFAULT_CACHE_OFFSET_SIZE"
    using lru_reachable_rel [OF assms(1,2)] by blast
  have len: "length (dict_keys (container c)) = length (live a) + DEFAULT_CACHE_OFFSET_SIZE"
    and le: "length (live a) \<le> cap"
    using lru_rel_length [OF rel] lru_relD(6) [OF rel] size by simp_all
  have "nsu_sub (length (dict_keys (container c))) DEFAULT_CACHE_OFFSET_SIZE = length (live a)"
    unfolding len using le assms(2) by (subst nsu_sub_small) simp_all
  then have "numCacheRecords c \<le> cap" using le by (simp add: numCacheRecords_def)
  moreover have "cacheSize c = cap"
    unfolding cacheSize_def size using assms(2) by (subst nsu_sub_small) simp_all
  moreover have "\<exists>rs. enumerateAndReturnAllObjects c = Some (Inr rs)"
    using enumerate_live [OF rel] by blast
  moreover have "\<exists>c' ok e. lru_removeAllObjects c = Inr (c', ok, e)"
    using removeAll_refines [OF rel] by blast
  ultimately show ?thesis
    using lru_set_total [OF rel assms(3), of ro ko] lru_get_total [OF rel, of ko] lru_del_total [OF rel, of ko]
    by blast
qed

text \<open>A concrete cache of capacity one for the witnesses: the key 1 holds the record 10.\<close>

definition sample_cache :: "(nat, nat) lru" where
  "sample_cache = (case lru_setObject (initWithCacheSize 1) (Some 10) (Some 1) (\<lambda>_. 0) of
     Inl _ \<Rightarrow> initWithCacheSize 1 | Inr (c, _) \<Rightarrow> c)"

lemma sample_cache_step:
  "lru_setObject (initWithCacheSize 1) (Some 10) (Some 1) (\<lambda>_. 0) = Inr (sample_cache, True, None)"
  by code_simp

lemma sample_cache_size: "cacheSizeInt sample_cache = 3"
  by code_simp

lemma fresh_signature_init: "fresh_signature (initWithCacheSize n) rnd"
  by (simp add: fresh_signature_def initWithCacheSize_def Let_def)

lemma sample_cache_reachable: "lru_reachable 1 sample_cache"
  by (rule set_step [OF init fresh_signature_init sample_cache_step])

lemma sample_cache_fresh: "fresh_signature sample_cache (\<lambda>_. 1)"
  by code_simp

lemma sample_cache_rel: "lru_rel sample_cache \<lparr>live = [(1, 10)], dead = {}\<rparr>"
proof -
  obtain c' where "lru_setObject (initWithCacheSize 1) (Some (10 :: nat)) (Some (1 :: nat)) (\<lambda>_. 0) = Inr (c', True, None)"
    "lru_rel c' \<lparr>live = [(1, 10)], dead = {}\<rparr>"
    by (rule lru_put_refines [OF lru_rel_init [of 1] fresh_signature_init [of 1 "\<lambda>_. 0"], of "10 :: nat" "1 :: nat"])
      (simp_all add: alru_put_def initWithCacheSize_def nsu_add_def DEFAULT_CACHE_OFFSET_SIZE_def)
  then show ?thesis by (simp only: sample_cache_step sum.inject prod.inject)
qed

theorem lru_calls_are_safe_witness:
  "numCacheRecords sample_cache \<le> 1 \<and> (\<exists>rs. enumerateAndReturnAllObjects sample_cache = Some (Inr rs))"
  using lru_calls_are_safe [OF sample_cache_reachable _ sample_cache_fresh]
  by (simp add: DEFAULT_CACHE_OFFSET_SIZE_def)

text \<open>
  C19: \<open>setObject:forKey:\<close> implements the abstract LRU store \<open>alru_put\<close>: a present key is moved
  to the front with its old record, a new key is put in front of the others at the cost of the last
  one when the cache is full, and the key of an entry that was evicted before is refused.
\<close>

theorem lru_setObject_refines:
  assumes "lru_rel c a" and "fresh_signature c rnd" and "DEFAULT_CACHE_OFFSET_SIZE < cacheSizeInt c"
  shows "\<exists>c'. lru_setObject c (Some r) (Some k) rnd =
      Inr (c', snd (alru_put (cacheSizeInt c - DEFAULT_CACHE_OFFSET_SIZE) k r a) = None,
           snd (alru_put (cacheSizeInt c - DEFAULT_CACHE_OFFSET_SIZE) k r a)) \<and>
    lru_rel c' (fst (alru_put (cacheSizeInt c - DEFAULT_CACHE_OFFSET_SIZE) k r a))"
  by (rule lru_put_refines [OF assms, of r k]) blast

theorem lru_setObject_refines_witness:
  "\<exists>c'. lru_setObject sample_cache (Some 20) (Some 2) (\<lambda>_. 1) = Inr (c', True, None) \<and>
    lru_rel c' \<lparr>live = [(2, 20)], dead = {1}\<rparr>"
  using lru_setObject_refines [OF sample_cache_rel sample_cache_fresh, where r = 20 and k = 2]
  by (simp add: sample_cache_size DEFAULT_CACHE_OFFSET_SIZE_def alru_put_def)

text \<open>
  \<open>objectForKey:\<close> implements \<open>alru_get\<close> (the record found moves to the front, a missing
  key is \<open>NoRecord\<close> and changes nothing) and \<open>enumerateAndReturnAllObjects\<close> answers the
  records from the most to the least recently used, nil when there is none.
\<close>

theorem lru_objectForKey_refines:
  assumes "lru_rel c a"
  shows "\<exists>c'. lru_objectForKey c (Some k) = Inr (c', fst (snd (alru_get k a)), snd (snd (alru_get k a))) \<and>
    lru_rel c' (fst (alru_get k a)) \<and>
    enumerateAndReturnAllObjects c' = Some (Inr (if live (fst (alru_get k a)) = [] then None
        else Some (map snd (live (fst (alru_get k a))))))"
  by (rule lru_get_refines [OF assms, of k]) (auto dest: enumerate_live)

theorem lru_objectForKey_refines_witness:
  "\<exists>c'. lru_objectForKey sample_cache (Some 1) = Inr (c', Some 10, None) \<and>
    enumerateAndReturnAllObjects c' = Some (Inr (Some [10]))"
  using lru_objectForKey_refines [OF sample_cache_rel, of 1] by (auto simp: alru_get_def touch_def)

text \<open>
  \<open>removeObjectForKey:\<close> implements \<open>alru_del\<close> and \<open>removeAllObjects:\<close> empties the
  cache and releases every key; the latter answers YES exactly when there was a record and no key
  had been evicted.
\<close>

theorem lru_removal_refines:
  assumes "lru_rel c a"
  shows "(\<exists>c'. lru_removeObjectForKey c (Some k) = Inr (c', snd (alru_del k a) = None, snd (alru_del k a)) \<and>
      lru_rel c' (fst (alru_del k a))) \<and>
    (\<exists>c' e. lru_removeAllObjects c = Inr (c', e = None, e) \<and> lru_rel c' \<lparr>live = [], dead = {}\<rparr> \<and>
      (e = None \<longleftrightarrow> live a \<noteq> [] \<and> dead a = {}))"
proof
  show "\<exists>c'. lru_removeObjectForKey c (Some k) = Inr (c', snd (alru_del k a) = None, snd (alru_del k a)) \<and>
      lru_rel c' (fst (alru_del k a))"
    by (rule lru_del_refines [OF assms, of k]) blast
  show "\<exists>c' e. lru_removeAllObjects c = Inr (c', e = None, e) \<and> lru_rel c' \<lparr>live = [], dead = {}\<rparr> \<and>
      (e = None \<longleftrightarrow> live a \<noteq> [] \<and> dead a = {})"
    using removeAll_refines [OF assms] by blast
qed

theorem lru_removal_refines_witness:
  "\<exists>c'. lru_removeObjectForKey sample_cache (Some 1) = Inr (c', True, None) \<and>
    lru_rel c' \<lparr>live = [], dead = {}\<rparr>"
  using lru_removal_refines [OF sample_cache_rel, of 1] by (auto simp: alru_del_def)

text \<open>
  An eviction forgets the entry but not its key. When a store into a full cache evicts the
  least recently used key \<open>k0\<close>, every later store under \<open>k0\<close> answers NO with \<open>NoRecord\<close>
  and stores nothing, until the key is removed explicitly.
\<close>

theorem lru_evicted_key_is_refused:
  assumes "lru_rel c a" and "fresh_signature c rnd" and "DEFAULT_CACHE_OFFSET_SIZE < cacheSizeInt c"
    and "live a = l @ [(k0, r0)]" and "length (live a) + DEFAULT_CACHE_OFFSET_SIZE = cacheSizeInt c"
    and "k \<notin> fst ` set (live a) \<union> dead a"
  shows "\<exists>c1. lru_setObject c (Some r) (Some k) rnd = Inr (c1, True, None) \<and> lru_view c1 k = Some r \<and>
    lru_view c1 k0 = None \<and>
    (\<forall>rnd' r'. fresh_signature c1 rnd' \<longrightarrow>
      (\<exists>c2. lru_setObject c1 (Some r') (Some k0) rnd' = Inr (c2, False, Some LRUErrorThrottleCacheNoRecord) \<and>
        lru_view c2 = lru_view c1))"
proof -
  let ?a1 = "\<lparr>live = (k, r) # l, dead = insert k0 (dead a)\<rparr>"
  have spec: "alru_put (cacheSizeInt c - DEFAULT_CACHE_OFFSET_SIZE) k r a = (?a1, None)"
    using assms(4-6) by (auto simp: alru_put_def)
  obtain c1 where c1: "lru_setObject c (Some r) (Some k) rnd = Inr (c1, True, None)" "lru_rel c1 ?a1"
    "cacheSizeInt c1 = cacheSizeInt c"
    by (rule lru_put_refines [OF assms(1-3), of r k]) (simp add: spec)
  have notlive: "k0 \<notin> fst ` set ((k, r) # l)" using lru_relD(1) [OF assms(1)] assms(4,6) by auto
  have "\<exists>c2. lru_setObject c1 (Some r') (Some k0) rnd' = Inr (c2, False, Some LRUErrorThrottleCacheNoRecord) \<and>
        lru_view c2 = lru_view c1" if fresh: "fresh_signature c1 rnd'" for rnd' r'
  proof -
    have "alru_put (cacheSizeInt c1 - DEFAULT_CACHE_OFFSET_SIZE) k0 r' ?a1 = (?a1, Some LRUErrorThrottleCacheNoRecord)"
      using notlive by (auto simp: alru_put_def)
    with lru_put_refines [OF c1(2) fresh, of r' k0] assms(3) c1(3) obtain c2 where
      "lru_setObject c1 (Some r') (Some k0) rnd' = Inr (c2, False, Some LRUErrorThrottleCacheNoRecord)" "lru_rel c2 ?a1"
      by auto
    then show ?thesis using lru_rel_view [OF c1(2)] lru_rel_view [of c2 ?a1] by auto
  qed
  moreover have "lru_view c1 k = Some r \<and> lru_view c1 k0 = None"
    using notlive by (auto simp: lru_rel_view [OF c1(2)] map_of_eq_None_iff)
  ultimately show ?thesis using c1(1) by blast
qed

theorem lru_evicted_key_is_refused_witness:
  "\<exists>c1. lru_setObject sample_cache (Some 20) (Some 2) (\<lambda>_. 1) = Inr (c1, True, None) \<and> lru_view c1 1 = None"
proof -
  let ?a = "\<lparr>live = [(1, 10)], dead = {}\<rparr> :: (nat, nat) alru"
  have "DEFAULT_CACHE_OFFSET_SIZE < cacheSizeInt sample_cache" "live ?a = [] @ [(1, 10)]"
    "length (live ?a) + DEFAULT_CACHE_OFFSET_SIZE = cacheSizeInt sample_cache" "2 \<notin> fst ` set (live ?a) \<union> dead ?a"
    by (simp_all add: sample_cache_size DEFAULT_CACHE_OFFSET_SIZE_def)
  from lru_evicted_key_is_refused [OF sample_cache_rel sample_cache_fresh this, of 20]
  show ?thesis by blast
qed

end
