(* ===== verification/Foundation.thy ===== *)
theory Foundation
  imports Prelude
begin

text \<open>
  Property-list values and the string and dictionary categories of \<open>util/\<close>: number parsing
  and printing, the typed dictionary lookups, the removal of nulls from JSON, and the URL and form
  encodings (\<open>NSString+MSIDExtensions.m\<close>, \<open>NSDictionary+MSIDExtensions.m\<close>,
  \<open>NSDate+MSIDExtensions.m\<close>).
\<close>

section \<open>Objects\<close>

datatype nsobj =
    NSStr string
  | NSNum rat
  | NSURLObj string
  | NSNullObj
  | NSDict "(string \<times> nsobj) list"
  | NSArr "nsobj list"

datatype nsclass = NSStringClass | NSNumberClass | NSURLClass | NSNullClass | NSDictionaryClass | NSArrayClass

fun class_of :: "nsobj \<Rightarrow> nsclass" where
  "class_of (NSStr _) = NSStringClass"
| "class_of (NSNum _) = NSNumberClass"
| "class_of (NSURLObj _) = NSURLClass"
| "class_of NSNullObj = NSNullClass"
| "class_of (NSDict _) = NSDictionaryClass"
| "class_of (NSArr _) = NSArrayClass"

fun as_string :: "nsobj \<Rightarrow> string option" where
  "as_string (NSStr s) = Some s"
| "as_string _ = None"

fun as_dict :: "nsobj \<Rightarrow> (string \<times> nsobj) list option" where
  "as_dict (NSDict d) = Some d"
| "as_dict _ = None"

lemma as_string_Some [simp]: "as_string v = Some s \<longleftrightarrow> v = NSStr s"
  by (cases v) auto

section \<open>Numbers as text\<close>

definition digits :: string where
  "digits = ''0123456789''"

definition is_digit :: "char \<Rightarrow> bool" where
  "is_digit c \<longleftrightarrow> c \<in> set digits"

definition digit_val :: "char \<Rightarrow> nat" where
  "digit_val c = length (takeWhile (\<lambda>d. d \<noteq> c) digits)"

fun nat_str :: "nat \<Rightarrow> string" where
  "nat_str n = (if n < 10 then [digits ! n] else nat_str (n div 10) @ [digits ! (n mod 10)])"

declare nat_str.simps [simp del]

definition digits_val :: "string \<Rightarrow> nat" where
  "digits_val s = foldl (\<lambda>a c. a * 10 + digit_val c) 0 s"

fun read_sign :: "string \<Rightarrow> int \<times> string" where
  "read_sign [] = (1, [])"
| "read_sign (c # s) = (if c = CHR ''-'' then (- 1, s) else if c = CHR ''+'' then (1, s) else (1, c # s))"

definition saturate :: "int \<Rightarrow> int \<Rightarrow> int \<Rightarrow> int" where
  "saturate lo hi x = max lo (min hi x)"

text \<open>\<open>intValue\<close> and \<open>integerValue\<close>: leading white space, a sign, digits; saturating.\<close>

definition scan_int :: "string \<Rightarrow> int" where
  "scan_int s = (case read_sign (dropWhile whitespaceAndNewline s) of
     (sg, t) \<Rightarrow> sg * int (digits_val (takeWhile is_digit t)))"

definition intValue :: "string \<Rightarrow> int" where
  "intValue s = saturate (- (2 ^ 31)) (2 ^ 31 - 1) (scan_int s)"

definition integerValue :: "string \<Rightarrow> int" where
  "integerValue s = saturate (- (2 ^ 63)) (2 ^ 63 - 1) (scan_int s)"

text \<open>\<open>doubleValue\<close>: the digits, an optional fraction and an optional exponent; the rounding of
  \<open>double\<close> is not modelled.\<close>

definition doubleValue :: "string \<Rightarrow> rat" where
  "doubleValue s = (case read_sign (dropWhile whitespaceAndNewline s) of
     (sg, t) \<Rightarrow>
       (let ip = takeWhile is_digit t;
            t1 = dropWhile is_digit t;
            fp = (case t1 of CHR ''.'' # u \<Rightarrow> takeWhile is_digit u | _ \<Rightarrow> []);
            t2 = (case t1 of CHR ''.'' # u \<Rightarrow> dropWhile is_digit u | _ \<Rightarrow> t1);
            ex = (case t2 of c # u \<Rightarrow> (if c \<in> {CHR ''e'', CHR ''E''} then
                    (case read_sign u of (es, v) \<Rightarrow> es * int (digits_val (takeWhile is_digit v))) else 0)
                  | [] \<Rightarrow> 0);
            m = of_nat (digits_val ip) + of_nat (digits_val fp) / 10 ^ length fp :: rat
        in of_int sg * m * (if 0 \<le> ex then 10 ^ nat ex else 1 / 10 ^ nat (- ex))))"

lemma length_digits: "length digits = 10"
  by (simp add: digits_def)

lemma less_10_cases: "n < 10 \<Longrightarrow> n = 0 \<or> n = 1 \<or> n = 2 \<or> n = 3 \<or> n = 4 \<or> n = 5 \<or> n = 6 \<or> n = 7 \<or> n = 8 \<or> n = (9::nat)"
  by arith

lemma digit_val_digit [simp]: "n < 10 \<Longrightarrow> digit_val (digits ! n) = n"
  by (drule less_10_cases, elim disjE) (simp_all add: digit_val_def digits_def)

lemma is_digit_digit [simp]: "n < 10 \<Longrightarrow> is_digit (digits ! n)"
  by (simp add: is_digit_def length_digits)

lemma digits_val_snoc [simp]: "digits_val (s @ [c]) = digits_val s * 10 + digit_val c"
  by (simp add: digits_val_def)

lemma digits_val_Nil [simp]: "digits_val [] = 0"
  by (simp add: digits_val_def)

lemma digits_val_nat_str [simp]: "digits_val (nat_str n) = n"
proof (induction n rule: nat_str.induct)
  case (1 n)
  show ?case
  proof (cases "n < 10")
    case True
    then show ?thesis using digits_val_snoc [of "[]"] by (simp add: nat_str.simps)
  next
    case False
    then show ?thesis using 1 by (subst nat_str.simps) simp
  qed
qed

lemma nat_str_digits: "c \<in> set (nat_str n) \<Longrightarrow> is_digit c"
proof (induction n rule: nat_str.induct)
  case (1 n)
  show ?case
    using 1 by (subst (asm) nat_str.simps) (auto split: if_splits)
qed

lemma nat_str_not_Nil [simp]: "nat_str n \<noteq> []"
  by (subst nat_str.simps) simp

lemma digit_not_space: "is_digit c \<Longrightarrow> \<not> whitespaceAndNewline c \<and> c \<noteq> CHR ''-'' \<and> c \<noteq> CHR ''+''"
  by (auto simp: is_digit_def digits_def whitespaceAndNewline_def)

lemma takeWhile_nat_str [simp]:
  "takeWhile is_digit (nat_str n) = nat_str n" "dropWhile is_digit (nat_str n) = []"
  by (auto simp: takeWhile_eq_all_conv dest: nat_str_digits)

lemma scan_nat_str: "read_sign (dropWhile whitespaceAndNewline (nat_str n)) = (1, nat_str n)"
proof (cases "nat_str n")
  case (Cons c s)
  then have "is_digit c" using nat_str_digits [of c n] by simp
  then show ?thesis using digit_not_space [of c] by (simp add: Cons)
qed simp

lemma scan_int_nat_str [simp]: "scan_int (nat_str n) = int n"
  by (simp add: scan_int_def scan_nat_str)

lemma doubleValue_nat_str [simp]: "doubleValue (nat_str n) = of_nat n"
  by (simp add: doubleValue_def scan_nat_str)

section \<open>Dates\<close>

definition msidDateToTimestamp :: "nsdate \<Rightarrow> string" where
  "msidDateToTimestamp d = nat_str (nat (trunc_rat d))"

definition msidDateFromTimeStamp :: "string option \<Rightarrow> nsdate option" where
  "msidDateFromTimeStamp ts = map_option doubleValue ts"

definition msidIsDateBetween :: "nsdate \<Rightarrow> nsdate option \<Rightarrow> nsdate option \<Rightarrow> bool" where
  "msidIsDateBetween self dateBefore dateAfter =
     (case (dateBefore, dateAfter) of
        (Some b, Some a) \<Rightarrow> b < self \<and> self < a
      | _ \<Rightarrow> False)"

text \<open>
  The argument \<open>formatter\<close> is \<open>NSDateFormatter\<close> with the pattern
  \<open>yyyy-MM-dd HH:mm:ss.SSSS\<close>.
\<close>

definition msidDateFromRetryHeader ::
    "(string \<Rightarrow> nsdate option) \<Rightarrow> nsdate \<Rightarrow> string option \<Rightarrow> nsdate option" where
  "msidDateFromRetryHeader formatter now header =
     (case header of
        None \<Rightarrow> None
      | Some s \<Rightarrow> if intValue s > 0 then Some (now + of_int (intValue s)) else formatter s)"

lemma date_timestamp_roundtrip:
  "0 \<le> d \<Longrightarrow> msidDateFromTimeStamp (Some (msidDateToTimestamp d)) = Some (of_int (floor d))"
  by (simp add: msidDateFromTimeStamp_def msidDateToTimestamp_def trunc_rat_def)

section \<open>Typed lookups in a dictionary\<close>

definition msidObjectForKey :: "(string, nsobj) dict \<Rightarrow> string \<Rightarrow> nsclass \<Rightarrow> nsobj option" where
  "msidObjectForKey d k cls =
     (case dict_get d k of Some v \<Rightarrow> if class_of v = cls then Some v else None | None \<Rightarrow> None)"

definition msidStringObjectForKey :: "(string, nsobj) dict \<Rightarrow> string \<Rightarrow> string option" where
  "msidStringObjectForKey d k = Option.bind (msidObjectForKey d k NSStringClass) as_string"

datatype type_error = KeyMissing string | UnexpectedType string

definition msidAssertTypeIsOneOf ::
    "(string, nsobj) dict \<Rightarrow> nsclass list \<Rightarrow> string \<Rightarrow> bool \<Rightarrow> bool \<times> type_error option" where
  "msidAssertTypeIsOneOf d types k required =
     (case dict_get d k of
        None \<Rightarrow> if required then (False, Some (KeyMissing k)) else (True, None)
      | Some v \<Rightarrow> if class_of v \<in> set types then (True, None) else (False, Some (UnexpectedType k)))"

definition msidAssertType :: "(string, nsobj) dict \<Rightarrow> nsclass \<Rightarrow> string \<Rightarrow> bool \<Rightarrow> bool \<times> type_error option" where
  "msidAssertType d ty k required = msidAssertTypeIsOneOf d [ty] k required"

definition msidIntegerObjectForKey :: "(string, nsobj) dict \<Rightarrow> string \<Rightarrow> int" where
  "msidIntegerObjectForKey d k =
     (if fst (msidAssertTypeIsOneOf d [NSStringClass, NSNumberClass] k False) then
        (case dict_get d k of
           Some (NSStr s) \<Rightarrow> integerValue s
         | Some (NSNum q) \<Rightarrow> trunc_rat q
         | _ \<Rightarrow> 0)
      else 0)"

definition string_boolValue :: "string \<Rightarrow> bool" where
  "string_boolValue s =
     (case dropWhile (\<lambda>c. c = CHR ''0'') (snd (read_sign (dropWhile whitespaceAndNewline s))) of
        c # _ \<Rightarrow> c \<in> set ''YyTt123456789''
      | [] \<Rightarrow> False)"

definition msidBoolObjectForKey :: "(string, nsobj) dict \<Rightarrow> string \<Rightarrow> bool" where
  "msidBoolObjectForKey d k =
     (if fst (msidAssertTypeIsOneOf d [NSStringClass, NSNumberClass] k False) then
        (case dict_get d k of
           Some (NSStr s) \<Rightarrow> string_boolValue s
         | Some (NSNum q) \<Rightarrow> q \<noteq> 0
         | _ \<Rightarrow> False)
      else False)"

definition msidArrayOfIntegersForKey :: "(string, nsobj) dict \<Rightarrow> string \<Rightarrow> nsobj list option" where
  "msidArrayOfIntegersForKey d k =
     (case msidObjectForKey d k NSArrayClass of
        Some (NSArr xs) \<Rightarrow> if list_all (\<lambda>x. class_of x = NSNumberClass) xs then Some xs else None
      | _ \<Rightarrow> None)"

lemma msidStringObjectForKey_iff: "msidStringObjectForKey d k = Some s \<longleftrightarrow> dict_get d k = Some (NSStr s)"
  by (auto simp: msidStringObjectForKey_def msidObjectForKey_def Option.bind_eq_Some_conv split: option.splits)

definition msidDictionaryByRemovingFields :: "('k, 'v) dict \<Rightarrow> 'k list \<Rightarrow> ('k, 'v) dict" where
  "msidDictionaryByRemovingFields d fields = fold dict_del fields d"

definition msidDictionaryWithoutNulls :: "(string, nsobj) dict \<Rightarrow> (string, nsobj) dict" where
  "msidDictionaryWithoutNulls d =
     filter (\<lambda>(k, v). case as_string v of Some s \<Rightarrow> s \<noteq> ''(null)'' | None \<Rightarrow> False) d"

section \<open>JSON without nulls\<close>

fun msidNormalizedJSONDictionary :: "(string \<times> nsobj) list \<Rightarrow> (string \<times> nsobj) list"
and normalizedArray :: "nsobj list \<Rightarrow> nsobj list" where
  "msidNormalizedJSONDictionary [] = []"
| "msidNormalizedJSONDictionary ((k, v) # d) =
     (case v of
        NSDict e \<Rightarrow> (k, NSDict (msidNormalizedJSONDictionary e)) # msidNormalizedJSONDictionary d
      | NSArr xs \<Rightarrow> (k, NSArr (normalizedArray xs)) # msidNormalizedJSONDictionary d
      | NSNullObj \<Rightarrow> msidNormalizedJSONDictionary d
      | _ \<Rightarrow> (k, v) # msidNormalizedJSONDictionary d)"
| "normalizedArray [] = []"
| "normalizedArray (x # xs) =
     (case x of
        NSDict e \<Rightarrow> NSDict (msidNormalizedJSONDictionary e) # normalizedArray xs
      | NSNullObj \<Rightarrow> normalizedArray xs
      | _ \<Rightarrow> x # normalizedArray xs)"

text \<open>No null is left as the value of a key or as an element of an array that is such a value.\<close>

fun no_nulls_dict :: "(string \<times> nsobj) list \<Rightarrow> bool"
and no_nulls_array :: "nsobj list \<Rightarrow> bool" where
  "no_nulls_dict [] = True"
| "no_nulls_dict ((k, v) # d) =
     ((case v of NSDict e \<Rightarrow> no_nulls_dict e | NSArr xs \<Rightarrow> no_nulls_array xs | NSNullObj \<Rightarrow> False | _ \<Rightarrow> True) \<and>
      no_nulls_dict d)"
| "no_nulls_array [] = True"
| "no_nulls_array (x # xs) =
     ((case x of NSDict e \<Rightarrow> no_nulls_dict e | NSNullObj \<Rightarrow> False | _ \<Rightarrow> True) \<and> no_nulls_array xs)"

lemma normalized_no_nulls:
  "no_nulls_dict (msidNormalizedJSONDictionary d)" "no_nulls_array (normalizedArray xs)"
  by (induction d and xs rule: msidNormalizedJSONDictionary_normalizedArray.induct)
    (auto split: nsobj.split)

lemma normalized_of_no_nulls:
  "no_nulls_dict d \<Longrightarrow> msidNormalizedJSONDictionary d = d"
  "no_nulls_array xs \<Longrightarrow> normalizedArray xs = xs"
  by (induction d and xs rule: msidNormalizedJSONDictionary_normalizedArray.induct)
    (auto split: nsobj.splits)

section \<open>Equality of objects\<close>

text \<open>\<open>isEqual:\<close>, where dictionaries are compared without their order.\<close>

fun nsobj_isEqual :: "nsobj \<Rightarrow> nsobj \<Rightarrow> bool"
and entries_in :: "(string \<times> nsobj) list \<Rightarrow> (string \<times> nsobj) list \<Rightarrow> bool"
and arrays_equal :: "nsobj list \<Rightarrow> nsobj list \<Rightarrow> bool" where
  "nsobj_isEqual a b =
     (case a of
        NSDict d \<Rightarrow> (case b of NSDict e \<Rightarrow> length d = length e \<and> entries_in d e | _ \<Rightarrow> False)
      | NSArr xs \<Rightarrow> (case b of NSArr ys \<Rightarrow> arrays_equal xs ys | _ \<Rightarrow> False)
      | _ \<Rightarrow> a = b)"
| "entries_in [] e = True"
| "entries_in ((k, v) # d) e =
     ((case map_of e k of Some w \<Rightarrow> nsobj_isEqual v w | None \<Rightarrow> False) \<and> entries_in d e)"
| "arrays_equal [] ys = (ys = [])"
| "arrays_equal (x # xs) ys = (case ys of [] \<Rightarrow> False | y # ys' \<Rightarrow> nsobj_isEqual x y \<and> arrays_equal xs ys')"

declare nsobj_isEqual.simps [simp del]

definition isEqualToDictionary :: "(string, nsobj) dict option \<Rightarrow> (string, nsobj) dict option \<Rightarrow> bool" where
  "isEqualToDictionary a b =
     (case (a, b) of (Some d, Some e) \<Rightarrow> length d = length e \<and> entries_in d e | _ \<Rightarrow> False)"

section \<open>URL and form encodings\<close>

text \<open>
  Percent escapes of ASCII text. A malformed escape, or one of a byte above 127, has no ASCII
  decoding and the value is \<open>None\<close> (nil).
\<close>

definition hex_digits :: string where
  "hex_digits = ''0123456789ABCDEF''"

definition hex_val :: "char \<Rightarrow> nat option" where
  "hex_val c = map_of (zip (hex_digits @ ''abcdef'') ([0..<16] @ [10..<16])) c"

definition urlAllowed :: "char \<Rightarrow> bool" where
  "urlAllowed c \<longleftrightarrow>
     c \<in> set ''abcdefghijklmnopqrstuvwxyzABCDEFGHIJKLMNOPQRSTUVWXYZ0123456789-._~''"

definition percent :: "char \<Rightarrow> string" where
  "percent c = [CHR ''%'', hex_digits ! (of_char c div 16), hex_digits ! (of_char c mod 16)]"

definition msidURLEncode :: "string \<Rightarrow> string" where
  "msidURLEncode s = concat (map (\<lambda>c. if urlAllowed c then [c] else percent c) s)"

fun msidURLDecode :: "string \<Rightarrow> string option" where
  "msidURLDecode [] = Some []"
| "msidURLDecode (c # s) =
     (if c \<noteq> CHR ''%'' then map_option (Cons c) (msidURLDecode s)
      else case s of
        a # b # t \<Rightarrow>
          (case (hex_val a, hex_val b) of
             (Some h, Some l) \<Rightarrow>
               if h < 8 then map_option (Cons (char_of (16 * h + l))) (msidURLDecode t) else None
           | _ \<Rightarrow> None)
      | _ \<Rightarrow> None)"

fun space_to_plus :: "string \<Rightarrow> string" where
  "space_to_plus [] = []"
| "space_to_plus (c # s) =
     (if take 3 (c # s) = ''%20'' then CHR ''+'' # space_to_plus (drop 2 s) else c # space_to_plus s)"

definition msidWWWFormURLEncode :: "string \<Rightarrow> string" where
  "msidWWWFormURLEncode s = space_to_plus (msidURLEncode s)"

definition msidWWWFormURLDecode :: "string \<Rightarrow> string option" where
  "msidWWWFormURLDecode s =
     msidURLDecode (concat (map (\<lambda>c. if c = CHR ''+'' then ''%20'' else [c]) s))"

definition encoder :: "bool \<Rightarrow> string \<Rightarrow> string" where
  "encoder formEncode s = (if formEncode then msidWWWFormURLEncode s else msidURLEncode s)"

definition decoder :: "bool \<Rightarrow> string \<Rightarrow> string option" where
  "decoder isFormEncoded s = (if isFormEncoded then msidWWWFormURLDecode s else msidURLDecode s)"

text \<open>The block that appends one entry; a value's description is the value, a string.\<close>

definition addEncoded :: "bool \<Rightarrow> string option \<Rightarrow> string \<times> string \<Rightarrow> string option" where
  "addEncoded formEncode encodedString kv = (case kv of (key, val) \<Rightarrow>
     if msidIsStringNilOrBlank (Some key) then encodedString
     else Some ((case encodedString of None \<Rightarrow> [] | Some e \<Rightarrow> e @ ''&'') @
            encoder formEncode (msidTrimmedString key) @ ''='' @ encoder formEncode (msidTrimmedString val)))"

definition msidEncodeStringFromDictionary :: "(string, string) dict \<Rightarrow> bool \<Rightarrow> string option" where
  "msidEncodeStringFromDictionary d formEncode = foldl (addEncoded formEncode) None d"

fun componentsSeparatedBy :: "char \<Rightarrow> string \<Rightarrow> string list" where
  "componentsSeparatedBy c [] = [[]]"
| "componentsSeparatedBy c (x # s) =
     (if x = c then [] # componentsSeparatedBy c s
      else case componentsSeparatedBy c s of
             t # ts \<Rightarrow> (x # t) # ts
           | [] \<Rightarrow> [[x]])"

definition addQuery :: "bool \<Rightarrow> (string, string) dict \<Rightarrow> string \<Rightarrow> (string, string) dict" where
  "addQuery isFormEncoded queryDict query =
     (let elements = componentsSeparatedBy (CHR ''='') query;
          key = decoder isFormEncoded (msidTrimmedString (hd elements))
      in if msidIsStringNilOrBlank key then queryDict
         else if length elements > 2 then queryDict
         else dict_assign (the key)
                (if length elements = 2 then decoder isFormEncoded (msidTrimmedString (elements ! 1)) else Some [])
                queryDict)"

definition msidDictionaryFromURLEncodedString :: "string option \<Rightarrow> bool \<Rightarrow> (string, string) dict option" where
  "msidDictionaryFromURLEncodedString so isFormEncoded =
     (if msidIsStringNilOrBlank so then None
      else Some (foldl (addQuery isFormEncoded) [] (componentsSeparatedBy (CHR ''&'') (the so))))"

lemma hex_val_digit: "n < 16 \<Longrightarrow> hex_val (hex_digits ! n) = Some n"
proof -
  have "list_all (\<lambda>n. hex_val (hex_digits ! n) = Some n) [0..<16]" by code_simp
  then show "n < 16 \<Longrightarrow> hex_val (hex_digits ! n) = Some n" by (simp add: list_all_iff)
qed

definition ascii :: "string \<Rightarrow> bool" where
  "ascii s = list_all (\<lambda>c. of_char c < (128 :: nat)) s"

lemma of_char_less_16: "(of_char c :: nat) div 16 < 16"
  by (rule less_mult_imp_div_less) simp

lemma decode_percent:
  "(of_char c :: nat) < 128 \<Longrightarrow> msidURLDecode (percent c @ s) = map_option (Cons c) (msidURLDecode s)"
  by (simp add: percent_def hex_val_digit of_char_less_16 less_mult_imp_div_less)

lemma urlAllowed_percent: "\<not> urlAllowed (CHR ''%'')" "\<not> urlAllowed (CHR ''+'')"
  "\<not> urlAllowed (CHR ''&'')" "\<not> urlAllowed (CHR ''='')" "urlAllowed c \<Longrightarrow> \<not> whitespaceAndNewline c"
  by (auto simp: urlAllowed_def whitespaceAndNewline_def)

lemma hex_digit_allowed: "n < 16 \<Longrightarrow> urlAllowed (hex_digits ! n)"
proof -
  have "list_all (\<lambda>n. urlAllowed (hex_digits ! n)) [0..<16]" by code_simp
  then show "n < 16 \<Longrightarrow> urlAllowed (hex_digits ! n)" by (simp add: list_all_iff)
qed

lemma msidURLEncode_Cons: "msidURLEncode (c # s) = (if urlAllowed c then [c] else percent c) @ msidURLEncode s"
  by (simp add: msidURLEncode_def)

lemma msidURLDecode_encode: "ascii s \<Longrightarrow> msidURLDecode (msidURLEncode s) = Some s"
proof (induction s)
  case Nil
  then show ?case by (simp add: msidURLEncode_def)
next
  case (Cons c s)
  then have ih: "msidURLDecode (msidURLEncode s) = Some s" and c: "(of_char c :: nat) < 128"
    by (simp_all add: ascii_def)
  show ?case
  proof (cases "urlAllowed c")
    case True
    then have "c \<noteq> CHR ''%''" using urlAllowed_percent by auto
    then show ?thesis using True ih by (simp add: msidURLEncode_Cons)
  next
    case False
    then show ?thesis using decode_percent [OF c] ih by (simp add: msidURLEncode_Cons)
  qed
qed

lemma percent_chars:
  assumes "x \<in> set (percent c)"
  shows "x = CHR ''%'' \<or> urlAllowed x"
proof -
  have "(of_char c :: nat) mod 16 < 16" by simp
  with assms show ?thesis
    by (auto simp: percent_def intro: hex_digit_allowed of_char_less_16)
qed

lemma msidURLEncode_chars: "x \<in> set (msidURLEncode s) \<Longrightarrow> x = CHR ''%'' \<or> urlAllowed x"
  by (induction s) (auto simp: msidURLEncode_Cons dest: percent_chars split: if_splits, simp add: msidURLEncode_def)

lemma expand_space_to_plus:
  "CHR ''+'' \<notin> set t \<Longrightarrow>
   concat (map (\<lambda>c. if c = CHR ''+'' then ''%20'' else [c]) (space_to_plus t)) = t"
proof (induction t rule: space_to_plus.induct)
  case (2 c s)
  show ?case
  proof (cases "take 3 (c # s) = ''%20''")
    case True
    then have "c # s = ''%20'' @ drop 2 s" by (metis append_take_drop_id drop_Suc_Cons numeral_3_eq_3 numeral_2_eq_2)
    moreover have "CHR ''+'' \<notin> set (drop 2 s)" using 2(3) by (auto dest: in_set_dropD)
    ultimately show ?thesis using 2(1) True by simp
  qed (use 2 in auto)
qed simp

lemma space_to_plus_chars: "x \<in> set (space_to_plus t) \<Longrightarrow> x = CHR ''+'' \<or> x \<in> set t"
  by (induction t rule: space_to_plus.induct) (auto split: if_splits dest: in_set_dropD)

lemma msidWWWFormURLDecode_encode:
  assumes "ascii s"
  shows "msidWWWFormURLDecode (msidWWWFormURLEncode s) = Some s"
proof -
  have "CHR ''+'' \<notin> set (msidURLEncode s)" using msidURLEncode_chars urlAllowed_percent by fastforce
  then show ?thesis
    by (simp add: msidWWWFormURLDecode_def msidWWWFormURLEncode_def expand_space_to_plus msidURLDecode_encode assms)
qed

text \<open>An encoded key or value holds neither a separator nor white space.\<close>

definition plain :: "string \<Rightarrow> bool" where
  "plain s \<longleftrightarrow> list_all (\<lambda>c. c \<noteq> CHR ''&'' \<and> c \<noteq> CHR ''='' \<and> \<not> whitespaceAndNewline c) s"

lemma plain_url: "plain (msidURLEncode s)"
  unfolding plain_def list_all_iff
  using msidURLEncode_chars [of _ s] urlAllowed_percent by (fastforce simp: whitespaceAndNewline_def)

lemma plain_form: "plain (msidWWWFormURLEncode s)"
proof -
  have "plain (CHR ''+'' # msidURLEncode s)"
    using plain_url [of s] by (simp add: plain_def whitespaceAndNewline_def)
  then show ?thesis
    unfolding plain_def list_all_iff msidWWWFormURLEncode_def using space_to_plus_chars by fastforce
qed

lemma components_append:
  "c \<notin> set s \<Longrightarrow> componentsSeparatedBy c (s @ c # t) = s # componentsSeparatedBy c t"
  by (induction s) auto

lemma components_single: "c \<notin> set s \<Longrightarrow> componentsSeparatedBy c s = [s]"
  by (induction s) auto

lemma trimmed_plain: "plain s \<Longrightarrow> msidTrimmedString s = s"
proof -
  assume p: "plain s"
  have "dropWhile whitespaceAndNewline t = t" if "set t \<subseteq> set s" for t
    using that p by (cases t) (auto simp: plain_def list_all_iff)
  from this [of s] this [of "rev s"] show ?thesis by (simp add: msidTrimmedString_def)
qed

definition form_entry_ok :: "string \<times> string \<Rightarrow> bool" where
  "form_entry_ok kv = (case kv of (k, v) \<Rightarrow>
     ascii k \<and> ascii v \<and> msidTrimmedString k = k \<and> msidTrimmedString v = v \<and> \<not> msidIsStringNilOrBlank (Some k))"

definition encoded_entry :: "bool \<Rightarrow> string \<times> string \<Rightarrow> string" where
  "encoded_entry form kv = (case kv of (k, v) \<Rightarrow> encoder form k @ ''='' @ encoder form v)"

lemma plain_encoder: "plain (encoder form s)"
  by (simp add: encoder_def plain_url plain_form)

lemma decoder_encoder: "ascii s \<Longrightarrow> decoder form (encoder form s) = Some s"
  by (simp add: decoder_def encoder_def msidWWWFormURLDecode_encode msidURLDecode_encode)

lemma addQuery_encoded:
  assumes "form_entry_ok (k, v)"
  shows "addQuery form d (encoded_entry form (k, v)) = dict_put k v d"
proof -
  have ne: "CHR ''='' \<notin> set (encoder form s)" for s
    using plain_encoder [of form s] by (auto simp: plain_def list_all_iff)
  have "componentsSeparatedBy (CHR ''='') (encoded_entry form (k, v)) = [encoder form k, encoder form v]"
    by (simp add: encoded_entry_def components_append [OF ne] components_single [OF ne])
  then show ?thesis
    using assms by (simp add: addQuery_def form_entry_ok_def trimmed_plain [OF plain_encoder]
        decoder_encoder dict_assign_def)
qed

lemma encode_dict_step:
  "list_all form_entry_ok d \<Longrightarrow>
   foldl (addEncoded form) (Some e) d = Some (e @ concat (map (\<lambda>kv. CHR ''&'' # encoded_entry form kv) d))"
  by (induction d arbitrary: e) (auto simp: form_entry_ok_def encoded_entry_def addEncoded_def)

lemma encode_dict:
  assumes "list_all form_entry_ok (kv # d)"
  shows "msidEncodeStringFromDictionary (kv # d) form =
    Some (encoded_entry form kv @ concat (map (\<lambda>kv. CHR ''&'' # encoded_entry form kv) d))"
proof -
  have "addEncoded form None kv = Some (encoded_entry form kv)"
    using assms by (cases kv) (simp add: addEncoded_def form_entry_ok_def encoded_entry_def)
  then show ?thesis using assms encode_dict_step [of d form "encoded_entry form kv"]
    by (simp add: msidEncodeStringFromDictionary_def)
qed

lemma components_entries:
  assumes "\<And>kv. CHR ''&'' \<notin> set (f kv)"
  shows "componentsSeparatedBy (CHR ''&'') (f kv @ concat (map (\<lambda>kv. CHR ''&'' # f kv) d)) = f kv # map f d"
  by (induction d arbitrary: kv) (simp_all add: components_append components_single assms)

lemma foldl_put_fresh:
  "distinct (map fst (e @ d)) \<Longrightarrow> foldl (\<lambda>m (k, v). dict_put k v m) e d = e @ d"
proof (induction d arbitrary: e)
  case (Cons kv d)
  obtain k v where kv: "kv = (k, v)" by (cases kv)
  have "dict_put k v e = e @ [(k, v)]" using Cons.prems
    by (simp add: kv) (induction e, auto)
  then show ?case using Cons by (simp add: kv)
qed simp

lemma form_dictionary_roundtrip:
  assumes ok: "list_all form_entry_ok d" and dist: "distinct (dict_keys d)" and ne: "d \<noteq> []"
  shows "\<exists>s. msidEncodeStringFromDictionary d form = Some s \<and>
    msidDictionaryFromURLEncodedString (Some s) form = Some d"
proof -
  obtain kv e where d: "d = kv # e" using ne by (cases d) auto
  let ?s = "encoded_entry form kv @ concat (map (\<lambda>kv. CHR ''&'' # encoded_entry form kv) e)"
  have amp: "CHR ''&'' \<notin> set (encoded_entry form kv)" for kv
    using plain_encoder [of form "fst kv"] plain_encoder [of form "snd kv"]
    by (cases kv) (auto simp: plain_def list_all_iff encoded_entry_def)
  have "CHR ''='' \<in> set ?s" by (cases kv) (simp add: encoded_entry_def)
  moreover have "\<not> whitespaceAndNewline (CHR ''='')" by code_simp
  ultimately have nb: "\<not> msidIsStringNilOrBlank (Some ?s)"
    unfolding msidIsStringNilOrBlank_def option.case list_all_iff by blast
  have "foldl (addQuery form) m (map (encoded_entry form) xs) = foldl (\<lambda>m (k, v). dict_put k v m) m xs"
    if "list_all form_entry_ok xs" for m xs
    using that by (induction xs arbitrary: m) (auto simp: addQuery_encoded)
  from this [OF ok, of "[]"] have "foldl (addQuery form) [] (map (encoded_entry form) d) = d"
    using foldl_put_fresh [of "[]" d] dist by simp
  then have "msidDictionaryFromURLEncodedString (Some ?s) form = Some d"
    using nb components_entries [where f = "encoded_entry form" and kv = kv and d = e, OF amp]
    by (simp only: msidDictionaryFromURLEncodedString_def if_False option.sel d list.map)
  then show ?thesis using encode_dict ok unfolding d by blast
qed

section \<open>Hexadecimal text\<close>

text \<open>
  Bytes are numbers below 256. The empty data has no bytes pointer, and its text is nil.
  \<open>strtol\<close> stops at a second character that is no hexadecimal digit.
\<close>

definition hex_lower :: "nat \<Rightarrow> char" where
  "hex_lower n = ''0123456789abcdef'' ! n"

definition msidHexStringFromData :: "nat list \<Rightarrow> string option" where
  "msidHexStringFromData bytes =
     (if bytes = [] then None
      else Some (concat (map (\<lambda>b. [hex_lower (b div 16), hex_lower (b mod 16)]) bytes)))"

definition hex_start :: "char \<Rightarrow> bool" where
  "hex_start c \<longleftrightarrow> c \<in> set ''0123456789abcdef''"

definition strtol_byte :: "char \<Rightarrow> char \<Rightarrow> nat" where
  "strtol_byte a b = (case (hex_val a, hex_val b) of
     (Some h, Some l) \<Rightarrow> 16 * h + l
   | (Some h, None) \<Rightarrow> h
   | _ \<Rightarrow> 0)"

fun msidHexData :: "string \<Rightarrow> nat list" where
  "msidHexData (c # d # s) =
     (if \<not> hex_start c then msidHexData (d # s) else strtol_byte c d # msidHexData s)"
| "msidHexData _ = []"

lemma hex_lower_ok: "n < 16 \<Longrightarrow> hex_start (hex_lower n) \<and> hex_val (hex_lower n) = Some n"
proof -
  have "list_all (\<lambda>n. hex_start (hex_lower n) \<and> hex_val (hex_lower n) = Some n) [0..<16]" by code_simp
  then show "n < 16 \<Longrightarrow> hex_start (hex_lower n) \<and> hex_val (hex_lower n) = Some n" by (simp add: list_all_iff)
qed

lemma hex_roundtrip:
  assumes "list_all (\<lambda>b. b < 256) bytes" and "bytes \<noteq> []"
  shows "map_option msidHexData (msidHexStringFromData bytes) = Some bytes"
proof -
  have "msidHexData (concat (map (\<lambda>b. [hex_lower (b div 16), hex_lower (b mod 16)]) bytes)) = bytes"
    using assms(1)
  proof (induction bytes)
    case (Cons b bytes)
    then have "b div 16 < 16" "b mod 16 < 16" by (simp_all add: less_mult_imp_div_less)
    then show ?case using Cons by (simp add: hex_lower_ok strtol_byte_def)
  qed simp
  with assms(2) show ?thesis by (simp add: msidHexStringFromData_def)
qed

section \<open>Properties\<close>

text \<open>
  A dictionary of ASCII strings, with trimmed keys and values and no blank key, that is encoded
  for a URL or a form body is parsed back to itself, in the same order.
\<close>

theorem url_encoding_roundtrip:
  assumes "list_all form_entry_ok d" and "distinct (dict_keys d)" and "d \<noteq> []"
  shows "\<exists>s. msidEncodeStringFromDictionary d form = Some s \<and>
    msidDictionaryFromURLEncodedString (Some s) form = Some d"
  using assms by (rule form_dictionary_roundtrip)

theorem url_encoding_roundtrip_witness:
  "\<exists>s. msidEncodeStringFromDictionary [(''scope'', ''user.read openid''), (''a=b'', ''1+1&2'')] True = Some s \<and>
    msidDictionaryFromURLEncodedString (Some s) True = Some [(''scope'', ''user.read openid''), (''a=b'', ''1+1&2'')]"
proof -
  have "list_all form_entry_ok [(''scope'', ''user.read openid''), (''a=b'', ''1+1&2'')]" by code_simp
  from url_encoding_roundtrip [OF this, of True] show ?thesis by simp
qed

text \<open>
  Hexadecimal text is a faithful form of the bytes: what \<open>msidHexStringFromData:\<close> prints,
  \<open>msidHexData\<close> reads back.
\<close>

theorem hex_text_roundtrip:
  assumes "list_all (\<lambda>b. b < 256) bytes" and "bytes \<noteq> []"
  shows "map_option msidHexData (msidHexStringFromData bytes) = Some bytes"
  using assms by (rule hex_roundtrip)

theorem hex_text_roundtrip_witness:
  "map_option msidHexData (msidHexStringFromData [0, 255, 18]) = Some [0, 255, 18]"
  by (rule hex_text_roundtrip) simp_all

text \<open>
  The normalised JSON has no null as the value of a key or as an element of an array that is
  such a value, at any depth, and a dictionary without nulls is left as it is.
\<close>

theorem normalized_json:
  "no_nulls_dict (msidNormalizedJSONDictionary d) \<and>
   msidNormalizedJSONDictionary (msidNormalizedJSONDictionary d) = msidNormalizedJSONDictionary d \<and>
   (no_nulls_dict e \<longrightarrow> msidNormalizedJSONDictionary e = e)"
  by (simp add: normalized_no_nulls normalized_of_no_nulls)

theorem normalized_json_witness:
  "msidNormalizedJSONDictionary [(''k'', NSArr [NSDict [(''a'', NSNum 1)], NSStr ''x''])] =
    [(''k'', NSArr [NSDict [(''a'', NSNum 1)], NSStr ''x''])]"
  using normalized_json [of "[]" "[(''k'', NSArr [NSDict [(''a'', NSNum 1)], NSStr ''x''])]"] by simp

end
