(* ===== verification/Thumbprint.thy ===== *)
theory Thumbprint
  imports Foundation "HOL-Library.List_Lexorder" "HOL-Library.Char_ord" "HOL-Library.Word"
    "HOL-Library.Multiset"
begin

text \<open>
  The request thumbprints that key the throttling cache
  (\<open>throttling/thumbprint_calculation/MSIDThumbprintCalculator.m\<close>) and the refresh token
  requests that are identified by them (\<open>network/request/MSIDTokenRequest.m\<close>,
  \<open>MSIDRefreshTokenGrantRequest.m\<close>, \<open>MSIDAADRefreshTokenGrantRequest.m\<close>,
  \<open>MSIDAADV1RefreshTokenGrantRequest.m\<close>). \<open>-[NSString hash]\<close> is the argument \<open>str_hash\<close>.
\<close>

section \<open>The calculator\<close>

definition thumbprint_entry :: "string list \<Rightarrow> bool \<Rightarrow> string \<times> nsobj \<Rightarrow> string option" where
  "thumbprint_entry filteringSet shouldIncludeKeys kv = (case kv of (k, v) \<Rightarrow>
     (case v of
        NSStr s \<Rightarrow> if (k \<in> set filteringSet) = shouldIncludeKeys then Some (k @ '':'' @ s) else None
      | _ \<Rightarrow> None))"

text \<open>\<open>caseInsensitiveCompare:\<close> on ASCII compares the lower case forms; equal elements keep
  their order.\<close>

definition sortRequestParameters :: "(string, nsobj) dict \<Rightarrow> string list \<Rightarrow> bool \<Rightarrow> string list" where
  "sortRequestParameters requestParameters filteringSet shouldIncludeKeys =
     sort_key lowercaseString
       (List.map_filter (thumbprint_entry filteringSet shouldIncludeKeys) requestParameters)"

definition thumbprint_hash :: "(string \<Rightarrow> 64 word) \<Rightarrow> string list \<Rightarrow> 64 word" where
  "thumbprint_hash str_hash xs = foldl (\<lambda>h s. h * 31 + str_hash s) 0 xs"

definition calculateThumbprint ::
    "(string \<Rightarrow> 64 word) \<Rightarrow> (string, nsobj) dict \<Rightarrow> string list \<Rightarrow> bool \<Rightarrow> string option" where
  "calculateThumbprint str_hash requestParameters filteringSet shouldIncludeKeys =
     (if requestParameters = [] \<or> filteringSet = [] then None
      else let h = thumbprint_hash str_hash (sortRequestParameters requestParameters filteringSet shouldIncludeKeys)
           in if h = 0 then None else Some (nat_str (unat h)))"

section \<open>The refresh token requests\<close>

definition fullRequestThumbprintExcludeParams :: "string list" where
  "fullRequestThumbprintExcludeParams = [''grant_type'']"

definition strictRequestThumbprintIncludeParams :: "string list" where
  "strictRequestThumbprintIncludeParams = [''client_id'', ''endpointUrl'', ''refresh_token'', ''scope'']"

definition tokenRequestParameters :: "(string, nsobj) dict \<Rightarrow> string \<Rightarrow> string option \<Rightarrow> (string, nsobj) dict" where
  "tokenRequestParameters schemeParameters clientId scope =
     (let parameters = dict_assign ''scope'' (map_option NSStr scope) (dict_put ''client_id'' (NSStr clientId) [])
      in if length schemeParameters > 0 then addEntriesFromDictionary parameters schemeParameters else parameters)"

definition refreshTokenGrantParameters ::
    "(string, nsobj) dict \<Rightarrow> string \<Rightarrow> string option \<Rightarrow> string \<Rightarrow> string option \<Rightarrow>
       (string, nsobj) dict option \<Rightarrow> (string, nsobj) dict" where
  "refreshTokenGrantParameters schemeParameters clientId scope refreshToken redirectUri extraParameters =
     (let p0 = tokenRequestParameters schemeParameters clientId scope;
          p1 = dict_put ''grant_type'' (NSStr ''refresh_token'') p0;
          p2 = dict_put ''refresh_token'' (NSStr refreshToken) p1;
          p3 = dict_assign ''redirect_uri'' (map_option NSStr redirectUri) p2
      in (case extraParameters of None \<Rightarrow> p3 | Some e \<Rightarrow> addEntriesFromDictionary p3 e))"

definition aadRefreshTokenGrantParameters ::
    "(string, nsobj) dict \<Rightarrow> string option \<Rightarrow> string option \<Rightarrow> (string, nsobj) dict" where
  "aadRefreshTokenGrantParameters base claims enrollmentId =
     dict_assign ''microsoft_enrollment_id'' (map_option NSStr enrollmentId)
       (dict_assign ''claims'' (map_option NSStr claims) (dict_put ''client_info'' (NSNum 1) base))"

definition aadV1RefreshTokenGrantParameters :: "(string, nsobj) dict \<Rightarrow> string \<Rightarrow> (string, nsobj) dict" where
  "aadV1RefreshTokenGrantParameters base resource = dict_put ''resource'' (NSStr resource) base"

text \<open>The endpoint is an \<open>NSURL\<close>, and goes into the thumbprint's dictionary as one.\<close>

definition thumbprintParameters :: "(string, nsobj) dict \<Rightarrow> string \<Rightarrow> (string, nsobj) dict" where
  "thumbprintParameters parameters endpoint = dict_put ''endpointUrl'' (NSURLObj endpoint) parameters"

definition fullRequestThumbprint :: "(string \<Rightarrow> 64 word) \<Rightarrow> (string, nsobj) dict \<Rightarrow> string \<Rightarrow> string option" where
  "fullRequestThumbprint str_hash parameters endpoint =
     calculateThumbprint str_hash (thumbprintParameters parameters endpoint) fullRequestThumbprintExcludeParams False"

definition strictRequestThumbprint :: "(string \<Rightarrow> 64 word) \<Rightarrow> (string, nsobj) dict \<Rightarrow> string \<Rightarrow> string option" where
  "strictRequestThumbprint str_hash parameters endpoint =
     calculateThumbprint str_hash (thumbprintParameters parameters endpoint) strictRequestThumbprintIncludeParams True"

section \<open>Lemmas\<close>

lemma mset_map_filter: "mset (List.map_filter f xs) = Multiset.image_mset (the \<circ> f) (filter_mset (\<lambda>x. f x \<noteq> None) (mset xs))"
  by (induction xs) (auto simp: List.map_filter_simps split: option.split)

text \<open>Sorting by case makes the order of enumeration irrelevant when no two entries differ only
  in case.\<close>

lemma sort_key_unique:
  fixes f :: "'a \<Rightarrow> 'b :: linorder"
  assumes "mset xs = mset ys" and "inj_on f (set xs)"
  shows "sort_key f xs = sort_key f ys"
proof (rule properties_for_sort_key)
  show "mset (sort_key f ys) = mset xs" using assms(1) by simp
  show "sorted (map f (sort_key f ys))" by simp
  fix k assume k: "k \<in> set (sort_key f ys)"
  have sub: "set (sort_key f ys) = set xs" using assms(1) by (metis mset_eq_setD set_sort)
  have same: "f k = f x \<longleftrightarrow> k = x" if "x \<in> set xs" for x
    using assms(2) k sub that by (auto dest: inj_onD)
  have "filter (\<lambda>x. f k = f x) zs = replicate (count (mset zs) k) k" if "set zs \<subseteq> set xs" for zs
    using that by (induction zs) (auto simp: same)
  then show "filter (\<lambda>x. f k = f x) (sort_key f ys) = filter (\<lambda>x. f k = f x) xs"
    using sub assms(1) by simp
qed

lemma thumbprint_order:
  assumes "mset d = mset e"
    and "inj_on lowercaseString (set (List.map_filter (thumbprint_entry fs inc) d))"
  shows "calculateThumbprint str_hash d fs inc = calculateThumbprint str_hash e fs inc"
proof -
  have "mset (List.map_filter (thumbprint_entry fs inc) d) = mset (List.map_filter (thumbprint_entry fs inc) e)"
    by (simp only: mset_map_filter assms(1))
  then have "sortRequestParameters d fs inc = sortRequestParameters e fs inc"
    unfolding sortRequestParameters_def using assms(2) by (rule sort_key_unique)
  moreover have "d = [] \<longleftrightarrow> e = []" using assms(1) by (metis mset_zero_iff)
  ultimately show ?thesis by (simp add: calculateThumbprint_def)
qed

lemma thumbprint_entry_url [simp]: "thumbprint_entry fs inc (k, NSURLObj u) = None"
  by (simp add: thumbprint_entry_def)

lemma map_filter_put_url:
  "List.map_filter (thumbprint_entry fs inc) (dict_put k (NSURLObj u) d) =
   List.map_filter (thumbprint_entry fs inc) (dict_put k (NSURLObj w) d)"
  by (induction d) (auto simp: List.map_filter_simps split: option.split)

lemma thumbprint_put_url:
  "calculateThumbprint str_hash (dict_put k (NSURLObj u) d) fs inc =
   calculateThumbprint str_hash (dict_put k (NSURLObj w) d) fs inc"
proof -
  have "dict_put k v d \<noteq> []" for v by (cases d) auto
  then show ?thesis by (simp add: calculateThumbprint_def sortRequestParameters_def map_filter_put_url [of fs inc k u d w])
qed

section \<open>Properties\<close>

text \<open>
  A thumbprint does not depend on the order in which the dictionary of parameters is
  enumerated, as long as no two of the selected \<open>key:value\<close> texts differ only in case.
\<close>

theorem thumbprint_order_independent:
  assumes "mset d = mset e"
    and "inj_on lowercaseString (set (List.map_filter (thumbprint_entry fs inc) d))"
  shows "calculateThumbprint str_hash d fs inc = calculateThumbprint str_hash e fs inc"
  using assms by (rule thumbprint_order)

theorem thumbprint_order_independent_witness:
  "calculateThumbprint (\<lambda>s. of_nat (length s)) [(''b'', NSStr ''1''), (''a'', NSStr ''22'')] [''x''] False =
   calculateThumbprint (\<lambda>s. of_nat (length s)) [(''a'', NSStr ''22''), (''b'', NSStr ''1'')] [''x''] False"
proof (rule thumbprint_order_independent)
  have "List.map_filter (thumbprint_entry [''x''] False) [(''b'', NSStr ''1''), (''a'', NSStr ''22'')] = [''b:1'', ''a:22'']"
    by code_simp
  moreover have "lowercaseString ''b:1'' \<noteq> lowercaseString ''a:22''" by code_simp
  ultimately show "inj_on lowercaseString (set (List.map_filter (thumbprint_entry [''x''] False)
      [(''b'', NSStr ''1''), (''a'', NSStr ''22'')]))" by (simp add: inj_on_def)
qed simp

text \<open>
  Neither thumbprint of a refresh token request depends on its endpoint: the calculator skips
  values that are no strings, and the endpoint is stored as a URL object. Requests to two
  authorities that agree in the other parameters throttle each other.
\<close>

theorem thumbprints_ignore_endpoint:
  "fullRequestThumbprint str_hash parameters endpoint1 = fullRequestThumbprint str_hash parameters endpoint2 \<and>
   strictRequestThumbprint str_hash parameters endpoint1 = strictRequestThumbprint str_hash parameters endpoint2"
  unfolding fullRequestThumbprint_def strictRequestThumbprint_def thumbprintParameters_def
  by (intro conjI thumbprint_put_url)

end
