(* ===== verification/ErrorCodes.thy ===== *)
theory ErrorCodes
  imports Foundation
begin

text \<open>
  \<open>MSIDError.h\<close>, \<open>MSIDError.m\<close> and \<open>MSIDDefaultErrorConverter.m\<close>: the error codes, the keys of an
  error's user info, the mapping from OAuth errors to codes, the list of the codes of each domain
  and the errors the library creates. A code is an \<open>NSInteger\<close>; the enumeration is the table of its
  names and values, one definition per section of the header. What is proved: no two codes share a
  value or a printed name, no code belongs to two domains, and every code the OAuth mapping can
  answer is a declared one.
\<close>

section \<open>The error codes and the keys of the user info\<close>

definition general_error_codes :: "(string \<times> int) list" where
  "general_error_codes = [
    (''MSIDErrorInternal'', - 51100),
    (''MSIDErrorInvalidInternalParameter'', - 51111),
    (''MSIDErrorInvalidDeveloperParameter'', - 51112),
    (''MSIDErrorMissingAccountParameter'', - 51113),
    (''MSIDErrorUnsupportedFunctionality'', - 51114),
    (''MSIDErrorInteractionRequired'', - 51115),
    (''MSIDErrorServerNonHttpsRedirect'', - 51116),
    (''MSIDErrorMismatchedAccount'', - 51117),
    (''MSIDErrorRedirectSchemeNotRegistered'', - 51118),
    (''MSIDErrorInvalidRedirectURI'', - 51119),
    (''MSIDErrorBoundAppRefreshTokenRedemptionError'', - 51120)]"

definition cache_error_codes :: "(string \<times> int) list" where
  "cache_error_codes = [
    (''MSIDErrorCacheMultipleUsers'', - 51200),
    (''MSIDErrorCacheBadFormat'', - 51201)]"

definition server_error_codes :: "(string \<times> int) list" where
  "server_error_codes = [
    (''MSIDErrorServerOauth'', - 51400),
    (''MSIDErrorServerInvalidResponse'', - 51401),
    (''MSIDErrorServerRefreshTokenRejected'', - 514102),
    (''MSIDErrorServerInvalidRequest'', - 51410),
    (''MSIDErrorServerInvalidClient'', - 51411),
    (''MSIDErrorServerInvalidGrant'', - 51412),
    (''MSIDErrorServerInvalidScope'', - 51413),
    (''MSIDErrorServerUnauthorizedClient'', - 51414),
    (''MSIDErrorServerDeclinedScopes'', - 51415),
    (''MSIDErrorServerAccessDenied'', - 51416),
    (''MSIDErrorServerError'', - 51417),
    (''MSIDErrorServerInvalidState'', - 51420),
    (''MSIDErrorServerProtectionPoliciesRequired'', - 51430),
    (''MSIDErrorAuthorizationFailed'', - 51440)]"

definition http_error_codes :: "(string \<times> int) list" where
  "http_error_codes = [
    (''MSIDErrorServerUnhandledResponse'', - 51500),
    (''MSIDErrorUnexpectedHttpResponse'', - 51501)]"

definition authority_error_codes :: "(string \<times> int) list" where
  "authority_error_codes = [
    (''MSIDErrorAuthorityValidation'', - 51600)]"

definition interactive_error_codes :: "(string \<times> int) list" where
  "interactive_error_codes = [
    (''MSIDErrorUserCancel'', - 51700),
    (''MSIDErrorSessionCanceledProgrammatically'', - 51701),
    (''MSIDErrorInteractiveSessionStartFailure'', - 51702),
    (''MSIDErrorInteractiveSessionAlreadyRunning'', - 51710),
    (''MSIDErrorNoMainViewController'', - 51720),
    (''MSIDErrorAttemptToOpenURLFromExtension'', - 51730),
    (''MSIDErrorUINotSupportedInExtension'', - 51731),
    (''MSIDErrorInsufficientDeviceStrength'', - 51732),
    (''MSIDErrorMDMEnrollmentCompletedNeedsRetry'', - 51733),
    (''MSIDErrorInvalidASWebAuthenticationURL'', - 51734)]"

definition broker_error_codes :: "(string \<times> int) list" where
  "broker_error_codes = [
    (''MSIDErrorBrokerResponseNotReceived'', - 51800),
    (''MSIDErrorBrokerNoResumeStateFound'', - 51801),
    (''MSIDErrorBrokerBadResumeStateFound'', - 51802),
    (''MSIDErrorBrokerMismatchedResumeState'', - 51803),
    (''MSIDErrorBrokerResponseHashMissing'', - 51804),
    (''MSIDErrorBrokerCorruptedResponse'', - 51805),
    (''MSIDErrorBrokerResponseDecryptionFailed'', - 51806),
    (''MSIDErrorBrokerResponseHashMismatch'', - 51807),
    (''MSIDErrorBrokerKeyFailedToCreate'', - 51808),
    (''MSIDErrorBrokerKeyNotFound'', - 51809),
    (''MSIDErrorWorkplaceJoinRequired'', - 51810),
    (''MSIDErrorBrokerUnknown'', - 51811),
    (''MSIDErrorBrokerApplicationTokenWriteFailed'', - 51812),
    (''MSIDErrorBrokerApplicationTokenReadFailed'', - 51813),
    (''MSIDErrorBrokerNotAvailable'', - 51814)]"

definition extension_error_codes :: "(string \<times> int) list" where
  "extension_error_codes = [
    (''MSIDErrorSSOExtensionUnexpectedError'', - 51815),
    (''MSIDErrorJITLinkServerConfirmationTimeout'', - 51816),
    (''MSIDErrorJITLinkServerConfirmationError'', - 51817),
    (''MSIDErrorJITLinkAcquireTokenError'', - 51818),
    (''MSIDErrorJITLinkTokenAcquiredWrongTenant'', - 51819),
    (''MSIDErrorJITLinkError'', - 51820),
    (''MSIDErrorJITComplianceCheckResultNotCompliant'', - 51821),
    (''MSIDErrorJITComplianceCheckResultTimeout'', - 51822),
    (''MSIDErrorJITComplianceCheckResultUnknown'', - 51823),
    (''MSIDErrorJITComplianceCheckInvalidLinkPayload'', - 51824),
    (''MSIDErrorJITComplianceCheckCreateController'', - 51825),
    (''MSIDErrorJITLinkConfigNotFound'', - 51826),
    (''MSIDErrorJITInvalidLinkTokenConfig'', - 51827),
    (''MSIDErrorJITWPJDeviceRegistrationFailed'', - 51828),
    (''MSIDErrorJITWPJAccountIdentifierNil'', - 51829),
    (''MSIDErrorJITWPJAcquireTokenError'', - 51830),
    (''MSIDErrorJITRetryRequired'', - 51831),
    (''MSIDErrorJITUnknownStatusWebCP'', - 51832),
    (''MSIDErrorJITTroubleshootingRequired'', - 51833),
    (''MSIDErrorJITTroubleshootingCreateController'', - 51834),
    (''MSIDErrorJITTroubleshootingResultUnknown'', - 51835),
    (''MSIDErrorJITTroubleshootingAcquireToken'', - 51836),
    (''MSIDErrorDeviceNotPSSORegistered'', - 51837),
    (''MSIDErrorPSSOKeyIdMismatch'', - 51838),
    (''MSIDErrorJITErrorHandlingConfigNotFound'', - 51839),
    (''MSIDErrorPSSOBiometricPolicyMismatch'', - 51840),
    (''MSIDErrorPSSOInvalidPasskeyExtension'', - 51841),
    (''MSIDErrorPSSOSaveLoginConfigFailure'', - 51842),
    (''MSIDErrorPSSOPasskeyLAError'', - 51843),
    (''MSIDErrorPSSOBiometricsNotEnrolled'', - 51844),
    (''MSIDErrorPSSOBiometricsNotAvailable'', - 51845)]"

definition other_error_codes :: "(string \<times> int) list" where
  "other_error_codes = [
    (''MSIDErrorThrottleCacheNoRecord'', - 51900),
    (''MSIDErrorThrottleCacheInvalidSignature'', - 51901),
    (''MSIDErrorBrokerAppIsInactive'', - 51902),
    (''MSIDErrorBrokerAppIsInBackground'', - 51903),
    (''MSIDErrorBrokerXpcUnexpectedError'', - 52001),
    (''MSIDErrorServerInvalidRequestResetPasswordRequired'', - 50142)]"

definition error_info_keys :: "(string \<times> string) list" where
  "error_info_keys = [
    (''MSIDErrorDescriptionKey'', ''MSIDErrorDescriptionKey''),
    (''MSIDOAuthErrorKey'', ''MSIDOAuthErrorKey''),
    (''MSIDOAuthSubErrorKey'', ''MSIDOAuthSubErrorKey''),
    (''MSIDOAuthSubErrorDescriptionKey'', ''MSIDOAuthSubErrorDescriptionKey''),
    (''MSIDCorrelationIdKey'', ''MSIDCorrelationIdKey''),
    (''MSIDHTTPHeadersKey'', ''MSIDHTTPHeadersKey''),
    (''MSIDHTTPResponseCodeKey'', ''MSIDHTTPResponseCodeKey''),
    (''MSIDHTTPTruncatedResponseStringKey'', ''MSIDHTTPResponseStringKey''),
    (''MSIDUserDisplayableIdkey'', ''MSIDUserDisplayableIdkey''),
    (''MSIDHomeAccountIdkey'', ''MSIDHomeAccountIdkey''),
    (''MSIDTokenProtectionRequired'', ''MSIDTokenProtectionRequired''),
    (''MSIDBrokerVersionKey'', ''MSIDBrokerVersionKey''),
    (''MSIDSTSErrorCodesKey'', ''MSIDSTSErrorCodesKey''),
    (''MSIDThrottlingCacheHitKey'', ''MSIDThrottlingCacheHitKey'')]"

definition error_domains :: "(string \<times> string) list" where
  "error_domains = [
    (''MSIDErrorDomain'', ''MSIDErrorDomain''),
    (''MSIDOAuthErrorDomain'', ''MSIDOAuthErrorDomain''),
    (''MSIDKeychainErrorDomain'', ''MSIDKeychainErrorDomain''),
    (''MSIDHttpErrorCodeDomain'', ''MSIDHttpErrorCodeDomain''),
    (''MSIDGenericException'', ''MSIDGenericException'')]"

definition error_result_keys :: "(string \<times> string) list" where
  "error_result_keys = [
    (''MSIDDeclinedScopesKey'', ''MSIDDeclinedScopesKey''),
    (''MSIDGrantedScopesKey'', ''MSIDGrantedScopesKey''),
    (''MSIDServerUnavailableStatusKey'', ''MSIDServerUnavailableStatusKey''),
    (''MSIDInvalidTokenResultKey'', ''MSIDInvalidTokenResultKey''),
    (''MSIDErrorMethodAndLineKey'', ''MSIDMethodAndLineKey'')]"

definition MSIDErrorCode :: "(string \<times> int) list" where
  "MSIDErrorCode =
     general_error_codes @ cache_error_codes @ server_error_codes @ http_error_codes @
     authority_error_codes @ interactive_error_codes @ broker_error_codes @ extension_error_codes @
     other_error_codes"

definition error_code :: "string \<Rightarrow> int" where
  "error_code name = (case map_of MSIDErrorCode name of None \<Rightarrow> 0 | Some c \<Rightarrow> c)"

definition MSIDSSOExtensionUnderlyingError :: int where
  "MSIDSSOExtensionUnderlyingError = - 6000"

section \<open>Codes, strings and domains\<close>

text \<open>The branches of the switch, each with the value of its label and the string it returns.\<close>

definition general_cases :: "(int \<times> string) list" where
  "general_cases = [
    (- 51100, ''MSIDErrorInternal''),
    (- 51111, ''MSIDErrorInvalidInternalParameter''),
    (- 51112, ''MSIDErrorInvalidDeveloperParameter''),
    (- 51113, ''MSIDErrorMissingAccountParameter''),
    (- 51114, ''MSIDErrorUnsupportedFunctionality''),
    (- 51115, ''MSIDErrorInteractionRequired''),
    (- 51116, ''MSIDErrorServerNonHttpsRedirect''),
    (- 51117, ''MSIDErrorMismatchedAccount''),
    (- 51118, ''MSIDErrorRedirectSchemeNotRegistered''),
    (- 51119, ''MSIDErrorInvalidRedirectURI'')]"

definition cache_cases :: "(int \<times> string) list" where
  "cache_cases = [
    (- 51200, ''MSIDErrorCacheMultipleUsers''),
    (- 51201, ''MSIDErrorCacheBadFormat'')]"

definition server_cases :: "(int \<times> string) list" where
  "server_cases = [
    (- 51400, ''MSIDErrorServerOauth''),
    (- 51401, ''MSIDErrorServerInvalidResponse''),
    (- 514102, ''MSIDErrorServerRefreshTokenRejected''),
    (- 51410, ''MSIDErrorServerInvalidRequest''),
    (- 51411, ''MSIDErrorServerInvalidClient''),
    (- 51412, ''MSIDErrorServerInvalidGrant''),
    (- 51413, ''MSIDErrorServerInvalidScope''),
    (- 51414, ''MSIDErrorServerUnauthorizedClient''),
    (- 51415, ''MSIDErrorServerDeclinedScopes''),
    (- 51416, ''MSIDErrorServerAccessDenied''),
    (- 51417, ''MSIDErrorServerError''),
    (- 51420, ''MSIDErrorServerInvalidState''),
    (- 51430, ''MSIDErrorServerProtectionPoliciesRequired''),
    (- 51440, ''MSIDErrorAuthorizationFailed''),
    (- 50142, ''MSIDErrorServerInvalidRequestResetPasswordRequired'')]"

definition http_cases :: "(int \<times> string) list" where
  "http_cases = [
    (- 51500, ''MSIDErrorServerUnhandledResponse''),
    (- 51501, ''MSIDErrorUnexpectedHttpResponse'')]"

definition authority_cases :: "(int \<times> string) list" where
  "authority_cases = [
    (- 51600, ''MSIDErrorAuthorityValidation'')]"

definition interactive_cases :: "(int \<times> string) list" where
  "interactive_cases = [
    (- 51700, ''MSIDErrorUserCancel''),
    (- 51701, ''MSIDErrorSessionCanceledProgrammatically''),
    (- 51702, ''MSIDErrorInteractiveSessionStartFailure''),
    (- 51710, ''MSIDErrorInteractiveSessionAlreadyRunning''),
    (- 51720, ''MSIDErrorNoMainViewController''),
    (- 51730, ''MSIDErrorAttemptToOpenURLFromExtension''),
    (- 51731, ''MSIDErrorUINotSupportedInExtension''),
    (- 51732, ''MSIDErrorInsufficientDeviceStrength''),
    (- 51733, ''MSIDErrorMDMEnrollmentCompletedNeedsRetry''),
    (- 51734, ''MSIDErrorInvalidASWebAuthenticationURL'')]"

definition broker_cases :: "(int \<times> string) list" where
  "broker_cases = [
    (- 51800, ''MSIDErrorBrokerResponseNotReceived''),
    (- 51801, ''MSIDErrorBrokerNoResumeStateFound''),
    (- 51802, ''MSIDErrorBrokerBadResumeStateFound''),
    (- 51803, ''MSIDErrorBrokerMismatchedResumeState''),
    (- 51804, ''MSIDErrorBrokerResponseHashMissing''),
    (- 51805, ''MSIDErrorBrokerCorruptedResponse''),
    (- 51806, ''MSIDErrorBrokerResponseDecryptionFailed''),
    (- 51807, ''MSIDErrorBrokerResponseHashMismatch''),
    (- 51808, ''MSIDErrorBrokerKeyFailedToCreate''),
    (- 51809, ''MSIDErrorBrokerKeyNotFound''),
    (- 51810, ''MSIDErrorWorkplaceJoinRequired''),
    (- 51811, ''MSIDErrorBrokerUnknown''),
    (- 51812, ''MSIDErrorBrokerApplicationTokenWriteFailed''),
    (- 51813, ''MSIDErrorBrokerApplicationTokenReadFailed''),
    (- 51814, ''MSIDErrorBrokerNotAvailable'')]"

definition extension_cases :: "(int \<times> string) list" where
  "extension_cases = [
    (- 51815, ''MSIDErrorSSOExtensionUnexpectedError''),
    (- 51816, ''MSIDErrorJITLinkServerConfirmationTimeout''),
    (- 51817, ''MSIDErrorJITLinkServerConfirmationError''),
    (- 51818, ''MSIDErrorJITLinkAcquireTokenError''),
    (- 51819, ''MSIDErrorJITLinkTokenAcquiredWrongTenant''),
    (- 51820, ''MSIDErrorJITLinkError''),
    (- 51821, ''MSIDErrorJITComplianceCheckResultNotCompliant''),
    (- 51822, ''MSIDErrorJITComplianceCheckResultTimeout''),
    (- 51823, ''MSIDErrorJITComplianceCheckResultUnknown''),
    (- 51824, ''MSIDErrorJITComplianceCheckInvalidLinkPayload''),
    (- 51825, ''MSIDErrorJITComplianceCheckCreateController''),
    (- 51826, ''MSIDErrorJITLinkConfigNotFound''),
    (- 51827, ''MSIDErrorJITInvalidLinkTokenConfig''),
    (- 51828, ''MSIDErrorJITWPJDeviceRegistrationFailed''),
    (- 51829, ''MSIDErrorJITWPJAccountIdentifierNil''),
    (- 51830, ''MSIDErrorJITWPJAcquireTokenError''),
    (- 51832, ''MSIDErrorJITUnknownStatusWebCP''),
    (- 51831, ''MSIDErrorJITRetryRequired''),
    (- 51833, ''MSIDErrorJITTroubleshootingRequired''),
    (- 51834, ''MSIDErrorJITTroubleshootingCreateController''),
    (- 51835, ''MSIDErrorJITTroubleshootingResultUnknown''),
    (- 51836, ''MSIDErrorJITTroubleshootingAcquireToken''),
    (- 51839, ''MSIDErrorJITErrorHandlingConfigNotFound''),
    (- 51837, ''MSIDErrorDeviceNotPSSORegistered''),
    (- 51838, ''MSIDErrorPSSOKeyIdMismatch''),
    (- 51840, ''MSIDErrorPSSOBiometricPolicyMismatch''),
    (- 51841, ''MSIDErrorPSSOInvalidPasskeyExtension''),
    (- 51842, ''MSIDErrorPSSOSaveLoginConfigFailure''),
    (- 51843, ''MSIDErrorPSSOPasskeyLAError''),
    (- 51844, ''MSIDErrorPSSOBiometricsNotEnrolled''),
    (- 51845, ''MSIDErrorPSSOBiometricsNotAvailable'')]"

definition other_cases :: "(int \<times> string) list" where
  "other_cases = [
    (- 51900, ''MSIDErrorThrottleCacheNoRecord''),
    (- 51901, ''MSIDErrorThrottleCacheInvalidSignature''),
    (- 51902, ''MSIDErrorBrokerAppIsInactive''),
    (- 51903, ''MSIDErrorBrokerAppIsInBackground''),
    (- 52001, ''MSIDErrorBrokerXpcUnexpectedError''),
    (- 51120, ''MSIDErrorBoundAppRefreshTokenRedemptionError'')]"

definition error_code_cases :: "(int \<times> string) list" where
  "error_code_cases =
     general_cases @ cache_cases @ server_cases @ http_cases @ authority_cases @ interactive_cases @
     broker_cases @ extension_cases @ other_cases"

text \<open>The codes listed for each domain, by name and value.\<close>

definition error_domain_codes :: "(string \<times> (string \<times> int) list) list" where
  "error_domain_codes = [
    (''MSIDErrorDomain'', [
      (''MSIDErrorInternal'', - 51100),
      (''MSIDErrorInvalidInternalParameter'', - 51111),
      (''MSIDErrorInvalidDeveloperParameter'', - 51112),
      (''MSIDErrorMissingAccountParameter'', - 51113),
      (''MSIDErrorUnsupportedFunctionality'', - 51114),
      (''MSIDErrorInteractionRequired'', - 51115),
      (''MSIDErrorServerNonHttpsRedirect'', - 51116),
      (''MSIDErrorMismatchedAccount'', - 51117),
      (''MSIDErrorCacheMultipleUsers'', - 51200),
      (''MSIDErrorCacheBadFormat'', - 51201),
      (''MSIDErrorAuthorityValidation'', - 51600),
      (''MSIDErrorUserCancel'', - 51700),
      (''MSIDErrorSessionCanceledProgrammatically'', - 51701),
      (''MSIDErrorInteractiveSessionStartFailure'', - 51702),
      (''MSIDErrorInteractiveSessionAlreadyRunning'', - 51710),
      (''MSIDErrorNoMainViewController'', - 51720),
      (''MSIDErrorAttemptToOpenURLFromExtension'', - 51730),
      (''MSIDErrorUINotSupportedInExtension'', - 51731),
      (''MSIDErrorInsufficientDeviceStrength'', - 51732),
      (''MSIDErrorMDMEnrollmentCompletedNeedsRetry'', - 51733),
      (''MSIDErrorInvalidASWebAuthenticationURL'', - 51734),
      (''MSIDErrorBrokerResponseNotReceived'', - 51800),
      (''MSIDErrorBrokerNoResumeStateFound'', - 51801),
      (''MSIDErrorBrokerBadResumeStateFound'', - 51802),
      (''MSIDErrorBrokerMismatchedResumeState'', - 51803),
      (''MSIDErrorBrokerResponseHashMissing'', - 51804),
      (''MSIDErrorBrokerCorruptedResponse'', - 51805),
      (''MSIDErrorBrokerResponseDecryptionFailed'', - 51806),
      (''MSIDErrorBrokerResponseHashMismatch'', - 51807),
      (''MSIDErrorBrokerKeyFailedToCreate'', - 51808),
      (''MSIDErrorBrokerKeyNotFound'', - 51809),
      (''MSIDErrorWorkplaceJoinRequired'', - 51810),
      (''MSIDErrorBrokerUnknown'', - 51811),
      (''MSIDErrorBrokerApplicationTokenWriteFailed'', - 51812),
      (''MSIDErrorBrokerApplicationTokenReadFailed'', - 51813),
      (''MSIDErrorJITLinkServerConfirmationTimeout'', - 51816),
      (''MSIDErrorJITLinkServerConfirmationError'', - 51817),
      (''MSIDErrorJITLinkAcquireTokenError'', - 51818),
      (''MSIDErrorJITLinkTokenAcquiredWrongTenant'', - 51819),
      (''MSIDErrorJITLinkError'', - 51820),
      (''MSIDErrorJITComplianceCheckResultNotCompliant'', - 51821),
      (''MSIDErrorJITComplianceCheckResultTimeout'', - 51822),
      (''MSIDErrorJITComplianceCheckResultUnknown'', - 51823),
      (''MSIDErrorJITComplianceCheckInvalidLinkPayload'', - 51824),
      (''MSIDErrorJITLinkConfigNotFound'', - 51826),
      (''MSIDErrorJITInvalidLinkTokenConfig'', - 51827),
      (''MSIDErrorJITWPJDeviceRegistrationFailed'', - 51828),
      (''MSIDErrorJITWPJAccountIdentifierNil'', - 51829),
      (''MSIDErrorJITWPJAcquireTokenError'', - 51830),
      (''MSIDErrorJITRetryRequired'', - 51831),
      (''MSIDErrorJITUnknownStatusWebCP'', - 51832),
      (''MSIDErrorJITTroubleshootingRequired'', - 51833),
      (''MSIDErrorJITTroubleshootingCreateController'', - 51834),
      (''MSIDErrorJITTroubleshootingResultUnknown'', - 51835),
      (''MSIDErrorJITTroubleshootingAcquireToken'', - 51836),
      (''MSIDErrorDeviceNotPSSORegistered'', - 51837),
      (''MSIDErrorPSSOKeyIdMismatch'', - 51838),
      (''MSIDErrorJITErrorHandlingConfigNotFound'', - 51839),
      (''MSIDErrorPSSOBiometricPolicyMismatch'', - 51840),
      (''MSIDErrorPSSOInvalidPasskeyExtension'', - 51841),
      (''MSIDErrorPSSOSaveLoginConfigFailure'', - 51842),
      (''MSIDErrorPSSOPasskeyLAError'', - 51843),
      (''MSIDErrorPSSOBiometricsNotEnrolled'', - 51844),
      (''MSIDErrorPSSOBiometricsNotAvailable'', - 51845)]),
    (''MSIDOAuthErrorDomain'', [
      (''MSIDErrorServerOauth'', - 51400),
      (''MSIDErrorServerInvalidResponse'', - 51401),
      (''MSIDErrorServerRefreshTokenRejected'', - 514102),
      (''MSIDErrorServerInvalidRequest'', - 51410),
      (''MSIDErrorServerInvalidClient'', - 51411),
      (''MSIDErrorServerInvalidGrant'', - 51412),
      (''MSIDErrorServerInvalidScope'', - 51413),
      (''MSIDErrorServerUnauthorizedClient'', - 51414),
      (''MSIDErrorServerDeclinedScopes'', - 51415),
      (''MSIDErrorServerInvalidState'', - 51420),
      (''MSIDErrorServerProtectionPoliciesRequired'', - 51430),
      (''MSIDErrorAuthorizationFailed'', - 51440),
      (''MSIDErrorServerError'', - 51417),
      (''MSIDErrorServerInvalidRequestResetPasswordRequired'', - 50142)]),
    (''MSIDHttpErrorCodeDomain'', [
      (''MSIDErrorServerUnhandledResponse'', - 51500),
      (''MSIDErrorUnexpectedHttpResponse'', - 51501)])]"

definition int_str :: "int \<Rightarrow> string" where
  "int_str n = (if n < 0 then CHR ''-'' # nat_str (nat (- n)) else nat_str (nat n))"

definition MSIDErrorCodeToString :: "int \<Rightarrow> string" where
  "MSIDErrorCodeToString errorCode =
     (case map_of error_code_cases errorCode of
        Some s \<Rightarrow> s
      | None \<Rightarrow> ''Unknown: '' @ int_str errorCode)"

definition MSIDErrorDomainsAndCodes :: "(string, int list) dict" where
  "MSIDErrorDomainsAndCodes = map (\<lambda>(d, codes). (d, map snd codes)) error_domain_codes"

section \<open>OAuth errors\<close>

definition MSIDSTSErrorCodeResetPasswordRequired :: int where
  "MSIDSTSErrorCodeResetPasswordRequired = 50142"

text \<open>\<open>oauthError && [oauthError caseInsensitiveCompare:@"..."] == NSOrderedSame\<close>\<close>

definition oauth_is :: "string option \<Rightarrow> string \<Rightarrow> bool" where
  "oauth_is e name = (case e of None \<Rightarrow> False | Some s \<Rightarrow> caseInsensitiveSame s name)"

definition MSIDErrorCodeForOAuthError :: "string option \<Rightarrow> int \<Rightarrow> int" where
  "MSIDErrorCodeForOAuthError oauthError defaultCode =
     (if oauth_is oauthError ''invalid_request'' then error_code ''MSIDErrorServerInvalidRequest''
      else if oauth_is oauthError ''invalid_client'' then error_code ''MSIDErrorServerInvalidClient''
      else if oauth_is oauthError ''invalid_scope'' then error_code ''MSIDErrorServerInvalidScope''
      else if oauth_is oauthError ''invalid_grant'' then error_code ''MSIDErrorServerInvalidGrant''
      else if oauth_is oauthError ''unauthorized_client'' then error_code ''MSIDErrorServerUnauthorizedClient''
      else if oauth_is oauthError ''interaction_required'' then error_code ''MSIDErrorInteractionRequired''
      else if oauth_is oauthError ''access_denied'' then error_code ''MSIDErrorServerAccessDenied''
      else if oauth_is oauthError ''tokenTransferFailedOTC'' then error_code ''MSIDErrorUserCancel''
      else if oauth_is oauthError ''server_error'' then error_code ''MSIDErrorServerError''
      else defaultCode)"

definition MSIDErrorCodeForOAuthErrorWithSubErrorCode ::
  "string option \<Rightarrow> int \<Rightarrow> string option \<Rightarrow> int" where
  "MSIDErrorCodeForOAuthErrorWithSubErrorCode oauthError defaultCode subError =
     (if subError = None then MSIDErrorCodeForOAuthError oauthError defaultCode
      else if oauth_is oauthError ''invalid_grant'' \<and> oauth_is subError ''transfer_token_expired''
      then error_code ''MSIDErrorUserCancel''
      else if oauth_is oauthError ''invalid_grant'' \<and> oauth_is subError ''insufficient_device_strength''
      then error_code ''MSIDErrorInsufficientDeviceStrength''
      else if oauth_is oauthError ''access_denied'' \<and> oauth_is subError ''tts_denied''
      then error_code ''MSIDErrorUserCancel''
      else if oauth_is oauthError ''access_denied'' \<and> oauth_is subError ''user_skipped''
      then error_code ''MSIDErrorUserCancel''
      else MSIDErrorCodeForOAuthError oauthError defaultCode)"

definition MSIDErrorCodeForOAuthErrorWithSTSErrorCodes ::
  "string option \<Rightarrow> int \<Rightarrow> int list option \<Rightarrow> int" where
  "MSIDErrorCodeForOAuthErrorWithSTSErrorCodes oauthError defaultCode stsErrorCodes =
     (case stsErrorCodes of
        None \<Rightarrow> MSIDErrorCodeForOAuthError oauthError defaultCode
      | Some codes \<Rightarrow>
          if codes = [] then MSIDErrorCodeForOAuthError oauthError defaultCode
          else if oauth_is oauthError ''invalid_request''
                  \<and> MSIDSTSErrorCodeResetPasswordRequired \<in> set codes
          then error_code ''MSIDErrorServerInvalidRequestResetPasswordRequired''
          else MSIDErrorCodeForOAuthError oauthError defaultCode)"

section \<open>Errors\<close>

text \<open>
  An \<open>NSError\<close>. Its user info holds property-list objects, so the entry \<open>NSUnderlyingErrorKey\<close>
  is a field of the extended record.
\<close>

record nserror =
  errDomain :: string
  errCode :: int
  errUserInfo :: "(string, nsobj) dict"

definition msidIsMSIDError :: "nserror \<Rightarrow> bool" where
  "msidIsMSIDError e \<longleftrightarrow> hasPrefix (errDomain e) ''MSID''"

definition msidGetHTTPHeaderValue :: "nserror \<Rightarrow> string \<Rightarrow> string option" where
  "msidGetHTTPHeaderValue e headerKey =
     (let headerFields = Option.bind (dict_get (errUserInfo e)
            (if hasPrefix (errDomain e) ''MSID'' then ''MSIDHTTPHeadersKey'' else ''MSALHTTPHeadersKey'')) as_dict
      in Option.bind (Option.bind headerFields (\<lambda>h. dict_get h headerKey)) as_string)"

definition msidGetUserInfoValue :: "nserror \<Rightarrow> string \<Rightarrow> string \<Rightarrow> nsobj option" where
  "msidGetUserInfoValue e msidKey msalKey =
     dict_get (errUserInfo e) (if msidIsMSIDError e then msidKey else msalKey)"

text \<open>\<open>intValue\<close> of a string or a number, the only objects under the response code key.\<close>

definition object_intValue :: "nsobj option \<Rightarrow> int" where
  "object_intValue v = (case v of Some (NSStr s) \<Rightarrow> intValue s | Some (NSNum q) \<Rightarrow> trunc_rat q | _ \<Rightarrow> 0)"

definition msidGetRetryDateFromError :: "(string \<Rightarrow> nsdate option) \<Rightarrow> nsdate \<Rightarrow> nserror \<Rightarrow> nsdate option" where
  "msidGetRetryDateFromError formatter now e =
     msidDateFromRetryHeader formatter now (msidGetHTTPHeaderValue e ''Retry-After'')"

definition msidOauthError :: "nserror \<Rightarrow> string option" where
  "msidOauthError e = Option.bind (dict_get (errUserInfo e) ''MSIDOAuthErrorKey'') as_string"

record created_error = nserror +
  errUnderlying :: "nserror option"

definition errorWithDomain ::
  "string option \<Rightarrow> int \<Rightarrow> string option \<Rightarrow> string option \<Rightarrow> string option \<Rightarrow> nserror option \<Rightarrow>
   string option \<Rightarrow> (string, nsobj) dict option \<Rightarrow> created_error option" where
  "errorWithDomain domain code errorDescription oauthError subError underlyingError correlationId
     additionalUserInfo =
     (case domain of
        None \<Rightarrow> None
      | Some d \<Rightarrow>
          (let u = dict_assign ''MSIDErrorDescriptionKey'' (map_option NSStr errorDescription) [];
               u = dict_assign ''MSIDOAuthErrorKey'' (map_option NSStr oauthError) u;
               u = dict_assign ''MSIDOAuthSubErrorKey'' (map_option NSStr subError) u;
               u = dict_assign ''MSIDCorrelationIdKey'' (map_option NSStr correlationId) u;
               u = (case additionalUserInfo of None \<Rightarrow> u | Some a \<Rightarrow> addEntriesFromDictionary u a)
           in Some \<lparr>errDomain = d, errCode = code, errUserInfo = u, errUnderlying = underlyingError\<rparr>))"

text \<open>
  \<open>MSIDCreateError\<close> with the default converter, which is the one used when the application has set
  none; \<open>converter\<close> is the application's. Logging is left out.
\<close>

type_synonym error_converter =
  "string option \<Rightarrow> int \<Rightarrow> string option \<Rightarrow> string option \<Rightarrow> string option \<Rightarrow> nserror option \<Rightarrow>
   string option \<Rightarrow> (string, nsobj) dict option \<Rightarrow> created_error option"

definition MSIDCreateError :: "error_converter option \<Rightarrow> error_converter" where
  "MSIDCreateError converter = (case converter of None \<Rightarrow> errorWithDomain | Some c \<Rightarrow> c)"

definition MSIDFillAndLogError ::
  "error_converter option \<Rightarrow> int \<Rightarrow> string option \<Rightarrow> string option \<Rightarrow> created_error option" where
  "MSIDFillAndLogError converter errorCode errorDescription correlationID =
     MSIDCreateError converter (Some ''MSIDErrorDomain'') errorCode errorDescription None None None
       correlationID None"

section \<open>Lemmas\<close>

lemma distinct_by_image: "distinct (map f xs) \<Longrightarrow> distinct xs"
  by (simp add: distinct_map)

lemma map_of_distinct_eqI:
  "distinct (map fst xs) \<Longrightarrow> (k, v) \<in> set xs \<Longrightarrow> map_of xs k = Some v"
  by simp

text \<open>
  Strings are told apart by a number computed from their characters, which is faster to evaluate
  than comparing every two of them.
\<close>

definition fingerprint :: "string \<Rightarrow> int" where
  "fingerprint s = foldl (\<lambda>h c. (h * 31 + of_char c) mod 1000003) 7 s"

lemma error_values:
  "map snd MSIDErrorCode = [- 51100, - 51111, - 51112, - 51113, - 51114, - 51115, - 51116, - 51117, - 51118, - 51119,
     - 51120, - 51200, - 51201, - 51400, - 51401, - 514102, - 51410, - 51411, - 51412, - 51413,
     - 51414, - 51415, - 51416, - 51417, - 51420, - 51430, - 51440, - 51500, - 51501, - 51600,
     - 51700, - 51701, - 51702, - 51710, - 51720, - 51730, - 51731, - 51732, - 51733, - 51734,
     - 51800, - 51801, - 51802, - 51803, - 51804, - 51805, - 51806, - 51807, - 51808, - 51809,
     - 51810, - 51811, - 51812, - 51813, - 51814, - 51815, - 51816, - 51817, - 51818, - 51819,
     - 51820, - 51821, - 51822, - 51823, - 51824, - 51825, - 51826, - 51827, - 51828, - 51829,
     - 51830, - 51831, - 51832, - 51833, - 51834, - 51835, - 51836, - 51837, - 51838, - 51839,
     - 51840, - 51841, - 51842, - 51843, - 51844, - 51845, - 51900, - 51901, - 51902, - 51903,
     - 52001, - 50142]"
  by code_simp

lemma error_codes_distinct: "distinct (map snd MSIDErrorCode)"
  by (simp add: error_values)

lemma error_names_distinct: "distinct (map fst MSIDErrorCode)"
  by (rule distinct_by_image [of fingerprint]) code_simp

lemma case_codes_distinct: "distinct (map fst error_code_cases)"
  by code_simp

lemma cases_by_section:
  "list_all (\<lambda>(n, c). (c, n) \<in> set general_cases \<or> (c, n) \<in> set other_cases) general_error_codes"
  "list_all (\<lambda>(n, c). (c, n) \<in> set cache_cases) cache_error_codes"
  "list_all (\<lambda>(n, c). (c, n) \<in> set server_cases \<or> (c, n) \<in> set other_cases) server_error_codes"
  "list_all (\<lambda>(n, c). (c, n) \<in> set http_cases) http_error_codes"
  "list_all (\<lambda>(n, c). (c, n) \<in> set authority_cases) authority_error_codes"
  "list_all (\<lambda>(n, c). (c, n) \<in> set interactive_cases) interactive_error_codes"
  "list_all (\<lambda>(n, c). (c, n) \<in> set broker_cases) broker_error_codes"
  "list_all (\<lambda>(n, c). (c, n) \<in> set extension_cases) extension_error_codes"
  "list_all (\<lambda>(n, c). (c, n) \<in> set other_cases \<or> (c, n) \<in> set server_cases) other_error_codes"
  by code_simp+

lemma enum_has_case: "(n, c) \<in> set MSIDErrorCode \<Longrightarrow> (c, n) \<in> set error_code_cases"
  using cases_by_section unfolding MSIDErrorCode_def error_code_cases_def list_all_iff by fastforce

lemma case_codes_are_declared: "fst ` set error_code_cases = snd ` set MSIDErrorCode"
proof (rule sym, rule card_subset_eq)
  show "snd ` set MSIDErrorCode \<subseteq> fst ` set error_code_cases" by (force dest: enum_has_case)
  have "length (map fst error_code_cases) = length (map snd MSIDErrorCode)" by code_simp
  then show "card (snd ` set MSIDErrorCode) = card (fst ` set error_code_cases)"
    using distinct_card [OF error_codes_distinct] distinct_card [OF case_codes_distinct] by simp
qed simp

lemma error_string_declared: "(n, c) \<in> set MSIDErrorCode \<Longrightarrow> MSIDErrorCodeToString c = n"
  using map_of_distinct_eqI [OF case_codes_distinct enum_has_case]
  by (simp add: MSIDErrorCodeToString_def)

lemma error_string_undeclared:
  "c \<notin> snd ` set MSIDErrorCode \<Longrightarrow> MSIDErrorCodeToString c = ''Unknown: '' @ int_str c"
  unfolding case_codes_are_declared [symmetric] MSIDErrorCodeToString_def
  by (simp add: map_of_eq_None_iff [THEN iffD2])

lemma error_names_start: "(n, c) \<in> set MSIDErrorCode \<Longrightarrow> take 1 n = ''M''"
proof -
  have "list_all (\<lambda>n. take 1 n = ''M'') (map fst MSIDErrorCode)" by code_simp
  then show "(n, c) \<in> set MSIDErrorCode \<Longrightarrow> take 1 n = ''M''" by (auto simp: list_all_iff)
qed

lemma nat_str_inject [simp]: "nat_str m = nat_str n \<longleftrightarrow> m = n"
  by (metis digits_val_nat_str)

lemma nat_str_no_sign [simp]: "nat_str m \<noteq> CHR ''-'' # s"
proof
  assume "nat_str m = CHR ''-'' # s"
  then have "is_digit CHR ''-''" using nat_str_digits [of "CHR ''-''" m] by simp
  then show False by (simp add: is_digit_def digits_def)
qed

lemma int_str_inject [simp]: "int_str m = int_str n \<longleftrightarrow> m = n"
  using nat_str_no_sign [symmetric] by (auto simp: int_str_def)

lemma oauth_code_values:
  "error_code ''MSIDErrorServerInvalidRequest'' = - 51410"
  "error_code ''MSIDErrorServerInvalidClient'' = - 51411"
  "error_code ''MSIDErrorServerInvalidGrant'' = - 51412"
  "error_code ''MSIDErrorServerInvalidScope'' = - 51413"
  "error_code ''MSIDErrorServerUnauthorizedClient'' = - 51414"
  "error_code ''MSIDErrorServerAccessDenied'' = - 51416"
  "error_code ''MSIDErrorServerError'' = - 51417"
  "error_code ''MSIDErrorInteractionRequired'' = - 51115"
  "error_code ''MSIDErrorUserCancel'' = - 51700"
  "error_code ''MSIDErrorInsufficientDeviceStrength'' = - 51732"
  "error_code ''MSIDErrorServerInvalidRequestResetPasswordRequired'' = - 50142"
  by code_simp+

lemma domain_values:
  "MSIDErrorDomainsAndCodes = [
    (''MSIDErrorDomain'', [- 51100, - 51111, - 51112, - 51113, - 51114, - 51115, - 51116, - 51117, - 51200, - 51201,
     - 51600, - 51700, - 51701, - 51702, - 51710, - 51720, - 51730, - 51731, - 51732, - 51733,
     - 51734, - 51800, - 51801, - 51802, - 51803, - 51804, - 51805, - 51806, - 51807, - 51808,
     - 51809, - 51810, - 51811, - 51812, - 51813, - 51816, - 51817, - 51818, - 51819, - 51820,
     - 51821, - 51822, - 51823, - 51824, - 51826, - 51827, - 51828, - 51829, - 51830, - 51831,
     - 51832, - 51833, - 51834, - 51835, - 51836, - 51837, - 51838, - 51839, - 51840, - 51841,
     - 51842, - 51843, - 51844, - 51845]),
    (''MSIDOAuthErrorDomain'', [- 51400, - 51401, - 514102, - 51410, - 51411, - 51412, - 51413, - 51414, - 51415, - 51420,
     - 51430, - 51440, - 51417, - 50142]),
    (''MSIDHttpErrorCodeDomain'', [- 51500, - 51501])]"
  by code_simp

text \<open>In how many of the lists of codes a code occurs.\<close>

definition domain_listings :: "int \<Rightarrow> nat" where
  "domain_listings c = count_list (concat (map snd MSIDErrorDomainsAndCodes)) c"

definition oauth_error_codes :: "int list" where
  "oauth_error_codes = map error_code
     [''MSIDErrorServerInvalidRequest'', ''MSIDErrorServerInvalidClient'',
      ''MSIDErrorServerInvalidScope'', ''MSIDErrorServerInvalidGrant'',
      ''MSIDErrorServerUnauthorizedClient'', ''MSIDErrorInteractionRequired'',
      ''MSIDErrorServerAccessDenied'', ''MSIDErrorUserCancel'', ''MSIDErrorServerError'',
      ''MSIDErrorInsufficientDeviceStrength'', ''MSIDErrorServerInvalidRequestResetPasswordRequired'']"

lemma oauth_codes_listed:
  assumes "c \<in> set oauth_error_codes"
  shows "c \<in> snd ` set MSIDErrorCode
    \<and> domain_listings c = (if c = error_code ''MSIDErrorServerAccessDenied'' then 0 else 1)"
proof -
  have vals: "snd ` set MSIDErrorCode = set (map snd MSIDErrorCode)" by simp
  have codes: "oauth_error_codes =
      [- 51410, - 51411, - 51413, - 51412, - 51414, - 51115, - 51416, - 51700, - 51417, - 51732, - 50142]"
    by (simp add: oauth_error_codes_def oauth_code_values)
  have "list_all (\<lambda>c. c \<in> set (map snd MSIDErrorCode)) oauth_error_codes"
    unfolding error_values codes by simp
  moreover have "list_all (\<lambda>c. domain_listings c = (if c = - 51416 then 0 else 1)) oauth_error_codes"
    unfolding domain_listings_def domain_values codes by simp
  ultimately show ?thesis using assms
    by (simp add: list_all_iff vals oauth_code_values del: set_map)
qed

lemma oauth_code_cases:
  "MSIDErrorCodeForOAuthError e dflt \<in> insert dflt (set oauth_error_codes)"
  by (simp add: MSIDErrorCodeForOAuthError_def oauth_error_codes_def)

lemma sub_error_code_cases:
  "MSIDErrorCodeForOAuthErrorWithSubErrorCode e dflt s \<in> insert dflt (set oauth_error_codes)"
  using oauth_code_cases [of e dflt]
  by (simp add: MSIDErrorCodeForOAuthErrorWithSubErrorCode_def) (simp add: oauth_error_codes_def)

lemma sts_error_code_cases:
  "MSIDErrorCodeForOAuthErrorWithSTSErrorCodes e dflt sts \<in> insert dflt (set oauth_error_codes)"
  using oauth_code_cases [of e dflt]
  by (cases sts; simp add: MSIDErrorCodeForOAuthErrorWithSTSErrorCodes_def)
     (simp add: oauth_error_codes_def)

section \<open>Properties\<close>

text \<open>
  \<open>MSIDErrorCodeToString\<close> identifies error codes: two codes, declared in \<open>MSIDErrorCode\<close> or
  not, print the same string only when they are the same code, and the string of a declared code is
  the name it is declared with.
\<close>

theorem error_strings_identify_codes:
  "(MSIDErrorCodeToString c = MSIDErrorCodeToString d) = (c = d)
   \<and> (\<forall>x. x \<in> set MSIDErrorCode \<longrightarrow> MSIDErrorCodeToString (snd x) = fst x)"
proof -
  have unknown: "''Unknown: '' @ s \<noteq> n" if "(n, e) \<in> set MSIDErrorCode" for n e s
    using error_names_start [OF that] by auto
  have declared: "\<exists>n. (n, e) \<in> set MSIDErrorCode \<and> MSIDErrorCodeToString e = n"
    if "e \<in> snd ` set MSIDErrorCode" for e
    using that error_string_declared by force
  have inj: "c = d" if eq: "MSIDErrorCodeToString c = MSIDErrorCodeToString d"
  proof (cases "c \<in> snd ` set MSIDErrorCode")
    case True
    then obtain n where n: "(n, c) \<in> set MSIDErrorCode" "MSIDErrorCodeToString c = n"
      using declared by blast
    show ?thesis
    proof (cases "d \<in> snd ` set MSIDErrorCode")
      case True
      then have "(n, d) \<in> set MSIDErrorCode" using declared eq n(2) by metis
      with n(1) error_names_distinct show ?thesis by (metis map_of_distinct_eqI option.inject)
    next
      case False
      then show ?thesis using eq n unknown error_string_undeclared by metis
    qed
  next
    case c: False
    then show ?thesis
    proof (cases "d \<in> snd ` set MSIDErrorCode")
      case True
      then show ?thesis using declared eq unknown error_string_undeclared [OF c] by metis
    next
      case False
      then show ?thesis using eq c by (simp add: error_string_undeclared)
    qed
  qed
  then show ?thesis by (auto simp: error_string_declared)
qed

theorem error_strings_identify_codes_witness:
  "MSIDErrorCodeToString (- 51700) = ''MSIDErrorUserCancel''
   \<and> MSIDErrorCodeToString (- 51700) \<noteq> MSIDErrorCodeToString (- 51701)"
proof -
  have "(''MSIDErrorUserCancel'', - 51700) \<in> set MSIDErrorCode" by code_simp
  then show ?thesis using error_strings_identify_codes [of "- 51700" "- 51701"] by force
qed

text \<open>
  A code that the OAuth mappings answer is the caller's default or a declared code; it is
  listed in exactly one domain of \<open>MSIDErrorDomainsAndCodes\<close>, unless the server answered
  \<open>access_denied\<close>, whose code no domain lists.
\<close>

theorem oauth_codes_are_declared:
  "let r = MSIDErrorCodeForOAuthErrorWithSubErrorCode e dflt s;
       t = MSIDErrorCodeForOAuthErrorWithSTSErrorCodes e dflt sts
   in (r = dflt \<or> r \<in> snd ` set MSIDErrorCode
         \<and> domain_listings r = (if r = error_code ''MSIDErrorServerAccessDenied'' then 0 else 1))
      \<and> (t = dflt \<or> t \<in> snd ` set MSIDErrorCode
         \<and> domain_listings t = (if t = error_code ''MSIDErrorServerAccessDenied'' then 0 else 1))"
  using sub_error_code_cases [of e dflt s] sts_error_code_cases [of e dflt sts] oauth_codes_listed
  unfolding Let_def by blast

end
