(* ===== verification/Throttling.thy ===== *)
theory Throttling
  imports LRUCache Thumbprint ErrorCodes
begin

text \<open>
  \<open>throttling/\<close>: the decision whether a token request is answered from a cached error. The
  records live in the shared LRU cache, keyed by the request's strict thumbprint (429 and 5xx
  answers) or its full thumbprint (answers that need the user). \<open>clk i\<close> is the \<open>i\<close>-th reading
  of the clock in one call, in the order of the code; \<open>formatter\<close> is the date formatter of the
  \<open>Retry-After\<close> parser.
\<close>

section \<open>Records, requests and models\<close>

datatype throttling_type = MSIDThrottlingTypeNone | MSIDThrottlingType429 | MSIDThrottlingTypeInteractiveRequired

datatype thumbprint_type = MSIDThrottlingThumbprintTypeStrict | MSIDThrottlingThumbprintTypeFull

record throttling_record =
  creationTime :: nsdate
  expirationTime :: nsdate
  throttleType :: throttling_type
  throttledCount :: nat
  cachedErrorResponse :: "nserror option"

record throttling_request =
  requestFullThumbprint :: "string option"
  requestStrictThumbprint :: "string option"

datatype throttling_class = Model429 | ModelNonRecoverableServerError

record throttling_model =
  modelClass :: throttling_class
  thumbprintValue :: "string option"
  thumbprintType :: thumbprint_type
  throttleDuration :: int
  modelCacheRecord :: "throttling_record option"
  modelErrorResponse :: "nserror option"

type_synonym throttling_cache = "(string, throttling_record) lru"

definition MSID_THROTTLING_DEFAULT_429 :: int where
  "MSID_THROTTLING_DEFAULT_429 = 60"

definition MSID_THROTTLING_MAX_RETRY_AFTER :: int where
  "MSID_THROTTLING_MAX_RETRY_AFTER = 3600"

definition MSID_THROTTLING_DEFAULT_UI_REQUIRED :: int where
  "MSID_THROTTLING_DEFAULT_UI_REQUIRED = 120"

text \<open>The record reads the clock for its creation and once more for its expiration.\<close>

definition initThrottlingRecord ::
    "nsdate \<Rightarrow> nsdate \<Rightarrow> nserror option \<Rightarrow> throttling_type \<Rightarrow> int \<Rightarrow> throttling_record" where
  "initThrottlingRecord now1 now2 err ty duration =
     \<lparr>creationTime = now1, expirationTime = now2 + of_int duration, throttleType = ty,
      throttledCount = 1, cachedErrorResponse = err\<rparr>"

definition initModel429 ::
    "throttling_request \<Rightarrow> throttling_record option \<Rightarrow> nserror option \<Rightarrow> throttling_model" where
  "initModel429 request cacheRecord err =
     \<lparr>modelClass = Model429, thumbprintValue = requestStrictThumbprint request,
      thumbprintType = MSIDThrottlingThumbprintTypeStrict, throttleDuration = MSID_THROTTLING_DEFAULT_429,
      modelCacheRecord = cacheRecord, modelErrorResponse = err\<rparr>"

definition initModelNonRecoverable ::
    "throttling_request \<Rightarrow> throttling_record option \<Rightarrow> nserror option \<Rightarrow> throttling_model" where
  "initModelNonRecoverable request cacheRecord err =
     \<lparr>modelClass = ModelNonRecoverableServerError, thumbprintValue = requestFullThumbprint request,
      thumbprintType = MSIDThrottlingThumbprintTypeFull, throttleDuration = MSID_THROTTLING_DEFAULT_UI_REQUIRED,
      modelCacheRecord = cacheRecord, modelErrorResponse = err\<rparr>"

section \<open>Which error is throttled\<close>

definition isApplicable429 :: "(string \<Rightarrow> nsdate option) \<Rightarrow> nsdate \<Rightarrow> nserror \<Rightarrow> bool" where
  "isApplicable429 formatter now e =
     (let responseCode = object_intValue (msidGetUserInfoValue e ''MSIDHTTPResponseCodeKey'' ''MSALHTTPResponseCodeKey'')
      in responseCode = 429 \<or> (500 \<le> responseCode \<and> responseCode \<le> 599) \<or>
         msidGetRetryDateFromError formatter now e \<noteq> None)"

definition isApplicableNonRecoverable :: "nserror \<Rightarrow> bool" where
  "isApplicableNonRecoverable e =
     (if msidIsMSIDError e then
        \<not> msidIsStringNilOrBlank (msidOauthError e) \<or>
        errCode e = - 51115 \<or> errCode e = - 51415 \<or> errCode e = - 51430
      else errCode e \<in> set [- 50002, - 50003, - 50004])"

definition processErrorResponseToGetThrottleType ::
    "(string \<Rightarrow> nsdate option) \<Rightarrow> nsdate \<Rightarrow> nserror \<Rightarrow> throttling_type" where
  "processErrorResponseToGetThrottleType formatter now e =
     (if isApplicable429 formatter now e then MSIDThrottlingType429
      else if isApplicableNonRecoverable e then MSIDThrottlingTypeInteractiveRequired
      else MSIDThrottlingTypeNone)"

definition with_cache_hit :: "nserror \<Rightarrow> nserror" where
  "with_cache_hit e = e\<lparr>errUserInfo := dict_put ''MSIDThrottlingCacheHitKey'' (NSNum 1) (errUserInfo e)\<rparr>"

definition generateModelFromErrorResponse ::
    "nserror option \<Rightarrow> throttling_request \<Rightarrow> throttling_type \<Rightarrow> throttling_record option \<Rightarrow> throttling_model" where
  "generateModelFromErrorResponse err request ty cacheRecord =
     (let err' = map_option with_cache_hit err
      in if ty = MSIDThrottlingType429 then initModel429 request cacheRecord err'
         else initModelNonRecoverable request cacheRecord err')"

definition validateInput :: "throttling_request \<Rightarrow> bool" where
  "validateInput request \<longleftrightarrow> requestFullThumbprint request \<noteq> None \<or> requestStrictThumbprint request \<noteq> None"

section \<open>Looking a request up\<close>

definition getDBRecord ::
    "throttling_cache \<Rightarrow> string option \<Rightarrow> string option \<Rightarrow>
       objc_exception + (throttling_cache \<times> throttling_record option)" where
  "getDBRecord c strictThumbprint fullThumbprint =
     (let first = (if msidIsStringNilOrBlank strictThumbprint then Inr (c, None)
                   else map_sum id (\<lambda>(c1, r, e). (c1, r)) (lru_objectForKey c strictThumbprint))
      in case first of
           Inl x \<Rightarrow> Inl x
         | Inr (c1, Some r) \<Rightarrow> Inr (c1, Some r)
         | Inr (c1, None) \<Rightarrow>
             if msidIsStringNilOrBlank fullThumbprint then Inr (c1, None)
             else map_sum id (\<lambda>(c2, r, e). (c2, r)) (lru_objectForKey c1 fullThumbprint))"

definition throttlingModelForIncomingRequest ::
    "throttling_cache \<Rightarrow> throttling_request \<Rightarrow> objc_exception + (throttling_cache \<times> throttling_model option)" where
  "throttlingModelForIncomingRequest c request =
     (if \<not> validateInput request then Inr (c, None)
      else case getDBRecord c (requestStrictThumbprint request) (requestFullThumbprint request) of
             Inl x \<Rightarrow> Inl x
           | Inr (c1, None) \<Rightarrow> Inr (c1, None)
           | Inr (c1, Some r) \<Rightarrow>
               Inr (c1, Some (generateModelFromErrorResponse None request (throttleType r) (Some r))))"

definition throttlingModelForResponse ::
    "(string \<Rightarrow> nsdate option) \<Rightarrow> nsdate \<Rightarrow> throttling_request \<Rightarrow> nserror \<Rightarrow> throttling_model option" where
  "throttlingModelForResponse formatter now request err =
     (let ty = processErrorResponseToGetThrottleType formatter now err
      in if ty = MSIDThrottlingTypeNone then None
         else Some (generateModelFromErrorResponse (Some err) request ty None))"

section \<open>The last refresh time\<close>

text \<open>
  The datasource keeps JSON objects under the throttling metadata key; \<open>None\<close> is a nil
  datasource. A failing read gives no objects.
\<close>

type_synonym metadata_source = "(string, nsobj) dict list option"

definition metadata_json :: "string option \<Rightarrow> (string, nsobj) dict" where
  "metadata_json lastRefresh = dict_assign ''last_refresh_time'' (map_option NSStr lastRefresh) []"

definition getLastRefreshTime :: "metadata_source \<Rightarrow> nsdate option" where
  "getLastRefreshTime datasource =
     (case datasource of
        None \<Rightarrow> None
      | Some [] \<Rightarrow> None
      | Some (json # _) \<Rightarrow> msidDateFromTimeStamp (msidStringObjectForKey json ''last_refresh_time''))"

definition isThrottlingEnabled :: "bool option \<Rightarrow> bool" where
  "isThrottlingEnabled disabledMacro = (case disabledMacro of None \<Rightarrow> True | Some d \<Rightarrow> \<not> d)"

definition updateLastRefreshTime ::
    "bool option \<Rightarrow> nsdate \<Rightarrow> bool \<Rightarrow> metadata_source \<Rightarrow> metadata_source \<times> bool" where
  "updateLastRefreshTime disabledMacro now saveSucceeds datasource =
     (if \<not> isThrottlingEnabled disabledMacro then (datasource, True)
      else case datasource of
             None \<Rightarrow> (None, False)
           | Some objs \<Rightarrow>
               if saveSucceeds then (Some [metadata_json (Some (msidDateToTimestamp now))], True)
               else (Some objs, False))"

section \<open>The models' decisions and updates\<close>

definition cleanCacheRecordFromDB ::
    "throttling_cache \<Rightarrow> throttling_model \<Rightarrow> objc_exception + throttling_cache" where
  "cleanCacheRecordFromDB c m = map_sum id (\<lambda>(c1, ok, e). c1) (lru_removeObjectForKey c (thumbprintValue m))"

definition insertOrUpdateCacheRecordToDB ::
    "throttling_cache \<Rightarrow> throttling_model \<Rightarrow> throttling_record \<Rightarrow> (nat \<Rightarrow> nat) \<Rightarrow>
       objc_exception + throttling_cache" where
  "insertOrUpdateCacheRecordToDB c m r rnd =
     map_sum id (\<lambda>(c1, ok, e). c1) (lru_setObject c (Some r) (thumbprintValue m) rnd)"

text \<open>A message to a nil record answers nil, and \<open>compare:\<close> with a nil date is undefined; a model
  for an incoming request has a record.\<close>

definition shouldThrottle429 :: "nsdate \<Rightarrow> throttling_record \<Rightarrow> bool" where
  "shouldThrottle429 now r \<longleftrightarrow> now < expirationTime r"

definition shouldThrottleNonRecoverable ::
    "throttling_cache \<Rightarrow> nsdate \<Rightarrow> nsdate option \<Rightarrow> throttling_model \<Rightarrow> throttling_record \<Rightarrow>
       objc_exception + (throttling_cache \<times> bool)" where
  "shouldThrottleNonRecoverable c now lastRefresh m r =
     (if \<not> now < expirationTime r \<or> (case lastRefresh of None \<Rightarrow> False | Some l \<Rightarrow> \<not> l < creationTime r) then
        map_sum id (\<lambda>(c1, ok, e). (c1, False)) (lru_removeObjectForKey c (thumbprintValue m))
      else Inr (c, True))"

definition modelShouldThrottle ::
    "throttling_cache \<Rightarrow> nsdate \<Rightarrow> nsdate option \<Rightarrow> throttling_model \<Rightarrow> throttling_record \<Rightarrow>
       objc_exception + (throttling_cache \<times> bool)" where
  "modelShouldThrottle c now lastRefresh m r =
     (case modelClass m of
        Model429 \<Rightarrow> Inr (c, shouldThrottle429 now r)
      | ModelNonRecoverableServerError \<Rightarrow> shouldThrottleNonRecoverable c now lastRefresh m r)"

definition createDBCacheRecord429 ::
    "(string \<Rightarrow> nsdate option) \<Rightarrow> (nat \<Rightarrow> nsdate) \<Rightarrow> nserror \<Rightarrow> nserror option \<Rightarrow> throttling_record" where
  "createDBCacheRecord429 formatter clk err stored =
     (let duration =
            (case msidGetRetryDateFromError formatter (clk 1) err of
               None \<Rightarrow> MSID_THROTTLING_DEFAULT_429
             | Some retryHeaderDate \<Rightarrow>
                 (let maxThrottlingTime = of_int MSID_THROTTLING_MAX_RETRY_AFTER;
                      max429ThrottlingDate = clk 2 + maxThrottlingTime;
                      timeDiff = retryHeaderDate - max429ThrottlingDate
                  in if timeDiff > maxThrottlingTime then trunc_rat maxThrottlingTime
                     else trunc_rat (retryHeaderDate - clk 3)))
      in initThrottlingRecord (clk 4) (clk 5) stored MSIDThrottlingType429 duration)"

definition createDBCacheRecordNonRecoverable :: "(nat \<Rightarrow> nsdate) \<Rightarrow> throttling_model \<Rightarrow> throttling_record" where
  "createDBCacheRecordNonRecoverable clk m =
     initThrottlingRecord (clk 4) (clk 5) (modelErrorResponse m) MSIDThrottlingTypeInteractiveRequired
       (throttleDuration m)"

definition createDBCacheRecord ::
    "(string \<Rightarrow> nsdate option) \<Rightarrow> (nat \<Rightarrow> nsdate) \<Rightarrow> throttling_model \<Rightarrow> nserror \<Rightarrow> throttling_record" where
  "createDBCacheRecord formatter clk m err =
     (case modelClass m of
        Model429 \<Rightarrow> createDBCacheRecord429 formatter clk err (modelErrorResponse m)
      | ModelNonRecoverableServerError \<Rightarrow> createDBCacheRecordNonRecoverable clk m)"

section \<open>The service\<close>

definition shouldThrottleRequest ::
    "throttling_cache \<Rightarrow> nsdate \<Rightarrow> metadata_source \<Rightarrow> throttling_request \<Rightarrow>
       objc_exception + (throttling_cache \<times> bool \<times> nserror option)" where
  "shouldThrottleRequest c now datasource request =
     (case throttlingModelForIncomingRequest c request of
        Inl x \<Rightarrow> Inl x
      | Inr (c1, None) \<Rightarrow> Inr (c1, False, None)
      | Inr (c1, Some m) \<Rightarrow>
          (case modelCacheRecord m of
             None \<Rightarrow> Inl NSInvalidArgumentException
           | Some r \<Rightarrow>
               (case modelShouldThrottle c1 now (getLastRefreshTime datasource) m r of
                  Inl x \<Rightarrow> Inl x
                | Inr (c2, True) \<Rightarrow> Inr (c2, True, cachedErrorResponse r)
                | Inr (c2, False) \<Rightarrow> map_sum id (\<lambda>c3. (c3, False, None)) (cleanCacheRecordFromDB c2 m))))"

definition updateThrottlingService ::
    "throttling_cache \<Rightarrow> (string \<Rightarrow> nsdate option) \<Rightarrow> (nat \<Rightarrow> nsdate) \<Rightarrow> nserror \<Rightarrow> throttling_request \<Rightarrow>
       (nat \<Rightarrow> nat) \<Rightarrow> objc_exception + throttling_cache" where
  "updateThrottlingService c formatter clk err request rnd =
     (case throttlingModelForResponse formatter (clk 0) request err of
        None \<Rightarrow> Inr c
      | Some m \<Rightarrow> insertOrUpdateCacheRecordToDB c m (createDBCacheRecord formatter clk m (with_cache_hit err)) rnd)"

section \<open>What the service promises\<close>

text \<open>
  On the abstract store, a map from thumbprints to records: the record found for a request, and
  the decision with the store it leaves.
\<close>

definition forget :: "'k option \<Rightarrow> ('k \<Rightarrow> 'r option) \<Rightarrow> 'k \<Rightarrow> 'r option" where
  "forget ko v = (case ko of None \<Rightarrow> v | Some k \<Rightarrow> v(k := None))"

definition found :: "(string \<Rightarrow> 'r option) \<Rightarrow> string option \<Rightarrow> 'r option" where
  "found v ko = (if msidIsStringNilOrBlank ko then None else v (the ko))"

definition cached_record :: "(string \<Rightarrow> 'r option) \<Rightarrow> throttling_request \<Rightarrow> 'r option" where
  "cached_record v req =
     (case found v (requestStrictThumbprint req) of
        Some r \<Rightarrow> Some r
      | None \<Rightarrow> found v (requestFullThumbprint req))"

definition in_effect :: "nsdate \<Rightarrow> nsdate option \<Rightarrow> throttling_record \<Rightarrow> bool" where
  "in_effect now lastRefresh r \<longleftrightarrow> now < expirationTime r \<and>
     (throttleType r = MSIDThrottlingType429 \<or> (\<forall>l. lastRefresh = Some l \<longrightarrow> l < creationTime r))"

definition thumbprint_of :: "throttling_record \<Rightarrow> throttling_request \<Rightarrow> string option" where
  "thumbprint_of r req =
     (if throttleType r = MSIDThrottlingType429 then requestStrictThumbprint req else requestFullThumbprint req)"

definition throttle_decision ::
    "nsdate \<Rightarrow> nsdate option \<Rightarrow> throttling_request \<Rightarrow> (string \<Rightarrow> throttling_record option) \<Rightarrow>
       (string \<Rightarrow> throttling_record option) \<times> bool \<times> nserror option" where
  "throttle_decision now lastRefresh req v =
     (case cached_record v req of
        None \<Rightarrow> (v, False, None)
      | Some r \<Rightarrow> if in_effect now lastRefresh r then (v, True, cachedErrorResponse r)
                  else (forget (thumbprint_of r req) v, False, None))"

lemma lru_remove_any:
  assumes "lru_inv c"
  shows "\<exists>c' b e. lru_removeObjectForKey c ko = Inr (c', b, e) \<and> lru_inv c' \<and> lru_view c' = forget ko (lru_view c)"
proof (cases ko)
  case None
  then show ?thesis using assms by (auto simp: lru_removeObjectForKey_def forget_def)
next
  case (Some k)
  then show ?thesis using lru.del_law [OF assms, of k] by (auto simp: forget_def)
qed

lemma lru_get_any:
  fixes c :: throttling_cache
  assumes "lru_inv c" and "\<not> msidIsStringNilOrBlank ko"
  shows "\<exists>c' e. lru_objectForKey c ko = Inr (c', found (lru_view c) ko, e) \<and> lru_inv c' \<and> lru_view c' = lru_view c"
proof -
  obtain k where "ko = Some k" using assms(2) by (cases ko) (auto simp: msidIsStringNilOrBlank_def)
  then show ?thesis using lru.get_law [OF assms(1), of k] assms(2) by (auto simp: found_def)
qed

lemma getDBRecord_view:
  assumes inv: "lru_inv c"
  shows "\<exists>c'. getDBRecord c (requestStrictThumbprint req) (requestFullThumbprint req) =
      Inr (c', cached_record (lru_view c) req) \<and> lru_inv c' \<and> lru_view c' = lru_view c"
proof -
  let ?s = "requestStrictThumbprint req" and ?f = "requestFullThumbprint req"
  have second: "\<exists>c'. (if msidIsStringNilOrBlank ?f then Inr (c1, None)
        else map_sum id (\<lambda>(c2, r, e). (c2, r)) (lru_objectForKey c1 ?f)) = Inr (c', found (lru_view c1) ?f) \<and>
      lru_inv c' \<and> lru_view c' = lru_view c1" if "lru_inv c1" for c1 :: throttling_cache
    using lru_get_any [OF that, of ?f] that by (cases "msidIsStringNilOrBlank ?f") (auto simp: found_def)
  show ?thesis
  proof (cases "msidIsStringNilOrBlank ?s")
    case True
    then show ?thesis using second [OF inv] by (simp add: getDBRecord_def cached_record_def found_def)
  next
    case False
    obtain c1 e where 1: "lru_objectForKey c ?s = Inr (c1, found (lru_view c) ?s, e)" "lru_inv c1"
      "lru_view c1 = lru_view c" using lru_get_any [OF inv False] by blast
    then show ?thesis
      using second [OF 1(2)] False by (cases "found (lru_view c) ?s") (simp_all add: getDBRecord_def cached_record_def)
  qed
qed

lemma shouldThrottleRequest_view:
  assumes inv: "lru_inv c"
  shows "\<exists>c'. shouldThrottleRequest c now ds req =
      Inr (c', snd (throttle_decision now (getLastRefreshTime ds) req (lru_view c))) \<and> lru_inv c' \<and>
      lru_view c' = fst (throttle_decision now (getLastRefreshTime ds) req (lru_view c))"
proof (cases "validateInput req")
  case False
  then have "cached_record (lru_view c) req = None"
    by (simp add: validateInput_def cached_record_def found_def msidIsStringNilOrBlank_def)
  then show ?thesis using False inv
    by (simp add: shouldThrottleRequest_def throttlingModelForIncomingRequest_def throttle_decision_def)
next
  case True
  obtain c1 where 1: "getDBRecord c (requestStrictThumbprint req) (requestFullThumbprint req) =
      Inr (c1, cached_record (lru_view c) req)" "lru_inv c1" "lru_view c1 = lru_view c"
    using getDBRecord_view [OF inv] by blast
  show ?thesis
  proof (cases "cached_record (lru_view c) req")
    case None
    then show ?thesis using True 1
      by (simp add: shouldThrottleRequest_def throttlingModelForIncomingRequest_def throttle_decision_def)
  next
    case (Some r)
    let ?k = "thumbprint_of r req" and ?l = "getLastRefreshTime ds"
    let ?m = "generateModelFromErrorResponse None req (throttleType r) (Some r)"
    have m: "modelCacheRecord ?m = Some r" "thumbprintValue ?m = ?k"
      "modelClass ?m = (if throttleType r = MSIDThrottlingType429 then Model429 else ModelNonRecoverableServerError)"
      by (simp_all add: generateModelFromErrorResponse_def initModel429_def initModelNonRecoverable_def
          thumbprint_of_def Let_def)
    have model: "throttlingModelForIncomingRequest c req = Inr (c1, Some ?m)"
      using True 1 Some by (simp add: throttlingModelForIncomingRequest_def)
    obtain c2 b2 e2 where 2: "lru_removeObjectForKey c1 ?k = Inr (c2, b2, e2)" "lru_inv c2"
      "lru_view c2 = forget ?k (lru_view c1)" using lru_remove_any [OF 1(2)] by blast
    obtain c3 b3 e3 where 3: "lru_removeObjectForKey c2 ?k = Inr (c3, b3, e3)" "lru_inv c3"
      "lru_view c3 = forget ?k (lru_view c2)" using lru_remove_any [OF 2(2)] by blast
    have twice: "forget ?k (forget ?k v) = forget ?k v" for v :: "string \<Rightarrow> throttling_record option"
      by (simp add: forget_def split: option.split)
    have refreshed: "(case ?l of None \<Rightarrow> False | Some l \<Rightarrow> \<not> l < creationTime r) \<longleftrightarrow>
        \<not> (\<forall>l. ?l = Some l \<longrightarrow> l < creationTime r)" by (cases ?l) auto
    show ?thesis
    proof (cases "in_effect now ?l r")
      case True
      then have "modelShouldThrottle c1 now ?l ?m r = Inr (c1, True)"
        by (auto simp: modelShouldThrottle_def m shouldThrottle429_def shouldThrottleNonRecoverable_def
            in_effect_def refreshed)
      then show ?thesis using True 1 Some
        by (simp add: shouldThrottleRequest_def model m throttle_decision_def)
    next
      case False
      let ?c = "if throttleType r = MSIDThrottlingType429 then c1 else c2"
      from False 2 have "modelShouldThrottle c1 now ?l ?m r = Inr (?c, False)"
        by (auto simp: modelShouldThrottle_def m shouldThrottle429_def shouldThrottleNonRecoverable_def
            in_effect_def refreshed)
      then have "shouldThrottleRequest c now ds req =
          map_sum id (\<lambda>c3. (c3, False, None)) (cleanCacheRecordFromDB ?c ?m)"
        by (simp only: shouldThrottleRequest_def model m sum.case prod.case option.case bool.case)
      then have "\<exists>c'. shouldThrottleRequest c now ds req = Inr (c', False, None) \<and> lru_inv c' \<and>
          lru_view c' = forget ?k (lru_view c1)"
        using 2 3 twice by (simp add: cleanCacheRecordFromDB_def m)
      then show ?thesis using False Some 1(3) by (simp add: throttle_decision_def)
    qed
  qed
qed

text \<open>An update stores the record of the error under the thumbprint of its kind, unless that key is
  spoiled; a present record stays.\<close>

definition stored_record ::
    "(string \<Rightarrow> nsdate option) \<Rightarrow> (nat \<Rightarrow> nsdate) \<Rightarrow> nserror \<Rightarrow> throttling_request \<Rightarrow>
       (string option \<times> throttling_record) option" where
  "stored_record formatter clk err req =
     (case throttlingModelForResponse formatter (clk 0) req err of
        None \<Rightarrow> None
      | Some m \<Rightarrow> Some (thumbprintValue m, createDBCacheRecord formatter clk m (with_cache_hit err)))"

lemma updateThrottlingService_cases:
  assumes inv: "lru_inv c" and fresh: "fresh_signature c rnd"
  shows "\<exists>c'. updateThrottlingService c formatter clk err req rnd = Inr c' \<and> lru_inv c' \<and>
    (case stored_record formatter clk err req of
       Some (Some k, r) \<Rightarrow>
         (if lru_view c k = None \<and> \<not> lru_spoiled c k
          then lru_view c' k = Some r \<and>
            (\<forall>k'. k' \<noteq> k \<longrightarrow> lru_view c' k' = lru_view c k' \<or> lru_view c' k' = None)
          else lru_view c' = lru_view c)
     | _ \<Rightarrow> c' = c)"
proof (cases "throttlingModelForResponse formatter (clk 0) req err")
  case None
  then show ?thesis using inv by (simp add: updateThrottlingService_def stored_record_def)
next
  case (Some m)
  let ?r = "createDBCacheRecord formatter clk m (with_cache_hit err)"
  have upd: "updateThrottlingService c formatter clk err req rnd =
      map_sum id (\<lambda>(c1, ok, e). c1) (lru_setObject c (Some ?r) (thumbprintValue m) rnd)"
    by (simp add: updateThrottlingService_def Some insertOrUpdateCacheRecordToDB_def)
  show ?thesis
  proof (cases "thumbprintValue m")
    case None
    then have "lru_setObject c (Some ?r) (thumbprintValue m) rnd = Inr (c, False, Some LRUErrorInternal)"
      by (simp add: lru_setObject_def)
    then show ?thesis using inv by (simp add: upd stored_record_def Some None)
  next
    case (Some k)
    have spec: "stored_record formatter clk err req = Some (Some k, ?r)"
      using Some \<open>throttlingModelForResponse _ _ _ _ = Some m\<close> by (simp add: stored_record_def)
    show ?thesis
    proof (cases "lru_spoiled c k")
      case True
      then show ?thesis using lru.put_spoiled [OF inv fresh True, of ?r] Some
        by (auto simp: upd spec)
    next
      case False
      then show ?thesis
        using lru.put_new [OF inv fresh _ False, of ?r] lru.put_present [OF inv fresh, of k ?r] Some
        by (cases "lru_view c k") (auto simp: upd spec)
    qed
  qed
qed

lemma stored_429:
  assumes "isApplicable429 formatter (clk 0) err"
  shows "stored_record formatter clk err req =
    Some (requestStrictThumbprint req, createDBCacheRecord429 formatter clk (with_cache_hit err) (Some (with_cache_hit err)))"
  using assms
  by (simp add: stored_record_def throttlingModelForResponse_def processErrorResponseToGetThrottleType_def
      generateModelFromErrorResponse_def initModel429_def createDBCacheRecord_def Let_def)

lemma header_with_cache_hit [simp]:
  "msidGetHTTPHeaderValue (with_cache_hit e) h = msidGetHTTPHeaderValue e h"
  by (simp add: msidGetHTTPHeaderValue_def with_cache_hit_def)

lemma retry_with_cache_hit [simp]:
  "msidGetRetryDateFromError formatter t (with_cache_hit e) = msidGetRetryDateFromError formatter t e"
  by (simp add: msidGetRetryDateFromError_def)

lemma duration_429_header:
  assumes "msidGetHTTPHeaderValue err ''Retry-After'' = Some h" and "intValue h = n" and "0 < n"
  shows "expirationTime (createDBCacheRecord429 formatter (\<lambda>_. t) err stored) =
    t + of_int (if n > 2 * MSID_THROTTLING_MAX_RETRY_AFTER then MSID_THROTTLING_MAX_RETRY_AFTER else n)"
proof -
  have "msidGetRetryDateFromError formatter t err = Some (t + of_int n)"
    using assms by (simp add: msidGetRetryDateFromError_def msidDateFromRetryHeader_def)
  moreover have "(of_int n :: rat) > 7200 \<longleftrightarrow> n > 7200" by (metis of_int_less_iff of_int_numeral)
  moreover have "trunc_rat (of_int n) = n" using assms(3) by (simp add: trunc_rat_def)
  moreover have "trunc_rat 3600 = 3600" by (simp add: trunc_rat_def)
  ultimately show ?thesis
    by (simp add: createDBCacheRecord429_def initThrottlingRecord_def MSID_THROTTLING_MAX_RETRY_AFTER_def Let_def)
qed

lemma shared_inv: "lru_inv lru_sharedInstance"
  using lru_rel_init [of DEFAULT_CACHE_SIZE]
  by (auto simp: lru_inv_def lru_sharedInstance_def initWithCacheSize_def Let_def nsu_add_def
      DEFAULT_CACHE_SIZE_def DEFAULT_CACHE_OFFSET_SIZE_def)

lemma shared_view: "lru_view lru_sharedInstance = (\<lambda>_. None)" "\<not> lru_spoiled lru_sharedInstance k"
  by (simp_all add: fun_eq_iff lru_view_def lru_spoiled_def nodeFor_def lru_sharedInstance_def initWithCacheSize_def Let_def)

lemma shared_view_at: "lru_view lru_sharedInstance k = None"
  by (simp add: shared_view)

lemma shared_fresh: "fresh_signature lru_sharedInstance rnd"
  by (simp add: lru_sharedInstance_def fresh_signature_init)

section \<open>Properties\<close>




text \<open>An answer with status 429, and a request, for the witness.\<close>

definition sample_429 :: nserror where
  "sample_429 = \<lparr>errDomain = ''MSIDHttpErrorCodeDomain'', errCode = - 51411,
      errUserInfo = [(''MSIDHTTPResponseCodeKey'', NSStr ''429'')]\<rparr>"

definition sample_request :: throttling_request where
  "sample_request = \<lparr>requestFullThumbprint = Some ''1'', requestStrictThumbprint = Some ''2''\<rparr>"


text \<open>
  An interactive success lifts the throttling of errors that needed the user. After
  \<open>updateLastRefreshTime\<close> at time \<open>t\<close> a request whose record was made no later than the whole
  second of \<open>t\<close> is let through, and its record is forgotten.
\<close>

theorem interactive_success_lifts_throttling:
  assumes "lru_inv c" and "cached_record (lru_view c) req = Some r"
    and "throttleType r \<noteq> MSIDThrottlingType429" and "0 \<le> t" and "creationTime r \<le> of_int (floor t)"
  shows "\<exists>ds'. updateLastRefreshTime None t True (Some objs) = (ds', True) \<and>
    (\<exists>c'. shouldThrottleRequest c now ds' req = Inr (c', False, None) \<and>
      lru_view c' = forget (requestFullThumbprint req) (lru_view c))"
proof -
  let ?ds = "Some [metadata_json (Some (msidDateToTimestamp t))]"
  have upd: "updateLastRefreshTime None t True (Some objs) = (?ds, True)"
    by (simp add: updateLastRefreshTime_def isThrottlingEnabled_def)
  have "msidStringObjectForKey (metadata_json (Some (msidDateToTimestamp t))) ''last_refresh_time'' =
      Some (msidDateToTimestamp t)"
    by (simp add: metadata_json_def msidStringObjectForKey_def msidObjectForKey_def dict_assign_def)
  then have "getLastRefreshTime ?ds = Some (of_int (floor t))"
    using date_timestamp_roundtrip [OF assms(4)] by (simp add: getLastRefreshTime_def)
  then have "throttle_decision now (getLastRefreshTime ?ds) req (lru_view c) =
      (forget (requestFullThumbprint req) (lru_view c), False, None)"
    using assms(2,3,5) by (auto simp: throttle_decision_def in_effect_def thumbprint_of_def)
  with shouldThrottleRequest_view [OF assms(1), of now ?ds req] upd show ?thesis by auto
qed

text \<open>A cache for the witness with one record of an error that needs the user.\<close>

definition sample_record :: throttling_record where
  "sample_record = initThrottlingRecord 100 100 None MSIDThrottlingTypeInteractiveRequired 120"

theorem interactive_success_lifts_throttling_witness:
  "\<exists>c c' ds'. lru_view c ''1'' = Some sample_record \<and>
    updateLastRefreshTime None (201/2) True (Some []) = (ds', True) \<and>
    shouldThrottleRequest c 101 ds' \<lparr>requestFullThumbprint = Some ''1'', requestStrictThumbprint = None\<rparr> =
      Inr (c', False, None) \<and> lru_view c' ''1'' = None"
proof -
  let ?req = "\<lparr>requestFullThumbprint = Some ''1'', requestStrictThumbprint = None\<rparr>"
  obtain c where c: "lru_inv c" "lru_view c ''1'' = Some sample_record"
    using lru.put_new [OF shared_inv shared_fresh shared_view_at shared_view(2), of sample_record "''1''"] by blast
  have "\<not> msidIsStringNilOrBlank (Some ''1'')" by code_simp
  then have "cached_record (lru_view c) ?req = Some sample_record"
    using c(2) by (simp add: cached_record_def found_def msidIsStringNilOrBlank_def)
  moreover have "throttleType sample_record \<noteq> MSIDThrottlingType429" "creationTime sample_record \<le> of_int (floor (201/2 :: rat))"
    by (simp_all add: sample_record_def initThrottlingRecord_def)
  ultimately show ?thesis
    using interactive_success_lifts_throttling [OF c(1), of ?req sample_record "201/2" "[]" 101] c(2)
    by (auto simp: forget_def)
qed

text \<open>
  The cap on \<open>Retry-After\<close> is applied at twice the intended bound. With a header of \<open>n\<close>
  seconds the record lasts \<open>n\<close> seconds up to \<open>n = 7200\<close>, twice
  \<open>MSID_THROTTLING_MAX_RETRY_AFTER\<close>, and only 3600 seconds for a larger \<open>n\<close>.
\<close>

theorem retry_after_cap:
  assumes "msidGetHTTPHeaderValue err ''Retry-After'' = Some h" and "intValue h = n" and "0 < n"
  shows "expirationTime (createDBCacheRecord429 formatter (\<lambda>_. t) err stored) =
    t + of_int (if n > 2 * MSID_THROTTLING_MAX_RETRY_AFTER then MSID_THROTTLING_MAX_RETRY_AFTER else n)"
  using assms by (rule duration_429_header)

theorem retry_after_cap_witness:
  "expirationTime (createDBCacheRecord429 (\<lambda>_. None) (\<lambda>_. 0)
     \<lparr>errDomain = ''MSIDErrorDomain'', errCode = 0,
      errUserInfo = [(''MSIDHTTPHeadersKey'', NSDict [(''Retry-After'', NSStr ''7200'')])]\<rparr> None) = 7200"
proof -
  have "msidGetHTTPHeaderValue \<lparr>errDomain = ''MSIDErrorDomain'', errCode = 0,
      errUserInfo = [(''MSIDHTTPHeadersKey'', NSDict [(''Retry-After'', NSStr ''7200'')])]\<rparr> ''Retry-After'' = Some ''7200''"
    "intValue ''7200'' = 7200" by code_simp+
  from retry_after_cap [OF this, of "\<lambda>_. None" 0 None] show ?thesis
    by (simp add: MSID_THROTTLING_MAX_RETRY_AFTER_def)
qed

text \<open>
  A \<open>Retry-After\<close> date that starts with its year, the only form the parser's date format can
  read, never reaches the date formatter: the year is taken as a number of seconds.
\<close>

theorem retry_header_year_is_seconds:
  assumes "0 < y" and "y < 2 ^ 31"
  shows "msidDateFromRetryHeader formatter now (Some (nat_str y @ ''-'' @ rest)) = Some (now + of_nat y)"
proof -
  have "scan_int (nat_str y @ ''-'' @ rest) = int y"
  proof (cases "nat_str y")
    case (Cons c s)
    then have c: "is_digit c" using nat_str_digits [of c y] by simp
    have "takeWhile is_digit (nat_str y @ ''-'' @ rest) = nat_str y"
      using nat_str_digits [of _ y] by (subst takeWhile_append2) (auto simp: is_digit_def digits_def)
    then show ?thesis using digit_not_space [OF c] digits_val_nat_str [of y] by (simp add: scan_int_def Cons)
  qed simp
  then show ?thesis using assms by (simp add: msidDateFromRetryHeader_def intValue_def saturate_def)
qed

theorem retry_header_year_is_seconds_witness:
  "msidDateFromRetryHeader (\<lambda>_. Some 0) 10 (Some ''2015-10-21 07:28:00.0000'') = Some 2025"
proof -
  have "nat_str 2015 = ''2015''" by code_simp
  with retry_header_year_is_seconds [of 2015 "\<lambda>_. Some 0" 10 "''10-21 07:28:00.0000''"] show ?thesis by simp
qed

end
