(* ===== verification/ScopeSets.thy ===== *)
theory ScopeSets
  imports Foundation
begin

text \<open>
  \<open>util/NSOrderedSet+MSIDExtensions.m\<close>: scopes as ordered sets of strings. An
  \<open>NSOrderedSet\<close> is a list without repetitions.
\<close>

section \<open>Ordered sets\<close>

definition os_add :: "'a list \<Rightarrow> 'a \<Rightarrow> 'a list" where
  "os_add xs x = (if x \<in> set xs then xs else xs @ [x])"

definition addScopePart :: "bool \<Rightarrow> string list \<Rightarrow> string \<Rightarrow> string list" where
  "addScopePart doNormalize scope part =
     (if msidIsStringNilOrBlank (Some part) then scope
      else os_add scope (if doNormalize then lowercaseString (msidTrimmedString part) else msidTrimmedString part))"

definition msidOrderedSetFromString :: "string option \<Rightarrow> bool \<Rightarrow> string list" where
  "msidOrderedSetFromString so doNormalize =
     (case so of
        None \<Rightarrow> []
      | Some s \<Rightarrow> foldl (addScopePart doNormalize) [] (componentsSeparatedBy (CHR '' '') s))"

fun componentsJoined :: "string \<Rightarrow> string list \<Rightarrow> string" where
  "componentsJoined sep [] = []"
| "componentsJoined sep [x] = x"
| "componentsJoined sep (x # y # xs) = x @ sep @ componentsJoined sep (y # xs)"

definition msidStringFromOrderedSet :: "string list \<Rightarrow> string" where
  "msidStringFromOrderedSet xs = (if length xs = 0 then [] else componentsJoined '' '' xs)"

definition normalizedScopeSet :: "string list \<Rightarrow> string list" where
  "normalizedScopeSet xs = foldl (\<lambda>acc s. os_add acc (lowercaseString (msidTrimmedString s))) [] xs"

definition msidMinusOrderedSet :: "string list \<Rightarrow> string list \<Rightarrow> bool \<Rightarrow> string list" where
  "msidMinusOrderedSet self orderedSet doNormalize =
     (let minusSet = (if doNormalize then normalizedScopeSet orderedSet else orderedSet)
      in foldl (\<lambda>acc item.
           if (if doNormalize then lowercaseString (msidTrimmedString item) else item) \<in> set minusSet then acc
           else os_add acc item) [] self)"

definition isSubsetOfOrderedSet :: "'a list \<Rightarrow> 'a list \<Rightarrow> bool" where
  "isSubsetOfOrderedSet a b \<longleftrightarrow> list_all (\<lambda>x. x \<in> set b) a"

definition intersectsOrderedSet :: "'a list \<Rightarrow> 'a list \<Rightarrow> bool" where
  "intersectsOrderedSet a b \<longleftrightarrow> list_ex (\<lambda>x. x \<in> set b) a"

lemma isSubsetOfOrderedSet_iff [simp]: "isSubsetOfOrderedSet a b \<longleftrightarrow> set a \<subseteq> set b"
  by (auto simp: isSubsetOfOrderedSet_def list_all_iff)

lemma intersectsOrderedSet_iff [simp]: "intersectsOrderedSet a b \<longleftrightarrow> set a \<inter> set b \<noteq> {}"
  by (auto simp: intersectsOrderedSet_def list_ex_iff)

lemma set_os_add [simp]: "set (os_add xs x) = insert x (set xs)"
  by (auto simp: os_add_def)

lemma distinct_os_add [simp]: "distinct (os_add xs x) \<longleftrightarrow> distinct xs"
  by (auto simp: os_add_def)

lemma foldl_os_add_map:
  "set (foldl (\<lambda>acc s. os_add acc (f s)) acc xs) = set acc \<union> f ` set xs"
  "distinct (foldl (\<lambda>acc s. os_add acc (f s)) acc xs) \<longleftrightarrow> distinct acc"
  by (induction xs arbitrary: acc) auto

lemma normalizedScopeSet_props:
  "set (normalizedScopeSet xs) = msidNormalizedString ` set xs" "distinct (normalizedScopeSet xs)"
  by (auto simp: normalizedScopeSet_def foldl_os_add_map msidNormalizedString_def)

lemma foldl_minus:
  "distinct (acc @ xs) \<Longrightarrow>
   foldl (\<lambda>acc item. if P item then acc else os_add acc item) acc xs = acc @ filter (\<lambda>x. \<not> P x) xs"
  by (induction xs arbitrary: acc) (auto simp: os_add_def)

lemma minus_filter:
  assumes "distinct a"
  shows "msidMinusOrderedSet a b True = filter (\<lambda>x. msidNormalizedString x \<notin> msidNormalizedString ` set b) a"
    and "msidMinusOrderedSet a b False = filter (\<lambda>x. x \<notin> set b) a"
  using foldl_minus [of "[]" a] assms
  by (simp_all add: msidMinusOrderedSet_def normalizedScopeSet_props msidNormalizedString_def)

text \<open>A scope that stands for itself in a space separated list.\<close>

definition scope_ok :: "string \<Rightarrow> bool" where
  "scope_ok s \<longleftrightarrow> CHR '' '' \<notin> set s \<and> msidTrimmedString s = s \<and> \<not> msidIsStringNilOrBlank (Some s)"

lemma components_joined:
  "list_all scope_ok (x # xs) \<Longrightarrow> componentsSeparatedBy (CHR '' '') (componentsJoined '' '' (x # xs)) = x # xs"
  by (induction xs arbitrary: x) (simp_all add: components_single components_append scope_ok_def)

lemma foldl_add_scopes:
  "list_all scope_ok xs \<Longrightarrow> distinct (acc @ xs) \<Longrightarrow> foldl (addScopePart False) acc xs = acc @ xs"
proof (induction xs arbitrary: acc)
  case (Cons x xs)
  then have "addScopePart False acc x = acc @ [x]" by (simp add: addScopePart_def scope_ok_def os_add_def)
  then show ?case using Cons by simp
qed simp

section \<open>Properties\<close>

text \<open>
  A set of scopes without spaces survives its trip through the space separated target string
  of the cache, in order; and with normalisation the difference of two sets ignores case and
  surrounding white space, keeping the order and the spelling of the first set.
\<close>

theorem scope_set_roundtrip:
  assumes "list_all scope_ok xs" and "distinct xs"
  shows "msidOrderedSetFromString (Some (msidStringFromOrderedSet xs)) False = xs \<and>
    msidMinusOrderedSet xs ys True = filter (\<lambda>x. msidNormalizedString x \<notin> msidNormalizedString ` set ys) xs"
proof (cases xs)
  case Nil
  then show ?thesis
    by (simp add: msidStringFromOrderedSet_def msidOrderedSetFromString_def addScopePart_def
        msidIsStringNilOrBlank_def msidMinusOrderedSet_def)
next
  case (Cons x l)
  have "foldl (addScopePart False) [] (x # l) = x # l" "componentsSeparatedBy (CHR '' '') (componentsJoined '' '' (x # l)) = x # l"
    using foldl_add_scopes [of "x # l" "[]"] components_joined [of x l] assms by (simp_all add: Cons)
  then have "msidOrderedSetFromString (Some (msidStringFromOrderedSet xs)) False = xs"
    by (simp only: Cons msidStringFromOrderedSet_def msidOrderedSetFromString_def option.case) simp
  then show ?thesis using minus_filter(1) [OF assms(2)] by simp
qed

theorem scope_set_roundtrip_witness:
  "msidOrderedSetFromString (Some (msidStringFromOrderedSet [''user.read'', ''OpenID''])) False = [''user.read'', ''OpenID''] \<and>
   msidMinusOrderedSet [''user.read'', ''OpenID''] [''openid ''] True = [''user.read'']"
proof -
  have ok: "list_all scope_ok [''user.read'', ''OpenID'']" by code_simp
  have eq: "filter (\<lambda>x. msidNormalizedString x \<notin> msidNormalizedString ` set [''openid '']) [''user.read'', ''OpenID'']
      = [''user.read'']" by code_simp
  from scope_set_roundtrip [OF ok, of "[''openid '']"] show ?thesis by (simp only: eq) simp
qed

end
