(* ===== verification/CacheKeys.thy ===== *)
theory CacheKeys
  imports Foundation
begin

text \<open>
  The keys under which the cache stores credentials, accounts and application metadata
  (\<open>cache/key/\<close>), and the enumerations they name (\<open>oauth2/token/MSIDCredentialType.m\<close>,
  \<open>oauth2/account/MSIDAccountType.m\<close>, \<open>oauth2/appmetadata/MSIDGeneralCacheItemType.m\<close>).
  A query class extends its key class, as its record extends the key's record. The argument \<open>th\<close>
  is \<open>msidTokenHash\<close>, seven digits of SHA-256.
\<close>

section \<open>Credential, account and general types\<close>

datatype credential_type =
    MSIDCredentialTypeOther
  | MSIDAccessTokenType
  | MSIDRefreshTokenType
  | MSIDIDTokenType
  | MSIDLegacySingleResourceTokenType
  | MSIDPrimaryRefreshTokenType
  | MSIDLegacyIDTokenType
  | MSIDAccessTokenWithAuthSchemeType
  | MSIDFamilyRefreshTokenType
  | MSIDBoundRefreshTokenType

definition credential_types :: "credential_type list" where
  "credential_types = [MSIDCredentialTypeOther, MSIDAccessTokenType, MSIDRefreshTokenType, MSIDIDTokenType,
     MSIDLegacySingleResourceTokenType, MSIDPrimaryRefreshTokenType, MSIDLegacyIDTokenType,
     MSIDAccessTokenWithAuthSchemeType, MSIDFamilyRefreshTokenType, MSIDBoundRefreshTokenType]"

fun credential_index :: "credential_type \<Rightarrow> int" where
  "credential_index MSIDCredentialTypeOther = 0"
| "credential_index MSIDAccessTokenType = 1"
| "credential_index MSIDRefreshTokenType = 2"
| "credential_index MSIDIDTokenType = 3"
| "credential_index MSIDLegacySingleResourceTokenType = 4"
| "credential_index MSIDPrimaryRefreshTokenType = 5"
| "credential_index MSIDLegacyIDTokenType = 6"
| "credential_index MSIDAccessTokenWithAuthSchemeType = 7"
| "credential_index MSIDFamilyRefreshTokenType = 8"
| "credential_index MSIDBoundRefreshTokenType = 9"

fun credentialTypeAsString :: "credential_type \<Rightarrow> string" where
  "credentialTypeAsString MSIDAccessTokenType = ''AccessToken''"
| "credentialTypeAsString MSIDRefreshTokenType = ''RefreshToken''"
| "credentialTypeAsString MSIDLegacySingleResourceTokenType = ''LegacySingleResourceToken''"
| "credentialTypeAsString MSIDIDTokenType = ''IdToken''"
| "credentialTypeAsString MSIDPrimaryRefreshTokenType = ''PrimaryRefreshToken''"
| "credentialTypeAsString MSIDBoundRefreshTokenType = ''BoundRefreshToken''"
| "credentialTypeAsString MSIDFamilyRefreshTokenType = ''FamilyRefreshToken''"
| "credentialTypeAsString MSIDLegacyIDTokenType = ''V1IdToken''"
| "credentialTypeAsString MSIDAccessTokenWithAuthSchemeType = ''AccessToken_With_AuthScheme''"
| "credentialTypeAsString MSIDCredentialTypeOther = ''token''"

definition sCredentialTypes :: "(string \<times> credential_type) list" where
  "sCredentialTypes = map (\<lambda>t. (lowercaseString (credentialTypeAsString t), t))
     [MSIDAccessTokenType, MSIDRefreshTokenType, MSIDLegacySingleResourceTokenType, MSIDIDTokenType,
      MSIDPrimaryRefreshTokenType, MSIDFamilyRefreshTokenType, MSIDBoundRefreshTokenType,
      MSIDLegacyIDTokenType, MSIDCredentialTypeOther, MSIDAccessTokenWithAuthSchemeType]"

definition credentialTypeFromString :: "string option \<Rightarrow> credential_type" where
  "credentialTypeFromString ty =
     (case Option.bind ty (\<lambda>s. map_of sCredentialTypes (lowercaseString s)) of
        Some t \<Rightarrow> t
      | None \<Rightarrow> MSIDCredentialTypeOther)"

definition credentialTypeWithRefreshToken :: "string option \<Rightarrow> string option \<Rightarrow> credential_type" where
  "credentialTypeWithRefreshToken refreshToken accessToken =
     (let rtPresent = \<not> msidIsStringNilOrBlank refreshToken;
          atPresent = \<not> msidIsStringNilOrBlank accessToken
      in if rtPresent \<and> atPresent then MSIDLegacySingleResourceTokenType
         else if rtPresent then MSIDRefreshTokenType
         else if atPresent then MSIDAccessTokenType
         else MSIDCredentialTypeOther)"

definition credentialTypeNumber :: "credential_type \<Rightarrow> int" where
  "credentialTypeNumber t = 2000 + credential_index t"

datatype account_type =
    MSIDAccountTypeOther
  | MSIDAccountTypeAADV1
  | MSIDAccountTypeMSA
  | MSIDAccountTypeMSSTS
  | MSIDAccountTypeADFS

fun account_index :: "account_type \<Rightarrow> int" where
  "account_index MSIDAccountTypeOther = 0"
| "account_index MSIDAccountTypeAADV1 = 1"
| "account_index MSIDAccountTypeMSA = 2"
| "account_index MSIDAccountTypeMSSTS = 3"
| "account_index MSIDAccountTypeADFS = 4"

fun accountTypeAsString :: "account_type \<Rightarrow> string" where
  "accountTypeAsString MSIDAccountTypeAADV1 = ''AAD''"
| "accountTypeAsString MSIDAccountTypeMSA = ''MSA''"
| "accountTypeAsString MSIDAccountTypeMSSTS = ''MSSTS''"
| "accountTypeAsString MSIDAccountTypeADFS = ''ADFS''"
| "accountTypeAsString MSIDAccountTypeOther = ''Other''"

definition accountTypeFromString :: "string option \<Rightarrow> account_type" where
  "accountTypeFromString ty =
     (case Option.bind ty (\<lambda>s. map_of [(''aad'', MSIDAccountTypeAADV1), (''msa'', MSIDAccountTypeMSA),
          (''mssts'', MSIDAccountTypeMSSTS), (''adfs'', MSIDAccountTypeADFS)] (lowercaseString s)) of
        Some t \<Rightarrow> t
      | None \<Rightarrow> MSIDAccountTypeOther)"

datatype general_type = MSIDGeneralTypeOther | MSIDAppMetadataType

fun generalTypeAsString :: "general_type \<Rightarrow> string" where
  "generalTypeAsString MSIDAppMetadataType = ''appmetadata''"
| "generalTypeAsString MSIDGeneralTypeOther = ''general_cache_item''"

definition generalTypeFromString :: "string option \<Rightarrow> general_type" where
  "generalTypeFromString ty =
     (case Option.bind ty (\<lambda>s. map_of [(''appmetadata'', MSIDAppMetadataType),
          (''general_cache_item'', MSIDGeneralTypeOther)] (lowercaseString s)) of
        Some t \<Rightarrow> t
      | None \<Rightarrow> MSIDGeneralTypeOther)"

section \<open>The keychain's view of a key\<close>

record cache_key =
  keyAccount :: "string option"
  keyService :: "string option"
  keyGeneric :: "string option"
  keyType :: "int option"

definition cacheKey_isEqualToItem :: "cache_key \<Rightarrow> cache_key \<Rightarrow> bool" where
  "cacheKey_isEqualToItem a b \<longleftrightarrow>
     ((keyAccount a = None \<and> keyAccount b = None) \<or> isEqualToString (keyAccount a) (keyAccount b)) \<and>
     ((keyService a = None \<and> keyService b = None) \<or> isEqualToString (keyService a) (keyService b))"

definition familyClientId :: "string option \<Rightarrow> string" where
  "familyClientId familyId = ''foci-'' @ (case familyId of None \<Rightarrow> ''1'' | Some f \<Rightarrow> f)"

text \<open>\<open>msidTrimmedString.lowercaseString\<close> of a string that may be nil.\<close>

abbreviation norm_str :: "string option \<Rightarrow> string option" where
  "norm_str so \<equiv> map_option msidNormalizedString so"

section \<open>Credential keys and queries\<close>

record credential_key =
  ckHomeAccountId :: "string option"
  ckEnvironment :: "string option"
  ckRealm :: "string option"
  ckClientId :: "string option"
  ckFamilyId :: "string option"
  ckTarget :: "string option"
  ckApplicationIdentifier :: "string option"
  ckCredentialType :: credential_type
  ckTokenType :: "string option"
  ckRequestedClaims :: "string option"
  ckAppKey :: "string option"

definition initCredentialKey :: "string option \<Rightarrow> string option \<Rightarrow> string option \<Rightarrow> credential_type \<Rightarrow> credential_key" where
  "initCredentialKey homeAccountId environment clientId ty =
     \<lparr>ckHomeAccountId = homeAccountId, ckEnvironment = environment, ckRealm = None, ckClientId = clientId,
      ckFamilyId = None, ckTarget = None, ckApplicationIdentifier = None, ckCredentialType = ty,
      ckTokenType = None, ckRequestedClaims = None, ckAppKey = None\<rparr>"

definition credentialIdWithType ::
    "credential_type \<Rightarrow> string option \<Rightarrow> string option \<Rightarrow> string option \<Rightarrow> string" where
  "credentialIdWithType ty clientId realm applicationIdentifier =
     lowercaseString (credentialTypeAsString ty) @ ''-'' @ fmt_obj (norm_str clientId) @ ''-'' @
     str_or_empty (norm_str realm) @
     (case norm_str applicationIdentifier of None \<Rightarrow> [] | Some a \<Rightarrow> ''-'' @ a)"

definition serviceWithType ::
    "(string \<Rightarrow> string) \<Rightarrow> credential_type \<Rightarrow> string option \<Rightarrow> string option \<Rightarrow> string option \<Rightarrow>
       string option \<Rightarrow> string option \<Rightarrow> string option \<Rightarrow> string option \<Rightarrow> string" where
  "serviceWithType th ty clientId realm applicationIdentifier target appKey tokenType requestedClaims =
     (let credentialId = credentialIdWithType ty (norm_str clientId) (norm_str realm) (norm_str applicationIdentifier);
          service = credentialId @ ''-'' @ str_or_empty (norm_str target) @
                    (case norm_str tokenType of None \<Rightarrow> [] | Some t \<Rightarrow> ''-'' @ t);
          service1 = (if \<not> msidIsStringNilOrBlank appKey then service @ ''|'' @ fmt_obj appKey else service)
      in if \<not> msidIsStringNilOrBlank (norm_str requestedClaims)
         then service1 @ ''|'' @ fmt_obj (map_option th (norm_str requestedClaims)) else service1)"

definition accountIdWithHomeAccountId :: "string option \<Rightarrow> string option \<Rightarrow> string" where
  "accountIdWithHomeAccountId homeAccountId environment =
     fmt_obj (norm_str homeAccountId) @ ''-'' @ fmt_obj (norm_str environment)"

definition key_clientId :: "('a) credential_key_scheme \<Rightarrow> string option" where
  "key_clientId k = (case ckFamilyId k of Some f \<Rightarrow> Some f | None \<Rightarrow> ckClientId k)"

definition credentialKey_generic :: "('a) credential_key_scheme \<Rightarrow> string" where
  "credentialKey_generic k =
     credentialIdWithType (ckCredentialType k) (key_clientId k) (ckRealm k) (ckApplicationIdentifier k)"

definition credentialKey_account :: "('a) credential_key_scheme \<Rightarrow> string" where
  "credentialKey_account k = accountIdWithHomeAccountId (ckHomeAccountId k) (ckEnvironment k)"

definition credentialKey_service :: "(string \<Rightarrow> string) \<Rightarrow> ('a) credential_key_scheme \<Rightarrow> string" where
  "credentialKey_service th k =
     serviceWithType th (ckCredentialType k) (key_clientId k) (ckRealm k) (ckApplicationIdentifier k)
       (ckTarget k) (ckAppKey k) (ckTokenType k) (ckRequestedClaims k)"

definition credentialKey_isShared :: "('a) credential_key_scheme \<Rightarrow> bool" where
  "credentialKey_isShared k \<longleftrightarrow> ckCredentialType k = MSIDRefreshTokenType"

definition credentialKey_copy :: "credential_key \<Rightarrow> credential_key" where
  "credentialKey_copy k =
     \<lparr>ckHomeAccountId = ckHomeAccountId k, ckEnvironment = ckEnvironment k, ckRealm = ckRealm k,
      ckClientId = ckClientId k, ckFamilyId = ckFamilyId k, ckTarget = ckTarget k,
      ckApplicationIdentifier = ckApplicationIdentifier k, ckCredentialType = ckCredentialType k,
      ckTokenType = ckTokenType k, ckRequestedClaims = ckRequestedClaims k, ckAppKey = None\<rparr>"

definition credential_cache_key :: "(string \<Rightarrow> string) \<Rightarrow> ('a) credential_key_scheme \<Rightarrow> cache_key" where
  "credential_cache_key th k =
     \<lparr>keyAccount = Some (credentialKey_account k), keyService = Some (credentialKey_service th k),
      keyGeneric = Some (credentialKey_generic k), keyType = Some (credentialTypeNumber (ckCredentialType k))\<rparr>"

datatype comparison_options = MSIDExactStringMatch | MSIDSubSet | MSIDIntersect | MSIDSuperSet | MSIDAny

record credential_query = credential_key +
  qTargetMatching :: comparison_options
  qClientIdMatching :: comparison_options
  qMatchAnyCredentialType :: bool
  qEnvironmentAliases :: "string list"

definition initCredentialQuery :: credential_query where
  "initCredentialQuery =
     \<lparr>ckHomeAccountId = None, ckEnvironment = None, ckRealm = None, ckClientId = None, ckFamilyId = None,
      ckTarget = None, ckApplicationIdentifier = None, ckCredentialType = MSIDCredentialTypeOther,
      ckTokenType = None, ckRequestedClaims = None, ckAppKey = None,
      qTargetMatching = MSIDExactStringMatch, qClientIdMatching = MSIDExactStringMatch,
      qMatchAnyCredentialType = False, qEnvironmentAliases = []\<rparr>"

definition query_account :: "credential_query \<Rightarrow> string option" where
  "query_account q =
     (if ckHomeAccountId q \<noteq> None \<and> ckEnvironment q \<noteq> None
      then Some (accountIdWithHomeAccountId (ckHomeAccountId q) (ckEnvironment q)) else None)"

definition queryClientId :: "credential_query \<Rightarrow> string option" where
  "queryClientId q =
     (if (ckClientId q \<noteq> None \<or> ckFamilyId q \<noteq> None) \<and> qClientIdMatching q = MSIDExactStringMatch
      then key_clientId q else None)"

definition serviceForAccessToken :: "(string \<Rightarrow> string) \<Rightarrow> credential_query \<Rightarrow> string option" where
  "serviceForAccessToken th q =
     (if queryClientId q \<noteq> None \<and> ckRealm q \<noteq> None \<and> ckTarget q \<noteq> None \<and> qTargetMatching q = MSIDExactStringMatch
      then Some (serviceWithType th (ckCredentialType q) (queryClientId q) (ckRealm q) (ckApplicationIdentifier q)
                  (ckTarget q) (ckAppKey q) (ckTokenType q) (ckRequestedClaims q))
      else None)"

definition serviceForRefreshToken :: "(string \<Rightarrow> string) \<Rightarrow> credential_query \<Rightarrow> string option" where
  "serviceForRefreshToken th q =
     (if queryClientId q \<noteq> None
      then Some (serviceWithType th (ckCredentialType q) (queryClientId q) None None None (ckAppKey q) (ckTokenType q) None)
      else None)"

definition serviceForIDToken :: "(string \<Rightarrow> string) \<Rightarrow> credential_query \<Rightarrow> string option" where
  "serviceForIDToken th q =
     (if ckClientId q \<noteq> None \<and> ckRealm q \<noteq> None
      then Some (serviceWithType th MSIDIDTokenType (ckClientId q) (ckRealm q) None None (ckAppKey q) (ckTokenType q) None)
      else None)"

definition serviceForLegacyIDToken :: "(string \<Rightarrow> string) \<Rightarrow> credential_query \<Rightarrow> string option" where
  "serviceForLegacyIDToken th q =
     (if ckClientId q \<noteq> None \<and> ckRealm q \<noteq> None
      then Some (serviceWithType th MSIDLegacyIDTokenType (ckClientId q) (ckRealm q) None None (ckAppKey q) (ckTokenType q) None)
      else None)"

definition query_service :: "(string \<Rightarrow> string) \<Rightarrow> credential_query \<Rightarrow> string option" where
  "query_service th q =
     (if qMatchAnyCredentialType q then None
      else case ckCredentialType q of
        MSIDAccessTokenType \<Rightarrow> serviceForAccessToken th q
      | MSIDAccessTokenWithAuthSchemeType \<Rightarrow> serviceForAccessToken th q
      | MSIDPrimaryRefreshTokenType \<Rightarrow> serviceForRefreshToken th q
      | MSIDRefreshTokenType \<Rightarrow> serviceForRefreshToken th q
      | MSIDIDTokenType \<Rightarrow> serviceForIDToken th q
      | MSIDLegacyIDTokenType \<Rightarrow> serviceForLegacyIDToken th q
      | _ \<Rightarrow> None)"

definition query_generic :: "credential_query \<Rightarrow> string option" where
  "query_generic q =
     (if qMatchAnyCredentialType q then None
      else case queryClientId q of
        None \<Rightarrow> None
      | Some clientId \<Rightarrow>
          (if ckCredentialType q = MSIDRefreshTokenType
           then Some (credentialIdWithType (ckCredentialType q) (Some clientId) None None)
           else if ckRealm q \<noteq> None
           then Some (credentialIdWithType (ckCredentialType q) (Some clientId) (ckRealm q)
                  (if ckCredentialType q = MSIDAccessTokenType \<or> ckCredentialType q = MSIDAccessTokenWithAuthSchemeType
                   then ckApplicationIdentifier q else None))
           else None))"

definition query_type :: "credential_query \<Rightarrow> int option" where
  "query_type q = (if qMatchAnyCredentialType q then None else Some (credentialTypeNumber (ckCredentialType q)))"

definition query_exactMatch :: "(string \<Rightarrow> string) \<Rightarrow> credential_query \<Rightarrow> bool" where
  "query_exactMatch th q \<longleftrightarrow> query_service th q \<noteq> None \<and> query_account q \<noteq> None"

definition query_cache_key :: "(string \<Rightarrow> string) \<Rightarrow> credential_query \<Rightarrow> cache_key" where
  "query_cache_key th q =
     \<lparr>keyAccount = query_account q, keyService = query_service th q, keyGeneric = query_generic q, keyType = query_type q\<rparr>"

section \<open>Account keys and queries\<close>

record account_key =
  akHomeAccountId :: "string option"
  akEnvironment :: "string option"
  akUsername :: "string option"
  akRealm :: "string option"
  akAccountType :: account_type

definition initAccountKey :: "string option \<Rightarrow> string option \<Rightarrow> string option \<Rightarrow> account_type \<Rightarrow> account_key" where
  "initAccountKey homeAccountId environment realm ty =
     \<lparr>akHomeAccountId = homeAccountId, akEnvironment = environment, akUsername = None,
      akRealm = (case realm of None \<Rightarrow> Some [] | Some r \<Rightarrow> Some r), akAccountType = ty\<rparr>"

definition accountTypeNumber :: "account_type \<Rightarrow> int" where
  "accountTypeNumber t = 1000 + account_index t"

definition accountKey_account :: "('a) account_key_scheme \<Rightarrow> string" where
  "accountKey_account k = fmt_obj (norm_str (akHomeAccountId k)) @ ''-'' @ fmt_obj (norm_str (akEnvironment k))"

definition account_cache_key :: "('a) account_key_scheme \<Rightarrow> cache_key" where
  "account_cache_key k =
     \<lparr>keyAccount = Some (accountKey_account k), keyService = norm_str (akRealm k),
      keyGeneric = norm_str (akUsername k), keyType = Some (accountTypeNumber (akAccountType k))\<rparr>"

record account_query = account_key +
  aqEnvironmentAliases :: "string list"

definition initAccountQuery :: account_query where
  "initAccountQuery =
     \<lparr>akHomeAccountId = None, akEnvironment = None, akUsername = None, akRealm = None,
      akAccountType = MSIDAccountTypeMSSTS, aqEnvironmentAliases = []\<rparr>"

definition account_query_account :: "account_query \<Rightarrow> string option" where
  "account_query_account q =
     (if akHomeAccountId q \<noteq> None \<and> akEnvironment q \<noteq> None then Some (accountKey_account q) else None)"

definition account_query_exactMatch :: "account_query \<Rightarrow> bool" where
  "account_query_exactMatch q \<longleftrightarrow> akHomeAccountId q \<noteq> None \<and> akEnvironment q \<noteq> None \<and> akRealm q \<noteq> None"

definition account_query_cache_key :: "account_query \<Rightarrow> cache_key" where
  "account_query_cache_key q = (account_cache_key q)\<lparr>keyAccount := account_query_account q\<rparr>"

section \<open>Application metadata keys and queries\<close>

record appmetadata_key =
  mkClientId :: "string option"
  mkEnvironment :: "string option"
  mkFamilyId :: "string option"
  mkGeneralType :: general_type

definition metadata_serviceWithType :: "general_type \<Rightarrow> string option \<Rightarrow> string" where
  "metadata_serviceWithType ty clientId = generalTypeAsString ty @ ''-'' @ fmt_obj (norm_str clientId)"

definition generalTypeNumber :: "general_type \<Rightarrow> int" where
  "generalTypeNumber t = 3000 + (case t of MSIDGeneralTypeOther \<Rightarrow> 0 | MSIDAppMetadataType \<Rightarrow> 1)"

definition appmetadata_cache_key :: "('a) appmetadata_key_scheme \<Rightarrow> cache_key" where
  "appmetadata_cache_key k =
     \<lparr>keyAccount = mkEnvironment k, keyService = Some (metadata_serviceWithType (mkGeneralType k) (mkClientId k)),
      keyGeneric = mkFamilyId k, keyType = Some (generalTypeNumber (mkGeneralType k))\<rparr>"

record appmetadata_query = appmetadata_key +
  mqEnvironmentAliases :: "string list"

definition appmetadata_query_type :: "appmetadata_query \<Rightarrow> int option" where
  "appmetadata_query_type q =
     (if mkGeneralType q = MSIDAppMetadataType then Some (generalTypeNumber (mkGeneralType q)) else None)"

definition appmetadata_query_service :: "appmetadata_query \<Rightarrow> string option" where
  "appmetadata_query_service q =
     (if mkClientId q \<noteq> None \<and> mkGeneralType q = MSIDAppMetadataType
      then Some (metadata_serviceWithType (mkGeneralType q) (mkClientId q)) else None)"

definition appmetadata_query_exactMatch :: "appmetadata_query \<Rightarrow> bool" where
  "appmetadata_query_exactMatch q \<longleftrightarrow> mkClientId q \<noteq> None \<and> mkEnvironment q \<noteq> None"

definition appmetadata_query_cache_key :: "appmetadata_query \<Rightarrow> cache_key" where
  "appmetadata_query_cache_key q =
     \<lparr>keyAccount = mkEnvironment q, keyService = appmetadata_query_service q, keyGeneric = mkFamilyId q,
      keyType = appmetadata_query_type q\<rparr>"

section \<open>Lemmas\<close>

lemma cacheKey_isEqualToItem_iff [simp]:
  "cacheKey_isEqualToItem a b \<longleftrightarrow> keyAccount a = keyAccount b \<and> keyService a = keyService b"
  by (auto simp: cacheKey_isEqualToItem_def isEqualToString_iff)

lemma norm_str_idem [simp]: "norm_str (norm_str so) = norm_str so"
  by (cases so) simp_all

lemma credential_types_all: "t \<in> set credential_types"
  by (cases t) (simp_all add: credential_types_def)

lemma credential_type_roundtrip:
  "credentialTypeFromString (Some (credentialTypeAsString t)) = t"
  "credentialTypeFromString (Some (lowercaseString (credentialTypeAsString t))) = t"
proof -
  have "list_all (\<lambda>t. credentialTypeFromString (Some (credentialTypeAsString t)) = t) credential_types" by code_simp
  then show 1: "credentialTypeFromString (Some (credentialTypeAsString t)) = t"
    using credential_types_all by (simp only: list_all_iff)
  show "credentialTypeFromString (Some (lowercaseString (credentialTypeAsString t))) = t"
    using 1 by (simp add: credentialTypeFromString_def)
qed

lemma credential_number_inj: "credentialTypeNumber t = credentialTypeNumber u \<longleftrightarrow> t = u"
  by (cases t; cases u) (simp_all add: credentialTypeNumber_def)

lemma account_type_roundtrip: "accountTypeFromString (Some (accountTypeAsString t)) = t"
proof -
  have "list_all (\<lambda>t. accountTypeFromString (Some (accountTypeAsString t)) = t)
      [MSIDAccountTypeOther, MSIDAccountTypeAADV1, MSIDAccountTypeMSA, MSIDAccountTypeMSSTS, MSIDAccountTypeADFS]"
    by code_simp
  then show ?thesis by (cases t) (simp_all only: list.pred_inject)
qed

lemma general_type_roundtrip: "generalTypeFromString (Some (generalTypeAsString t)) = t"
proof -
  have "list_all (\<lambda>t. generalTypeFromString (Some (generalTypeAsString t)) = t) [MSIDGeneralTypeOther, MSIDAppMetadataType]"
    by code_simp
  then show ?thesis by (cases t) (simp_all only: list.pred_inject)
qed

text \<open>The lower case names of the types have no hyphen, so the first hyphen of a service ends it.\<close>

lemma type_name_no_hyphen: "CHR ''-'' \<notin> set (lowercaseString (credentialTypeAsString t))"
proof -
  have "list_all (\<lambda>t. CHR ''-'' \<notin> set (lowercaseString (credentialTypeAsString t))) credential_types" by code_simp
  then show ?thesis using credential_types_all [of t] by (auto simp only: list_all_iff)
qed

lemma hyphen_split:
  "CHR ''-'' \<notin> set a \<Longrightarrow> CHR ''-'' \<notin> set b \<Longrightarrow> a @ ''-'' @ x = b @ ''-'' @ y \<longleftrightarrow> a = b \<and> x = y"
proof (induction a arbitrary: b)
  case Nil
  then show ?case by (cases b) auto
next
  case (Cons c a)
  then show ?case by (cases b) auto
qed

lemma append_split: "length x = length x' \<Longrightarrow> x @ z @ y = x' @ z @ y' \<longleftrightarrow> x = x' \<and> y = y'"
  by simp

lemma service_injective:
  assumes "length (fmt_obj (norm_str c)) = length (fmt_obj (norm_str c'))"
    and "length (str_or_empty (norm_str r)) = length (str_or_empty (norm_str r'))"
    and "serviceWithType th t c r None g None None None = serviceWithType th t' c' r' None g' None None None"
  shows "t = t' \<and> fmt_obj (norm_str c) = fmt_obj (norm_str c') \<and>
    str_or_empty (norm_str r) = str_or_empty (norm_str r') \<and> str_or_empty (norm_str g) = str_or_empty (norm_str g')"
proof -
  have eq: "lowercaseString (credentialTypeAsString t) @ ''-'' @ fmt_obj (norm_str c) @ ''-'' @ str_or_empty (norm_str r)
        @ ''-'' @ str_or_empty (norm_str g) =
      lowercaseString (credentialTypeAsString t') @ ''-'' @ fmt_obj (norm_str c') @ ''-'' @ str_or_empty (norm_str r')
        @ ''-'' @ str_or_empty (norm_str g')"
    using assms(3) by (simp add: serviceWithType_def credentialIdWithType_def msidIsStringNilOrBlank_def)
  note ty = iffD1 [OF hyphen_split [OF type_name_no_hyphen type_name_no_hyphen] eq]
  have "t = t'" using conjunct1 [OF ty] credential_type_roundtrip(2) [of t] credential_type_roundtrip(2) [of t'] by metis
  moreover note c = iffD1 [OF append_split [OF assms(1)] conjunct2 [OF ty]]
  moreover note iffD1 [OF append_split [OF assms(2)] conjunct2 [OF c]]
  ultimately show ?thesis by (simp only: simp_thms)
qed

text \<open>What a query for one credential leaves out of the key.\<close>

definition query_projection :: "credential_query \<Rightarrow> credential_key" where
  "query_projection q =
     (let base = initCredentialKey (ckHomeAccountId q) (ckEnvironment q) (ckClientId q) (ckCredentialType q)
      in case ckCredentialType q of
        MSIDAccessTokenType \<Rightarrow> credential_key.truncate q
      | MSIDAccessTokenWithAuthSchemeType \<Rightarrow> credential_key.truncate q
      | MSIDIDTokenType \<Rightarrow> base\<lparr>ckRealm := ckRealm q, ckAppKey := ckAppKey q, ckTokenType := ckTokenType q\<rparr>
      | MSIDLegacyIDTokenType \<Rightarrow> base\<lparr>ckRealm := ckRealm q, ckAppKey := ckAppKey q, ckTokenType := ckTokenType q\<rparr>
      | _ \<Rightarrow> base\<lparr>ckFamilyId := ckFamilyId q, ckAppKey := ckAppKey q, ckTokenType := ckTokenType q\<rparr>)"

lemmas query_projection_simps =
  query_projection_def initCredentialKey_def credential_key.truncate_def credentialKey_service_def key_clientId_def

lemma query_service_projection:
  assumes "query_service th q = Some s"
  shows "credentialKey_service th (query_projection q) = s"
proof (cases "ckCredentialType q")
  case MSIDAccessTokenType
  then show ?thesis using assms
    by (cases "ckFamilyId q") (simp_all add: query_projection_simps query_service_def serviceForAccessToken_def queryClientId_def split: if_splits)
next
  case MSIDAccessTokenWithAuthSchemeType
  then show ?thesis using assms
    by (cases "ckFamilyId q") (simp_all add: query_projection_simps query_service_def serviceForAccessToken_def queryClientId_def split: if_splits)
next
  case MSIDRefreshTokenType
  then show ?thesis using assms
    by (cases "ckFamilyId q") (simp_all add: query_projection_simps query_service_def serviceForRefreshToken_def queryClientId_def split: if_splits)
next
  case MSIDPrimaryRefreshTokenType
  then show ?thesis using assms
    by (cases "ckFamilyId q") (simp_all add: query_projection_simps query_service_def serviceForRefreshToken_def queryClientId_def split: if_splits)
next
  case MSIDIDTokenType
  then show ?thesis using assms
    by (cases "ckFamilyId q") (simp_all add: query_projection_simps query_service_def serviceForIDToken_def split: if_splits)
next
  case MSIDLegacyIDTokenType
  then show ?thesis using assms
    by (cases "ckFamilyId q") (simp_all add: query_projection_simps query_service_def serviceForLegacyIDToken_def split: if_splits)
qed (use assms in \<open>simp_all add: query_service_def split: if_splits\<close>)

lemma query_account_projection:
  assumes "query_account q = Some a"
  shows "credentialKey_account (query_projection q) = a"
proof -
  have "ckHomeAccountId (query_projection q) = ckHomeAccountId q" "ckEnvironment (query_projection q) = ckEnvironment q"
    by (cases "ckCredentialType q"; simp add: query_projection_simps Let_def)+
  then show ?thesis using assms by (simp add: query_account_def credentialKey_account_def split: if_splits)
qed

section \<open>Properties\<close>

text \<open>
  C26: a query that names one credential and the key of the credential it describes have the same
  account and service, so an exact lookup reads the slot that a save under that key wrote.
\<close>

theorem exact_query_reads_the_key:
  assumes "query_exactMatch th q"
  shows "cacheKey_isEqualToItem (query_cache_key th q) (credential_cache_key th (query_projection q))"
  using assms query_service_projection [of th q] query_account_projection [of q]
  by (auto simp: query_exactMatch_def query_cache_key_def credential_cache_key_def)

theorem exact_query_reads_the_key_witness:
  "cacheKey_isEqualToItem
    (query_cache_key (take 7) (initCredentialQuery\<lparr>ckHomeAccountId := Some ''u.t'', ckEnvironment := Some ''login.microsoftonline.com'',
       ckClientId := Some ''c'', ckRealm := Some ''t'', ckTarget := Some ''user.read'', ckCredentialType := MSIDAccessTokenType\<rparr>))
    (credential_cache_key (take 7) ((initCredentialKey (Some ''u.t'') (Some ''login.microsoftonline.com'') (Some ''c'')
       MSIDAccessTokenType)\<lparr>ckRealm := Some ''t'', ckTarget := Some ''user.read''\<rparr>))"
proof -
  let ?q = "initCredentialQuery\<lparr>ckHomeAccountId := Some ''u.t'', ckEnvironment := Some ''login.microsoftonline.com'',
       ckClientId := Some ''c'', ckRealm := Some ''t'', ckTarget := Some ''user.read'', ckCredentialType := MSIDAccessTokenType\<rparr>"
  have "query_exactMatch (take 7) ?q"
    by (simp add: query_exactMatch_def query_service_def serviceForAccessToken_def queryClientId_def key_clientId_def
        query_account_def initCredentialQuery_def)
  from exact_query_reads_the_key [OF this] show ?thesis
    by (simp add: query_projection_def initCredentialQuery_def initCredentialKey_def credential_key.truncate_def Let_def
        del: cacheKey_isEqualToItem_iff)
qed

text \<open>
  C28: keys separate credentials. Two plain credentials whose client ids have one length, and whose
  realms have one length, as GUIDs do, share a service only if their types, clients, realms and
  targets agree up to case and surrounding white space.
\<close>

theorem credential_service_injective:
  assumes "length (fmt_obj (norm_str c)) = length (fmt_obj (norm_str c'))"
    and "length (str_or_empty (norm_str r)) = length (str_or_empty (norm_str r'))"
    and "serviceWithType th t c r None g None None None = serviceWithType th t' c' r' None g' None None None"
  shows "t = t' \<and> fmt_obj (norm_str c) = fmt_obj (norm_str c') \<and>
    str_or_empty (norm_str r) = str_or_empty (norm_str r') \<and> str_or_empty (norm_str g) = str_or_empty (norm_str g')"
  using assms by (rule service_injective)

theorem credential_service_injective_witness:
  "fmt_obj (norm_str (Some '' C1'')) = fmt_obj (norm_str (Some ''c1''))"
proof -
  have "length (fmt_obj (norm_str (Some '' C1''))) = length (fmt_obj (norm_str (Some ''c1'')))"
    "length (str_or_empty (norm_str (Some ''T''))) = length (str_or_empty (norm_str (Some ''t'')))"
    "serviceWithType (take 7) MSIDAccessTokenType (Some '' C1'') (Some ''T'') None (Some ''a'') None None None =
     serviceWithType (take 7) MSIDAccessTokenType (Some ''c1'') (Some ''t'') None (Some ''A'') None None None"
    by code_simp+
  from credential_service_injective [OF this] show ?thesis by simp
qed

text \<open>
  C40: the copy of a credential key names the same slot exactly when the key has no application key:
  \<open>copyWithZone:\<close> drops \<open>appKey\<close>, which is part of the service.
\<close>

theorem credential_key_copy_keeps_slot:
  "cacheKey_isEqualToItem (credential_cache_key th (credentialKey_copy k)) (credential_cache_key th k) \<longleftrightarrow>
    msidIsStringNilOrBlank (ckAppKey k)"
proof -
  let ?s = "\<lambda>appKey. serviceWithType th (ckCredentialType k) (key_clientId k) (ckRealm k) (ckApplicationIdentifier k)
       (ckTarget k) appKey (ckTokenType k) (ckRequestedClaims k)"
  have copy: "credentialKey_service th (credentialKey_copy k) = ?s None"
    "credentialKey_account (credentialKey_copy k) = credentialKey_account k"
    by (cases "ckFamilyId k";
        simp add: credentialKey_service_def credentialKey_account_def credentialKey_copy_def key_clientId_def)+
  have "?s None = ?s (ckAppKey k)" if "msidIsStringNilOrBlank (ckAppKey k)"
    using that by (simp add: serviceWithType_def msidIsStringNilOrBlank_def)
  moreover have "length (?s None) < length (?s (ckAppKey k))" if "\<not> msidIsStringNilOrBlank (ckAppKey k)"
    using that by (simp add: serviceWithType_def Let_def) (simp add: msidIsStringNilOrBlank_def)
  ultimately show ?thesis
    by (auto simp: credential_cache_key_def copy) (auto simp: credentialKey_service_def)
qed

text \<open>
  The names of the credential, account and application types survive the trip through the
  cached JSON, whatever their case, and the keychain type numbers are distinct.
\<close>

theorem type_names_roundtrip:
  "credentialTypeFromString (Some (credentialTypeAsString t)) = t \<and>
   credentialTypeFromString (Some (lowercaseString (credentialTypeAsString t))) = t \<and>
   accountTypeFromString (Some (accountTypeAsString a)) = a \<and>
   generalTypeFromString (Some (generalTypeAsString g)) = g \<and>
   (credentialTypeNumber t = credentialTypeNumber u \<longleftrightarrow> t = u)"
  by (simp add: credential_type_roundtrip account_type_roundtrip general_type_roundtrip credential_number_inj)

end
