(* ===== verification/CacheItems.thy ===== *)
theory CacheItems
  imports CacheKeys ScopeSets
begin

text \<open>
  The items the cache stores: credentials, accounts and application metadata
  (\<open>cache/token/MSIDCredentialCacheItem.m\<close>, \<open>MSIDAccountCacheItem.m\<close>,
  \<open>MSIDAppMetadataCacheItem.m\<close>), their JSON form, their equality and the filters that a query
  applies to them.
\<close>

section \<open>JSON tables\<close>

text \<open>A sequence of subscript assignments, a nil value removing its key.\<close>

definition assign_all :: "(string \<times> nsobj option) list \<Rightarrow> (string, nsobj) dict \<Rightarrow> (string, nsobj) dict" where
  "assign_all table d = foldl (\<lambda>d (k, v). dict_assign k v d) d table"

abbreviation json_str :: "string option \<Rightarrow> nsobj option" where
  "json_str so \<equiv> map_option NSStr so"

abbreviation json_date :: "nsdate option \<Rightarrow> nsobj option" where
  "json_date d \<equiv> map_option (\<lambda>d. NSStr (msidDateToTimestamp d)) d"

text \<open>\<open>%0.*f\<close>, rounding half up.\<close>

definition pad_zeros :: "nat \<Rightarrow> string \<Rightarrow> string" where
  "pad_zeros n s = replicate (n - length s) (CHR ''0'') @ s"

definition msidDateToFractionalTimestamp :: "nat \<Rightarrow> nsdate \<Rightarrow> string" where
  "msidDateToFractionalTimestamp precision d =
     (let v = nat (floor (abs d * 10 ^ precision + 1 / 2));
          ip = nat_str (v div 10 ^ precision);
          fp = (if precision = 0 then [] else CHR ''.'' # pad_zeros precision (nat_str (v mod 10 ^ precision)))
      in (if d < 0 then ''-'' else []) @ ip @ fp)"

abbreviation json_fractional :: "nsdate option \<Rightarrow> nsobj option" where
  "json_fractional d \<equiv> map_option (\<lambda>d. NSStr (msidDateToFractionalTimestamp 3 d)) d"

abbreviation date_of :: "(string, nsobj) dict \<Rightarrow> string \<Rightarrow> nsdate option" where
  "date_of json k \<equiv> msidDateFromTimeStamp (msidStringObjectForKey json k)"

section \<open>Credential items\<close>

record credential_item =
  ciClientId :: "string option"
  ciCredentialType :: credential_type
  ciSecret :: "string option"
  ciTarget :: "string option"
  ciRealm :: "string option"
  ciEnvironment :: "string option"
  ciExpiresOn :: "nsdate option"
  ciExtendedExpiresOn :: "nsdate option"
  ciRefreshOn :: "nsdate option"
  ciCachedAt :: "nsdate option"
  ciLastRecoveryAttempt :: "nsdate option"
  ciRecoveryAttemptCount :: "string option"
  ciLastRecoveryAttemptFailed :: "string option"
  ciExpiryInterval :: "string option"
  ciFamilyId :: "string option"
  ciHomeAccountId :: "string option"
  ciEnrollmentId :: "string option"
  ciSpeInfo :: "string option"
  ciLastModificationTime :: "nsdate option"
  ciLastModificationApp :: "string option"
  ciApplicationIdentifier :: "string option"
  ciKid :: "string option"
  ciTokenType :: "string option"
  ciRequestedClaims :: "string option"
  ciRedirectUri :: "string option"
  ciJson :: "(string, nsobj) dict option"

definition credential_isEqualToItem :: "credential_item \<Rightarrow> credential_item \<Rightarrow> bool" where
  "credential_isEqualToItem a b \<longleftrightarrow>
     eq_or_both_nil (ciClientId a) (ciClientId b) \<and> ciCredentialType a = ciCredentialType b \<and>
     eq_or_both_nil (ciSecret a) (ciSecret b) \<and> eq_or_both_nil (ciTarget a) (ciTarget b) \<and>
     eq_or_both_nil (ciRealm a) (ciRealm b) \<and> eq_or_both_nil (ciEnvironment a) (ciEnvironment b) \<and>
     eq_or_both_nil (ciExpiresOn a) (ciExpiresOn b) \<and>
     eq_or_both_nil (ciExtendedExpiresOn a) (ciExtendedExpiresOn b) \<and>
     eq_or_both_nil (ciRefreshOn a) (ciRefreshOn b) \<and> eq_or_both_nil (ciCachedAt a) (ciCachedAt b) \<and>
     eq_or_both_nil (ciFamilyId a) (ciFamilyId b) \<and> eq_or_both_nil (ciHomeAccountId a) (ciHomeAccountId b) \<and>
     (ciApplicationIdentifier a = None \<or> ciApplicationIdentifier b = None \<or>
      isEqualToString (ciApplicationIdentifier a) (ciApplicationIdentifier b)) \<and>
     eq_or_both_nil (ciSpeInfo a) (ciSpeInfo b) \<and> eq_or_both_nil (ciTokenType a) (ciTokenType b) \<and>
     eq_or_both_nil (ciKid a) (ciKid b) \<and> eq_or_both_nil (ciRequestedClaims a) (ciRequestedClaims b) \<and>
     eq_or_both_nil (ciRedirectUri a) (ciRedirectUri b)"

text \<open>The copy lists every property but the JSON it was read from.\<close>

definition credential_copy :: "credential_item \<Rightarrow> credential_item" where
  "credential_copy i = i\<lparr>ciJson := None\<rparr>"

definition initCredentialWithJSON :: "(string, nsobj) dict option \<Rightarrow> credential_item option" where
  "initCredentialWithJSON jo =
     (case jo of
        None \<Rightarrow> None
      | Some json \<Rightarrow>
          (let str = msidStringObjectForKey json
           in if str ''secret'' = None then None
              else Some
                \<lparr>ciClientId = str ''client_id'',
                 ciCredentialType = credentialTypeFromString (str ''credential_type''),
                 ciSecret = str ''secret'',
                 ciTarget = str ''target'',
                 ciRealm = str ''realm'',
                 ciEnvironment = str ''environment'',
                 ciExpiresOn = date_of json ''expires_on'',
                 ciExtendedExpiresOn = date_of json ''extended_expires_on'',
                 ciRefreshOn = date_of json ''refresh_on'',
                 ciCachedAt = date_of json ''cached_at'',
                 ciLastRecoveryAttempt = date_of json ''recovery_attempted_at'',
                 ciRecoveryAttemptCount = str ''recovery_attempt_count'',
                 ciLastRecoveryAttemptFailed = str ''last_recovery_attempt_failed'',
                 ciExpiryInterval = str ''expires_in'',
                 ciFamilyId = str ''family_id'',
                 ciHomeAccountId = str ''home_account_id'',
                 ciEnrollmentId = str ''enrollment_id'',
                 ciSpeInfo = str ''spe_info'',
                 ciLastModificationTime = date_of json ''last_modification_time'',
                 ciLastModificationApp = str ''last_modification_app'',
                 ciApplicationIdentifier = str ''application_cache_identifier'',
                 ciKid = str ''kid'',
                 ciTokenType = str ''token_type'',
                 ciRequestedClaims = str ''requested_claims'',
                 ciRedirectUri = str ''redirect_uri'',
                 ciJson = Some json\<rparr>))"

definition credential_table :: "credential_item \<Rightarrow> (string \<times> nsobj option) list" where
  "credential_table i =
     [(''client_id'', json_str (ciClientId i)),
      (''credential_type'', Some (NSStr (credentialTypeAsString (ciCredentialType i)))),
      (''secret'', json_str (ciSecret i)),
      (''target'', json_str (ciTarget i)),
      (''realm'', json_str (ciRealm i)),
      (''environment'', json_str (ciEnvironment i)),
      (''expires_on'', json_date (ciExpiresOn i)),
      (''extended_expires_on'', json_date (ciExtendedExpiresOn i)),
      (''refresh_on'', json_date (ciRefreshOn i)),
      (''cached_at'', json_date (ciCachedAt i)),
      (''recovery_attempted_at'', json_date (ciLastRecoveryAttempt i)),
      (''recovery_attempt_count'', json_str (ciRecoveryAttemptCount i)),
      (''last_recovery_attempt_failed'', json_str (ciLastRecoveryAttemptFailed i)),
      (''family_id'', json_str (ciFamilyId i)),
      (''home_account_id'', json_str (ciHomeAccountId i)),
      (''enrollment_id'', json_str (ciEnrollmentId i)),
      (''spe_info'', json_str (ciSpeInfo i)),
      (''expires_in'', json_str (ciExpiryInterval i)),
      (''last_modification_time'', json_fractional (ciLastModificationTime i)),
      (''last_modification_app'', json_str (ciLastModificationApp i)),
      (''application_cache_identifier'', json_str (ciApplicationIdentifier i)),
      (''kid'', json_str (ciKid i)),
      (''token_type'', json_str (ciTokenType i)),
      (''requested_claims'', json_str (ciRequestedClaims i)),
      (''redirect_uri'', json_str (ciRedirectUri i))]"

definition credential_jsonDictionary :: "credential_item \<Rightarrow> (string, nsobj) dict" where
  "credential_jsonDictionary i =
     assign_all (credential_table i)
       (case ciJson i of None \<Rightarrow> [] | Some json \<Rightarrow> addEntriesFromDictionary [] json)"

definition matchesTarget :: "credential_item \<Rightarrow> string option \<Rightarrow> comparison_options \<Rightarrow> bool" where
  "matchesTarget i target options =
     (case target of
        None \<Rightarrow> True
      | Some t \<Rightarrow>
          (if options = MSIDExactStringMatch then isEqualToString (norm_str (ciTarget i)) (norm_str target)
           else let inputSet = msidOrderedSetFromString target True;
                    tokenSet = msidOrderedSetFromString (ciTarget i) True
                in (case options of
                      MSIDSubSet \<Rightarrow> isSubsetOfOrderedSet inputSet tokenSet
                    | MSIDIntersect \<Rightarrow> intersectsOrderedSet inputSet tokenSet
                    | MSIDAny \<Rightarrow> True
                    | _ \<Rightarrow> False)))"

definition credential_matchByEnvironment :: "credential_item \<Rightarrow> string option \<Rightarrow> string list \<Rightarrow> bool" where
  "credential_matchByEnvironment i environment environmentAliases =
     (if environment \<noteq> None \<and> \<not> isEqualToString (norm_str (ciEnvironment i)) (norm_str environment) then False
      else if length environmentAliases > 0 \<and>
          \<not> msidIsEquivalentWithAnyAlias (norm_str (ciEnvironment i)) environmentAliases then False
      else True)"

definition credential_matchesWithHomeAccountId ::
    "credential_item \<Rightarrow> string option \<Rightarrow> string option \<Rightarrow> string list \<Rightarrow> bool" where
  "credential_matchesWithHomeAccountId i homeAccountId environment environmentAliases =
     (if homeAccountId \<noteq> None \<and> \<not> isEqualToString (norm_str (ciHomeAccountId i)) (norm_str homeAccountId) then False
      else credential_matchByEnvironment i environment environmentAliases)"

definition credential_matchesWithRealm ::
    "credential_item \<Rightarrow> string option \<Rightarrow> string option \<Rightarrow> string option \<Rightarrow> string option \<Rightarrow> string option \<Rightarrow>
       comparison_options \<Rightarrow> comparison_options \<Rightarrow> bool" where
  "credential_matchesWithRealm i realm clientId familyId target requestedClaims matchingOptions clientIDMatchingOptions =
     (if realm \<noteq> None \<and> \<not> isEqualToString (norm_str (ciRealm i)) (norm_str realm) then False
      else if \<not> matchesTarget i target matchingOptions then False
      else if clientId = None \<and> familyId = None then True
      else if matchingOptions = MSIDAny \<and> clientId \<noteq> None \<and>
          isEqualToString (norm_str (ciClientId i)) (norm_str clientId) then True
      else if \<not> (msidIsStringNilOrBlank (ciRequestedClaims i) \<and> msidIsStringNilOrBlank requestedClaims) \<and>
          \<not> isEqualToString (ciRequestedClaims i) requestedClaims then False
      else if clientIDMatchingOptions = MSIDSuperSet then
        (clientId \<noteq> None \<and> isEqualToString (norm_str (ciClientId i)) (norm_str clientId)) \<or>
        (familyId \<noteq> None \<and> isEqualToString (norm_str (ciFamilyId i)) (norm_str familyId))
      else if clientId \<noteq> None \<and> \<not> isEqualToString (norm_str (ciClientId i)) (norm_str clientId) then False
      else if familyId \<noteq> None \<and> \<not> isEqualToString (norm_str (ciFamilyId i)) (norm_str familyId) then False
      else True)"

definition isTombstone :: "credential_item \<Rightarrow> bool" where
  "isTombstone i \<longleftrightarrow> isEqualToString (ciSecret i) (Some ''<tombstone>'')"

definition credential_generateCacheKey :: "credential_item \<Rightarrow> credential_key" where
  "credential_generateCacheKey i =
     (initCredentialKey (ciHomeAccountId i) (ciEnvironment i) (ciClientId i) (ciCredentialType i))
       \<lparr>ckFamilyId := ciFamilyId i, ckRealm := ciRealm i, ckTarget := ciTarget i,
        ckApplicationIdentifier := ciApplicationIdentifier i, ckTokenType := ciTokenType i,
        ckRequestedClaims := ciRequestedClaims i\<rparr>"

section \<open>Account items\<close>

text \<open>A client info is its raw text; \<open>client_info_ok\<close> says that \<open>MSIDClientInfo\<close> can parse it.\<close>

record account_item =
  aiAccountType :: account_type
  aiHomeAccountId :: "string option"
  aiLocalAccountId :: "string option"
  aiUsername :: "string option"
  aiGivenName :: "string option"
  aiMiddleName :: "string option"
  aiFamilyName :: "string option"
  aiName :: "string option"
  aiRealm :: "string option"
  aiClientInfo :: "string option"
  aiEnvironment :: "string option"
  aiAlternativeAccountId :: "string option"
  aiLastModificationTime :: "nsdate option"
  aiLastModificationApp :: "string option"
  aiJson :: "(string, nsobj) dict option"

definition account_isEqualToItem :: "account_item \<Rightarrow> account_item \<Rightarrow> bool" where
  "account_isEqualToItem a b \<longleftrightarrow>
     aiAccountType a = aiAccountType b \<and> eq_or_both_nil (aiHomeAccountId a) (aiHomeAccountId b) \<and>
     eq_or_both_nil (aiLocalAccountId a) (aiLocalAccountId b) \<and> eq_or_both_nil (aiUsername a) (aiUsername b) \<and>
     eq_or_both_nil (aiGivenName a) (aiGivenName b) \<and> eq_or_both_nil (aiMiddleName a) (aiMiddleName b) \<and>
     eq_or_both_nil (aiFamilyName a) (aiFamilyName b) \<and> eq_or_both_nil (aiName a) (aiName b) \<and>
     eq_or_both_nil (aiRealm a) (aiRealm b) \<and> eq_or_both_nil (aiClientInfo a) (aiClientInfo b) \<and>
     eq_or_both_nil (aiEnvironment a) (aiEnvironment b) \<and>
     eq_or_both_nil (aiAlternativeAccountId a) (aiAlternativeAccountId b)"

definition account_copy :: "account_item \<Rightarrow> account_item" where
  "account_copy i = i\<lparr>aiJson := None\<rparr>"

definition initAccountWithJSON :: "(string \<Rightarrow> bool) \<Rightarrow> (string, nsobj) dict option \<Rightarrow> account_item option" where
  "initAccountWithJSON client_info_ok jo =
     (case jo of
        None \<Rightarrow> None
      | Some json \<Rightarrow>
          (let str = msidStringObjectForKey json;
               ty = accountTypeFromString (str ''authority_type'')
           in if ty = MSIDAccountTypeOther then None
              else Some
                \<lparr>aiAccountType = ty,
                 aiHomeAccountId = str ''home_account_id'',
                 aiLocalAccountId = str ''local_account_id'',
                 aiUsername = str ''username'',
                 aiGivenName = str ''given_name'',
                 aiMiddleName = str ''middle_name'',
                 aiFamilyName = str ''family_name'',
                 aiName = str ''name'',
                 aiRealm = str ''realm'',
                 aiClientInfo = Option.bind (str ''client_info'') (\<lambda>raw. if client_info_ok raw then Some raw else None),
                 aiEnvironment = str ''environment'',
                 aiAlternativeAccountId = str ''alternative_account_id'',
                 aiLastModificationTime = date_of json ''last_modification_time'',
                 aiLastModificationApp = str ''last_modification_app'',
                 aiJson = Some json\<rparr>))"

definition account_table :: "account_item \<Rightarrow> (string \<times> nsobj option) list" where
  "account_table i =
     [(''authority_type'', Some (NSStr (accountTypeAsString (aiAccountType i)))),
      (''home_account_id'', json_str (aiHomeAccountId i)),
      (''local_account_id'', json_str (aiLocalAccountId i)),
      (''username'', json_str (aiUsername i)),
      (''given_name'', json_str (aiGivenName i)),
      (''middle_name'', json_str (aiMiddleName i)),
      (''family_name'', json_str (aiFamilyName i)),
      (''name'', json_str (aiName i)),
      (''environment'', json_str (aiEnvironment i)),
      (''realm'', json_str (aiRealm i)),
      (''client_info'', json_str (aiClientInfo i)),
      (''alternative_account_id'', json_str (aiAlternativeAccountId i)),
      (''last_modification_time'', json_fractional (aiLastModificationTime i)),
      (''last_modification_app'', json_str (aiLastModificationApp i))]"

definition account_jsonDictionary :: "account_item \<Rightarrow> (string, nsobj) dict" where
  "account_jsonDictionary i =
     assign_all (account_table i)
       (case aiJson i of None \<Rightarrow> [] | Some json \<Rightarrow> addEntriesFromDictionary [] json)"

definition account_generateCacheKey :: "account_item \<Rightarrow> account_key" where
  "account_generateCacheKey i =
     (initAccountKey (aiHomeAccountId i) (aiEnvironment i) (aiRealm i) (aiAccountType i))
       \<lparr>akUsername := aiUsername i\<rparr>"

section \<open>Application metadata items\<close>

record appmetadata_item =
  miClientId :: "string option"
  miEnvironment :: "string option"
  miFamilyId :: "string option"
  miJson :: "(string, nsobj) dict option"

definition appmetadata_isEqualToItem :: "appmetadata_item \<Rightarrow> appmetadata_item \<Rightarrow> bool" where
  "appmetadata_isEqualToItem a b \<longleftrightarrow>
     eq_or_both_nil (miClientId a) (miClientId b) \<and> eq_or_both_nil (miEnvironment a) (miEnvironment b) \<and>
     eq_or_both_nil (miFamilyId a) (miFamilyId b)"

definition appmetadata_copy :: "appmetadata_item \<Rightarrow> appmetadata_item" where
  "appmetadata_copy i = i\<lparr>miJson := None\<rparr>"

definition initAppMetadataWithJSON :: "(string, nsobj) dict option \<Rightarrow> appmetadata_item option" where
  "initAppMetadataWithJSON jo =
     map_option (\<lambda>json.
       \<lparr>miClientId = msidStringObjectForKey json ''client_id'',
        miEnvironment = msidStringObjectForKey json ''environment'',
        miFamilyId = msidStringObjectForKey json ''family_id'',
        miJson = Some json\<rparr>) jo"

definition appmetadata_jsonDictionary :: "appmetadata_item \<Rightarrow> (string, nsobj) dict" where
  "appmetadata_jsonDictionary i =
     assign_all [(''client_id'', json_str (miClientId i)), (''environment'', json_str (miEnvironment i)),
        (''family_id'', json_str (miFamilyId i))]
       (case miJson i of None \<Rightarrow> [] | Some json \<Rightarrow> addEntriesFromDictionary [] json)"

definition appmetadata_matchByEnvironment :: "appmetadata_item \<Rightarrow> string option \<Rightarrow> string list \<Rightarrow> bool" where
  "appmetadata_matchByEnvironment i environment environmentAliases =
     (if environment \<noteq> None \<and> \<not> isEqualToString (miEnvironment i) environment then False
      else if length environmentAliases > 0 \<and> \<not> msidIsEquivalentWithAnyAlias (miEnvironment i) environmentAliases
      then False
      else True)"

definition appmetadata_matchesWithClientId ::
    "appmetadata_item \<Rightarrow> string option \<Rightarrow> string option \<Rightarrow> string list \<Rightarrow> bool" where
  "appmetadata_matchesWithClientId i clientId environment environmentAliases =
     (if clientId \<noteq> None \<and> \<not> isEqualToString (miClientId i) clientId then False
      else appmetadata_matchByEnvironment i environment environmentAliases)"

definition appmetadata_generateCacheKey :: "appmetadata_item \<Rightarrow> appmetadata_key" where
  "appmetadata_generateCacheKey i =
     \<lparr>mkClientId = miClientId i, mkEnvironment = miEnvironment i, mkFamilyId = miFamilyId i,
      mkGeneralType = MSIDAppMetadataType\<rparr>"

section \<open>Reading back what was written\<close>

lemma length_nat_str: "n < 10 ^ Suc k \<Longrightarrow> length (nat_str n) \<le> Suc k"
proof (induction n arbitrary: k rule: nat_str.induct)
  case (1 n)
  show ?case
  proof (cases "n < 10")
    case True
    then show ?thesis by (subst nat_str.simps) simp
  next
    case False
    then obtain j where j: "k = Suc j" using 1(2) by (cases k) auto
    have "n div 10 < 10 ^ Suc j" using 1(2) by (simp add: j less_mult_imp_div_less mult.commute)
    then show ?thesis using 1(1) False j by (subst nat_str.simps) auto
  qed
qed

lemma digits_val_append_zero: "digits_val (replicate n (CHR ''0'') @ s) = digits_val s"
proof -
  have "foldl (\<lambda>a c. a * 10 + digit_val c) 0 (replicate n (CHR ''0'')) = 0"
    by (induction n) (simp_all add: digit_val_def digits_def)
  then show ?thesis by (simp add: digits_val_def)
qed

lemma pad_zeros_props:
  assumes "n < 10 ^ Suc k"
  shows "length (pad_zeros (Suc k) (nat_str n)) = Suc k" "digits_val (pad_zeros (Suc k) (nat_str n)) = n"
    "takeWhile is_digit (pad_zeros (Suc k) (nat_str n)) = pad_zeros (Suc k) (nat_str n)"
    "dropWhile is_digit (pad_zeros (Suc k) (nat_str n)) = []"
proof -
  show "length (pad_zeros (Suc k) (nat_str n)) = Suc k"
    using length_nat_str [OF assms] by (simp add: pad_zeros_def)
  show "digits_val (pad_zeros (Suc k) (nat_str n)) = n"
    by (simp add: pad_zeros_def digits_val_append_zero)
  have "is_digit (CHR ''0'')" by (simp add: is_digit_def digits_def)
  then have "\<forall>c \<in> set (pad_zeros (Suc k) (nat_str n)). is_digit c"
    by (auto simp: pad_zeros_def dest: nat_str_digits)
  then show "takeWhile is_digit (pad_zeros (Suc k) (nat_str n)) = pad_zeros (Suc k) (nat_str n)"
    "dropWhile is_digit (pad_zeros (Suc k) (nat_str n)) = []" by simp_all
qed

lemma not_digit_dot: "\<not> is_digit (CHR ''.'')"
  by (simp add: is_digit_def digits_def)

lemma doubleValue_fraction:
  assumes "n < 1000"
  shows "doubleValue (nat_str m @ CHR ''.'' # pad_zeros 3 (nat_str n)) = of_nat m + of_nat n / 1000"
proof -
  let ?f = "pad_zeros 3 (nat_str n)"
  have n: "n < 10 ^ Suc 2" using assms by simp
  have three: "(3 :: nat) = Suc 2" by simp
  have P: "length ?f = 3" "digits_val ?f = n" "takeWhile is_digit ?f = ?f" "dropWhile is_digit ?f = []"
    unfolding three by (rule pad_zeros_props [OF n])+
  have tw: "takeWhile is_digit (nat_str m @ CHR ''.'' # ?f) = nat_str m"
    "dropWhile is_digit (nat_str m @ CHR ''.'' # ?f) = CHR ''.'' # ?f"
    using nat_str_digits [of _ m] not_digit_dot by (simp_all add: takeWhile_append dropWhile_append)
  have sg: "read_sign (dropWhile whitespaceAndNewline (nat_str m @ CHR ''.'' # ?f)) = (1, nat_str m @ CHR ''.'' # ?f)"
  proof (cases "nat_str m")
    case (Cons c s)
    then have "is_digit c" using nat_str_digits [of c m] by simp
    then show ?thesis using digit_not_space [of c] by (simp add: Cons)
  qed simp
  show ?thesis by (simp add: doubleValue_def sg tw P)
qed

lemma fractional_roundtrip:
  assumes "0 \<le> d"
  shows "doubleValue (msidDateToFractionalTimestamp 3 d) = of_int (floor (d * 1000 + 1 / 2)) / 1000"
proof -
  let ?v = "nat (floor (d * 1000 + 1 / 2))"
  have v: "(of_nat ?v :: rat) = of_int (floor (d * 1000 + 1 / 2))" using assms by simp
  have "doubleValue (msidDateToFractionalTimestamp 3 d) = of_nat (?v div 1000) + of_nat (?v mod 1000) / 1000"
    using doubleValue_fraction [of "?v mod 1000" "?v div 1000"] assms
    by (simp add: msidDateToFractionalTimestamp_def Let_def)
  also have "\<dots> = of_nat (?v div 1000 * 1000 + ?v mod 1000) / 1000"
    by (simp only: of_nat_add of_nat_mult of_nat_numeral add_divide_distrib)
  also have "?v div 1000 * 1000 + ?v mod 1000 = ?v" by (rule div_mult_mod_eq)
  finally show ?thesis by (simp only: v)
qed

text \<open>Times the JSON can hold exactly.\<close>

definition whole_seconds :: "nsdate option \<Rightarrow> bool" where
  "whole_seconds d \<longleftrightarrow> (case d of None \<Rightarrow> True | Some t \<Rightarrow> 0 \<le> t \<and> of_int (floor t) = t)"

definition whole_millis :: "nsdate option \<Rightarrow> bool" where
  "whole_millis d \<longleftrightarrow> (case d of None \<Rightarrow> True | Some t \<Rightarrow> 0 \<le> t \<and> of_int (floor (t * 1000)) = t * 1000)"

lemma whole_seconds_roundtrip:
  "whole_seconds d \<Longrightarrow> msidDateFromTimeStamp (map_option msidDateToTimestamp d) = d"
  using date_timestamp_roundtrip by (cases d) (auto simp: whole_seconds_def msidDateFromTimeStamp_def)

lemma whole_millis_roundtrip:
  "whole_millis d \<Longrightarrow> msidDateFromTimeStamp (map_option (msidDateToFractionalTimestamp 3) d) = d"
proof (cases d)
  case (Some t)
  assume w: "whole_millis d"
  then have t: "0 \<le> t" "of_int (floor (t * 1000)) = t * 1000" by (simp_all add: whole_millis_def Some)
  have "floor (t * 1000 + 1 / 2) = floor (t * 1000)"
    by (rule floor_unique) (use t(2) in linarith)+
  then show ?thesis using fractional_roundtrip [OF t(1)] t(2) by (simp add: Some msidDateFromTimeStamp_def)
qed (simp add: msidDateFromTimeStamp_def)

lemma assign_all_get:
  "distinct (map fst table) \<Longrightarrow>
   dict_get (assign_all table d) k = (case map_of table k of Some v \<Rightarrow> v | None \<Rightarrow> dict_get d k)"
proof (induction table arbitrary: d)
  case (Cons kv table)
  obtain k' v where kv: "kv = (k', v)" by (cases kv)
  have "map_of table k' = None" using Cons.prems by (simp add: kv map_of_eq_None_iff)
  then show ?case using Cons by (auto simp: kv assign_all_def split: option.split)
qed (simp add: assign_all_def)

lemma string_of_assigned:
  assumes "distinct (map fst table)" and "map_of table k = Some (json_str so)"
  shows "msidStringObjectForKey (assign_all table d) k = so"
  using assms by (cases so) (simp_all add: msidStringObjectForKey_def msidObjectForKey_def assign_all_get)

lemma json_date_str: "json_date d = json_str (map_option msidDateToTimestamp d)"
  "json_fractional d = json_str (map_option (msidDateToFractionalTimestamp 3) d)"
  by (simp_all add: option.map_comp comp_def)

lemma credential_table_distinct: "distinct (map fst (credential_table i))"
  by (simp add: credential_table_def)

lemma account_table_distinct: "distinct (map fst (account_table i))"
  by (simp add: account_table_def)

lemma credential_json_fields:
  "msidStringObjectForKey (credential_jsonDictionary i) ''client_id'' = ciClientId i"
  "msidStringObjectForKey (credential_jsonDictionary i) ''credential_type'' = Some (credentialTypeAsString (ciCredentialType i))"
  "msidStringObjectForKey (credential_jsonDictionary i) ''secret'' = ciSecret i"
  "msidStringObjectForKey (credential_jsonDictionary i) ''target'' = ciTarget i"
  "msidStringObjectForKey (credential_jsonDictionary i) ''realm'' = ciRealm i"
  "msidStringObjectForKey (credential_jsonDictionary i) ''environment'' = ciEnvironment i"
  "msidStringObjectForKey (credential_jsonDictionary i) ''expires_on'' = map_option msidDateToTimestamp (ciExpiresOn i)"
  "msidStringObjectForKey (credential_jsonDictionary i) ''extended_expires_on'' = map_option msidDateToTimestamp (ciExtendedExpiresOn i)"
  "msidStringObjectForKey (credential_jsonDictionary i) ''refresh_on'' = map_option msidDateToTimestamp (ciRefreshOn i)"
  "msidStringObjectForKey (credential_jsonDictionary i) ''cached_at'' = map_option msidDateToTimestamp (ciCachedAt i)"
  "msidStringObjectForKey (credential_jsonDictionary i) ''recovery_attempted_at'' = map_option msidDateToTimestamp (ciLastRecoveryAttempt i)"
  "msidStringObjectForKey (credential_jsonDictionary i) ''recovery_attempt_count'' = ciRecoveryAttemptCount i"
  "msidStringObjectForKey (credential_jsonDictionary i) ''last_recovery_attempt_failed'' = ciLastRecoveryAttemptFailed i"
  "msidStringObjectForKey (credential_jsonDictionary i) ''family_id'' = ciFamilyId i"
  "msidStringObjectForKey (credential_jsonDictionary i) ''home_account_id'' = ciHomeAccountId i"
  "msidStringObjectForKey (credential_jsonDictionary i) ''enrollment_id'' = ciEnrollmentId i"
  "msidStringObjectForKey (credential_jsonDictionary i) ''spe_info'' = ciSpeInfo i"
  "msidStringObjectForKey (credential_jsonDictionary i) ''expires_in'' = ciExpiryInterval i"
  "msidStringObjectForKey (credential_jsonDictionary i) ''last_modification_time'' = map_option (msidDateToFractionalTimestamp 3) (ciLastModificationTime i)"
  "msidStringObjectForKey (credential_jsonDictionary i) ''last_modification_app'' = ciLastModificationApp i"
  "msidStringObjectForKey (credential_jsonDictionary i) ''application_cache_identifier'' = ciApplicationIdentifier i"
  "msidStringObjectForKey (credential_jsonDictionary i) ''kid'' = ciKid i"
  "msidStringObjectForKey (credential_jsonDictionary i) ''token_type'' = ciTokenType i"
  "msidStringObjectForKey (credential_jsonDictionary i) ''requested_claims'' = ciRequestedClaims i"
  "msidStringObjectForKey (credential_jsonDictionary i) ''redirect_uri'' = ciRedirectUri i"
  unfolding credential_jsonDictionary_def
  by (rule string_of_assigned [OF credential_table_distinct], simp add: credential_table_def json_date_str)+

lemma account_json_fields:
  "msidStringObjectForKey (account_jsonDictionary i) ''authority_type'' = Some (accountTypeAsString (aiAccountType i))"
  "msidStringObjectForKey (account_jsonDictionary i) ''home_account_id'' = aiHomeAccountId i"
  "msidStringObjectForKey (account_jsonDictionary i) ''local_account_id'' = aiLocalAccountId i"
  "msidStringObjectForKey (account_jsonDictionary i) ''username'' = aiUsername i"
  "msidStringObjectForKey (account_jsonDictionary i) ''given_name'' = aiGivenName i"
  "msidStringObjectForKey (account_jsonDictionary i) ''middle_name'' = aiMiddleName i"
  "msidStringObjectForKey (account_jsonDictionary i) ''family_name'' = aiFamilyName i"
  "msidStringObjectForKey (account_jsonDictionary i) ''name'' = aiName i"
  "msidStringObjectForKey (account_jsonDictionary i) ''environment'' = aiEnvironment i"
  "msidStringObjectForKey (account_jsonDictionary i) ''realm'' = aiRealm i"
  "msidStringObjectForKey (account_jsonDictionary i) ''client_info'' = aiClientInfo i"
  "msidStringObjectForKey (account_jsonDictionary i) ''alternative_account_id'' = aiAlternativeAccountId i"
  "msidStringObjectForKey (account_jsonDictionary i) ''last_modification_time'' = map_option (msidDateToFractionalTimestamp 3) (aiLastModificationTime i)"
  "msidStringObjectForKey (account_jsonDictionary i) ''last_modification_app'' = aiLastModificationApp i"
  unfolding account_jsonDictionary_def
  by (rule string_of_assigned [OF account_table_distinct], simp add: account_table_def json_date_str)+

text \<open>Keys the item does not know stay in its JSON.\<close>

lemma assign_all_other:
  assumes "distinct (map fst table)" and "k \<notin> set (map fst table)" and "distinct (dict_keys json)"
  shows "dict_get (assign_all table (addEntriesFromDictionary [] json)) k = dict_get json k"
proof -
  have "map_of table k = None" using assms(2) by (simp add: map_of_eq_None_iff)
  then show ?thesis using dict_get_addEntries [OF assms(3), of "[]"] by (simp add: assign_all_get [OF assms(1)])
qed

definition credential_times_ok :: "credential_item \<Rightarrow> bool" where
  "credential_times_ok i \<longleftrightarrow> whole_seconds (ciExpiresOn i) \<and> whole_seconds (ciExtendedExpiresOn i) \<and>
     whole_seconds (ciRefreshOn i) \<and> whole_seconds (ciCachedAt i) \<and> whole_seconds (ciLastRecoveryAttempt i) \<and>
     whole_millis (ciLastModificationTime i)"

section \<open>Properties\<close>

text \<open>
  C31: a credential survives its trip through the cached JSON. With a secret, with times in whole
  seconds and a modification time in milliseconds, the item read back has every property of the item
  written, and a key of the original JSON that the class does not know is still there.
\<close>

theorem credential_json_roundtrip:
  assumes "ciSecret i \<noteq> None" and "credential_times_ok i"
    and "ciJson i = Some json" and "distinct (dict_keys json)" and "k \<notin> set (map fst (credential_table i))"
  shows "initCredentialWithJSON (Some (credential_jsonDictionary i)) =
      Some (i\<lparr>ciJson := Some (credential_jsonDictionary i)\<rparr>) \<and>
    dict_get (credential_jsonDictionary i) k = dict_get json k"
proof
  show "initCredentialWithJSON (Some (credential_jsonDictionary i)) =
      Some (i\<lparr>ciJson := Some (credential_jsonDictionary i)\<rparr>)"
    using assms(1,2)
    by (cases i) (simp add: initCredentialWithJSON_def Let_def credential_json_fields credential_times_ok_def
        whole_seconds_roundtrip whole_millis_roundtrip credential_type_roundtrip)
  show "dict_get (credential_jsonDictionary i) k = dict_get json k"
    using assign_all_other [OF credential_table_distinct assms(5,4)] assms(3)
    by (simp add: credential_jsonDictionary_def)
qed

definition sample_credential :: credential_item where
  "sample_credential = the (initCredentialWithJSON (Some
     [(''secret'', NSStr ''s''), (''client_id'', NSStr ''c''), (''credential_type'', NSStr ''accesstoken''),
      (''target'', NSStr ''user.read''), (''realm'', NSStr ''t''), (''home_account_id'', NSStr ''u.t''),
      (''environment'', NSStr ''login.microsoftonline.com''), (''expires_on'', NSStr ''1700000000''),
      (''last_modification_time'', NSStr ''1700000000.125''), (''custom'', NSNum 1)]))"

theorem credential_json_roundtrip_witness:
  "initCredentialWithJSON (Some (credential_jsonDictionary sample_credential)) =
      Some (sample_credential\<lparr>ciJson := Some (credential_jsonDictionary sample_credential)\<rparr>) \<and>
    dict_get (credential_jsonDictionary sample_credential) ''custom'' = Some (NSNum 1)"
proof -
  let ?json = "[(''secret'', NSStr ''s''), (''client_id'', NSStr ''c''), (''credential_type'', NSStr ''accesstoken''),
      (''target'', NSStr ''user.read''), (''realm'', NSStr ''t''), (''home_account_id'', NSStr ''u.t''),
      (''environment'', NSStr ''login.microsoftonline.com''), (''expires_on'', NSStr ''1700000000''),
      (''last_modification_time'', NSStr ''1700000000.125''), (''custom'', NSNum 1)]"
  have "ciSecret sample_credential \<noteq> None" "credential_times_ok sample_credential" by code_simp+
  moreover have "ciJson sample_credential = Some ?json" by code_simp
  moreover have "distinct (dict_keys ?json)" "''custom'' \<notin> set (map fst (credential_table sample_credential))"
    by (simp_all add: credential_table_def)
  ultimately have "initCredentialWithJSON (Some (credential_jsonDictionary sample_credential)) =
      Some (sample_credential\<lparr>ciJson := Some (credential_jsonDictionary sample_credential)\<rparr>) \<and>
    dict_get (credential_jsonDictionary sample_credential) ''custom'' = dict_get ?json ''custom''"
    by (rule credential_json_roundtrip)
  then show ?thesis by simp
qed

text \<open>
  An account survives its trip through the cached JSON: with a known account type, a client
  info that parses and a modification time in milliseconds, the item read back is the item written.
\<close>

theorem account_json_roundtrip:
  assumes "aiAccountType i \<noteq> MSIDAccountTypeOther" and "whole_millis (aiLastModificationTime i)"
    and "\<forall>raw. aiClientInfo i = Some raw \<longrightarrow> ok raw"
  shows "initAccountWithJSON ok (Some (account_jsonDictionary i)) =
    Some (i\<lparr>aiJson := Some (account_jsonDictionary i)\<rparr>)"
proof -
  have "Option.bind (aiClientInfo i) (\<lambda>raw. if ok raw then Some raw else None) = aiClientInfo i"
    using assms(3) by (cases "aiClientInfo i") auto
  then show ?thesis using assms(1,2)
    by (cases i) (simp add: initAccountWithJSON_def Let_def account_json_fields account_type_roundtrip whole_millis_roundtrip)
qed

definition sample_account :: account_item where
  "sample_account = the (initAccountWithJSON (\<lambda>_. True) (Some
     [(''authority_type'', NSStr ''MSSTS''), (''home_account_id'', NSStr ''u.t''), (''username'', NSStr ''a@b.c''),
      (''environment'', NSStr ''login.microsoftonline.com''), (''realm'', NSStr ''t''), (''client_info'', NSStr ''e30'')]))"

theorem account_json_roundtrip_witness:
  "initAccountWithJSON (\<lambda>_. True) (Some (account_jsonDictionary sample_account)) =
    Some (sample_account\<lparr>aiJson := Some (account_jsonDictionary sample_account)\<rparr>)"
proof -
  have "aiAccountType sample_account \<noteq> MSIDAccountTypeOther" "whole_millis (aiLastModificationTime sample_account)"
    by code_simp+
  then show ?thesis by (rule account_json_roundtrip) simp
qed

text \<open>
  The equality of credential items is reflexive and symmetric, and it compares every listed
  property except that a missing application identifier equals any other. It is therefore not
  transitive.
\<close>

theorem credential_equality_not_transitive:
  "credential_isEqualToItem i i \<and> (credential_isEqualToItem i j \<longleftrightarrow> credential_isEqualToItem j i) \<and>
   (let a = i\<lparr>ciApplicationIdentifier := Some ''app1''\<rparr>; b = i\<lparr>ciApplicationIdentifier := None\<rparr>;
        c = i\<lparr>ciApplicationIdentifier := Some ''app2''\<rparr>
    in credential_isEqualToItem a b \<and> credential_isEqualToItem b c \<and> \<not> credential_isEqualToItem a c)"
  by (auto simp: credential_isEqualToItem_def isEqualToString_iff)

end
