(* ===== verification/AccountMetadata.thy ===== *)
theory AccountMetadata
  imports CacheKeys
begin

text \<open>
  \<open>cache/metadata/\<close>: per application and account, the sign-in state and the map from requested
  to resolved authority URLs, kept by \<open>MSIDAccountMetadataCacheAccessor\<close> over a memory cache in
  front of the keychain (\<open>MSIDMetadataCache\<close>). The keychain is a dictionary of items;
  \<open>unreadable\<close> and \<open>readonly\<close> name the clients whose reads and writes it fails. An NSURL is its
  absolute string.
\<close>

section \<open>The metadata of one account\<close>

datatype account_metadata_state =
  MSIDAccountMetadataStateUnknown | MSIDAccountMetadataStateSignedIn | MSIDAccountMetadataStateSignedOut

record account_metadata =
  amHomeAccountId :: "string option"
  amClientId :: "string option"
  amAuthorityMap :: "(string, nsobj) dict option"
  amSignInState :: account_metadata_state

definition initAccountMetadata :: "string option \<Rightarrow> string option \<Rightarrow> account_metadata option" where
  "initAccountMetadata homeAccountId clientId =
     (if homeAccountId = None \<or> clientId = None then None
      else Some \<lparr>amHomeAccountId = homeAccountId, amClientId = clientId, amAuthorityMap = Some [],
                 amSignInState = MSIDAccountMetadataStateSignedIn\<rparr>)"

definition URLMapKey :: "bool \<Rightarrow> string" where
  "URLMapKey instanceAware = (if instanceAware then ''URLMap-instance_aware=YES'' else ''URLMap-'')"

text \<open>A JSON object without an authority map leaves it nil, and messages to it do nothing.\<close>

definition setCachedURL ::
    "account_metadata \<Rightarrow> string option \<Rightarrow> string option \<Rightarrow> bool \<Rightarrow> account_metadata \<times> bool" where
  "setCachedURL m cachedURL requestURL instanceAware =
     (let m1 = m\<lparr>amSignInState := MSIDAccountMetadataStateSignedIn\<rparr>
      in if msidIsStringNilOrBlank cachedURL \<or> msidIsStringNilOrBlank requestURL then (m1, False)
         else (case amAuthorityMap m1 of
                 None \<Rightarrow> (m1, True)
               | Some mp \<Rightarrow>
                   (let urlMap = (case Option.bind (dict_get mp (URLMapKey instanceAware)) as_dict of
                                    None \<Rightarrow> [] | Some d \<Rightarrow> d)
                    in (m1\<lparr>amAuthorityMap := Some (dict_put (URLMapKey instanceAware)
                            (NSDict (dict_put (the requestURL) (NSStr (the cachedURL)) urlMap)) mp)\<rparr>, True))))"

definition cachedURL :: "account_metadata \<Rightarrow> string option \<Rightarrow> bool \<Rightarrow> string option" where
  "cachedURL m requestURL instanceAware =
     (if amSignInState m \<noteq> MSIDAccountMetadataStateSignedOut then
        Option.bind requestURL (\<lambda>r.
          Option.bind (amAuthorityMap m) (\<lambda>mp.
          Option.bind (Option.bind (dict_get mp (URLMapKey instanceAware)) as_dict) (\<lambda>urlMap.
          Option.bind (dict_get urlMap r) as_string)))
      else None)"

definition updateSignInState :: "account_metadata \<Rightarrow> account_metadata_state \<Rightarrow> account_metadata" where
  "updateSignInState m state =
     (let m1 = m\<lparr>amSignInState := state\<rparr>
      in if state = MSIDAccountMetadataStateSignedOut then m1\<lparr>amAuthorityMap := Some []\<rparr> else m1)"

fun stateStringFromEnum :: "account_metadata_state \<Rightarrow> string" where
  "stateStringFromEnum MSIDAccountMetadataStateUnknown = ''unknown''"
| "stateStringFromEnum MSIDAccountMetadataStateSignedIn = ''signed_in''"
| "stateStringFromEnum MSIDAccountMetadataStateSignedOut = ''signed_out''"

definition stateEnumFromString :: "string option \<Rightarrow> account_metadata_state" where
  "stateEnumFromString so =
     (if isEqualToString so (Some ''unknown'') then MSIDAccountMetadataStateUnknown
      else if isEqualToString so (Some ''signed_in'') then MSIDAccountMetadataStateSignedIn
      else if isEqualToString so (Some ''signed_out'') then MSIDAccountMetadataStateSignedOut
      else MSIDAccountMetadataStateUnknown)"

definition initAccountMetadataWithJSON :: "(string, nsobj) dict option \<Rightarrow> account_metadata option" where
  "initAccountMetadataWithJSON jo =
     map_option (\<lambda>json.
       \<lparr>amHomeAccountId = msidStringObjectForKey json ''home_account_id'',
        amClientId = msidStringObjectForKey json ''client_id'',
        amAuthorityMap = Option.bind (msidObjectForKey json ''athority_map'' NSDictionaryClass) as_dict,
        amSignInState = stateEnumFromString (msidStringObjectForKey json ''sign_in_state'')\<rparr>) jo"

definition accountMetadata_json :: "account_metadata \<Rightarrow> (string, nsobj) dict" where
  "accountMetadata_json m =
     dict_put ''sign_in_state'' (NSStr (stateStringFromEnum (amSignInState m)))
       (dict_assign ''athority_map'' (map_option NSDict (amAuthorityMap m))
         (dict_assign ''home_account_id'' (map_option NSStr (amHomeAccountId m))
           (dict_assign ''client_id'' (map_option NSStr (amClientId m)) [])))"

definition accountMetadata_isEqual :: "account_metadata \<Rightarrow> account_metadata \<Rightarrow> bool" where
  "accountMetadata_isEqual a b \<longleftrightarrow>
     eq_or_both_nil (amClientId a) (amClientId b) \<and> eq_or_both_nil (amHomeAccountId a) (amHomeAccountId b) \<and>
     isEqualToDictionary (amAuthorityMap a) (amAuthorityMap b) \<and> amSignInState a = amSignInState b"

section \<open>The metadata of one application\<close>

text \<open>A principal account identifier is its displayable id and its home account id.\<close>

record metadata_item =
  mdClientId :: "string option"
  mdMap :: "(string, account_metadata) dict"
  mdPrincipalAccountId :: "(string option \<times> string option) option"
  mdPrincipalEnvironment :: "string option"

datatype metadata_error = MSIDErrorInvalidInternalParameter | MetadataDataSourceError

definition initMetadataItem :: "string option \<Rightarrow> metadata_item option" where
  "initMetadataItem clientId =
     (if msidIsStringNilOrBlank clientId then None
      else Some \<lparr>mdClientId = clientId, mdMap = [], mdPrincipalAccountId = None, mdPrincipalEnvironment = None\<rparr>)"

definition accountMetadataForHomeAccountId :: "metadata_item \<Rightarrow> string option \<Rightarrow> account_metadata option" where
  "accountMetadataForHomeAccountId i homeAccountId = Option.bind homeAccountId (dict_get (mdMap i))"

definition addAccountMetadata ::
    "metadata_item option \<Rightarrow> account_metadata option \<Rightarrow> string option \<Rightarrow>
       metadata_item option \<times> bool \<times> metadata_error option" where
  "addAccountMetadata io accountMetadata homeAccountId =
     (case io of
        None \<Rightarrow> (None, False, None)
      | Some i \<Rightarrow>
          (case (accountMetadata, homeAccountId) of
             (Some m, Some h) \<Rightarrow> (Some (i\<lparr>mdMap := dict_put h m (mdMap i)\<rparr>), True, None)
           | _ \<Rightarrow> (Some i, False, Some MSIDErrorInvalidInternalParameter)))"

definition item_removeAccountMetadata :: "metadata_item \<Rightarrow> string option \<Rightarrow> metadata_item \<times> metadata_error option" where
  "item_removeAccountMetadata i homeAccountId =
     (if msidIsStringNilOrBlank homeAccountId then (i, Some MSIDErrorInvalidInternalParameter)
      else (i\<lparr>mdMap := dict_del (the homeAccountId) (mdMap i)\<rparr>, None))"

definition metadataItem_json :: "metadata_item \<Rightarrow> (string, nsobj) dict" where
  "metadataItem_json i =
     dict_put ''account_metadata_map'' (NSDict (map (\<lambda>(k, m). (k, NSDict (accountMetadata_json m))) (mdMap i)))
       (dict_assign ''principal_account_environment'' (map_option NSStr (mdPrincipalEnvironment i))
         (dict_assign ''principal_username'' (map_option NSStr (Option.bind (mdPrincipalAccountId i) fst))
           (dict_assign ''principal_home_account_id'' (map_option NSStr (Option.bind (mdPrincipalAccountId i) snd))
             (dict_assign ''client_id'' (map_option NSStr (mdClientId i)) []))))"

definition initMetadataItemWithJSON :: "(string, nsobj) dict option \<Rightarrow> metadata_item option" where
  "initMetadataItemWithJSON jo =
     map_option (\<lambda>json.
       (let h = msidStringObjectForKey json ''principal_home_account_id'';
            u = msidStringObjectForKey json ''principal_username'';
            mp = (case Option.bind (msidObjectForKey json ''account_metadata_map'' NSDictionaryClass) as_dict of
                    None \<Rightarrow> [] | Some d \<Rightarrow> d)
        in \<lparr>mdClientId = msidStringObjectForKey json ''client_id'',
            mdMap = List.map_filter (\<lambda>(k, v).
                      map_option (\<lambda>m. (k, m)) (initAccountMetadataWithJSON (as_dict v))) mp,
            mdPrincipalAccountId = (if h \<noteq> None \<or> u \<noteq> None then Some (u, h) else None),
            mdPrincipalEnvironment = msidStringObjectForKey json ''principal_account_environment''\<rparr>)) jo"

definition metadata_maps_equal :: "(string, account_metadata) dict \<Rightarrow> (string, account_metadata) dict \<Rightarrow> bool" where
  "metadata_maps_equal d e \<longleftrightarrow> length d = length e \<and>
     list_all (\<lambda>(k, m). case dict_get e k of Some m' \<Rightarrow> accountMetadata_isEqual m m' | None \<Rightarrow> False) d"

definition metadataItem_isEqual :: "metadata_item \<Rightarrow> metadata_item \<Rightarrow> bool" where
  "metadataItem_isEqual a b \<longleftrightarrow>
     eq_or_both_nil (mdClientId a) (mdClientId b) \<and> metadata_maps_equal (mdMap a) (mdMap b) \<and>
     eq_or_both_nil (mdPrincipalAccountId a) (mdPrincipalAccountId b) \<and>
     eq_or_both_nil (mdPrincipalEnvironment a) (mdPrincipalEnvironment b)"

definition metadataItem_generateCacheKey :: "metadata_item \<Rightarrow> cache_key" where
  "metadataItem_generateCacheKey i =
     \<lparr>keyAccount = Some ''authority_map'', keyService = mdClientId i, keyGeneric = None, keyType = Some 5001\<rparr>"

section \<open>The memory cache in front of the keychain\<close>

text \<open>All keys have one account, so a key is its service, the client id.\<close>

record metadata_cache =
  mcMemory :: "(string option, metadata_item) dict"
  mcPersistent :: "(string option, metadata_item) dict"

type_synonym io = "string option \<Rightarrow> bool"

definition saveAccountMetadataCacheItem ::
    "io \<Rightarrow> metadata_cache \<Rightarrow> metadata_item option \<Rightarrow> string option \<Rightarrow> metadata_cache \<times> bool \<times> metadata_error option" where
  "saveAccountMetadataCacheItem readonly c item key =
     (case item of
        None \<Rightarrow> (c, False, Some MSIDErrorInvalidInternalParameter)
      | Some i \<Rightarrow>
          (let hasChanges = (case dict_get (mcMemory c) key of None \<Rightarrow> True | Some j \<Rightarrow> \<not> metadataItem_isEqual i j)
           in if \<not> hasChanges then (c, True, None)
              else if readonly key then (c, False, Some MetadataDataSourceError)
              else (c\<lparr>mcPersistent := dict_put key i (mcPersistent c),
                      mcMemory := dict_put key i (mcMemory c)\<rparr>, True, None)))"

definition accountMetadataCacheItemWithKey ::
    "io \<Rightarrow> metadata_cache \<Rightarrow> string option \<Rightarrow> bool \<Rightarrow>
       metadata_cache \<times> metadata_item option \<times> metadata_error option" where
  "accountMetadataCacheItemWithKey unreadable c key skipCache =
     (case (if skipCache then None else dict_get (mcMemory c) key) of
        Some i \<Rightarrow> (c, Some i, None)
      | None \<Rightarrow>
          (if unreadable key then (c, None, Some MetadataDataSourceError)
           else (case dict_get (mcPersistent c) key of
                   None \<Rightarrow> (c, None, None)
                 | Some i \<Rightarrow> (c\<lparr>mcMemory := dict_put key i (mcMemory c)\<rparr>, Some i, None))))"

definition allAccountMetadataCacheItems ::
    "io \<Rightarrow> metadata_cache \<Rightarrow> metadata_cache \<times> metadata_item list \<times> metadata_error option" where
  "allAccountMetadataCacheItems unreadable c =
     (if unreadable None then (c, [], Some MetadataDataSourceError)
      else (let items = map snd (mcPersistent c)
            in (c\<lparr>mcMemory := foldl (\<lambda>m i. dict_put (mdClientId i) i m) [] items\<rparr>, items, None)))"

definition removeAccountMetadataCacheItemForKey ::
    "io \<Rightarrow> metadata_cache \<Rightarrow> string option \<Rightarrow> metadata_cache \<times> bool \<times> metadata_error option" where
  "removeAccountMetadataCacheItemForKey readonly c key =
     (let c1 = c\<lparr>mcMemory := dict_del key (mcMemory c)\<rparr>
      in if readonly key then (c1, False, Some MetadataDataSourceError)
         else (c1\<lparr>mcPersistent := dict_del key (mcPersistent c1)\<rparr>, True, None))"

section \<open>The accessor\<close>

definition retrieveAccountMetadataCacheItem ::
    "io \<Rightarrow> metadata_cache \<Rightarrow> string option \<Rightarrow> bool \<Rightarrow> metadata_cache \<times> metadata_item option \<times> metadata_error option" where
  "retrieveAccountMetadataCacheItem unreadable c clientId skipCache =
     (if msidIsStringNilOrBlank clientId then (c, None, Some MSIDErrorInvalidInternalParameter)
      else accountMetadataCacheItemWithKey unreadable c clientId skipCache)"

definition getAuthorityURL ::
    "io \<Rightarrow> metadata_cache \<Rightarrow> string option \<Rightarrow> string option \<Rightarrow> string option \<Rightarrow> bool \<Rightarrow>
       metadata_cache \<times> string option \<times> metadata_error option" where
  "getAuthorityURL unreadable c requestAuthorityURL homeAccountId clientId instanceAware =
     (if requestAuthorityURL = None \<or> msidIsStringNilOrBlank homeAccountId \<or> msidIsStringNilOrBlank clientId
      then (c, None, Some MSIDErrorInvalidInternalParameter)
      else (case accountMetadataCacheItemWithKey unreadable c clientId False of
              (c1, cacheItem, err) \<Rightarrow>
                (case Option.bind cacheItem (\<lambda>i. accountMetadataForHomeAccountId i homeAccountId) of
                   None \<Rightarrow> (c1, None, err)
                 | Some m \<Rightarrow> (c1, cachedURL m requestAuthorityURL instanceAware, err))))"

definition updateAuthorityURL ::
    "io \<Rightarrow> io \<Rightarrow> metadata_cache \<Rightarrow> string option \<Rightarrow> string option \<Rightarrow> string option \<Rightarrow> string option \<Rightarrow> bool \<Rightarrow>
       metadata_cache \<times> bool \<times> metadata_error option" where
  "updateAuthorityURL unreadable readonly c cacheAuthorityURL requestAuthorityURL homeAccountId clientId instanceAware =
     (if cacheAuthorityURL = None \<or> requestAuthorityURL = None \<or> homeAccountId = None \<or> clientId = None
      then (c, False, Some MSIDErrorInvalidInternalParameter)
      else if cacheAuthorityURL = requestAuthorityURL then (c, True, None)
      else (case accountMetadataCacheItemWithKey unreadable c clientId False of
              (c1, _, Some e) \<Rightarrow> (c1, False, Some e)
            | (c1, found, None) \<Rightarrow>
                (let cacheItem = (case found of None \<Rightarrow> initMetadataItem clientId | Some i \<Rightarrow> Some i);
                     existing = Option.bind cacheItem (\<lambda>i. accountMetadataForHomeAccountId i homeAccountId)
                 in if (case existing of None \<Rightarrow> False
                        | Some m \<Rightarrow> cachedURL m requestAuthorityURL instanceAware = cacheAuthorityURL \<and>
                                   amSignInState m = MSIDAccountMetadataStateSignedIn)
                    then (c1, True, None)
                    else (case (case existing of None \<Rightarrow> initAccountMetadata homeAccountId clientId | Some m \<Rightarrow> Some m) of
                            None \<Rightarrow> (c1, False, None)
                          | Some m \<Rightarrow>
                              (case setCachedURL m cacheAuthorityURL requestAuthorityURL instanceAware of
                                 (_, False) \<Rightarrow> (c1, False, Some MSIDErrorInvalidInternalParameter)
                               | (m1, True) \<Rightarrow>
                                   (case addAccountMetadata cacheItem (Some m1) homeAccountId of
                                      (_, False, e) \<Rightarrow> (c1, False, e)
                                    | (item1, True, _) \<Rightarrow> saveAccountMetadataCacheItem readonly c1 item1 clientId))))))"

definition signInStateForHomeAccountId ::
    "io \<Rightarrow> metadata_cache \<Rightarrow> string option \<Rightarrow> string option \<Rightarrow>
       metadata_cache \<times> account_metadata_state \<times> metadata_error option" where
  "signInStateForHomeAccountId unreadable c homeAccountId clientId =
     (if msidIsStringNilOrBlank homeAccountId \<or> msidIsStringNilOrBlank clientId
      then (c, MSIDAccountMetadataStateUnknown, Some MSIDErrorInvalidInternalParameter)
      else (case retrieveAccountMetadataCacheItem unreadable c clientId True of
              (c1, _, Some e) \<Rightarrow> (c1, MSIDAccountMetadataStateUnknown, Some e)
            | (c1, cacheItem, None) \<Rightarrow>
                (case Option.bind cacheItem (\<lambda>i. accountMetadataForHomeAccountId i homeAccountId) of
                   None \<Rightarrow> (c1, MSIDAccountMetadataStateUnknown, None)
                 | Some m \<Rightarrow> (c1, amSignInState m, None))))"

definition updateSignInStateForHomeAccountId ::
    "io \<Rightarrow> io \<Rightarrow> metadata_cache \<Rightarrow> string option \<Rightarrow> string option \<Rightarrow> account_metadata_state \<Rightarrow>
       metadata_cache \<times> bool \<times> metadata_error option" where
  "updateSignInStateForHomeAccountId unreadable readonly c homeAccountId clientId state =
     (if msidIsStringNilOrBlank homeAccountId then (c, False, Some MSIDErrorInvalidInternalParameter)
      else (case retrieveAccountMetadataCacheItem unreadable c clientId True of
              (c1, _, Some e) \<Rightarrow> (c1, False, Some e)
            | (c1, found, None) \<Rightarrow>
                (let cacheItem = (case found of None \<Rightarrow> initMetadataItem clientId | Some i \<Rightarrow> Some i);
                     existing = (if state \<noteq> MSIDAccountMetadataStateSignedOut
                                 then Option.bind cacheItem (\<lambda>i. accountMetadataForHomeAccountId i homeAccountId)
                                 else None);
                     m = (case existing of None \<Rightarrow> initAccountMetadata homeAccountId clientId | Some m \<Rightarrow> Some m)
                 in (case addAccountMetadata cacheItem (map_option (\<lambda>m. updateSignInState m state) m) homeAccountId of
                       (_, False, e) \<Rightarrow> (c1, False, e)
                     | (item1, True, _) \<Rightarrow> saveAccountMetadataCacheItem readonly c1 item1 clientId))))"

definition principalAccountIdForClientId ::
    "io \<Rightarrow> metadata_cache \<Rightarrow> bool \<Rightarrow> string option \<Rightarrow>
       metadata_cache \<times> (string option \<times> string option) option \<times> metadata_error option" where
  "principalAccountIdForClientId unreadable c skipMemoryCache clientId =
     (case retrieveAccountMetadataCacheItem unreadable c clientId skipMemoryCache of
        (c1, cacheItem, err) \<Rightarrow> (c1, Option.bind cacheItem mdPrincipalAccountId, err))"

definition updatePrincipalAccountIdForClientId ::
    "io \<Rightarrow> io \<Rightarrow> metadata_cache \<Rightarrow> bool \<Rightarrow> string option \<Rightarrow> (string option \<times> string option) option \<Rightarrow> string option \<Rightarrow>
       metadata_cache \<times> bool \<times> metadata_error option" where
  "updatePrincipalAccountIdForClientId unreadable readonly c skipMemoryCache clientId principalId environment =
     (case retrieveAccountMetadataCacheItem unreadable c clientId skipMemoryCache of
        (c1, _, Some e) \<Rightarrow> (c1, False, Some e)
      | (c1, found, None) \<Rightarrow>
          (let cacheItem = (case found of None \<Rightarrow> initMetadataItem clientId | Some i \<Rightarrow> Some i)
           in saveAccountMetadataCacheItem readonly c1
                (map_option (\<lambda>i. i\<lparr>mdPrincipalAccountId := principalId, mdPrincipalEnvironment := environment\<rparr>) cacheItem)
                clientId))"

fun removeFromItems ::
    "io \<Rightarrow> metadata_cache \<Rightarrow> string option \<Rightarrow> metadata_item list \<Rightarrow> bool \<Rightarrow> metadata_error option \<Rightarrow>
       metadata_cache \<times> bool \<times> metadata_error option" where
  "removeFromItems readonly c homeAccountId [] success err = (c, success, err)"
| "removeFromItems readonly c homeAccountId (cacheItem # items) success err =
     (case item_removeAccountMetadata cacheItem homeAccountId of
        (_, Some e) \<Rightarrow> removeFromItems readonly c homeAccountId items False (Some e)
      | (item1, None) \<Rightarrow>
          (case saveAccountMetadataCacheItem readonly c (Some item1) (mdClientId item1) of
             (c1, _, Some e) \<Rightarrow> removeFromItems readonly c1 homeAccountId items False (Some e)
           | (c1, _, None) \<Rightarrow> removeFromItems readonly c1 homeAccountId items success err))"

definition removeAccountMetadataForHomeAccountId ::
    "io \<Rightarrow> io \<Rightarrow> metadata_cache \<Rightarrow> string option \<Rightarrow> metadata_cache \<times> bool \<times> metadata_error option" where
  "removeAccountMetadataForHomeAccountId unreadable readonly c homeAccountId =
     (if msidIsStringNilOrBlank homeAccountId then (c, False, Some MSIDErrorInvalidInternalParameter)
      else (case allAccountMetadataCacheItems unreadable c of
              (c1, _, Some e) \<Rightarrow> (c1, False, Some e)
            | (c1, items, None) \<Rightarrow> removeFromItems readonly c1 homeAccountId items True None))"


section \<open>Invariant of the two caches\<close>

text \<open>
  Every item is stored under its own client id, its accounts have an authority map, and the memory
  cache holds nothing that the keychain does not hold.
\<close>

definition item_ok :: "metadata_item \<Rightarrow> bool" where
  "item_ok i \<longleftrightarrow> distinct (dict_keys (mdMap i)) \<and> list_all (\<lambda>(h, m). amAuthorityMap m \<noteq> None) (mdMap i)"

definition store_ok :: "(string option, metadata_item) dict \<Rightarrow> bool" where
  "store_ok d \<longleftrightarrow> distinct (dict_keys d) \<and> (\<forall>k i. dict_get d k = Some i \<longrightarrow> mdClientId i = k \<and> item_ok i)"

definition metadata_inv :: "metadata_cache \<Rightarrow> bool" where
  "metadata_inv c \<longleftrightarrow> store_ok (mcPersistent c) \<and>
     (\<forall>k i. dict_get (mcMemory c) k = Some i \<longrightarrow> dict_get (mcPersistent c) k = Some i)"

lemma metadata_invD:
  assumes "metadata_inv c"
  shows "store_ok (mcPersistent c)"
    and "dict_get (mcMemory c) k = Some i \<Longrightarrow> dict_get (mcPersistent c) k = Some i"
    and "dict_get (mcPersistent c) k = Some i \<Longrightarrow> mdClientId i = k \<and> item_ok i"
  using assms by (auto simp: metadata_inv_def store_ok_def)

lemma store_ok_put: "store_ok d \<Longrightarrow> mdClientId i = k \<Longrightarrow> item_ok i \<Longrightarrow> store_ok (dict_put k i d)"
  by (auto simp: store_ok_def)

lemma store_ok_del: "store_ok d \<Longrightarrow> store_ok (dict_del k d)"
  by (simp add: store_ok_def del: dom_map_of_conv_image_fst)

text \<open>What the keychain says of one account.\<close>

definition account_view :: "metadata_cache \<Rightarrow> string option \<Rightarrow> string \<Rightarrow> account_metadata option" where
  "account_view c clientId h = Option.bind (dict_get (mcPersistent c) clientId) (\<lambda>i. dict_get (mdMap i) h)"

lemma item_okD: "item_ok i \<Longrightarrow> dict_get (mdMap i) h = Some m \<Longrightarrow> \<exists>mp. amAuthorityMap m = Some mp"
  by (auto simp: item_ok_def list_all_iff dest!: map_of_SomeD)

lemma set_dict_put: "set (dict_put k v d) \<subseteq> insert (k, v) (set d)"
  by (induction d) auto

lemma item_ok_put:
  assumes "item_ok i" "amAuthorityMap m \<noteq> None"
  shows "item_ok (i\<lparr>mdMap := dict_put h m (mdMap i)\<rparr>)"
  using assms set_dict_put [of h m "mdMap i"] by (auto simp: item_ok_def list_all_iff)

lemma item_ok_del:
  assumes "item_ok i"
  shows "item_ok (i\<lparr>mdMap := dict_del h (mdMap i)\<rparr>)"
  using assms by (simp add: item_ok_def list_all_iff AList.delete_eq distinct_map_filter del: dom_map_of_conv_image_fst)

text \<open>Equal items agree on what is asked of an account.\<close>

lemma metadataItem_isEqual_lookup:
  assumes "metadataItem_isEqual i j" "dict_get (mdMap i) h = Some m"
  shows "\<exists>m'. dict_get (mdMap j) h = Some m' \<and> accountMetadata_isEqual m m'"
proof -
  have "(case dict_get (mdMap j) h of Some m' \<Rightarrow> accountMetadata_isEqual m m' | None \<Rightarrow> False)"
    using assms(1) map_of_SomeD [OF assms(2)]
    by (auto simp: metadataItem_isEqual_def metadata_maps_equal_def list_all_iff)
  then show ?thesis by (cases "dict_get (mdMap j) h") auto
qed

lemma entries_in_lookup:
  "entries_in d e \<Longrightarrow> dict_get d k = Some v \<Longrightarrow> \<exists>w. dict_get e k = Some w \<and> nsobj_isEqual v w"
  by (induction d) (auto split: option.splits if_splits)

lemma nsobj_isEqual_leaf: "nsobj_isEqual (NSStr s) w \<longleftrightarrow> w = NSStr s"
  by (auto simp: nsobj_isEqual.simps)

lemma nsobj_isEqual_dict: "nsobj_isEqual (NSDict d) w \<Longrightarrow> \<exists>e. w = NSDict e \<and> entries_in d e"
  by (auto simp: nsobj_isEqual.simps split: nsobj.splits)

lemma as_dict_Some: "as_dict v = Some d \<longleftrightarrow> v = NSDict d"
  by (cases v) auto

lemma accountMetadata_isEqual_state: "accountMetadata_isEqual m m' \<Longrightarrow> amSignInState m' = amSignInState m"
  by (simp add: accountMetadata_isEqual_def)

lemma accountMetadata_isEqual_cachedURL:
  assumes "accountMetadata_isEqual m m'" "cachedURL m r ia = Some u"
  shows "cachedURL m' r ia = Some u"
proof -
  obtain rs mp um where m: "amSignInState m \<noteq> MSIDAccountMetadataStateSignedOut" "r = Some rs" "amAuthorityMap m = Some mp"
    "dict_get mp (URLMapKey ia) = Some (NSDict um)" "dict_get um rs = Some (NSStr u)"
    using assms(2) by (auto simp: cachedURL_def Option.bind_eq_Some_conv as_dict_Some split: if_splits)
  obtain mp' where mp': "amAuthorityMap m' = Some mp'" "entries_in mp mp'"
    using assms(1) m(3) by (auto simp: accountMetadata_isEqual_def isEqualToDictionary_def split: option.splits)
  obtain um' where "dict_get mp' (URLMapKey ia) = Some (NSDict um')" "entries_in um um'"
    using entries_in_lookup [OF mp'(2) m(4)] by (auto dest: nsobj_isEqual_dict)
  moreover from this(2) have "dict_get um' rs = Some (NSStr u)"
    using entries_in_lookup [OF _ m(5)] by (auto simp: nsobj_isEqual_leaf)
  ultimately show ?thesis
    using m mp' assms(1) by (simp add: cachedURL_def accountMetadata_isEqual_state)
qed


section \<open>The operations keep the invariant\<close>

lemma get_item_all:
  assumes "accountMetadataCacheItemWithKey unreadable c k skip = (c', found, err)" "metadata_inv c"
  shows "metadata_inv c' \<and> mcPersistent c' = mcPersistent c \<and>
    (err = None \<longrightarrow> found = dict_get (mcPersistent c) k \<and> dict_get (mcMemory c') k = dict_get (mcPersistent c) k) \<and>
    (found \<noteq> None \<longrightarrow> err = None)"
proof (cases "dict_get (mcMemory c) k")
  case None
  with assms show ?thesis
    by (auto simp: accountMetadataCacheItemWithKey_def metadata_inv_def split: if_splits option.splits)
next
  case (Some i)
  with assms metadata_invD(2) [OF assms(2) Some] show ?thesis
    by (auto simp: accountMetadataCacheItemWithKey_def metadata_inv_def split: if_splits option.splits)
qed

lemma get_item:
  assumes "accountMetadataCacheItemWithKey unreadable c k skip = (c', found, err)" "metadata_inv c"
  shows "metadata_inv c'" "mcPersistent c' = mcPersistent c"
    and "err = None \<Longrightarrow> found = dict_get (mcPersistent c) k"
    and "found \<noteq> None \<Longrightarrow> err = None"
    and "err = None \<Longrightarrow> dict_get (mcMemory c') k = dict_get (mcPersistent c) k"
  using get_item_all [OF assms] by simp_all

lemma save_item:
  assumes "saveAccountMetadataCacheItem readonly c (Some i) k = (c', ok, err)"
  shows "c' = c \<and> ok \<and> err = None \<and> (\<exists>j. dict_get (mcMemory c) k = Some j \<and> metadataItem_isEqual i j) \<or>
    c' = c \<and> \<not> ok \<and> err \<noteq> None \<or>
    c' = c\<lparr>mcPersistent := dict_put k i (mcPersistent c), mcMemory := dict_put k i (mcMemory c)\<rparr> \<and> ok \<and> err = None"
  using assms by (auto simp: saveAccountMetadataCacheItem_def Let_def split: if_splits option.splits)

lemma save_item_inv:
  assumes "saveAccountMetadataCacheItem readonly c (Some i) k = (c', ok, err)" "metadata_inv c"
    and "mdClientId i = k" "item_ok i"
  shows "metadata_inv c'"
  using save_item [OF assms(1)] assms(2-4) store_ok_put [of "mcPersistent c" i k]
  by (auto simp: metadata_inv_def)

lemma save_nothing [simp]:
  "saveAccountMetadataCacheItem readonly c None k = (c, False, Some MSIDErrorInvalidInternalParameter)"
  by (simp add: saveAccountMetadataCacheItem_def)

lemma initMetadataItem_ok:
  "initMetadataItem k = Some i \<Longrightarrow> mdClientId i = k \<and> item_ok i \<and> mdMap i = []"
  by (auto simp: initMetadataItem_def item_ok_def split: if_splits)

lemma initAccountMetadata_ok: "initAccountMetadata h k = Some m \<Longrightarrow> amAuthorityMap m = Some []"
  by (auto simp: initAccountMetadata_def split: if_splits)

lemma item_or_new:
  assumes "(case found of None \<Rightarrow> initMetadataItem k | Some i \<Rightarrow> Some i) = Some i"
    and "\<And>j. found = Some j \<Longrightarrow> mdClientId j = k \<and> item_ok j"
  shows "mdClientId i = k \<and> item_ok i"
  using assms by (auto simp: initMetadataItem_ok split: option.splits)

lemma setCachedURL_ok: "amAuthorityMap m \<noteq> None \<Longrightarrow> amAuthorityMap (fst (setCachedURL m u r ia)) \<noteq> None"
  by (auto simp: setCachedURL_def Let_def split: option.splits)

lemma updateSignInState_ok: "amAuthorityMap m \<noteq> None \<Longrightarrow> amAuthorityMap (updateSignInState m st) \<noteq> None"
  by (simp add: updateSignInState_def Let_def)

lemma retrieve_item:
  assumes "retrieveAccountMetadataCacheItem unreadable c k skip = (c', found, err)" "metadata_inv c"
  shows "metadata_inv c'" "mcPersistent c' = mcPersistent c"
    and "err = None \<Longrightarrow> found = dict_get (mcPersistent c) k"
    and "err = None \<Longrightarrow> dict_get (mcMemory c') k = dict_get (mcPersistent c) k"
    and "err = None \<Longrightarrow> \<not> msidIsStringNilOrBlank k"
  using assms get_item [of unreadable c k skip c' found err]
  by (auto simp: retrieveAccountMetadataCacheItem_def split: if_splits)

lemma addAccountMetadata_cases:
  assumes "addAccountMetadata io mo ho = (io', True, err)"
  shows "\<exists>i m h. io = Some i \<and> mo = Some m \<and> ho = Some h \<and> err = None \<and> io' = Some (i\<lparr>mdMap := dict_put h m (mdMap i)\<rparr>)"
  using assms by (auto simp: addAccountMetadata_def split: option.splits)


lemma save_account:
  assumes "metadata_inv c" and "dict_get (mcMemory c) k = dict_get (mcPersistent c) k"
    and "(case dict_get (mcPersistent c) k of None \<Rightarrow> initMetadataItem k | Some i \<Rightarrow> Some i) = Some i"
    and "amAuthorityMap m \<noteq> None"
    and "saveAccountMetadataCacheItem readonly c (Some (i\<lparr>mdMap := dict_put h m (mdMap i)\<rparr>)) k = (c', ok, err)"
  shows "metadata_inv c'"
    and "ok \<Longrightarrow> \<exists>m'. account_view c' k h = Some m' \<and> (m' = m \<or> accountMetadata_isEqual m m')"
    and "(k', h') \<noteq> (k, h) \<Longrightarrow> account_view c' k' h' = account_view c k' h'"
    and "dict_get (mcMemory c') k = dict_get (mcPersistent c') k"
proof -
  let ?i = "i\<lparr>mdMap := dict_put h m (mdMap i)\<rparr>"
  have i: "mdClientId i = k \<and> item_ok i"
    using item_or_new [OF assms(3)] metadata_invD(3) [OF assms(1)] by blast
  show "metadata_inv c'"
    by (rule save_item_inv [OF assms(5,1)]) (use i item_ok_put [OF _ assms(4)] in auto)
  have mp: "dict_get (mdMap i) h' = Option.bind (dict_get (mcPersistent c) k) (\<lambda>i. dict_get (mdMap i) h')" for h'
    using assms(3) by (auto simp: initMetadataItem_ok split: option.splits)
  consider (same) j where "c' = c" "ok" "dict_get (mcPersistent c) k = Some j" "metadataItem_isEqual ?i j"
    | (fail) "c' = c" "\<not> ok"
    | (new) "c' = c\<lparr>mcPersistent := dict_put k ?i (mcPersistent c), mcMemory := dict_put k ?i (mcMemory c)\<rparr>"
    using save_item [OF assms(5)] assms(2) by auto
  then show "ok \<Longrightarrow> \<exists>m'. account_view c' k h = Some m' \<and> (m' = m \<or> accountMetadata_isEqual m m')"
    by cases (use metadataItem_isEqual_lookup [of ?i _ h m] in \<open>auto simp: account_view_def\<close>)
  show "(k', h') \<noteq> (k, h) \<Longrightarrow> account_view c' k' h' = account_view c k' h'"
    using save_item [OF assms(5)] mp by (cases "k' = k") (auto simp: account_view_def)
  show "dict_get (mcMemory c') k = dict_get (mcPersistent c') k"
    using save_item [OF assms(5)] assms(2) by auto
qed


lemma updateSignIn_steps:
  assumes "updateSignInStateForHomeAccountId unreadable readonly c (Some h) k st = (c', ok, err)" "metadata_inv c"
  shows "metadata_inv c'"
    and "ok \<Longrightarrow> \<exists>m'. account_view c' k h = Some m' \<and> amSignInState m' = st"
    and "(k', h') \<noteq> (k, h) \<Longrightarrow> account_view c' k' h' = account_view c k' h'"
    and "ok \<Longrightarrow> \<not> msidIsStringNilOrBlank k \<and> \<not> msidIsStringNilOrBlank (Some h)"
proof -
  obtain c1 found e1 where g: "retrieveAccountMetadataCacheItem unreadable c k True = (c1, found, e1)"
    by (cases "retrieveAccountMetadataCacheItem unreadable c k True") auto
  note r = retrieve_item [OF g assms(2)]
  let ?item = "case found of None \<Rightarrow> initMetadataItem k | Some i \<Rightarrow> Some i"
  let ?old = "if st \<noteq> MSIDAccountMetadataStateSignedOut
     then Option.bind ?item (\<lambda>i. accountMetadataForHomeAccountId i (Some h)) else None"
  let ?m = "case ?old of None \<Rightarrow> initAccountMetadata (Some h) k | Some m \<Rightarrow> Some m"
  obtain item1 ad e2 where a: "addAccountMetadata ?item (map_option (\<lambda>m. updateSignInState m st) ?m) (Some h) = (item1, ad, e2)"
    by (cases "addAccountMetadata ?item (map_option (\<lambda>m. updateSignInState m st) ?m) (Some h)") auto
  consider (stop) "c' = c \<or> c' = c1" "\<not> ok"
    | (save) "e1 = None" "ad" "saveAccountMetadataCacheItem readonly c1 item1 k = (c', ok, err)" "\<not> msidIsStringNilOrBlank (Some h)"
    using assms(1) a
    by (auto simp: updateSignInStateForHomeAccountId_def g Let_def split: if_splits option.splits bool.splits)
  then have "metadata_inv c' \<and> (ok \<longrightarrow> (\<exists>m'. account_view c' k h = Some m' \<and> amSignInState m' = st)) \<and>
      ((k', h') \<noteq> (k, h) \<longrightarrow> account_view c' k' h' = account_view c k' h') \<and>
      (ok \<longrightarrow> \<not> msidIsStringNilOrBlank k \<and> \<not> msidIsStringNilOrBlank (Some h))"
  proof cases
    case stop
    then show ?thesis using r(1,2) assms(2) by (auto simp: account_view_def)
  next
    case save
    obtain i m where im: "?item = Some i" "?m = Some m"
      "item1 = Some (i\<lparr>mdMap := dict_put h (updateSignInState m st) (mdMap i)\<rparr>)"
      using addAccountMetadata_cases [OF a [unfolded eqTrueI [OF save(2)]]] by auto
    have found: "found = dict_get (mcPersistent c1) k" using r(2,3) save(1) by simp
    have "mdClientId j = k \<and> item_ok j" if "found = Some j" for j
      using metadata_invD(3) [OF r(1), of k j] found that by simp
    from item_or_new [OF im(1) this] have "item_ok i" by simp
    then have "amAuthorityMap m \<noteq> None"
      using im(1,2) initAccountMetadata_ok [of "Some h" k m] item_okD [of i h m]
      by (auto simp: accountMetadataForHomeAccountId_def split: option.splits if_splits)
    then have ok: "amAuthorityMap (updateSignInState m st) \<noteq> None" by (rule updateSignInState_ok)
    have "amSignInState (updateSignInState m st) = st" by (simp add: updateSignInState_def Let_def)
    moreover note save_account [OF r(1) _ im(1) [unfolded found] ok save(3) [unfolded im(3)]]
    ultimately show ?thesis using r save(1,4) by (auto simp: account_view_def dest!: accountMetadata_isEqual_state)
  qed
  then show "metadata_inv c'"
    and "ok \<Longrightarrow> \<exists>m'. account_view c' k h = Some m' \<and> amSignInState m' = st"
    and "(k', h') \<noteq> (k, h) \<Longrightarrow> account_view c' k' h' = account_view c k' h'"
    and "ok \<Longrightarrow> \<not> msidIsStringNilOrBlank k \<and> \<not> msidIsStringNilOrBlank (Some h)"
    by auto
qed


lemma accountMetadata_isEqual_both:
  "accountMetadata_isEqual m m' \<Longrightarrow> (cachedURL m r ia = Some u \<longrightarrow> cachedURL m' r ia = Some u) \<and> amSignInState m' = amSignInState m"
  using accountMetadata_isEqual_cachedURL accountMetadata_isEqual_state by blast

lemma setCachedURL_cached:
  assumes "amAuthorityMap m \<noteq> None" "setCachedURL m u r ia = (m1, True)"
  shows "cachedURL m1 r ia = u" "amSignInState m1 = MSIDAccountMetadataStateSignedIn" "amAuthorityMap m1 \<noteq> None"
  using assms by (auto simp: setCachedURL_def cachedURL_def Let_def msidIsStringNilOrBlank_def split: if_splits option.splits)

lemma updateAuthority_steps:
  assumes "updateAuthorityURL unreadable readonly c u r ho k ia = (c', ok, err)" "metadata_inv c"
  shows "metadata_inv c' \<and>
    (ok \<longrightarrow> ho = Some h \<longrightarrow> u \<noteq> r \<longrightarrow> (\<exists>m'. account_view c' k h = Some m' \<and> cachedURL m' r ia = u \<and>
       amSignInState m' = MSIDAccountMetadataStateSignedIn) \<and> dict_get (mcMemory c') k = dict_get (mcPersistent c') k) \<and>
    (ho \<noteq> Some h' \<or> k' \<noteq> k \<longrightarrow> account_view c' k' h' = account_view c k' h')"
proof -
  obtain c1 found e1 where g: "accountMetadataCacheItemWithKey unreadable c k False = (c1, found, e1)"
    by (cases "accountMetadataCacheItemWithKey unreadable c k False") auto
  note i = get_item [OF g assms(2)]
  define item where "item = (case found of None \<Rightarrow> initMetadataItem k | Some i \<Rightarrow> Some i)"
  define old where "old = Option.bind item (\<lambda>i. accountMetadataForHomeAccountId i ho)"
  let ?m = "case old of None \<Rightarrow> initAccountMetadata ho k | Some m \<Rightarrow> Some m"
  let ?same = "case old of None \<Rightarrow> False
    | Some m \<Rightarrow> cachedURL m r ia = u \<and> amSignInState m = MSIDAccountMetadataStateSignedIn"
  let ?tail = "case ?m of
      None \<Rightarrow> (c1, False, None)
    | Some m \<Rightarrow>
        (case setCachedURL m u r ia of
           (_, False) \<Rightarrow> (c1, False, Some MSIDErrorInvalidInternalParameter)
         | (m1, True) \<Rightarrow>
             (case addAccountMetadata item (Some m1) ho of
                (_, False, e) \<Rightarrow> (c1, False, e)
              | (item1, True, _) \<Rightarrow> saveAccountMetadataCacheItem readonly c1 item1 k))"
  have run: "(c = c' \<and> (ok \<longrightarrow> u = r)) \<or> (c1 = c' \<and> \<not> ok) \<or>
     (e1 = None \<and> (c', ok, err) = (if ?same then (c1, True, None) else ?tail))"
    using assms(1) unfolding item_def old_def
    by (cases "u = None \<or> r = None \<or> ho = None \<or> k = None"; cases "u = r"; cases e1)
      (simp_all add: updateAuthorityURL_def g Let_def eq_commute [of _ "(c', ok, err)"] del: not_None_eq split del: if_split)
  consider (stop) "c' = c \<or> c' = c1" "ok \<longrightarrow> u = r"
    | (known) m where "c' = c1" "e1 = None" "old = Some m" "cachedURL m r ia = u" "amSignInState m = MSIDAccountMetadataStateSignedIn"
    | (save) m m1 item1 e2 where "e1 = None" "?m = Some m" "setCachedURL m u r ia = (m1, True)"
      "addAccountMetadata item (Some m1) ho = (item1, True, e2)" "saveAccountMetadataCacheItem readonly c1 item1 k = (c', ok, err)"
  proof (cases "e1 = None \<and> (c', ok, err) = (if ?same then (c1, True, None) else ?tail)")
    case True
    then have e1: "e1 = None" and eq: "(c', ok, err) = (if ?same then (c1, True, None) else ?tail)" by blast+
    show ?thesis
    proof (cases ?same)
      case True
      with eq e1 known show ?thesis by (cases old) auto
    next
      case False
      with eq have eq: "(c', ok, err) = ?tail" by argo
      show ?thesis
        using eq stop save [OF e1]
        by (cases ?m; cases "setCachedURL (the ?m) u r ia"; cases "snd (setCachedURL (the ?m) u r ia)";
            cases "addAccountMetadata item (Some (fst (setCachedURL (the ?m) u r ia))) ho")
          (simp_all split: bool.splits)
    qed
  next
    case False
    with run have "(c = c' \<and> (ok \<longrightarrow> u = r)) \<or> (c1 = c' \<and> \<not> ok)" by argo
    then show ?thesis by (intro stop) auto
  qed
  then show ?thesis
  proof cases
    case stop
    then show ?thesis using i(1,2) assms(2) by (auto simp: account_view_def)
  next
    case known
    then show ?thesis using i
      by (auto simp: account_view_def accountMetadataForHomeAccountId_def initMetadataItem_ok item_def old_def
          Option.bind_eq_Some_conv split: option.splits)
  next
    case save
    obtain it hh where im: "item = Some it" "ho = Some hh" "item1 = Some (it\<lparr>mdMap := dict_put hh m1 (mdMap it)\<rparr>)"
      using addAccountMetadata_cases [OF save(4)] by auto
    have found: "found = dict_get (mcPersistent c1) k" using i(2,3) save(1) by simp
    have "mdClientId j = k \<and> item_ok j" if "found = Some j" for j
      using metadata_invD(3) [OF i(1), of k j] found that by simp
    from item_or_new [OF im(1) [unfolded item_def] this] have "item_ok it" by simp
    then have "amAuthorityMap m \<noteq> None"
      using im(1,2) save(2) initAccountMetadata_ok [of ho k m] item_okD [of it hh m]
      by (auto simp: accountMetadataForHomeAccountId_def old_def split: option.splits if_splits)
    note m1 = setCachedURL_cached [OF this save(3)]
    have "u \<noteq> None" using save(3) by (cases u) (auto simp: setCachedURL_def msidIsStringNilOrBlank_def Let_def)
    with save_account [OF i(1) _ im(1) [unfolded item_def found] m1(3) save(5) [unfolded im(3)]] m1 i save(1) im(2)
    show ?thesis by (auto simp: account_view_def dest!: accountMetadata_isEqual_both)
  qed
qed


section \<open>Removing an account\<close>

lemma removeFromItems_success:
  "removeFromItems readonly c ho items False e = (c', ok, err) \<Longrightarrow> \<not> ok"
proof (induction items arbitrary: c e)
  case (Cons i items)
  then show ?case by (auto split: prod.splits option.splits)
qed simp

text \<open>
  The loop: items already handled are clean, and those still to be handled are as they are in the
  keychain and in the memory cache.
\<close>

lemma dict_del_same_length: "length (dict_del h d) = length d \<Longrightarrow> dict_get d h = None"
  by (auto simp: AList.delete_eq length_filter_conv_card map_of_eq_None_iff
      dest!: length_filter_less [of _ d "\<lambda>(k', _). h \<noteq> k'"] simp del: dom_map_of_conv_image_fst)

lemma remove_from_item:
  assumes "saveAccountMetadataCacheItem readonly c (Some (i\<lparr>mdMap := dict_del h (mdMap i)\<rparr>)) (mdClientId i) = (c1, ok1, e1)"
    and "metadata_inv c" "dict_get (mcMemory c) (mdClientId i) = Some i" "dict_get (mcPersistent c) (mdClientId i) = Some i"
  shows "metadata_inv c1" "h' \<noteq> h \<Longrightarrow> account_view c1 k h' = account_view c k h'"
    and "account_view c k h = None \<Longrightarrow> account_view c1 k h = None"
    and "e1 = None \<Longrightarrow> account_view c1 (mdClientId i) h = None"
    and "k \<noteq> mdClientId i \<Longrightarrow> dict_get (mcMemory c1) k = dict_get (mcMemory c) k \<and> dict_get (mcPersistent c1) k = dict_get (mcPersistent c) k"
proof -
  let ?i = "i\<lparr>mdMap := dict_del h (mdMap i)\<rparr>"
  have ok: "item_ok i" using metadata_invD(3) [OF assms(2,4)] by blast
  show "metadata_inv c1" by (rule save_item_inv [OF assms(1,2)]) (simp_all add: item_ok_del ok)
  have "metadataItem_isEqual ?i i \<Longrightarrow> dict_get (mdMap i) h = None"
    by (auto simp: metadataItem_isEqual_def metadata_maps_equal_def intro: dict_del_same_length)
  with save_item [OF assms(1)] assms(3,4)
  show "h' \<noteq> h \<Longrightarrow> account_view c1 k h' = account_view c k h'"
    and "account_view c k h = None \<Longrightarrow> account_view c1 k h = None"
    and "e1 = None \<Longrightarrow> account_view c1 (mdClientId i) h = None"
    and "k \<noteq> mdClientId i \<Longrightarrow> dict_get (mcMemory c1) k = dict_get (mcMemory c) k \<and> dict_get (mcPersistent c1) k = dict_get (mcPersistent c) k"
    by (auto simp: account_view_def)
qed

lemma removeFromItems_loop:
  assumes "removeFromItems readonly c (Some h) items success e = (c', ok, err)" "metadata_inv c" "\<not> msidIsStringNilOrBlank (Some h)"
    and "\<forall>i \<in> set items. dict_get (mcMemory c) (mdClientId i) = Some i \<and> dict_get (mcPersistent c) (mdClientId i) = Some i"
    and "distinct (map mdClientId items)"
  shows "metadata_inv c' \<and> (\<forall>k h'. h' \<noteq> h \<longrightarrow> account_view c' k h' = account_view c k h') \<and>
    (\<forall>k. account_view c k h = None \<longrightarrow> account_view c' k h = None) \<and>
    (ok \<longrightarrow> (\<forall>i \<in> set items. account_view c' (mdClientId i) h = None))"
  using assms
proof (induction items arbitrary: c success e)
  case (Cons i items)
  let ?i = "i\<lparr>mdMap := dict_del h (mdMap i)\<rparr>"
  obtain c1 ok1 e1 where sv: "saveAccountMetadataCacheItem readonly c (Some ?i) (mdClientId i) = (c1, ok1, e1)"
    by (cases "saveAccountMetadataCacheItem readonly c (Some ?i) (mdClientId i)") auto
  have here: "dict_get (mcMemory c) (mdClientId i) = Some i" "dict_get (mcPersistent c) (mdClientId i) = Some i"
    using Cons.prems(4) by auto
  note r = remove_from_item [OF sv Cons.prems(2) here]
  have others: "\<forall>j \<in> set items. dict_get (mcMemory c1) (mdClientId j) = Some j \<and> dict_get (mcPersistent c1) (mdClientId j) = Some j"
  proof
    fix j assume j: "j \<in> set items"
    then have "mdClientId j \<noteq> mdClientId i" using Cons.prems(5) by (auto simp: image_iff)
    then show "dict_get (mcMemory c1) (mdClientId j) = Some j \<and> dict_get (mcPersistent c1) (mdClientId j) = Some j"
      using r(5) [of "mdClientId j"] Cons.prems(4) j by simp
  qed
  define s2 e2 where s2: "s2 = (if e1 = None then success else False)" "e2 = (if e1 = None then e else e1)"
  have rest: "removeFromItems readonly c1 (Some h) items s2 e2 = (c', ok, err)"
    using Cons.prems(1,3) by (cases e1) (simp_all add: item_removeAccountMetadata_def sv s2)
  have "\<not> ok" if "e1 \<noteq> None"
    using removeFromItems_success [of readonly c1 "Some h" items e2 c' ok err] rest that by (simp add: s2)
  moreover have "distinct (map mdClientId items)" using Cons.prems(5) by simp
  note IH = Cons.IH [OF rest r(1) Cons.prems(3) others this]
  ultimately show ?case using r(2-4) by (metis set_ConsD)
qed simp


lemma all_items_loaded:
  assumes "store_ok d"
  shows "dict_get (foldl (\<lambda>m i. dict_put (mdClientId i) i m) [] (map snd d)) = dict_get d"
    and "map mdClientId (map snd d) = map fst d"
proof -
  show keys: "map mdClientId (map snd d) = map fst d"
    using assms by (auto simp: store_ok_def)
  have "foldl (\<lambda>m i. dict_put (mdClientId i) i m) m is = addEntriesFromDictionary m (map (\<lambda>i. (mdClientId i, i)) is)"
    for m and "is" :: "metadata_item list"
    by (induction "is" arbitrary: m) (simp_all add: addEntriesFromDictionary_def)
  moreover have "map (\<lambda>i. (mdClientId i, i)) (map snd d) = d"
    using keys by (auto simp: map_idI)
  ultimately have "foldl (\<lambda>m i. dict_put (mdClientId i) i m) [] (map snd d) = addEntriesFromDictionary [] d"
    by (simp only:)
  then show "dict_get (foldl (\<lambda>m i. dict_put (mdClientId i) i m) [] (map snd d)) = dict_get d"
    using assms by (simp only: dict_get_addEntries store_ok_def) simp
qed

lemma remove_steps:
  assumes "removeAccountMetadataForHomeAccountId unreadable readonly c (Some h) = (c', ok, err)" "metadata_inv c"
  shows "metadata_inv c'" "h' \<noteq> h \<Longrightarrow> account_view c' k h' = account_view c k h'" "ok \<Longrightarrow> account_view c' k h = None"
proof -
  let ?c1 = "c\<lparr>mcMemory := foldl (\<lambda>m i. dict_put (mdClientId i) i m) [] (map snd (mcPersistent c))\<rparr>"
  note d = metadata_invD(1) [OF assms(2)]
  have inv: "metadata_inv ?c1" using d by (simp add: metadata_inv_def all_items_loaded)
  have present: "\<forall>i \<in> set (map snd (mcPersistent c)). dict_get (mcMemory ?c1) (mdClientId i) = Some i \<and>
      dict_get (mcPersistent ?c1) (mdClientId i) = Some i"
  proof
    fix i assume "i \<in> set (map snd (mcPersistent c))"
    then obtain k where "(k, i) \<in> set (mcPersistent c)" by auto
    then have "dict_get (mcPersistent c) k = Some i" using d map_of_is_SomeI by (simp add: store_ok_def)
    then show "dict_get (mcMemory ?c1) (mdClientId i) = Some i \<and> dict_get (mcPersistent ?c1) (mdClientId i) = Some i"
      using metadata_invD(3) [OF assms(2), of k i] by (simp add: all_items_loaded [OF d])
  qed
  have dist: "distinct (map mdClientId (map snd (mcPersistent c)))"
    using d by (simp only: all_items_loaded) (simp add: store_ok_def)
  consider "c' = c" "\<not> ok"
    | "removeFromItems readonly ?c1 (Some h) (map snd (mcPersistent c)) True None = (c', ok, err)"
      "\<not> msidIsStringNilOrBlank (Some h)"
    using assms(1) by (auto simp: removeAccountMetadataForHomeAccountId_def allAccountMetadataCacheItems_def Let_def split: if_splits)
  then have "metadata_inv c' \<and> (\<forall>k h'. h' \<noteq> h \<longrightarrow> account_view c' k h' = account_view c k h') \<and> (ok \<longrightarrow> account_view c' k h = None)"
  proof cases
    case 2
    note l = removeFromItems_loop [OF 2(1) inv 2(2) present dist]
    have "account_view c' k h = None" if ok
    proof (cases "dict_get (mcPersistent c) k")
      case None
      then have "account_view ?c1 k h = None" by (simp add: account_view_def)
      then show ?thesis using l by simp
    next
      case (Some i)
      have "(k, i) \<in> set (mcPersistent c)" by (rule map_of_SomeD [OF Some])
      then have "i \<in> set (map snd (mcPersistent c))" by force
      then have "account_view c' (mdClientId i) h = None" using l that by blast
      then show ?thesis using metadata_invD(3) [OF assms(2) Some] by simp
    qed
    with l show ?thesis by (simp add: account_view_def)
  qed (use assms(2) in auto)
  then show "metadata_inv c'" "h' \<noteq> h \<Longrightarrow> account_view c' k h' = account_view c k h'" "ok \<Longrightarrow> account_view c' k h = None"
    by auto
qed


section \<open>Reachable caches\<close>

text \<open>
  A process starts with an empty memory cache over whatever well-formed items the keychain holds
  and calls the operations in any order, with any reads and writes failing.
\<close>

inductive metadata_reachable :: "metadata_cache \<Rightarrow> bool" where
  start: "store_ok d \<Longrightarrow> metadata_reachable \<lparr>mcMemory = [], mcPersistent = d\<rparr>"
| authority: "metadata_reachable c \<Longrightarrow> metadata_reachable (fst (getAuthorityURL un c r ho k ia))"
| set_authority: "metadata_reachable c \<Longrightarrow> metadata_reachable (fst (updateAuthorityURL un ro c u r ho k ia))"
| sign_in_state: "metadata_reachable c \<Longrightarrow> metadata_reachable (fst (signInStateForHomeAccountId un c ho k))"
| set_sign_in_state: "metadata_reachable c \<Longrightarrow> metadata_reachable (fst (updateSignInStateForHomeAccountId un ro c (Some h) k st))"
| account: "metadata_reachable c \<Longrightarrow> metadata_reachable (fst (principalAccountIdForClientId un c skip k))"
| set_account: "metadata_reachable c \<Longrightarrow> metadata_reachable (fst (updatePrincipalAccountIdForClientId un ro c skip k a env))"
| remove_account: "metadata_reachable c \<Longrightarrow> metadata_reachable (fst (removeAccountMetadataForHomeAccountId un ro c (Some h)))"
| remove_client: "metadata_reachable c \<Longrightarrow> metadata_reachable (fst (removeAccountMetadataCacheItemForKey ro c k))"

lemma getAuthority_inv:
  assumes "metadata_inv c" shows "metadata_inv (fst (getAuthorityURL un c r ho k ia))"
proof -
  obtain c1 i e where g: "accountMetadataCacheItemWithKey un c k False = (c1, i, e)"
    by (cases "accountMetadataCacheItemWithKey un c k False") auto
  show ?thesis using assms get_item(1) [OF g assms] by (simp add: getAuthorityURL_def g split: option.splits)
qed

lemma signInState_inv:
  assumes "metadata_inv c" shows "metadata_inv (fst (signInStateForHomeAccountId un c ho k))"
proof -
  obtain c1 i e where g: "retrieveAccountMetadataCacheItem un c k True = (c1, i, e)"
    by (cases "retrieveAccountMetadataCacheItem un c k True") auto
  show ?thesis using assms retrieve_item(1) [OF g assms] by (simp add: signInStateForHomeAccountId_def g split: option.splits)
qed

lemma principal_inv:
  assumes "metadata_inv c" shows "metadata_inv (fst (principalAccountIdForClientId un c skip k))"
proof -
  obtain c1 i e where g: "retrieveAccountMetadataCacheItem un c k skip = (c1, i, e)"
    by (cases "retrieveAccountMetadataCacheItem un c k skip") auto
  show ?thesis using assms retrieve_item(1) [OF g assms] by (simp add: principalAccountIdForClientId_def g)
qed

lemma updatePrincipal_inv:
  assumes "metadata_inv c" shows "metadata_inv (fst (updatePrincipalAccountIdForClientId un ro c skip k a env))"
proof -
  obtain c1 found e where g: "retrieveAccountMetadataCacheItem un c k skip = (c1, found, e)"
    by (cases "retrieveAccountMetadataCacheItem un c k skip") auto
  note r = retrieve_item [OF g assms]
  show ?thesis
  proof (cases e)
    case None
    show ?thesis
    proof (cases "case found of None \<Rightarrow> initMetadataItem k | Some i \<Rightarrow> Some i")
      case (Some i)
      have "mdClientId j = k \<and> item_ok j" if "found = Some j" for j
        using metadata_invD(3) [OF assms, of k j] r(3) [OF None] that by simp
      from item_or_new [OF Some this] have i: "mdClientId i = k" "item_ok i" by simp_all
      let ?i = "i\<lparr>mdPrincipalAccountId := a, mdPrincipalEnvironment := env\<rparr>"
      obtain c2 ok2 e2 where sv: "saveAccountMetadataCacheItem ro c1 (Some ?i) k = (c2, ok2, e2)"
        by (cases "saveAccountMetadataCacheItem ro c1 (Some ?i) k") auto
      have "metadata_inv c2" by (rule save_item_inv [OF sv r(1)]) (use i in \<open>simp_all add: item_ok_def\<close>)
      then show ?thesis by (simp add: updatePrincipalAccountIdForClientId_def g None Some sv)
    qed (use r(1) in \<open>simp add: updatePrincipalAccountIdForClientId_def g None\<close>)
  qed (use r(1) in \<open>simp add: updatePrincipalAccountIdForClientId_def g\<close>)
qed

lemma remove_client_inv:
  assumes "metadata_inv c" shows "metadata_inv (fst (removeAccountMetadataCacheItemForKey ro c k))"
proof -
  have "store_ok (dict_del k (mcPersistent c))" by (rule store_ok_del [OF metadata_invD(1) [OF assms]])
  then show ?thesis using assms
    by (auto simp: removeAccountMetadataCacheItemForKey_def Let_def metadata_inv_def)
qed

lemma start_inv: "store_ok d \<Longrightarrow> metadata_inv \<lparr>mcMemory = [], mcPersistent = d\<rparr>"
  by (simp add: metadata_inv_def)

lemma metadata_reachable_inv: "metadata_reachable c \<Longrightarrow> metadata_inv c"
proof (induction rule: metadata_reachable.induct)
  case (set_authority c un ro u r ho k ia)
  then show ?case using updateAuthority_steps [of un ro c u r ho k ia] by (metis prod.collapse)
next
  case (set_sign_in_state c un ro h k st)
  then show ?case using updateSignIn_steps(1) [of un ro c h k st] by (metis prod.collapse)
next
  case (remove_account c un ro h)
  then show ?case using remove_steps(1) [of un ro c h] by (metis prod.collapse)
qed (simp_all add: getAuthority_inv signInState_inv principal_inv updatePrincipal_inv remove_client_inv start_inv)


lemma signInState_view:
  assumes "metadata_inv c" "\<not> un k" "\<not> msidIsStringNilOrBlank (Some h)" "\<not> msidIsStringNilOrBlank k"
  shows "snd (signInStateForHomeAccountId un c (Some h) k) =
    ((case account_view c k h of None \<Rightarrow> MSIDAccountMetadataStateUnknown | Some m \<Rightarrow> amSignInState m), None)"
  using assms
  by (cases "dict_get (mcPersistent c) k"; cases "account_view c k h")
    (simp_all add: signInStateForHomeAccountId_def retrieveAccountMetadataCacheItem_def accountMetadataCacheItemWithKey_def
      account_view_def accountMetadataForHomeAccountId_def)

lemma getAuthorityURL_view:
  assumes "metadata_inv c" "\<not> un k" "\<not> msidIsStringNilOrBlank (Some h)" "\<not> msidIsStringNilOrBlank k" "r \<noteq> None"
  shows "snd (getAuthorityURL un c r (Some h) k ia) = (Option.bind (account_view c k h) (\<lambda>m. cachedURL m r ia), None)"
proof -
  obtain c1 i e where g: "accountMetadataCacheItemWithKey un c k False = (c1, i, e)"
    by (cases "accountMetadataCacheItemWithKey un c k False") auto
  have "e = None" using g assms(2) by (auto simp: accountMetadataCacheItemWithKey_def split: option.splits)
  then show ?thesis using get_item(3) [OF g assms(1)] assms(3-5)
    by (cases i; cases "account_view c k h")
      (auto simp: getAuthorityURL_def g account_view_def accountMetadataForHomeAccountId_def)
qed

lemma not_blank_Some: "\<not> msidIsStringNilOrBlank k \<Longrightarrow> \<exists>s. k = Some s"
  by (cases k) (simp_all add: msidIsStringNilOrBlank_def)

section \<open>Properties\<close>


definition sample_metadata :: metadata_cache where
  "sample_metadata = fst (updateAuthorityURL (\<lambda>_. False) (\<lambda>_. False) \<lparr>mcMemory = [], mcPersistent = []\<rparr>
     (Some ''https://login.microsoftonline.com/t'') (Some ''https://login.microsoftonline.com/common'') (Some ''u.t'') (Some ''client'') False)"

lemma sample_metadata_reachable: "metadata_reachable sample_metadata"
  unfolding sample_metadata_def by (intro set_authority start) (simp add: store_ok_def)


text \<open>
  C23: a successful sign-out is seen by every later read of a readable keychain. The account is signed
  out, none of its authority URLs is answered, and no other account or client changed.
\<close>

theorem sign_out_is_seen:
  assumes "metadata_reachable c" "\<not> un k"
    and "updateSignInStateForHomeAccountId un ro c (Some h) k MSIDAccountMetadataStateSignedOut = (c', True, err)"
  shows "snd (signInStateForHomeAccountId un c' (Some h) k) = (MSIDAccountMetadataStateSignedOut, None) \<and>
    (r \<noteq> None \<longrightarrow> snd (getAuthorityURL un c' r (Some h) k ia) = (None, None)) \<and>
    ((k', h') \<noteq> (k, h) \<longrightarrow> account_view c' k' h' = account_view c k' h')"
proof -
  note s = updateSignIn_steps [OF assms(3) metadata_reachable_inv [OF assms(1)]]
  obtain m where m: "account_view c' k h = Some m" "amSignInState m = MSIDAccountMetadataStateSignedOut"
    using s(2) by auto
  have nb: "\<not> msidIsStringNilOrBlank (Some h)" "\<not> msidIsStringNilOrBlank k" using s(4) by simp_all
  show ?thesis
    using signInState_view [of c' un k h, OF s(1) assms(2) nb] getAuthorityURL_view [of c' un k h r ia, OF s(1) assms(2) nb] m s(3)
    by (auto simp: cachedURL_def)
qed

theorem sign_out_is_seen_witness:
  "snd (signInStateForHomeAccountId (\<lambda>_. False)
      (fst (updateSignInStateForHomeAccountId (\<lambda>_. False) (\<lambda>_. False) sample_metadata (Some ''u.t'') (Some ''client'')
         MSIDAccountMetadataStateSignedOut)) (Some ''u.t'') (Some ''client'')) = (MSIDAccountMetadataStateSignedOut, None)"
proof -
  let ?run = "updateSignInStateForHomeAccountId (\<lambda>_. False) (\<lambda>_. False) sample_metadata (Some ''u.t'') (Some ''client'')
         MSIDAccountMetadataStateSignedOut"
  have "fst (snd ?run)" by code_simp
  note run = run_succeeded [OF this]
  show ?thesis by (rule sign_out_is_seen [where un = "\<lambda>_. False", OF sample_metadata_reachable _ run, THEN conjunct1]) simp
qed

text \<open>
  An authority that was resolved is answered from then on: after a successful update of the
  authority URL of an account (to a URL other than the requested one) a lookup for that account,
  client and request URL answers it, the account counts as signed in, and no other account or
  client changed.
\<close>

theorem authority_update_is_answered:
  assumes "metadata_reachable c" "\<not> un k" "\<not> msidIsStringNilOrBlank (Some h)" "\<not> msidIsStringNilOrBlank k" "u \<noteq> r" "r \<noteq> None"
    and "updateAuthorityURL un ro c u r (Some h) k ia = (c', True, err)"
  shows "snd (getAuthorityURL un c' r (Some h) k ia) = (u, None) \<and>
    snd (signInStateForHomeAccountId un c' (Some h) k) = (MSIDAccountMetadataStateSignedIn, None) \<and>
    ((k', h') \<noteq> (k, h) \<longrightarrow> account_view c' k' h' = account_view c k' h')"
proof -
  note s = updateAuthority_steps [OF assms(7) metadata_reachable_inv [OF assms(1)]]
  have inv: "metadata_inv c'" using s by blast
  obtain m where m: "account_view c' k h = Some m" "cachedURL m r ia = u" "amSignInState m = MSIDAccountMetadataStateSignedIn"
    using s [of h] assms(5) by auto
  have "(k', h') \<noteq> (k, h) \<longrightarrow> account_view c' k' h' = account_view c k' h'" using s by auto
  then show ?thesis
    using signInState_view [of c' un k h, OF inv assms(2-4)] getAuthorityURL_view [of c' un k h r ia, OF inv assms(2-4) assms(6)] m by simp
qed

theorem authority_update_is_answered_witness:
  "snd (getAuthorityURL (\<lambda>_. False) sample_metadata (Some ''https://login.microsoftonline.com/common'') (Some ''u.t'') (Some ''client'') False) =
     (Some ''https://login.microsoftonline.com/t'', None)"
proof -
  let ?c = "\<lparr>mcMemory = [], mcPersistent = []\<rparr> :: metadata_cache"
  let ?run = "updateAuthorityURL (\<lambda>_. False) (\<lambda>_. False) ?c
     (Some ''https://login.microsoftonline.com/t'') (Some ''https://login.microsoftonline.com/common'') (Some ''u.t'') (Some ''client'') False"
  have start: "metadata_reachable ?c" by (rule metadata_reachable.start) (simp add: store_ok_def)
  have "snd ?run = (True, None)" by code_simp
  then have run: "?run = (sample_metadata, True, None)" unfolding sample_metadata_def by (rule prod_eqI [OF fst_conv [symmetric], unfolded snd_conv])
  have "\<not> msidIsStringNilOrBlank (Some ''u.t'')" "\<not> msidIsStringNilOrBlank (Some ''client'')" by code_simp+
  from authority_update_is_answered [where un = "\<lambda>_. False", OF start _ this _ _ run] show ?thesis by simp
qed

text \<open>
  Removing an account forgets it for every client: after a successful removal no client's item
  has metadata of that home account, and the metadata of every other account is unchanged.
\<close>

theorem account_removal_is_complete:
  assumes "metadata_reachable c"
    and "removeAccountMetadataForHomeAccountId un ro c (Some h) = (c', True, err)"
  shows "account_view c' k h = None \<and> (h' \<noteq> h \<longrightarrow> account_view c' k h' = account_view c k h')"
  using remove_steps [OF assms(2) metadata_reachable_inv [OF assms(1)]] by blast

theorem account_removal_is_complete_witness:
  "account_view (fst (removeAccountMetadataForHomeAccountId (\<lambda>_. False) (\<lambda>_. False) sample_metadata (Some ''u.t''))) (Some ''client'') ''u.t'' = None"
proof -
  let ?run = "removeAccountMetadataForHomeAccountId (\<lambda>_. False) (\<lambda>_. False) sample_metadata (Some ''u.t'')"
  have "fst (snd ?run)" by code_simp
  note run = run_succeeded [OF this]
  show ?thesis by (rule account_removal_is_complete [OF sample_metadata_reachable run, THEN conjunct1])
qed

end
