(* ===== verification/CredentialStorage.thy ===== *)
theory CredentialStorage
  imports CacheItems AccountMetadata Interfaces
begin

text \<open>
  \<open>cache/mac/MSIDMacCredentialStorageItem.m\<close>: the blob in which the macOS cache keeps its items,
  a dictionary of buckets, one for each kind of item, that map keys to items. A dictionary of
  \<open>MSIDCacheKey\<close>s compares them by account and service; a bucket therefore maps that pair to
  the stored key and its item. The concurrent queue runs one block at a time.
\<close>

section \<open>Items and keys of all kinds\<close>

datatype storage_item =
    CredentialItem credential_item
  | AccountItem account_item
  | AppMetadataItem appmetadata_item
  | AccountMetadataItem metadata_item

datatype storage_key =
    CredentialKey credential_key
  | CredentialQuery credential_query
  | AccountKey account_key
  | AccountQuery account_query
  | AppMetadataKey appmetadata_key
  | AppMetadataQuery appmetadata_query
  | AccountMetadataKey "string option"
  | PlainKey cache_key

definition accountMetadata_cache_key :: "string option \<Rightarrow> cache_key" where
  "accountMetadata_cache_key clientId =
     \<lparr>keyAccount = Some ''authority_map'', keyService = clientId, keyGeneric = None, keyType = Some 5001\<rparr>"

fun key_view :: "(string \<Rightarrow> string) \<Rightarrow> storage_key \<Rightarrow> cache_key" where
  "key_view th (CredentialKey k) = credential_cache_key th k"
| "key_view th (CredentialQuery q) = query_cache_key th q"
| "key_view th (AccountKey k) = account_cache_key k"
| "key_view th (AccountQuery q) = account_query_cache_key q"
| "key_view th (AppMetadataKey k) = appmetadata_cache_key k"
| "key_view th (AppMetadataQuery q) = appmetadata_query_cache_key q"
| "key_view th (AccountMetadataKey clientId) = accountMetadata_cache_key clientId"
| "key_view th (PlainKey k) = k"

type_synonym slot = "string option \<times> string option"

definition slot_of :: "(string \<Rightarrow> string) \<Rightarrow> storage_key \<Rightarrow> slot" where
  "slot_of th k = (keyAccount (key_view th k), keyService (key_view th k))"

text \<open>
  A dictionary copies the keys it is given. The copy of a query is a query with default matching
  options; the copy of a credential key loses its application key.
\<close>

definition credentialQuery_copy :: "credential_query \<Rightarrow> credential_query" where
  "credentialQuery_copy q =
     initCredentialQuery\<lparr>ckHomeAccountId := ckHomeAccountId q, ckEnvironment := ckEnvironment q, ckRealm := ckRealm q,
       ckClientId := ckClientId q, ckFamilyId := ckFamilyId q, ckTarget := ckTarget q,
       ckApplicationIdentifier := ckApplicationIdentifier q, ckCredentialType := ckCredentialType q,
       ckTokenType := ckTokenType q, ckRequestedClaims := ckRequestedClaims q\<rparr>"

fun key_copy :: "storage_key \<Rightarrow> storage_key" where
  "key_copy (CredentialKey k) = CredentialKey (credentialKey_copy k)"
| "key_copy (CredentialQuery q) = CredentialQuery (credentialQuery_copy q)"
| "key_copy (AccountQuery q) = AccountQuery (q\<lparr>aqEnvironmentAliases := []\<rparr>)"
| "key_copy (AppMetadataQuery q) = AppMetadataQuery (q\<lparr>mqEnvironmentAliases := []\<rparr>)"
| "key_copy k = k"

fun credentialTypeBucket :: "credential_type \<Rightarrow> string option" where
  "credentialTypeBucket MSIDIDTokenType = Some ''IdToken''"
| "credentialTypeBucket MSIDAccessTokenType = Some ''AccessToken''"
| "credentialTypeBucket MSIDRefreshTokenType = Some ''RefreshToken''"
| "credentialTypeBucket MSIDAccessTokenWithAuthSchemeType = Some ''AccessToken_With_AuthScheme''"
| "credentialTypeBucket _ = None"

fun getItemTypeFromCacheKey :: "storage_key \<Rightarrow> string option" where
  "getItemTypeFromCacheKey (CredentialKey k) = credentialTypeBucket (ckCredentialType k)"
| "getItemTypeFromCacheKey (CredentialQuery q) = credentialTypeBucket (ckCredentialType q)"
| "getItemTypeFromCacheKey (AccountKey k) = Some ''Account''"
| "getItemTypeFromCacheKey (AccountQuery q) = Some ''Account''"
| "getItemTypeFromCacheKey (AppMetadataKey k) = Some ''AppMetadata''"
| "getItemTypeFromCacheKey (AppMetadataQuery q) = Some ''AppMetadata''"
| "getItemTypeFromCacheKey (AccountMetadataKey c) = Some ''AccountMetadataMap''"
| "getItemTypeFromCacheKey (PlainKey k) = None"

definition predicateForKey :: "(string \<Rightarrow> string) \<Rightarrow> storage_key \<Rightarrow> storage_key \<Rightarrow> bool" where
  "predicateForKey th key k =
     (let q = key_view th key; v = key_view th k
      in (keyAccount q = None \<or> keyAccount v = keyAccount q) \<and>
         (keyService q = None \<or> keyService v = keyService q) \<and>
         (keyGeneric q = None \<or> keyGeneric v = keyGeneric q) \<and>
         (keyType q = None \<or> keyType v = keyType q))"

section \<open>The blob\<close>

type_synonym bucket = "(slot, storage_key \<times> storage_item) dict"
type_synonym storage = "(string, bucket) dict"

definition initStorage :: storage where
  "initStorage = []"

text \<open>\<open>setObject:forKey:\<close> keeps the key object that is already there.\<close>

definition bucket_set :: "(string \<Rightarrow> string) \<Rightarrow> storage_item \<Rightarrow> storage_key \<Rightarrow> bucket \<Rightarrow> bucket" where
  "bucket_set th item key b =
     (case dict_get b (slot_of th key) of
        Some (k, _) \<Rightarrow> dict_put (slot_of th key) (k, item) b
      | None \<Rightarrow> dict_put (slot_of th (key_copy key)) (key_copy key, item) b)"

definition storeItem :: "(string \<Rightarrow> string) \<Rightarrow> storage_item \<Rightarrow> storage_key \<Rightarrow> storage \<Rightarrow> storage" where
  "storeItem th item key st =
     (case getItemTypeFromCacheKey key of
        None \<Rightarrow> st
      | Some ty \<Rightarrow>
          (let items = (case dict_get st ty of None \<Rightarrow> [] | Some b \<Rightarrow> b)
           in dict_put ty (bucket_set th item key items) st))"

definition mergeBucketEntry :: "bucket \<Rightarrow> slot \<times> storage_key \<times> storage_item \<Rightarrow> bucket" where
  "mergeBucketEntry b e =
     (case e of (s, k, i) \<Rightarrow>
        (case dict_get b s of Some (k0, _) \<Rightarrow> dict_put s (k0, i) b | None \<Rightarrow> dict_put s (k, i) b))"

definition mergeBucketInto :: "storage \<Rightarrow> string \<times> bucket \<Rightarrow> storage" where
  "mergeBucketInto st e =
     (case dict_get st (fst e) of
        None \<Rightarrow> dict_put (fst e) (snd e) st
      | Some subDict \<Rightarrow> dict_put (fst e) (foldl mergeBucketEntry subDict (snd e)) st)"

definition mergeStorageItem :: "storage \<Rightarrow> storage \<Rightarrow> storage" where
  "mergeStorageItem st storageItem = foldl mergeBucketInto st storageItem"

definition getFilteredKeys :: "(string \<Rightarrow> string) \<Rightarrow> bucket \<Rightarrow> storage_key \<Rightarrow> slot list" where
  "getFilteredKeys th b key = map fst (filter (\<lambda>(s, k, i). predicateForKey th key k) b)"

definition getFilteredItems :: "(string \<Rightarrow> string) \<Rightarrow> bucket \<Rightarrow> storage_key \<Rightarrow> storage_item list" where
  "getFilteredItems th b key = map (\<lambda>(s, k, i). i) (filter (\<lambda>(s, k, i). predicateForKey th key k) b)"

definition put_or_drop :: "string \<Rightarrow> bucket \<Rightarrow> storage \<Rightarrow> storage" where
  "put_or_drop ty b st = (if b = [] then dict_del ty st else dict_put ty b st)"

definition removeMatching :: "(string \<Rightarrow> string) \<Rightarrow> storage_key \<Rightarrow> storage \<Rightarrow> string \<Rightarrow> storage" where
  "removeMatching th key st ty =
     (case dict_get st ty of
        None \<Rightarrow> st
      | Some b \<Rightarrow> put_or_drop ty (foldl (\<lambda>b s. dict_del s b) b (getFilteredKeys th b key)) st)"

definition removeStoredItemForKey :: "(string \<Rightarrow> string) \<Rightarrow> storage_key \<Rightarrow> storage \<Rightarrow> storage" where
  "removeStoredItemForKey th key st =
     (case getItemTypeFromCacheKey key of
        Some ty \<Rightarrow>
          (case dict_get st ty of
             None \<Rightarrow> st
           | Some b \<Rightarrow> put_or_drop ty (dict_del (slot_of th key) b) st)
      | None \<Rightarrow> foldl (removeMatching th key) st (dict_keys st))"

definition storedItemsForKey :: "(string \<Rightarrow> string) \<Rightarrow> storage_key \<Rightarrow> storage \<Rightarrow> storage_item list" where
  "storedItemsForKey th key st =
     (case getItemTypeFromCacheKey key of
        Some ty \<Rightarrow>
          (case dict_get st ty of
             None \<Rightarrow> []
           | Some b \<Rightarrow>
               (if keyAccount (key_view th key) \<noteq> None \<and> keyService (key_view th key) \<noteq> None then
                  (case dict_get b (slot_of th key) of None \<Rightarrow> [] | Some (_, item) \<Rightarrow> [item])
                else getFilteredItems th b key))
      | None \<Rightarrow> concat (map (\<lambda>(ty, b). getFilteredItems th b key) st))"

definition storage_count :: "storage \<Rightarrow> nat" where
  "storage_count st = length st"

section \<open>Its JSON form\<close>

fun item_jsonDictionary :: "storage_item \<Rightarrow> (string, nsobj) dict" where
  "item_jsonDictionary (CredentialItem i) = credential_jsonDictionary i"
| "item_jsonDictionary (AccountItem i) = account_jsonDictionary i"
| "item_jsonDictionary (AppMetadataItem i) = appmetadata_jsonDictionary i"
| "item_jsonDictionary (AccountMetadataItem i) = metadataItem_json i"

fun item_generateCacheKey :: "storage_item \<Rightarrow> storage_key" where
  "item_generateCacheKey (CredentialItem i) = CredentialKey (credential_generateCacheKey i)"
| "item_generateCacheKey (AccountItem i) = AccountKey (account_generateCacheKey i)"
| "item_generateCacheKey (AppMetadataItem i) = AppMetadataKey (appmetadata_generateCacheKey i)"
| "item_generateCacheKey (AccountMetadataItem i) = AccountMetadataKey (mdClientId i)"

text \<open>The argument \<open>client_info_ok\<close> says which client infos \<open>MSIDClientInfo\<close> can parse.\<close>

definition getItemWithType :: "(string \<Rightarrow> bool) \<Rightarrow> (string, nsobj) dict \<Rightarrow> string \<Rightarrow> storage_item option" where
  "getItemWithType client_info_ok json ty =
     (if ty \<in> {''AccessToken'', ''IdToken'', ''RefreshToken'', ''AccessToken_With_AuthScheme''}
      then map_option CredentialItem (initCredentialWithJSON (Some json))
      else if ty = ''Account'' then map_option AccountItem (initAccountWithJSON client_info_ok (Some json))
      else if ty = ''AppMetadata'' then map_option AppMetadataItem (initAppMetadataWithJSON (Some json))
      else if ty = ''AccountMetadataMap'' then map_option AccountMetadataItem (initMetadataItemWithJSON (Some json))
      else None)"

definition getItemKey :: "(string \<Rightarrow> string) \<Rightarrow> storage_key \<Rightarrow> string" where
  "getItemKey th k = fmt_obj (keyAccount (key_view th k)) @ ''-'' @ fmt_obj (keyService (key_view th k))"

definition bucket_json :: "(string \<Rightarrow> string) \<Rightarrow> bucket \<Rightarrow> (string, nsobj) dict" where
  "bucket_json th b = foldl (\<lambda>d (s, k, i). dict_put (getItemKey th k) (NSDict (item_jsonDictionary i)) d) [] b"

definition storage_jsonDictionary :: "(string \<Rightarrow> string) \<Rightarrow> storage \<Rightarrow> (string, nsobj) dict" where
  "storage_jsonDictionary th st = map (\<lambda>(ty, b). (ty, NSDict (bucket_json th b))) st"

definition readItem :: "(string \<Rightarrow> string) \<Rightarrow> (string \<Rightarrow> bool) \<Rightarrow> string \<Rightarrow> bucket \<Rightarrow> string \<times> nsobj \<Rightarrow> bucket" where
  "readItem th client_info_ok ty b e =
     (case Option.bind (as_dict (snd e)) (\<lambda>d. getItemWithType client_info_ok d ty) of
        None \<Rightarrow> b
      | Some item \<Rightarrow> bucket_set th item (item_generateCacheKey item) b)"

definition readBucket ::
    "(string \<Rightarrow> string) \<Rightarrow> (string \<Rightarrow> bool) \<Rightarrow> storage \<Rightarrow> string \<times> nsobj \<Rightarrow> storage" where
  "readBucket th client_info_ok st e =
     (case as_dict (snd e) of
        None \<Rightarrow> st
      | Some subDict \<Rightarrow> dict_put (fst e) (foldl (readItem th client_info_ok (fst e)) [] subDict) st)"

definition initStorageWithJSON ::
    "(string \<Rightarrow> string) \<Rightarrow> (string \<Rightarrow> bool) \<Rightarrow> (string, nsobj) dict \<Rightarrow> storage" where
  "initStorageWithJSON th client_info_ok json = foldl (readBucket th client_info_ok) initStorage json"

section \<open>The blob as a map from addresses to items\<close>

definition bucket_ok :: "(string \<Rightarrow> string) \<Rightarrow> bucket \<Rightarrow> bool" where
  "bucket_ok th b \<longleftrightarrow> distinct (dict_keys b) \<and> (\<forall>s k i. dict_get b s = Some (k, i) \<longrightarrow> slot_of th k = s)"

definition storage_inv :: "(string \<Rightarrow> string) \<Rightarrow> storage \<Rightarrow> bool" where
  "storage_inv th st \<longleftrightarrow> distinct (dict_keys st) \<and> (\<forall>ty b. dict_get st ty = Some b \<longrightarrow> bucket_ok th b)"

definition entry_at :: "storage \<Rightarrow> string \<times> slot \<Rightarrow> (storage_key \<times> storage_item) option" where
  "entry_at st a = Option.bind (dict_get st (fst a)) (\<lambda>b. dict_get b (snd a))"

definition item_in :: "bucket \<Rightarrow> slot \<Rightarrow> storage_item option" where
  "item_in b s = map_option snd (dict_get b s)"

definition item_at :: "storage \<Rightarrow> string \<times> slot \<Rightarrow> storage_item option" where
  "item_at st a = map_option snd (entry_at st a)"

definition key_addr :: "(string \<Rightarrow> string) \<Rightarrow> storage_key \<Rightarrow> (string \<times> slot) option" where
  "key_addr th k = map_option (\<lambda>ty. (ty, slot_of th k)) (getItemTypeFromCacheKey k)"

definition key_stable :: "(string \<Rightarrow> string) \<Rightarrow> storage_key \<Rightarrow> bool" where
  "key_stable th k \<longleftrightarrow> slot_of th (key_copy k) = slot_of th k"

definition key_exact :: "(string \<Rightarrow> string) \<Rightarrow> storage_key \<Rightarrow> bool" where
  "key_exact th k \<longleftrightarrow> keyAccount (key_view th k) \<noteq> None \<and> keyService (key_view th k) \<noteq> None"

lemma bucket_ok_Nil [simp]: "bucket_ok th []"
  by (simp add: bucket_ok_def)

lemma storage_inv_Nil [simp]: "storage_inv th []"
  by (simp add: storage_inv_def)

lemma bucket_okD: "bucket_ok th b \<Longrightarrow> dict_get b s = Some (k, i) \<Longrightarrow> slot_of th k = s"
  unfolding bucket_ok_def by blast

lemma bucket_ok_put: "bucket_ok th b \<Longrightarrow> slot_of th k = s \<Longrightarrow> bucket_ok th (dict_put s (k, i) b)"
  by (simp add: bucket_ok_def del: split_paired_All dom_map_of_conv_image_fst)

lemma bucket_set_ok: "bucket_ok th b \<Longrightarrow> bucket_ok th (bucket_set th x k b)"
  by (cases "dict_get b (slot_of th k)") (auto simp: bucket_set_def intro!: bucket_ok_put dest: bucket_okD)

lemma item_in_Nil [simp]: "item_in [] = Map.empty"
  by (simp add: item_in_def fun_eq_iff)

lemma item_in_put [simp]: "item_in (dict_put s (k, i) b) = (item_in b)(s \<mapsto> i)"
  by (simp add: item_in_def fun_eq_iff)

lemma item_in_del [simp]: "item_in (dict_del s b) = (item_in b)(s := None)"
  by (simp add: item_in_def fun_eq_iff)

lemma item_in_set: "key_stable th k \<Longrightarrow> item_in (bucket_set th x k b) = (item_in b)(slot_of th k \<mapsto> x)"
  by (cases "dict_get b (slot_of th k)") (auto simp: bucket_set_def key_stable_def)

lemma item_at_in: "item_at st (ty, s) = (case dict_get st ty of None \<Rightarrow> None | Some b \<Rightarrow> item_in b s)"
  by (simp add: item_at_def entry_at_def item_in_def split: option.split)

lemma item_at_put [simp]: "item_at (dict_put ty b st) (ty', s) = (if ty' = ty then item_in b s else item_at st (ty', s))"
  by (simp add: item_at_in)

lemma bucket_del_ok: "bucket_ok th b \<Longrightarrow> bucket_ok th (dict_del s b)"
  by (simp add: bucket_ok_def del: dom_map_of_conv_image_fst)

lemma storage_inv_put: "storage_inv th st \<Longrightarrow> bucket_ok th b \<Longrightarrow> storage_inv th (dict_put ty b st)"
  by (auto simp: storage_inv_def)

lemma storage_inv_del: "storage_inv th st \<Longrightarrow> storage_inv th (dict_del ty st)"
  by (simp add: storage_inv_def del: dom_map_of_conv_image_fst)

lemma storage_invD: "storage_inv th st \<Longrightarrow> dict_get st ty = Some b \<Longrightarrow> bucket_ok th b"
  by (auto simp: storage_inv_def)

lemma storage_inv_put_or_drop: "storage_inv th st \<Longrightarrow> bucket_ok th b \<Longrightarrow> storage_inv th (put_or_drop ty b st)"
  by (simp add: put_or_drop_def storage_inv_put storage_inv_del)

lemma entry_at_put_or_drop:
  "entry_at (put_or_drop ty b st) = (\<lambda>a. if fst a = ty then dict_get b (snd a) else entry_at st a)"
  by (auto simp: put_or_drop_def entry_at_def fun_eq_iff)

lemma storeItem_inv: "storage_inv th st \<Longrightarrow> storage_inv th (storeItem th x k st)"
  by (auto simp: storeItem_def Let_def intro!: storage_inv_put bucket_set_ok dest: storage_invD split: option.splits)

lemma item_at_put_or_drop [simp]:
  "item_at (put_or_drop ty b st) (ty', s) = (if ty' = ty then item_in b s else item_at st (ty', s))"
  by (simp add: put_or_drop_def item_at_in)

lemma storeItem_view:
  assumes "key_stable th k" "key_addr th k = Some a"
  shows "item_at (storeItem th x k st) = (item_at st)(a \<mapsto> x)"
proof
  fix a' :: "string \<times> slot"
  obtain ty' s' where a': "a' = (ty', s')" by (cases a')
  show "item_at (storeItem th x k st) a' = ((item_at st)(a \<mapsto> x)) a'"
    using assms(2) unfolding a'
    by (cases "getItemTypeFromCacheKey k"; cases "dict_get st ty'")
      (auto simp: storeItem_def Let_def key_addr_def item_in_set [OF assms(1)] item_at_in)
qed

lemma removeStoredItem_view:
  assumes "key_addr th k = Some a"
  shows "item_at (removeStoredItemForKey th k st) = (item_at st)(a := None)"
proof
  fix a' :: "string \<times> slot"
  obtain ty' s' where a': "a' = (ty', s')" by (cases a')
  show "item_at (removeStoredItemForKey th k st) a' = ((item_at st)(a := None)) a'"
    using assms unfolding a'
    by (auto simp: removeStoredItemForKey_def key_addr_def split: option.splits) (simp_all add: item_at_in)
qed

lemma storedItems_exact:
  assumes "key_exact th k" "key_addr th k = Some a"
  shows "storedItemsForKey th k st = (case item_at st a of None \<Rightarrow> [] | Some x \<Rightarrow> [x])"
  using assms by (auto simp: storedItemsForKey_def key_exact_def key_addr_def item_at_def entry_at_def split: option.splits)

subsection \<open>Merging\<close>

lemma mergeBucketEntry_ok:
  "bucket_ok th b \<Longrightarrow> slot_of th k = s \<Longrightarrow> bucket_ok th (mergeBucketEntry b (s, k, i))"
  by (cases "dict_get b s") (auto simp: mergeBucketEntry_def intro!: bucket_ok_put dest: bucket_okD)

lemma mergeBucketEntry_item: "item_in (mergeBucketEntry b (s, k, i)) = (item_in b)(s \<mapsto> i)"
  by (simp add: mergeBucketEntry_def split: option.split)

lemma mergeBucket_ok:
  "bucket_ok th b \<Longrightarrow> \<forall>(s, k, i) \<in> set e. slot_of th k = s \<Longrightarrow> bucket_ok th (foldl mergeBucketEntry b e)"
  by (induction e arbitrary: b) (auto intro: mergeBucketEntry_ok)

lemma mergeBucket_item:
  "distinct (dict_keys e) \<Longrightarrow> item_in (foldl mergeBucketEntry b e) = item_in b ++ item_in e"
proof (induction e arbitrary: b)
  case (Cons x e)
  obtain s k i where x: "x = (s, k, i)" by (cases x) auto
  have "item_in e s = None" using Cons.prems by (simp add: x item_in_def map_of_eq_None_iff)
  moreover have "item_in (x # e) = (item_in e)(s \<mapsto> i)" by (simp add: x item_in_def fun_eq_iff)
  ultimately show ?case
    using Cons by (simp add: mergeBucketEntry_item x) (auto simp: map_add_def fun_eq_iff split: option.splits)
qed simp

lemma bucket_ok_entries: "bucket_ok th b \<Longrightarrow> distinct (dict_keys b) \<and> (\<forall>(s, k, i) \<in> set b. slot_of th k = s)"
  by (auto simp: bucket_ok_def dest: map_of_is_SomeI)

lemma mergeBucketInto_inv:
  "storage_inv th st \<Longrightarrow> bucket_ok th b \<Longrightarrow> storage_inv th (mergeBucketInto st (ty, b))"
  by (cases "dict_get st ty")
    (auto simp: mergeBucketInto_def intro!: storage_inv_put mergeBucket_ok dest: storage_invD bucket_ok_entries)

lemma mergeBucketInto_item:
  assumes "bucket_ok th b"
  shows "item_at (mergeBucketInto st (ty, b)) (ty', s) = (if ty' = ty then item_at st ++ (\<lambda>(t, s). item_in b s) else item_at st) (ty', s)"
  using bucket_ok_entries [OF assms]
  by (cases "dict_get st ty") (auto simp: mergeBucketInto_def mergeBucket_item item_at_in map_add_def split: option.splits)

lemma mergeStorage_inv:
  assumes "storage_inv th st" "\<forall>(ty, b) \<in> set st'. bucket_ok th b"
  shows "storage_inv th (mergeStorageItem st st')"
  using assms unfolding mergeStorageItem_def
  by (induction st' arbitrary: st) (auto intro: mergeBucketInto_inv)

lemma mergeStorage_item:
  assumes "distinct (dict_keys st')" "\<forall>(ty, b) \<in> set st'. bucket_ok th b"
  shows "item_at (mergeStorageItem st st') = item_at st ++ item_at st'"
  using assms unfolding mergeStorageItem_def
proof (induction st' arbitrary: st)
  case Nil
  then show ?case by (simp add: item_at_in fun_eq_iff map_add_def split: option.splits)
next
  case (Cons x st')
  obtain ty b where x: "x = (ty, b)" by (cases x)
  have b: "bucket_ok th b" using Cons.prems by (simp add: x)
  have IH: "item_at (foldl mergeBucketInto (mergeBucketInto st x) st') = item_at (mergeBucketInto st x) ++ item_at st'"
    by (rule Cons.IH) (use Cons.prems in auto)
  have fresh: "dict_get st' ty = None" using Cons.prems by (simp add: x map_of_eq_None_iff)
  show ?case
  proof
    fix a :: "string \<times> slot"
    obtain t s where a: "a = (t, s)" by (cases a)
    show "item_at (foldl mergeBucketInto st (x # st')) a = (item_at st ++ item_at (x # st')) a"
    proof -
      have "item_at (x # st') (t, s) = (if t = ty then item_in b s else item_at st' (t, s))"
        by (simp add: x item_at_in)
      moreover have "item_at st' (ty, s) = None" using fresh by (simp add: item_at_in)
      ultimately show ?thesis unfolding a foldl_Cons IH unfolding x
        by (cases "t = ty"; cases "item_at st' (t, s)"; cases "item_in b s")
          (simp_all add: map_add_def mergeBucketInto_item [OF b])
    qed
  qed
qed

lemma storage_inv_entries: "storage_inv th st \<Longrightarrow> distinct (dict_keys st) \<and> (\<forall>(ty, b) \<in> set st. bucket_ok th b)"
  by (auto simp: storage_inv_def dest: map_of_is_SomeI)

lemma bucket_del_all_ok: "bucket_ok th b \<Longrightarrow> bucket_ok th (foldl (\<lambda>b s. dict_del s b) b ss)"
  by (induction ss arbitrary: b) (auto intro: bucket_del_ok)

lemma bucket_del_all_get: "dict_get (foldl (\<lambda>b s. dict_del s b) b ss) s = (if s \<in> set ss then None else dict_get b s)"
  by (induction ss arbitrary: b) auto

lemma removeMatching_inv: "storage_inv th st \<Longrightarrow> storage_inv th (removeMatching th key st ty)"
  by (auto simp: removeMatching_def intro!: storage_inv_put_or_drop bucket_del_all_ok dest: storage_invD split: option.split)

lemma removeAll_inv: "storage_inv th st \<Longrightarrow> storage_inv th (foldl (removeMatching th key) st tys)"
  by (induction tys arbitrary: st) (auto intro: removeMatching_inv)

lemma removeStored_inv: "storage_inv th st \<Longrightarrow> storage_inv th (removeStoredItemForKey th k st)"
  by (auto simp: removeStoredItemForKey_def intro!: storage_inv_put_or_drop bucket_del_ok removeAll_inv
      dest: storage_invD split: option.split)

interpretation blob: keyed_store "storage_inv th" item_at "key_addr th" "key_stable th" "key_exact th"
    "storeItem th" "removeStoredItemForKey th" "storedItemsForKey th" mergeStorageItem for th
proof (unfold_locales, goal_cases)
  case (3 k x st)
  then show ?case by (simp add: key_addr_def storeItem_def)
next
  case (4 st k)
  then show ?case by (rule removeStored_inv)
qed (auto simp: storeItem_inv storeItem_view removeStoredItem_view storedItems_exact mergeStorage_inv mergeStorage_item
       dest: storage_inv_entries)

subsection \<open>Queries that name several items\<close>

lemma bucket_entry_iff: "bucket_ok th b \<Longrightarrow> (s, e) \<in> set b \<longleftrightarrow> dict_get b s = Some e"
  unfolding bucket_ok_def by (metis map_of_eq_Some_iff)

lemma storage_entry_iff: "storage_inv th st \<Longrightarrow> (ty, b) \<in> set st \<longleftrightarrow> dict_get st ty = Some b"
  unfolding storage_inv_def by (metis map_of_eq_Some_iff)

lemma getFilteredItems_iff:
  "bucket_ok th b \<Longrightarrow> i \<in> set (getFilteredItems th b key) \<longleftrightarrow> (\<exists>s k. dict_get b s = Some (k, i) \<and> predicateForKey th key k)"
  by (force simp: getFilteredItems_def bucket_entry_iff [symmetric])

lemma storedItems_partial:
  assumes "\<not> key_exact th key" "getItemTypeFromCacheKey key = Some ty" "storage_inv th st"
  shows "i \<in> set (storedItemsForKey th key st) \<longleftrightarrow> (\<exists>s k. entry_at st (ty, s) = Some (k, i) \<and> predicateForKey th key k)"
proof (cases "dict_get st ty")
  case None
  then show ?thesis using assms by (simp add: storedItemsForKey_def entry_at_def)
next
  case (Some b)
  have "storedItemsForKey th key st = getFilteredItems th b key"
    using assms(1,2) by (auto simp: storedItemsForKey_def key_exact_def Some)
  then show ?thesis by (simp add: getFilteredItems_iff [OF storage_invD [OF assms(3) Some]] entry_at_def Some)
qed

lemma storedItems_untyped:
  assumes "getItemTypeFromCacheKey key = None" "storage_inv th st"
  shows "i \<in> set (storedItemsForKey th key st) \<longleftrightarrow> (\<exists>ty s k. entry_at st (ty, s) = Some (k, i) \<and> predicateForKey th key k)"
proof -
  have "i \<in> set (storedItemsForKey th key st) \<longleftrightarrow> (\<exists>ty b. dict_get st ty = Some b \<and> i \<in> set (getFilteredItems th b key))"
    using assms(1) by (force simp: storedItemsForKey_def storage_entry_iff [OF assms(2), symmetric])
  also have "\<dots> \<longleftrightarrow> (\<exists>ty b s k. dict_get st ty = Some b \<and> dict_get b s = Some (k, i) \<and> predicateForKey th key k)"
    using getFilteredItems_iff [OF storage_invD [OF assms(2)]] by blast
  finally show ?thesis by (simp add: entry_at_def Option.bind_eq_Some_conv) blast
qed

lemma removeMatching_entry:
  "entry_at (removeMatching th key st ty) (ty', s) =
     (if ty' = ty \<and> (\<exists>b. dict_get st ty = Some b \<and> s \<in> set (getFilteredKeys th b key)) then None else entry_at st (ty', s))"
  by (cases "dict_get st ty") (auto simp: removeMatching_def entry_at_put_or_drop bucket_del_all_get entry_at_def)

lemma getFilteredKeys_iff:
  "bucket_ok th b \<Longrightarrow> s \<in> set (getFilteredKeys th b key) \<longleftrightarrow> (\<exists>k i. dict_get b s = Some (k, i) \<and> predicateForKey th key k)"
  by (force simp: getFilteredKeys_def bucket_entry_iff [symmetric])

lemma removeMatching_all:
  assumes "storage_inv th st" "distinct tys"
  shows "entry_at (foldl (removeMatching th key) st tys) (ty, s) =
    (case entry_at st (ty, s) of
       Some (k, i) \<Rightarrow> if ty \<in> set tys \<and> predicateForKey th key k then None else Some (k, i) | None \<Rightarrow> None)"
  using assms
proof (induction tys arbitrary: st)
  case Nil
  then show ?case by (simp split: option.split)
next
  case (Cons ty' tys)
  have step: "entry_at (removeMatching th key st ty') (ty, s) =
    (case entry_at st (ty, s) of
       Some (k, i) \<Rightarrow> if ty = ty' \<and> predicateForKey th key k then None else Some (k, i) | None \<Rightarrow> None)"
  proof (cases "dict_get st ty")
    case None
    then show ?thesis unfolding removeMatching_entry by (simp add: entry_at_def)
  next
    case (Some b)
    note b = getFilteredKeys_iff [OF storage_invD [OF Cons.prems(1) Some], of s key]
    show ?thesis unfolding removeMatching_entry
      using Some b by (cases "dict_get b s"; cases "ty = ty'") (auto simp: entry_at_def)
  qed
  have "entry_at (foldl (removeMatching th key) (removeMatching th key st ty') tys) (ty, s) =
    (case entry_at (removeMatching th key st ty') (ty, s) of
       Some (k, i) \<Rightarrow> if ty \<in> set tys \<and> predicateForKey th key k then None else Some (k, i) | None \<Rightarrow> None)"
    by (rule Cons.IH) (use Cons.prems in \<open>auto intro: removeMatching_inv\<close>)
  then show ?case using Cons.prems(2) by (auto simp: step split: option.splits)
qed

lemma removeStored_untyped:
  assumes "getItemTypeFromCacheKey key = None" "storage_inv th st"
  shows "entry_at (removeStoredItemForKey th key st) (ty, s) =
    (case entry_at st (ty, s) of
       Some (k, i) \<Rightarrow> if predicateForKey th key k then None else Some (k, i) | None \<Rightarrow> None)"
proof -
  have "distinct (dict_keys st)" using assms(2) by (simp add: storage_inv_def)
  moreover have "ty \<in> set (dict_keys st)" if "entry_at st (ty, s) \<noteq> None"
    using that unfolding set_dict_keys by (auto simp: entry_at_def Option.bind_eq_Some_conv)
  ultimately show ?thesis using removeMatching_all [OF assms(2), of "dict_keys st" key ty s] assms(1)
    by (cases "entry_at st (ty, s)") (auto simp: removeStoredItemForKey_def)
qed

subsection \<open>Writing and reading the JSON form\<close>

text \<open>
  An entry reads back when its item can be parsed from its JSON in its bucket and the parsed item
  generates a key with the slot of the stored one.
\<close>

definition reads_back :: "(string \<Rightarrow> string) \<Rightarrow> (string \<Rightarrow> bool) \<Rightarrow> string \<Rightarrow> slot \<times> storage_key \<times> storage_item \<Rightarrow> bool" where
  "reads_back th ok ty e =
     (case getItemWithType ok (item_jsonDictionary (snd (snd e))) ty of
        None \<Rightarrow> False
      | Some i \<Rightarrow> key_stable th (item_generateCacheKey i) \<and> slot_of th (item_generateCacheKey i) = fst e)"

definition bucket_readable :: "(string \<Rightarrow> string) \<Rightarrow> (string \<Rightarrow> bool) \<Rightarrow> string \<Rightarrow> bucket \<Rightarrow> bool" where
  "bucket_readable th ok ty b \<longleftrightarrow>
     list_all (reads_back th ok ty) b \<and> distinct (map (\<lambda>(s, k, i). getItemKey th k) b)"

definition storage_readable :: "(string \<Rightarrow> string) \<Rightarrow> (string \<Rightarrow> bool) \<Rightarrow> storage \<Rightarrow> bool" where
  "storage_readable th ok st \<longleftrightarrow> list_all (\<lambda>(ty, b). bucket_readable th ok ty b) st"

definition reread :: "(string \<Rightarrow> bool) \<Rightarrow> string \<Rightarrow> storage_item \<Rightarrow> storage_item option" where
  "reread ok ty i = getItemWithType ok (item_jsonDictionary i) ty"

lemma bucket_json_map:
  assumes "distinct (map (\<lambda>(s, k, i). getItemKey th k) b)"
  shows "bucket_json th b = map (\<lambda>(s, k, i). (getItemKey th k, NSDict (item_jsonDictionary i))) b"
proof -
  have put: "k \<notin> set (dict_keys d) \<Longrightarrow> dict_put k v d = d @ [(k, v)]" for k and v :: nsobj and d
    by (induction d) auto
  have "foldl (\<lambda>d (s, k, i). dict_put (getItemKey th k) (NSDict (item_jsonDictionary i)) d) d b =
      d @ map (\<lambda>(s, k, i). (getItemKey th k, NSDict (item_jsonDictionary i))) b"
    if "distinct (dict_keys d @ map (\<lambda>(s, k, i). getItemKey th k) b)" for d
    using that
  proof (induction b arbitrary: d)
    case (Cons e b)
    obtain s k i where e: "e = (s, k, i)" by (cases e)
    have "dict_put (getItemKey th k) (NSDict (item_jsonDictionary i)) d = d @ [(getItemKey th k, NSDict (item_jsonDictionary i))]"
      by (rule put) (use Cons.prems in \<open>auto simp: e\<close>)
    then show ?case
      using Cons.IH [of "d @ [(getItemKey th k, NSDict (item_jsonDictionary i))]"] Cons.prems by (simp add: e)
  qed simp
  from this [of "[]"] assms show ?thesis by (simp add: bucket_json_def)
qed

lemma readItem_ok: "bucket_ok th b \<Longrightarrow> bucket_ok th (readItem th ok ty b e)"
  by (simp add: readItem_def bucket_set_ok split: option.split)

lemma readItems_ok: "bucket_ok th b \<Longrightarrow> bucket_ok th (foldl (readItem th ok ty) b es)"
  by (induction es arbitrary: b) (auto intro: readItem_ok)

lemma initStorageWithJSON_inv: "storage_inv th (initStorageWithJSON th ok json)"
proof -
  have "storage_inv th st \<Longrightarrow> storage_inv th (foldl (readBucket th ok) st json)" for st
  proof (induction json arbitrary: st)
    case (Cons e json)
    have "storage_inv th (readBucket th ok st e)"
      using Cons.prems by (auto simp: readBucket_def intro!: storage_inv_put readItems_ok split: option.split)
    then show ?case using Cons.IH by simp
  qed simp
  then show ?thesis by (simp add: initStorageWithJSON_def initStorage_def)
qed

lemma readItems_item:
  assumes "list_all (reads_back th ok ty) b" "distinct (dict_keys b)"
  shows "item_in (foldl (readItem th ok ty) b0 (map (\<lambda>(s, k, i). (getItemKey th k, NSDict (item_jsonDictionary i))) b)) =
    item_in b0 ++ (\<lambda>s. Option.bind (item_in b s) (reread ok ty))"
  using assms
proof (induction b arbitrary: b0)
  case (Cons e b)
  obtain s k i where e: "e = (s, k, i)" by (cases e)
  obtain i' where i': "getItemWithType ok (item_jsonDictionary i) ty = Some i'" "key_stable th (item_generateCacheKey i')"
    "slot_of th (item_generateCacheKey i') = s"
    using Cons.prems(1) by (auto simp: reads_back_def e split: option.splits)
  have "item_in (readItem th ok ty b0 (getItemKey th k, NSDict (item_jsonDictionary i))) = (item_in b0)(s \<mapsto> i')"
    by (simp add: readItem_def i' item_in_set)
  moreover have "item_in b s = None" using Cons.prems(2) by (simp add: e item_in_def map_of_eq_None_iff)
  moreover have "item_in (e # b) = (item_in b)(s \<mapsto> i)" by (simp add: e item_in_def fun_eq_iff)
  moreover have "reread ok ty i = Some i'" by (simp add: reread_def i')
  ultimately show ?case using Cons.IH Cons.prems
    by (simp add: e) (auto simp: map_add_def fun_eq_iff split: option.splits)
qed simp

lemma storage_json_item:
  assumes "storage_inv th st" "storage_readable th ok st"
  shows "item_at (initStorageWithJSON th ok (storage_jsonDictionary th st)) (ty, s) = Option.bind (item_at st (ty, s)) (reread ok ty)"
proof -
  have "item_at (foldl (readBucket th ok) st0 (storage_jsonDictionary th st)) (ty, s) =
      (if dict_get st ty = None then item_at st0 (ty, s) else Option.bind (item_at st (ty, s)) (reread ok ty))" for st0
    using storage_inv_entries [OF assms(1)] assms(2)
  proof (induction st arbitrary: st0)
    case (Cons e st)
    obtain t b where e: "e = (t, b)" by (cases e)
    have b: "bucket_readable th ok t b" "bucket_ok th b"
      using Cons.prems by (auto simp: e storage_readable_def)
    have rd: "readBucket th ok st0 (t, NSDict (bucket_json th b)) = dict_put t (foldl (readItem th ok t) [] (bucket_json th b)) st0"
      by (simp add: readBucket_def)
    have it: "item_in (foldl (readItem th ok t) [] (bucket_json th b)) = (\<lambda>s. Option.bind (item_in b s) (reread ok t))"
      using b readItems_item [of th ok t b "[]"] by (simp add: bucket_readable_def bucket_json_map bucket_ok_entries)
    have "dict_get st t = None" using Cons.prems by (simp add: e map_of_eq_None_iff)
    moreover have "storage_readable th ok st" using Cons.prems by (simp add: storage_readable_def e)
    ultimately show ?case
      using Cons.IH [of "readBucket th ok st0 (t, NSDict (bucket_json th b))"] Cons.prems
      by (cases "dict_get st ty"; cases "ty = t") (simp_all add: storage_jsonDictionary_def e rd it item_at_in)
  qed (simp add: storage_jsonDictionary_def)
  from this [of "[]"] show ?thesis
    by (auto simp: initStorageWithJSON_def initStorage_def item_at_in)
qed

lemma key_stable_appKey: "msidIsStringNilOrBlank (ckAppKey k) \<Longrightarrow> key_stable th (CredentialKey k)"
proof -
  assume blank: "msidIsStringNilOrBlank (ckAppKey k)"
  have "key_clientId (credentialKey_copy k) = key_clientId k"
    by (cases "ckFamilyId k") (simp_all add: credentialKey_copy_def key_clientId_def)
  moreover have "msidIsStringNilOrBlank None" by (simp add: msidIsStringNilOrBlank_def)
  ultimately show ?thesis using blank
    by (simp add: key_stable_def slot_of_def credential_cache_key_def credentialKey_account_def credentialKey_service_def
        serviceWithType_def) (simp add: credentialKey_copy_def Let_def)
qed

section \<open>Properties\<close>

text \<open>
  C33: the blob is a map from the pairs of an item kind and a slot (account and service) to items.
  A store under a key of a kind it keeps writes exactly that entry, an exact removal clears exactly
  it, and an exact lookup reads it, so that a lookup after a store answers the stored item and a
  lookup elsewhere is unaffected. A key of a kind without a bucket is not stored at all.
\<close>

theorem storage_refines_map:
  assumes "storage_inv th st" "key_stable th k" "key_exact th k'" "key_addr th k' = Some a'"
  shows "storage_inv th (storeItem th x k st) \<and> storage_inv th (removeStoredItemForKey th k st) \<and>
    (case key_addr th k of
       None \<Rightarrow> storeItem th x k st = st
     | Some a \<Rightarrow>
         item_at (storeItem th x k st) = (item_at st)(a \<mapsto> x) \<and>
         item_at (removeStoredItemForKey th k st) = (item_at st)(a := None) \<and>
         storedItemsForKey th k' (storeItem th x k st) = (if a' = a then [x] else storedItemsForKey th k' st) \<and>
         storedItemsForKey th k' (removeStoredItemForKey th k st) = (if a' = a then [] else storedItemsForKey th k' st))"
  using assms blob.put_inv [of th st k x] blob.del_inv [of th st k] blob.put_view [of th st k _ x] blob.del_view [of th st k]
    blob.put_dropped [of th k x st] blob.find_put [of th st k k' _ a' x] blob.find_del [of th st k' k _ a']
  by (cases "key_addr th k") simp_all

definition sample_storage :: storage where
  "sample_storage = storeItem (take 7) (CredentialItem sample_credential) (item_generateCacheKey (CredentialItem sample_credential))
     (storeItem (take 7) (AccountItem sample_account) (item_generateCacheKey (AccountItem sample_account)) initStorage)"

lemma sample_storage_inv: "storage_inv (take 7) sample_storage"
  by (simp add: sample_storage_def initStorage_def storeItem_inv)

theorem storage_refines_map_witness:
  "storedItemsForKey (take 7) (CredentialKey (credential_generateCacheKey sample_credential))
     (storeItem (take 7) (CredentialItem sample_credential) (CredentialKey (credential_generateCacheKey sample_credential)) initStorage) =
   [CredentialItem sample_credential]"
proof -
  let ?k = "CredentialKey (credential_generateCacheKey sample_credential)"
  have "key_stable (take 7) ?k" "key_exact (take 7) ?k" "getItemTypeFromCacheKey ?k = Some ''AccessToken''" by code_simp+
  moreover from this have a: "key_addr (take 7) ?k = Some (''AccessToken'', slot_of (take 7) ?k)" by (simp add: key_addr_def)
  moreover have "storage_inv (take 7) initStorage" by (simp add: initStorage_def)
  ultimately show ?thesis
    using storage_refines_map [of "take 7" initStorage ?k ?k "(''AccessToken'', slot_of (take 7) ?k)" "CredentialItem sample_credential"]
    unfolding a by simp
qed

text \<open>
  A query that is not exact answers exactly the stored entries whose keys agree with it on every
  attribute it sets: the entries of its bucket, or of every bucket when its kind has none. Removal
  with a query of no kind removes exactly the entries that the query would answer.
\<close>

theorem storage_query_is_complete:
  assumes "storage_inv th st" "\<not> key_exact th key"
  shows "(i \<in> set (storedItemsForKey th key st) \<longleftrightarrow>
      (\<exists>ty s k. entry_at st (ty, s) = Some (k, i) \<and> predicateForKey th key k \<and>
         (case getItemTypeFromCacheKey key of None \<Rightarrow> True | Some t \<Rightarrow> ty = t))) \<and>
    (getItemTypeFromCacheKey key = None \<longrightarrow> entry_at (removeStoredItemForKey th key st) (ty, s) =
      (case entry_at st (ty, s) of Some (k, i) \<Rightarrow> if predicateForKey th key k then None else Some (k, i) | None \<Rightarrow> None))"
proof (cases "getItemTypeFromCacheKey key")
  case None
  show ?thesis by (simp add: None storedItems_untyped [OF None assms(1)] removeStored_untyped [OF None assms(1)])
next
  case (Some t)
  show ?thesis by (simp add: Some storedItems_partial [OF assms(2) Some assms(1)])
qed

theorem storage_query_is_complete_witness:
  "\<exists>ty s k. entry_at sample_storage (ty, s) = Some (k, CredentialItem sample_credential) \<and>
     predicateForKey (take 7) (CredentialQuery (initCredentialQuery\<lparr>ckCredentialType := MSIDAccessTokenType\<rparr>)) k"
proof -
  let ?q = "CredentialQuery (initCredentialQuery\<lparr>ckCredentialType := MSIDAccessTokenType\<rparr>)"
  have "\<not> key_exact (take 7) ?q" by code_simp
  note q = storage_query_is_complete [OF sample_storage_inv this, of "CredentialItem sample_credential", THEN conjunct1]
  have "storedItemsForKey (take 7) ?q sample_storage = [CredentialItem sample_credential]" by code_simp
  with q show ?thesis by auto
qed

text \<open>
  The blob survives its JSON form. When every entry can be parsed back under its own key and the
  item keys of a bucket are distinct, the blob read from the JSON of a blob holds, at every address,
  the re-parsed item, and nothing else.
\<close>

theorem storage_json_roundtrip:
  assumes "storage_inv th st" "storage_readable th ok st"
  shows "storage_inv th (initStorageWithJSON th ok (storage_jsonDictionary th st)) \<and>
    item_at (initStorageWithJSON th ok (storage_jsonDictionary th st)) (ty, s) =
      Option.bind (item_at st (ty, s)) (\<lambda>i. getItemWithType ok (item_jsonDictionary i) ty)"
  using storage_json_item [OF assms, of ty s] initStorageWithJSON_inv by (simp add: reread_def [abs_def])

definition sample_metadata_storage :: storage where
  "sample_metadata_storage =
     (let i = \<lparr>miClientId = Some ''c'', miEnvironment = Some ''login.microsoftonline.com'', miFamilyId = Some ''1'', miJson = None\<rparr>
      in storeItem (take 7) (AppMetadataItem i) (AppMetadataKey (appmetadata_generateCacheKey i)) initStorage)"

theorem storage_json_roundtrip_witness:
  "map_option item_jsonDictionary
     (item_at (initStorageWithJSON (take 7) (\<lambda>_. True) (storage_jsonDictionary (take 7) sample_metadata_storage))
       (''AppMetadata'', Some ''login.microsoftonline.com'', Some ''appmetadata-c'')) =
   Some [(''client_id'', NSStr ''c''), (''environment'', NSStr ''login.microsoftonline.com''), (''family_id'', NSStr ''1'')]"
proof -
  have "storage_inv (take 7) sample_metadata_storage"
    by (simp add: sample_metadata_storage_def initStorage_def storeItem_inv Let_def)
  moreover have "storage_readable (take 7) (\<lambda>_. True) sample_metadata_storage" by code_simp
  ultimately have "item_at (initStorageWithJSON (take 7) (\<lambda>_. True) (storage_jsonDictionary (take 7) sample_metadata_storage))
       (''AppMetadata'', Some ''login.microsoftonline.com'', Some ''appmetadata-c'') =
     Option.bind (item_at sample_metadata_storage (''AppMetadata'', Some ''login.microsoftonline.com'', Some ''appmetadata-c''))
       (\<lambda>i. getItemWithType (\<lambda>_. True) (item_jsonDictionary i) ''AppMetadata'')"
    using storage_json_roundtrip by blast
  moreover have "map_option item_jsonDictionary
    (Option.bind (item_at sample_metadata_storage (''AppMetadata'', Some ''login.microsoftonline.com'', Some ''appmetadata-c''))
       (\<lambda>i. getItemWithType (\<lambda>_. True) (item_jsonDictionary i) ''AppMetadata'')) =
    Some [(''client_id'', NSStr ''c''), (''environment'', NSStr ''login.microsoftonline.com''), (''family_id'', NSStr ''1'')]"
    by code_simp
  ultimately show ?thesis by simp
qed

end
