(* ===== verification/KeychainCache.thy ===== *)
theory KeychainCache
  imports CredentialStorage
begin

text \<open>
  \<open>cache/mac/MSIDMacKeychainTokenCache.m\<close>: the macOS data source. It keeps two blobs in memory,
  one for the application and one shared by the applications of a vendor, and one keychain item for
  each. A keychain item is the JSON dictionary it was written from; \<open>unreadable\<close> and
  \<open>unwritable\<close> say for which of the two (True is the shared one) the keychain fails. The keychain
  itself (\<open>SecItem...\<close>, access control lists, the team id) is otherwise left out.
\<close>

section \<open>State\<close>

datatype mac_error =
    MacKeychainError
  | MacCacheMultipleUsers
  | MacInvalidDeveloperParameter
  | MacUnsupportedFunctionality

record mac_cache =
  mkApp :: storage
  mkShared :: storage
  mkDiskApp :: "(string, nsobj) dict option"
  mkDiskShared :: "(string, nsobj) dict option"
  mkLoginKeychainEmpty :: bool

text \<open>
  What stays fixed during a run: \<open>msidTokenHash\<close>, the client infos that can be parsed, the
  keychain failures, the application identifier and the clock.
\<close>

record mac_env =
  meHash :: "string \<Rightarrow> string"
  meClientInfoOk :: "string \<Rightarrow> bool"
  meUnreadable :: "bool \<Rightarrow> bool"
  meUnwritable :: "bool \<Rightarrow> bool"
  meAppIdentifier :: "string option"
  meNow :: nsdate

definition shouldUseLoginKeychain :: "mac_cache \<Rightarrow> bool" where
  "shouldUseLoginKeychain c \<longleftrightarrow> \<not> mkLoginKeychainEmpty c"

fun key_isShared :: "storage_key \<Rightarrow> bool" where
  "key_isShared (CredentialKey k) = credentialKey_isShared k"
| "key_isShared (CredentialQuery q) = credentialKey_isShared q"
| "key_isShared (AccountKey k) = True"
| "key_isShared (AccountQuery q) = True"
| "key_isShared _ = False"

definition blob_of :: "bool \<Rightarrow> mac_cache \<Rightarrow> storage" where
  "blob_of isShared c = (if isShared then mkShared c else mkApp c)"

definition set_blob :: "bool \<Rightarrow> storage \<Rightarrow> mac_cache \<Rightarrow> mac_cache" where
  "set_blob isShared st c = (if isShared then c\<lparr>mkShared := st\<rparr> else c\<lparr>mkApp := st\<rparr>)"

definition disk_of :: "bool \<Rightarrow> mac_cache \<Rightarrow> (string, nsobj) dict option" where
  "disk_of isShared c = (if isShared then mkDiskShared c else mkDiskApp c)"

definition set_disk :: "bool \<Rightarrow> (string, nsobj) dict option \<Rightarrow> mac_cache \<Rightarrow> mac_cache" where
  "set_disk isShared d c = (if isShared then c\<lparr>mkDiskShared := d\<rparr> else c\<lparr>mkDiskApp := d\<rparr>)"

section \<open>The keychain items\<close>

definition queryStorageItem :: "mac_env \<Rightarrow> mac_cache \<Rightarrow> bool \<Rightarrow> mac_cache \<times> storage option \<times> mac_error option" where
  "queryStorageItem E c isShared =
     (if \<not> shouldUseLoginKeychain c then (c, None, None)
      else if meUnreadable E isShared then (c, None, Some MacKeychainError)
      else (let storageItem = map_option (initStorageWithJSON (meHash E) (meClientInfoOk E)) (disk_of isShared c);
                storageItemIsEmpty = (case storageItem of None \<Rightarrow> True | Some st \<Rightarrow> storage_count st = 0)
            in (if isShared \<and> storageItemIsEmpty then c\<lparr>mkLoginKeychainEmpty := True\<rparr> else c, storageItem, None)))"

text \<open>Brings the blob in memory up to date with the keychain; a failed read leaves it as it is.\<close>

definition syncStorageItem :: "mac_env \<Rightarrow> mac_cache \<Rightarrow> bool \<Rightarrow> mac_cache \<times> mac_error option" where
  "syncStorageItem E c isShared =
     (case queryStorageItem E c isShared of
        (c1, savedStorageItem, err) \<Rightarrow>
          (case savedStorageItem of
             None \<Rightarrow> (c1, err)
           | Some saved \<Rightarrow> (set_blob isShared (mergeStorageItem (blob_of isShared c1) saved) c1, err)))"

text \<open>The second component is the result, the third the error if one was set.\<close>

definition saveStorageItem :: "mac_env \<Rightarrow> mac_cache \<Rightarrow> bool \<Rightarrow> mac_cache \<times> bool \<times> mac_error option" where
  "saveStorageItem E c isShared =
     (if meUnwritable E isShared then (c, False, Some MacKeychainError)
      else (set_disk isShared (Some (storage_jsonDictionary (meHash E) (blob_of isShared c))) c, True, None))"

definition removeStorageItem :: "mac_env \<Rightarrow> mac_cache \<Rightarrow> bool \<Rightarrow> mac_cache \<times> bool \<times> mac_error option" where
  "removeStorageItem E c isShared =
     (if meUnwritable E isShared then (c, False, Some MacKeychainError)
      else (set_disk isShared None c, True, None))"

text \<open>An error that is already set stays unless it is overwritten.\<close>

definition with_error :: "mac_error option \<Rightarrow> mac_cache \<times> 'r \<times> mac_error option \<Rightarrow> mac_cache \<times> 'r \<times> mac_error option" where
  "with_error err r = (case r of (c, b, e) \<Rightarrow> (c, b, if e = None then err else e))"

section \<open>Writing\<close>

definition store_and_save :: "mac_env \<Rightarrow> mac_cache \<Rightarrow> storage_item \<Rightarrow> storage_key \<Rightarrow> mac_cache \<times> bool \<times> mac_error option" where
  "store_and_save E c item key =
     (let isShared = key_isShared key
      in case syncStorageItem E c isShared of
           (c1, err) \<Rightarrow>
             with_error err (saveStorageItem E
               (set_blob isShared (storeItem (meHash E) item key (blob_of isShared c1)) c1) isShared))"

definition mac_saveAccount :: "mac_env \<Rightarrow> mac_cache \<Rightarrow> account_item \<Rightarrow> storage_key \<Rightarrow> mac_cache \<times> bool \<times> mac_error option" where
  "mac_saveAccount E c account key =
     store_and_save E c (AccountItem (account\<lparr>aiLastModificationApp := meAppIdentifier E, aiLastModificationTime := Some (meNow E)\<rparr>)) key"

definition mac_saveToken :: "mac_env \<Rightarrow> mac_cache \<Rightarrow> credential_item \<Rightarrow> storage_key \<Rightarrow> mac_cache \<times> bool \<times> mac_error option" where
  "mac_saveToken E c credential key =
     store_and_save E c (CredentialItem (credential\<lparr>ciLastModificationApp := meAppIdentifier E, ciLastModificationTime := Some (meNow E)\<rparr>)) key"

definition mac_saveAppMetadata :: "mac_env \<Rightarrow> mac_cache \<Rightarrow> appmetadata_item \<Rightarrow> storage_key \<Rightarrow> mac_cache \<times> bool \<times> mac_error option" where
  "mac_saveAppMetadata E c metadata key = store_and_save E c (AppMetadataItem metadata) key"

definition mac_saveAccountMetadata :: "mac_env \<Rightarrow> mac_cache \<Rightarrow> metadata_item \<Rightarrow> storage_key \<Rightarrow> mac_cache \<times> bool \<times> mac_error option" where
  "mac_saveAccountMetadata E c item key = store_and_save E c (AccountMetadataItem item) key"

section \<open>Reading\<close>

fun as_credential :: "storage_item \<Rightarrow> credential_item option" where
  "as_credential (CredentialItem i) = Some i"
| "as_credential _ = None"

fun as_account :: "storage_item \<Rightarrow> account_item option" where
  "as_account (AccountItem i) = Some i"
| "as_account _ = None"

fun as_appmetadata :: "storage_item \<Rightarrow> appmetadata_item option" where
  "as_appmetadata (AppMetadataItem i) = Some i"
| "as_appmetadata _ = None"

fun as_accountmetadata :: "storage_item \<Rightarrow> metadata_item option" where
  "as_accountmetadata (AccountMetadataItem i) = Some i"
| "as_accountmetadata _ = None"

definition filterTokenItemsFromKeychainItems :: "storage_item list \<Rightarrow> credential_item list" where
  "filterTokenItemsFromKeychainItems items = List.map_filter as_credential items"

definition key_matchesAny :: "storage_key \<Rightarrow> bool" where
  "key_matchesAny key = (case key of CredentialQuery q \<Rightarrow> qMatchAnyCredentialType q | _ \<Rightarrow> False)"

definition getAllItemsWithKey :: "mac_env \<Rightarrow> mac_cache \<Rightarrow> storage_key \<Rightarrow> mac_cache \<times> storage_item list \<times> mac_error option" where
  "getAllItemsWithKey E c key =
     (case syncStorageItem E c False of
        (c1, err1) \<Rightarrow>
          (case syncStorageItem E c1 True of
             (c2, err2) \<Rightarrow>
               (c2, storedItemsForKey (meHash E) key (mkApp c2) @ storedItemsForKey (meHash E) key (mkShared c2),
                if err2 = None then err1 else err2)))"

text \<open>
  The class filter is applied to the answer from memory as well, which the code returns unfiltered:
  the buckets a credential key names hold credentials only.
\<close>

definition mac_tokensWithKey :: "mac_env \<Rightarrow> mac_cache \<Rightarrow> storage_key \<Rightarrow> mac_cache \<times> credential_item list \<times> mac_error option" where
  "mac_tokensWithKey E c key =
     (if key_matchesAny key then
        (case getAllItemsWithKey E c key of (c1, items, err) \<Rightarrow> (c1, filterTokenItemsFromKeychainItems items, err))
      else
        (let isShared = key_isShared key;
             itemList = storedItemsForKey (meHash E) key (blob_of isShared c)
         in if \<not> isShared \<and> itemList \<noteq> [] then (c, filterTokenItemsFromKeychainItems itemList, None)
            else (case syncStorageItem E c isShared of
                    (c1, err) \<Rightarrow>
                      (c1, filterTokenItemsFromKeychainItems (storedItemsForKey (meHash E) key (blob_of isShared c1)), err))))"

definition only_one :: "mac_cache \<times> 'i list \<times> mac_error option \<Rightarrow> mac_cache \<times> 'i option \<times> mac_error option" where
  "only_one r =
     (case r of (c, items, err) \<Rightarrow>
        (if length items > 1 then (c, None, Some MacCacheMultipleUsers)
         else (c, (case items of [] \<Rightarrow> None | i # _ \<Rightarrow> Some i), err)))"

definition mac_tokenWithKey :: "mac_env \<Rightarrow> mac_cache \<Rightarrow> storage_key \<Rightarrow> mac_cache \<times> credential_item option \<times> mac_error option" where
  "mac_tokenWithKey E c key = only_one (mac_tokensWithKey E c key)"

definition mac_accountsWithKey :: "mac_env \<Rightarrow> mac_cache \<Rightarrow> storage_key \<Rightarrow> mac_cache \<times> account_item list \<times> mac_error option" where
  "mac_accountsWithKey E c key =
     (case syncStorageItem E c (key_isShared key) of
        (c1, err) \<Rightarrow> (c1, List.map_filter as_account (storedItemsForKey (meHash E) key (blob_of (key_isShared key) c1)), err))"

definition mac_accountWithKey :: "mac_env \<Rightarrow> mac_cache \<Rightarrow> storage_key \<Rightarrow> mac_cache \<times> account_item option \<times> mac_error option" where
  "mac_accountWithKey E c key = only_one (mac_accountsWithKey E c key)"

definition memory_then_sync :: "mac_env \<Rightarrow> mac_cache \<Rightarrow> storage_key \<Rightarrow> mac_cache \<times> storage_item list \<times> mac_error option" where
  "memory_then_sync E c key =
     (let isShared = key_isShared key;
          itemList = storedItemsForKey (meHash E) key (blob_of isShared c)
      in if itemList \<noteq> [] then (c, itemList, None)
         else (case syncStorageItem E c isShared of
                 (c1, err) \<Rightarrow> (c1, storedItemsForKey (meHash E) key (blob_of isShared c1), err)))"

definition mac_appMetadataEntriesWithKey ::
    "mac_env \<Rightarrow> mac_cache \<Rightarrow> storage_key \<Rightarrow> mac_cache \<times> appmetadata_item list \<times> mac_error option" where
  "mac_appMetadataEntriesWithKey E c key =
     (case memory_then_sync E c key of (c1, items, err) \<Rightarrow> (c1, List.map_filter as_appmetadata items, err))"

definition mac_accountsMetadataWithKey ::
    "mac_env \<Rightarrow> mac_cache \<Rightarrow> storage_key \<Rightarrow> mac_cache \<times> metadata_item list \<times> mac_error option" where
  "mac_accountsMetadataWithKey E c key =
     (case memory_then_sync E c key of (c1, items, err) \<Rightarrow> (c1, List.map_filter as_accountmetadata items, err))"

definition mac_accountMetadataWithKey ::
    "mac_env \<Rightarrow> mac_cache \<Rightarrow> storage_key \<Rightarrow> mac_cache \<times> metadata_item option \<times> mac_error option" where
  "mac_accountMetadataWithKey E c key =
     (case mac_accountsMetadataWithKey E c key of
        (c1, _, Some e) \<Rightarrow> (c1, None, Some e)
      | (c1, items, None) \<Rightarrow> only_one (c1, items, None))"

section \<open>Removing\<close>

definition key_incomplete :: "mac_env \<Rightarrow> storage_key \<Rightarrow> bool" where
  "key_incomplete E key \<longleftrightarrow> keyAccount (key_view (meHash E) key) = None \<and> keyService (key_view (meHash E) key) = None"

definition removeAllMatchingTokens :: "mac_env \<Rightarrow> mac_cache \<Rightarrow> storage_key \<Rightarrow> bool \<Rightarrow> mac_cache \<times> bool \<times> mac_error option" where
  "removeAllMatchingTokens E c key isShared =
     (case syncStorageItem E c isShared of
        (c1, err) \<Rightarrow>
          (let st = removeStoredItemForKey (meHash E) key (blob_of isShared c1);
               c2 = set_blob isShared st c1
           in with_error err
                (if storage_count st \<noteq> 0 then saveStorageItem E c2 isShared else removeStorageItem E c2 isShared)))"

definition mac_removeTokensWithKey :: "mac_env \<Rightarrow> mac_cache \<Rightarrow> storage_key \<Rightarrow> mac_cache \<times> bool \<times> mac_error option" where
  "mac_removeTokensWithKey E c key =
     (if key_incomplete E key then (c, False, Some MacInvalidDeveloperParameter)
      else if key_matchesAny key then
        (case removeAllMatchingTokens E c key True of
           (c1, r1, err1) \<Rightarrow>
             (case removeAllMatchingTokens E c1 key False of
                (c2, r2, err2) \<Rightarrow> with_error err1 (c2, r1 \<and> r2, err2)))
      else removeAllMatchingTokens E c key (key_isShared key))"

definition removeItemsWithKey :: "mac_env \<Rightarrow> mac_cache \<Rightarrow> storage_key \<Rightarrow> mac_cache \<times> bool \<times> mac_error option" where
  "removeItemsWithKey E c key =
     (if key_incomplete E key then (c, False, Some MacInvalidDeveloperParameter)
      else removeAllMatchingTokens E c key (key_isShared key))"

definition mac_saveWipeInfo :: "mac_cache \<Rightarrow> mac_cache \<times> bool \<times> mac_error option" where
  "mac_saveWipeInfo c = (c, False, Some MacUnsupportedFunctionality)"

definition mac_clear :: "mac_env \<Rightarrow> mac_cache \<Rightarrow> mac_cache \<times> bool \<times> mac_error option" where
  "mac_clear E c =
     (let c1 = c\<lparr>mkApp := initStorage, mkShared := initStorage\<rparr>
      in if meUnwritable E False \<or> meUnwritable E True then (c1, False, Some MacKeychainError)
         else (c1\<lparr>mkDiskApp := None, mkDiskShared := None\<rparr>, True, None))"

end
