(* ===== verification/Constants.thy ===== *)
theory Constants
  imports Prelude
begin

text \<open>
  The constants that the headers declare, each with the value its implementation file gives it: the
  keys of requests, responses, cache entries, broker messages and telemetry, and the enumerations of
  \<open>MSIDConstants.h\<close>. A table lists the constants of one block of a header in its order. The values
  are those of a macOS build where they depend on the platform.
\<close>

section \<open>Request headers, authorities, flights\<close>

definition request_header_keys :: "(string \<times> string) list" where
  "request_header_keys = [
    (''MSID_PLATFORM_KEY'', ''x-client-SKU''),
    (''MSID_SOURCE_PLATFORM_KEY'', ''x-client-src-SKU''),
    (''MSID_PLATFORM_SEQUENCE_KEY'', ''x-client-xtra-sku''),
    (''MSID_VERSION_KEY'', ''x-client-Ver''),
    (''MSID_BROKER_VER_KEY'', ''x-client-brkrver''),
    (''MSID_CPU_KEY'', ''x-client-CPU''),
    (''MSID_OS_VER_KEY'', ''x-client-OS''),
    (''MSID_DEVICE_MODEL_KEY'', ''x-client-DM''),
    (''MSID_APP_NAME_KEY'', ''x-app-name''),
    (''MSID_APP_VER_KEY'', ''x-app-ver''),
    (''MSID_APP_CLIENT_ID_KEY'', ''x-ms-client-id''),
    (''MSID_CCS_HINT_KEY'', ''X-AnchorMailbox''),
    (''MSID_WEBAUTH_IGNORE_SSO_KEY'', ''x-ms-sso-Ignore-SSO''),
    (''MSID_WEBAUTH_REFRESH_TOKEN_KEY'', ''x-ms-sso-RefreshToken''),
    (''MSID_USER_FEDERATED_IDENTITY_CREDENTIAL_KEY'', ''x-ms-UserFederatedIdentityCredential'')]"

definition sdk_names :: "(string \<times> string) list" where
  "sdk_names = [
    (''MSID_DEFAULT_FAMILY_ID'', ''1''),
    (''MSID_ADAL_SDK_NAME'', ''adal-objc''),
    (''MSID_MSAL_SDK_NAME'', ''msal-objc''),
    (''MSID_SDK_NAME_KEY'', ''sdk_name'')]"

definition trusted_authorities :: "(string \<times> string) list" where
  "trusted_authorities = [
    (''MSIDTrustedAuthority'', ''login.windows.net''),
    (''MSIDTrustedAuthorityUS'', ''login.microsoftonline.us''),
    (''MSIDTrustedAuthorityChina'', ''login.chinacloudapi.cn''),
    (''MSIDTrustedAuthorityChina2'', ''login.partner.microsoftonline.cn''),
    (''MSIDTrustedAuthorityGermany'', ''login.microsoftonline.de''),
    (''MSIDTrustedAuthorityFrance'', ''login.sovcloud-identity.fr''),
    (''MSIDTrustedAuthorityDelos'', ''login.sovcloud-identity.de''),
    (''MSIDTrustedAuthorityGovSG'', ''login.sovcloud-identity.sg''),
    (''MSIDTrustedAuthorityWorldWide'', ''login.microsoftonline.com''),
    (''MSIDTrustedAuthorityUSGovernment'', ''login-us.microsoftonline.com''),
    (''MSIDTrustedAuthorityCloudGovApi'', ''login.usgovcloudapi.net'')]"

definition default_authority_values :: "(string \<times> string) list" where
  "default_authority_values = [
    (''MSID_DEFAULT_AAD_AUTHORITY'', ''https://login.microsoftonline.com/common''),
    (''MSID_DEFAULT_MSA_TENANTID'', ''9188040d-6c67-4c5b-b112-36a304b66dad''),
    (''MSID_CLIENT_SDK_TYPE_MSAL'', ''sdk_msal''),
    (''MSID_CLIENT_SDK_TYPE_ADAL'', ''sdk_adal'')]"

definition keychain_identifiers :: "(string \<times> string) list" where
  "keychain_identifiers = [
    (''MSID_POP_TOKEN_PRIVATE_KEY'', ''com.microsoft.token.private.key''),
    (''MSID_POP_TOKEN_KEY_LABEL'', ''com.microsoft.token.key''),
    (''MSID_THROTTLING_METADATA_KEYCHAIN'', ''com.microsoft.identity.throttling.metadata''),
    (''MSID_THROTTLING_METADATA_KEYCHAIN_VERSION'', ''Ver1''),
    (''MSID_INTUNE_DEVICE_ID_KEYCHAIN'', ''com.microsoft.identity.intune.deviceid''),
    (''MSID_INTUNE_DEVICE_ID_KEYCHAIN_VERSION'', ''Ver1''),
    (''MSID_USE_SINGLE_FRT_KEYCHAIN'', ''useSingleFRT''),
    (''MSID_USE_SINGLE_FRT_KEY'', ''use_single_frt'')]"

definition client_sku_values :: "(string \<times> string) list" where
  "client_sku_values = [
    (''MSID_SHARED_MODE_CURRENT_ACCOUNT_CHANGED_NOTIFICATION_KEY'', ''SHARED_MODE_CURRENT_ACCOUNT_CHANGED''),
    (''MSID_PREFERRED_AUTH_METHOD_KEY'', ''pc''),
    (''MSID_PREFERRED_AUTH_METHOD_QR_PIN'', ''18''),
    (''MSID_CLIENT_SKU_MSAL_IOS'', ''MSAL.iOS''),
    (''MSID_CLIENT_SKU_MSAL_OSX'', ''MSAL.OSX''),
    (''MSID_CLIENT_SKU_CPP_IOS'', ''MSAL.xplat.iOS''),
    (''MSID_CLIENT_SKU_CPP_OSX'', ''MSAL.xplat.macOS''),
    (''MSID_CLIENT_SKU_ADAL_IOS'', ''iOS''),
    (''MSID_BROWSER_NATIVE_MESSAGE_ACCOUNT_ID_KEY'', ''accountId'')]"

definition frt_status_strings :: "(string \<times> string) list" where
  "frt_status_strings = [
    (''MSID_FRT_STATUS_ENABLED'', ''on''),
    (''MSID_FRT_STATUS_DISABLED'', ''off''),
    (''MSID_BROWSER_RESPONSE_SWITCH_BROWSER'', ''switch_browser''),
    (''MSID_BROWSER_RESPONSE_SWITCH_BROWSER_RESUME'', ''switch_browser_resume''),
    (''MSID_BOUND_RT_REDEEM'', ''bound_rt_redeem'')]"

definition flight_keys :: "(string \<times> string) list" where
  "flight_keys = [
    (''MSID_FLIGHT_USE_V2_WEB_RESPONSE_FACTORY'', ''use_v2_web_response_factory''),
    (''MSID_FLIGHT_SUPPORT_DUNA_CBA'', ''support_duna_cba_v2''),
    (''MSID_FLIGHT_DISABLE_JIT_TROUBLESHOOTING_LEGACY_AUTH'', ''disable_jit_remediation_legacy_auth''),
    (''MSID_FLIGHT_CLIENT_SFRT_STATUS'', ''sfrt_v2''),
    (''MSID_FLIGHT_DISABLE_PREFERRED_IDENTITY_CBA'', ''dis_pre_iden_cba''),
    (''MSID_FLIGHT_SUPPORT_STATE_DUNA_CBA'', ''support_state_duna_cba''),
    (''MSID_FLIGHT_IGNORE_COOKIES_IN_DUNA_RESUME'', ''ignore_cookies_in_duna_resume''),
    (''MSID_FLIGHT_DISABLE_REMOVE_ACCOUNT_ARTIFACTS'', ''disable_rm_metadata''),
    (''MSID_FLIGHT_IS_BART_SUPPORTED'', ''is_bound_app_rt_supported''),
    (''MSID_FLIGHT_SPINNER_FIX'', ''enable_spinner_fix''),
    (''MSID_FLIGHT_ENABLE_QUERYING_STK'', ''enable_querying_stk''),
    (''MSID_FLIGHT_USE_AUTOLAYOUT_FOR_LOADING_INDICATOR'', ''use_autolayout_for_loading_indicator''),
    (''MSID_FLIGHT_BROWSER_CORE_DISABLE_POP'', ''browser_core_disable_pop''),
    (''MSID_FLIGHT_BROWSER_CORE_DISABLE_CLAIMS'', ''browser_core_disable_claims''),
    (''MSID_FLIGHT_BROWSER_CORE_DISABLE_REQ_CNF_VALIDATION'', ''browser_core_disable_reqcnf_validation''),
    (''MSID_DOMAIN_HINT_KEY'', ''domain_hint''),
    (''MSID_FLIGHT_ENABLE_THREAD_STARVATION'', ''ts_en''),
    (''MSID_FLIGHT_ENABLE_SKIP_BROKER_CACHE'', ''skip_brk_cache''),
    (''MSID_FLIGHT_BROKER_XPC_INSTANCE_CACHE_ENABLED'', ''broker_xpc_instance_cache_enabled''),
    (''MSID_FLIGHT_DISABLE_OPEN_NEW_WINDOW_IN_BROWSER'', ''disable_open_new_window_in_browser''),
    (''MSID_FLIGHT_DISABLE_MOBILE_ONBOARDING'', ''disable_mobile_onboarding''),
    (''MSID_FLIGHT_MDM_PROFILE_INSTALLED_NOTIFICATION_DELAY'', ''mdm_profile_installed_notification_delay'')]"

section \<open>OAuth 2.0 protocol and cache keys\<close>

definition oauth2_parameters :: "(string \<times> string) list" where
  "oauth2_parameters = [
    (''MSID_OAUTH2_ACCESS_TOKEN'', ''access_token''),
    (''MSID_OAUTH2_AUTHORIZATION'', ''authorization''),
    (''MSID_OAUTH2_AUTHORIZE_SUFFIX'', ''/oauth2/authorize''),
    (''MSID_OAUTH2_TOKEN_SUFFIX'', ''/oauth2/token''),
    (''MSID_OAUTH2_AUTHORIZATION_CODE'', ''authorization_code''),
    (''MSID_OAUTH2_AUTHORIZATION_URI'', ''authorization_uri''),
    (''MSID_OAUTH2_AUTHORITY'', ''authority''),
    (''MSID_OAUTH2_BEARER'', ''Bearer''),
    (''MSID_OAUTH2_POP'', ''Pop''),
    (''MSID_OAUTH2_SSH_CERT'', ''ssh-cert''),
    (''MSID_OAUTH2_CLIENT_ID'', ''client_id''),
    (''MSID_OAUTH2_CLAIMS'', ''claims''),
    (''MSID_OAUTH2_CODE'', ''code''),
    (''MSID_OAUTH2_ERROR'', ''error''),
    (''MSID_OAUTH2_ERROR_DESCRIPTION'', ''error_description''),
    (''MSID_OAUTH2_ERROR_SUBCODE'', ''error_subcode''),
    (''MSID_OAUTH2_ERROR_CODES'', ''error_codes''),
    (''MSID_OAUTH2_EXPIRES_IN'', ''expires_in''),
    (''MSID_OAUTH2_REFRESH_IN'', ''refresh_in''),
    (''MSID_OAUTH2_REFRESH_ON'', ''refresh_on''),
    (''MSID_OAUTH2_GRANT_TYPE'', ''grant_type''),
    (''MSID_OAUTH2_REDIRECT_URI'', ''redirect_uri''),
    (''MSID_OAUTH2_REFRESH_TOKEN'', ''refresh_token''),
    (''MSID_OAUTH2_DEVICE_TOKEN'', ''device_token''),
    (''MSID_OAUTH2_RESOURCE'', ''resource''),
    (''MSID_OAUTH2_RESPONSE_TYPE'', ''response_type''),
    (''MSID_OAUTH2_SCOPE'', ''scope''),
    (''MSID_OAUTH2_STATE'', ''state''),
    (''MSID_OAUTH2_SUB_ERROR'', ''suberror''),
    (''MSID_OAUTH2_TOKEN'', ''token''),
    (''MSID_OAUTH2_INSTANCE_DISCOVERY_SUFFIX'', ''common/discovery/instance''),
    (''MSID_OAUTH2_TOKEN_TYPE'', ''token_type''),
    (''MSID_OAUTH2_LOGIN_HINT'', ''login_hint''),
    (''MSID_OAUTH2_ID_TOKEN'', ''id_token''),
    (''MSID_OAUTH2_CORRELATION_ID_RESPONSE'', ''correlation_id''),
    (''MSID_OAUTH2_CORRELATION_ID_REQUEST'', ''return-client-request-id''),
    (''MSID_OAUTH2_CORRELATION_ID_REQUEST_VALUE'', ''client-request-id''),
    (''MSID_OAUTH2_SAML11_BEARER_VALUE'', ''urn:ietf:params:oauth:grant-type:saml1_1-bearer''),
    (''MSID_OAUTH2_SAML2_BEARER_VALUE'', ''urn:ietf:params:oauth:grant-type:saml2-bearer''),
    (''MSID_OAUTH2_JWT_BEARER_VALUE'', ''urn:ietf:params:oauth:grant-type:jwt-bearer''),
    (''MSID_OAUTH2_SCOPE_OPENID_VALUE'', ''openid''),
    (''MSID_OAUTH2_SCOPE_OFFLINE_ACCESS_VALUE'', ''offline_access''),
    (''MSID_OAUTH2_SCOPE_PROFILE_VALUE'', ''profile''),
    (''MSID_OAUTH2_SCOPE_EMAIL_VALUE'', ''email''),
    (''MSID_OAUTH2_ASSERTION'', ''assertion''),
    (''MSID_OAUTH2_CLIENT_TELEMETRY'', ''x-ms-clitelem''),
    (''MSID_OAUTH2_CLIENT_DATA_QUERY_PARAM'', ''clidata''),
    (''MSID_OAUTH2_PROMPT'', ''prompt''),
    (''MSID_OAUTH2_PROMPT_NONE'', ''none''),
    (''MSID_OAUTH2_SIGNOUT_REDIRECT_URI'', ''post_logout_redirect_uri''),
    (''MSID_OAUTH2_REQUEST_CONFIRMATION'', ''req_cnf''),
    (''MSID_OAUTH2_REQUEST_ENDPOINT'', ''endpointUrl''),
    (''MSID_OAUTH2_SSH_CERT_KEY_ID'', ''key_id''),
    (''MSID_OAUTH2_EXPIRES_ON'', ''expires_on''),
    (''MSID_OAUTH2_EXT_EXPIRES_IN'', ''ext_expires_in''),
    (''MSID_FAMILY_ID'', ''foci''),
    (''MSID_AUTH_CLOUD_INSTANCE_HOST_NAME'', ''cloud_instance_host_name''),
    (''MSID_ENROLLMENT_ID'', ''microsoft_enrollment_id''),
    (''MSID_OAUTH2_CODE_CHALLENGE'', ''code_challenge''),
    (''MSID_OAUTH2_CODE_CHALLENGE_METHOD'', ''code_challenge_method''),
    (''MSID_OAUTH2_CODE_VERIFIER'', ''code_verifier''),
    (''MSID_NESTED_AUTH_BROKER_CLIENT_ID'', ''brk_client_id''),
    (''MSID_NESTED_AUTH_BROKER_REDIRECT_URI'', ''brk_redirect_uri''),
    (''MSID_OAUTH2_CLIENT_INFO'', ''client_info''),
    (''MSID_OAUTH2_UNIQUE_IDENTIFIER'', ''uid''),
    (''MSID_OAUTH2_UNIQUE_TENANT_IDENTIFIER'', ''utid''),
    (''MSID_OAUTH2_TENANT_DATA_BOUNDARY_RESTRICTION'', ''xms_tdbr''),
    (''MSID_OAUTH2_DOMAIN_REQ'', ''domain_req''),
    (''MSID_OAUTH2_LOGIN_REQ'', ''login_req''),
    (''MSID_OAUTH2_ADDITIONAL_SERVER_INFO'', ''additional_server_info''),
    (''MSID_OAUTH2_ENVIRONMENT'', ''environment''),
    (''MSID_PROTECTION_POLICY_REQUIRED'', ''protection_policy_required''),
    (''MSID_USER_DISPLAYABLE_IDENTIFIER'', ''adi'')]"

definition cache_item_keys :: "(string \<times> string) list" where
  "cache_item_keys = [
    (''MSID_CREDENTIAL_TYPE_CACHE_KEY'', ''credential_type''),
    (''MSID_ENVIRONMENT_CACHE_KEY'', ''environment''),
    (''MSID_REALM_CACHE_KEY'', ''realm''),
    (''MSID_AUTHORITY_CACHE_KEY'', ''authority''),
    (''MSID_HOME_ACCOUNT_ID_CACHE_KEY'', ''home_account_id''),
    (''MSID_SIGN_IN_STATE_CACHE_KEY'', ''sign_in_state''),
    (''MSID_ENROLLMENT_ID_CACHE_KEY'', ''enrollment_id''),
    (''MSID_CLIENT_ID_CACHE_KEY'', ''client_id''),
    (''MSID_FAMILY_ID_CACHE_KEY'', ''family_id''),
    (''MSID_TOKEN_CACHE_KEY'', ''secret''),
    (''MSID_USERNAME_CACHE_KEY'', ''username''),
    (''MSID_TARGET_CACHE_KEY'', ''target''),
    (''MSID_CLIENT_INFO_CACHE_KEY'', ''client_info''),
    (''MSID_ID_TOKEN_CACHE_KEY'', ''id_token''),
    (''MSID_ADDITIONAL_INFO_CACHE_KEY'', ''additional_info''),
    (''MSID_EXPIRES_ON_CACHE_KEY'', ''expires_on''),
    (''MSID_REFRESH_ON_CACHE_KEY'', ''refresh_on''),
    (''MSID_OAUTH_TOKEN_TYPE_CACHE_KEY'', ''access_token_type''),
    (''MSID_CACHED_AT_CACHE_KEY'', ''cached_at''),
    (''MSID_LAST_RECOVERY_ATTEMPT_CACHE_KEY'', ''recovery_attempted_at''),
    (''MSID_RECOVERY_ATTEMPT_COUNT_CACHE_KEY'', ''recovery_attempt_count''),
    (''MSID_LAST_RECOVERY_ATTEMPT_FAILED_CACHE_KEY'', ''last_recovery_attempt_failed''),
    (''MSID_EXTENDED_EXPIRES_ON_CACHE_KEY'', ''extended_expires_on''),
    (''MSID_EXPIRES_IN_CACHE_KEY'', ''expires_in''),
    (''MSID_SPE_INFO_CACHE_KEY'', ''spe_info''),
    (''MSID_RESOURCE_RT_CACHE_KEY'', ''resource_refresh_token''),
    (''MSID_LOCAL_ACCOUNT_ID_CACHE_KEY'', ''local_account_id''),
    (''MSID_AUTHORITY_TYPE_CACHE_KEY'', ''authority_type''),
    (''MSID_GIVEN_NAME_CACHE_KEY'', ''given_name''),
    (''MSID_MIDDLE_NAME_CACHE_KEY'', ''middle_name''),
    (''MSID_FAMILY_NAME_CACHE_KEY'', ''family_name''),
    (''MSID_NAME_CACHE_KEY'', ''name''),
    (''MSID_ALTERNATIVE_ACCOUNT_ID_KEY'', ''alternative_account_id''),
    (''MSID_SESSION_KEY_CACHE_KEY'', ''session_key''),
    (''MSID_AUTHORITY_MAP_CACHE_KEY'', ''athority_map''),
    (''MSID_ACCOUNT_METADATA_MAP_CACHE_KEY'', ''account_metadata_map''),
    (''MSID_LAST_MOD_TIME_CACHE_KEY'', ''last_modification_time''),
    (''MSID_LAST_MOD_APP_CACHE_KEY'', ''last_modification_app''),
    (''MSID_APPLICATION_IDENTIFIER_CACHE_KEY'', ''application_cache_identifier''),
    (''MSID_DEVICE_ID_CACHE_KEY'', ''device_id''),
    (''MSID_PRT_EXTERNAL_KEY_TYPE_CACHE_KEY'', ''external_key_type''),
    (''MSID_PRT_PROTOCOL_VERSION_CACHE_KEY'', ''prt_protocol_version''),
    (''MSID_KID_CACHE_KEY'', ''kid''),
    (''MSID_REQUESTED_CLAIMS_CACHE_KEY'', ''requested_claims'')]"

definition cache_type_names :: "(string \<times> string) list" where
  "cache_type_names = [
    (''MSID_ACCESS_TOKEN_CACHE_TYPE'', ''AccessToken''),
    (''MSID_ACCESS_TOKEN_WITH_AUTH_SCHEME_CACHE_TYPE'', ''AccessToken_With_AuthScheme''),
    (''MSID_ACCOUNT_CACHE_TYPE'', ''Account''),
    (''MSID_REFRESH_TOKEN_CACHE_TYPE'', ''RefreshToken''),
    (''MSID_APPLICATION_METADATA_CACHE_TYPE'', ''AppMetadata''),
    (''MSID_ACCOUNT_METADATA_CACHE_TYPE'', ''AccountMetadataMap''),
    (''MSID_LEGACY_TOKEN_CACHE_TYPE'', ''LegacySingleResourceToken''),
    (''MSID_ID_TOKEN_CACHE_TYPE'', ''IdToken''),
    (''MSID_LEGACY_ID_TOKEN_CACHE_TYPE'', ''V1IdToken''),
    (''MSID_PRT_TOKEN_CACHE_TYPE'', ''PrimaryRefreshToken''),
    (''MSID_FRT_TOKEN_CACHE_TYPE'', ''FamilyRefreshToken''),
    (''MSID_BOUND_RT_TOKEN_CACHE_TYPE'', ''BoundRefreshToken''),
    (''MSID_GENERAL_TOKEN_CACHE_TYPE'', ''token''),
    (''MSID_GENERAL_CACHE_ITEM_TYPE'', ''general_cache_item''),
    (''MSID_APP_METADATA_CACHE_TYPE'', ''appmetadata''),
    (''MSID_PRINCIPAL_HOME_ACCOUNT_ID_CACHE_KEY'', ''principal_home_account_id''),
    (''MSID_PRINCIPAL_DISPLAYABLE_ID_CACHE_KEY'', ''principal_username''),
    (''MSID_PRINCIPAL_ACCOUNT_ENVIRONMENT_CACHE_KEY'', ''principal_account_environment''),
    (''MSID_APP_METADATA_AUTHORITY_MAP_TYPE'', ''authority_map''),
    (''MSID_REFRESH_TOKEN_CREDENTIAL'', ''x-ms-RefreshTokenCredential''),
    (''MSID_OPENID_CONFIGURATION_SUFFIX'', ''.well-known/openid-configuration''),
    (''MSID_PREFERRED_USERNAME_MISSING'', ''Missing from the token response'')]"

definition oauth2_server_values :: "(string \<times> string) list" where
  "oauth2_server_values = [
    (''MSIDServerErrorClientMismatch'', ''client_mismatch''),
    (''MSIDServerErrorBadToken'', ''bad_token''),
    (''MSIDServerErrorUserAccountDeleted'', ''user_account_deleted''),
    (''MSID_CCS_REQUEST_ID_KEY'', ''x-ms-ccs-requestid''),
    (''MSID_CCS_REQUEST_ID_RESPONSE'', ''ccs-requestid''),
    (''MSID_CCS_REQUEST_SEQUENCE_KEY'', ''x-ms-srs''),
    (''MSID_CCS_REQUEST_SEQUENCE_RESPONSE'', ''ccs-request-sequence''),
    (''MSID_CLIENT_DATA_HEADER_KEY'', ''x-ms-clientdata''),
    (''MSID_CLIENT_DATA_RESPONSE'', ''client_data''),
    (''MSID_BROKER_EXECUTION_FLOW_RESPONSE'', ''broker_execution_flow''),
    (''MSID_REFRESH_TOKEN_TYPE'', ''refresh_token_type''),
    (''MSID_REFRESH_TOKEN_TYPE_BOUND_APP_RT'', ''bound_app_rt''),
    (''MSID_BOUND_DEVICE_ID_CACHE_KEY'', ''bound_device_id''),
    (''MSID_BOUND_RT_EXCHANGE'', ''bound_rt_exchange''),
    (''MSID_MSAL_CLIENT_APV_PREFIX'', ''MsalClient'')]"

section \<open>Broker keys\<close>

definition broker_keys_1 :: "(string \<times> string) list" where
  "broker_keys_1 = [
    (''MSID_BROKER_RESUME_DICTIONARY_KEY'', ''adal-broker-resume-dictionary''),
    (''MSID_BROKER_SYMMETRIC_KEY_TAG'', ''com.microsoft.adBrokerKey'' @ [CHR 0x00]),
    (''MSID_BROKER_ADAL_SCHEME'', ''msauth''),
    (''MSID_BROKER_MSAL_SCHEME'', ''msauthv2''),
    (''MSID_BROKER_NONCE_SCHEME'', ''msauthv3''),
    (''MSID_BROKER_APP_BUNDLE_ID'', ''com.microsoft.CompanyPortalMac''),
    (''MSID_BROKER_APP_BUNDLE_ID_DF'', ''com.microsoft.CompanyPortalMac''),
    (''MSID_BROKER_MAX_PROTOCOL_VERSION'', ''max_protocol_ver''),
    (''MSID_BROKER_PROTOCOL_VERSION_KEY'', ''msg_protocol_ver'')]"

definition broker_protocol_versions :: "(string \<times> int) list" where
  "broker_protocol_versions = [
    (''MSID_BROKER_PROTOCOL_VERSION_2'', 2),
    (''MSID_BROKER_PROTOCOL_VERSION_3'', 3),
    (''MSID_BROKER_PROTOCOL_VERSION_4'', 4)]"

definition broker_keys_2 :: "(string \<times> string) list" where
  "broker_keys_2 = [
    (''MSID_BROKER_OPERATION_KEY'', ''operation''),
    (''MSID_BROKER_KEY'', ''broker_key''),
    (''MSID_BROKER_CLIENT_VERSION_KEY'', ''client_version''),
    (''MSID_BROKER_CLIENT_APP_VERSION_KEY'', ''client_app_version''),
    (''MSID_BROKER_CLIENT_APP_NAME_KEY'', ''client_app_name''),
    (''MSID_BROKER_CORRELATION_ID_KEY'', ''correlation_id''),
    (''MSID_BROKER_REQUEST_PARAMETERS_KEY'', ''request_parameters''),
    (''MSID_BROKER_LOGIN_HINT_KEY'', ''login_hint''),
    (''MSID_BROKER_PROMPT_KEY'', ''prompt''),
    (''MSID_BROKER_NEW_MOBILE_ONBOARDING_FLOW_KEY'', ''new_mobile_onboarding_flow''),
    (''MSID_BROKER_CLIENT_SDK_KEY'', ''client_sdk''),
    (''MSID_BROKER_CLIENT_ID_KEY'', ''client_id''),
    (''MSID_BROKER_FAMILY_ID_KEY'', ''family_id''),
    (''MSID_BROKER_SIGNED_IN_ACCOUNTS_ONLY_KEY'', ''signed_in_accounts_only''),
    (''MSID_BROKER_EXTRA_OIDC_SCOPES_KEY'', ''extra_oidc_scopes''),
    (''MSID_BROKER_EXTRA_CONSENT_SCOPES_KEY'', ''extra_consent_scopes''),
    (''MSID_BROKER_EXTRA_QUERY_PARAM_KEY'', ''extra_query_param''),
    (''MSID_BROKER_INSTANCE_AWARE_KEY'', ''instance_aware''),
    (''MSID_BROKER_INTUNE_ENROLLMENT_IDS_KEY'', ''intune_enrollment_ids''),
    (''MSID_BROKER_INTUNE_MAM_RESOURCE_KEY'', ''intune_mam_resource''),
    (''MSID_BROKER_CLIENT_CAPABILITIES_KEY'', ''client_capabilities''),
    (''MSID_BROKER_CLAIMS_KEY'', ''claims''),
    (''MSID_BROKER_APPLICATION_TOKEN_TAG'', ''com.microsoft.adBrokerAppToken''),
    (''MSID_BROKER_DEVICE_MODE_KEY'', ''device_mode''),
    (''MSID_BROKER_SSO_EXTENSION_MODE_KEY'', ''sso_extension_mode''),
    (''MSID_BROKER_WPJ_STATUS_KEY'', ''wpj_status''),
    (''MSID_BROKER_BROKER_VERSION_KEY'', ''broker_version''),
    (''MSID_SSO_PROVIDER_TYPE_KEY'', ''sso_provider_type''),
    (''MSID_BROKER_IS_PERFORMING_CBA'', ''broker_is_performing_cba''),
    (''MSID_ADAL_BROKER_MESSAGE_VERSION'', ''2''),
    (''MSID_MSAL_BROKER_MESSAGE_VERSION'', ''3''),
    (''MSID_BROKER_SDK_CAPABILITIES_KEY'', ''sdk_broker_capabilities''),
    (''MSID_BROKER_SDK_SSO_EXTENSION_CAPABILITY'', ''sso_extension''),
    (''MSID_BROKER_SDK_BROKER_XPC_CAPABILITY'', ''broker_xpc''),
    (''MSID_BROKER_SSO_URL'', ''sso_url''),
    (''MSID_BROKER_ACCOUNT_IDENTIFIER'', ''account_identifier''),
    (''MSID_BROKER_TYPES_OF_HEADER'', ''types_of_header''),
    (''MSID_ADDITIONAL_EXTENSION_DATA_KEY'', ''additional_extension_data''),
    (''MSID_SSO_NONCE_QUERY_PARAM_KEY'', ''sso_nonce''),
    (''MSID_BROKER_MDM_ID_KEY'', ''mdm_id''),
    (''MSID_ENROLLED_USER_OBJECT_ID_KEY'', ''object_id''),
    (''MSID_EXTRA_DEVICE_INFO_KEY'', ''extraDeviceInfo''),
    (''MSID_PRIMARY_REGISTRATION_UPN'', ''primary_registration_metadata_upn''),
    (''MSID_PRIMARY_REGISTRATION_DEVICE_ID'', ''primary_registration_metadata_device_id''),
    (''MSID_PRIMARY_REGISTRATION_TENANT_ID'', ''primary_registration_metadata_tenant_id''),
    (''MSID_PRIMARY_REGISTRATION_CLOUD'', ''primary_registration_metadata_cloud_host''),
    (''MSID_PRIMARY_REGISTRATION_CERTIFICATE_THUMBPRINT'', ''primary_registration_metadata_certificate_thumbprint''),
    (''MSID_PLATFORM_SSO_STATUS_KEY'', ''platform_sso_status''),
    (''MSID_BROKER_REQUEST_SENT_TIMESTAMP'', ''request_sent_timestamp''),
    (''MSID_BROKER_ACCOUNT_HOME_TENANT_ID'', ''account_home_tenant_id''),
    (''MSID_CLIENT_SKU_KEY'', ''client_sku''),
    (''MSID_SKIP_VALIDATE_RESULT_ACCOUNT_KEY'', ''skip_validate_result_account''),
    (''MSID_JIT_TROUBLESHOOTING_HOST'', ''jit_troubleshooting''),
    (''MSID_IGNORE_BROKER_REQUEST'', ''ignore_broker_request''),
    (''MSID_IS_CALLER_MANAGED_KEY'', ''isCallerAppManaged''),
    (''MSID_BROKER_PREFERRED_AUTH_CONFIGURATION_KEY'', ''preferred_auth_config''),
    (''MSID_BROKER_CLIENT_FLIGHTS_KEY'', ''client_flights''),
    (''MSID_BROKER_SDM_WPJ_ATTEMPTED'', ''sdm_reg_attempted''),
    (''MSID_BART_DEVICE_ID_KEY'', ''bart_device_id''),
    (''MSID_FORCE_REFRESH_KEY'', ''force_refresh'')]"

section \<open>Telemetry names\<close>

definition telemetry_events :: "(string \<times> string) list" where
  "telemetry_events = [
    (''MSID_TELEMETRY_EVENT_DEFAULT_EVENT'', ''default_event''),
    (''MSID_TELEMETRY_EVENT_API_EVENT'', ''api_event''),
    (''MSID_TELEMETRY_EVENT_TOKEN_GRANT'', ''token_grant''),
    (''MSID_TELEMETRY_EVENT_AUTHORITY_VALIDATION'', ''authority_validation''),
    (''MSID_TELEMETRY_EVENT_ACQUIRE_TOKEN_SILENT'', ''acquire_token_silent_handler''),
    (''MSID_TELEMETRY_EVENT_LAUNCH_BROKER'', ''broker_event''),
    (''MSID_TELEMETRY_EVENT_EXTERNAL_CACHE_SEEDING'', ''external_cache_seeding''),
    (''MSID_TELEMETRY_EVENT_AUTHORIZATION_CODE'', ''authorization_code''),
    (''MSID_TELEMETRY_EVENT_TOKEN_CACHE_LOOKUP'', ''token_cache_lookup''),
    (''MSID_TELEMETRY_EVENT_TOKEN_CACHE_WRITE'', ''token_cache_write''),
    (''MSID_TELEMETRY_EVENT_TOKEN_CACHE_DELETE'', ''token_cache_delete''),
    (''MSID_TELEMETRY_EVENT_APP_METADATA_WRITE'', ''app_metadata_write''),
    (''MSID_TELEMETRY_EVENT_APP_METADATA_DELETE'', ''app_metadata_delete''),
    (''MSID_TELEMETRY_EVENT_UI_EVENT'', ''ui_event''),
    (''MSID_TELEMETRY_EVENT_HTTP_REQUEST'', ''http_event''),
    (''MSID_TELEMETRY_EVENT_HTTP_V1_IDTOKEN_REQUEST'', ''http_event_get_v1_id_token''),
    (''MSID_TELEMETRY_EVENT_FOUND_V1_ID_TOKEN_IN_CACHE'', ''found_v1_id_token_in_cache'')]"

definition telemetry_keys :: "(string \<times> string) list" where
  "telemetry_keys = [
    (''MSID_TELEMETRY_KEY_AUTHORITY_TYPE'', ''authority_type''),
    (''MSID_TELEMETRY_KEY_AUTHORITY_VALIDATION_STATUS'', ''authority_validation_status''),
    (''MSID_TELEMETRY_KEY_EXTENDED_EXPIRES_ON_SETTING'', ''extended_expires_on_setting''),
    (''MSID_TELEMETRY_KEY_SSO_EXT_FALLBCK_FLOW'', ''sso_ext_fallback_flow''),
    (''MSID_TELEMETRY_KEY_PROMPT_BEHAVIOR'', ''prompt_behavior''),
    (''MSID_TELEMETRY_KEY_UI_BEHAVIOR'', ''ui_behavior''),
    (''MSID_TELEMETRY_KEY_RESULT_STATUS'', ''status''),
    (''MSID_TELEMETRY_KEY_IDP'', ''idp''),
    (''MSID_TELEMETRY_KEY_TENANT_ID'', ''tenant_id''),
    (''MSID_TELEMETRY_KEY_USER_ID'', ''user_id''),
    (''MSID_TELEMETRY_KEY_START_TIME'', ''start_time''),
    (''MSID_TELEMETRY_KEY_END_TIME'', ''stop_time''),
    (''MSID_TELEMETRY_KEY_RESPONSE_TIME'', ''response_time''),
    (''MSID_TELEMETRY_KEY_DEVICE_ID'', ''device_id''),
    (''MSID_TELEMETRY_KEY_APPLICATION_NAME'', ''application_name''),
    (''MSID_TELEMETRY_KEY_APPLICATION_VERSION'', ''application_version''),
    (''MSID_TELEMETRY_KEY_LOGIN_HINT'', ''login_hint''),
    (''MSID_TELEMETRY_KEY_NTLM_HANDLED'', ''ntlm''),
    (''MSID_TELEMETRY_KEY_UI_EVENT_COUNT'', ''ui_event_count''),
    (''MSID_TELEMETRY_KEY_BROKER_APP'', ''broker_app''),
    (''MSID_TELEMETRY_KEY_BROKER_VERSION'', ''broker_version''),
    (''MSID_TELEMETRY_KEY_BROKER_PROTOCOL_VERSION'', ''broker_protocol_version''),
    (''MSID_TELEMETRY_KEY_BROKER_APP_USED'', ''broker_app_used''),
    (''MSID_TELEMETRY_KEY_CLIENT_ID'', ''client_id''),
    (''MSID_TELEMETRY_KEY_HTTP_EVENT_COUNT'', ''http_event_count''),
    (''MSID_TELEMETRY_KEY_GET_V1_IDTOKEN_HTTP_EVENT_COUNT'', ''get_v1_id_token_http_event_count''),
    (''MSID_TELEMETRY_KEY_GET_V1_IDTOKEN_CACHE_EVENT_COUNT'', ''get_v1_id_token_cache_event_count''),
    (''MSID_TELEMETRY_KEY_CACHE_EVENT_COUNT'', ''cache_event_count''),
    (''MSID_TELEMETRY_KEY_API_ID'', ''api_id''),
    (''MSID_TELEMETRY_KEY_TOKEN_TYPE'', ''token_type''),
    (''MSID_TELEMETRY_KEY_USER_CANCEL'', ''user_cancel''),
    (''MSID_TELEMETRY_KEY_UI_CANCELLED'', ''ui_cancelled''),
    (''MSID_TELEMETRY_KEY_SERVER_ERROR_CODE'', ''server_error_code''),
    (''MSID_TELEMETRY_KEY_SERVER_SUBERROR_CODE'', ''server_sub_error_code''),
    (''MSID_TELEMETRY_KEY_RT_AGE'', ''rt_age''),
    (''MSID_TELEMETRY_KEY_SPE_INFO'', ''spe_info''),
    (''MSID_TELEMETRY_KEY_IS_SUCCESSFUL'', ''is_successfull''),
    (''MSID_TELEMETRY_KEY_IS_RT'', ''is_rt''),
    (''MSID_TELEMETRY_KEY_IS_MRRT'', ''is_mrrt''),
    (''MSID_TELEMETRY_KEY_IS_FRT'', ''is_frt''),
    (''MSID_TELEMETRY_KEY_RT_STATUS'', ''token_rt_status''),
    (''MSID_TELEMETRY_KEY_MRRT_STATUS'', ''token_mrrt_status''),
    (''MSID_TELEMETRY_KEY_FRT_STATUS'', ''token_frt_status''),
    (''MSID_TELEMETRY_KEY_CORRELATION_ID'', ''correlation_id''),
    (''MSID_TELEMETRY_KEY_IS_EXTENED_LIFE_TIME_TOKEN'', ''is_extended_life_time_token''),
    (''MSID_TELEMETRY_KEY_API_ERROR_CODE'', ''api_error_code''),
    (''MSID_TELEMETRY_KEY_PROTOCOL_CODE'', ''error_protocol_code''),
    (''MSID_TELEMETRY_KEY_ERROR_DESCRIPTION'', ''error_description''),
    (''MSID_TELEMETRY_KEY_ERROR_DOMAIN'', ''error_domain''),
    (''MSID_TELEMETRY_KEY_HTTP_METHOD'', ''method''),
    (''MSID_TELEMETRY_KEY_HTTP_PATH'', ''http_path''),
    (''MSID_TELEMETRY_KEY_HTTP_REQUEST_ID_HEADER'', ''x_ms_request_id''),
    (''MSID_TELEMETRY_KEY_HTTP_RESPONSE_CODE'', ''response_code''),
    (''MSID_TELEMETRY_KEY_OAUTH_ERROR_CODE'', ''oauth_error_code''),
    (''MSID_TELEMETRY_KEY_HTTP_RESPONSE_METHOD'', ''response_method''),
    (''MSID_TELEMETRY_KEY_REQUEST_QUERY_PARAMS'', ''query_params''),
    (''MSID_TELEMETRY_KEY_USER_AGENT'', ''user_agent''),
    (''MSID_TELEMETRY_KEY_HTTP_ERROR_DOMAIN'', ''http_error_domain''),
    (''MSID_TELEMETRY_KEY_AUTHORITY'', ''authority''),
    (''MSID_TELEMETRY_KEY_GRANT_TYPE'', ''grant_type''),
    (''MSID_TELEMETRY_KEY_API_STATUS'', ''api_status''),
    (''MSID_TELEMETRY_KEY_EVENT_NAME'', ''event_name''),
    (''MSID_TELEMETRY_KEY_REQUEST_ID'', ''request_id''),
    (''MSID_TELEMETRY_KEY_WIPE_APP'', ''wipe_app''),
    (''MSID_TELEMETRY_KEY_WIPE_TIME'', ''wipe_time''),
    (''MSID_TELEMETRY_KEY_WEBVIEW_TYPE'', ''webview_type''),
    (''MSID_TELEMETRY_KEY_CLIENT_TELEMETRY_RAW'', ''x-ms-clitelem''),
    (''MSID_TELEMETRY_KEY_ACCOUNT_SELECTION_ISSUE'', ''acct-slct''),
    (''MSID_TELEMETRY_KEY_IS_EXTERNAL_CACHE_SEEDING'', ''is_external_cache_seeding''),
    (''MSID_TELEMETRY_KEY_EXTERNAL_CACHE_SEEDING_STATUS'', ''external_cache_seeding_status'')]"

definition telemetry_values :: "(string \<times> string) list" where
  "telemetry_values = [
    (''MSID_TELEMETRY_VALUE_YES'', ''yes''),
    (''MSID_TELEMETRY_VALUE_NO'', ''no''),
    (''MSID_TELEMETRY_VALUE_TRIED'', ''tried''),
    (''MSID_TELEMETRY_VALUE_USER_CANCELLED'', ''user_cancelled''),
    (''MSID_TELEMETRY_VALUE_NOT_FOUND'', ''not_found''),
    (''MSID_TELEMETRY_VALUE_ACCESS_TOKEN'', ''access_token''),
    (''MSID_TELEMETRY_VALUE_REFRESH_TOKEN'', ''refresh_token''),
    (''MSID_TELEMETRY_VALUE_MULTI_RESOURCE_REFRESH_TOKEN'', ''multi_resource_refresh_token''),
    (''MSID_TELEMETRY_VALUE_FAMILY_REFRESH_TOKEN'', ''family_refresh_token''),
    (''MSID_TELEMETRY_VALUE_ADFS_TOKEN'', ''ADFS_access_token_refresh_token''),
    (''MSID_TELEMETRY_VALUE_BY_CODE'', ''by_code''),
    (''MSID_TELEMETRY_VALUE_BY_REFRESH_TOKEN'', ''by_refresh_token''),
    (''MSID_TELEMETRY_VALUE_SUCCEEDED'', ''succeeded''),
    (''MSID_TELEMETRY_VALUE_FAILED'', ''failed''),
    (''MSID_TELEMETRY_VALUE_CANCELLED'', ''cancelled''),
    (''MSID_TELEMETRY_VALUE_UNKNOWN'', ''unknown''),
    (''MSID_TELEMETRY_VALUE_AUTHORITY_AAD'', ''aad''),
    (''MSID_TELEMETRY_VALUE_AUTHORITY_ADFS'', ''adfs''),
    (''MSID_TELEMETRY_VALUE_AUTHORITY_B2C'', ''b2c''),
    (''MSID_TELEMETRY_VALUE_AUTHORITY_CIAM'', ''ciam'')]"

section \<open>Onboarding blob\<close>

definition onboarding_blob_fields :: "(string \<times> string) list" where
  "onboarding_blob_fields = [
    (''MSIDOnboardingBlobIPCKey'', ''onboardingBlob''),
    (''MSIDOnboardingModeBrokered'', ''brokered''),
    (''MSIDOnboardingUxFlowMobileOnboardingPhase1'', ''MobileOnboardingPhase1''),
    (''MSIDOnboardingBlobFieldBlockingErrors'', ''blocking_errors''),
    (''MSIDOnboardingBlobFieldLastBlockingError'', ''last_blocking_error''),
    (''MSIDOnboardingBlobFieldLastLoadedDomain'', ''last_loaded_domain''),
    (''MSIDOnboardingBlobFieldLastCompletedStep'', ''last_completed_step''),
    (''MSIDOnboardingBlobFieldUxFlowUsed'', ''ux_flow_used'')]"

definition onboarding_blob_steps :: "(string \<times> string) list" where
  "onboarding_blob_steps = [
    (''MSIDOnboardingBlobStepAuthenticationStarted'', ''AuthenticationStarted''),
    (''MSIDOnboardingBlobStepDeviceNotCompliant'', ''DeviceNotCompliant''),
    (''MSIDOnboardingBlobStepCredentialEntryCompleted'', ''CredentialEntryCompleted''),
    (''MSIDOnboardingBlobStepBrokerInstallPrompted'', ''BrokerInstallPrompted''),
    (''MSIDOnboardingBlobStepBrokerAppInstall'', ''BrokerAppInstall''),
    (''MSIDOnboardingBlobStepBrokerInstallPromptedForMAM'', ''BrokerInstallPromptedForMAM''),
    (''MSIDOnboardingBlobStepDeviceRegistrationRequired'', ''DeviceRegistrationRequired''),
    (''MSIDOnboardingBlobStepDeviceRegistrationStarted'', ''DeviceRegistrationStarted''),
    (''MSIDOnboardingBlobStepDeviceRegistrationCompleted'', ''DeviceRegistrationCompleted''),
    (''MSIDOnboardingBlobStepJITRegistrationStarted'', ''JITRegistrationStarted''),
    (''MSIDOnboardingBlobStepJITRegistrationCompleted'', ''JITRegistrationCompleted''),
    (''MSIDOnboardingBlobStepJITLinkingStarted'', ''JITLinkingStarted''),
    (''MSIDOnboardingBlobStepJITLinkingCompleted'', ''JITLinkingCompleted''),
    (''MSIDOnboardingBlobStepJITRemediationStarted'', ''JITRemediationStarted''),
    (''MSIDOnboardingBlobStepJITRemediationCompleted'', ''JITRemediationCompleted''),
    (''MSIDOnboardingBlobStepJITComplianceBitSetStarted'', ''JITComplianceBitSetStarted''),
    (''MSIDOnboardingBlobStepJITComplianceBitSetCompleted'', ''JITComplianceBitSetCompleted''),
    (''MSIDOnboardingBlobStepTokenIssued'', ''TokenIssued''),
    (''MSIDOnboardingBlobStepProfileDownloadCompleted'', ''ProfileDownloadCompleted''),
    (''MSIDOnboardingBlobStepComplianceRemediationMSAuthRedirect'', ''ComplianceRemediationMSAuthRedirect''),
    (''MSIDOnboardingBlobStepMobileOnboardingClientFlightDisabledLegacyFallback'', ''MobileOnboardingClientFlightDisabledLegacyFallback''),
    (''MSIDOnboardingBlobStepProfileInstallNotificationScheduled'', ''ProfileInstallNotificationScheduled''),
    (''MSIDOnboardingBlobStepSSOExtensionUnavailable'', ''SSOExtensionUnavailable''),
    (''MSIDOnboardingBlobStepMdmEnrollmentCompletionRetryStarted'', ''MDMEnrollmentCompletionRetryStarted''),
    (''MSIDOnboardingBlobStepMdmEnrollmentRequestMalformed'', ''MDMEnrollmentRequestMalformed''),
    (''MSIDOnboardingBlobStepMdmEnrollmentUrlMissing'', ''MDMEnrollmentUrlMissing''),
    (''MSIDOnboardingBlobStepComplianceRemediationRequestMalformed'', ''ComplianceRemediationRequestMalformed''),
    (''MSIDOnboardingBlobStepComplianceRemediationUrlMissing'', ''ComplianceRemediationUrlMissing''),
    (''MSIDOnboardingBlobStepProfileInstallUrlMissing'', ''ProfileInstallUrlMissing''),
    (''MSIDOnboardingBlobStepProfileInstallUrlMalformed'', ''ProfileInstallUrlMalformed''),
    (''MSIDOnboardingBlobStepMdmEnrollmentFailed'', ''MDMEnrollmentFailed''),
    (''MSIDOnboardingBlobStepProfileDownloadFlowStarted'', ''ProfileDownloadFlowStarted''),
    (''MSIDOnboardingBlobStepProfileDownloadFlowCancelled'', ''ProfileDownloadFlowCancelled''),
    (''MSIDOnboardingBlobStepProfileDownloadFlowFailed'', ''ProfileDownloadFlowFailed''),
    (''MSIDOnboardingBlobStepTokenRequestRetryStarted'', ''TokenRequestRetryStarted''),
    (''MSIDOnboardingBlobStepSeededBRTBootstrapStarted'', ''SeededBRTBootstrapStarted''),
    (''MSIDOnboardingBlobStepSeededBRTBootstrapCompleted'', ''SeededBRTBootstrapCompleted''),
    (''MSIDOnboardingBlobStepStrongAuthSetupStarted'', ''StrongAuthSetupStarted''),
    (''MSIDOnboardingBlobStepStrongAuthSetupCompleted'', ''StrongAuthSetupCompleted''),
    (''MSIDOnboardingBlobStepMdmEnrollmentRequired'', ''MDMEnrollmentRequired''),
    (''MSIDOnboardingBlobStepMdmEnrollmentStarted'', ''MDMEnrollmentStarted''),
    (''MSIDOnboardingBlobStepMdmEnrollmentFinished'', ''MDMEnrollmentFinished''),
    (''MSIDOnboardingBlobStepRemediationStarted'', ''RemediationStarted''),
    (''MSIDOnboardingBlobStepRemediationFinished'', ''RemediationFinished'')]"

section \<open>Web view\<close>

definition webview_constants :: "(string \<times> string) list" where
  "webview_constants = [
    (''MSID_SCHEME_MSAUTH'', ''msauth''),
    (''MSID_SCHEME_BROWSER'', ''browser''),
    (''MSID_SCHEME_OPENID_VC'', ''openid-vc''),
    (''MSID_MDM_ENROLL_HOST'', ''enroll''),
    (''MSID_COMPLIANCE_HOST'', ''compliance''),
    (''MSID_MDM_ENROLLMENT_COMPLETION_HOST'', ''in_app_enrollment_complete''),
    (''MSID_MDM_PROFILE_DOWNLOAD_COMPLETE_HOST'', ''profile_download_complete''),
    (''MSID_INTUNE_URL_KEY'', ''intuneRedirectUrl''),
    (''MSID_IN_APP_KEY'', ''in-app''),
    (''MSID_INTUNE_DEVICE_ID_KEY'', ''intuneDeviceId''),
    (''MSID_INTUNE_PROFILE_INSTALL_URL_KEY'', ''continueUrl''),
    (''MSID_MDM_ENROLLMENT_COMPLETION_STATUS_KEY'', ''status''),
    (''MSID_MDM_ENROLLMENT_COMPLETION_ERROR_URL_KEY'', ''errorUrl''),
    (''MSID_MDM_ENROLLMENT_COMPLETION_STATUS_VALUE_SUCCESS'', ''success''),
    (''MSID_MDM_ENROLLMENT_COMPLETION_STATUS_VALUE_CHECK_IN_TIMED_OUT'', ''check_in_timed_out''),
    (''MSID_ASWEBAUTH_HANDOFF_URL_KEY'', ''x-ms-aswebauth-handoff-url''),
    (''MSID_ASWEBAUTH_HANDOFF_USE_EPHEMERAL_KEY'', ''x-ms-aswebauth-handoff-use-ephemeral-session''),
    (''MSID_ASWEBAUTH_HANDOFF_REDIRECT_SCHEME_KEY'', ''x-ms-aswebauth-handoff-redirect-scheme''),
    (''MSID_ASWEBAUTH_HANDOFF_INCLUDE_HEADERS_KEY'', ''x-ms-aswebauth-handoff-include-headers''),
    (''MSID_ASWEBAUTH_HANDOFF_ATTACH_HEADERS_KEY'', ''x-ms-aswebauth-handoff-attach-headers''),
    (''MSID_ASWEBAUTH_HANDOFF_PURPOSE_KEY'', ''x-ms-aswebauth-handoff-purpose''),
    (''MSID_ASWEBAUTH_HANDOFF_HEADER_PREFIX'', ''x-ms-aswebauth-handoff-''),
    (''MSID_ASWEBAUTH_HANDOFF_VALUE_TRUE'', ''true''),
    (''MSID_ASWEBAUTH_HANDOFF_VALUE_FALSE'', ''false''),
    (''MSID_ASWEBAUTH_HANDOFF_PURPOSE_VALUE_DOWNLOAD_PROFILE'', ''download-profile''),
    (''MSID_OPENID_VC_CALLER_REDIRECT_URI_KEY'', ''x_ms_caller_redirect_uri''),
    (''MSID_OPENID_VC_CALLER_BUNDLE_ID_KEY'', ''x_ms_caller_bundle_id''),
    (''MSID_OPENID_VC_CORRELATION_ID_KEY'', ''x_ms_correlation_id'')]"

section \<open>JSON types\<close>

definition json_types :: "(string \<times> string) list" where
  "json_types = [
    (''MSID_JSON_TYPE_AAD_AUTHORITY'', ''authority_aad''),
    (''MSID_JSON_TYPE_ADFS_AUTHORITY'', ''authority_adfs''),
    (''MSID_JSON_TYPE_B2C_AUTHORITY'', ''authority_b2c''),
    (''MSID_JSON_TYPE_CIAM_AUTHORITY'', ''authority_ciam''),
    (''MSID_JSON_TYPE_OPERATION_REQUEST_REMOVE_ACCOUNT'', ''remove_account_operation''),
    (''MSID_JSON_TYPE_OPERATION_REQUEST_SIGNOUT_ACCOUNT'', ''signout_account_operation''),
    (''MSID_JSON_TYPE_OPERATION_REQUEST_GET_ACCOUNTS'', ''get_accounts_operation''),
    (''MSID_JSON_TYPE_OPERATION_REQUEST_GET_DEFAULT_ACCOUNT'', ''get_default_account''),
    (''MSID_JSON_TYPE_OPERATION_REQUEST_GET_DEVICE_INFO'', ''get_device_info''),
    (''MSID_JSON_TYPE_OPERATION_REQUEST_GET_PRT'', ''get_prt''),
    (''MSID_JSON_TYPE_OPERATION_REQUEST_GET_SSO_COOKIES'', ''get_sso_cookies''),
    (''MSID_JSON_TYPE_OPERATION_REQUEST_PASSKEY_ASSERTION'', ''passkey_assertion_operation''),
    (''MSID_JSON_TYPE_OPERATION_REQUEST_PASSKEY_CREDENTIAL'', ''passkey_credential_operation''),
    (''MSID_JSON_TYPE_OPERATION_REQUEST_BROWSER_NATIVE_MESSAGE'', ''browser_native_message_operation''),
    (''MSID_JSON_TYPE_OPERATION_REQUEST_BROWSER_NATIVE_GET_SUPPORTED_CONTRACTS'', ''browser_native_get_supported_contracts_operation''),
    (''MSID_JSON_TYPE_BROKER_OPERATION_BROWSER_NATIVE_MESSAGE_RESPONSE'', ''operation_browser_native_message_response''),
    (''MSID_JSON_TYPE_BROKER_OPERATION_BROWSER_NATIVE_GET_SUPPORTED_CONTRACTS_RESPONSE'', ''operation_browser_native_get_supported_contracts_response''),
    (''MSID_JSON_TYPE_BROKER_OPERATION_GET_ACCOUNTS_RESPONSE'', ''operation_get_accounts_response''),
    (''MSID_JSON_TYPE_BROKER_OPERATION_GET_DEFAULT_ACCOUNT_RESPONSE'', ''operation_get_default_account_response''),
    (''MSID_JSON_TYPE_BROKER_OPERATION_GENERIC_RESPONSE'', ''operation_generic_response''),
    (''MSID_JSON_TYPE_BROKER_OPERATION_TOKEN_RESPONSE'', ''operation_token_response''),
    (''MSID_JSON_TYPE_PROVIDER_AADV1'', ''provider_aad_v1''),
    (''MSID_JSON_TYPE_PROVIDER_AADV2'', ''provider_aad_v2''),
    (''MSID_JSON_TYPE_PROVIDER_B2C'', ''provider_b2c''),
    (''MSID_JSON_TYPE_PROVIDER_CIAM'', ''provider_ciam''),
    (''MSID_JSON_TYPE_PROVIDER_ADFS'', ''provider_adfs''),
    (''MSID_JSON_TYPE_AADV1_TOKEN_RESPONSE'', ''token_response_aad_v1''),
    (''MSID_JSON_TYPE_AADV2_TOKEN_RESPONSE'', ''token_response_aad_v2''),
    (''MSID_JSON_TYPE_B2C_TOKEN_RESPONSE'', ''token_response_b2c''),
    (''MSID_JSON_TYPE_CIAM_TOKEN_RESPONSE'', ''token_response_ciam''),
    (''MSID_JSON_TYPE_BROKER_OPERATION_GET_SSO_COOKIES_RESPONSE'', ''operation_get_sso_cookies_response''),
    (''MSID_JSON_TYPE_BROKER_OPERATION_PASSKEY_ASSERTION_RESPONSE'', ''operation_get_passkey_assertion_response''),
    (''MSID_JSON_TYPE_BROKER_OPERATION_PASSKEY_CREDENTIAL_RESPONSE'', ''operation_get_passkey_credential_response'')]"

section \<open>Enumerations\<close>

text \<open>The iOS-only member of the web view types belongs to the enumeration of an iOS build.\<close>

datatype webview_type =
    MSIDWebviewTypeDefault
  | MSIDWebviewTypeAuthenticationSession
  | MSIDWebviewTypeSafariViewController
  | MSIDWebviewTypeWKWebView

datatype request_type = MSIDRequestBrokeredType | MSIDRequestLocalType

datatype ui_behavior_type =
    MSIDUIBehaviorInteractiveType
  | MSIDUIBehaviorAutoType
  | MSIDUIBehaviorForceType

datatype prompt_type =
    MSIDPromptTypePromptIfNecessary
  | MSIDPromptTypeLogin
  | MSIDPromptTypeConsent
  | MSIDPromptTypeCreate
  | MSIDPromptTypeSelectAccount
  | MSIDPromptTypeRefreshSession
  | MSIDPromptTypeNever

abbreviation MSIDPromptTypeDefault :: prompt_type where
  "MSIDPromptTypeDefault \<equiv> MSIDPromptTypePromptIfNecessary"

datatype auth_scheme_type = MSIDAuthSchemeBearer | MSIDAuthSchemePop | MSIDAuthSchemeSshCert

datatype header_type = MSIDHeaderTypeAll | MSIDHeaderTypePrt | MSIDHeaderTypeDeviceRegistration

datatype xpc_mode =
    MSIDXpcModeDisabled
  | MSIDXpcModeSSOExtCompanion
  | MSIDXpcModeSSOExtBackup
  | MSIDXpcModePrimary

datatype platform_sequence_index =
    MSIDPlatformSequenceIndexSrc
  | MSIDPlatformSequenceIndexMsalRuntime
  | MSIDPlatformSequenceIndexBrowserExt
  | MSIDPlatformSequenceIndexBrowserCore

datatype frt_enabled_status =
    MSIDIsFRTEnabledStatusNotEnabled
  | MSIDIsFRTEnabledStatusEnabled
  | MSIDIsFRTEnabledStatusDisabledByClientApp
  | MSIDIsFRTEnabledStatusDisabledByKeychainError
  | MSIDIsFRTEnabledStatusDisabledByDeserializationError
  | MSIDIsFRTEnabledStatusDisabledByKeychainItem

section \<open>Prompt parameter\<close>

fun MSIDPromptParamFromType :: "prompt_type \<Rightarrow> string" where
  "MSIDPromptParamFromType MSIDPromptTypeLogin = ''login''"
| "MSIDPromptParamFromType MSIDPromptTypeConsent = ''consent''"
| "MSIDPromptParamFromType MSIDPromptTypeCreate = ''create''"
| "MSIDPromptParamFromType MSIDPromptTypeSelectAccount = ''select_account''"
| "MSIDPromptParamFromType MSIDPromptTypeRefreshSession = ''refresh_session''"
| "MSIDPromptParamFromType MSIDPromptTypeNever = ''none''"
| "MSIDPromptParamFromType MSIDPromptTypePromptIfNecessary = []"

definition MSIDPromptTypeFromString :: "string option \<Rightarrow> prompt_type" where
  "MSIDPromptTypeFromString s =
     (if isEqualToString s (Some ''login'') then MSIDPromptTypeLogin
      else if isEqualToString s (Some ''consent'') then MSIDPromptTypeConsent
      else if isEqualToString s (Some ''create'') then MSIDPromptTypeCreate
      else if isEqualToString s (Some ''select_account'') then MSIDPromptTypeSelectAccount
      else if isEqualToString s (Some ''refresh_session'') then MSIDPromptTypeRefreshSession
      else if isEqualToString s (Some ''none'') then MSIDPromptTypeNever
      else MSIDPromptTypeDefault)"

lemma prompt_roundtrip [simp]:
  "MSIDPromptTypeFromString (Some (MSIDPromptParamFromType p)) = p"
  "MSIDPromptTypeFromString None = MSIDPromptTypeDefault"
  by (cases p; simp add: MSIDPromptTypeFromString_def isEqualToString_def)
     (simp add: MSIDPromptTypeFromString_def isEqualToString_def)

lemma prompt_param_blank: "MSIDPromptParamFromType p = [] \<longleftrightarrow> p = MSIDPromptTypeDefault"
  by (cases p) auto

end
