(* ===== verification/DIContainer.thy ===== *)
theory DIContainer
  imports Prelude
begin

text \<open>
  \<open>util/MSIDDIContainer.m\<close>: the dependency-injection container. A factory is a block of the
  application: \<open>build f n\<close> is what the factory \<open>f\<close> answers when it is the \<open>n\<close>-th factory call of
  the run, None standing for nil. The container calls no factory while it holds the queue for
  reading, so a resolution is two atomic parts, the read of the two dictionaries and, for a
  registered key with no cached instance, the part that calls the factory; \<open>run_events\<close> executes any
  interleaving of these parts, of registrations and of resets. Assertions are those of a release
  build: they do nothing.
\<close>

section \<open>State\<close>

datatype di_lifetime = MSIDDIContainerLifetimeSingleton | MSIDDIContainerLifetimeTransient

record 'f di_entry =
  entryLifetime :: di_lifetime
  entryFactory :: 'f

record ('f, 'i) di_container =
  entryByKey :: "(string, 'f di_entry) dict"
  singletonCache :: "(string, 'i) dict"
  factoryCalls :: "'f list"

datatype di_exception = NSInternalInconsistencyException

definition initContainer :: "('f, 'i) di_container" where
  "initContainer = \<lparr>entryByKey = [], singletonCache = [], factoryCalls = []\<rparr>"

definition keyForClass :: "string \<Rightarrow> string" where
  "keyForClass cls = ''C:'' @ cls"

definition keyForProtocol :: "string \<Rightarrow> string" where
  "keyForProtocol proto = ''P:'' @ proto"

section \<open>Registration\<close>

definition registerKey ::
  "string \<Rightarrow> di_lifetime \<Rightarrow> 'f \<Rightarrow> ('f, 'i) di_container \<Rightarrow> ('f, 'i) di_container" where
  "registerKey key lifetime factory c =
     c\<lparr>entryByKey := dict_put key \<lparr>entryLifetime = lifetime, entryFactory = factory\<rparr> (entryByKey c),
       singletonCache := dict_del key (singletonCache c)\<rparr>"

definition registerClass ::
  "string \<Rightarrow> di_lifetime \<Rightarrow> 'f \<Rightarrow> ('f, 'i) di_container \<Rightarrow> ('f, 'i) di_container" where
  "registerClass cls = registerKey (keyForClass cls)"

definition registerProtocol ::
  "string \<Rightarrow> di_lifetime \<Rightarrow> 'f \<Rightarrow> ('f, 'i) di_container \<Rightarrow> ('f, 'i) di_container" where
  "registerProtocol proto = registerKey (keyForProtocol proto)"

definition di_reset :: "('f, 'i) di_container \<Rightarrow> ('f, 'i) di_container" where
  "di_reset c = c\<lparr>entryByKey := [], singletonCache := []\<rparr>"

definition evictKey :: "string \<Rightarrow> ('f, 'i) di_container \<Rightarrow> ('f, 'i) di_container" where
  "evictKey key c =
     c\<lparr>singletonCache := dict_del key (singletonCache c), entryByKey := dict_del key (entryByKey c)\<rparr>"

section \<open>Resolution\<close>

text \<open>The part under \<open>dispatch_sync\<close>: the cached instance, or else the entry.\<close>

datatype ('f, 'i) di_read = ReadCached 'i | ReadEntry "'f di_entry" | ReadNothing

definition readKey :: "string \<Rightarrow> ('f, 'i) di_container \<Rightarrow> ('f, 'i) di_read" where
  "readKey key c =
     (case dict_get (singletonCache c) key of
        Some i \<Rightarrow> ReadCached i
      | None \<Rightarrow>
          (case dict_get (entryByKey c) key of
             Some e \<Rightarrow> ReadEntry e
           | None \<Rightarrow> ReadNothing))"

definition callFactory ::
  "('f \<Rightarrow> nat \<Rightarrow> 'i option) \<Rightarrow> 'f \<Rightarrow> ('f, 'i) di_container \<Rightarrow> ('f, 'i) di_container \<times> 'i option" where
  "callFactory build f c =
     (c\<lparr>factoryCalls := factoryCalls c @ [f]\<rparr>, build f (length (factoryCalls c)))"

text \<open>
  The part after an entry was read: for a singleton the barrier block with its second look at the
  cache, for a transient the call of the factory.
\<close>

definition finishEntry ::
  "('f \<Rightarrow> nat \<Rightarrow> 'i option) \<Rightarrow> string \<Rightarrow> 'f di_entry \<Rightarrow> ('f, 'i) di_container \<Rightarrow>
   ('f, 'i) di_container \<times> (di_exception + 'i)" where
  "finishEntry build key e c =
     (case entryLifetime e of
        MSIDDIContainerLifetimeSingleton \<Rightarrow>
          (case dict_get (singletonCache c) key of
             Some existing \<Rightarrow> (c, Inr existing)
           | None \<Rightarrow>
               (case callFactory build (entryFactory e) c of
                  (c', None) \<Rightarrow> (c', Inl NSInternalInconsistencyException)
                | (c', Some i) \<Rightarrow> (c'\<lparr>singletonCache := dict_put key i (singletonCache c')\<rparr>, Inr i)))
      | MSIDDIContainerLifetimeTransient \<Rightarrow>
          (case callFactory build (entryFactory e) c of
             (c', None) \<Rightarrow> (c', Inl NSInternalInconsistencyException)
           | (c', Some i) \<Rightarrow> (c', Inr i)))"

text \<open>
  \<open>resolveKey:description:defaultProvider:\<close> when nothing else runs; the default provider, when
  there is one, is given by what it answers.
\<close>

definition resolveKey ::
  "('f \<Rightarrow> nat \<Rightarrow> 'i option) \<Rightarrow> string \<Rightarrow> 'i option option \<Rightarrow> ('f, 'i) di_container \<Rightarrow>
   ('f, 'i) di_container \<times> (di_exception + 'i)" where
  "resolveKey build key defaultProvider c =
     (case readKey key c of
        ReadCached i \<Rightarrow> (c, Inr i)
      | ReadEntry e \<Rightarrow> finishEntry build key e c
      | ReadNothing \<Rightarrow>
          (case defaultProvider of
             Some (Some d) \<Rightarrow> (c, Inr d)
           | Some None \<Rightarrow> (c, Inl NSInternalInconsistencyException)
           | None \<Rightarrow> (c, Inl NSInternalInconsistencyException)))"

definition resolveClass ::
  "('f \<Rightarrow> nat \<Rightarrow> 'i option) \<Rightarrow> string \<Rightarrow> 'i option option \<Rightarrow> ('f, 'i) di_container \<Rightarrow>
   ('f, 'i) di_container \<times> (di_exception + 'i)" where
  "resolveClass build cls = resolveKey build (keyForClass cls)"

definition resolveProtocol ::
  "('f \<Rightarrow> nat \<Rightarrow> 'i option) \<Rightarrow> string \<Rightarrow> 'i option option \<Rightarrow> ('f, 'i) di_container \<Rightarrow>
   ('f, 'i) di_container \<times> (di_exception + 'i)" where
  "resolveProtocol build proto = resolveKey build (keyForProtocol proto)"

text \<open>\<open>conforms cls proto\<close> is \<open>conformsToProtocol:\<close>; the default provider answers a class.\<close>

definition resolveImplClassForProtocol ::
  "('i \<Rightarrow> string \<Rightarrow> bool) \<Rightarrow> ('f \<Rightarrow> nat \<Rightarrow> 'i option) \<Rightarrow> string \<Rightarrow> 'i option \<Rightarrow> ('f, 'i) di_container \<Rightarrow>
   ('f, 'i) di_container \<times> (di_exception + 'i option)" where
  "resolveImplClassForProtocol conforms build proto defaultClass c =
     (case resolveKey build (keyForProtocol proto) (Some defaultClass) c of
        (c', Inl e) \<Rightarrow> (c', Inl e)
      | (c', Inr cls) \<Rightarrow>
          if \<not> conforms cls proto then (evictKey (keyForProtocol proto) c', Inr defaultClass)
          else (c', Inr (Some cls)))"

definition resolveImplClassForClass ::
  "('f \<Rightarrow> nat \<Rightarrow> 'i option) \<Rightarrow> string \<Rightarrow> 'i option \<Rightarrow> ('f, 'i) di_container \<Rightarrow>
   ('f, 'i) di_container \<times> (di_exception + 'i)" where
  "resolveImplClassForClass build cls defaultClass = resolveKey build (keyForClass cls) (Some defaultClass)"

section \<open>Interleavings\<close>

text \<open>
  \<open>EvBegin t k\<close> is the read of a resolution of \<open>k\<close> by the thread \<open>t\<close>, \<open>EvFinish t\<close> the rest of it.
  The outcomes are the resolutions that returned or raised, in order.
\<close>

datatype 'f di_event =
    EvRegister string di_lifetime 'f
  | EvReset
  | EvBegin nat string
  | EvFinish nat

record ('f, 'i) di_system =
  sysContainer :: "('f, 'i) di_container"
  sysPending :: "(nat, string \<times> 'f di_entry) dict"
  sysOutcomes :: "(nat \<times> string \<times> (di_exception + 'i)) list"

definition outcome :: "nat \<Rightarrow> string \<Rightarrow> (di_exception + 'i) \<Rightarrow> ('f, 'i) di_system \<Rightarrow> ('f, 'i) di_system" where
  "outcome t key r s = s\<lparr>sysOutcomes := sysOutcomes s @ [(t, key, r)]\<rparr>"

fun run_event :: "('f \<Rightarrow> nat \<Rightarrow> 'i option) \<Rightarrow> 'f di_event \<Rightarrow> ('f, 'i) di_system \<Rightarrow> ('f, 'i) di_system" where
  "run_event build (EvRegister key lifetime f) s =
     s\<lparr>sysContainer := registerKey key lifetime f (sysContainer s)\<rparr>"
| "run_event build EvReset s = s\<lparr>sysContainer := di_reset (sysContainer s)\<rparr>"
| "run_event build (EvBegin t key) s =
     (case readKey key (sysContainer s) of
        ReadCached i \<Rightarrow> outcome t key (Inr i) s
      | ReadEntry e \<Rightarrow> s\<lparr>sysPending := dict_put t (key, e) (sysPending s)\<rparr>
      | ReadNothing \<Rightarrow> outcome t key (Inl NSInternalInconsistencyException) s)"
| "run_event build (EvFinish t) s =
     (case dict_get (sysPending s) t of
        None \<Rightarrow> s
      | Some (key, e) \<Rightarrow>
          (case finishEntry build key e (sysContainer s) of
             (c, r) \<Rightarrow> outcome t key r
               (s\<lparr>sysContainer := c, sysPending := dict_del t (sysPending s)\<rparr>)))"

definition run_events ::
  "('f \<Rightarrow> nat \<Rightarrow> 'i option) \<Rightarrow> 'f di_event list \<Rightarrow> ('f, 'i) di_system \<Rightarrow> ('f, 'i) di_system" where
  "run_events build evs s = fold (run_event build) evs s"

definition start_system :: "('f, 'i) di_container \<Rightarrow> ('f, 'i) di_system" where
  "start_system c = \<lparr>sysContainer = c, sysPending = [], sysOutcomes = []\<rparr>"

definition evicts :: "string \<Rightarrow> 'f di_event \<Rightarrow> bool" where
  "evicts key ev = (case ev of EvRegister k _ _ \<Rightarrow> k = key | EvReset \<Rightarrow> True | _ \<Rightarrow> False)"

definition answers :: "string \<Rightarrow> ('f, 'i) di_system \<Rightarrow> 'i set" where
  "answers key s = {i. \<exists>t. (t, key, Inr i) \<in> set (sysOutcomes s)}"

section \<open>Lemmas\<close>

named_theorems di_simps

lemma keys_apart [simp]: "keyForClass a \<noteq> keyForProtocol b" "keyForProtocol b \<noteq> keyForClass a"
  by (auto simp: keyForClass_def keyForProtocol_def)

lemma keyForClass_inject [simp]: "keyForClass a = keyForClass b \<longleftrightarrow> a = b"
  by (simp add: keyForClass_def)

lemma keyForProtocol_inject [simp]: "keyForProtocol a = keyForProtocol b \<longleftrightarrow> a = b"
  by (simp add: keyForProtocol_def)

lemma run_events_simps [simp]:
  "run_events build [] s = s"
  "run_events build (ev # evs) s = run_events build evs (run_event build ev s)"
  by (simp_all add: run_events_def)

lemma run_events_append [simp]:
  "run_events build (xs @ ys) s = run_events build ys (run_events build xs s)"
  by (simp add: run_events_def)

lemma answers_outcome [simp]:
  "answers key (outcome t k r s) =
     (case r of Inr i \<Rightarrow> if k = key then insert i (answers key s) else answers key s | Inl _ \<Rightarrow> answers key s)"
  by (auto simp: answers_def outcome_def split: sum.split)

lemma outcome_select [simp]:
  "sysContainer (outcome t k r s) = sysContainer s" "sysPending (outcome t k r s) = sysPending s"
  by (simp_all add: outcome_def)

lemma answers_update [simp]:
  "answers key (s\<lparr>sysContainer := c\<rparr>) = answers key s"
  "answers key (s\<lparr>sysPending := p\<rparr>) = answers key s"
  by (simp_all add: answers_def)

lemma finishEntry_entries [simp]: "entryByKey (fst (finishEntry build k e c)) = entryByKey c"
  by (auto simp: finishEntry_def callFactory_def split: di_lifetime.split option.split prod.split)

definition singleton_entry :: "'f \<Rightarrow> 'f di_entry" where
  "singleton_entry f = \<lparr>entryLifetime = MSIDDIContainerLifetimeSingleton, entryFactory = f\<rparr>"

lemma finishEntry_singleton [di_simps]:
  "finishEntry build key (singleton_entry f) c =
     (case dict_get (singletonCache c) key of
        Some existing \<Rightarrow> (c, Inr existing)
      | None \<Rightarrow>
          (case build f (length (factoryCalls c)) of
             None \<Rightarrow> (c\<lparr>factoryCalls := factoryCalls c @ [f]\<rparr>, Inl NSInternalInconsistencyException)
           | Some i \<Rightarrow> (c\<lparr>factoryCalls := factoryCalls c @ [f],
                         singletonCache := dict_put key i (singletonCache c)\<rparr>, Inr i)))"
  by (auto simp: finishEntry_def singleton_entry_def callFactory_def split: option.split)

lemma finishEntry_other:
  "k \<noteq> key \<Longrightarrow> dict_get (singletonCache (fst (finishEntry build k e c))) key = dict_get (singletonCache c) key"
  "entryFactory e \<noteq> f \<Longrightarrow>
     count_list (factoryCalls (fst (finishEntry build k e c))) f = count_list (factoryCalls c) f"
  by (auto simp: finishEntry_def callFactory_def split: di_lifetime.split option.split prod.split)

text \<open>
  What holds of a key from its registration with the singleton factory \<open>f\<close> to its next eviction, if
  no other key uses \<open>f\<close>: every entry of the key, registered or held by a thread, is the registered
  one; the cached instance is the only answer so far; \<open>f\<close> made it, in the only call since.
\<close>

definition other_keys_avoid :: "string \<Rightarrow> 'f \<Rightarrow> 'f di_event \<Rightarrow> bool" where
  "other_keys_avoid key f ev = (case ev of EvRegister k _ g \<Rightarrow> k \<noteq> key \<longrightarrow> g \<noteq> f | _ \<Rightarrow> True)"

definition governed ::
  "('f \<Rightarrow> nat \<Rightarrow> 'i option) \<Rightarrow> string \<Rightarrow> 'f \<Rightarrow> nat \<Rightarrow> ('f, 'i) di_system \<Rightarrow> bool" where
  "governed build key f calls s \<longleftrightarrow>
     (\<forall>k e. dict_get (entryByKey (sysContainer s)) k = Some e
          \<longrightarrow> (if k = key then e = singleton_entry f else entryFactory e \<noteq> f)) \<and>
     (\<forall>t k e. dict_get (sysPending s) t = Some (k, e)
          \<longrightarrow> (if k = key then e = singleton_entry f else entryFactory e \<noteq> f)) \<and>
     answers key s \<subseteq> set_option (dict_get (singletonCache (sysContainer s)) key) \<and>
     (\<forall>i. dict_get (singletonCache (sysContainer s)) key = Some i \<longrightarrow> (\<exists>n. build f n = Some i)) \<and>
     count_list (factoryCalls (sysContainer s)) f =
       calls + (if dict_get (singletonCache (sysContainer s)) key = None then 0 else 1)"

lemma governed_finish:
  assumes g: "governed build key f calls s" and total: "\<And>n. build f n \<noteq> None"
    and p: "dict_get (sysPending s) t = Some (k, e)"
  shows "governed build key f calls (run_event build (EvFinish t) s)"
proof -
  obtain c r where fin: "finishEntry build k e (sysContainer s) = (c, r)"
    by (cases "finishEntry build k e (sysContainer s)")
  have c: "c = fst (finishEntry build k e (sysContainer s))" by (simp add: fin)
  have entries: "entryByKey c = entryByKey (sysContainer s)" using c by simp
  show ?thesis
  proof (cases "k = key")
    case True
    with g p have e: "e = singleton_entry f" by (auto simp: governed_def)
    show ?thesis
    proof (cases "dict_get (singletonCache (sysContainer s)) key")
      case (Some i)
      have "run_event build (EvFinish t) s = outcome t key (Inr i) (s\<lparr>sysPending := dict_del t (sysPending s)\<rparr>)"
        by (simp add: p True e di_simps Some)
      with g Some show ?thesis by (simp add: governed_def)
    next
      case None
      obtain i where i: "build f (length (factoryCalls (sysContainer s))) = Some i" using total by blast
      from g None have "answers key s = {}" by (simp add: governed_def)
      moreover have "run_event build (EvFinish t) s = outcome t key (Inr i)
          (s\<lparr>sysContainer := (sysContainer s)\<lparr>factoryCalls := factoryCalls (sysContainer s) @ [f],
              singletonCache := dict_put key i (singletonCache (sysContainer s))\<rparr>,
             sysPending := dict_del t (sysPending s)\<rparr>)"
        by (simp add: p True e di_simps None i)
      ultimately show ?thesis using g None i by (simp add: governed_def) blast
    qed
  next
    case False
    with g p have e: "entryFactory e \<noteq> f" by (auto simp: governed_def)
    have "dict_get (singletonCache c) key = dict_get (singletonCache (sysContainer s)) key"
      using finishEntry_other(1) [OF False] c by metis
    moreover have "count_list (factoryCalls c) f = count_list (factoryCalls (sysContainer s)) f"
      using finishEntry_other(2) [OF e] c by metis
    moreover have "run_event build (EvFinish t) s =
        outcome t k r (s\<lparr>sysContainer := c, sysPending := dict_del t (sysPending s)\<rparr>)"
      by (simp add: p fin)
    ultimately show ?thesis using g False entries
      by (simp add: governed_def split: sum.split)
  qed
qed

lemma governed_step:
  assumes g: "governed build key f calls s" and total: "\<And>n. build f n \<noteq> None"
    and ev: "\<not> evicts key ev" "other_keys_avoid key f ev"
  shows "governed build key f calls (run_event build ev s)"
proof (cases ev)
  case (EvRegister k l h)
  with g ev show ?thesis by (auto simp: governed_def registerKey_def evicts_def other_keys_avoid_def)
next
  case EvReset
  with ev show ?thesis by (simp add: evicts_def)
next
  case (EvBegin t k)
  with g show ?thesis
    by (auto simp: governed_def readKey_def split: option.splits)
next
  case (EvFinish t)
  with g governed_finish [OF g total] show ?thesis
    by (cases "dict_get (sysPending s) t") auto
qed

lemma governed_run:
  "governed build key f calls s \<Longrightarrow> (\<And>n. build f n \<noteq> None) \<Longrightarrow>
   \<forall>ev \<in> set evs. \<not> evicts key ev \<and> other_keys_avoid key f ev \<Longrightarrow>
   governed build key f calls (run_events build evs s)"
  by (induction evs arbitrary: s) (simp_all add: governed_step)

lemma governed_answers:
  assumes "governed build key f calls s"
  shows "(\<forall>i \<in> answers key s. \<forall>j \<in> answers key s. i = j \<and> (\<exists>n. build f n = Some i)) \<and>
         count_list (factoryCalls (sysContainer s)) f \<le> Suc calls"
proof -
  have sub: "answers key s \<subseteq> set_option (dict_get (singletonCache (sysContainer s)) key)"
    and made: "\<And>i. dict_get (singletonCache (sysContainer s)) key = Some i \<Longrightarrow> \<exists>n. build f n = Some i"
    and "count_list (factoryCalls (sysContainer s)) f \<le> Suc calls"
    using assms by (simp_all add: governed_def)
  moreover from sub made have "\<forall>i \<in> answers key s. \<forall>j \<in> answers key s. i = j \<and> (\<exists>n. build f n = Some i)"
    by (cases "dict_get (singletonCache (sysContainer s)) key") auto
  ultimately show ?thesis by blast
qed

section \<open>Properties\<close>


definition race_schedule :: "string \<Rightarrow> nat di_event list" where
  "race_schedule key = [EvBegin 1 key, EvBegin 2 key, EvFinish 2, EvBegin 3 key, EvFinish 1]"


text \<open>
  A replaced factory can still win: when a thread has read the entry of a key and the key is
  registered again before the thread goes on, the thread caches the instance of the replaced factory,
  and every later resolution answers it although the new factory was registered before that
  instance was made.
\<close>

theorem replaced_factory_is_cached:
  "sysOutcomes (run_events (\<lambda>f n. Some (h f n))
     [EvRegister key MSIDDIContainerLifetimeSingleton old, EvBegin 1 key,
      EvRegister key MSIDDIContainerLifetimeSingleton new, EvFinish 1, EvBegin 2 key]
     (start_system c)) = [(1, key, Inr (h old (length (factoryCalls c)))),
                          (2, key, Inr (h old (length (factoryCalls c))))]"
  by (simp add: start_system_def registerKey_def readKey_def finishEntry_def callFactory_def outcome_def)

text \<open>
  The two atomic parts of a resolution, run with nothing in between, are
  \<open>resolveKey:description:defaultProvider:\<close> without a default provider.
\<close>

theorem resolution_is_read_then_finish:
  "run_events build [EvBegin t key, EvFinish t] (start_system c) =
     \<lparr>sysContainer = fst (resolveKey build key None c), sysPending = [],
      sysOutcomes = [(t, key, snd (resolveKey build key None c))]\<rparr>"
  by (cases "readKey key c")
     (simp_all add: start_system_def resolveKey_def outcome_def split: prod.split)

text \<open>
  A misregistered class cannot break a class seam: resolving a protocol with a default class
  answers a class that conforms to the protocol or the default itself; when it had to fall back, the
  key is cleared so that the next resolution answers the default at once; it raises only when a
  factory answered nil, and then nothing was cached.
\<close>

theorem protocol_seam_heals:
  "case resolveImplClassForProtocol conforms build proto (Some d) c of
     (c', Inl e) \<Rightarrow> (\<exists>f n. build f n = None) \<and> singletonCache c' = singletonCache c
   | (c', Inr None) \<Rightarrow> False
   | (c', Inr (Some cls)) \<Rightarrow>
       conforms cls proto \<or>
       cls = d \<and> resolveKey build (keyForProtocol proto) (Some (Some d)) c' = (c', Inr d)"
proof -
  have nil: "(\<exists>f n. build f n = None) \<and> singletonCache c' = singletonCache c"
    if "resolveKey build key (Some (Some d)) c = (c', Inl e)" for key c' e
    using that
    by (auto simp: resolveKey_def finishEntry_def callFactory_def
             split: di_read.splits di_lifetime.splits option.splits)
  have evicted: "resolveKey build key (Some (Some d)) (evictKey key c') = (evictKey key c', Inr d)" for key c'
    by (simp add: resolveKey_def readKey_def evictKey_def)
  show ?thesis
  proof (cases "resolveKey build (keyForProtocol proto) (Some (Some d)) c")
    case (Pair c' r)
    then show ?thesis using nil [of "keyForProtocol proto"] evicted
      by (cases r) (auto simp: resolveImplClassForProtocol_def)
  qed
qed

end
