(* ===== verification/ExecutionFlow.thy ===== *)
theory ExecutionFlow
  imports Foundation "HOL-Library.Multiset"
begin

text \<open>
  \<open>telemetry/execution_flow/\<close>: the record of the steps a request went through. Every request has a
  flow of at most 50 blobs, the logger keeps at most 200 flows. The calls of the logger check their
  arguments at once and leave the work to a serial queue; here the queue is a list of blocks,
  \<open>run_next_block\<close> runs its first block, and a history is any sequence of calls and block runs.
  \<open>ser\<close> is \<open>MSIDJsonSerializer\<close> (\<open>NSJSONSerialization\<close>), None standing for nil. The writing queue
  of a flow is serial and is entered from the logger's queue only, so its blocks run in the order of
  the logger's. The thread id and the time are arguments.
\<close>

declare map_of_eq_Some_iff [simp del]
declare Some_eq_map_of_iff [simp del]

section \<open>Tags\<close>

datatype execution_flow_network_tag =
    MSIDPrepareNetworkRequestTag
  | MSIDCacheResponseFailedObjectTag
  | MSIDCacheResponseSucceededObjectTag
  | MSIDReceiveNetworkResponseTag
  | MSIDRetryOnNetworkFailureTag
  | MSIDStartToRetryOnNetworkFailureTag
  | MSIDParseNetworkResponseTag
  | MSIDOtherHttpNetworkStatusCodeTag

fun MSIDExecutionFlowNetworkTagToString :: "execution_flow_network_tag \<Rightarrow> string" where
  "MSIDExecutionFlowNetworkTagToString MSIDPrepareNetworkRequestTag = ''iq24n''"
| "MSIDExecutionFlowNetworkTagToString MSIDCacheResponseFailedObjectTag = ''twoty''"
| "MSIDExecutionFlowNetworkTagToString MSIDCacheResponseSucceededObjectTag = ''n3416''"
| "MSIDExecutionFlowNetworkTagToString MSIDReceiveNetworkResponseTag = ''xfx8w''"
| "MSIDExecutionFlowNetworkTagToString MSIDRetryOnNetworkFailureTag = ''rz95n''"
| "MSIDExecutionFlowNetworkTagToString MSIDStartToRetryOnNetworkFailureTag = ''6f7qc''"
| "MSIDExecutionFlowNetworkTagToString MSIDParseNetworkResponseTag = ''fxjo7''"
| "MSIDExecutionFlowNetworkTagToString MSIDOtherHttpNetworkStatusCodeTag = ''5kbvm''"

datatype token_request_tag =
    MSIDAtExpirationElapsedTag

fun MSIDTokenRequestTagToString :: "token_request_tag \<Rightarrow> string" where
  "MSIDTokenRequestTagToString MSIDAtExpirationElapsedTag = ''xilux''"

datatype request_controller_factory_tag =
    MSIDSilentControllerForParametersTag
  | MSIDSilentControllerShouldUseBrokerTag
  | MSIDSilentControllerCanPerformSsoExtTag
  | MSIDSilentControllerCanPerformBrokerXpcTag
  | MSIDSilentControllerNoBrokerFallbackTag
  | MSIDSilentControllerFinishTag
  | MSIDInteractiveControllerForParametersTag
  | MSIDInteractiveControllerShouldUseBrokerTag
  | MSIDInteractiveControllerCanPerformSsoExtTag
  | MSIDInteractiveControllerCanPerformBrokerXpcTag
  | MSIDInteractiveControllerNoBrokerFallbackTag
  | MSIDInteractiveControllerFinishTag

fun MSIDRequestControllerFactoryTagToString :: "request_controller_factory_tag \<Rightarrow> string" where
  "MSIDRequestControllerFactoryTagToString MSIDSilentControllerForParametersTag = ''9jwnp''"
| "MSIDRequestControllerFactoryTagToString MSIDSilentControllerShouldUseBrokerTag = ''fi9bq''"
| "MSIDRequestControllerFactoryTagToString MSIDSilentControllerCanPerformSsoExtTag = ''e1r45''"
| "MSIDRequestControllerFactoryTagToString MSIDSilentControllerCanPerformBrokerXpcTag = ''ahpij''"
| "MSIDRequestControllerFactoryTagToString MSIDSilentControllerNoBrokerFallbackTag = ''e3qe8''"
| "MSIDRequestControllerFactoryTagToString MSIDSilentControllerFinishTag = ''0vik0''"
| "MSIDRequestControllerFactoryTagToString MSIDInteractiveControllerForParametersTag = ''go2o4''"
| "MSIDRequestControllerFactoryTagToString MSIDInteractiveControllerShouldUseBrokerTag = ''wj1z1''"
| "MSIDRequestControllerFactoryTagToString MSIDInteractiveControllerCanPerformSsoExtTag = ''vfl3d''"
| "MSIDRequestControllerFactoryTagToString MSIDInteractiveControllerCanPerformBrokerXpcTag = ''wyxmu''"
| "MSIDRequestControllerFactoryTagToString MSIDInteractiveControllerNoBrokerFallbackTag = ''beb43''"
| "MSIDRequestControllerFactoryTagToString MSIDInteractiveControllerFinishTag = ''29h5q''"

datatype sso_remote_interactive_token_request_tag =
    MSIDInteractiveResolveAuthorityTag
  | MSIDInteractiveHandleOperationResponseTag
  | MSIDInteractiveCompletionTag
  | MSIDLegacyBrokerInteractiveCompletionTag

fun MSIDSSORemoteInteractiveTokenRequestTagToString :: "sso_remote_interactive_token_request_tag \<Rightarrow> string" where
  "MSIDSSORemoteInteractiveTokenRequestTagToString MSIDInteractiveResolveAuthorityTag = ''ea0zm''"
| "MSIDSSORemoteInteractiveTokenRequestTagToString MSIDInteractiveHandleOperationResponseTag = ''7iqlk''"
| "MSIDSSORemoteInteractiveTokenRequestTagToString MSIDInteractiveCompletionTag = ''vy42f''"
| "MSIDSSORemoteInteractiveTokenRequestTagToString MSIDLegacyBrokerInteractiveCompletionTag = ''xbxa9''"

datatype sso_remote_silent_token_request_tag =
    MSIDSilentResolveAuthorityTag
  | MSIDSilentHandleOperationResponseTag
  | MSIDSilentCompletionTag

fun MSIDSSORemoteSilentTokenRequestTagToString :: "sso_remote_silent_token_request_tag \<Rightarrow> string" where
  "MSIDSSORemoteSilentTokenRequestTagToString MSIDSilentResolveAuthorityTag = ''n3rpu''"
| "MSIDSSORemoteSilentTokenRequestTagToString MSIDSilentHandleOperationResponseTag = ''u46x0''"
| "MSIDSSORemoteSilentTokenRequestTagToString MSIDSilentCompletionTag = ''x8cgg''"

datatype cloud_instance_host_name_tag =
    MSIDCloudInstanceHostNameIgnoredTag

fun MSIDCloudInstanceHostNameTagToString :: "cloud_instance_host_name_tag \<Rightarrow> string" where
  "MSIDCloudInstanceHostNameTagToString MSIDCloudInstanceHostNameIgnoredTag = ''lziv8''"

datatype pkey_auth_tag =
    MSIDPkeyAuthAddedRefreshTokenCredentialTag
  | MSIDPkeyAuthSkippedRefreshTokenCredentialUntrustedHostTag

fun MSIDPkeyAuthTagToString :: "pkey_auth_tag \<Rightarrow> string" where
  "MSIDPkeyAuthTagToString MSIDPkeyAuthAddedRefreshTokenCredentialTag = ''p5e7g''"
| "MSIDPkeyAuthTagToString MSIDPkeyAuthSkippedRefreshTokenCredentialUntrustedHostTag = ''mi1dp''"

definition execution_flow_tags :: "string list" where
  "execution_flow_tags =
     map MSIDExecutionFlowNetworkTagToString
       [MSIDPrepareNetworkRequestTag, MSIDCacheResponseFailedObjectTag, MSIDCacheResponseSucceededObjectTag, MSIDReceiveNetworkResponseTag, MSIDRetryOnNetworkFailureTag, MSIDStartToRetryOnNetworkFailureTag, MSIDParseNetworkResponseTag, MSIDOtherHttpNetworkStatusCodeTag] @
     map MSIDTokenRequestTagToString
       [MSIDAtExpirationElapsedTag] @
     map MSIDRequestControllerFactoryTagToString
       [MSIDSilentControllerForParametersTag, MSIDSilentControllerShouldUseBrokerTag, MSIDSilentControllerCanPerformSsoExtTag, MSIDSilentControllerCanPerformBrokerXpcTag, MSIDSilentControllerNoBrokerFallbackTag, MSIDSilentControllerFinishTag, MSIDInteractiveControllerForParametersTag, MSIDInteractiveControllerShouldUseBrokerTag, MSIDInteractiveControllerCanPerformSsoExtTag, MSIDInteractiveControllerCanPerformBrokerXpcTag, MSIDInteractiveControllerNoBrokerFallbackTag, MSIDInteractiveControllerFinishTag] @
     map MSIDSSORemoteInteractiveTokenRequestTagToString
       [MSIDInteractiveResolveAuthorityTag, MSIDInteractiveHandleOperationResponseTag, MSIDInteractiveCompletionTag, MSIDLegacyBrokerInteractiveCompletionTag] @
     map MSIDSSORemoteSilentTokenRequestTagToString
       [MSIDSilentResolveAuthorityTag, MSIDSilentHandleOperationResponseTag, MSIDSilentCompletionTag] @
     map MSIDCloudInstanceHostNameTagToString
       [MSIDCloudInstanceHostNameIgnoredTag] @
     map MSIDPkeyAuthTagToString
       [MSIDPkeyAuthAddedRefreshTokenCredentialTag, MSIDPkeyAuthSkippedRefreshTokenCredentialUntrustedHostTag]"

section \<open>Blobs\<close>

type_synonym flow_blob = "(string, nsobj) dict"

definition reserved_flow_keys :: "string list" where
  "reserved_flow_keys = [''t'', ''ts'', ''tid'']"

definition initFlowBlob :: "string option \<Rightarrow> int option \<Rightarrow> nat option \<Rightarrow> flow_blob option" where
  "initFlowBlob tag ts tid =
     (if msidIsStringNilOrBlank tag \<or> ts = None \<or> tid = None then None
      else Some [(''t'', NSStr (the tag)), (''ts'', NSNum (of_int (the ts))), (''tid'', NSNum (of_nat (the tid)))])"

definition blob_setObject :: "nsobj \<Rightarrow> string option \<Rightarrow> flow_blob \<Rightarrow> flow_blob" where
  "blob_setObject obj key blob =
     (if msidIsStringNilOrBlank key then blob
      else if the key \<in> set reserved_flow_keys then blob
      else if class_of obj = NSStringClass \<or> class_of obj = NSNumberClass then dict_put (the key) obj blob
      else blob)"

text \<open>The query keys are a set; a nil set is empty.\<close>

definition convertDictionary :: "(flow_blob \<Rightarrow> string option) \<Rightarrow> string list \<Rightarrow> flow_blob \<Rightarrow> string option" where
  "convertDictionary ser queryKeys d =
     (if queryKeys = [] then ser d
      else ser (filter (\<lambda>(k, v). k \<in> set reserved_flow_keys \<or> k \<in> set queryKeys) d))"

definition blobToStringWithKeys :: "(flow_blob \<Rightarrow> string option) \<Rightarrow> string list \<Rightarrow> flow_blob \<Rightarrow> string option" where
  "blobToStringWithKeys ser queryKeys blob = convertDictionary ser queryKeys blob"

section \<open>Flows\<close>

definition MAX_EXECUTION_FLOW_SIZE :: nat where
  "MAX_EXECUTION_FLOW_SIZE = 50"

record execution_flow =
  flowBlobs :: "flow_blob list"
  flowStartTime :: "nsdate option"

definition initExecutionFlow :: execution_flow where
  "initExecutionFlow = \<lparr>flowBlobs = [], flowStartTime = None\<rparr>"

definition appendBlob :: "flow_blob \<Rightarrow> flow_blob list \<Rightarrow> flow_blob list" where
  "appendBlob blob blobs =
     (if MAX_EXECUTION_FLOW_SIZE \<le> length blobs then tl blobs @ [blob] else blobs @ [blob])"

definition flow_insertTag ::
  "string option \<Rightarrow> nsdate option \<Rightarrow> nat option \<Rightarrow> (string, nsobj) dict option \<Rightarrow>
   execution_flow \<Rightarrow> execution_flow" where
  "flow_insertTag tag triggeringTime tid info f =
     (if msidIsStringNilOrBlank tag then f
      else if tid = None then f
      else
        (case triggeringTime of
           None \<Rightarrow> f
         | Some t \<Rightarrow>
             (let interval = (case flowStartTime f of None \<Rightarrow> 0 | Some s \<Rightarrow> t - s);
                  f = (case flowStartTime f of None \<Rightarrow> f\<lparr>flowStartTime := Some t\<rparr> | Some _ \<Rightarrow> f);
                  ts = trunc_rat (interval * 1000)
              in (case initFlowBlob tag (Some ts) tid of
                    None \<Rightarrow> f
                  | Some blob \<Rightarrow>
                      f\<lparr>flowBlobs := appendBlob
                          (fold (\<lambda>(k, v). blob_setObject v (Some k))
                             (case info of None \<Rightarrow> [] | Some d \<Rightarrow> d) blob)
                          (flowBlobs f)\<rparr>))))"

text \<open>The loop: a comma follows every serialised blob but the one at the last index.\<close>

fun export_blobs :: "(flow_blob \<Rightarrow> string option) \<Rightarrow> string list \<Rightarrow> flow_blob list \<Rightarrow> string" where
  "export_blobs ser keys [] = []"
| "export_blobs ser keys (b # bs) =
     (case blobToStringWithKeys ser keys b of
        None \<Rightarrow> export_blobs ser keys bs
      | Some json \<Rightarrow> json @ (if bs = [] then [] else '','') @ export_blobs ser keys bs)"

definition exportExecutionFlowToJSONs ::
  "(flow_blob \<Rightarrow> string option) \<Rightarrow> string list \<Rightarrow> execution_flow \<Rightarrow> string option" where
  "exportExecutionFlowToJSONs ser queryKeys f =
     (let jsonArray = ''['' @ export_blobs ser queryKeys (flowBlobs f) @ '']''
      in if jsonArray = ''[]'' then None else Some jsonArray)"

section \<open>The logger\<close>

definition MAX_EXECUTION_FLOW_ELIMINATION_POOL_SIZE :: nat where
  "MAX_EXECUTION_FLOW_ELIMINATION_POOL_SIZE = 200"

text \<open>Blocks on the queue; the last argument of \<open>BRetrieve\<close> names the caller's completion block.\<close>

datatype flow_block =
    BRegister string
  | BInsert string nat nsdate "(string, nsobj) dict option" string
  | BRetrieve string "string list" bool nat
  | BRemoveAll

record flow_logger =
  loggerEnabled :: bool
  executionFlowMap :: "(string, execution_flow) dict"
  loggerQueue :: "flow_block list"
  loggerCompletions :: "(nat \<times> string option) list"

definition initFlowLogger :: flow_logger where
  "initFlowLogger =
     \<lparr>loggerEnabled = True, executionFlowMap = [], loggerQueue = [], loggerCompletions = []\<rparr>"

definition enqueue :: "flow_block \<Rightarrow> flow_logger \<Rightarrow> flow_logger" where
  "enqueue b l = l\<lparr>loggerQueue := loggerQueue l @ [b]\<rparr>"

definition completed :: "nat \<Rightarrow> string option \<Rightarrow> flow_logger \<Rightarrow> flow_logger" where
  "completed r result l = l\<lparr>loggerCompletions := loggerCompletions l @ [(r, result)]\<rparr>"

definition registerExecutionFlow :: "string option \<Rightarrow> flow_logger \<Rightarrow> flow_logger" where
  "registerExecutionFlow correlationId l =
     (if \<not> loggerEnabled l then l
      else if msidIsStringNilOrBlank correlationId then l
      else enqueue (BRegister (the correlationId)) l)"

definition logger_insertTag ::
  "string option \<Rightarrow> (string, nsobj) dict option \<Rightarrow> string option \<Rightarrow> nat \<Rightarrow> nsdate \<Rightarrow>
   flow_logger \<Rightarrow> flow_logger" where
  "logger_insertTag tag info correlationId tid triggeringTime l =
     (if \<not> loggerEnabled l then l
      else if msidIsStringNilOrBlank tag then l
      else if msidIsStringNilOrBlank correlationId then l
      else enqueue (BInsert (the tag) tid triggeringTime info (the correlationId)) l)"

definition retrieveExecutionFlow ::
  "string option \<Rightarrow> string list \<Rightarrow> bool \<Rightarrow> nat \<Rightarrow> flow_logger \<Rightarrow> flow_logger" where
  "retrieveExecutionFlow correlationId queryKeys shouldFlush r l =
     (if \<not> loggerEnabled l then completed r None l
      else if msidIsStringNilOrBlank correlationId then completed r None l
      else enqueue (BRetrieve (the correlationId) queryKeys shouldFlush r) l)"

definition logger_flush :: "flow_logger \<Rightarrow> flow_logger" where
  "logger_flush l = (if \<not> loggerEnabled l then l else enqueue BRemoveAll l)"

definition logger_setEnabled :: "bool \<Rightarrow> flow_logger \<Rightarrow> flow_logger" where
  "logger_setEnabled enabled l =
     (let l = l\<lparr>loggerEnabled := enabled\<rparr> in if \<not> enabled then enqueue BRemoveAll l else l)"

text \<open>The blocks, as they run on the queue.\<close>

fun run_block :: "(flow_blob \<Rightarrow> string option) \<Rightarrow> flow_block \<Rightarrow> flow_logger \<Rightarrow> flow_logger" where
  "run_block ser (BRegister correlationId) l =
     (if \<not> loggerEnabled l then l
      else if MAX_EXECUTION_FLOW_ELIMINATION_POOL_SIZE \<le> length (executionFlowMap l) then l
      else if dict_get (executionFlowMap l) correlationId \<noteq> None then l
      else l\<lparr>executionFlowMap := dict_put correlationId initExecutionFlow (executionFlowMap l)\<rparr>)"
| "run_block ser (BInsert tag tid triggeringTime info correlationId) l =
     (if \<not> loggerEnabled l then l
      else
        (case dict_get (executionFlowMap l) correlationId of
           None \<Rightarrow> l
         | Some f \<Rightarrow>
             l\<lparr>executionFlowMap := dict_put correlationId
                 (flow_insertTag (Some tag) (Some triggeringTime) (Some tid) info f)
                 (executionFlowMap l)\<rparr>))"
| "run_block ser (BRetrieve correlationId queryKeys shouldFlush r) l =
     (if \<not> loggerEnabled l then completed r None l
      else
        (let flow = dict_get (executionFlowMap l) correlationId;
             l = (if shouldFlush then l\<lparr>executionFlowMap := dict_del correlationId (executionFlowMap l)\<rparr> else l)
         in completed r (Option.bind flow (exportExecutionFlowToJSONs ser queryKeys)) l))"
| "run_block ser BRemoveAll l = l\<lparr>executionFlowMap := []\<rparr>"

definition run_next_block :: "(flow_blob \<Rightarrow> string option) \<Rightarrow> flow_logger \<Rightarrow> flow_logger" where
  "run_next_block ser l =
     (case loggerQueue l of [] \<Rightarrow> l | b # bs \<Rightarrow> run_block ser b (l\<lparr>loggerQueue := bs\<rparr>))"

text \<open>The queue run until it is empty.\<close>

definition drain :: "(flow_blob \<Rightarrow> string option) \<Rightarrow> flow_logger \<Rightarrow> flow_logger" where
  "drain ser l = ((run_next_block ser) ^^ (length (loggerQueue l))) l"

section \<open>Histories\<close>

datatype flow_call =
    CRegister "string option"
  | CInsert "string option" "(string, nsobj) dict option" "string option" nat nsdate
  | CRetrieve "string option" "string list" bool nat
  | CFlush
  | CSetEnabled bool
  | CRunBlock

fun run_call :: "(flow_blob \<Rightarrow> string option) \<Rightarrow> flow_call \<Rightarrow> flow_logger \<Rightarrow> flow_logger" where
  "run_call ser (CRegister correlationId) l = registerExecutionFlow correlationId l"
| "run_call ser (CInsert tag info correlationId tid time) l =
     logger_insertTag tag info correlationId tid time l"
| "run_call ser (CRetrieve correlationId keys shouldFlush r) l =
     retrieveExecutionFlow correlationId keys shouldFlush r l"
| "run_call ser CFlush l = logger_flush l"
| "run_call ser (CSetEnabled enabled) l = logger_setEnabled enabled l"
| "run_call ser CRunBlock l = run_next_block ser l"

definition run_calls :: "(flow_blob \<Rightarrow> string option) \<Rightarrow> flow_call list \<Rightarrow> flow_logger \<Rightarrow> flow_logger" where
  "run_calls ser cs l = fold (run_call ser) cs l"

section \<open>Bounds\<close>

text \<open>
  Every flow has at most 50 blobs, each with the tag, time and thread it was inserted with, and there
  are at most 200 flows.
\<close>

definition blob_ok :: "flow_blob \<Rightarrow> bool" where
  "blob_ok b \<longleftrightarrow> distinct (dict_keys b) \<and>
     (\<exists>tag. dict_get b ''t'' = Some (NSStr tag)) \<and>
     (\<exists>ts. dict_get b ''ts'' = Some (NSNum ts)) \<and>
     (\<exists>tid. dict_get b ''tid'' = Some (NSNum tid))"

definition flow_ok :: "execution_flow \<Rightarrow> bool" where
  "flow_ok f \<longleftrightarrow> length (flowBlobs f) \<le> MAX_EXECUTION_FLOW_SIZE \<and> (\<forall>b \<in> set (flowBlobs f). blob_ok b)"

definition logger_ok :: "flow_logger \<Rightarrow> bool" where
  "logger_ok l \<longleftrightarrow>
     distinct (dict_keys (executionFlowMap l)) \<and>
     length (executionFlowMap l) \<le> MAX_EXECUTION_FLOW_ELIMINATION_POOL_SIZE \<and>
     (\<forall>k f. dict_get (executionFlowMap l) k = Some f \<longrightarrow> flow_ok f)"

lemma blob_ok_set [simp]: "blob_ok b \<Longrightarrow> blob_ok (blob_setObject v k b)"
  by (auto simp: blob_ok_def blob_setObject_def reserved_flow_keys_def)

lemma blob_ok_fold: "blob_ok b \<Longrightarrow> blob_ok (fold (\<lambda>(k, v). blob_setObject v (Some k)) d b)"
  by (induction d arbitrary: b) auto

lemma blob_ok_init: "initFlowBlob tag ts tid = Some b \<Longrightarrow> blob_ok b"
  by (auto simp: initFlowBlob_def blob_ok_def split: if_splits)

lemma appendBlob_ok:
  "blob_ok b \<Longrightarrow> length bs \<le> MAX_EXECUTION_FLOW_SIZE \<Longrightarrow> \<forall>x \<in> set bs. blob_ok x \<Longrightarrow>
   length (appendBlob b bs) \<le> MAX_EXECUTION_FLOW_SIZE \<and> (\<forall>x \<in> set (appendBlob b bs). blob_ok x)"
  by (cases bs) (auto simp: appendBlob_def MAX_EXECUTION_FLOW_SIZE_def)

lemma flow_ok_init [simp]: "flow_ok initExecutionFlow"
  by (simp add: flow_ok_def initExecutionFlow_def)

lemma flow_ok_start [simp]:
  "flow_ok (f\<lparr>flowStartTime := t\<rparr>) = flow_ok f"
  "flow_ok (f\<lparr>flowStartTime := t, flowBlobs := bs\<rparr>) = flow_ok (f\<lparr>flowBlobs := bs\<rparr>)"
  by (simp_all add: flow_ok_def)

lemma flow_ok_append:
  "flow_ok f \<Longrightarrow> blob_ok b \<Longrightarrow> flow_ok (f\<lparr>flowBlobs := appendBlob b (flowBlobs f)\<rparr>)"
  using appendBlob_ok [of b "flowBlobs f"] by (simp add: flow_ok_def)

lemma flow_ok_insert: "flow_ok f \<Longrightarrow> flow_ok (flow_insertTag tag time tid info f)"
  unfolding flow_insertTag_def Let_def
  by (auto split: option.split dest: blob_ok_init intro!: flow_ok_append blob_ok_fold)

lemma logger_ok_queue [simp]:
  "logger_ok (l\<lparr>loggerQueue := q\<rparr>) = logger_ok l" "logger_ok (l\<lparr>loggerEnabled := e\<rparr>) = logger_ok l"
  "logger_ok (completed r x l) = logger_ok l" "logger_ok (enqueue b l) = logger_ok l"
  by (simp_all add: logger_ok_def completed_def enqueue_def)

lemma logger_ok_init: "logger_ok initFlowLogger"
  by (simp add: logger_ok_def initFlowLogger_def)

lemma length_put_present:
  "dict_get d k \<noteq> None \<Longrightarrow> length (dict_put k v d) = length d"
  by (induction d) auto

lemma length_put_le: "length (dict_put k v d) \<le> Suc (length d)"
  by (induction d) auto

lemma logger_ok_put:
  assumes "logger_ok l" "flow_ok f"
    and "dict_get (executionFlowMap l) k \<noteq> None \<or> length (executionFlowMap l) < MAX_EXECUTION_FLOW_ELIMINATION_POOL_SIZE"
  shows "logger_ok (l\<lparr>executionFlowMap := dict_put k f (executionFlowMap l)\<rparr>)"
  using assms length_put_present [of "executionFlowMap l" k f] length_put_le [of k f "executionFlowMap l"]
  by (auto simp: logger_ok_def)

lemma logger_ok_del:
  "logger_ok l \<Longrightarrow> logger_ok (l\<lparr>executionFlowMap := dict_del k (executionFlowMap l)\<rparr>)"
  using length_delete_le [of k "executionFlowMap l"] by (auto simp: logger_ok_def)

lemma logger_ok_block: "logger_ok l \<Longrightarrow> logger_ok (run_block ser b l)"
proof (cases b)
  case (BRegister k)
  assume "logger_ok l"
  with BRegister show ?thesis by (auto intro!: logger_ok_put simp: not_le)
next
  case (BInsert tag tid time info k)
  assume l: "logger_ok l"
  then have "flow_ok (flow_insertTag (Some tag) (Some time) (Some tid) info f)"
    if "dict_get (executionFlowMap l) k = Some f" for f
    using that by (auto simp: logger_ok_def intro!: flow_ok_insert)
  with l BInsert show ?thesis by (auto intro!: logger_ok_put split: option.split)
next
  case (BRetrieve k keys fl r)
  assume "logger_ok l"
  with BRetrieve show ?thesis by (auto simp: Let_def intro: logger_ok_del)
next
  case BRemoveAll
  then show "logger_ok (run_block ser b l)" by (simp add: logger_ok_def)
qed

lemma logger_ok_call: "logger_ok l \<Longrightarrow> logger_ok (run_call ser c l)"
  by (cases c)
     (auto simp: registerExecutionFlow_def logger_insertTag_def retrieveExecutionFlow_def logger_flush_def
        logger_setEnabled_def run_next_block_def Let_def logger_ok_block split: list.split)

lemma logger_ok_calls: "logger_ok l \<Longrightarrow> logger_ok (run_calls ser cs l)"
  unfolding run_calls_def by (induction cs arbitrary: l) (simp_all add: logger_ok_call)

section \<open>Completions\<close>

fun block_retrievals :: "flow_block \<Rightarrow> nat list" where
  "block_retrievals (BRetrieve _ _ _ r) = [r]"
| "block_retrievals _ = []"

fun call_retrievals :: "flow_call \<Rightarrow> nat list" where
  "call_retrievals (CRetrieve _ _ _ r) = [r]"
| "call_retrievals _ = []"

definition completion_ids :: "flow_logger \<Rightarrow> nat list" where
  "completion_ids l = map fst (loggerCompletions l)"

definition queued_ids :: "flow_logger \<Rightarrow> nat list" where
  "queued_ids l = concat (map block_retrievals (loggerQueue l))"

lemma ids_enqueue [simp]:
  "completion_ids (enqueue b l) = completion_ids l"
  "queued_ids (enqueue b l) = queued_ids l @ block_retrievals b"
  by (simp_all add: completion_ids_def queued_ids_def enqueue_def)

lemma ids_completed [simp]:
  "completion_ids (completed r x l) = completion_ids l @ [r]"
  "queued_ids (completed r x l) = queued_ids l"
  by (simp_all add: completion_ids_def queued_ids_def completed_def)

lemma ids_update [simp]:
  "completion_ids (l\<lparr>loggerEnabled := e\<rparr>) = completion_ids l"
  "completion_ids (l\<lparr>executionFlowMap := m\<rparr>) = completion_ids l"
  "completion_ids (l\<lparr>loggerQueue := q\<rparr>) = completion_ids l"
  "queued_ids (l\<lparr>loggerEnabled := e\<rparr>) = queued_ids l"
  "queued_ids (l\<lparr>executionFlowMap := m\<rparr>) = queued_ids l"
  "queued_ids (l\<lparr>loggerQueue := q\<rparr>) = concat (map block_retrievals q)"
  by (simp_all add: completion_ids_def queued_ids_def)

lemma loggerQueue_block [simp]: "loggerQueue (run_block ser b l) = loggerQueue l"
  by (cases b) (simp_all add: completed_def Let_def split: option.split)

lemma ids_block:
  "completion_ids (run_block ser b l) = completion_ids l @ block_retrievals b"
  "queued_ids (run_block ser b l) = queued_ids l"
  by (cases b; simp add: Let_def split: option.split)+

lemma ids_next_block:
  "mset (completion_ids (run_next_block ser l)) + mset (queued_ids (run_next_block ser l)) =
   mset (completion_ids l) + mset (queued_ids l)"
  by (cases "loggerQueue l") (simp_all add: run_next_block_def ids_block queued_ids_def)

lemma ids_call:
  "mset (completion_ids (run_call ser c l)) + mset (queued_ids (run_call ser c l)) =
   mset (completion_ids l) + mset (queued_ids l) + mset (call_retrievals c)"
  by (cases c)
     (simp_all add: registerExecutionFlow_def logger_insertTag_def retrieveExecutionFlow_def
        logger_flush_def logger_setEnabled_def ids_next_block Let_def)

lemma ids_calls:
  "mset (completion_ids (run_calls ser cs l)) + mset (queued_ids (run_calls ser cs l)) =
   mset (completion_ids l) + mset (queued_ids l) + mset (concat (map call_retrievals cs))"
  unfolding run_calls_def
proof (induction cs arbitrary: l)
  case (Cons c cs)
  show ?case using Cons.IH [of "run_call ser c l"] ids_call [of ser c l] by simp
qed simp

lemma drain_simps:
  "loggerQueue l = [] \<Longrightarrow> drain ser l = l"
  "loggerQueue l = b # bs \<Longrightarrow> drain ser l = drain ser (run_block ser b (l\<lparr>loggerQueue := bs\<rparr>))"
  by (simp_all add: drain_def run_next_block_def funpow_swap1)

lemma drain_induct:
  assumes "\<And>l. loggerQueue l = [] \<Longrightarrow> P l l"
    and "\<And>l b bs. loggerQueue l = b # bs \<Longrightarrow>
           P (run_block ser b (l\<lparr>loggerQueue := bs\<rparr>)) (drain ser (run_block ser b (l\<lparr>loggerQueue := bs\<rparr>))) \<Longrightarrow>
           P l (drain ser (run_block ser b (l\<lparr>loggerQueue := bs\<rparr>)))"
  shows "P l (drain ser l)"
proof (induction "loggerQueue l" arbitrary: l)
  case Nil
  then show ?case using assms(1) [of l] drain_simps(1) [of l ser] by simp
next
  case (Cons b bs)
  then have "P (run_block ser b (l\<lparr>loggerQueue := bs\<rparr>)) (drain ser (run_block ser b (l\<lparr>loggerQueue := bs\<rparr>)))"
    by simp
  with Cons.hyps(2) show ?case using assms(2) [of l b bs] drain_simps(2) [of l b bs ser] by simp
qed

lemma drain_ids:
  "loggerQueue (drain ser l) = [] \<and> completion_ids (drain ser l) = completion_ids l @ queued_ids l"
  by (rule drain_induct) (simp_all add: queued_ids_def ids_block)

section \<open>Properties\<close>

text \<open>
  C10: Every completion block runs exactly once: whatever calls were made, in whatever order the blocks
  of the queue ran between them, running the queue to its end (which takes as many steps as there are
  blocks) empties it, and the retrievals that completed are exactly those that were asked for.
\<close>

theorem every_retrieval_completes:
  "let l = drain ser (run_calls ser cs initFlowLogger)
   in loggerQueue l = [] \<and> mset (completion_ids l) = mset (concat (map call_retrievals cs))"
proof -
  have "completion_ids initFlowLogger = []" "queued_ids initFlowLogger = []"
    by (simp_all add: initFlowLogger_def completion_ids_def queued_ids_def)
  then show ?thesis
    using drain_ids [of ser "run_calls ser cs initFlowLogger"] ids_calls [of ser cs initFlowLogger]
    by (simp add: Let_def)
qed

text \<open>
  C32: Whatever is called, the logger keeps at most 200 flows of at most 50 blobs, and every blob has
  its tag, time and thread, which no extra information can replace.
\<close>

theorem logger_stays_bounded:
  "let l = run_calls ser cs initFlowLogger
   in length (executionFlowMap l) \<le> 200 \<and>
      list_all (\<lambda>(k, f). length (flowBlobs f) \<le> 50 \<and> list_all blob_ok (flowBlobs f)) (executionFlowMap l)"
proof -
  have ok: "logger_ok (run_calls ser cs initFlowLogger)" by (rule logger_ok_calls [OF logger_ok_init])
  then have "flow_ok f" if "(k, f) \<in> set (executionFlowMap (run_calls ser cs initFlowLogger))" for k f
    using ok map_of_is_SomeI [OF _ that] by (auto simp: logger_ok_def)
  with ok show ?thesis
    by (auto simp: Let_def logger_ok_def flow_ok_def list_all_iff MAX_EXECUTION_FLOW_SIZE_def
        MAX_EXECUTION_FLOW_ELIMINATION_POOL_SIZE_def)
qed

text \<open>
  The tags of the execution flow enumerations are pairwise different and consist of five digits
  or lower-case letters, as the header of the tags promises.
\<close>

theorem execution_tags_are_unique:
  "distinct execution_flow_tags
   \<and> list_all (\<lambda>t. length t = 5 \<and> list_all (\<lambda>c. c \<in> set ''0123456789abcdefghijklmnopqrstuvwxyz'') t)
       execution_flow_tags"
  by (simp add: execution_flow_tags_def)

end
