(* ===== verification/RequestParameters.thy ===== *)
theory RequestParameters
  imports ScopeSets Constants ErrorCodes
begin

text \<open>
  \<open>parameters/MSIDRequestParameters.m\<close>, \<open>MSIDInteractiveTokenRequestParameters.m\<close>,
  \<open>configuration/MSIDConfiguration.m\<close> and \<open>oauth2/account/MSIDAccountIdentifier.m\<close>: the parameters of
  a token request, the configuration derived from them and kept in step with them by the setters, and
  the account hint among the request metadata. An authority is the record of the properties the
  parameters read of it; a correlation id is its UUID string; telemetry and SSO context objects are
  opaque strings, a claims request is the dictionary of its claims. \<open>tokenEndpoint\<close> (URL components)
  and the view objects of the interactive parameters are left out.
\<close>

section \<open>Account identifiers\<close>

datatype legacy_identifier_type =
    MSIDLegacyIdentifierTypeOptionalDisplayableId
  | MSIDLegacyIdentifierTypeRequiredDisplayableId
  | MSIDLegacyIdentifierTypeUniqueNonDisplayableId

record account_identifier =
  aiHomeAccountId :: "string option"
  aiDisplayableId :: "string option"
  aiLocalAccountId :: "string option"
  aiLegacyType :: legacy_identifier_type
  aiUid :: "string option"
  aiUtid :: "string option"

definition initAccountIdentifier :: "string option \<Rightarrow> string option \<Rightarrow> account_identifier" where
  "initAccountIdentifier legacyAccountId homeAccountId =
     (let parts = (case homeAccountId of None \<Rightarrow> [] | Some h \<Rightarrow> componentsSeparatedBy (CHR ''.'') h)
      in \<lparr>aiHomeAccountId = map_option msidNormalizedString homeAccountId,
          aiDisplayableId = legacyAccountId, aiLocalAccountId = None,
          aiLegacyType = MSIDLegacyIdentifierTypeRequiredDisplayableId,
          aiUid = (if length parts = 2 then Some (parts ! 0) else None),
          aiUtid = (if length parts = 2 then Some (parts ! 1) else None)\<rparr>)"

fun legacyAccountIdentifierTypeAsString :: "legacy_identifier_type \<Rightarrow> string" where
  "legacyAccountIdentifierTypeAsString MSIDLegacyIdentifierTypeOptionalDisplayableId = ''OptionalDisplayableId''"
| "legacyAccountIdentifierTypeAsString MSIDLegacyIdentifierTypeRequiredDisplayableId = ''RequiredDisplayableId''"
| "legacyAccountIdentifierTypeAsString MSIDLegacyIdentifierTypeUniqueNonDisplayableId = ''UniqueId''"

definition legacyAccountIdentifierTypeFromString :: "string option \<Rightarrow> legacy_identifier_type" where
  "legacyAccountIdentifierTypeFromString s =
     (if isEqualToString s (Some ''UniqueId'') then MSIDLegacyIdentifierTypeUniqueNonDisplayableId
      else if isEqualToString s (Some ''RequiredDisplayableId'') then MSIDLegacyIdentifierTypeRequiredDisplayableId
      else if isEqualToString s (Some ''OptionalDisplayableId'') then MSIDLegacyIdentifierTypeOptionalDisplayableId
      else MSIDLegacyIdentifierTypeOptionalDisplayableId)"

definition homeAccountIdentifierFromUid :: "string option \<Rightarrow> string option \<Rightarrow> string option" where
  "homeAccountIdentifierFromUid uid utid =
     (case (uid, utid) of
        (Some u, Some t) \<Rightarrow> Some (msidNormalizedString u @ ''.'' @ msidNormalizedString t)
      | _ \<Rightarrow> None)"

definition isAccountIdValid :: "string option \<Rightarrow> bool \<times> int option" where
  "isAccountIdValid accountId =
     (if msidIsStringNilOrBlank accountId then (False, Some (error_code ''MSIDErrorInvalidInternalParameter''))
      else if length (componentsSeparatedBy (CHR ''.'') (the accountId)) \<noteq> 2
      then (False, Some (error_code ''MSIDErrorInvalidInternalParameter''))
      else (True, None))"

definition account_identifier_copy :: "account_identifier \<Rightarrow> account_identifier" where
  "account_identifier_copy a = (initAccountIdentifier (aiDisplayableId a) (aiHomeAccountId a))\<lparr>
     aiLegacyType := aiLegacyType a, aiLocalAccountId := aiLocalAccountId a,
     aiUid := aiUid a, aiUtid := aiUtid a\<rparr>"

definition account_identifier_isEqual :: "account_identifier \<Rightarrow> account_identifier \<Rightarrow> bool" where
  "account_identifier_isEqual a b \<longleftrightarrow>
     eq_or_both_nil (aiHomeAccountId a) (aiHomeAccountId b) \<and>
     eq_or_both_nil (aiDisplayableId a) (aiDisplayableId b) \<and>
     eq_or_both_nil (aiLocalAccountId a) (aiLocalAccountId b) \<and>
     aiLegacyType a = aiLegacyType b"

definition initAccountIdentifierWithJSON :: "(string, nsobj) dict \<Rightarrow> account_identifier option" where
  "initAccountIdentifierWithJSON json =
     (let displayableId = msidStringObjectForKey json ''username'';
          homeAccountId = msidStringObjectForKey json ''home_account_id''
      in if displayableId = None \<and> homeAccountId = None then None
         else Some (initAccountIdentifier displayableId homeAccountId))"

definition accountIdentifier_json :: "account_identifier \<Rightarrow> (string, nsobj) dict option" where
  "accountIdentifier_json a =
     (if aiDisplayableId a = None \<and> aiHomeAccountId a = None then None
      else Some (dict_assign ''home_account_id'' (map_option NSStr (aiHomeAccountId a))
                  (dict_assign ''username'' (map_option NSStr (aiDisplayableId a)) [])))"

section \<open>Authentication schemes, authorities and configurations\<close>

record authentication_scheme =
  asAuthScheme :: auth_scheme_type
  asSchemeParameters :: "(string, string) dict"

definition initAuthenticationScheme :: authentication_scheme where
  "initAuthenticationScheme = \<lparr>asAuthScheme = MSIDAuthSchemeBearer, asSchemeParameters = []\<rparr>"

record authority =
  auUrl :: string
  auEnvironment :: "string option"
  auSupportsClientIDAsScope :: bool
  auSupportsMAMScenarios :: bool

record configuration =
  cfAuthority :: "authority option"
  cfRedirectUri :: "string option"
  cfClientId :: "string option"
  cfTarget :: "string option"
  cfAuthScheme :: "authentication_scheme option"
  cfNestedAuthBrokerClientId :: "string option"
  cfNestedAuthBrokerRedirectUri :: "string option"
  cfApplicationIdentifier :: "string option"
  cfResource :: "string option"
  cfScopes :: "string list option"

definition msidScopeSet :: "string option \<Rightarrow> string list option" where
  "msidScopeSet s = (case s of None \<Rightarrow> None | Some t \<Rightarrow> Some (msidOrderedSetFromString (Some t) False))"

definition initConfiguration ::
  "authority option \<Rightarrow> string option \<Rightarrow> string option \<Rightarrow> string option \<Rightarrow> string option \<Rightarrow>
   string option \<Rightarrow> configuration" where
  "initConfiguration authority redirectUri clientId target nestedClientId nestedRedirectUri =
     \<lparr>cfAuthority = authority, cfRedirectUri = redirectUri, cfClientId = clientId, cfTarget = target,
      cfAuthScheme = Some initAuthenticationScheme, cfNestedAuthBrokerClientId = nestedClientId,
      cfNestedAuthBrokerRedirectUri = nestedRedirectUri, cfApplicationIdentifier = None,
      cfResource = target, cfScopes = msidScopeSet target\<rparr>"

definition initConfigurationWithResource ::
  "authority option \<Rightarrow> string option \<Rightarrow> string option \<Rightarrow> string option \<Rightarrow> string list option \<Rightarrow>
   string option \<Rightarrow> string option \<Rightarrow> configuration" where
  "initConfigurationWithResource authority redirectUri clientId resource scopes nestedClientId nestedRedirectUri =
     \<lparr>cfAuthority = authority, cfRedirectUri = redirectUri, cfClientId = clientId,
      cfTarget = (case scopes of Some s \<Rightarrow> Some (msidStringFromOrderedSet s) | None \<Rightarrow> resource),
      cfAuthScheme = Some initAuthenticationScheme, cfNestedAuthBrokerClientId = nestedClientId,
      cfNestedAuthBrokerRedirectUri = nestedRedirectUri, cfApplicationIdentifier = None,
      cfResource = resource, cfScopes = scopes\<rparr>"

definition configuration_copy :: "configuration \<Rightarrow> configuration" where
  "configuration_copy c =
     \<lparr>cfAuthority = cfAuthority c, cfRedirectUri = cfRedirectUri c, cfClientId = cfClientId c,
      cfTarget = cfTarget c, cfAuthScheme = cfAuthScheme c,
      cfNestedAuthBrokerClientId = cfNestedAuthBrokerClientId c,
      cfNestedAuthBrokerRedirectUri = cfNestedAuthBrokerRedirectUri c,
      cfApplicationIdentifier = cfApplicationIdentifier c, cfResource = cfResource c,
      cfScopes = cfScopes c\<rparr>"

definition configuration_isNestedAuthProtocol :: "configuration \<Rightarrow> bool" where
  "configuration_isNestedAuthProtocol c \<longleftrightarrow>
     \<not> msidIsStringNilOrBlank (cfNestedAuthBrokerClientId c) \<and>
     \<not> msidIsStringNilOrBlank (cfNestedAuthBrokerRedirectUri c)"

section \<open>Request parameters\<close>

text \<open>
  What the parameters take from their surroundings: the SDK name and version, a telemetry request
  id, the application's name and version, a fresh UUID, whether Intune manages the application, and
  the two virtual methods of the authority that the cloud host name goes through.
\<close>

record app_env =
  sdkName :: "string option"
  sdkVersion :: string
  newRequestId :: "string option"
  appName :: "string option"
  appVersion :: "string option"
  newUUID :: string
  appCapableForMAMCA :: bool
  recognizedHost :: "authority \<Rightarrow> string \<Rightarrow> bool"
  withCloudHost :: "authority \<Rightarrow> string \<Rightarrow> authority option"

definition defaultMetadata :: "app_env \<Rightarrow> (string, string) dict" where
  "defaultMetadata env =
     [(''x-client-Ver'', sdkVersion env), (''x-app-name'', str_or_empty (appName env)),
      (''x-app-ver'', str_or_empty (appVersion env))]"

record request_parameters =
  rpAuthority :: "authority option"
  rpAuthScheme :: "authentication_scheme option"
  rpProvidedAuthority :: "authority option"
  rpCloudAuthority :: "authority option"
  rpRedirectUri :: "string option"
  rpWebPageUri :: "string option"
  rpClientId :: "string option"
  rpTarget :: "string option"
  rpOidcScope :: "string option"
  rpAccountIdentifier :: "account_identifier option"
  rpValidateAuthority :: bool
  rpIgnoreScopeValidation :: bool
  rpForceUI :: bool
  rpNonce :: "string option"
  rpClientSku :: "string option"
  rpSkipValidateResultAccount :: bool
  rpForceRefresh :: bool
  rpBypassRedirectURIValidation :: bool
  rpShowHeadsUp :: bool
  rpPlatformSequence :: "string option"
  rpExtraTokenRequestParameters :: "(string, string) dict option"
  rpExtraURLQueryParameters :: "(string, string) dict option"
  rpAllowAnyExtraURLQueryParameters :: bool
  rpTokenExpirationBuffer :: nat
  rpExtendedLifetimeEnabled :: bool
  rpInstanceAware :: bool
  rpAllowUsingLocalCachedRtWhenSsoExtFailed :: bool
  rpClientBrokerKeyCapabilityNotSupported :: bool
  rpIntuneApplicationIdentifier :: "string option"
  rpRequestType :: request_type
  rpCurrentRequestTelemetry :: "string option"
  rpNestedAuthBrokerClientId :: "string option"
  rpNestedAuthBrokerRedirectUri :: "string option"
  rpCorrelationId :: "string option"
  rpLogComponent :: "string option"
  rpTelemetryRequestId :: "string option"
  rpAppRequestMetadata :: "(string, string) dict"
  rpTelemetryApiId :: "string option"
  rpClaimsRequest :: "(string, nsobj) dict option"
  rpClientCapabilities :: "string list option"
  rpConfiguration :: "configuration option"
  rpKeychainAccessGroup :: "string option"
  rpSsoContext :: "string option"
  rpXpcMode :: xpc_mode
  rpAllowThreadStarvationMonitoring :: bool
  rpSkipTokenCacheFromSsoExtensionResponse :: bool
  rpIsBoundAppRefreshTokenRequested :: bool

definition initDefaultSettings :: "app_env \<Rightarrow> request_parameters" where
  "initDefaultSettings env = \<lparr>
     rpAuthority = None,
     rpAuthScheme = Some initAuthenticationScheme,
     rpProvidedAuthority = None,
     rpCloudAuthority = None,
     rpRedirectUri = None,
     rpWebPageUri = None,
     rpClientId = None,
     rpTarget = None,
     rpOidcScope = None,
     rpAccountIdentifier = None,
     rpValidateAuthority = False,
     rpIgnoreScopeValidation = False,
     rpForceUI = False,
     rpNonce = None,
     rpClientSku = None,
     rpSkipValidateResultAccount = False,
     rpForceRefresh = False,
     rpBypassRedirectURIValidation = False,
     rpShowHeadsUp = False,
     rpPlatformSequence = None,
     rpExtraTokenRequestParameters = None,
     rpExtraURLQueryParameters = None,
     rpAllowAnyExtraURLQueryParameters = False,
     rpTokenExpirationBuffer = 300,
     rpExtendedLifetimeEnabled = False,
     rpInstanceAware = False,
     rpAllowUsingLocalCachedRtWhenSsoExtFailed = False,
     rpClientBrokerKeyCapabilityNotSupported = False,
     rpIntuneApplicationIdentifier = None,
     rpRequestType = MSIDRequestBrokeredType,
     rpCurrentRequestTelemetry = None,
     rpNestedAuthBrokerClientId = None,
     rpNestedAuthBrokerRedirectUri = None,
     rpCorrelationId = None,
     rpLogComponent = sdkName env,
     rpTelemetryRequestId = newRequestId env,
     rpAppRequestMetadata = defaultMetadata env,
     rpTelemetryApiId = None,
     rpClaimsRequest = None,
     rpClientCapabilities = None,
     rpConfiguration = None,
     rpKeychainAccessGroup = None,
     rpSsoContext = None,
     rpXpcMode = MSIDXpcModeDisabled,
     rpAllowThreadStarvationMonitoring = False,
     rpSkipTokenCacheFromSsoExtensionResponse = False,
     rpIsBoundAppRefreshTokenRequested = False\<rparr>"

text \<open>\<open>intuneApplicationIdentifierForAuthority:appIdentifier:\<close> and \<open>updateMSIDConfiguration\<close>.\<close>

definition intuneApplicationIdentifierForAuthority ::
  "app_env \<Rightarrow> authority option \<Rightarrow> string option \<Rightarrow> string option" where
  "intuneApplicationIdentifierForAuthority env authority appIdentifier =
     (case authority of
        None \<Rightarrow> None
      | Some a \<Rightarrow> if auSupportsMAMScenarios a \<and> appCapableForMAMCA env then appIdentifier else None)"

definition makeConfiguration :: "app_env \<Rightarrow> 'a request_parameters_scheme \<Rightarrow> configuration" where
  "makeConfiguration env p =
     (let authority = (if rpCloudAuthority p \<noteq> None then rpCloudAuthority p else rpAuthority p)
      in (initConfiguration authority (rpRedirectUri p) (rpClientId p) (rpTarget p)
            (rpNestedAuthBrokerClientId p) (rpNestedAuthBrokerRedirectUri p))
           \<lparr>cfApplicationIdentifier :=
               intuneApplicationIdentifierForAuthority env authority (rpIntuneApplicationIdentifier p),
             cfAuthScheme := rpAuthScheme p\<rparr>)"

definition updateMSIDConfiguration ::
  "app_env \<Rightarrow> 'a request_parameters_scheme \<Rightarrow> 'a request_parameters_scheme" where
  "updateMSIDConfiguration env p = p\<lparr>rpConfiguration := Some (makeConfiguration env p)\<rparr>"

definition msidConfiguration ::
  "app_env \<Rightarrow> 'a request_parameters_scheme \<Rightarrow> 'a request_parameters_scheme \<times> configuration" where
  "msidConfiguration env p =
     (case rpConfiguration p of
        Some c \<Rightarrow> (p, c)
      | None \<Rightarrow> (updateMSIDConfiguration env p, makeConfiguration env p))"

text \<open>The setters.\<close>

datatype parameter_setter =
    SetAuthority "authority option"
  | SetCloudAuthority "authority option"
  | SetClientId "string option"
  | SetRedirectUri "string option"
  | SetNestedAuthBrokerClientId "string option"
  | SetNestedAuthBrokerRedirectUri "string option"
  | SetTarget "string option"
  | SetAuthScheme "authentication_scheme option"

fun set_parameter ::
  "app_env \<Rightarrow> parameter_setter \<Rightarrow> 'a request_parameters_scheme \<Rightarrow> 'a request_parameters_scheme" where
  "set_parameter env (SetAuthority a) p = updateMSIDConfiguration env (p\<lparr>rpAuthority := a\<rparr>)"
| "set_parameter env (SetCloudAuthority a) p = updateMSIDConfiguration env (p\<lparr>rpCloudAuthority := a\<rparr>)"
| "set_parameter env (SetClientId c) p = updateMSIDConfiguration env (p\<lparr>rpClientId := c\<rparr>)"
| "set_parameter env (SetRedirectUri u) p = updateMSIDConfiguration env (p\<lparr>rpRedirectUri := u\<rparr>)"
| "set_parameter env (SetNestedAuthBrokerClientId c) p =
     updateMSIDConfiguration env (p\<lparr>rpNestedAuthBrokerClientId := c\<rparr>)"
| "set_parameter env (SetNestedAuthBrokerRedirectUri u) p =
     updateMSIDConfiguration env (p\<lparr>rpNestedAuthBrokerRedirectUri := u\<rparr>)"
| "set_parameter env (SetTarget t) p = updateMSIDConfiguration env (p\<lparr>rpTarget := t\<rparr>)"
| "set_parameter env (SetAuthScheme s) p = updateMSIDConfiguration env (p\<lparr>rpAuthScheme := s\<rparr>)"

text \<open>A cloud host name is ignored when there is no authority, as messages to nil answer NO.\<close>

definition setCloudAuthorityWithCloudHostName ::
  "app_env \<Rightarrow> string option \<Rightarrow> 'a request_parameters_scheme \<Rightarrow> 'a request_parameters_scheme" where
  "setCloudAuthorityWithCloudHostName env cloudHostName p =
     (if msidIsStringNilOrBlank cloudHostName then p
      else
        (let host = lowercaseString (the cloudHostName)
         in (case rpAuthority p of
               None \<Rightarrow> p
             | Some a \<Rightarrow>
                 if \<not> recognizedHost env a host then p
                 else updateMSIDConfiguration env (p\<lparr>rpCloudAuthority := withCloudHost env a host\<rparr>))))"

definition ccsHintHeaderWithUpn :: "string option \<Rightarrow> string option" where
  "ccsHintHeaderWithUpn upn = (if \<not> msidIsStringNilOrBlank upn then Some (''UPN:'' @ the upn) else None)"

definition updateAppRequestMetadata ::
  "string option \<Rightarrow> 'a request_parameters_scheme \<Rightarrow> 'a request_parameters_scheme" where
  "updateAppRequestMetadata homeAccountId p =
     (let account = (if \<not> msidIsStringNilOrBlank homeAccountId
                     then Some (initAccountIdentifier None homeAccountId) else rpAccountIdentifier p);
          uid = Option.bind account aiUid;
          utid = Option.bind account aiUtid;
          hint = (if \<not> msidIsStringNilOrBlank uid \<and> \<not> msidIsStringNilOrBlank utid
                  then Some (''Oid:'' @ the uid @ ''@'' @ the utid)
                  else ccsHintHeaderWithUpn (Option.bind account aiDisplayableId))
      in p\<lparr>rpAppRequestMetadata :=
             dict_assign ''X-AnchorMailbox'' hint (dict_del ''X-AnchorMailbox'' (rpAppRequestMetadata p))\<rparr>)"

definition setAccountIdentifier ::
  "account_identifier option \<Rightarrow> 'a request_parameters_scheme \<Rightarrow> 'a request_parameters_scheme" where
  "setAccountIdentifier account p =
     (case (rpAccountIdentifier p, account) of
        (Some a, Some b) \<Rightarrow>
          if account_identifier_isEqual a b then p
          else updateAppRequestMetadata None (p\<lparr>rpAccountIdentifier := account\<rparr>)
      | _ \<Rightarrow> updateAppRequestMetadata None (p\<lparr>rpAccountIdentifier := account\<rparr>))"

definition initWithAuthority ::
  "app_env \<Rightarrow> authority option \<Rightarrow> authentication_scheme option \<Rightarrow> string option \<Rightarrow> string option \<Rightarrow>
   string list option \<Rightarrow> string list option \<Rightarrow> string option \<Rightarrow> string option \<Rightarrow> string option \<Rightarrow>
   request_type \<Rightarrow> int + request_parameters" where
  "initWithAuthority env authority authScheme redirectUri clientId scopes oidScopes correlationId
     telemetryApiId intuneApplicationIdentifier requestType =
     (let p = (initDefaultSettings env)\<lparr>rpAuthority := authority, rpRedirectUri := redirectUri,
                rpClientId := clientId,
                rpCorrelationId := (case correlationId of None \<Rightarrow> Some (newUUID env) | Some c \<Rightarrow> Some c),
                rpTelemetryApiId := telemetryApiId,
                rpIntuneApplicationIdentifier := intuneApplicationIdentifier, rpRequestType := requestType\<rparr>;
          scope_list = (case scopes of None \<Rightarrow> [] | Some s \<Rightarrow> s);
          supports = (case authority of None \<Rightarrow> False | Some a \<Rightarrow> auSupportsClientIDAsScope a)
      in if intersectsOrderedSet scope_list (case oidScopes of None \<Rightarrow> [] | Some s \<Rightarrow> s)
         then Inl (error_code ''MSIDErrorInvalidDeveloperParameter'')
         else if \<not> supports \<and> clientId \<noteq> None \<and> the clientId \<in> set scope_list
         then Inl (error_code ''MSIDErrorInvalidDeveloperParameter'')
         else Inr (p\<lparr>rpTarget := map_option msidStringFromOrderedSet scopes,
                     rpOidcScope := map_option msidStringFromOrderedSet oidScopes,
                     rpAuthScheme := authScheme\<rparr>))"

definition allTokenRequestScopes :: "'a request_parameters_scheme \<Rightarrow> string option" where
  "allTokenRequestScopes p =
     (case msidScopeSet (rpTarget p) of
        None \<Rightarrow> None
      | Some requestScopes \<Rightarrow>
          (case msidScopeSet (rpOidcScope p) of
             None \<Rightarrow> Some (msidStringFromOrderedSet requestScopes)
           | Some oidcScopes \<Rightarrow> Some (msidStringFromOrderedSet (foldl os_add requestScopes oidcScopes))))"

definition isNestedAuthProtocol :: "'a request_parameters_scheme \<Rightarrow> bool" where
  "isNestedAuthProtocol p \<longleftrightarrow>
     \<not> msidIsStringNilOrBlank (rpNestedAuthBrokerClientId p) \<and>
     \<not> msidIsStringNilOrBlank (rpNestedAuthBrokerRedirectUri p)"

definition reverseNestedAuthParametersIfNeeded ::
  "app_env \<Rightarrow> 'a request_parameters_scheme \<Rightarrow> 'a request_parameters_scheme" where
  "reverseNestedAuthParametersIfNeeded env p =
     (if isNestedAuthProtocol p \<and> hasPrefix (the (rpNestedAuthBrokerRedirectUri p)) ''brk-''
      then (let tempClientId = rpNestedAuthBrokerClientId p;
                tempRedirectUri = rpNestedAuthBrokerRedirectUri p;
                p = set_parameter env (SetNestedAuthBrokerClientId (rpClientId p)) p;
                p = set_parameter env (SetNestedAuthBrokerRedirectUri (rpRedirectUri p)) p;
                p = set_parameter env (SetClientId tempClientId) p
            in set_parameter env (SetRedirectUri tempRedirectUri) p)
      else p)"

definition validateParameters :: "'a request_parameters_scheme \<Rightarrow> bool \<times> int option" where
  "validateParameters p =
     (if rpAuthority p = None then (False, Some (error_code ''MSIDErrorInvalidDeveloperParameter''))
      else if rpRedirectUri p = None \<and> \<not> rpBypassRedirectURIValidation p
      then (False, Some (error_code ''MSIDErrorInvalidDeveloperParameter''))
      else if rpClientId p = None then (False, Some (error_code ''MSIDErrorInvalidDeveloperParameter''))
      else if rpTarget p = None then (False, Some (error_code ''MSIDErrorInvalidDeveloperParameter''))
      else (True, None))"

definition parameters_copy :: "app_env \<Rightarrow> request_parameters \<Rightarrow> request_parameters" where
  "parameters_copy env p = (initDefaultSettings env)\<lparr>
     rpAuthority := rpAuthority p,
     rpProvidedAuthority := rpProvidedAuthority p,
     rpCloudAuthority := rpCloudAuthority p,
     rpRedirectUri := rpRedirectUri p,
     rpClientId := rpClientId p,
     rpTarget := rpTarget p,
     rpOidcScope := rpOidcScope p,
     rpAccountIdentifier := map_option account_identifier_copy (rpAccountIdentifier p),
     rpValidateAuthority := rpValidateAuthority p,
     rpClientSku := rpClientSku p,
     rpSkipValidateResultAccount := rpSkipValidateResultAccount p,
     rpPlatformSequence := rpPlatformSequence p,
     rpExtraTokenRequestParameters := rpExtraTokenRequestParameters p,
     rpExtraURLQueryParameters := rpExtraURLQueryParameters p,
     rpTokenExpirationBuffer := rpTokenExpirationBuffer p,
     rpExtendedLifetimeEnabled := rpExtendedLifetimeEnabled p,
     rpInstanceAware := rpInstanceAware p,
     rpIntuneApplicationIdentifier := rpIntuneApplicationIdentifier p,
     rpRequestType := rpRequestType p,
     rpNestedAuthBrokerClientId := rpNestedAuthBrokerClientId p,
     rpNestedAuthBrokerRedirectUri := rpNestedAuthBrokerRedirectUri p,
     rpCorrelationId := rpCorrelationId p,
     rpLogComponent := rpLogComponent p,
     rpTelemetryRequestId := rpTelemetryRequestId p,
     rpAppRequestMetadata := rpAppRequestMetadata p,
     rpTelemetryApiId := rpTelemetryApiId p,
     rpClaimsRequest := rpClaimsRequest p,
     rpClientCapabilities := rpClientCapabilities p,
     rpConfiguration := map_option configuration_copy (rpConfiguration p),
     rpKeychainAccessGroup := rpKeychainAccessGroup p\<rparr>"

section \<open>Interactive parameters\<close>

record interactive_parameters = request_parameters +
  ipWebviewType :: webview_type
  ipCustomWebviewHeaders :: "(string, string) dict option"
  ipPrefersEphemeralWebBrowserSession :: bool
  ipTelemetryWebviewType :: "string option"
  ipIsNewMobileOnboardingFlow :: bool

record interactive_token_parameters = interactive_parameters +
  itUiBehaviorType :: ui_behavior_type
  itOnboardingBlobJson :: "string option"
  itLoginHint :: "string option"
  itExtraScopesToConsent :: "string option"
  itPromptType :: prompt_type
  itShouldValidateResultAccount :: bool
  itExtraAuthorizeURLQueryParameters :: "(string, string) dict option"
  itEnablePkce :: bool
  itUserFederatedIdentityToken :: "string option"

definition interactive_updateAppRequestMetadata ::
  "string option \<Rightarrow> interactive_token_parameters \<Rightarrow> interactive_token_parameters" where
  "interactive_updateAppRequestMetadata homeAccountId p =
     (let p = updateAppRequestMetadata homeAccountId p
      in if dict_get (rpAppRequestMetadata p) ''X-AnchorMailbox'' = None
         then p\<lparr>rpAppRequestMetadata :=
                  dict_assign ''X-AnchorMailbox'' (ccsHintHeaderWithUpn (itLoginHint p)) (rpAppRequestMetadata p)\<rparr>
         else p)"

definition setLoginHint :: "string option \<Rightarrow> interactive_token_parameters \<Rightarrow> interactive_token_parameters" where
  "setLoginHint loginHint p =
     (if isEqualToString (itLoginHint p) loginHint then p
      else interactive_updateAppRequestMetadata None (p\<lparr>itLoginHint := loginHint\<rparr>))"

definition allAuthorizeRequestScopes :: "interactive_token_parameters \<Rightarrow> string list option" where
  "allAuthorizeRequestScopes p =
     (case msidScopeSet (allTokenRequestScopes p) of
        None \<Rightarrow> None
      | Some requestScopes \<Rightarrow>
          Some (foldl os_add requestScopes
                 (case msidScopeSet (itExtraScopesToConsent p) of None \<Rightarrow> [] | Some s \<Rightarrow> s)))"

definition allAuthorizeRequestExtraParameters ::
  "bool \<Rightarrow> interactive_token_parameters \<Rightarrow> (string, string) dict" where
  "allAuthorizeRequestExtraParameters includeMetadata p =
     (let d = (if includeMetadata then rpAppRequestMetadata p else []);
          d = (case itExtraAuthorizeURLQueryParameters p of
                 None \<Rightarrow> d | Some q \<Rightarrow> addEntriesFromDictionary d q)
      in (case rpExtraURLQueryParameters p of None \<Rightarrow> d | Some q \<Rightarrow> addEntriesFromDictionary d q))"

definition interactive_validateParameters :: "interactive_token_parameters \<Rightarrow> bool \<times> int option" where
  "interactive_validateParameters p =
     (case validateParameters p of
        (False, e) \<Rightarrow> (False, e)
      | (True, e) \<Rightarrow>
          if (case rpClaimsRequest p of None \<Rightarrow> False | Some c \<Rightarrow> c \<noteq> []) \<and>
             dict_get (allAuthorizeRequestExtraParameters False p) ''claims'' \<noteq> None
          then (False, Some (error_code ''MSIDErrorInvalidDeveloperParameter''))
          else (True, e))"

section \<open>Lemmas\<close>

named_theorems parameter_simps

text \<open>The configuration is the one the parameters make, whenever there is one.\<close>

definition configuration_in_step :: "app_env \<Rightarrow> 'a request_parameters_scheme \<Rightarrow> bool" where
  "configuration_in_step env p \<longleftrightarrow> snd (msidConfiguration env p) = makeConfiguration env p"

lemma makeConfiguration_update [simp]:
  "makeConfiguration env (p\<lparr>rpConfiguration := c\<rparr>) = makeConfiguration env p"
  "makeConfiguration env (p\<lparr>rpAppRequestMetadata := m\<rparr>) = makeConfiguration env p"
  "makeConfiguration env (p\<lparr>rpAccountIdentifier := a\<rparr>) = makeConfiguration env p"
  by (simp_all add: makeConfiguration_def Let_def)

lemma in_step_update [simp]: "configuration_in_step env (updateMSIDConfiguration env p)"
  by (simp add: configuration_in_step_def updateMSIDConfiguration_def msidConfiguration_def)

lemma in_step_set [simp]: "configuration_in_step env (set_parameter env s p)"
  by (cases s) simp_all

lemma in_step_metadata [simp]:
  "configuration_in_step env (p\<lparr>rpAppRequestMetadata := m\<rparr>) = configuration_in_step env p"
  "configuration_in_step env (p\<lparr>rpAccountIdentifier := a\<rparr>) = configuration_in_step env p"
  "configuration_in_step env (p\<lparr>rpAccountIdentifier := a, rpAppRequestMetadata := m\<rparr>) = configuration_in_step env p"
  by (simp_all add: configuration_in_step_def msidConfiguration_def makeConfiguration_def Let_def split: option.split)

lemma in_step_unset: "rpConfiguration p = None \<Longrightarrow> configuration_in_step env p"
  by (simp add: configuration_in_step_def msidConfiguration_def)

lemma in_step_cloud_host [simp]:
  "configuration_in_step env p \<Longrightarrow> configuration_in_step env (setCloudAuthorityWithCloudHostName env h p)"
  by (auto simp: setCloudAuthorityWithCloudHostName_def Let_def split: option.split)

lemma in_step_hint [simp]:
  "configuration_in_step env p \<Longrightarrow> configuration_in_step env (updateAppRequestMetadata h p)"
  by (simp add: updateAppRequestMetadata_def Let_def)

lemma in_step_account [simp]:
  "configuration_in_step env p \<Longrightarrow> configuration_in_step env (setAccountIdentifier a p)"
  by (auto simp: setAccountIdentifier_def split: option.split)

lemma in_step_reverse [simp]:
  "configuration_in_step env p \<Longrightarrow> configuration_in_step env (reverseNestedAuthParametersIfNeeded env p)"
  by (simp only: reverseNestedAuthParametersIfNeeded_def Let_def in_step_set if_split) simp

text \<open>Everything that may happen to parameters after they were made.\<close>

datatype parameter_change =
    ChangeSetter parameter_setter
  | ChangeCloudHost "string option"
  | ChangeAccount "account_identifier option"
  | ChangeHint "string option"
  | ChangeReverse

fun apply_change :: "app_env \<Rightarrow> parameter_change \<Rightarrow> request_parameters \<Rightarrow> request_parameters" where
  "apply_change env (ChangeSetter s) p = set_parameter env s p"
| "apply_change env (ChangeCloudHost h) p = setCloudAuthorityWithCloudHostName env h p"
| "apply_change env (ChangeAccount a) p = setAccountIdentifier a p"
| "apply_change env (ChangeHint h) p = updateAppRequestMetadata h p"
| "apply_change env ChangeReverse p = reverseNestedAuthParametersIfNeeded env p"

lemma in_step_changes:
  "configuration_in_step env p \<Longrightarrow> configuration_in_step env (fold (apply_change env) cs p)"
proof (induction cs arbitrary: p)
  case (Cons c cs)
  then show ?case by (cases c) simp_all
qed simp

section \<open>Properties\<close>


text \<open>
  A copy of request parameters is not the same request: it asks for a bearer token whatever the
  scheme of the original was, it loses the forced refresh and the nonce, and it is valid only if the
  original is valid and has a redirect URI, since the flag that waives the URI is lost too.
\<close>

theorem parameters_copy_forgets:
  "rpAuthScheme (parameters_copy env p) = Some initAuthenticationScheme
   \<and> \<not> rpForceRefresh (parameters_copy env p) \<and> rpNonce (parameters_copy env p) = None
   \<and> fst (validateParameters (parameters_copy env p)) =
       (fst (validateParameters p) \<and> rpRedirectUri p \<noteq> None)"
proof -
  have "rpAuthority (parameters_copy env p) = rpAuthority p"
    "rpRedirectUri (parameters_copy env p) = rpRedirectUri p"
    "rpClientId (parameters_copy env p) = rpClientId p" "rpTarget (parameters_copy env p) = rpTarget p"
    "\<not> rpBypassRedirectURIValidation (parameters_copy env p)"
    by (simp_all add: parameters_copy_def initDefaultSettings_def)
  then show ?thesis
    by (simp add: validateParameters_def) (simp add: parameters_copy_def initDefaultSettings_def)
qed

end
