(* ===== verification/Onboarding.thy ===== *)
theory Onboarding
  imports ErrorCodes Constants
begin

text \<open>
  \<open>cache/onboarding/MSIDOnboardingStatus.m\<close>, \<open>cache/accessor/MSIDOnboardingStatusCache.m\<close> and
  \<open>telemetry/MSIDOnboardingBlobBuilder.m\<close>: the status of a device onboarding that the applications
  of a vendor share through one keychain item, and the record of its steps. The keychain item is the
  list of the JSON objects stored under the cache's key. \<open>oeIso\<close>, \<open>oeDate\<close> and \<open>oeUuid\<close> are the
  date formatters and the UUID parser of Foundation, \<open>parse\<close> is \<open>NSJSONSerialization\<close>, and a URL is
  the record of its components.
\<close>

section \<open>Phases, contexts and reasons\<close>

datatype onboarding_phase =
    MSIDOnboardingPhaseNone
  | MSIDOnboardingPhaseBrokerInteractiveInProgress
  | MSIDOnboardingPhaseMdmEnrollmentInProgress
  | MSIDOnboardingPhaseFailed

datatype onboarding_context =
    MSIDOnboardingContextUnknown
  | MSIDOnboardingContextBroker
  | MSIDOnboardingContextInAppWebview

datatype onboarding_reason_code =
    MSIDOnboardingReasonCodeNone
  | MSIDOnboardingReasonCodeUserCancel
  | MSIDOnboardingReasonCodeNetwork
  | MSIDOnboardingReasonCodePolicy
  | MSIDOnboardingReasonCodeUnknown

definition onboardingPhaseFromString :: "string option \<Rightarrow> onboarding_phase" where
  "onboardingPhaseFromString s =
     (if msidIsStringNilOrBlank s then MSIDOnboardingPhaseNone
      else if caseInsensitiveSame (the s) ''none'' then MSIDOnboardingPhaseNone
      else if caseInsensitiveSame (the s) ''broker_interactive_in_progress''
      then MSIDOnboardingPhaseBrokerInteractiveInProgress
      else if caseInsensitiveSame (the s) ''mdm_enrollment_in_progress''
      then MSIDOnboardingPhaseMdmEnrollmentInProgress
      else if caseInsensitiveSame (the s) ''failed'' then MSIDOnboardingPhaseFailed
      else MSIDOnboardingPhaseNone)"

fun stringFromPhase :: "onboarding_phase \<Rightarrow> string" where
  "stringFromPhase MSIDOnboardingPhaseBrokerInteractiveInProgress = ''broker_interactive_in_progress''"
| "stringFromPhase MSIDOnboardingPhaseMdmEnrollmentInProgress = ''mdm_enrollment_in_progress''"
| "stringFromPhase MSIDOnboardingPhaseFailed = ''failed''"
| "stringFromPhase MSIDOnboardingPhaseNone = ''none''"

definition onboardingContextFromString :: "string option \<Rightarrow> onboarding_context" where
  "onboardingContextFromString s =
     (if msidIsStringNilOrBlank s then MSIDOnboardingContextUnknown
      else if caseInsensitiveSame (the s) ''broker'' then MSIDOnboardingContextBroker
      else if caseInsensitiveSame (the s) ''inAppWebview'' then MSIDOnboardingContextInAppWebview
      else MSIDOnboardingContextUnknown)"

fun stringFromContext :: "onboarding_context \<Rightarrow> string" where
  "stringFromContext MSIDOnboardingContextBroker = ''broker''"
| "stringFromContext MSIDOnboardingContextInAppWebview = ''inAppWebview''"
| "stringFromContext MSIDOnboardingContextUnknown = ''unknown''"

definition reasonCodeFromString :: "string option \<Rightarrow> onboarding_reason_code" where
  "reasonCodeFromString s =
     (if msidIsStringNilOrBlank s then MSIDOnboardingReasonCodeUnknown
      else if caseInsensitiveSame (the s) ''none'' then MSIDOnboardingReasonCodeNone
      else if caseInsensitiveSame (the s) ''user_cancel'' then MSIDOnboardingReasonCodeUserCancel
      else if caseInsensitiveSame (the s) ''network'' then MSIDOnboardingReasonCodeNetwork
      else if caseInsensitiveSame (the s) ''policy'' then MSIDOnboardingReasonCodePolicy
      else MSIDOnboardingReasonCodeUnknown)"

fun stringFromReasonCode :: "onboarding_reason_code \<Rightarrow> string" where
  "stringFromReasonCode MSIDOnboardingReasonCodeUserCancel = ''user_cancel''"
| "stringFromReasonCode MSIDOnboardingReasonCodeNetwork = ''network''"
| "stringFromReasonCode MSIDOnboardingReasonCodePolicy = ''policy''"
| "stringFromReasonCode MSIDOnboardingReasonCodeUnknown = ''unknown''"
| "stringFromReasonCode MSIDOnboardingReasonCodeNone = ''none''"

section \<open>The status\<close>

record onboarding_reason =
  orCode :: onboarding_reason_code
  orMessage :: "string option"

record onboarding_status =
  osVersion :: int
  osPhase :: onboarding_phase
  osContext :: onboarding_context
  osOwnerBundleId :: "string option"
  osOriginatingBundleId :: "string option"
  osOriginatingDisplayName :: "string option"
  osCorrelationId :: "string option"
  osStartedAt :: "nsdate option"
  osTtlSeconds :: int
  osReason :: "onboarding_reason option"

record onboarding_env =
  oeBundleId :: "string option"
  oeBundleDisplayName :: "string option"
  oeBundleName :: "string option"
  oeNow :: nsdate
  oeNewUuid :: string
  oeIso :: "nsdate \<Rightarrow> string"
  oeDate :: "string \<Rightarrow> nsdate option"
  oeUuid :: "string \<Rightarrow> string option"
  oeWriteOk :: bool
  oeRemoveOk :: bool

definition defaultTtlSeconds :: int where
  "defaultTtlSeconds = 900"

definition originatingDisplayName :: "onboarding_env \<Rightarrow> string option" where
  "originatingDisplayName env =
     (let displayName = (case oeBundleDisplayName env of None \<Rightarrow> oeBundleName env | Some n \<Rightarrow> Some n)
      in if msidIsStringNilOrBlank displayName then None else displayName)"

definition newStatus :: "onboarding_env \<Rightarrow> onboarding_status" where
  "newStatus env =
     \<lparr>osVersion = 1, osPhase = MSIDOnboardingPhaseNone, osContext = MSIDOnboardingContextUnknown,
      osOwnerBundleId = oeBundleId env, osOriginatingBundleId = oeBundleId env,
      osOriginatingDisplayName = originatingDisplayName env, osCorrelationId = None,
      osStartedAt = Some (oeNow env), osTtlSeconds = defaultTtlSeconds, osReason = None\<rparr>"

definition initStatusWithPhase ::
  "onboarding_env \<Rightarrow> onboarding_phase \<Rightarrow> onboarding_context \<Rightarrow> string option \<Rightarrow> string option \<Rightarrow>
   onboarding_status" where
  "initStatusWithPhase env phase ctxt ownerBundleId correlationId =
     \<lparr>osVersion = 1, osPhase = phase, osContext = ctxt, osOwnerBundleId = ownerBundleId,
      osOriginatingBundleId = oeBundleId env, osOriginatingDisplayName = originatingDisplayName env,
      osCorrelationId = (case correlationId of None \<Rightarrow> Some (oeNewUuid env) | Some c \<Rightarrow> Some c),
      osStartedAt = Some (oeNow env), osTtlSeconds = defaultTtlSeconds, osReason = None\<rparr>"

datatype onboarding_error = StatusTypeError type_error | InvalidCorrelationId | InvalidStartedAt

text \<open>\<open>if (![json msidAssertType:... error:error]) return nil;\<close>\<close>

definition asserted :: "bool \<times> type_error option \<Rightarrow> onboarding_error + 'a \<Rightarrow> onboarding_error + 'a" where
  "asserted r k = (case r of (True, _) \<Rightarrow> k | (False, e) \<Rightarrow> Inl (StatusTypeError (the e)))"

definition object_integerValue :: "nsobj option \<Rightarrow> int" where
  "object_integerValue v =
     (case v of Some (NSStr s) \<Rightarrow> integerValue s | Some (NSNum q) \<Rightarrow> trunc_rat q | _ \<Rightarrow> 0)"

definition initReasonWithJSON :: "(string, nsobj) dict \<Rightarrow> onboarding_error + onboarding_reason" where
  "initReasonWithJSON json =
     asserted (msidAssertType json NSStringClass ''code'' True)
      (asserted (msidAssertType json NSStringClass ''message'' False)
        (Inr \<lparr>orCode = reasonCodeFromString (msidStringObjectForKey json ''code''),
              orMessage = msidStringObjectForKey json ''message''\<rparr>))"

definition reason_json :: "onboarding_reason \<Rightarrow> (string, nsobj) dict" where
  "reason_json r = dict_assign ''message'' (map_option NSStr (orMessage r))
                     [(''code'', NSStr (stringFromReasonCode (orCode r)))]"

definition read_correlationId :: "onboarding_env \<Rightarrow> (string, nsobj) dict \<Rightarrow> onboarding_error + string option" where
  "read_correlationId env json =
     (case dict_get json ''correlationId'' of
        None \<Rightarrow> Inr None
      | Some _ \<Rightarrow>
          asserted (msidAssertType json NSStringClass ''correlationId'' False)
            (case Option.bind (msidStringObjectForKey json ''correlationId'') (oeUuid env) of
               None \<Rightarrow> Inl InvalidCorrelationId
             | Some u \<Rightarrow> Inr (Some u)))"

definition read_startedAt :: "onboarding_env \<Rightarrow> (string, nsobj) dict \<Rightarrow> onboarding_error + nsdate option" where
  "read_startedAt env json =
     (case dict_get json ''startedAt'' of
        None \<Rightarrow> Inr None
      | Some _ \<Rightarrow>
          asserted (msidAssertType json NSStringClass ''startedAt'' False)
            (case Option.bind (msidStringObjectForKey json ''startedAt'') (oeDate env) of
               None \<Rightarrow> Inl InvalidStartedAt
             | Some d \<Rightarrow> Inr (Some d)))"

definition read_ttlSeconds :: "(string, nsobj) dict \<Rightarrow> onboarding_error + int" where
  "read_ttlSeconds json =
     (case dict_get json ''ttlSeconds'' of
        None \<Rightarrow> Inr defaultTtlSeconds
      | Some v \<Rightarrow>
          asserted (msidAssertType json NSNumberClass ''ttlSeconds'' False) (Inr (object_integerValue (Some v))))"

definition read_reason :: "(string, nsobj) dict \<Rightarrow> onboarding_error + onboarding_reason option" where
  "read_reason json =
     (case dict_get json ''reason'' of
        None \<Rightarrow> Inr None
      | Some v \<Rightarrow>
          asserted (msidAssertType json NSDictionaryClass ''reason'' False)
            (map_sum id Some (initReasonWithJSON (case as_dict v of None \<Rightarrow> [] | Some d \<Rightarrow> d))))"

definition read_version :: "(string, nsobj) dict \<Rightarrow> onboarding_error + int" where
  "read_version json =
     (case dict_get json ''version'' of
        None \<Rightarrow> Inr 1
      | Some v \<Rightarrow>
          asserted (msidAssertTypeIsOneOf json [NSStringClass, NSNumberClass] ''version'' False)
            (Inr (object_integerValue (Some v))))"

definition sum_bind :: "'e + 'a \<Rightarrow> ('a \<Rightarrow> 'e + 'b) \<Rightarrow> 'e + 'b" where
  "sum_bind r f = (case r of Inl e \<Rightarrow> Inl e | Inr x \<Rightarrow> f x)"

definition initStatusWithJSON ::
  "onboarding_env \<Rightarrow> (string, nsobj) dict \<Rightarrow> onboarding_error + onboarding_status" where
  "initStatusWithJSON env json =
     sum_bind (read_version json) (\<lambda>version.
     asserted (msidAssertType json NSStringClass ''phase'' True)
     (asserted (msidAssertType json NSStringClass ''context'' True)
     (asserted (msidAssertType json NSStringClass ''ownerBundleId'' False)
     (asserted (msidAssertType json NSStringClass ''originatingBundleId'' False)
     (asserted (msidAssertType json NSStringClass ''originatingDisplayName'' False)
     (sum_bind (read_correlationId env json) (\<lambda>correlationId.
      sum_bind (read_startedAt env json) (\<lambda>startedAt.
      sum_bind (read_ttlSeconds json) (\<lambda>ttlSeconds.
      sum_bind (read_reason json) (\<lambda>reason.
        Inr \<lparr>osVersion = version,
             osPhase = onboardingPhaseFromString (msidStringObjectForKey json ''phase''),
             osContext = onboardingContextFromString (msidStringObjectForKey json ''context''),
             osOwnerBundleId = msidStringObjectForKey json ''ownerBundleId'',
             osOriginatingBundleId = msidStringObjectForKey json ''originatingBundleId'',
             osOriginatingDisplayName = msidStringObjectForKey json ''originatingDisplayName'',
             osCorrelationId = correlationId, osStartedAt = startedAt, osTtlSeconds = ttlSeconds,
             osReason = reason\<rparr>))))))))))"

definition status_json :: "onboarding_env \<Rightarrow> onboarding_status \<Rightarrow> (string, nsobj) dict" where
  "status_json env s =
     dict_assign ''reason'' (map_option (\<lambda>r. NSDict (reason_json r)) (osReason s))
     (dict_assign ''ttlSeconds'' (Some (NSNum (of_int (osTtlSeconds s))))
     (dict_assign ''startedAt'' (map_option (\<lambda>d. NSStr (oeIso env d)) (osStartedAt s))
     (dict_assign ''correlationId'' (map_option NSStr (osCorrelationId s))
     (dict_assign ''originatingDisplayName'' (map_option NSStr (osOriginatingDisplayName s))
     (dict_assign ''originatingBundleId'' (map_option NSStr (osOriginatingBundleId s))
     (dict_assign ''ownerBundleId'' (map_option NSStr (osOwnerBundleId s))
      [(''context'', NSStr (stringFromContext (osContext s))),
       (''phase'', NSStr (stringFromPhase (osPhase s))),
       (''version'', NSNum (of_int (osVersion s)))]))))))"

section \<open>The cache\<close>

type_synonym status_slot = "(string, nsobj) dict list"

definition readOnboardingStatus :: "onboarding_env \<Rightarrow> status_slot \<Rightarrow> onboarding_status option" where
  "readOnboardingStatus env slot =
     (case slot of
        [] \<Rightarrow> None
      | json # _ \<Rightarrow> (case initStatusWithJSON env json of Inl _ \<Rightarrow> None | Inr s \<Rightarrow> Some s))"

definition writeOnboardingStatus ::
  "onboarding_env \<Rightarrow> onboarding_status option \<Rightarrow> status_slot \<Rightarrow> status_slot \<times> bool" where
  "writeOnboardingStatus env status slot =
     (case status of
        None \<Rightarrow> (slot, False)
      | Some s \<Rightarrow> if oeWriteOk env then ([status_json env s], True) else (slot, False))"

definition removeOnboardingStatus :: "onboarding_env \<Rightarrow> status_slot \<Rightarrow> status_slot \<times> bool" where
  "removeOnboardingStatus env slot = (if oeRemoveOk env then ([], True) else (slot, False))"

definition bundleIdsMatch :: "string option \<Rightarrow> string option \<Rightarrow> bool" where
  "bundleIdsMatch left right \<longleftrightarrow>
     \<not> msidIsStringNilOrBlank left \<and> \<not> msidIsStringNilOrBlank right \<and>
     caseInsensitiveSame (the left) (the right)"

definition isOwnerOverride :: "onboarding_env \<Rightarrow> onboarding_status \<Rightarrow> bool" where
  "isOwnerOverride env s = bundleIdsMatch (oeBundleId env) (osOwnerBundleId s)"

text \<open>When the status expires: \<open>startedAt + ttlSeconds\<close>.\<close>

definition status_expired :: "onboarding_env \<Rightarrow> onboarding_status \<Rightarrow> bool" where
  "status_expired env s \<longleftrightarrow>
     (case osStartedAt s of None \<Rightarrow> True | Some d \<Rightarrow> d + of_int (osTtlSeconds s) - oeNow env < 0)"

definition getOnboardingStatus :: "onboarding_env \<Rightarrow> status_slot \<Rightarrow> status_slot \<times> onboarding_status" where
  "getOnboardingStatus env slot =
     (case readOnboardingStatus env slot of
        None \<Rightarrow> (slot, newStatus env)
      | Some s \<Rightarrow>
          if status_expired env s then (fst (removeOnboardingStatus env slot), newStatus env)
          else (slot, s))"

definition setWithStatus ::
  "onboarding_env \<Rightarrow> onboarding_status option \<Rightarrow> status_slot \<Rightarrow> status_slot \<times> bool" where
  "setWithStatus env status slot =
     (case status of
        None \<Rightarrow> (slot, False)
      | Some s \<Rightarrow>
          (case getOnboardingStatus env slot of
             (slot', current) \<Rightarrow>
               if osPhase current \<noteq> MSIDOnboardingPhaseNone
                  \<and> \<not> bundleIdsMatch (osOriginatingBundleId current) (osOriginatingBundleId s)
                  \<and> \<not> isOwnerOverride env s
               then (slot', False)
               else writeOnboardingStatus env status slot'))"

definition clearStatus :: "onboarding_env \<Rightarrow> string option \<Rightarrow> status_slot \<Rightarrow> status_slot \<times> bool" where
  "clearStatus env bundleId slot =
     (if msidIsStringNilOrBlank bundleId then (slot, False)
      else
        (case getOnboardingStatus env slot of
           (slot', current) \<Rightarrow>
             if osPhase current = MSIDOnboardingPhaseNone then (slot', True)
             else if \<not> bundleIdsMatch (osOwnerBundleId current) bundleId
                     \<and> \<not> bundleIdsMatch (osOriginatingBundleId current) bundleId
             then (slot', False)
             else removeOnboardingStatus env slot'))"


section \<open>The status and its JSON\<close>

lemma phase_round_trip [simp]: "onboardingPhaseFromString (Some (stringFromPhase p)) = p"
  by (cases p, simp_all only:) code_simp+

lemma context_round_trip [simp]: "onboardingContextFromString (Some (stringFromContext c)) = c"
  by (cases c, simp_all only:) code_simp+

lemma reasonCode_round_trip [simp]: "reasonCodeFromString (Some (stringFromReasonCode c)) = c"
  by (cases c, simp_all only:) code_simp+

lemmas typed_lookup_defs = asserted_def msidAssertType_def msidAssertTypeIsOneOf_def
  msidStringObjectForKey_def msidObjectForKey_def

lemma reason_round_trip [simp]: "initReasonWithJSON (reason_json r) = Inr r"
  by (cases "orMessage r") (simp_all add: initReasonWithJSON_def reason_json_def typed_lookup_defs)

lemma trunc_rat_of_int [simp]: "trunc_rat (of_int n) = n"
  by (simp add: trunc_rat_def)

lemma status_json_lookups:
  "dict_get (status_json env s) ''version'' = Some (NSNum (of_int (osVersion s)))"
  "dict_get (status_json env s) ''phase'' = Some (NSStr (stringFromPhase (osPhase s)))"
  "dict_get (status_json env s) ''context'' = Some (NSStr (stringFromContext (osContext s)))"
  "dict_get (status_json env s) ''ownerBundleId'' = map_option NSStr (osOwnerBundleId s)"
  "dict_get (status_json env s) ''originatingBundleId'' = map_option NSStr (osOriginatingBundleId s)"
  "dict_get (status_json env s) ''originatingDisplayName'' = map_option NSStr (osOriginatingDisplayName s)"
  "dict_get (status_json env s) ''correlationId'' = map_option NSStr (osCorrelationId s)"
  "dict_get (status_json env s) ''startedAt'' = map_option (\<lambda>d. NSStr (oeIso env d)) (osStartedAt s)"
  "dict_get (status_json env s) ''ttlSeconds'' = Some (NSNum (of_int (osTtlSeconds s)))"
  "dict_get (status_json env s) ''reason'' = map_option (\<lambda>r. NSDict (reason_json r)) (osReason s)"
  by (simp_all add: status_json_def)

lemma asserted_optional_string:
  assumes "dict_get d k = map_option NSStr v"
  shows "asserted (msidAssertType d NSStringClass k False) x = x" "msidStringObjectForKey d k = v"
  using assms by (cases v; simp add: typed_lookup_defs)+

lemma asserted_string:
  assumes "dict_get d k = Some (NSStr v)"
  shows "asserted (msidAssertType d NSStringClass k b) x = x" "msidStringObjectForKey d k = Some v"
  using assms by (simp_all add: typed_lookup_defs)

lemma read_status_json:
  assumes "\<And>d. osStartedAt s = Some d \<Longrightarrow> oeDate env (oeIso env d) = Some (of_int \<lfloor>d\<rfloor>)"
    and "\<And>u. osCorrelationId s = Some u \<Longrightarrow> oeUuid env u = Some u"
  shows "initStatusWithJSON env (status_json env s)
         = Inr (s\<lparr>osStartedAt := map_option (\<lambda>d. of_int \<lfloor>d\<rfloor>) (osStartedAt s)\<rparr>)"
proof -
  let ?d = "status_json env s"
  note L = status_json_lookups [of env s]
  have "read_version ?d = Inr (osVersion s)" "read_ttlSeconds ?d = Inr (osTtlSeconds s)"
    by (simp_all add: read_version_def read_ttlSeconds_def L typed_lookup_defs object_integerValue_def)
  moreover have "read_reason ?d = Inr (osReason s)"
    by (cases "osReason s") (simp_all add: read_reason_def L typed_lookup_defs)
  moreover have "read_correlationId env ?d = Inr (osCorrelationId s)"
    using assms(2) by (cases "osCorrelationId s") (simp_all add: read_correlationId_def L typed_lookup_defs)
  moreover have "read_startedAt env ?d = Inr (map_option (\<lambda>d. of_int \<lfloor>d\<rfloor>) (osStartedAt s))"
    using assms(1) by (cases "osStartedAt s") (simp_all add: read_startedAt_def L typed_lookup_defs)
  ultimately show ?thesis
    by (simp add: initStatusWithJSON_def sum_bind_def asserted_string [OF L(2)] asserted_string [OF L(3)]
        asserted_optional_string [OF L(4)] asserted_optional_string [OF L(5)]
        asserted_optional_string [OF L(6)])
qed

text \<open>
  A status read back from its JSON is the status written, its start rounded down to the second.
\<close>

theorem status_round_trip:
  assumes "\<And>d. osStartedAt s = Some d \<Longrightarrow> oeDate env (oeIso env d) = Some (of_int \<lfloor>d\<rfloor>)"
    and "\<And>u. osCorrelationId s = Some u \<Longrightarrow> oeUuid env u = Some u"
  shows "initStatusWithJSON env (status_json env s)
         = Inr (s\<lparr>osStartedAt := map_option (\<lambda>d. of_int \<lfloor>d\<rfloor>) (osStartedAt s)\<rparr>)"
  using assms by (rule read_status_json)

definition witness_env :: onboarding_env where
  "witness_env =
     \<lparr>oeBundleId = Some ''com.app'', oeBundleDisplayName = Some ''App'', oeBundleName = None, oeNow = 100,
      oeNewUuid = ''U'', oeIso = (\<lambda>d. if \<lfloor>d\<rfloor> = 100 then ''1970-01-01T00:01:40Z'' else ''''),
      oeDate = (\<lambda>s. if s = ''1970-01-01T00:01:40Z'' then Some 100 else None),
      oeUuid = Some, oeWriteOk = True, oeRemoveOk = True\<rparr>"

definition witness_status :: onboarding_status where
  "witness_status =
     (initStatusWithPhase witness_env MSIDOnboardingPhaseMdmEnrollmentInProgress MSIDOnboardingContextBroker
        (Some ''com.broker'') None)
     \<lparr>osReason := Some \<lparr>orCode = MSIDOnboardingReasonCodePolicy, orMessage = None\<rparr>\<rparr>"

lemma witness_status_fields:
  "osStartedAt witness_status = Some 100" "osCorrelationId witness_status = Some ''U''"
  "osTtlSeconds witness_status = 900" "osPhase witness_status = MSIDOnboardingPhaseMdmEnrollmentInProgress"
  "osOriginatingBundleId witness_status = Some ''com.app''" "osOwnerBundleId witness_status = Some ''com.broker''"
  by (simp_all add: witness_status_def initStatusWithPhase_def witness_env_def defaultTtlSeconds_def)

theorem status_round_trip_witness:
  "initStatusWithJSON witness_env (status_json witness_env witness_status) = Inr witness_status"
proof -
  have "initStatusWithJSON witness_env (status_json witness_env witness_status)
        = Inr (witness_status\<lparr>osStartedAt := map_option (\<lambda>d. of_int \<lfloor>d\<rfloor>) (osStartedAt witness_status)\<rparr>)"
    by (rule status_round_trip) (simp_all add: witness_status_fields witness_env_def)
  then show ?thesis
    by (simp add: witness_status_def initStatusWithPhase_def witness_env_def)
qed

section \<open>Sessions of several applications\<close>

text \<open>A call of one application: its environment (its bundle, the time) and the request.\<close>

datatype status_call =
    SetStatus onboarding_env "onboarding_status option"
  | GetStatus onboarding_env
  | ClearStatus onboarding_env "string option"

fun call_env :: "status_call \<Rightarrow> onboarding_env" where
  "call_env (SetStatus env _) = env"
| "call_env (GetStatus env) = env"
| "call_env (ClearStatus env _) = env"

fun run_status_call :: "status_call \<Rightarrow> status_slot \<Rightarrow> status_slot" where
  "run_status_call (SetStatus env s) slot = fst (setWithStatus env s slot)"
| "run_status_call (GetStatus env) slot = fst (getOnboardingStatus env slot)"
| "run_status_call (ClearStatus env b) slot = fst (clearStatus env b slot)"

text \<open>The call does not come from the owner or the originator of the status \<open>cur\<close>: a written status
  originates elsewhere and does not name the calling application as its owner, and a cleared bundle
  is neither of the two.\<close>

fun foreign_call :: "onboarding_status \<Rightarrow> status_call \<Rightarrow> bool" where
  "foreign_call cur (SetStatus env s) =
     (case s of None \<Rightarrow> True
      | Some n \<Rightarrow> \<not> bundleIdsMatch (osOriginatingBundleId cur) (osOriginatingBundleId n) \<and> \<not> isOwnerOverride env n)"
| "foreign_call cur (GetStatus env) = True"
| "foreign_call cur (ClearStatus env b) =
     (\<not> bundleIdsMatch (osOwnerBundleId cur) b \<and> \<not> bundleIdsMatch (osOriginatingBundleId cur) b)"

definition alive :: "onboarding_env \<Rightarrow> onboarding_status \<Rightarrow> status_slot \<Rightarrow> bool" where
  "alive env cur slot \<longleftrightarrow> readOnboardingStatus env slot = Some cur \<and> \<not> status_expired env cur"

lemma get_alive: "alive env cur slot \<Longrightarrow> getOnboardingStatus env slot = (slot, cur)"
  by (simp add: alive_def getOnboardingStatus_def)

lemma foreign_call_keeps:
  assumes "alive (call_env c) cur slot" "osPhase cur \<noteq> MSIDOnboardingPhaseNone" "foreign_call cur c"
  shows "run_status_call c slot = slot"
  using assms by (cases c) (auto simp: get_alive setWithStatus_def clearStatus_def split: option.splits)


definition other_app :: onboarding_env where
  "other_app = witness_env\<lparr>oeBundleId := Some ''com.other''\<rparr>"

lemma witness_alive: "alive other_app witness_status [status_json witness_env witness_status]"
proof -
  have "status_json witness_env witness_status = status_json other_app witness_status"
    by (simp add: status_json_def other_app_def witness_env_def)
  then have "initStatusWithJSON other_app (status_json witness_env witness_status)
        = Inr (witness_status\<lparr>osStartedAt := map_option (\<lambda>d. of_int \<lfloor>d\<rfloor>) (osStartedAt witness_status)\<rparr>)"
    using read_status_json [of witness_status other_app]
    by (simp add: witness_status_fields witness_env_def other_app_def)
  then show ?thesis
    by (simp add: alive_def readOnboardingStatus_def status_expired_def witness_status_fields)
       (simp add: witness_status_def initStatusWithPhase_def witness_env_def other_app_def defaultTtlSeconds_def)
qed

lemma bundle_mismatch:
  "\<not> bundleIdsMatch (Some ''com.broker'') (Some ''com.other'')"
  "\<not> bundleIdsMatch (Some ''com.app'') (Some ''com.other'')"
  "\<not> bundleIdsMatch (Some ''com.other'') (Some ''com.broker'')"
  by code_simp+

lemma other_app_is_foreign:
  "foreign_call witness_status
     (SetStatus other_app (Some (initStatusWithPhase other_app MSIDOnboardingPhaseFailed
        MSIDOnboardingContextInAppWebview (Some ''com.broker'') None)))"
  "foreign_call witness_status (ClearStatus other_app (Some ''com.other''))"
  by (simp_all add: witness_status_fields isOwnerOverride_def initStatusWithPhase_def other_app_def
      witness_env_def bundle_mismatch)


text \<open>
  The write is accepted whatever is stored when the new status names the calling application as
  its owner: the owner that counts is the new status's, so any application can take over the onboarding
  another one has in progress.
\<close>

theorem self_named_owner_overwrites:
  assumes "oeBundleId env = Some b" "\<not> msidIsStringNilOrBlank (Some b)" "oeWriteOk env"
  shows "setWithStatus env (Some (initStatusWithPhase env phase ctxt (Some b) cid)) slot
         = ([status_json env (initStatusWithPhase env phase ctxt (Some b) cid)], True)"
proof -
  have "isOwnerOverride env (initStatusWithPhase env phase ctxt (Some b) cid)"
    using assms by (simp add: isOwnerOverride_def bundleIdsMatch_def initStatusWithPhase_def)
  then show ?thesis
    using assms(3) by (simp add: setWithStatus_def writeOnboardingStatus_def split: prod.split)
qed

theorem self_named_owner_overwrites_witness:
  "alive other_app witness_status [status_json witness_env witness_status]
   \<and> snd (setWithStatus other_app (Some (initStatusWithPhase other_app MSIDOnboardingPhaseNone
        MSIDOnboardingContextBroker (Some ''com.other'') None)) [status_json witness_env witness_status])"
proof -
  have "\<not> msidIsStringNilOrBlank (Some ''com.other'')" by code_simp
  then show ?thesis
    using self_named_owner_overwrites [of other_app "''com.other''"] witness_alive
    by (simp add: other_app_def witness_env_def)
qed

end
