(* ===== verification/OnboardingBlob.thy ===== *)
theory OnboardingBlob
  imports Foundation
begin

text \<open>
  \<open>telemetry/MSIDOnboardingBlobBuilder.m\<close>: the record of the steps of a device onboarding. It is
  seeded from the JSON of an earlier process, grows by steps, blocking errors and the host last
  loaded, and is printed as JSON again. \<open>NSJSONSerialization\<close> is a pair of parameters: \<open>parse\<close> and
  \<open>serialize\<close>; the ISO date of a moment is its text; a URL is the record of its components.
\<close>

section \<open>The seed\<close>

datatype seed_classification = SeedMalformed | SeedUnknownVersion | SeedSupported

definition parseSeedDictionary ::
  "(string \<Rightarrow> nsobj option) \<Rightarrow> string option \<Rightarrow> (string, nsobj) dict option" where
  "parseSeedDictionary parse json =
     (if msidIsStringNilOrBlank json then None else Option.bind (parse (the json)) as_dict)"

definition classifySeedJson :: "(string \<Rightarrow> nsobj option) \<Rightarrow> string option \<Rightarrow> seed_classification" where
  "classifySeedJson parse json =
     (case parseSeedDictionary parse json of
        None \<Rightarrow> SeedMalformed
      | Some seed \<Rightarrow>
          (case Option.bind (dict_get seed ''schema_version'') as_string of
             None \<Rightarrow> SeedMalformed
           | Some v \<Rightarrow>
               if v = [] then SeedMalformed
               else if v \<noteq> ''1.0.0'' then SeedUnknownVersion else SeedSupported))"

record blob_builder =
  obSchemaVersion :: string
  obSessionCorrelationId :: string
  obOnboardingMode :: string
  obClientId :: string
  obTarget :: string
  obStepsList :: "(string \<times> string) list"
  obBlockingErrors :: "string list"
  obUxFlowUsed :: "string list"
  obLastLoadedDomain :: "string option"
  obStrongAuthSetupStarted :: bool

definition seed_string :: "(string, nsobj) dict \<Rightarrow> string \<Rightarrow> string" where
  "seed_string seed k = (case Option.bind (dict_get seed k) as_string of None \<Rightarrow> [] | Some s \<Rightarrow> s)"

definition seed_strings :: "(string, nsobj) dict \<Rightarrow> string \<Rightarrow> string list" where
  "seed_strings seed k = (case dict_get seed k of Some (NSArr xs) \<Rightarrow> List.map_filter as_string xs | _ \<Rightarrow> [])"

definition seed_step :: "nsobj \<Rightarrow> (string \<times> string) option" where
  "seed_step entry =
     Option.bind (as_dict entry) (\<lambda>e.
     Option.bind (Option.bind (dict_get e ''step_id'') as_string) (\<lambda>i.
     Option.bind (Option.bind (dict_get e ''ts'') as_string) (\<lambda>t. Some (i, t))))"

definition seed_steps :: "(string, nsobj) dict \<Rightarrow> (string \<times> string) list" where
  "seed_steps seed = (case dict_get seed ''steps_list'' of Some (NSArr xs) \<Rightarrow> List.map_filter seed_step xs | _ \<Rightarrow> [])"

definition seed_domain :: "(string, nsobj) dict \<Rightarrow> string option" where
  "seed_domain seed =
     (case Option.bind (dict_get seed ''last_loaded_domain'') as_string of
        None \<Rightarrow> None | Some s \<Rightarrow> if s = [] then None else Some s)"

definition initWithSeedJson ::
  "(string \<Rightarrow> nsobj option) \<Rightarrow> string option \<Rightarrow> string \<Rightarrow> string \<Rightarrow> blob_builder" where
  "initWithSeedJson parse json clientId target =
     (let seed = (case parseSeedDictionary parse json of None \<Rightarrow> [] | Some d \<Rightarrow> d)
      in \<lparr>obSchemaVersion = seed_string seed ''schema_version'',
          obSessionCorrelationId = seed_string seed ''session_correlation_id'',
          obOnboardingMode = seed_string seed ''onboarding_mode'',
          obClientId = clientId, obTarget = target,
          obStepsList = seed_steps seed,
          obBlockingErrors = seed_strings seed ''blocking_errors'',
          obUxFlowUsed = seed_strings seed ''ux_flow_used'',
          obLastLoadedDomain = seed_domain seed,
          obStrongAuthSetupStarted = False\<rparr>)"

section \<open>Growing the record\<close>

definition addStep :: "string \<Rightarrow> string \<Rightarrow> blob_builder \<Rightarrow> blob_builder" where
  "addStep stepId ts b = b\<lparr>obStepsList := obStepsList b @ [(stepId, ts)]\<rparr>"

definition addBlockingError :: "string \<Rightarrow> blob_builder \<Rightarrow> blob_builder" where
  "addBlockingError errorCode b = b\<lparr>obBlockingErrors := obBlockingErrors b @ [errorCode]\<rparr>"

definition setLastLoadedDomain :: "string option \<Rightarrow> blob_builder \<Rightarrow> blob_builder" where
  "setLastLoadedDomain domain b = b\<lparr>obLastLoadedDomain := domain\<rparr>"

definition addUxFlowUsed :: "string \<Rightarrow> blob_builder \<Rightarrow> blob_builder" where
  "addUxFlowUsed flowTag b = b\<lparr>obUxFlowUsed := obUxFlowUsed b @ [flowTag]\<rparr>"

definition ensureBrokeredOnboardingMode :: "blob_builder \<Rightarrow> blob_builder" where
  "ensureBrokeredOnboardingMode b =
     (if obOnboardingMode b \<noteq> ''brokered'' then b\<lparr>obOnboardingMode := ''brokered''\<rparr> else b)"

definition nonBlockingOnboardingErrorCodes :: "string list" where
  "nonBlockingOnboardingErrorCodes = [''50058'', ''50097'', ''50126'']"

definition remediation_step :: "blob_builder \<Rightarrow> string \<Rightarrow> string option" where
  "remediation_step b errorCode =
     (if errorCode = ''50079'' \<and> \<not> obStrongAuthSetupStarted b then Some ''StrongAuthSetupStarted''
      else if errorCode = ''50129'' \<or> errorCode = ''501291'' then Some ''DeviceRegistrationRequired''
      else if errorCode = ''530001'' \<or> errorCode = ''530002'' then Some ''DeviceNotCompliant''
      else if errorCode = ''53000'' \<or> errorCode = ''530003'' then Some ''MDMEnrollmentRequired''
      else if errorCode = ''50127'' then Some ''BrokerInstallPromptedForMAM''
      else if errorCode = ''501271'' then Some ''BrokerInstallPrompted''
      else None)"

definition recordRemediationStepForErrorCode :: "string \<Rightarrow> string \<Rightarrow> blob_builder \<Rightarrow> blob_builder" where
  "recordRemediationStepForErrorCode now errorCode b =
     (case remediation_step b errorCode of
        None \<Rightarrow> b
      | Some s \<Rightarrow>
          if s = ''StrongAuthSetupStarted'' then (addStep s now b)\<lparr>obStrongAuthSetupStarted := True\<rparr>
          else addStep s now b)"

text \<open>\<open>componentsSeparatedByString:@","\<close>: the pieces between the commas.\<close>

fun comma_pieces :: "string \<Rightarrow> string list" where
  "comma_pieces [] = [[]]"
| "comma_pieces (c # s) =
     (if c = CHR '','' then [] # comma_pieces s
      else (case comma_pieces s of [] \<Rightarrow> [[c]] | p # ps \<Rightarrow> (c # p) # ps))"

text \<open>The error code of the \<open>x-ms-clitelem\<close> header that blocks the onboarding, if there is one.\<close>

definition blocking_code :: "string option \<Rightarrow> string option" where
  "blocking_code cliTelem =
     (if msidIsStringNilOrBlank cliTelem then None
      else
        (let components = comma_pieces (the cliTelem)
         in if length components < 2 then None
            else
              (let errorCode = msidTrimmedString (components ! 1)
               in if errorCode = [] \<or> errorCode = ''0'' then None
                  else if errorCode \<in> set nonBlockingOnboardingErrorCodes then None
                  else Some errorCode)))"

definition processResponseHeaders ::
  "string \<Rightarrow> (string, string) dict \<Rightarrow> string option \<Rightarrow> blob_builder \<Rightarrow> blob_builder" where
  "processResponseHeaders now headers host b =
     (let b1 = (case host of None \<Rightarrow> b | Some h \<Rightarrow> if h = [] then b else setLastLoadedDomain (Some h) b)
      in (case blocking_code (dict_get headers ''x-ms-clitelem'') of
            None \<Rightarrow> b1
          | Some errorCode \<Rightarrow> recordRemediationStepForErrorCode now errorCode (addBlockingError errorCode b1)))"

section \<open>The end of the flow\<close>

record url_components =
  ucScheme :: "string option"
  ucHost :: "string option"
  ucPath :: string
  ucQueryItems :: "(string \<times> string option) list"

text \<open>\<open>[s caseInsensitiveCompare:t] != NSOrderedSame\<close>, which is NO for a nil \<open>s\<close>.\<close>

definition compare_differs :: "string option \<Rightarrow> string \<Rightarrow> bool" where
  "compare_differs s t = (case s of None \<Rightarrow> False | Some u \<Rightarrow> \<not> caseInsensitiveSame u t)"

definition onboardingStepsByFwlinkLinkId :: "(string, string) dict" where
  "onboardingStepsByFwlinkLinkId =
     [(''396941'', ''MDMEnrollmentStarted''), (''2132314'', ''MDMEnrollmentStarted''),
      (''2114747'', ''MDMEnrollmentStarted''), (''399153'', ''MDMEnrollmentStarted'')]"

definition onboardingStepForEndURL :: "url_components option \<Rightarrow> string option" where
  "onboardingStepForEndURL endURL =
     (case endURL of
        None \<Rightarrow> None
      | Some u \<Rightarrow>
          if compare_differs (ucScheme u) ''browser'' then None
          else if compare_differs (ucHost u) ''go.microsoft.com'' then None
          else if \<not> caseInsensitiveSame (ucPath u) ''/fwlink'' \<and> \<not> caseInsensitiveSame (ucPath u) ''/fwlink/''
          then None
          else
            (case find (\<lambda>(n, _). caseInsensitiveSame n ''LinkId'') (ucQueryItems u) of
               Some (_, Some v) \<Rightarrow> if v = [] then None else dict_get onboardingStepsByFwlinkLinkId v
             | _ \<Rightarrow> None))"

definition finalizeForEndURL ::
  "string \<Rightarrow> url_components option \<Rightarrow> bool \<Rightarrow> blob_builder \<Rightarrow> blob_builder" where
  "finalizeForEndURL now endURL hasError b =
     (let flowSucceeded = (endURL \<noteq> None \<and> \<not> hasError);
          b1 = (if flowSucceeded \<and> obStrongAuthSetupStarted b then addStep ''StrongAuthSetupCompleted'' now b else b)
      in (case onboardingStepForEndURL endURL of None \<Rightarrow> b1 | Some s \<Rightarrow> addStep s now b1))"

definition step_dict :: "string \<times> string \<Rightarrow> nsobj" where
  "step_dict s = NSDict [(''step_id'', NSStr (fst s)), (''ts'', NSStr (snd s))]"

definition nil_if_empty :: "'a list \<Rightarrow> 'b \<Rightarrow> 'b option" where
  "nil_if_empty xs v = (if xs = [] then None else Some v)"

definition blob_json :: "blob_builder \<Rightarrow> (string, nsobj) dict" where
  "blob_json b =
     dict_assign ''ux_flow_used'' (nil_if_empty (obUxFlowUsed b) (NSArr (map NSStr (obUxFlowUsed b))))
     (dict_assign ''last_completed_step'' (nil_if_empty (obStepsList b) (NSStr (fst (last (obStepsList b)))))
     (dict_assign ''last_loaded_domain'' (map_option NSStr (obLastLoadedDomain b))
     (dict_assign ''last_blocking_error'' (nil_if_empty (obBlockingErrors b) (NSStr (last (obBlockingErrors b))))
      [(''blocking_errors'', NSArr (map NSStr (obBlockingErrors b))),
       (''steps_list'', NSArr (map step_dict (obStepsList b))),
       (''onboarding_mode'', NSStr (obOnboardingMode b)),
       (''session_correlation_id'', NSStr (obSessionCorrelationId b)),
       (''schema_version'', NSStr (obSchemaVersion b))])))"

definition finalizeBlob :: "((string, nsobj) dict \<Rightarrow> string option) \<Rightarrow> blob_builder \<Rightarrow> string" where
  "finalizeBlob serialize b = (case serialize (blob_json b) of None \<Rightarrow> [] | Some s \<Rightarrow> s)"

section \<open>Seeding with a finalized blob\<close>

lemma map_filter_seed_step [simp]: "List.map_filter seed_step (map step_dict xs) = xs"
  by (induction xs) (simp_all add: List.map_filter_simps seed_step_def step_dict_def)

lemma map_filter_as_string [simp]: "List.map_filter as_string (map NSStr xs) = xs"
  by (induction xs) (simp_all add: List.map_filter_simps)

lemma blob_json_lookups [simp]:
  "dict_get (blob_json b) ''schema_version'' = Some (NSStr (obSchemaVersion b))"
  "dict_get (blob_json b) ''session_correlation_id'' = Some (NSStr (obSessionCorrelationId b))"
  "dict_get (blob_json b) ''onboarding_mode'' = Some (NSStr (obOnboardingMode b))"
  "dict_get (blob_json b) ''steps_list'' = Some (NSArr (map step_dict (obStepsList b)))"
  "dict_get (blob_json b) ''blocking_errors'' = Some (NSArr (map NSStr (obBlockingErrors b)))"
  "dict_get (blob_json b) ''ux_flow_used'' = nil_if_empty (obUxFlowUsed b) (NSArr (map NSStr (obUxFlowUsed b)))"
  "dict_get (blob_json b) ''last_loaded_domain'' = map_option NSStr (obLastLoadedDomain b)"
  by (simp_all add: blob_json_def)

text \<open>
  A builder seeded with a finalized blob continues where the earlier one ended, but for the
  flag of a started strong authentication setup, which starts from NO again (and an empty domain).
\<close>

theorem reseeded_builder:
  assumes "serialize (blob_json b) = Some json" "parse json = Some (NSDict (blob_json b))"
    and "\<not> msidIsStringNilOrBlank (Some json)" "obLastLoadedDomain b \<noteq> Some []"
  shows "initWithSeedJson parse (Some (finalizeBlob serialize b)) (obClientId b) (obTarget b)
         = b\<lparr>obStrongAuthSetupStarted := False\<rparr>"
proof -
  have "seed_strings (blob_json b) ''ux_flow_used'' = obUxFlowUsed b"
    by (cases "obUxFlowUsed b = []") (simp_all add: seed_strings_def nil_if_empty_def)
  moreover have "seed_domain (blob_json b) = obLastLoadedDomain b"
    using assms(4) by (cases "obLastLoadedDomain b") (simp_all add: seed_domain_def)
  moreover have "parseSeedDictionary parse (Some (finalizeBlob serialize b)) = Some (blob_json b)"
    using assms by (simp add: parseSeedDictionary_def finalizeBlob_def)
  ultimately show ?thesis
    by (cases b) (simp add: initWithSeedJson_def seed_string_def seed_strings_def seed_steps_def)
qed

definition witness_builder :: blob_builder where
  "witness_builder =
     processResponseHeaders ''T1'' [(''x-ms-clitelem'', ''1,50079,0,,'')] (Some ''login.test'')
       (initWithSeedJson (\<lambda>_. None) None ''client'' ''scope'')"

lemma witness_builder_fields:
  "obSchemaVersion witness_builder = []" "obStrongAuthSetupStarted witness_builder"
  "obLastLoadedDomain witness_builder = Some ''login.test''"
  "obStepsList witness_builder = [(''StrongAuthSetupStarted'', ''T1'')]"
  "obClientId witness_builder = ''client''" "obTarget witness_builder = ''scope''"
  by code_simp+

theorem reseeded_builder_witness:
  "initWithSeedJson (\<lambda>_. Some (NSDict (blob_json witness_builder))) (Some ''{}'') ''client'' ''scope''
   = witness_builder\<lparr>obStrongAuthSetupStarted := False\<rparr>"
proof -
  have "\<not> msidIsStringNilOrBlank (Some ''{}'')" by code_simp
  then show ?thesis
    using reseeded_builder [of "\<lambda>_. Some ''{}''" witness_builder "''{}''" "\<lambda>_. Some (NSDict (blob_json witness_builder))"]
    by (simp add: witness_builder_fields finalizeBlob_def)
qed

section \<open>Counting the strong authentication steps\<close>

type_synonym response = "string \<times> (string, string) dict \<times> string option"

definition run_response :: "response \<Rightarrow> blob_builder \<Rightarrow> blob_builder" where
  "run_response r b = (case r of (now, headers, host) \<Rightarrow> processResponseHeaders now headers host b)"

definition strong_auth_steps :: "blob_builder \<Rightarrow> nat" where
  "strong_auth_steps b = length (filter (\<lambda>s. fst s = ''StrongAuthSetupStarted'') (obStepsList b))"

definition same_balance :: "blob_builder \<Rightarrow> blob_builder \<Rightarrow> bool" where
  "same_balance b b' \<longleftrightarrow>
     strong_auth_steps b' + of_bool (obStrongAuthSetupStarted b)
     = strong_auth_steps b + of_bool (obStrongAuthSetupStarted b')"

lemma remediation_step_strong_auth:
  "remediation_step b e = Some ''StrongAuthSetupStarted'' \<Longrightarrow> \<not> obStrongAuthSetupStarted b"
  by (simp add: remediation_step_def split: if_splits)

lemma recordRemediationStep_balance:
  "same_balance b (recordRemediationStepForErrorCode now e b)"
  using remediation_step_strong_auth [of b e]
  by (auto simp: same_balance_def recordRemediationStepForErrorCode_def strong_auth_steps_def addStep_def
      split: option.split)

lemma same_balance_trans: "same_balance a b \<Longrightarrow> same_balance b c \<Longrightarrow> same_balance a c"
  by (simp add: same_balance_def)

lemma run_response_balance: "same_balance b (run_response r b)"
proof -
  have plain: "same_balance b (addBlockingError e b)" "same_balance b (setLastLoadedDomain h b)" "same_balance b b" for b e h
    by (simp_all add: same_balance_def strong_auth_steps_def addBlockingError_def setLastLoadedDomain_def)
  obtain now headers host where r: "r = (now, headers, host)" by (cases r)
  define b1 where "b1 = (case host of None \<Rightarrow> b | Some h \<Rightarrow> if h = [] then b else setLastLoadedDomain (Some h) b)"
  have "same_balance b b1" by (simp add: b1_def plain split: option.split)
  moreover have "same_balance b1 (run_response r b)"
    by (auto simp: r run_response_def processResponseHeaders_def b1_def [symmetric] plain
        intro: same_balance_trans [OF _ recordRemediationStep_balance] split: option.split)
  ultimately show ?thesis by (rule same_balance_trans)
qed

text \<open>
  The responses of one builder's life add the step of a started strong authentication setup
  at most once, exactly when they raise the flag, and never lose it.
\<close>

theorem strong_auth_recorded_once:
  "strong_auth_steps (fold run_response rs b) + of_bool (obStrongAuthSetupStarted b)
   = strong_auth_steps b + of_bool (obStrongAuthSetupStarted (fold run_response rs b))"
proof -
  have "same_balance b (fold run_response rs b)"
  proof (induction rs arbitrary: b)
    case Nil
    show ?case by (simp add: same_balance_def)
  next
    case (Cons r rs)
    show ?case
      using same_balance_trans [OF run_response_balance Cons.IH] by simp
  qed
  then show ?thesis by (simp add: same_balance_def)
qed

end
