(* ===== verification/Navigation.thy ===== *)
theory Navigation
  imports OnboardingBlob ErrorCodes
begin

text \<open>
  \<open>webview/embeddedWebview/\<close>: what the embedded webview does with a redirect to a scheme of its own
  (\<open>MSIDWebviewNavigationDecisionResolver.m\<close>), the decisions it is told
  (\<open>MSIDWebviewNavigationDecision.m\<close>), the hand-off to a system browser that a response header asks for
  (\<open>MSIDWebviewNavigationHandler.m\<close>) and the Intune device id kept between the steps
  (\<open>intune/MSIDIntuneDeviceIdCache.m\<close>). The URL parser of Foundation, the broker extension, the callback
  of the application and the outcome of the keychain are the fields of \<open>nav_env\<close>; the messages of
  the errors are kept, their correlation id is not.
\<close>

section \<open>URLs, requests and errors\<close>

record nsurl =
  nuScheme :: "string option"
  nuHost :: "string option"
  nuQuery :: "string option"
  nuItems :: "(string \<times> string option) list"

record url_request =
  rqURL :: nsurl
  rqHeaders :: "(string, string) dict"

text \<open>\<open>setValue:forHTTPHeaderField:\<close>: field names do not depend on case, so they are kept in lower case.\<close>

definition setHTTPHeader :: "string \<times> string \<Rightarrow> (string, string) dict \<Rightarrow> (string, string) dict" where
  "setHTTPHeader kv hs = (case kv of (k, v) \<Rightarrow> if k = [] then hs else dict_put (lowercaseString k) v hs)"

definition plain_request :: "nsurl \<Rightarrow> url_request" where
  "plain_request u = \<lparr>rqURL = u, rqHeaders = []\<rparr>"

definition msid_error :: "int \<Rightarrow> string \<Rightarrow> nserror" where
  "msid_error code description =
     \<lparr>errDomain = ''MSIDErrorDomain'', errCode = code,
      errUserInfo = [(''MSIDErrorDescriptionKey'', NSStr description)]\<rparr>"

definition error_internal :: int where
  "error_internal = error_code ''MSIDErrorInternal''"

definition error_invalid_internal_parameter :: int where
  "error_invalid_internal_parameter = error_code ''MSIDErrorInvalidInternalParameter''"

definition error_user_cancel :: int where
  "error_user_cancel = error_code ''MSIDErrorUserCancel''"

definition error_session_canceled_programmatically :: int where
  "error_session_canceled_programmatically = error_code ''MSIDErrorSessionCanceledProgrammatically''"

section \<open>Decisions\<close>

datatype decision_type =
    NavigationContinueDefault
  | NavigationLoadRequest
  | NavigationCompleteWithURL
  | NavigationFailWithError

record navigation_decision =
  ndType :: decision_type
  ndRequest :: "url_request option"
  ndURL :: "nsurl option"
  ndError :: "nserror option"

definition initWithType ::
  "decision_type \<Rightarrow> url_request option \<Rightarrow> nsurl option \<Rightarrow> nserror option \<Rightarrow> navigation_decision" where
  "initWithType ty request url err = \<lparr>ndType = ty, ndRequest = request, ndURL = url, ndError = err\<rparr>"

definition continueDefault :: navigation_decision where
  "continueDefault = initWithType NavigationContinueDefault None None None"

definition loadRequest :: "url_request option \<Rightarrow> navigation_decision" where
  "loadRequest request = initWithType NavigationLoadRequest request None None"

definition completeWithURL :: "nsurl option \<Rightarrow> navigation_decision" where
  "completeWithURL url = initWithType NavigationCompleteWithURL None url None"

definition failWithError :: "nserror option \<Rightarrow> navigation_decision" where
  "failWithError err = initWithType NavigationFailWithError None None err"

definition isValid :: "navigation_decision \<Rightarrow> bool" where
  "isValid d =
     (case ndType d of
        NavigationLoadRequest \<Rightarrow> ndRequest d \<noteq> None
      | NavigationCompleteWithURL \<Rightarrow> ndURL d \<noteq> None
      | NavigationFailWithError \<Rightarrow> ndError d \<noteq> None
      | NavigationContinueDefault \<Rightarrow> True)"

section \<open>The environment and the state\<close>

record nav_env =
  neNow :: string
  neURLWithString :: "string \<Rightarrow> nsurl option"
  neComponents :: "string \<Rightarrow> nsurl option"
  neAssemble :: "nsurl \<Rightarrow> nsurl option"
  nePlatform :: string
  neSdkVersion :: string
  neSSOExtension :: bool
  neBrowserAction :: "(nsurl \<Rightarrow> url_request option) option"
  neSaveOk :: bool
  neReadable :: bool
  neUXProvider :: bool
  neNotificationDelay :: "string option"

datatype ux_call = ScheduleMDMNotification rat | CancelMDMNotification

record nav_state =
  nvBuilder :: "blob_builder option"
  nvDeviceIds :: "(string, nsobj) dict list"
  nvUXCalls :: "ux_call list"

definition stamp :: "nav_env \<Rightarrow> string \<Rightarrow> nav_state \<Rightarrow> nav_state" where
  "stamp env step st = st\<lparr>nvBuilder := map_option (addStep step (neNow env)) (nvBuilder st)\<rparr>"

text \<open>The cache of the Intune device id: one slot of the keychain.\<close>

definition setIntuneDeviceId :: "nav_env \<Rightarrow> string \<Rightarrow> nav_state \<Rightarrow> nav_state \<times> bool" where
  "setIntuneDeviceId env deviceId st =
     (if deviceId = [] then (st, False)
      else if neSaveOk env then (st\<lparr>nvDeviceIds := [[(''intune_device_id'', NSStr deviceId)]]\<rparr>, True)
      else (st, False))"

definition intuneDeviceId :: "nav_env \<Rightarrow> nav_state \<Rightarrow> string option" where
  "intuneDeviceId env st =
     (if \<not> neReadable env then None
      else
        (case nvDeviceIds st of
           [] \<Rightarrow> None
         | json # _ \<Rightarrow>
             (case msidStringObjectForKey json ''intune_device_id'' of
                None \<Rightarrow> None
              | Some v \<Rightarrow> if v = [] then None else Some v)))"

definition clearIntuneDeviceId :: "nav_state \<Rightarrow> nav_state" where
  "clearIntuneDeviceId st = st\<lparr>nvDeviceIds := []\<rparr>"

section \<open>Resolving a redirect\<close>

text \<open>The query parameters of a redirect; no query gives nil, which answers nil for every key.\<close>

definition query_params :: "nsurl \<Rightarrow> (string, string) dict" where
  "query_params u =
     (case msidDictionaryFromURLEncodedString (nuQuery u) False of None \<Rightarrow> [] | Some d \<Rightarrow> d)"

definition trimmed_param :: "(string, string) dict \<Rightarrow> string \<Rightarrow> string" where
  "trimmed_param params k = (case dict_get params k of None \<Rightarrow> [] | Some v \<Rightarrow> msidTrimmedString v)"

text \<open>\<open>stringByRemovingPercentEncoding\<close>, or the raw value where that fails.\<close>

definition percent_decoded :: "string \<Rightarrow> string" where
  "percent_decoded s = (case msidURLDecode s of None \<Rightarrow> s | Some d \<Rightarrow> d)"

definition buildRequestForURL ::
  "nav_env \<Rightarrow> string \<Rightarrow> (string, string) dict \<Rightarrow> (string, string) dict \<Rightarrow> url_request option" where
  "buildRequestForURL env urlString extraHeaders extraParams =
     (if urlString = [] then None
      else
        (case neComponents env urlString of
           None \<Rightarrow> None
         | Some c \<Rightarrow>
             (let c' = (if extraParams = [] then c
                        else c\<lparr>nuItems := nuItems c @ map (\<lambda>(k, v). (k, Some v)) (filter (\<lambda>(k, _). k \<noteq> []) extraParams)\<rparr>)
              in (case neAssemble env c' of
                    None \<Rightarrow> None
                  | Some u \<Rightarrow> Some \<lparr>rqURL = u, rqHeaders = fold setHTTPHeader extraHeaders []\<rparr>))))"

definition enroll_params :: "nav_env \<Rightarrow> (string, string) dict \<Rightarrow> nav_state \<Rightarrow> (string, string) dict" where
  "enroll_params env params st =
     (let base = [(''webauthn'', ''1''), (''in-app'', ''true'')];
          allParams = addEntriesFromDictionary base (dict_del ''intuneRedirectUrl'' params)
      in (case dict_get allParams ''intuneDeviceId'' of
            Some _ \<Rightarrow> allParams
          | None \<Rightarrow> dict_assign ''intuneDeviceId'' (intuneDeviceId env st) allParams))"

definition enroll_headers :: "nav_env \<Rightarrow> (string, string) dict \<Rightarrow> (string, string) dict" where
  "enroll_headers env callerHeaders =
     (let hs = addEntriesFromDictionary [] callerHeaders;
          hs = (if nePlatform env = [] then hs else dict_put ''x-client-SKU'' (nePlatform env) hs)
      in if neSdkVersion env = [] then hs else dict_put ''x-client-Ver'' (neSdkVersion env) hs)"

definition decisionForEnrollURL ::
  "nav_env \<Rightarrow> (string, string) dict \<Rightarrow> (string, string) dict \<Rightarrow> nav_state \<Rightarrow> nav_state \<times> navigation_decision" where
  "decisionForEnrollURL env params callerHeaders st =
     (let intuneURL = trimmed_param params ''intuneRedirectUrl''
      in if intuneURL = []
         then (stamp env ''MDMEnrollmentUrlMissing'' st,
               failWithError (Some (msid_error error_invalid_internal_parameter
                 ''Missing required intuneUrl parameter in enrollment URL.'')))
         else
           (case buildRequestForURL env (percent_decoded intuneURL) (enroll_headers env callerHeaders)
                   (enroll_params env params st) of
              None \<Rightarrow>
                (stamp env ''MDMEnrollmentRequestMalformed'' st,
                 failWithError (Some (msid_error error_invalid_internal_parameter
                   ''Failed to construct enrollment request URL.'')))
            | Some request \<Rightarrow> (stamp env ''MDMEnrollmentStarted'' st, loadRequest (Some request))))"

definition has_text :: "string option \<Rightarrow> bool" where
  "has_text s = (case s of None \<Rightarrow> False | Some t \<Rightarrow> t \<noteq> [])"

definition decisionForProfileDownloadComplete ::
  "nav_env \<Rightarrow> (string, string) dict \<Rightarrow> nav_state \<Rightarrow> nav_state \<times> navigation_decision" where
  "decisionForProfileDownloadComplete env params st0 =
     (let st = fst (setIntuneDeviceId env (trimmed_param params ''intuneDeviceId'') st0);
          profileURLString = trimmed_param params ''continueUrl''
      in if profileURLString = []
         then (stamp env ''ProfileInstallUrlMissing'' st,
               failWithError (Some (msid_error error_invalid_internal_parameter
                 ''Missing required profile install URL in profile download completion redirect.'')))
         else
           (case neURLWithString env (percent_decoded profileURLString) of
              None \<Rightarrow>
                (stamp env ''ProfileInstallUrlMalformed'' st,
                 failWithError (Some (msid_error error_invalid_internal_parameter
                   ''Invalid profile install URL: missing scheme or host.'')))
            | Some u \<Rightarrow>
                if \<not> has_text (nuScheme u) \<or> \<not> has_text (nuHost u)
                then (stamp env ''ProfileInstallUrlMalformed'' st,
                      failWithError (Some (msid_error error_invalid_internal_parameter
                        ''Invalid profile install URL: missing scheme or host.'')))
                else (stamp env ''ProfileDownloadCompleted'' st, loadRequest (Some (plain_request u)))))"

definition decisionForEnrollmentCompletionURL ::
  "nav_env \<Rightarrow> nsurl \<Rightarrow> (string, string) dict \<Rightarrow> nav_state \<Rightarrow> nav_state \<times> navigation_decision" where
  "decisionForEnrollmentCompletionURL env url params st0 =
     (let st = (if neUXProvider env then st0\<lparr>nvUXCalls := nvUXCalls st0 @ [CancelMDMNotification]\<rparr> else st0)
      in if neSSOExtension env then (st, completeWithURL (Some url))
         else
           (let st1 = stamp env ''SSOExtensionUnavailable'' st;
                errorURLString = trimmed_param params ''errorUrl'';
                failure = failWithError (Some (msid_error error_internal
                  ''SSO extension is not available and no valid fallback error URL was provided for enrollment completion.''))
            in if errorURLString = [] then (st1, failure)
               else
                 (case neURLWithString env (percent_decoded errorURLString) of
                    Some u \<Rightarrow>
                      (stamp env ''MDMEnrollmentCompletionRetryStarted'' st1, loadRequest (Some (plain_request u)))
                  | None \<Rightarrow> (st1, failure))))"

text \<open>The compliance request, or the one the application's block makes of its \<open>browser\<close> form.\<close>

definition compliance_override :: "nav_env \<Rightarrow> url_request \<Rightarrow> url_request" where
  "compliance_override env request =
     (case neBrowserAction env of
        None \<Rightarrow> request
      | Some browserAction \<Rightarrow>
          if map_option lowercaseString (nuScheme (rqURL request)) = Some ''https''
          then
            (case neAssemble env ((rqURL request)\<lparr>nuScheme := Some ''browser''\<rparr>) of
               None \<Rightarrow> request
             | Some legacy \<Rightarrow> (case browserAction legacy of None \<Rightarrow> request | Some r \<Rightarrow> r))
          else request)"

definition decisionForComplianceURL ::
  "nav_env \<Rightarrow> (string, string) dict \<Rightarrow> nav_state \<Rightarrow> nav_state \<times> navigation_decision" where
  "decisionForComplianceURL env params st0 =
     (let st = stamp env ''ComplianceRemediationMSAuthRedirect'' st0;
          intuneURL = trimmed_param params ''intuneRedirectUrl''
      in if intuneURL = []
         then (stamp env ''ComplianceRemediationUrlMissing'' st,
               failWithError (Some (msid_error error_invalid_internal_parameter
                 ''Missing required intuneUrl parameter in compliance URL.'')))
         else
           (case buildRequestForURL env (percent_decoded intuneURL) []
                   (addEntriesFromDictionary [] (dict_del ''intuneRedirectUrl'' params)) of
              None \<Rightarrow>
                (stamp env ''ComplianceRemediationRequestMalformed'' st,
                 failWithError (Some (msid_error error_invalid_internal_parameter
                   ''Failed to construct compliance request URL.'')))
            | Some request \<Rightarrow> (st, loadRequest (Some (compliance_override env request)))))"

definition handleMSAuthURL ::
  "nav_env \<Rightarrow> nsurl \<Rightarrow> (string, string) dict \<Rightarrow> nav_state \<Rightarrow> nav_state \<times> navigation_decision" where
  "handleMSAuthURL env url callerHeaders st =
     (case map_option lowercaseString (nuHost url) of
        None \<Rightarrow> (st, failWithError (Some (msid_error error_invalid_internal_parameter
                  ''Cannot resolve 'msauth' URL: host is missing or empty.'')))
      | Some host \<Rightarrow>
          if host = [] then (st, failWithError (Some (msid_error error_invalid_internal_parameter
                  ''Cannot resolve 'msauth' URL: host is missing or empty.'')))
          else if host = ''enroll'' then decisionForEnrollURL env (query_params url) callerHeaders st
          else if host = ''profile_download_complete''
          then decisionForProfileDownloadComplete env (query_params url) st
          else if host = ''compliance'' then decisionForComplianceURL env (query_params url) st
          else if host = ''in_app_enrollment_complete''
          then decisionForEnrollmentCompletionURL env url (query_params url) st
          else (st, continueDefault))"

definition resolveDecisionForURL ::
  "nav_env \<Rightarrow> nsurl option \<Rightarrow> (string, string) dict \<Rightarrow> nav_state \<Rightarrow> nav_state \<times> navigation_decision" where
  "resolveDecisionForURL env url additionalHeaders st =
     (case url of
        None \<Rightarrow> (st, failWithError (Some (msid_error error_invalid_internal_parameter
                  ''Cannot resolve navigation decision: URL is nil.'')))
      | Some u \<Rightarrow>
          (case map_option lowercaseString (nuScheme u) of
             None \<Rightarrow> (st, failWithError (Some (msid_error error_invalid_internal_parameter
                       ''Cannot resolve navigation decision: URL scheme is missing or empty.'')))
           | Some scheme \<Rightarrow>
               if scheme = [] then (st, failWithError (Some (msid_error error_invalid_internal_parameter
                       ''Cannot resolve navigation decision: URL scheme is missing or empty.'')))
               else if scheme = ''msauth'' then handleMSAuthURL env u additionalHeaders st
               else if scheme = ''browser'' then (st, continueDefault)
               else (st, continueDefault)))"

section \<open>Handing off to a system browser\<close>

text \<open>\<open>asWebAuthAllowedDomains\<close> of \<open>MSIDWebviewConstants.m\<close>.\<close>

definition asWebAuthAllowedDomains :: "string list" where
  "asWebAuthAllowedDomains =
     [''portal.manage-dogfood.microsoft.com'', ''portal.manage-selfhost.microsoft.com'',
      ''portal.manage-beta.microsoft.com'', ''portal.manage.microsoft.com'',
      ''portal.manage-ppe.microsoft.us'', ''portal.manage.microsoft.us'',
      ''portal.manage-ppe.microsoftonline.cn'', ''portal.manage.microsoftonline.cn'',
      ''portal.manage.svc.sovcloud.fr'']"

text \<open>The handler: the headers of the last response, and whether it refers to the builder.\<close>

record navigation_handler =
  nhLastResponseHeaders :: "(string, nsobj) dict"
  nhTracksBuilder :: bool

record http_response =
  hrHeaders :: "(string, nsobj) dict"
  hrURL :: "nsurl option"

definition normalizeHeaders :: "(string, nsobj) dict \<Rightarrow> (string, nsobj) dict" where
  "normalizeHeaders headers = fold (\<lambda>(k, v) n. dict_put (lowercaseString k) v n) headers []"

definition isURLInAllowedDomains :: "nsurl \<Rightarrow> bool" where
  "isURLInAllowedDomains u =
     (case map_option lowercaseString (nuHost u) of
        None \<Rightarrow> False
      | Some host \<Rightarrow> host \<noteq> [] \<and> host \<in> set asWebAuthAllowedDomains)"

definition isAllowedHandoffOrigin :: "nsurl option \<Rightarrow> bool" where
  "isAllowedHandoffOrigin url =
     (case url of
        None \<Rightarrow> False
      | Some u \<Rightarrow> if compare_differs (nuScheme u) ''https'' then False else isURLInAllowedDomains u)"

definition header_string :: "navigation_handler \<Rightarrow> string \<Rightarrow> string option" where
  "header_string h k = Option.bind (dict_get (nhLastResponseHeaders h) k) as_string"

definition string_headers :: "(string, nsobj) dict \<Rightarrow> (string, string) dict" where
  "string_headers d = List.map_filter (\<lambda>(k, v). map_option (Pair k) (as_string v)) d"

definition processNavigationResponse ::
  "nav_env \<Rightarrow> http_response option \<Rightarrow> navigation_handler \<Rightarrow> nav_state \<Rightarrow> navigation_handler \<times> nav_state \<times> bool" where
  "processNavigationResponse env response h st =
     (let headers = (case response of None \<Rightarrow> [] | Some r \<Rightarrow> hrHeaders r);
          url = Option.bind response hrURL;
          h' = h\<lparr>nhLastResponseHeaders := normalizeHeaders headers, nhTracksBuilder := nvBuilder st \<noteq> None\<rparr>;
          st' = (if response = None then st
                 else st\<lparr>nvBuilder := map_option (processResponseHeaders (neNow env) (string_headers headers)
                             (Option.bind url nuHost)) (nvBuilder st)\<rparr>)
      in if \<not> has_text (header_string h' ''x-ms-aswebauth-handoff-url'') then (h', st', False)
         else if \<not> isAllowedHandoffOrigin url then (h', st', False)
         else (h', st', True))"

definition isValidHandoffURL :: "nsurl option \<Rightarrow> bool \<times> string option" where
  "isValidHandoffURL url =
     (let message =
        (case url of
           None \<Rightarrow> Some ''ASWebAuthentication handoff URL is nil''
         | Some u \<Rightarrow>
             if \<not> has_text (nuScheme u) then Some ''ASWebAuthentication handoff URL scheme is missing''
             else if compare_differs (nuScheme u) ''https'' then Some ''ASWebAuthentication handoff URL must use HTTPS scheme''
             else if \<not> isURLInAllowedDomains u
             then Some (''ASWebAuthentication handoff URL domain '' @ CHR 0x27 # the (nuHost u) @ CHR 0x27 #
                    '' is not in the allowed domains list'')
             else None)
      in (message = None, message))"

definition callbackURLScheme :: "navigation_handler \<Rightarrow> string" where
  "callbackURLScheme h =
     (case map_option msidTrimmedString (header_string h ''x-ms-aswebauth-handoff-redirect-scheme'') of
        None \<Rightarrow> ''msauth''
      | Some t \<Rightarrow> if t = [] then ''msauth'' else t)"

definition shouldUseEphemeralSession :: "navigation_handler \<Rightarrow> bool" where
  "shouldUseEphemeralSession h =
     (case header_string h ''x-ms-aswebauth-handoff-use-ephemeral-session'' of
        None \<Rightarrow> True | Some v \<Rightarrow> \<not> caseInsensitiveSame v ''false'')"

definition addForwardedHeader ::
  "navigation_handler \<Rightarrow> string \<Rightarrow> (string, string) dict \<Rightarrow> (string, string) dict" where
  "addForwardedHeader h headerName additionalHeaders =
     (let trimmed = msidTrimmedString headerName;
          lowercaseTrimmed = lowercaseString trimmed
      in if trimmed = [] \<or> \<not> hasPrefix lowercaseTrimmed ''x-ms-aswebauth-handoff-'' then additionalHeaders
         else
           (case header_string h lowercaseTrimmed of
              None \<Rightarrow> additionalHeaders
            | Some v \<Rightarrow> dict_put trimmed v additionalHeaders))"

definition buildAdditionalHeadersFromList :: "navigation_handler \<Rightarrow> string \<Rightarrow> (string, string) dict" where
  "buildAdditionalHeadersFromList h attachHeadersList = fold (addForwardedHeader h) (comma_pieces attachHeadersList) []"

definition extractAdditionalHeadersToForward :: "navigation_handler \<Rightarrow> (string, string) dict option" where
  "extractAdditionalHeadersToForward h =
     (case header_string h ''x-ms-aswebauth-handoff-include-headers'' of
        None \<Rightarrow> None
      | Some v \<Rightarrow>
          if \<not> caseInsensitiveSame v ''true'' then None
          else
            (case header_string h ''x-ms-aswebauth-handoff-attach-headers'' of
               None \<Rightarrow> None
             | Some l \<Rightarrow> if l = [] then None else Some (buildAdditionalHeadersFromList h l)))"

definition notification_delay :: "nav_env \<Rightarrow> rat" where
  "notification_delay env =
     (let delay = (case neNotificationDelay env of
                     None \<Rightarrow> 75 | Some s \<Rightarrow> if s = [] then 75 else doubleValue s)
      in if delay \<le> 0 then 75 else delay)"

definition stamp_if :: "bool \<Rightarrow> nav_env \<Rightarrow> string \<Rightarrow> nav_state \<Rightarrow> nav_state" where
  "stamp_if b env step st = (if b then stamp env step st else st)"

definition scheduleMDMProfileInstalledNotificationIfNeeded ::
  "nav_env \<Rightarrow> navigation_handler \<Rightarrow> nav_state \<Rightarrow> nav_state" where
  "scheduleMDMProfileInstalledNotificationIfNeeded env h st =
     (case header_string h ''x-ms-aswebauth-handoff-purpose'' of
        None \<Rightarrow> st
      | Some purpose \<Rightarrow>
          if \<not> caseInsensitiveSame purpose ''download-profile'' then st
          else if neUXProvider env
          then stamp_if (nhTracksBuilder h) env ''ProfileInstallNotificationScheduled''
                 (st\<lparr>nvUXCalls := nvUXCalls st @ [ScheduleMDMNotification (notification_delay env)]\<rparr>)
          else st)"

text \<open>What the hand-off does: complete at once, or start a session with these arguments.\<close>

record transition_request =
  trURL :: nsurl
  trRedirectURI :: string
  trEphemeral :: bool
  trHeaders :: "(string, string) dict option"

datatype handoff =
    CompleteHandoff navigation_decision "nserror option"
  | StartSession transition_request

text \<open>The completion that records the outcome before it calls the caller's.\<close>

definition recording_completion ::
  "nav_env \<Rightarrow> navigation_handler \<Rightarrow> navigation_decision \<Rightarrow> nserror option \<Rightarrow> nav_state \<Rightarrow> nav_state" where
  "recording_completion env h decision err st =
     (case (case ndError decision of None \<Rightarrow> err | Some e \<Rightarrow> Some e) of
        None \<Rightarrow> st
      | Some e \<Rightarrow>
          if errDomain e = ''MSIDErrorDomain'' \<and> errCode e = error_user_cancel
          then stamp_if (nhTracksBuilder h) env ''ProfileDownloadFlowCancelled'' st
          else stamp_if (nhTracksBuilder h) env ''ProfileDownloadFlowFailed'' st)"

definition complete_handoff ::
  "nav_env \<Rightarrow> navigation_handler \<Rightarrow> nserror \<Rightarrow> nav_state \<Rightarrow> nav_state \<times> handoff" where
  "complete_handoff env h e st =
     (recording_completion env h (failWithError (Some e)) (Some e) st,
      CompleteHandoff (failWithError (Some e)) (Some e))"

definition handleASWebAuthenticationHandoff ::
  "nav_env \<Rightarrow> navigation_handler \<Rightarrow> nsurl \<Rightarrow> nav_state \<Rightarrow> nav_state \<times> handoff" where
  "handleASWebAuthenticationHandoff env h url st =
     (if \<not> fst (isValidHandoffURL (Some url))
      then complete_handoff env h (msid_error error_session_canceled_programmatically
             ''ASWebAuthentication handoff URL is invalid'') st
      else (scheduleMDMProfileInstalledNotificationIfNeeded env h st,
            StartSession \<lparr>trURL = url, trRedirectURI = callbackURLScheme h @ ''://'',
              trEphemeral = shouldUseEphemeralSession h,
              trHeaders = (case extractAdditionalHeadersToForward h of
                             None \<Rightarrow> None | Some d \<Rightarrow> if d = [] then None else Some d)\<rparr>))"

definition performASWebAuthenticationHandoff ::
  "nav_env \<Rightarrow> navigation_handler \<Rightarrow> nav_state \<Rightarrow> nav_state \<times> handoff" where
  "performASWebAuthenticationHandoff env h st0 =
     (let st = stamp_if (nhTracksBuilder h) env ''ProfileDownloadFlowStarted'' st0;
          handoffURL = (case header_string h ''x-ms-aswebauth-handoff-url'' of
                          None \<Rightarrow> None | Some s \<Rightarrow> if s = [] then None else neURLWithString env s)
      in (case handoffURL of
            None \<Rightarrow> complete_handoff env h (msid_error error_internal
                      ''ASWebAuthentication hand-off requested without a valid hand-off URL.'') st
          | Some u \<Rightarrow> handleASWebAuthenticationHandoff env h u st))"

text \<open>The block that the session calls with a callback URL or an error.\<close>

definition session_completed ::
  "nav_env \<Rightarrow> navigation_handler \<Rightarrow> nsurl option \<Rightarrow> nserror option \<Rightarrow> nav_state \<Rightarrow>
   nav_state \<times> navigation_decision \<times> nserror option" where
  "session_completed env h callbackURL err st =
     (let (decision, e) =
        (case err of
           Some e \<Rightarrow> (failWithError (Some e), Some e)
         | None \<Rightarrow>
             (case callbackURL of
                Some u \<Rightarrow> (loadRequest (Some (plain_request u)), None)
              | None \<Rightarrow>
                  (let e = msid_error error_internal ''Transition completed with neither URL nor error''
                   in (failWithError (Some e), Some e))))
      in (recording_completion env h decision e st, decision, e))"

section \<open>Decisions are valid\<close>

lemma decisions_valid [simp]:
  "isValid (failWithError (Some e))" "isValid (loadRequest (Some r))" "isValid continueDefault"
  "isValid (completeWithURL (Some u))"
  by (simp_all add: isValid_def failWithError_def loadRequest_def continueDefault_def completeWithURL_def
      initWithType_def)

lemma msauth_decisions_valid [simp]:
  "isValid (snd (decisionForEnrollURL env params hs st))"
  "isValid (snd (decisionForProfileDownloadComplete env params st))"
  "isValid (snd (decisionForComplianceURL env params st))"
  "isValid (snd (decisionForEnrollmentCompletionURL env url params st))"
  unfolding decisionForEnrollURL_def decisionForProfileDownloadComplete_def decisionForComplianceURL_def
    decisionForEnrollmentCompletionURL_def Let_def
  by (simp_all only: snd_conv decisions_valid split: option.split if_split, simp_all)

lemma handleMSAuthURL_valid [simp]: "isValid (snd (handleMSAuthURL env url hs st))"
  unfolding handleMSAuthURL_def by (simp split: option.split)

text \<open>
  C35: the resolver answers a valid decision for every URL, environment and state: a request to
  load, a URL to complete with, an error, or the default.
\<close>

theorem resolved_decision_is_valid: "isValid (snd (resolveDecisionForURL env url additionalHeaders st))"
  unfolding resolveDecisionForURL_def by (simp split: option.split)

section \<open>The hand-off is confined\<close>

lemma hasPrefix_forwarded:
  "x \<in> set (dict_keys (addForwardedHeader h n d)) \<Longrightarrow>
   x \<in> set (dict_keys d) \<or> hasPrefix (lowercaseString x) ''x-ms-aswebauth-handoff-''"
  unfolding set_dict_keys
  by (simp add: addForwardedHeader_def Let_def del: dom_map_of_conv_image_fst split: if_splits option.splits)
     (auto simp del: dom_map_of_conv_image_fst)

lemma forwarded_headers_prefixed:
  "x \<in> set (dict_keys (fold (addForwardedHeader h) ns d)) \<Longrightarrow>
   x \<in> set (dict_keys d) \<or> hasPrefix (lowercaseString x) ''x-ms-aswebauth-handoff-''"
proof (induction ns arbitrary: d)
  case (Cons n ns)
  from Cons.IH [of "addForwardedHeader h n d"] Cons.prems hasPrefix_forwarded [of x h n d] show ?case by auto
qed simp

lemma extracted_headers_prefixed:
  assumes "extractAdditionalHeadersToForward h = Some d" "x \<in> set (dict_keys d)"
  shows "hasPrefix (lowercaseString x) ''x-ms-aswebauth-handoff-''"
  using assms forwarded_headers_prefixed [of x h _ "[]"]
  by (auto simp: extractAdditionalHeadersToForward_def buildAdditionalHeadersFromList_def
      split: option.splits if_splits)

lemma valid_handoff_url:
  "fst (isValidHandoffURL (Some u)) \<Longrightarrow>
   map_option lowercaseString (nuScheme u) = Some ''https'' \<and> isURLInAllowedDomains u"
proof -
  have "lowercaseString ''https'' = ''https''" by code_simp
  then show "fst (isValidHandoffURL (Some u)) \<Longrightarrow> ?thesis"
    by (auto simp: isValidHandoffURL_def Let_def has_text_def compare_differs_def caseInsensitiveSame_def
        split: if_splits option.splits)
qed

text \<open>
  C5: a session is started only with an HTTPS URL whose host is on the allow list, taken from the
  header of the last response, and only headers with the hand-off prefix are sent along.
\<close>

theorem handoff_is_confined:
  assumes "snd (performASWebAuthenticationHandoff env h st) = StartSession r"
  shows "map_option lowercaseString (nuScheme (trURL r)) = Some ''https''
         \<and> (\<exists>host. nuHost (trURL r) = Some host \<and> lowercaseString host \<in> set asWebAuthAllowedDomains)
         \<and> Option.bind (header_string h ''x-ms-aswebauth-handoff-url'') (neURLWithString env) = Some (trURL r)
         \<and> (\<forall>d. trHeaders r = Some d \<longrightarrow>
              (\<forall>x\<in>set (dict_keys d). hasPrefix (lowercaseString x) ''x-ms-aswebauth-handoff-''))"
proof -
  from assms obtain s u where u: "header_string h ''x-ms-aswebauth-handoff-url'' = Some s"
      "neURLWithString env s = Some u" "fst (isValidHandoffURL (Some u))"
    and r: "trURL r = u"
      "trHeaders r = (case extractAdditionalHeadersToForward h of
                        None \<Rightarrow> None | Some d \<Rightarrow> if d = [] then None else Some d)"
    by (auto simp: performASWebAuthenticationHandoff_def handleASWebAuthenticationHandoff_def
        complete_handoff_def Let_def split: option.splits if_splits)
  from valid_handoff_url [OF u(3)] obtain host where
    "nuHost u = Some host" "lowercaseString host \<in> set asWebAuthAllowedDomains"
    by (auto simp: isURLInAllowedDomains_def split: option.splits)
  then show ?thesis
    using u r valid_handoff_url [OF u(3)] extracted_headers_prefixed [of h]
    by (auto split: option.splits if_splits)
qed

definition witness_url :: nsurl where
  "witness_url = \<lparr>nuScheme = Some ''HTTPS'', nuHost = Some ''Portal.manage.microsoft.com'', nuQuery = None, nuItems = []\<rparr>"

definition witness_nav_env :: nav_env where
  "witness_nav_env =
     \<lparr>neNow = ''T'', neURLWithString = (\<lambda>_. Some witness_url), neComponents = (\<lambda>_. Some witness_url),
      neAssemble = Some, nePlatform = ''MSAL.iOS'', neSdkVersion = ''1.0'', neSSOExtension = False,
      neBrowserAction = None, neSaveOk = True, neReadable = True, neUXProvider = True, neNotificationDelay = None\<rparr>"

definition witness_handler :: navigation_handler where
  "witness_handler =
     \<lparr>nhLastResponseHeaders =
        [(''x-ms-aswebauth-handoff-url'', NSStr ''https://Portal.manage.microsoft.com''),
         (''x-ms-aswebauth-handoff-include-headers'', NSStr ''true''),
         (''x-ms-aswebauth-handoff-attach-headers'', NSStr ''set-cookie, x-ms-aswebauth-handoff-purpose''),
         (''x-ms-aswebauth-handoff-purpose'', NSStr ''download-profile''), (''set-cookie'', NSStr ''secret'')],
      nhTracksBuilder = False\<rparr>"

definition witness_nav_state :: nav_state where
  "witness_nav_state = \<lparr>nvBuilder = None, nvDeviceIds = [], nvUXCalls = []\<rparr>"

definition witness_transition :: transition_request where
  "witness_transition =
     \<lparr>trURL = witness_url, trRedirectURI = ''msauth://'', trEphemeral = True,
      trHeaders = Some [(''x-ms-aswebauth-handoff-purpose'', ''download-profile'')]\<rparr>"

lemma witness_handoff_starts:
  "snd (performASWebAuthenticationHandoff witness_nav_env witness_handler witness_nav_state)
   = StartSession witness_transition"
  by code_simp

theorem handoff_is_confined_witness:
  "snd (performASWebAuthenticationHandoff witness_nav_env witness_handler witness_nav_state)
     = StartSession witness_transition
   \<and> (\<exists>host. nuHost (trURL witness_transition) = Some host \<and> lowercaseString host \<in> set asWebAuthAllowedDomains)"
  using handoff_is_confined [OF witness_handoff_starts] witness_handoff_starts by blast

section \<open>The device id between two redirects\<close>

lemma nvDeviceIds_stamp [simp]: "nvDeviceIds (stamp env s st) = nvDeviceIds st"
  by (simp add: stamp_def)

text \<open>
  The device id that the profile download redirect brings is stored whatever else is wrong
  with that redirect, and the next enrollment request of any redirect carries it, unless that redirect
  names a device id itself.
\<close>

theorem enrollment_carries_device_id:
  assumes "neSaveOk env" "neReadable env'" "trimmed_param params ''intuneDeviceId'' = i" "i \<noteq> []"
    and "dict_get params' ''intuneDeviceId'' = None" "distinct (dict_keys params')"
  shows "dict_get (enroll_params env' params' (fst (decisionForProfileDownloadComplete env params st)))
           ''intuneDeviceId'' = Some i"
proof -
  have "nvDeviceIds (fst (decisionForProfileDownloadComplete env params st)) = [[(''intune_device_id'', NSStr i)]]"
    using assms(1,3,4)
    by (simp add: decisionForProfileDownloadComplete_def setIntuneDeviceId_def Let_def split: option.split)
  then have "intuneDeviceId env' (fst (decisionForProfileDownloadComplete env params st)) = Some i"
    using assms(2,4)
    by (simp add: intuneDeviceId_def msidStringObjectForKey_def msidObjectForKey_def)
  then show ?thesis
    using assms(5,6) by (simp add: enroll_params_def Let_def dict_get_addEntries map_add_def)
qed

theorem enrollment_carries_device_id_witness:
  "dict_get (enroll_params witness_nav_env [(''mdm'', ''1'')]
      (fst (decisionForProfileDownloadComplete witness_nav_env [(''intuneDeviceId'', '' dev '')] witness_nav_state)))
      ''intuneDeviceId'' = Some ''dev''"
proof -
  have "trimmed_param [(''intuneDeviceId'', '' dev '')] ''intuneDeviceId'' = ''dev''" by code_simp
  then show ?thesis
    by (rule enrollment_carries_device_id [rotated 2]) (simp_all add: witness_nav_env_def)
qed

end
