(* ===== verification/SystemSession.thy ===== *)
theory SystemSession
  imports Navigation "HOL-Library.Multiset"
begin

declare map_of_eq_Some_iff [simp del] Some_eq_map_of_iff [simp del]

text \<open>
  \<open>webview/systemWebview/session/\<close>: the transition manager that allows one system browser session at
  a time (\<open>MSIDSystemWebviewTransitionManager.m\<close>), over the controller and the session handler it starts
  (\<open>MSIDSystemWebviewController.m\<close>, \<open>MSIDASWebAuthenticationSessionHandler.m\<close>). Everything runs on the
  main thread, so a run is a sequence of events: a request, a callback of the operating system for a
  session it was given (at any time, also after the session was cancelled, since \<open>cancel\<close> of the
  system's session does not say when its handler runs), and a cancellation. Requests are numbered in
  order; the number of a session is that of the request that started it.
\<close>

section \<open>State and events\<close>

datatype session_result = SessionURL nsurl | SessionError int | SessionNothing

record transition_manager =
  tmActiveController :: "nat option"
  tmActiveCompletionBlock :: "nat option"
  tmStarted :: "nat set"
  tmDismissed :: "nat set"
  tmNext :: nat
  tmCalls :: "(nat \<times> session_result) list"

definition newTransitionManager :: transition_manager where
  "newTransitionManager =
     \<lparr>tmActiveController = None, tmActiveCompletionBlock = None, tmStarted = {}, tmDismissed = {}, tmNext = 0,
      tmCalls = []\<rparr>"

text \<open>What a request meets: another certificate session, whether a URL is given, whether the
  controller accepts the redirect URI, whether there is a session for the platform and whether it
  starts.\<close>

record launch_env =
  leCertAuthInProgress :: bool
  leHasURL :: bool
  leRedirectValid :: bool
  leSessionSupported :: bool
  leSessionStarts :: bool

datatype tm_event =
    Transition launch_env
  | SystemCallback nat session_result
  | CancelSession

definition error_already_running :: int where
  "error_already_running = error_code ''MSIDErrorInteractiveSessionAlreadyRunning''"

definition error_start_failure :: int where
  "error_start_failure = error_code ''MSIDErrorInteractiveSessionStartFailure''"

definition call_block :: "nat \<Rightarrow> session_result \<Rightarrow> transition_manager \<Rightarrow> transition_manager" where
  "call_block r res m = m\<lparr>tmCalls := tmCalls m @ [(r, res)]\<rparr>"

definition clearSession :: "transition_manager \<Rightarrow> transition_manager" where
  "clearSession m = m\<lparr>tmActiveController := None, tmActiveCompletionBlock := None\<rparr>"

text \<open>The handler the manager gives every controller: it takes the block that is active when it runs.\<close>

definition session_handler :: "session_result \<Rightarrow> transition_manager \<Rightarrow> transition_manager" where
  "session_handler res m =
     (case tmActiveCompletionBlock m of
        None \<Rightarrow> clearSession m
      | Some captured \<Rightarrow> call_block captured res (clearSession m))"

definition startController :: "launch_env \<Rightarrow> nat \<Rightarrow> transition_manager \<Rightarrow> transition_manager" where
  "startController le r m =
     (if \<not> leSessionSupported le then session_handler (SessionError error_start_failure) m
      else if \<not> leSessionStarts le then session_handler (SessionError error_start_failure) m
      else m\<lparr>tmStarted := insert r (tmStarted m)\<rparr>)"

definition transitionToSystemWebview :: "launch_env \<Rightarrow> transition_manager \<Rightarrow> transition_manager" where
  "transitionToSystemWebview le m0 =
     (let r = tmNext m0; m = m0\<lparr>tmNext := Suc r\<rparr>
      in if tmActiveController m \<noteq> None then call_block r (SessionError error_already_running) m
         else if leCertAuthInProgress le then call_block r (SessionError error_already_running) m
         else if \<not> leHasURL le then call_block r (SessionError error_internal) m
         else if \<not> leRedirectValid le then call_block r (SessionError error_internal) m
         else startController le r (m\<lparr>tmActiveController := Some r, tmActiveCompletionBlock := Some r\<rparr>))"

text \<open>The completion of the system's session: nothing once it was dismissed, and the cancellation of
  a login becomes \<open>MSIDErrorUserCancel\<close>.\<close>

definition translated_result :: "session_result \<Rightarrow> session_result" where
  "translated_result res = (case res of SessionError code \<Rightarrow> if code = 1 then SessionError error_user_cancel else res | _ \<Rightarrow> res)"

definition systemCallback :: "nat \<Rightarrow> session_result \<Rightarrow> transition_manager \<Rightarrow> transition_manager" where
  "systemCallback k res m =
     (if k \<notin> tmStarted m \<or> k \<in> tmDismissed m then m
      else session_handler (translated_result res) (m\<lparr>tmDismissed := insert k (tmDismissed m)\<rparr>))"

definition cancelSession :: "transition_manager \<Rightarrow> transition_manager" where
  "cancelSession m =
     (if tmActiveController m = None then m
      else session_handler (SessionError error_session_canceled_programmatically) m)"

text \<open>The block of \<open>isSessionInProgress\<close> runs at once on the main thread only; elsewhere it is queued
  and the answer is read before it runs.\<close>

definition isSessionInProgress :: "bool \<Rightarrow> transition_manager \<Rightarrow> bool" where
  "isSessionInProgress isMainThread m \<longleftrightarrow> isMainThread \<and> tmActiveController m \<noteq> None"

fun run_tm_event :: "tm_event \<Rightarrow> transition_manager \<Rightarrow> transition_manager" where
  "run_tm_event (Transition le) m = transitionToSystemWebview le m"
| "run_tm_event (SystemCallback k res) m = systemCallback k res m"
| "run_tm_event CancelSession m = cancelSession m"

inductive tm_reachable :: "transition_manager \<Rightarrow> bool" where
  tm_start: "tm_reachable newTransitionManager"
| tm_event: "tm_reachable m \<Longrightarrow> tm_reachable (run_tm_event e m)"

section \<open>Every request is answered once\<close>

definition pending :: "transition_manager \<Rightarrow> nat multiset" where
  "pending m = mset (map fst (tmCalls m)) + (case tmActiveCompletionBlock m of None \<Rightarrow> {#} | Some r \<Rightarrow> {#r#})"

definition tm_inv :: "transition_manager \<Rightarrow> bool" where
  "tm_inv m \<longleftrightarrow> pending m = mset [0..<tmNext m] \<and> tmActiveController m = tmActiveCompletionBlock m
     \<and> (\<forall>k\<in>tmStarted m. k < tmNext m)"

lemma session_handler_pending: "pending (session_handler res m) = pending m"
  by (simp add: pending_def session_handler_def clearSession_def call_block_def split: option.split)

lemma session_handler_fields [simp]:
  "tmNext (session_handler res m) = tmNext m" "tmActiveCompletionBlock (session_handler res m) = None"
  "tmActiveController (session_handler res m) = None" "tmStarted (session_handler res m) = tmStarted m"
  by (simp_all add: session_handler_def clearSession_def call_block_def split: option.split)

lemma session_handler_inv: "tm_inv m \<Longrightarrow> tm_inv (session_handler res m)"
  by (simp add: tm_inv_def session_handler_pending)

lemma tm_inv_start: "tm_inv newTransitionManager"
  by (simp add: tm_inv_def pending_def newTransitionManager_def)

lemma tm_inv_rejected:
  "tm_inv m \<Longrightarrow> tm_inv (call_block (tmNext m) res (m\<lparr>tmNext := Suc (tmNext m)\<rparr>))"
  by (auto simp: tm_inv_def pending_def call_block_def)

lemma tm_inv_accepted:
  "tm_inv m \<Longrightarrow> tmActiveController m = None \<Longrightarrow>
   tm_inv (m\<lparr>tmNext := Suc (tmNext m), tmActiveController := Some (tmNext m),
            tmActiveCompletionBlock := Some (tmNext m)\<rparr>)"
  by (auto simp: tm_inv_def pending_def)

lemma tm_inv_transition: "tm_inv m \<Longrightarrow> tm_inv (transitionToSystemWebview le m)"
  using tm_inv_rejected [of m] tm_inv_accepted [of m]
  by (auto simp: transitionToSystemWebview_def startController_def Let_def intro!: session_handler_inv)
     (simp add: tm_inv_def pending_def)

lemma tm_inv_event: "tm_inv m \<Longrightarrow> tm_inv (run_tm_event e m)"
proof (cases e)
  case (SystemCallback k res)
  moreover assume "tm_inv m"
  then have "tm_inv (m\<lparr>tmDismissed := insert k (tmDismissed m)\<rparr>)" by (simp add: tm_inv_def pending_def)
  ultimately show ?thesis using \<open>tm_inv m\<close> by (simp add: systemCallback_def session_handler_inv)
qed (simp_all add: tm_inv_transition cancelSession_def session_handler_inv)

lemma reachable_inv: "tm_reachable m \<Longrightarrow> tm_inv m"
  by (induction rule: tm_reachable.induct) (simp_all add: tm_inv_start tm_inv_event)

text \<open>
  C7: in every reachable state each request was answered exactly once, or it is the one of the
  active session and not answered yet; and there is an unanswered request exactly while a controller is
  active.
\<close>

theorem every_request_answered_once:
  assumes "tm_reachable m"
  shows "mset (map fst (tmCalls m)) + mset (case tmActiveController m of None \<Rightarrow> [] | Some r \<Rightarrow> [r])
         = mset [0..<tmNext m]"
proof -
  have inv: "pending m = mset [0..<tmNext m]" "tmActiveController m = tmActiveCompletionBlock m"
    using reachable_inv [OF assms] by (simp_all only: tm_inv_def)
  show ?thesis
    unfolding inv(1) [symmetric] inv(2) pending_def by (cases "tmActiveCompletionBlock m") simp_all
qed

definition plain_launch :: launch_env where
  "plain_launch = \<lparr>leCertAuthInProgress = False, leHasURL = True, leRedirectValid = True,
     leSessionSupported = True, leSessionStarts = True\<rparr>"

definition witness_run :: "tm_event list" where
  "witness_run = [Transition plain_launch, Transition plain_launch, CancelSession, Transition plain_launch]"

lemma fold_reachable: "tm_reachable m \<Longrightarrow> tm_reachable (fold run_tm_event es m)"
  by (induction es arbitrary: m) (simp_all add: tm_event)

lemma witness_run_state:
  "map fst (tmCalls (fold run_tm_event witness_run newTransitionManager)) = [1, 0]"
  "tmActiveController (fold run_tm_event witness_run newTransitionManager) = Some 2"
  "tmNext (fold run_tm_event witness_run newTransitionManager) = 3"
  "tmStarted (fold run_tm_event witness_run newTransitionManager) = {0, 2}"
  "tmDismissed (fold run_tm_event witness_run newTransitionManager) = {}"
  by (simp_all add: witness_run_def newTransitionManager_def plain_launch_def transitionToSystemWebview_def
      startController_def cancelSession_def session_handler_def call_block_def clearSession_def insert_commute numeral_2_eq_2 numeral_3_eq_3)

theorem every_request_answered_once_witness: "mset [1, 0, 2] = mset [0..<3 :: nat]"
proof -
  have "tm_reachable (fold run_tm_event witness_run newTransitionManager)" by (rule fold_reachable [OF tm_start])
  from every_request_answered_once [OF this] show ?thesis
    unfolding witness_run_state by (simp only: option.case mset_append [symmetric] append.simps)
qed

section \<open>A late callback\<close>

text \<open>
  The system's callback of a session that was cancelled answers the request of the session
  that is active by then, with the result of the old one, and ends that session.
\<close>

theorem late_callback_answers_next_request:
  assumes "k \<in> tmStarted m" "k \<notin> tmDismissed m" "tmActiveCompletionBlock m = Some r"
  shows "tmCalls (systemCallback k res m) = tmCalls m @ [(r, translated_result res)]
         \<and> tmActiveController (systemCallback k res m) = None"
  using assms by (simp_all add: systemCallback_def session_handler_def clearSession_def call_block_def)


theorem late_callback_answers_next_request_witness:
  "tmCalls (systemCallback 0 (SessionError 1) (fold run_tm_event witness_run newTransitionManager))
   = tmCalls (fold run_tm_event witness_run newTransitionManager) @ [(2, SessionError error_user_cancel)]"
proof -
  have "tmActiveCompletionBlock (fold run_tm_event witness_run newTransitionManager) = Some 2"
    using reachable_inv [OF fold_reachable [OF tm_start], of witness_run] witness_run_state(2)
    by (simp only: tm_inv_def)
  then show ?thesis
    using late_callback_answers_next_request
      [of 0 "fold run_tm_event witness_run newTransitionManager" 2 "SessionError 1"]
    by (simp add: witness_run_state translated_result_def)
qed

end
