(* ===== verification/MATSReport.thy ===== *)
theory MATSReport
  imports Constants Foundation
begin

text \<open>
  \<open>broker_operation/response/browser_native_message_response/
  MSIDBrokerOperationBrowserNativeMessageMATSReport.m\<close>: the telemetry report the broker returns to a
  browser, and its JSON. Its numbers are 64 bit (\<open>NSInteger\<close>); the silent status is read from any
  number without a check, so it is kept as a number, with the named ones in \<open>mats_silent_status\<close>.
\<close>

definition mats_silent_status :: "(string \<times> int) list" where
  "mats_silent_status =
     [(''MSIDMATSSilentStatusSuccess'', 0), (''MSIDMATSSilentStatusUserCancel'', 1),
      (''MSIDMATSSilentStatusUserInteractionRequired'', 3), (''MSIDMATSSilentStatusProviderError'', 5)]"

definition mats_device_join_status :: "(string \<times> string) list" where
  "mats_device_join_status =
     [(''MSIDMATSDeviceJoinStatusNotJoined'', ''not_joined''), (''MSIDMATSDeviceJoinStatusAADJ'', ''aadj'')]"

record mats_report =
  mrIsCached :: bool
  mrBrokerVersion :: "string option"
  mrDeviceJoin :: "string option"
  mrPromptBehavior :: prompt_type
  mrApiErrorCode :: int
  mrUiVisible :: bool
  mrSilentCode :: int
  mrSilentMessage :: "string option"
  mrSilentStatus :: int
  mrHttpStatus :: int

definition newMATSReport :: mats_report where
  "newMATSReport =
     \<lparr>mrIsCached = False, mrBrokerVersion = None, mrDeviceJoin = None, mrPromptBehavior = MSIDPromptTypePromptIfNecessary,
      mrApiErrorCode = 0, mrUiVisible = False, mrSilentCode = 0, mrSilentMessage = None, mrSilentStatus = 0,
      mrHttpStatus = 0\<rparr>"

definition initMATSReportWithJSON :: "(string, nsobj) dict \<Rightarrow> mats_report" where
  "initMATSReportWithJSON json =
     \<lparr>mrIsCached = msidBoolObjectForKey json ''is_cached'',
      mrBrokerVersion = msidStringObjectForKey json ''broker_version'',
      mrDeviceJoin = msidStringObjectForKey json ''device_join'',
      mrPromptBehavior = MSIDPromptTypeFromString (msidStringObjectForKey json ''prompt_behavior''),
      mrApiErrorCode = msidIntegerObjectForKey json ''api_error_code'',
      mrUiVisible = msidBoolObjectForKey json ''ui_visible'',
      mrSilentCode = msidIntegerObjectForKey json ''silent_code'',
      mrSilentMessage = msidStringObjectForKey json ''silent_message'',
      mrSilentStatus = msidIntegerObjectForKey json ''silent_status'',
      mrHttpStatus = msidIntegerObjectForKey json ''http_status''\<rparr>"

definition bool_object :: "bool \<Rightarrow> nsobj" where
  "bool_object b = NSNum (if b then 1 else 0)"

definition mats_json :: "mats_report \<Rightarrow> (string, nsobj) dict" where
  "mats_json r =
     (let promptString = MSIDPromptParamFromType (mrPromptBehavior r)
      in dict_assign ''http_status'' (Some (NSNum (of_int (mrHttpStatus r))))
        (dict_assign ''silent_status'' (Some (NSNum (of_int (mrSilentStatus r))))
        (dict_assign ''silent_message'' (map_option NSStr (mrSilentMessage r))
        (dict_assign ''silent_code'' (Some (NSNum (of_int (mrSilentCode r))))
        (dict_assign ''ui_visible'' (Some (bool_object (mrUiVisible r)))
        (dict_assign ''api_error_code'' (Some (NSNum (of_int (mrApiErrorCode r))))
        (dict_assign ''prompt_behavior''
           (if msidIsStringNilOrBlank (Some promptString) then None else Some (NSStr promptString))
        (dict_assign ''device_join'' (map_option NSStr (mrDeviceJoin r))
        (dict_assign ''broker_version'' (map_option NSStr (mrBrokerVersion r))
          [(''is_cached'', bool_object (mrIsCached r))])))))))))"

definition mats_jsonString :: "((string, nsobj) dict \<Rightarrow> string option) \<Rightarrow> mats_report \<Rightarrow> string option" where
  "mats_jsonString serialize r = serialize (mats_json r)"

lemmas mats_lookup_defs = msidBoolObjectForKey_def msidIntegerObjectForKey_def msidStringObjectForKey_def
  msidObjectForKey_def msidAssertTypeIsOneOf_def bool_object_def

lemma read_bool [simp]:
  "dict_get d k = Some (bool_object b) \<Longrightarrow> msidBoolObjectForKey d k = b"
  by (simp add: mats_lookup_defs)

lemma read_integer [simp]:
  "dict_get d k = Some (NSNum (of_int n)) \<Longrightarrow> msidIntegerObjectForKey d k = n"
  by (simp add: mats_lookup_defs trunc_rat_def)

lemma read_optional_string [simp]:
  "dict_get d k = map_option NSStr v \<Longrightarrow> msidStringObjectForKey d k = v"
  by (cases v) (simp_all add: mats_lookup_defs)

lemma mats_json_lookups:
  "dict_get (mats_json r) ''is_cached'' = Some (bool_object (mrIsCached r))"
  "dict_get (mats_json r) ''broker_version'' = map_option NSStr (mrBrokerVersion r)"
  "dict_get (mats_json r) ''device_join'' = map_option NSStr (mrDeviceJoin r)"
  "dict_get (mats_json r) ''api_error_code'' = Some (NSNum (of_int (mrApiErrorCode r)))"
  "dict_get (mats_json r) ''ui_visible'' = Some (bool_object (mrUiVisible r))"
  "dict_get (mats_json r) ''silent_code'' = Some (NSNum (of_int (mrSilentCode r)))"
  "dict_get (mats_json r) ''silent_message'' = map_option NSStr (mrSilentMessage r)"
  "dict_get (mats_json r) ''silent_status'' = Some (NSNum (of_int (mrSilentStatus r)))"
  "dict_get (mats_json r) ''http_status'' = Some (NSNum (of_int (mrHttpStatus r)))"
  by (simp_all add: mats_json_def Let_def)

lemma prompt_behavior_lookup:
  "MSIDPromptTypeFromString (msidStringObjectForKey (mats_json r) ''prompt_behavior'') = mrPromptBehavior r"
proof -
  have blank: "msidIsStringNilOrBlank (Some (MSIDPromptParamFromType p)) \<longleftrightarrow> p = MSIDPromptTypeDefault" for p
    by (cases p, simp_all only:) code_simp+
  have "msidStringObjectForKey (mats_json r) ''prompt_behavior''
        = (if mrPromptBehavior r = MSIDPromptTypeDefault then None
           else Some (MSIDPromptParamFromType (mrPromptBehavior r)))"
    by (simp add: mats_json_def Let_def blank msidStringObjectForKey_def msidObjectForKey_def)
  then show ?thesis by simp
qed

text \<open>
  A report read back from its JSON is the report that was written, with the prompt that has no
  text and any silent status number.
\<close>

theorem mats_round_trip: "initMATSReportWithJSON (mats_json r) = r"
  by (cases r) (simp add: initMATSReportWithJSON_def mats_json_lookups(1,5) [THEN read_bool]
      mats_json_lookups(4,6,8,9) [THEN read_integer] mats_json_lookups(2,3,7) [THEN read_optional_string]
      prompt_behavior_lookup)

end
