(* ===== verification/AccountCredentialCache.thy ===== *)
theory AccountCredentialCache
  imports KeychainCache Constants
begin

text \<open>
  \<open>cache/accessor/MSIDAccountCredentialCache.m\<close> over the data source protocols
  \<open>MSIDTokenCacheDataSource\<close>, \<open>MSIDMetadataCacheDataSource\<close> and \<open>MSIDExtendedTokenCacheDataSource\<close>:
  the typed accessor of the token cache and the switch of the single family refresh token. A protocol
  is a record of operations on the state of the provider; an operation answers the new state, the result
  and the error it set, if it set one. The macOS cache of \<open>KeychainCache\<close> provides the protocols.
\<close>

section \<open>Data sources\<close>

type_synonym ('s, 'r, 'e) source_op = "'s \<Rightarrow> 's \<times> 'r \<times> 'e option"

record ('s, 'e) metadata_data_source =
  dsSaveAccountMetadata :: "metadata_item \<Rightarrow> storage_key \<Rightarrow> ('s, bool, 'e) source_op"
  dsAccountMetadataWithKey :: "storage_key \<Rightarrow> ('s, metadata_item option, 'e) source_op"
  dsAccountsMetadataWithKey :: "storage_key \<Rightarrow> ('s, metadata_item list option, 'e) source_op"
  dsRemoveAccountMetadataForKey :: "storage_key \<Rightarrow> ('s, bool, 'e) source_op"
  dsSaveAppMetadata :: "appmetadata_item \<Rightarrow> storage_key \<Rightarrow> ('s, bool, 'e) source_op"
  dsAppMetadataEntriesWithKey :: "storage_key \<Rightarrow> ('s, appmetadata_item list option, 'e) source_op"
  dsRemoveMetadataItemsWithKey :: "storage_key \<Rightarrow> ('s, bool, 'e) source_op"

record ('s, 'e) token_data_source =
  dsSaveToken :: "credential_item \<Rightarrow> storage_key \<Rightarrow> ('s, bool, 'e) source_op"
  dsTokenWithKey :: "storage_key \<Rightarrow> ('s, credential_item option, 'e) source_op"
  dsTokensWithKey :: "storage_key \<Rightarrow> ('s, credential_item list option, 'e) source_op"
  dsSaveWipeInfo :: "('s, bool, 'e) source_op"
  dsWipeInfo :: "('s, (string, nsobj) dict option, 'e) source_op"
  dsRemoveTokensWithKey :: "storage_key \<Rightarrow> ('s, bool, 'e) source_op"
  dsClear :: "('s, bool, 'e) source_op"

record ('s, 'e) extended_data_source = "('s, 'e) token_data_source" +
  dsMetadata :: "('s, 'e) metadata_data_source"
  dsSaveAccount :: "account_item \<Rightarrow> storage_key \<Rightarrow> ('s, bool, 'e) source_op"
  dsAccountWithKey :: "storage_key \<Rightarrow> ('s, account_item option, 'e) source_op"
  dsAccountsWithKey :: "storage_key \<Rightarrow> ('s, account_item list option, 'e) source_op"
  dsRemoveAccountsWithKey :: "storage_key \<Rightarrow> ('s, bool, 'e) source_op"
  dsJsonObjectsWithKey :: "storage_key \<Rightarrow> ('s, (string, nsobj) dict list option, 'e) source_op"
  dsSaveJsonObject :: "(string, nsobj) dict \<Rightarrow> storage_key \<Rightarrow> ('s, bool, 'e) source_op"

text \<open>
  What the accessor meets: the time, the comparison of a date with nil (which Foundation leaves
  undefined), the application key the source attached to an item, the client infos that parse, and
  the error of an account that cannot be parsed.
\<close>

record 'e credential_env =
  ceNow :: nsdate
  ceNilIsPast :: bool
  ceAppKey :: "credential_item \<Rightarrow> string option"
  ceClientInfoOk :: "string \<Rightarrow> bool"
  ceHash :: "string \<Rightarrow> string"
  ceJsonError :: "'e option"

text \<open>An error set earlier stays when a later call sets none.\<close>

definition keep_error :: "'e option \<Rightarrow> 's \<times> 'r \<times> 'e option \<Rightarrow> 's \<times> 'r \<times> 'e option" where
  "keep_error err r = (case r of (s, x, e) \<Rightarrow> (s, x, if e = None then err else e))"

section \<open>Credentials\<close>

definition credential_passes :: "credential_query \<Rightarrow> credential_item \<Rightarrow> bool" where
  "credential_passes q i \<longleftrightarrow>
     (let shouldMatchAccount = (ckHomeAccountId q = None \<or> ckEnvironment q = None)
      in \<not> (shouldMatchAccount \<and> \<not> credential_matchesWithHomeAccountId i (ckHomeAccountId q) (ckEnvironment q) (qEnvironmentAliases q))
         \<and> credential_matchesWithRealm i (ckRealm q) (ckClientId q) (ckFamilyId q) (ckTarget q) (ckRequestedClaims q)
              (qTargetMatching q) (qClientIdMatching q))"

definition getCredentialsWithQuery ::
  "'e credential_env \<Rightarrow> ('s, 'e) extended_data_source \<Rightarrow> credential_query \<Rightarrow> ('s, credential_item list option, 'e) source_op" where
  "getCredentialsWithQuery E D q s =
     (case dsTokensWithKey D (CredentialQuery q) s of
        (s1, results, Some e) \<Rightarrow> (s1, None, Some e)
      | (s1, results, None) \<Rightarrow>
          if \<not> query_exactMatch (ceHash E) q
          then (s1, Some (filter (credential_passes q) (case results of None \<Rightarrow> [] | Some r \<Rightarrow> r)), None)
          else (s1, results, None))"

definition getCredential ::
  "('s, 'e) extended_data_source \<Rightarrow> credential_key \<Rightarrow> ('s, credential_item option, 'e) source_op" where
  "getCredential D key s = dsTokenWithKey D (CredentialKey key) s"

definition getAllCredentialsWithType ::
  "('s, 'e) extended_data_source \<Rightarrow> credential_type \<Rightarrow> ('s, credential_item list option, 'e) source_op" where
  "getAllCredentialsWithType D ty s = dsTokensWithKey D (CredentialQuery (initCredentialQuery\<lparr>ckCredentialType := ty\<rparr>)) s"

definition getAllItems :: "('s, 'e) extended_data_source \<Rightarrow> ('s, credential_item list option, 'e) source_op" where
  "getAllItems D s = dsTokensWithKey D (CredentialQuery (initCredentialQuery\<lparr>qMatchAnyCredentialType := True\<rparr>)) s"

definition saving_key :: "credential_item \<Rightarrow> credential_key" where
  "saving_key i =
     (initCredentialKey (ciHomeAccountId i) (ciEnvironment i) (ciClientId i) (ciCredentialType i))
       \<lparr>ckFamilyId := ciFamilyId i, ckTokenType := ciTokenType i, ckRealm := ciRealm i, ckTarget := ciTarget i,
        ckApplicationIdentifier := ciApplicationIdentifier i, ckRequestedClaims := ciRequestedClaims i\<rparr>"

definition saveCredential :: "('s, 'e) extended_data_source \<Rightarrow> credential_item \<Rightarrow> ('s, bool, 'e) source_op" where
  "saveCredential D credential s = dsSaveToken D credential (CredentialKey (saving_key credential)) s"

definition removing_key :: "'e credential_env \<Rightarrow> credential_item \<Rightarrow> credential_key" where
  "removing_key E i =
     (initCredentialKey (ciHomeAccountId i) (ciEnvironment i) (ciClientId i) (ciCredentialType i))
       \<lparr>ckFamilyId := ciFamilyId i, ckRealm := ciRealm i, ckTarget := ciTarget i,
        ckApplicationIdentifier := ciApplicationIdentifier i, ckAppKey := ceAppKey E i,
        ckTokenType := ciTokenType i, ckRequestedClaims := ciRequestedClaims i\<rparr>"

definition removeCredential ::
  "'e credential_env \<Rightarrow> ('s, 'e) extended_data_source \<Rightarrow> credential_item \<Rightarrow> ('s, bool, 'e) source_op" where
  "removeCredential E D credential s =
     (case dsRemoveTokensWithKey D (CredentialKey (removing_key E credential)) s of
        (s1, result, e) \<Rightarrow>
          if result \<and> ciCredentialType credential
               \<in> {MSIDRefreshTokenType, MSIDFamilyRefreshTokenType, MSIDBoundRefreshTokenType}
          then (fst (dsSaveWipeInfo D s1), result, e)
          else (s1, result, e))"

text \<open>The loop goes on after a failure; the result is the conjunction.\<close>

fun removeAllCredentials ::
  "'e credential_env \<Rightarrow> ('s, 'e) extended_data_source \<Rightarrow> credential_item list \<Rightarrow> ('s, bool, 'e) source_op" where
  "removeAllCredentials E D [] s = (s, True, None)"
| "removeAllCredentials E D (i # is) s =
     (case removeCredential E D i s of
        (s1, r1, e1) \<Rightarrow>
          (case keep_error e1 (removeAllCredentials E D is s1) of (s2, r2, e2) \<Rightarrow> (s2, r1 \<and> r2, e2)))"

definition removeCredentialsWithQuery ::
  "'e credential_env \<Rightarrow> ('s, 'e) extended_data_source \<Rightarrow> credential_query \<Rightarrow> ('s, bool, 'e) source_op" where
  "removeCredentialsWithQuery E D q s =
     (if query_exactMatch (ceHash E) q then dsRemoveTokensWithKey D (CredentialQuery q) s
      else
        (case getCredentialsWithQuery E D q s of
           (s1, None, e) \<Rightarrow> (s1, False, e)
         | (s1, Some matched, e) \<Rightarrow> keep_error e (removeAllCredentials E D matched s1)))"

definition expired_now :: "'e credential_env \<Rightarrow> credential_item \<Rightarrow> bool" where
  "expired_now E i \<longleftrightarrow> (case ciExpiresOn i of None \<Rightarrow> ceNilIsPast E | Some d \<Rightarrow> ceNow E > d)"

definition removeExpiredAccessTokens ::
  "'e credential_env \<Rightarrow> ('s, 'e) extended_data_source \<Rightarrow> credential_query \<Rightarrow> ('s, bool, 'e) source_op" where
  "removeExpiredAccessTokens E D q0 s =
     (let q = q0\<lparr>qTargetMatching := MSIDAny, qMatchAnyCredentialType := False\<rparr>
      in if query_exactMatch (ceHash E) q then (s, False, None)
         else if ckCredentialType q \<noteq> MSIDAccessTokenType then (s, False, None)
         else
           (case getCredentialsWithQuery E D q s of
              (s1, None, e) \<Rightarrow> (s1, False, e)
            | (s1, Some matched, e) \<Rightarrow> keep_error e (removeAllCredentials E D (filter (expired_now E) matched) s1)))"

section \<open>Accounts\<close>

definition account_matchesWithHomeAccountId ::
  "account_item \<Rightarrow> string option \<Rightarrow> string option \<Rightarrow> string list \<Rightarrow> bool" where
  "account_matchesWithHomeAccountId i homeAccountId environment environmentAliases =
     (if homeAccountId \<noteq> None \<and> \<not> isEqualToString (norm_str (aiHomeAccountId i)) (norm_str homeAccountId) then False
      else if environment \<noteq> None \<and> \<not> isEqualToString (aiEnvironment i) environment then False
      else if length environmentAliases > 0 \<and> \<not> msidIsEquivalentWithAnyAlias (aiEnvironment i) environmentAliases then False
      else True)"

definition account_passes :: "account_query \<Rightarrow> account_item \<Rightarrow> bool" where
  "account_passes q i \<longleftrightarrow>
     \<not> ((akHomeAccountId q = None \<or> akEnvironment q = None)
        \<and> \<not> account_matchesWithHomeAccountId i (akHomeAccountId q) (akEnvironment q) (aqEnvironmentAliases q))"

definition getAccountsWithQuery ::
  "('s, 'e) extended_data_source \<Rightarrow> account_query \<Rightarrow> ('s, account_item list option, 'e) source_op" where
  "getAccountsWithQuery D q s =
     (case dsAccountsWithKey D (AccountQuery q) s of
        (s1, items, e) \<Rightarrow>
          if \<not> account_query_exactMatch q
          then (s1, Some (filter (account_passes q) (case items of None \<Rightarrow> [] | Some r \<Rightarrow> r)), e)
          else (s1, items, e))"

definition getAccount ::
  "('s, 'e) extended_data_source \<Rightarrow> account_key \<Rightarrow> ('s, account_item option, 'e) source_op" where
  "getAccount D key s = dsAccountWithKey D (AccountKey key) s"

text \<open>The type is not used: the query asks for \<open>MSIDAccountTypeMSSTS\<close>.\<close>

definition getAllAccountsWithType ::
  "('s, 'e) extended_data_source \<Rightarrow> account_type \<Rightarrow> ('s, account_item list option, 'e) source_op" where
  "getAllAccountsWithType D ty s =
     dsAccountsWithKey D (AccountQuery (initAccountQuery\<lparr>akAccountType := MSIDAccountTypeMSSTS\<rparr>)) s"

definition saveAccount ::
  "'e credential_env \<Rightarrow> ('s, 'e) extended_data_source \<Rightarrow> account_item \<Rightarrow> ('s, bool, 'e) source_op" where
  "saveAccount E D account s =
     (let key = initAccountKey (aiHomeAccountId account) (aiEnvironment account) (aiRealm account) (aiAccountType account)
      in (case dsAccountWithKey D (AccountKey key) s of
            (s1, previousAccount, e1) \<Rightarrow>
              (case (case previousAccount of
                       None \<Rightarrow> Some account
                     | Some p \<Rightarrow>
                         initAccountWithJSON (ceClientInfoOk E)
                           (Some (addEntriesFromDictionary (account_jsonDictionary p) (account_jsonDictionary account)))) of
                 None \<Rightarrow> (s1, False, ceJsonError E)
               | Some merged \<Rightarrow>
                   keep_error e1 (dsSaveAccount D merged (AccountKey (key\<lparr>akUsername := aiUsername merged\<rparr>)) s1))))"

definition removeAccount :: "('s, 'e) extended_data_source \<Rightarrow> account_item \<Rightarrow> ('s, bool, 'e) source_op" where
  "removeAccount D account s =
     dsRemoveAccountsWithKey D
       (AccountKey (initAccountKey (aiHomeAccountId account) (aiEnvironment account) (aiRealm account) (aiAccountType account))) s"

fun removeAllAccounts ::
  "('s, 'e) extended_data_source \<Rightarrow> account_item list \<Rightarrow> ('s, bool, 'e) source_op" where
  "removeAllAccounts D [] s = (s, True, None)"
| "removeAllAccounts D (a # as) s =
     (case removeAccount D a s of
        (s1, r1, e1) \<Rightarrow> (case keep_error e1 (removeAllAccounts D as s1) of (s2, r2, e2) \<Rightarrow> (s2, r1 \<and> r2, e2)))"

definition removeAccountsWithQuery ::
  "('s, 'e) extended_data_source \<Rightarrow> account_query \<Rightarrow> ('s, bool, 'e) source_op" where
  "removeAccountsWithQuery D q s =
     (if account_query_exactMatch q then dsRemoveAccountsWithKey D (AccountQuery q) s
      else
        (case getAccountsWithQuery D q s of
           (s1, matched, e) \<Rightarrow> keep_error e (removeAllAccounts D (case matched of None \<Rightarrow> [] | Some r \<Rightarrow> r) s1)))"

section \<open>Everything else\<close>

definition clearCredentialCache :: "('s, 'e) extended_data_source \<Rightarrow> ('s, bool, 'e) source_op" where
  "clearCredentialCache D s = dsClear D s"

definition wipeInfoWithContext :: "('s, 'e) extended_data_source \<Rightarrow> ('s, (string, nsobj) dict option, 'e) source_op" where
  "wipeInfoWithContext D s = dsWipeInfo D s"

definition saveWipeInfoWithContext :: "('s, 'e) extended_data_source \<Rightarrow> ('s, bool, 'e) source_op" where
  "saveWipeInfoWithContext D s = dsSaveWipeInfo D s"

definition appmetadata_key_of :: "appmetadata_item \<Rightarrow> appmetadata_key" where
  "appmetadata_key_of m =
     \<lparr>mkClientId = miClientId m, mkEnvironment = miEnvironment m, mkFamilyId = miFamilyId m, mkGeneralType = MSIDAppMetadataType\<rparr>"

definition saveAppMetadata :: "('s, 'e) extended_data_source \<Rightarrow> appmetadata_item \<Rightarrow> ('s, bool, 'e) source_op" where
  "saveAppMetadata D metadata s = dsSaveAppMetadata (dsMetadata D) metadata (AppMetadataKey (appmetadata_key_of metadata)) s"

definition removeAppMetadata :: "('s, 'e) extended_data_source \<Rightarrow> appmetadata_item \<Rightarrow> ('s, bool, 'e) source_op" where
  "removeAppMetadata D appMetadata s =
     dsRemoveMetadataItemsWithKey (dsMetadata D) (AppMetadataKey (appmetadata_key_of appMetadata)) s"

definition getAppMetadataEntriesWithQuery ::
  "('s, 'e) extended_data_source \<Rightarrow> appmetadata_query \<Rightarrow> ('s, appmetadata_item list option, 'e) source_op" where
  "getAppMetadataEntriesWithQuery D q s =
     (case dsAppMetadataEntriesWithKey (dsMetadata D) (AppMetadataQuery q) s of
        (s1, items, e) \<Rightarrow>
          if \<not> appmetadata_query_exactMatch q
             \<and> (mkClientId q \<noteq> None \<or> mkEnvironment q \<noteq> None \<or> mqEnvironmentAliases q \<noteq> [])
          then (s1, Some (filter (\<lambda>i. appmetadata_matchesWithClientId i (mkClientId q) (mkEnvironment q) (mqEnvironmentAliases q))
                  (case items of None \<Rightarrow> [] | Some r \<Rightarrow> r)), e)
          else (s1, items, e))"

section \<open>The single family refresh token\<close>

definition checkFRTCacheKey :: storage_key where
  "checkFRTCacheKey =
     PlainKey \<lparr>keyAccount = Some ''useSingleFRT'', keyService = Some ''useSingleFRT'', keyGeneric = None, keyType = None\<rparr>"

text \<open>Only an error that was set counts as a failure, not the result of the save.\<close>

definition updateFRTSettings :: "('s, 'e) extended_data_source \<Rightarrow> bool \<Rightarrow> 's \<Rightarrow> 's \<times> 'e option" where
  "updateFRTSettings D enableFRT s =
     (case dsSaveJsonObject D [(''use_single_frt'', NSNum (if enableFRT then 1 else 0))] checkFRTCacheKey s of
        (s1, _, saveError) \<Rightarrow> (s1, saveError))"

text \<open>The block \<open>checkFeatureFlagsAndReturn\<close>: the flight \<open>on\<close> or \<open>off\<close> is written where it
  differs from what is stored.\<close>

definition checkFeatureFlagsAndReturn ::
  "('s, 'e) extended_data_source \<Rightarrow> string option \<Rightarrow> frt_enabled_status \<Rightarrow> 's \<Rightarrow> 's \<times> frt_enabled_status" where
  "checkFeatureFlagsAndReturn D flight status s =
     (let shouldEnableFRT = isEqualToString (Some ''on'') flight;
          shouldDisableFRT = isEqualToString (Some ''off'') flight;
          update = (\<lambda>enable newStatus failStatus.
            (case updateFRTSettings D enable s of
               (s1, None) \<Rightarrow> (s1, newStatus) | (s1, Some e) \<Rightarrow> (s1, failStatus)))
      in if msidIsStringNilOrBlank flight \<or> \<not> shouldEnableFRT \<and> \<not> shouldDisableFRT then (s, status)
         else
           (case status of
              MSIDIsFRTEnabledStatusNotEnabled \<Rightarrow>
                if shouldEnableFRT then update True MSIDIsFRTEnabledStatusEnabled status else (s, status)
            | MSIDIsFRTEnabledStatusDisabledByDeserializationError \<Rightarrow>
                if shouldEnableFRT then update True MSIDIsFRTEnabledStatusEnabled status
                else if shouldDisableFRT then update False MSIDIsFRTEnabledStatusDisabledByKeychainItem status
                else (s, status)
            | MSIDIsFRTEnabledStatusEnabled \<Rightarrow>
                if shouldDisableFRT
                then update False MSIDIsFRTEnabledStatusDisabledByKeychainItem MSIDIsFRTEnabledStatusDisabledByKeychainItem
                else (s, status)
            | MSIDIsFRTEnabledStatusDisabledByKeychainItem \<Rightarrow>
                if shouldEnableFRT then update True MSIDIsFRTEnabledStatusEnabled status else (s, status)
            | MSIDIsFRTEnabledStatusDisabledByKeychainError \<Rightarrow> (s, status)
            | MSIDIsFRTEnabledStatusDisabledByClientApp \<Rightarrow> (s, status)))"

definition stored_frt_status :: "(string, nsobj) dict list option \<Rightarrow> frt_enabled_status" where
  "stored_frt_status objects =
     (case objects of
        None \<Rightarrow> MSIDIsFRTEnabledStatusNotEnabled
      | Some [] \<Rightarrow> MSIDIsFRTEnabledStatusNotEnabled
      | Some (json # _) \<Rightarrow>
          if dict_get json ''use_single_frt'' = None then MSIDIsFRTEnabledStatusDisabledByDeserializationError
          else if msidBoolObjectForKey json ''use_single_frt'' then MSIDIsFRTEnabledStatusEnabled
          else MSIDIsFRTEnabledStatusDisabledByKeychainItem)"

definition checkFRTEnabled ::
  "('s, 'e) extended_data_source \<Rightarrow> bool \<Rightarrow> string option \<Rightarrow> ('s, frt_enabled_status, 'e) source_op" where
  "checkFRTEnabled D disableFRT flight s =
     (if disableFRT
      then (case checkFeatureFlagsAndReturn D flight MSIDIsFRTEnabledStatusDisabledByClientApp s of (s1, st) \<Rightarrow> (s1, st, None))
      else
        (case dsJsonObjectsWithKey D checkFRTCacheKey s of
           (s1, _, Some readError) \<Rightarrow>
             (case checkFeatureFlagsAndReturn D flight MSIDIsFRTEnabledStatusDisabledByKeychainError s1 of
                (s2, st) \<Rightarrow> (s2, st, Some readError))
         | (s1, objects, None) \<Rightarrow>
             (case checkFeatureFlagsAndReturn D flight (stored_frt_status objects) s1 of (s2, st) \<Rightarrow> (s2, st, None))))"

section \<open>The flight decides\<close>

lemma flight_strings:
  "isEqualToString (Some ''on'') f \<longleftrightarrow> f = Some ''on''" "isEqualToString (Some ''off'') f \<longleftrightarrow> f = Some ''off''"
  "\<not> msidIsStringNilOrBlank (Some ''on'')" "\<not> msidIsStringNilOrBlank (Some ''off'')"
  by (auto simp: isEqualToString_def msidIsStringNilOrBlank_def whitespaceAndNewline_def split: option.split)

lemma check_flags_off:
  "snd (checkFeatureFlagsAndReturn D (Some ''off'') status s) \<noteq> MSIDIsFRTEnabledStatusEnabled"
  by (cases status) (auto simp: checkFeatureFlagsAndReturn_def flight_strings Let_def split: prod.split option.split)

lemma check_flags_other:
  "flight \<noteq> Some ''on'' \<Longrightarrow> flight \<noteq> Some ''off'' \<Longrightarrow> checkFeatureFlagsAndReturn D flight status s = (s, status)"
  by (simp add: checkFeatureFlagsAndReturn_def flight_strings Let_def)

lemma check_flags_on:
  assumes "status \<noteq> MSIDIsFRTEnabledStatusDisabledByClientApp" "status \<noteq> MSIDIsFRTEnabledStatusDisabledByKeychainError"
    and "snd (updateFRTSettings D True s) = None"
  shows "snd (checkFeatureFlagsAndReturn D (Some ''on'') status s) = MSIDIsFRTEnabledStatusEnabled"
  using assms
  by (cases status) (auto simp: checkFeatureFlagsAndReturn_def flight_strings Let_def split: prod.split option.split)

text \<open>
  C27: the flight decides over the stored switch. While it says \<open>off\<close> the family refresh token is
  never reported enabled, whatever is stored and whatever the keychain does; while it says neither
  \<open>on\<close> nor \<open>off\<close> nothing is written and the status is the stored one; while it says \<open>on\<close>, the
  application does not forbid it, and the keychain can be read and written, it is enabled.
\<close>

theorem frt_flight_decides:
  assumes "dsJsonObjectsWithKey D checkFRTCacheKey s = (s1, objects, err)"
  shows "fst (snd (checkFRTEnabled D disableFRT (Some ''off'') s)) \<noteq> MSIDIsFRTEnabledStatusEnabled
    \<and> (flight \<noteq> Some ''on'' \<and> flight \<noteq> Some ''off'' \<and> \<not> disableFRT \<and> err = None \<longrightarrow>
         checkFRTEnabled D disableFRT flight s = (s1, stored_frt_status objects, None))
    \<and> (\<not> disableFRT \<and> err = None \<and> snd (updateFRTSettings D True s1) = None \<longrightarrow>
         fst (snd (checkFRTEnabled D disableFRT (Some ''on'') s)) = MSIDIsFRTEnabledStatusEnabled)"
proof (intro conjI impI; (elim conjE)?)
  show "fst (snd (checkFRTEnabled D disableFRT (Some ''off'') s)) \<noteq> MSIDIsFRTEnabledStatusEnabled"
    using check_flags_off [of D _ s] check_flags_off [of D _ s1]
    by (cases err) (auto simp: checkFRTEnabled_def assms split: prod.split dest: arg_cong [of _ _ snd])
next
  assume "flight \<noteq> Some ''on''" "flight \<noteq> Some ''off''" "\<not> disableFRT" "err = None"
  then show "checkFRTEnabled D disableFRT flight s = (s1, stored_frt_status objects, None)"
    by (simp add: checkFRTEnabled_def assms check_flags_other)
next
  assume "\<not> disableFRT" "err = None" "snd (updateFRTSettings D True s1) = None"
  moreover have "stored_frt_status objects \<noteq> MSIDIsFRTEnabledStatusDisabledByClientApp"
    "stored_frt_status objects \<noteq> MSIDIsFRTEnabledStatusDisabledByKeychainError"
    by (simp_all add: stored_frt_status_def split: option.split list.split)
  ultimately show "fst (snd (checkFRTEnabled D disableFRT (Some ''on'') s)) = MSIDIsFRTEnabledStatusEnabled"
    using check_flags_on [of "stored_frt_status objects" D s1]
    by (auto simp: checkFRTEnabled_def assms split: prod.split)
qed

section \<open>The contract of a credential source\<close>

text \<open>
  What the accessor relies on, for the keys that have an address: a successful save writes one entry
  (as \<open>saved\<close> changes the item), a successful removal clears one, a read answers the entry of its
  address, and the wipe information is kept apart.
\<close>

locale credential_source =
  fixes D :: "('s, 'e) extended_data_source"
    and inv :: "'s \<Rightarrow> bool"
    and look :: "'s \<Rightarrow> 'a \<Rightarrow> credential_item option"
    and addr :: "credential_key \<Rightarrow> 'a option"
    and saved :: "credential_item \<Rightarrow> credential_item"
  assumes save_law: "inv s \<Longrightarrow> addr k = Some a \<Longrightarrow> dsSaveToken D i (CredentialKey k) s = (s', True, e) \<Longrightarrow>
      inv s' \<and> look s' = (look s)(a \<mapsto> saved i)"
    and remove_law: "inv s \<Longrightarrow> addr k = Some a \<Longrightarrow> dsRemoveTokensWithKey D (CredentialKey k) s = (s', True, e) \<Longrightarrow>
      inv s' \<and> look s' = (look s)(a := None)"
    and wipe_law: "inv s \<Longrightarrow> inv (fst (dsSaveWipeInfo D s)) \<and> look (fst (dsSaveWipeInfo D s)) = look s"
    and read_law: "inv s \<Longrightarrow> addr k = Some a \<Longrightarrow>
      \<exists>s'. dsTokenWithKey D (CredentialKey k) s = (s', look s a, None) \<and> inv s' \<and> look s' = look s"
begin

lemma read_after_save:
  assumes "inv s" "addr (saving_key i) = Some a" "saveCredential D i s = (s', True, e)"
  shows "fst (snd (getCredential D (saving_key i) s')) = Some (saved i)"
proof -
  have "inv s'" "look s' = (look s)(a \<mapsto> saved i)"
    using save_law [OF assms(1,2)] assms(3) by (simp_all add: saveCredential_def)
  then show ?thesis
    using read_law [of s' "saving_key i" a] assms(2) by (auto simp: getCredential_def)
qed

lemma removeCredential_clears:
  assumes "inv s" "addr (removing_key E i) = Some a" "removeCredential E D i s = (s', True, e)"
  shows "inv s' \<and> look s' = (look s)(a := None)"
proof -
  obtain s1 e1 where r: "dsRemoveTokensWithKey D (CredentialKey (removing_key E i)) s = (s1, True, e1)"
    using assms(3) by (auto simp: removeCredential_def split: prod.splits if_splits)
  then have "inv s1" "look s1 = (look s)(a := None)" using remove_law [OF assms(1,2)] by blast+
  then show ?thesis
    using assms(3) r wipe_law [of s1] by (auto simp: removeCredential_def split: if_splits)
qed

lemma removeAll_clears:
  assumes "inv s" "\<forall>i\<in>set is. addr (removing_key E i) \<noteq> None" "removeAllCredentials E D is s = (s', True, e)"
  shows "inv s' \<and> look s' = (\<lambda>a. if \<exists>i\<in>set is. addr (removing_key E i) = Some a then None else look s a)"
  using assms
proof (induction "is" arbitrary: s e)
  case Nil
  then show ?case by simp
next
  case (Cons i "is")
  obtain a where a: "addr (removing_key E i) = Some a" using Cons.prems(2) by auto
  obtain s1 e1 e2 where r: "removeCredential E D i s = (s1, True, e1)" "removeAllCredentials E D is s1 = (s', True, e2)"
    using Cons.prems(3) by (auto simp: keep_error_def split: prod.splits)
  have one: "inv s1" "look s1 = (look s)(a := None)"
    using removeCredential_clears [OF Cons.prems(1) a r(1)] by blast+
  have "inv s'" "look s' = (\<lambda>a. if \<exists>i\<in>set is. addr (removing_key E i) = Some a then None else look s1 a)"
    using Cons.IH [OF one(1) _ r(2)] Cons.prems(2) by simp_all
  then show ?case using a by (auto simp: one(2) fun_eq_iff)
qed

end

section \<open>The macOS cache as a data source\<close>

definition answered :: "'s \<times> 'r \<times> 'e option \<Rightarrow> 's \<times> 'r option \<times> 'e option" where
  "answered r = (case r of (s, x, e) \<Rightarrow> (s, Some x, e))"

definition mac_metadata_source :: "mac_env \<Rightarrow> (mac_cache, mac_error) metadata_data_source" where
  "mac_metadata_source M =
     \<lparr>dsSaveAccountMetadata = (\<lambda>i k c. mac_saveAccountMetadata M c i k),
      dsAccountMetadataWithKey = (\<lambda>k c. mac_accountMetadataWithKey M c k),
      dsAccountsMetadataWithKey = (\<lambda>k c. answered (mac_accountsMetadataWithKey M c k)),
      dsRemoveAccountMetadataForKey = (\<lambda>k c. removeItemsWithKey M c k),
      dsSaveAppMetadata = (\<lambda>i k c. mac_saveAppMetadata M c i k),
      dsAppMetadataEntriesWithKey = (\<lambda>k c. answered (mac_appMetadataEntriesWithKey M c k)),
      dsRemoveMetadataItemsWithKey = (\<lambda>k c. removeItemsWithKey M c k)\<rparr>"

definition mac_data_source :: "mac_env \<Rightarrow> (mac_cache, mac_error) extended_data_source" where
  "mac_data_source M =
     \<lparr>dsSaveToken = (\<lambda>i k c. mac_saveToken M c i k),
      dsTokenWithKey = (\<lambda>k c. mac_tokenWithKey M c k),
      dsTokensWithKey = (\<lambda>k c. answered (mac_tokensWithKey M c k)),
      dsSaveWipeInfo = mac_saveWipeInfo,
      dsWipeInfo = (\<lambda>c. (c, None, Some MacUnsupportedFunctionality)),
      dsRemoveTokensWithKey = (\<lambda>k c. mac_removeTokensWithKey M c k),
      dsClear = mac_clear M,
      dsMetadata = mac_metadata_source M,
      dsSaveAccount = (\<lambda>i k c. mac_saveAccount M c i k),
      dsAccountWithKey = (\<lambda>k c. mac_accountWithKey M c k),
      dsAccountsWithKey = (\<lambda>k c. answered (mac_accountsWithKey M c k)),
      dsRemoveAccountsWithKey = (\<lambda>k c. removeItemsWithKey M c k),
      dsJsonObjectsWithKey = (\<lambda>k c. (c, None, None)),
      dsSaveJsonObject = (\<lambda>j k c. (c, False, None))\<rparr>"

text \<open>
  The entries of the two blobs, the refresh tokens in the shared one. The laws are about a run that
  does not read the login keychain, which is how the cache runs once it found the shared item empty.
\<close>

definition mac_look :: "mac_cache \<Rightarrow> string \<times> slot \<Rightarrow> credential_item option" where
  "mac_look c a = Option.bind (item_at (blob_of (fst a = ''RefreshToken'') c) a) as_credential"

definition mac_addr :: "mac_env \<Rightarrow> credential_key \<Rightarrow> (string \<times> slot) option" where
  "mac_addr M k = (if msidIsStringNilOrBlank (ckAppKey k) then key_addr (meHash M) (CredentialKey k) else None)"

definition mac_stamped :: "mac_env \<Rightarrow> credential_item \<Rightarrow> credential_item" where
  "mac_stamped M i = i\<lparr>ciLastModificationApp := meAppIdentifier M, ciLastModificationTime := Some (meNow M)\<rparr>"

definition mac_inv :: "mac_env \<Rightarrow> mac_cache \<Rightarrow> bool" where
  "mac_inv M c \<longleftrightarrow> storage_inv (meHash M) (mkApp c) \<and> storage_inv (meHash M) (mkShared c) \<and> mkLoginKeychainEmpty c"

lemma sync_memory_only: "mkLoginKeychainEmpty c \<Longrightarrow> syncStorageItem M c b = (c, None)"
  by (simp add: syncStorageItem_def queryStorageItem_def shouldUseLoginKeychain_def)

lemma blob_set [simp]:
  "blob_of b' (set_blob b st c) = (if b' = b then st else blob_of b' c)"
  "blob_of b' (set_disk b d c) = blob_of b' c"
  "mkLoginKeychainEmpty (set_blob b st c) = mkLoginKeychainEmpty c"
  "mkLoginKeychainEmpty (set_disk b d c) = mkLoginKeychainEmpty c"
  by (cases b; cases b'; simp add: blob_of_def set_blob_def set_disk_def)+

lemma mac_inv_iff: "mac_inv M c \<longleftrightarrow> (\<forall>b. storage_inv (meHash M) (blob_of b c)) \<and> mkLoginKeychainEmpty c"
proof -
  have "(\<forall>b. storage_inv (meHash M) (blob_of b c)) \<longleftrightarrow>
      storage_inv (meHash M) (blob_of True c) \<and> storage_inv (meHash M) (blob_of False c)" by (metis (full_types))
  then show ?thesis by (auto simp: mac_inv_def blob_of_def)
qed

lemma mac_addr_parts:
  assumes "mac_addr M k = Some a"
  shows "key_stable (meHash M) (CredentialKey k)" "key_addr (meHash M) (CredentialKey k) = Some a"
    "fst a = ''RefreshToken'' \<longleftrightarrow> key_isShared (CredentialKey k)"
  using assms key_stable_appKey [of k "meHash M"]
  by (auto simp: mac_addr_def key_addr_def credentialKey_isShared_def split: if_splits)
     (cases "ckCredentialType k"; simp)+

lemma credential_key_exact: "key_exact th (CredentialKey k)" "\<not> key_matchesAny (CredentialKey k)"
  by (simp_all add: key_exact_def key_matchesAny_def slot_of_def credential_cache_key_def)

lemma mac_blob_inv: "mac_inv M c \<Longrightarrow> storage_inv (meHash M) (blob_of b c)"
  by (simp add: mac_inv_iff)

lemma mac_look_set:
  "mac_look (set_disk b d c) = mac_look c"
  "mac_look (set_blob b st c) = (\<lambda>a. if (fst a = ''RefreshToken'') = b then Option.bind (item_at st a) as_credential else mac_look c a)"
  by (auto simp: mac_look_def fun_eq_iff)

lemma mac_inv_set:
  "mac_inv M c \<Longrightarrow> storage_inv (meHash M) st \<Longrightarrow> mac_inv M (set_blob b st c)"
  "mac_inv M (set_disk b d c) = mac_inv M c"
  by (simp_all add: mac_inv_iff)

lemma mac_save_law:
  assumes "mac_inv M c" "mac_addr M k = Some a" "mac_saveToken M c i (CredentialKey k) = (c', True, e)"
  shows "mac_inv M c' \<and> mac_look c' = (mac_look c)(a \<mapsto> mac_stamped M i)"
proof -
  let ?b = "key_isShared (CredentialKey k)"
  let ?st = "storeItem (meHash M) (CredentialItem (mac_stamped M i)) (CredentialKey k) (blob_of ?b c)"
  note p = mac_addr_parts [OF assms(2)] and inv = mac_blob_inv [OF assms(1), of ?b]
  have "mkLoginKeychainEmpty c" using assms(1) by (simp add: mac_inv_def)
  then have c': "c' = set_disk ?b (Some (storage_jsonDictionary (meHash M) ?st)) (set_blob ?b ?st c)"
    using assms(3) by (auto simp: mac_saveToken_def store_and_save_def sync_memory_only Let_def with_error_def
        saveStorageItem_def mac_stamped_def split: if_splits)
  have "item_at ?st = (item_at (blob_of ?b c))(a \<mapsto> CredentialItem (mac_stamped M i))"
    by (rule blob.put_view [OF inv p(1,2)])
  then show ?thesis
    using p(3) blob.put_inv [OF inv p(1)] assms(1)
    by (auto simp: c' mac_inv_set mac_look_set fun_eq_iff mac_look_def simp del: key_isShared.simps)
qed

lemma mac_remove_law:
  assumes "mac_inv M c" "mac_addr M k = Some a" "mac_removeTokensWithKey M c (CredentialKey k) = (c', True, e)"
  shows "mac_inv M c' \<and> mac_look c' = (mac_look c)(a := None)"
proof -
  let ?b = "key_isShared (CredentialKey k)"
  let ?st = "removeStoredItemForKey (meHash M) (CredentialKey k) (blob_of ?b c)"
  note p = mac_addr_parts [OF assms(2)] and inv = mac_blob_inv [OF assms(1), of ?b]
  have "mkLoginKeychainEmpty c" using assms(1) by (simp add: mac_inv_def)
  then obtain d where c': "c' = set_disk ?b d (set_blob ?b ?st c)"
    using assms(3)
    by (auto simp: mac_removeTokensWithKey_def credential_key_exact removeAllMatchingTokens_def sync_memory_only Let_def
        with_error_def saveStorageItem_def removeStorageItem_def simp del: key_isShared.simps split: if_splits)
  have "item_at ?st = (item_at (blob_of ?b c))(a := None)"
    by (rule blob.del_view [OF inv p(2)])
  then show ?thesis
    using p(3) blob.del_inv [OF inv, of "CredentialKey k"] assms(1)
    by (auto simp: c' mac_inv_set mac_look_set fun_eq_iff mac_look_def simp del: key_isShared.simps)
qed

lemma mac_read_law:
  assumes "mac_inv M c" "mac_addr M k = Some a"
  shows "mac_tokenWithKey M c (CredentialKey k) = (c, mac_look c a, None)"
proof -
  define b where "b = key_isShared (CredentialKey k)"
  note p = mac_addr_parts [OF assms(2), folded b_def] and inv = mac_blob_inv [OF assms(1), of b]
  have "mkLoginKeychainEmpty c" using assms(1) by (simp add: mac_inv_def)
  then have "mac_tokensWithKey M c (CredentialKey k)
      = (c, filterTokenItemsFromKeychainItems (storedItemsForKey (meHash M) (CredentialKey k) (blob_of b c)), None)"
    by (simp add: mac_tokensWithKey_def credential_key_exact Let_def b_def [symmetric] sync_memory_only
        del: key_isShared.simps)
  also have "storedItemsForKey (meHash M) (CredentialKey k) (blob_of b c)
      = (case item_at (blob_of b c) a of None \<Rightarrow> [] | Some x \<Rightarrow> [x])"
    by (rule blob.find_exact [OF inv credential_key_exact(1) p(2)])
  finally show ?thesis
    using p(3) by (cases "item_at (blob_of b c) a")
      (auto simp: mac_tokenWithKey_def only_one_def mac_look_def filterTokenItemsFromKeychainItems_def
        List.map_filter_simps split: option.split)
qed

interpretation mac: credential_source "mac_data_source M" "mac_inv M" mac_look "mac_addr M" "mac_stamped M" for M
proof (unfold_locales, goal_cases)
  case (1 s k a i s' e)
  then show ?case using mac_save_law by (simp add: mac_data_source_def)
next
  case (2 s k a s' e)
  then show ?case using mac_remove_law by (simp add: mac_data_source_def)
next
  case (3 s)
  then show ?case by (simp add: mac_data_source_def mac_saveWipeInfo_def)
next
  case (4 s k a)
  then show ?case using mac_read_law by (simp add: mac_data_source_def)
qed

section \<open>Properties over the macOS cache\<close>

lemma mac_query_keeps_state:
  assumes "mac_inv M c"
  shows "fst (getCredentialsWithQuery E (mac_data_source M) q c) = c"
proof -
  have "mkLoginKeychainEmpty c" using assms by (simp add: mac_inv_def)
  then have "\<exists>items. mac_tokensWithKey M c (CredentialQuery q) = (c, items, None)"
    by (simp add: mac_tokensWithKey_def getAllItemsWithKey_def sync_memory_only Let_def)
  then show ?thesis
    by (auto simp: getCredentialsWithQuery_def mac_data_source_def answered_def)
qed


definition witness_token :: credential_item where
  "witness_token =
     \<lparr>ciClientId = Some ''c'', ciCredentialType = MSIDAccessTokenType, ciSecret = Some ''s'', ciTarget = Some ''t'',
      ciRealm = Some ''r'', ciEnvironment = Some ''e'', ciExpiresOn = Some 5, ciExtendedExpiresOn = None,
      ciRefreshOn = None, ciCachedAt = None, ciLastRecoveryAttempt = None, ciRecoveryAttemptCount = None,
      ciLastRecoveryAttemptFailed = None, ciExpiryInterval = None, ciFamilyId = None, ciHomeAccountId = Some ''u'',
      ciEnrollmentId = None, ciSpeInfo = None, ciLastModificationTime = None, ciLastModificationApp = None,
      ciApplicationIdentifier = None, ciKid = None, ciTokenType = None, ciRequestedClaims = None,
      ciRedirectUri = None, ciJson = None\<rparr>"

definition witness_mac_env :: mac_env where
  "witness_mac_env =
     \<lparr>meHash = take 7, meClientInfoOk = (\<lambda>_. True), meUnreadable = (\<lambda>_. False), meUnwritable = (\<lambda>_. False),
      meAppIdentifier = Some ''app;1'', meNow = 7\<rparr>"

definition witness_mac :: mac_cache where
  "witness_mac = \<lparr>mkApp = initStorage, mkShared = initStorage, mkDiskApp = None, mkDiskShared = None, mkLoginKeychainEmpty = True\<rparr>"

lemma witness_mac_inv: "mac_inv witness_mac_env witness_mac"
  by (simp add: mac_inv_def witness_mac_def initStorage_def)

lemma witness_addr:
  "mac_addr witness_mac_env (saving_key witness_token)
   = Some (''AccessToken'', slot_of (take 7) (CredentialKey (saving_key witness_token)))"
proof -
  have "msidIsStringNilOrBlank (ckAppKey (saving_key witness_token))"
    "ckCredentialType (saving_key witness_token) = MSIDAccessTokenType" by code_simp+
  then show ?thesis by (simp add: mac_addr_def key_addr_def witness_mac_env_def)
qed

lemma mac_save_succeeds:
  assumes "mkLoginKeychainEmpty c" "\<not> meUnwritable M (key_isShared (CredentialKey (saving_key i)))"
  shows "\<exists>c'. saveCredential (mac_data_source M) i c = (c', True, None)"
  using assms
  by (simp add: saveCredential_def mac_data_source_def mac_saveToken_def store_and_save_def sync_memory_only Let_def
      with_error_def saveStorageItem_def)



definition witness_credential_env :: "mac_error credential_env" where
  "witness_credential_env =
     \<lparr>ceNow = 10, ceNilIsPast = False, ceAppKey = (\<lambda>_. None), ceClientInfoOk = (\<lambda>_. True), ceHash = take 7,
      ceJsonError = None\<rparr>"

definition witness_query :: credential_query where
  "witness_query = initCredentialQuery\<lparr>ckCredentialType := MSIDAccessTokenType\<rparr>"

definition witness_full :: mac_cache where
  "witness_full = fst (saveCredential (mac_data_source witness_mac_env) witness_token witness_mac)"

definition witness_found :: "credential_item list option" where
  "witness_found = fst (snd (getCredentialsWithQuery witness_credential_env (mac_data_source witness_mac_env)
     (witness_query\<lparr>qTargetMatching := MSIDAny, qMatchAnyCredentialType := False\<rparr>) witness_full))"

definition witness_address :: "string \<times> slot" where
  "witness_address = (''AccessToken'', slot_of (take 7) (CredentialKey (saving_key witness_token)))"

lemma witness_full_inv: "mac_inv witness_mac_env witness_full"
proof -
  obtain c' where c': "saveCredential (mac_data_source witness_mac_env) witness_token witness_mac = (c', True, None)"
    using mac_save_succeeds [of witness_mac witness_mac_env witness_token]
    by (auto simp: witness_mac_def witness_mac_env_def)
  then have "dsSaveToken (mac_data_source witness_mac_env) witness_token (CredentialKey (saving_key witness_token)) witness_mac
      = (c', True, None)" by (simp add: saveCredential_def)
  then show ?thesis
    using mac.save_law [OF witness_mac_inv witness_addr] by (simp add: witness_full_def c')
qed

lemma removing_key_saving: "ceAppKey E i = None \<Longrightarrow> removing_key E i = saving_key i"
  by (simp add: removing_key_def saving_key_def initCredentialKey_def)

lemma saving_key_stamped: "saving_key (mac_stamped M i) = saving_key i"
  by (simp add: saving_key_def mac_stamped_def)

lemma witness_found_one: "witness_found = Some [mac_stamped witness_mac_env witness_token]"
  by code_simp

lemma witness_removal_succeeds:
  "fst (snd (removeExpiredAccessTokens witness_credential_env (mac_data_source witness_mac_env) witness_query witness_full))"
  by code_simp


text \<open>
  C29: a save that cannot read the keychain item before it writes it still reports success: what is
  stored afterwards is the memory of the process with the new token, whatever was stored before, so the
  entries other processes had written are lost.
\<close>

theorem unread_item_is_overwritten:
  assumes "\<not> mkLoginKeychainEmpty c" "meUnreadable M (key_isShared key)" "\<not> meUnwritable M (key_isShared key)"
  shows "mac_saveToken M c i key
         = (set_disk (key_isShared key)
              (Some (storage_jsonDictionary (meHash M)
                (storeItem (meHash M) (CredentialItem (mac_stamped M i)) key (blob_of (key_isShared key) c))))
              (set_blob (key_isShared key)
                (storeItem (meHash M) (CredentialItem (mac_stamped M i)) key (blob_of (key_isShared key) c)) c),
            True, Some MacKeychainError)"
  using assms
  by (simp add: mac_saveToken_def store_and_save_def syncStorageItem_def queryStorageItem_def shouldUseLoginKeychain_def
      Let_def with_error_def saveStorageItem_def mac_stamped_def)

theorem unread_item_is_overwritten_witness:
  "fst (snd (mac_saveToken (witness_mac_env\<lparr>meUnreadable := \<lambda>_. True\<rparr>)
       (witness_mac\<lparr>mkLoginKeychainEmpty := False, mkDiskShared := Some [(''RefreshToken'', NSDict [])]\<rparr>) witness_token
       (CredentialKey (saving_key witness_token))))"
proof -
  have "\<not> mkLoginKeychainEmpty (witness_mac\<lparr>mkLoginKeychainEmpty := False, mkDiskShared := Some [(''RefreshToken'', NSDict [])]\<rparr>)"
    by simp
  from unread_item_is_overwritten [OF this] show ?thesis by (simp add: witness_mac_env_def)
qed

text \<open>The macOS source reads no JSON objects and stores none, and sets no error.\<close>

lemma mac_frt_source:
  "dsJsonObjectsWithKey (mac_data_source M) checkFRTCacheKey c = (c, None, None)"
  "updateFRTSettings (mac_data_source M) b c = (c, None)"
  by (simp_all add: mac_data_source_def updateFRTSettings_def)

theorem frt_flight_decides_witness:
  "fst (snd (checkFRTEnabled (mac_data_source witness_mac_env) False (Some ''on'') witness_mac)) = MSIDIsFRTEnabledStatusEnabled
   \<and> checkFRTEnabled (mac_data_source witness_mac_env) False None witness_mac
       = (witness_mac, MSIDIsFRTEnabledStatusNotEnabled, None)"
  using frt_flight_decides [OF mac_frt_source(1) [of witness_mac_env witness_mac], of False None]
  by (simp add: mac_frt_source(2) stored_frt_status_def)

end
