(* ===== verification/CredentialSessions.thy ===== *)
theory CredentialSessions
  imports AccountCredentialCache
begin

text \<open>
  Sessions of the account credential cache: the requests of \<open>cache/accessor/MSIDAccountCredentialCache.h\<close>
  as data, run one after another against a data source. What every operation of the source keeps,
  every session keeps; for the macOS cache that is the shape of its two blobs.
\<close>

section \<open>Requests\<close>

datatype credential_request =
    GetCredentialsWithQuery credential_query
  | GetCredential credential_key
  | GetAllCredentialsWithType credential_type
  | GetAccountsWithQuery account_query
  | GetAccount account_key
  | GetAllAccountsWithType account_type
  | GetAllItems
  | SaveCredential credential_item
  | SaveAccount account_item
  | RemoveCredentialsWithQuery credential_query
  | RemoveExpiredAccessTokens credential_query
  | RemoveCredential credential_item
  | RemoveAccountsWithQuery account_query
  | RemoveAccount account_item
  | ClearCache
  | WipeInfo
  | SaveWipeInfo
  | SaveAppMetadata appmetadata_item
  | RemoveAppMetadata appmetadata_item
  | GetAppMetadataEntries appmetadata_query
  | CheckFRTEnabled bool "string option"
  | UpdateFRTSettings bool

fun run_request :: "'e credential_env \<Rightarrow> ('s, 'e) extended_data_source \<Rightarrow> credential_request \<Rightarrow> 's \<Rightarrow> 's" where
  "run_request E D (GetCredentialsWithQuery q) s = fst (getCredentialsWithQuery E D q s)"
| "run_request E D (GetCredential k) s = fst (getCredential D k s)"
| "run_request E D (GetAllCredentialsWithType t) s = fst (getAllCredentialsWithType D t s)"
| "run_request E D (GetAccountsWithQuery q) s = fst (getAccountsWithQuery D q s)"
| "run_request E D (GetAccount k) s = fst (getAccount D k s)"
| "run_request E D (GetAllAccountsWithType t) s = fst (getAllAccountsWithType D t s)"
| "run_request E D GetAllItems s = fst (getAllItems D s)"
| "run_request E D (SaveCredential i) s = fst (saveCredential D i s)"
| "run_request E D (SaveAccount a) s = fst (saveAccount E D a s)"
| "run_request E D (RemoveCredentialsWithQuery q) s = fst (removeCredentialsWithQuery E D q s)"
| "run_request E D (RemoveExpiredAccessTokens q) s = fst (removeExpiredAccessTokens E D q s)"
| "run_request E D (RemoveCredential i) s = fst (removeCredential E D i s)"
| "run_request E D (RemoveAccountsWithQuery q) s = fst (removeAccountsWithQuery D q s)"
| "run_request E D (RemoveAccount a) s = fst (removeAccount D a s)"
| "run_request E D ClearCache s = fst (clearCredentialCache D s)"
| "run_request E D WipeInfo s = fst (wipeInfoWithContext D s)"
| "run_request E D SaveWipeInfo s = fst (saveWipeInfoWithContext D s)"
| "run_request E D (SaveAppMetadata m) s = fst (saveAppMetadata D m s)"
| "run_request E D (RemoveAppMetadata m) s = fst (removeAppMetadata D m s)"
| "run_request E D (GetAppMetadataEntries q) s = fst (getAppMetadataEntriesWithQuery D q s)"
| "run_request E D (CheckFRTEnabled d f) s = fst (checkFRTEnabled D d f s)"
| "run_request E D (UpdateFRTSettings b) s = fst (updateFRTSettings D b s)"

section \<open>What every operation keeps, every session keeps\<close>

locale keeping_source =
  fixes D :: "('s, 'e) extended_data_source"
    and inv :: "'s \<Rightarrow> bool"
  assumes keeps_tokens: "inv s \<Longrightarrow> inv (fst (dsTokensWithKey D k s))" "inv s \<Longrightarrow> inv (fst (dsTokenWithKey D k s))"
      "inv s \<Longrightarrow> inv (fst (dsSaveToken D i k s))" "inv s \<Longrightarrow> inv (fst (dsRemoveTokensWithKey D k s))"
    and keeps_wipe: "inv s \<Longrightarrow> inv (fst (dsSaveWipeInfo D s))" "inv s \<Longrightarrow> inv (fst (dsWipeInfo D s))"
      "inv s \<Longrightarrow> inv (fst (dsClear D s))"
    and keeps_accounts: "inv s \<Longrightarrow> inv (fst (dsAccountsWithKey D k s))" "inv s \<Longrightarrow> inv (fst (dsAccountWithKey D k s))"
      "inv s \<Longrightarrow> inv (fst (dsSaveAccount D a k s))" "inv s \<Longrightarrow> inv (fst (dsRemoveAccountsWithKey D k s))"
    and keeps_json: "inv s \<Longrightarrow> inv (fst (dsJsonObjectsWithKey D k s))" "inv s \<Longrightarrow> inv (fst (dsSaveJsonObject D j k s))"
    and keeps_metadata: "inv s \<Longrightarrow> inv (fst (dsSaveAppMetadata (dsMetadata D) m k s))"
      "inv s \<Longrightarrow> inv (fst (dsAppMetadataEntriesWithKey (dsMetadata D) k s))"
      "inv s \<Longrightarrow> inv (fst (dsRemoveMetadataItemsWithKey (dsMetadata D) k s))"
begin

lemmas keeps = keeps_tokens keeps_wipe keeps_accounts keeps_json keeps_metadata

lemma keeps_getCredentialsWithQuery: "inv s \<Longrightarrow> inv (fst (getCredentialsWithQuery E D q s))"
  using keeps_tokens(1) [of s "CredentialQuery q"]
  by (auto simp: getCredentialsWithQuery_def split: prod.split option.split)

lemma keeps_removeCredential: "inv s \<Longrightarrow> inv (fst (removeCredential E D i s))"
  using keeps_tokens(4) [of s "CredentialKey (removing_key E i)"]
  by (auto simp: removeCredential_def keeps_wipe split: prod.split)

lemma keep_error_state [simp]: "fst (keep_error e r) = fst r"
  by (simp add: keep_error_def split: prod.split)

lemma keeps_removeAllCredentials: "inv s \<Longrightarrow> inv (fst (removeAllCredentials E D is s))"
proof (induction "is" arbitrary: s)
  case (Cons i "is")
  have "fst (removeAllCredentials E D (i # is) s) = fst (removeAllCredentials E D is (fst (removeCredential E D i s)))"
    by (simp add: keep_error_def split: prod.split)
  then show ?case using Cons keeps_removeCredential by simp
qed simp

lemma keeps_removeCredentialsWithQuery: "inv s \<Longrightarrow> inv (fst (removeCredentialsWithQuery E D q s))"
  using keeps_getCredentialsWithQuery [of s E q]
  by (auto simp: removeCredentialsWithQuery_def keeps_tokens keeps_removeAllCredentials split: prod.split option.split)

lemma keeps_removeExpired: "inv s \<Longrightarrow> inv (fst (removeExpiredAccessTokens E D q s))"
  using keeps_getCredentialsWithQuery [of s E "q\<lparr>qTargetMatching := MSIDAny, qMatchAnyCredentialType := False\<rparr>"]
  by (auto simp: removeExpiredAccessTokens_def Let_def keeps_removeAllCredentials split: prod.split option.split)

lemma keeps_getAccountsWithQuery: "inv s \<Longrightarrow> inv (fst (getAccountsWithQuery D q s))"
  using keeps_accounts(1) [of s "AccountQuery q"] by (auto simp: getAccountsWithQuery_def split: prod.split)

lemma keeps_removeAllAccounts: "inv s \<Longrightarrow> inv (fst (removeAllAccounts D as s))"
proof (induction "as" arbitrary: s)
  case (Cons a "as")
  have "fst (removeAllAccounts D (a # as) s) = fst (removeAllAccounts D as (fst (removeAccount D a s)))"
    by (simp add: keep_error_def split: prod.split)
  then show ?case using Cons keeps_accounts by (simp add: removeAccount_def)
qed simp

lemma keeps_removeAccountsWithQuery: "inv s \<Longrightarrow> inv (fst (removeAccountsWithQuery D q s))"
  using keeps_getAccountsWithQuery [of s q]
  by (auto simp: removeAccountsWithQuery_def keeps_accounts keeps_removeAllAccounts split: prod.split)

lemma keeps_saveAccount: "inv s \<Longrightarrow> inv (fst (saveAccount E D a s))"
proof -
  let ?k = "AccountKey (initAccountKey (aiHomeAccountId a) (aiEnvironment a) (aiRealm a) (aiAccountType a))"
  assume s: "inv s"
  obtain s1 p e where r: "dsAccountWithKey D ?k s = (s1, p, e)" by (cases "dsAccountWithKey D ?k s")
  then have "inv s1" using keeps_accounts(2) [OF s, of ?k] by simp
  then show ?thesis
    by (simp add: saveAccount_def Let_def r keeps_accounts split: option.split)
qed

lemma keeps_getAppMetadata: "inv s \<Longrightarrow> inv (fst (getAppMetadataEntriesWithQuery D q s))"
  using keeps_metadata(2) [of s "AppMetadataQuery q"]
  by (auto simp: getAppMetadataEntriesWithQuery_def split: prod.split)

lemma keeps_updateFRT: "inv s \<Longrightarrow> inv (fst (updateFRTSettings D b s))"
  using keeps_json(2) [of s "[(''use_single_frt'', NSNum (if b then 1 else 0))]" checkFRTCacheKey]
  by (auto simp: updateFRTSettings_def split: prod.split)

lemma keeps_checkFlags: "inv s \<Longrightarrow> inv (fst (checkFeatureFlagsAndReturn D f st s))"
  using keeps_updateFRT [of s True] keeps_updateFRT [of s False]
  by (cases st) (auto simp: checkFeatureFlagsAndReturn_def Let_def split: prod.split option.split)

lemma fst_with [simp]: "fst (case x of (a, b) \<Rightarrow> (a, b, c)) = fst x"
  by (simp split: prod.split)

lemma keeps_checkFRT: "inv s \<Longrightarrow> inv (fst (checkFRTEnabled D d f s))"
proof -
  assume s: "inv s"
  obtain s1 objects err where j: "dsJsonObjectsWithKey D checkFRTCacheKey s = (s1, objects, err)"
    by (cases "dsJsonObjectsWithKey D checkFRTCacheKey s")
  then have "inv s1" using keeps_json(1) [OF s, of checkFRTCacheKey] by simp
  then show ?thesis
    using s by (cases err) (simp_all add: checkFRTEnabled_def j keeps_checkFlags)
qed

lemma keeps_request: "inv s \<Longrightarrow> inv (run_request E D r s)"
  by (cases r) (simp_all add: keeps keeps_getCredentialsWithQuery keeps_removeCredential
      keeps_removeCredentialsWithQuery keeps_removeExpired keeps_getAccountsWithQuery
      keeps_removeAccountsWithQuery keeps_saveAccount keeps_getAppMetadata keeps_updateFRT keeps_checkFRT
      getCredential_def getAllCredentialsWithType_def getAllItems_def saveCredential_def getAccount_def
      getAllAccountsWithType_def removeAccount_def clearCredentialCache_def wipeInfoWithContext_def
      saveWipeInfoWithContext_def saveAppMetadata_def removeAppMetadata_def)

lemma keeps_session: "inv s \<Longrightarrow> inv (fold (run_request E D) rs s)"
  by (induction rs arbitrary: s) (simp_all add: keeps_request)

end

section \<open>The blobs of the macOS cache\<close>

definition blobs_ok :: "mac_env \<Rightarrow> mac_cache \<Rightarrow> bool" where
  "blobs_ok M c \<longleftrightarrow> storage_inv (meHash M) (blob_of True c) \<and> storage_inv (meHash M) (blob_of False c)"

lemma blobs_okI: "(\<And>b. storage_inv (meHash M) (blob_of b c)) \<Longrightarrow> blobs_ok M c"
  by (simp add: blobs_ok_def)

lemma blobs_okD: "blobs_ok M c \<Longrightarrow> storage_inv (meHash M) (blob_of b c)"
  by (cases b) (simp_all add: blobs_ok_def)

lemma blobs_ok_set [simp]:
  "blobs_ok M c \<Longrightarrow> storage_inv (meHash M) st \<Longrightarrow> blobs_ok M (set_blob b st c)"
  "blobs_ok M (set_disk b d c) = blobs_ok M c"
  "blobs_ok M (c\<lparr>mkLoginKeychainEmpty := x\<rparr>) = blobs_ok M c"
  by (simp_all add: blobs_ok_def) (simp add: blob_of_def)

lemma sync_keeps: "blobs_ok M c \<Longrightarrow> blobs_ok M (fst (syncStorageItem M c b))"
proof -
  assume c: "blobs_ok M c"
  obtain c1 saved e where q: "queryStorageItem M c b = (c1, saved, e)" by (cases "queryStorageItem M c b")
  then have c1: "blobs_ok M c1" using c by (auto simp: queryStorageItem_def Let_def split: if_splits)
  have "\<And>st. saved = Some st \<Longrightarrow> storage_inv (meHash M) st"
    using q by (auto simp: queryStorageItem_def Let_def initStorageWithJSON_inv split: if_splits)
  then show ?thesis
    using blobs_okD [OF c1, of b] c1
    by (auto simp: syncStorageItem_def q blob.merge_inv split: option.split)
qed

lemma store_and_save_keeps: "blobs_ok M c \<Longrightarrow> blobs_ok M (fst (store_and_save M c i k))"
proof -
  assume "blobs_ok M c"
  moreover obtain c1 e where s: "syncStorageItem M c (key_isShared k) = (c1, e)"
    by (cases "syncStorageItem M c (key_isShared k)")
  ultimately have "blobs_ok M c1" using sync_keeps [of M c "key_isShared k"] by simp
  then show ?thesis
    by (simp add: store_and_save_def Let_def s with_error_def saveStorageItem_def storeItem_inv blobs_okD)
qed

lemma removeAllMatching_keeps: "blobs_ok M c \<Longrightarrow> blobs_ok M (fst (removeAllMatchingTokens M c k b))"
proof -
  assume "blobs_ok M c"
  moreover obtain c1 e where s: "syncStorageItem M c b = (c1, e)" by (cases "syncStorageItem M c b")
  ultimately have "blobs_ok M c1" using sync_keeps [of M c b] by simp
  then show ?thesis
    by (simp add: removeAllMatchingTokens_def Let_def s with_error_def saveStorageItem_def removeStorageItem_def
        removeStored_inv blobs_okD)
qed

lemma removeTokens_keeps: "blobs_ok M c \<Longrightarrow> blobs_ok M (fst (mac_removeTokensWithKey M c k))"
proof -
  assume c: "blobs_ok M c"
  obtain c1 r e where s: "removeAllMatchingTokens M c k True = (c1, r, e)" by (cases "removeAllMatchingTokens M c k True")
  then have "blobs_ok M c1" using removeAllMatching_keeps [OF c, of k True] by simp
  then show ?thesis
    using c removeAllMatching_keeps [of M c1 k False] removeAllMatching_keeps [of M c k]
    by (auto simp: mac_removeTokensWithKey_def s with_error_def split: prod.split)
qed

lemma removeItems_keeps: "blobs_ok M c \<Longrightarrow> blobs_ok M (fst (removeItemsWithKey M c k))"
  by (simp add: removeItemsWithKey_def removeAllMatching_keeps)

lemma memory_then_sync_keeps: "blobs_ok M c \<Longrightarrow> blobs_ok M (fst (memory_then_sync M c k))"
  using sync_keeps [of M c "key_isShared k"] by (auto simp: memory_then_sync_def Let_def split: prod.split)

lemma getAllItems_keeps: "blobs_ok M c \<Longrightarrow> blobs_ok M (fst (getAllItemsWithKey M c k))"
proof -
  assume c: "blobs_ok M c"
  obtain c1 e where s: "syncStorageItem M c False = (c1, e)" by (cases "syncStorageItem M c False")
  then have "blobs_ok M c1" using sync_keeps [OF c, of False] by simp
  then show ?thesis
    using sync_keeps [of M c1 True] by (auto simp: getAllItemsWithKey_def s split: prod.split)
qed

lemma tokens_keeps: "blobs_ok M c \<Longrightarrow> blobs_ok M (fst (mac_tokensWithKey M c k))"
  using getAllItems_keeps [of M c k] sync_keeps [of M c "key_isShared k"]
  by (auto simp: mac_tokensWithKey_def Let_def split: prod.split)

lemma accounts_keeps: "blobs_ok M c \<Longrightarrow> blobs_ok M (fst (mac_accountsWithKey M c k))"
  using sync_keeps [of M c "key_isShared k"] by (auto simp: mac_accountsWithKey_def split: prod.split)

lemma state_of_answer [simp]: "fst (answered r) = fst r" "fst (only_one r) = fst r"
  by (simp_all add: answered_def only_one_def split: prod.split)

lemma appMetadata_keeps: "blobs_ok M c \<Longrightarrow> blobs_ok M (fst (mac_appMetadataEntriesWithKey M c k))"
  using memory_then_sync_keeps [of M c k] by (auto simp: mac_appMetadataEntriesWithKey_def split: prod.split)

lemma clear_keeps: "blobs_ok M c \<Longrightarrow> blobs_ok M (fst (mac_clear M c))"
  by (simp add: mac_clear_def Let_def blobs_ok_def blob_of_def initStorage_def)

interpretation mac_blobs: keeping_source "mac_data_source M" "blobs_ok M" for M
  by unfold_locales
    (simp_all add: mac_data_source_def mac_metadata_source_def tokens_keeps removeTokens_keeps store_and_save_keeps
      mac_saveToken_def mac_tokenWithKey_def mac_saveWipeInfo_def clear_keeps accounts_keeps mac_accountWithKey_def
      mac_saveAccount_def removeItems_keeps mac_saveAppMetadata_def appMetadata_keeps)


definition witness_requests :: "credential_request list" where
  "witness_requests = [SaveCredential witness_token, RemoveExpiredAccessTokens witness_query, GetAllItems, ClearCache]"


end
