(* ===== verification/AuthorityCache.thy ===== *)
theory AuthorityCache
  imports ErrorCodes
begin

text \<open>
  \<open>MSIDCache.m\<close> and \<open>validation/MSIDAadAuthorityCache.m\<close>: what instance discovery said about the
  hosts of a cloud. Every alias of a host maps to one record with the host to send requests to, the
  host to look tokens up under and the list of aliases. The metadata of a response is taken as a
  whole or not at all.
\<close>

section \<open>The thread-safe dictionary\<close>

text \<open>Every operation runs in one block of the queue of the cache and is atomic.\<close>

type_synonym ('k, 'v) msid_cache = "('k, 'v) dict"

definition cache_objectForKey :: "('k, 'v) msid_cache \<Rightarrow> 'k option \<Rightarrow> 'v option" where
  "cache_objectForKey c ko = Option.bind ko (dict_get c)"

definition cache_setObject ::
    "'v option \<Rightarrow> 'k option \<Rightarrow> ('k, 'v) msid_cache \<Rightarrow> objc_exception + ('k, 'v) msid_cache" where
  "cache_setObject vo ko c =
     (case ko of None \<Rightarrow> Inl NSInvalidArgumentException | Some k \<Rightarrow> Inr (dict_assign k vo c))"

definition copyAndRemoveObjectForKey ::
    "'k option \<Rightarrow> ('k, 'v) msid_cache \<Rightarrow> ('k, 'v) msid_cache \<times> 'v option" where
  "copyAndRemoveObjectForKey ko c =
     (case ko of None \<Rightarrow> (c, None) | Some k \<Rightarrow> (dict_del k c, dict_get c k))"

definition copyAndReplaceObjectForKey ::
    "'k option \<Rightarrow> 'v option \<Rightarrow> ('k, 'v) msid_cache \<Rightarrow> ('k, 'v) msid_cache \<times> 'v option" where
  "copyAndReplaceObjectForKey ko vo c =
     (case ko of None \<Rightarrow> (c, None) | Some k \<Rightarrow> (dict_assign k vo c, dict_get c k))"

definition cache_removeObjectForKey ::
    "'k option \<Rightarrow> ('k, 'v) msid_cache \<Rightarrow> objc_exception + ('k, 'v) msid_cache" where
  "cache_removeObjectForKey ko c =
     (case ko of None \<Rightarrow> Inl NSInvalidArgumentException | Some k \<Rightarrow> Inr (dict_del k c))"

definition cache_removeAllObjects :: "('k, 'v) msid_cache \<Rightarrow> ('k, 'v) msid_cache" where
  "cache_removeAllObjects c = []"

definition cache_toDictionary :: "('k, 'v) msid_cache \<Rightarrow> ('k, 'v) dict" where
  "cache_toDictionary c = c"

definition cache_count :: "('k, 'v) msid_cache \<Rightarrow> nat" where
  "cache_count c = length (dict_keys c)"

section \<open>Hosts and URLs\<close>

text \<open>
  A URL is its host, port and the rest; the scheme of an authority is https. \<open>readBack h\<close> is the
  \<open>host\<close> of an \<open>NSURLComponents\<close> after \<open>h\<close> was set as its \<open>percentEncodedHost\<close>: nothing for text
  that is not a host.
\<close>

record authority_url =
  auHost :: "string option"
  auPort :: "int option"
  auRest :: string

definition msidHostWithPortIfNecessary :: "authority_url \<Rightarrow> string option" where
  "msidHostWithPortIfNecessary u =
     (case auPort u of
        None \<Rightarrow> map_option lowercaseString (auHost u)
      | Some p \<Rightarrow> if p = 443 then map_option lowercaseString (auHost u)
                  else Some (fmt_obj (map_option lowercaseString (auHost u)) @ '':'' @ int_str p))"

text \<open>
  \<open>scanInt:\<close> then \<open>isAtEnd\<close> of a scanner, which skips white space: the number, if the text is one.
  A number out of the range of \<open>int\<close> is the nearest one in it.
\<close>

definition scanWholeInt :: "string \<Rightarrow> int option" where
  "scanWholeInt s =
     (case read_sign (dropWhile whitespaceAndNewline s) of
        (sg, t) \<Rightarrow>
          (if takeWhile is_digit t = [] \<or> \<not> list_all whitespaceAndNewline (dropWhile is_digit t) then None
           else Some (saturate (- (2 ^ 31)) (2 ^ 31 - 1) (sg * int (digits_val (takeWhile is_digit t))))))"

definition scanPort :: "string \<Rightarrow> int option" where
  "scanPort s = (case scanWholeInt s of None \<Rightarrow> None | Some p \<Rightarrow> if p < 1 then None else Some p)"

definition msidURLForHost ::
    "(string \<Rightarrow> string option) \<Rightarrow> authority_url \<Rightarrow> string option \<Rightarrow> string + authority_url" where
  "msidURLForHost readBack url preferredHost =
     (case preferredHost of
        None \<Rightarrow> Inr url
      | Some h \<Rightarrow>
          if msidHostWithPortIfNecessary url = Some h then Inr url
          else (let hostComponents = componentsSeparatedBy (CHR '':'') h;
                    host = readBack (hd hostComponents)
                in if msidIsStringNilOrBlank host then Inl ''Host is not valid.''
                   else if length hostComponents > 1 then
                     (case scanPort (hostComponents ! 1) of
                        None \<Rightarrow> Inl ''Failed to replace a host in url.''
                      | Some p \<Rightarrow> Inr (url\<lparr>auHost := host, auPort := Some p\<rparr>))
                   else Inr (url\<lparr>auHost := host, auPort := None\<rparr>)))"

text \<open>The function the cache itself uses: no check of the host, and a bad port raises.\<close>

datatype authority_exception = MSIDGenericException | RaisedInvalidArgument

definition urlForPreferredHost ::
    "(string \<Rightarrow> string option) \<Rightarrow> authority_url \<Rightarrow> string option \<Rightarrow> authority_exception + authority_url" where
  "urlForPreferredHost readBack url preferredHost =
     (case preferredHost of
        None \<Rightarrow> Inr url
      | Some h \<Rightarrow>
          if msidHostWithPortIfNecessary url = Some h then Inr url
          else (let hostComponents = componentsSeparatedBy (CHR '':'') h;
                    host = readBack (hd hostComponents)
                in if length hostComponents > 1 then
                     (case scanPort (hostComponents ! 1) of
                        None \<Rightarrow> Inl MSIDGenericException
                      | Some p \<Rightarrow> Inr (url\<lparr>auHost := host, auPort := Some p\<rparr>))
                   else Inr (url\<lparr>auHost := host, auPort := None\<rparr>)))"

section \<open>Records and the cache\<close>

record 'e authority_record =
  arOpenIdConfigurationEndpoint :: "string option"
  arValidated :: bool
  arError :: "'e option"

record 'e aad_record = "'e authority_record" +
  arNetworkHost :: "string option"
  arCacheHost :: "string option"
  arAliases :: "string list option"

record 'e aad_cache =
  acRecords :: "(string, 'e aad_record) msid_cache"
  acCloudEnvironments :: "string list option"

definition emptyAadCache :: "'e aad_cache" where
  "emptyAadCache = \<lparr>acRecords = [], acCloudEnvironments = None\<rparr>"

text \<open>An authority: its URL, and the environment \<open>MSIDAuthority\<close> read off the URL it was made with.\<close>

record aad_authority =
  aaURL :: authority_url
  aaEnvironment :: "string option"

definition newRecord :: "'e aad_record" where
  "newRecord = \<lparr>arOpenIdConfigurationEndpoint = None, arValidated = False, arError = None,
                arNetworkHost = None, arCacheHost = None, arAliases = None\<rparr>"

section \<open>Reading the metadata of a response\<close>

text \<open>The result is the message of the \<open>MSIDErrorServerInvalidResponse\<close> error, if there is one.\<close>

definition fakeURL :: authority_url where
  "fakeURL = \<lparr>auHost = Some ''fakeurl.contoso.com'', auPort = None, auRest = []\<rparr>"

definition VerifyHostString ::
    "(string \<Rightarrow> string option) \<Rightarrow> nsobj option \<Rightarrow> string \<Rightarrow> bool \<Rightarrow> string + string" where
  "VerifyHostString readBack host label isAliases =
     (case Option.bind host as_string of
        None \<Rightarrow> Inl (CHR 0x22 # label @ CHR 0x22 # '' in JSON authority validation metadata must be '' @
                     (if isAliases then ''an array of strings'' else ''a string''))
      | Some h \<Rightarrow> (case msidURLForHost readBack fakeURL (Some h) of Inl e \<Rightarrow> Inl e | Inr _ \<Rightarrow> Inr h))"

fun verify_aliases :: "(string \<Rightarrow> string option) \<Rightarrow> nsobj list \<Rightarrow> string + string list" where
  "verify_aliases readBack [] = Inr []"
| "verify_aliases readBack (a # as) =
     (case VerifyHostString readBack (Some a) ''aliases'' True of
        Inl e \<Rightarrow> Inl e
      | Inr h \<Rightarrow> (case verify_aliases readBack as of Inl e \<Rightarrow> Inl e | Inr hs \<Rightarrow> Inr (h # hs)))"

definition readEnvironment ::
    "(string \<Rightarrow> string option) \<Rightarrow> string option \<Rightarrow> nsobj \<Rightarrow> string + 'e aad_record" where
  "readEnvironment readBack endpoint environment =
     (case as_dict environment of
        None \<Rightarrow> Inl ''JSON metadata entry is not a dictionary''
      | Some d \<Rightarrow>
          (case VerifyHostString readBack (dict_get d ''preferred_network'') ''preferred_network'' False of
             Inl e \<Rightarrow> Inl e
           | Inr networkHost \<Rightarrow>
               (case VerifyHostString readBack (dict_get d ''preferred_cache'') ''preferred_cache'' False of
                  Inl e \<Rightarrow> Inl e
                | Inr cacheHost \<Rightarrow>
                    (case dict_get d ''aliases'' of
                       Some (NSArr as) \<Rightarrow>
                         (case verify_aliases readBack as of
                            Inl e \<Rightarrow> Inl e
                          | Inr aliases \<Rightarrow>
                              Inr (newRecord\<lparr>arValidated := True, arNetworkHost := Some networkHost,
                                             arCacheHost := Some cacheHost, arAliases := Some aliases,
                                             arOpenIdConfigurationEndpoint := endpoint\<rparr>))
                     | _ \<Rightarrow> Inl (CHR 0x22 # ''alias'' @ CHR 0x22 #
                                  '' in JSON authority validation metadata must be an array'')))))"

fun readEnvironments ::
    "(string \<Rightarrow> string option) \<Rightarrow> string option \<Rightarrow> nsobj list \<Rightarrow> string + 'e aad_record list" where
  "readEnvironments readBack endpoint [] = Inr []"
| "readEnvironments readBack endpoint (environment # rest) =
     (case readEnvironment readBack endpoint environment of
        Inl e \<Rightarrow> Inl e
      | Inr r \<Rightarrow> (case readEnvironments readBack endpoint rest of Inl e \<Rightarrow> Inl e | Inr rs \<Rightarrow> Inr (r # rs)))"

definition cloud_environments :: "'e aad_record list \<Rightarrow> string list" where
  "cloud_environments rs =
     remdups (filter (\<lambda>h. \<not> msidIsStringNilOrBlank (Some h)) (List.map_filter arNetworkHost rs))"

definition add_record :: "(string, 'e aad_record) msid_cache \<Rightarrow> 'e aad_record \<Rightarrow> (string, 'e aad_record) msid_cache" where
  "add_record c r = foldl (\<lambda>c alias. dict_put alias r c) c (case arAliases r of None \<Rightarrow> [] | Some as \<Rightarrow> as)"

definition processImpl ::
    "(string \<Rightarrow> string option) \<Rightarrow> nsobj option \<Rightarrow> string option \<Rightarrow> aad_authority \<Rightarrow> 'e aad_cache \<Rightarrow>
       authority_exception + ('e aad_cache \<times> bool \<times> string option)" where
  "processImpl readBack metadata endpoint authority c =
     (case (case metadata of None \<Rightarrow> Some [] | Some (NSArr es) \<Rightarrow> Some es | Some _ \<Rightarrow> None) of
        None \<Rightarrow> Inr (c, False, Some ''JSON metadata from authority validation is not an array'')
      | Some entries \<Rightarrow>
          (case readEnvironments readBack endpoint entries of
             Inl e \<Rightarrow> Inr (c, False, Some e)
           | Inr rs \<Rightarrow>
               (let c1 = foldl add_record (acRecords c) rs
                in case aaEnvironment authority of
                     None \<Rightarrow> Inl RaisedInvalidArgument
                   | Some environment \<Rightarrow>
                       Inr (c\<lparr>acCloudEnvironments := Some (cloud_environments rs),
                              acRecords :=
                                (if dict_get c1 environment = None
                                 then dict_put environment
                                        (newRecord\<lparr>arValidated := True, arCacheHost := Some environment,
                                                   arNetworkHost := Some environment\<rparr>) c1
                                 else c1)\<rparr>, True, None))))"

text \<open>
  \<open>processMetadata\<close> calls its completion once with the result; on the main thread it first hops to
  another queue.
\<close>

definition processMetadata ::
    "(string \<Rightarrow> string option) \<Rightarrow> nsobj option \<Rightarrow> string option \<Rightarrow> aad_authority \<Rightarrow> 'e aad_cache \<Rightarrow>
       authority_exception + ('e aad_cache \<times> (bool \<times> string option) list)" where
  "processMetadata readBack metadata endpoint authority c =
     map_sum id (\<lambda>(c', result, error). (c', [(result, error)])) (processImpl readBack metadata endpoint authority c)"

definition addInvalidRecord :: "aad_authority \<Rightarrow> 'e option \<Rightarrow> 'e aad_cache \<Rightarrow> authority_exception + 'e aad_cache" where
  "addInvalidRecord authority oauthError c =
     (case aaEnvironment authority of
        None \<Rightarrow> Inl RaisedInvalidArgument
      | Some environment \<Rightarrow>
          Inr (c\<lparr>acRecords := dict_put environment (newRecord\<lparr>arValidated := False, arError := oauthError\<rparr>) (acRecords c)\<rparr>))"

section \<open>Answers\<close>

definition recordFor :: "'e aad_cache \<Rightarrow> string option \<Rightarrow> 'e aad_record option" where
  "recordFor c environment = cache_objectForKey (acRecords c) environment"

definition networkUrlForAuthority ::
    "(string \<Rightarrow> string option) \<Rightarrow> 'e aad_cache \<Rightarrow> aad_authority \<Rightarrow> authority_exception + authority_url" where
  "networkUrlForAuthority readBack c authority =
     (case recordFor c (aaEnvironment authority) of
        None \<Rightarrow> Inr (aaURL authority)
      | Some r \<Rightarrow> urlForPreferredHost readBack (aaURL authority) (arNetworkHost r))"

definition cacheUrlForAuthority ::
    "(string \<Rightarrow> string option) \<Rightarrow> 'e aad_cache \<Rightarrow> aad_authority \<Rightarrow> authority_exception + authority_url" where
  "cacheUrlForAuthority readBack c authority =
     (case recordFor c (aaEnvironment authority) of
        None \<Rightarrow> Inr (aaURL authority)
      | Some r \<Rightarrow> urlForPreferredHost readBack (aaURL authority) (arCacheHost r))"

definition cacheEnvironmentForEnvironment :: "'e aad_cache \<Rightarrow> string option \<Rightarrow> string option" where
  "cacheEnvironmentForEnvironment c environment =
     (case recordFor c environment of
        None \<Rightarrow> environment
      | Some r \<Rightarrow> (case arCacheHost r of None \<Rightarrow> environment | Some h \<Rightarrow> Some h))"

text \<open>The list stops at the first host that raises.\<close>

fun urlsForHosts ::
    "(string \<Rightarrow> string option) \<Rightarrow> authority_url \<Rightarrow> string list \<Rightarrow> authority_exception + authority_url list" where
  "urlsForHosts readBack url [] = Inr []"
| "urlsForHosts readBack url (h # hs) =
     (case urlForPreferredHost readBack url (Some h) of
        Inl e \<Rightarrow> Inl e
      | Inr u \<Rightarrow> (case urlsForHosts readBack url hs of Inl e \<Rightarrow> Inl e | Inr us \<Rightarrow> Inr (u # us)))"

definition cacheAliasesForAuthority ::
    "(string \<Rightarrow> string option) \<Rightarrow> 'e aad_cache \<Rightarrow> aad_authority option \<Rightarrow> authority_exception + authority_url list" where
  "cacheAliasesForAuthority readBack c ao =
     (case ao of
        None \<Rightarrow> Inr []
      | Some authority \<Rightarrow>
          (case recordFor c (msidHostWithPortIfNecessary (aaURL authority)) of
             None \<Rightarrow> Inr [aaURL authority]
           | Some r \<Rightarrow>
               (let environment = aaEnvironment authority;
                    first = (case arCacheHost r of
                               None \<Rightarrow> Inr [aaURL authority]
                             | Some h \<Rightarrow>
                                 (case urlForPreferredHost readBack (aaURL authority) (Some h) of
                                    Inl e \<Rightarrow> Inl e
                                  | Inr u \<Rightarrow> Inr (u # (if Some h \<noteq> environment then [aaURL authority] else []))));
                    others = filter (\<lambda>alias. Some alias \<noteq> environment \<and> Some alias \<noteq> arCacheHost r)
                               (case arAliases r of None \<Rightarrow> [] | Some as \<Rightarrow> as)
                in case first of
                     Inl e \<Rightarrow> Inl e
                   | Inr us \<Rightarrow>
                       (case urlsForHosts readBack (aaURL authority) others of
                          Inl e \<Rightarrow> Inl e
                        | Inr vs \<Rightarrow> Inr (us @ vs)))))"

text \<open>The code compares an alias with the environment twice and never with the preferred host.\<close>

definition cacheAliasesForEnvironment :: "'e aad_cache \<Rightarrow> string option \<Rightarrow> string list" where
  "cacheAliasesForEnvironment c eo =
     (case eo of
        None \<Rightarrow> []
      | Some environment \<Rightarrow>
          (case recordFor c eo of
             None \<Rightarrow> [environment]
           | Some r \<Rightarrow>
               (case arCacheHost r of
                  None \<Rightarrow> [environment]
                | Some h \<Rightarrow> h # (if h \<noteq> environment then [environment] else [])) @
               filter (\<lambda>alias. \<not> (alias = environment \<or> alias = environment))
                 (case arAliases r of None \<Rightarrow> [] | Some as \<Rightarrow> as)))"

section \<open>Hosts that never raise\<close>

definition port_ok :: "string \<Rightarrow> bool" where
  "port_ok h \<longleftrightarrow> (let hostComponents = componentsSeparatedBy (CHR '':'') h
                  in length hostComponents > 1 \<longrightarrow> scanPort (hostComponents ! 1) \<noteq> None)"

definition record_hosts :: "'e aad_record \<Rightarrow> string set" where
  "record_hosts r = set_option (arNetworkHost r) \<union> set_option (arCacheHost r) \<union>
     (case arAliases r of None \<Rightarrow> {} | Some as \<Rightarrow> set as)"

definition aad_inv :: "'e aad_cache \<Rightarrow> bool" where
  "aad_inv c \<longleftrightarrow> (\<forall>k r. dict_get (acRecords c) k = Some r \<longrightarrow> (\<forall>h \<in> record_hosts r. port_ok h \<or> h = k))"

definition authority_ok :: "aad_authority \<Rightarrow> bool" where
  "authority_ok a \<longleftrightarrow> auHost (aaURL a) \<noteq> None \<and> aaEnvironment a = msidHostWithPortIfNecessary (aaURL a)"

lemma authority_okE:
  assumes "authority_ok a"
  obtains k where "aaEnvironment a = Some k" "msidHostWithPortIfNecessary (aaURL a) = Some k"
  using assms by (auto simp: authority_ok_def msidHostWithPortIfNecessary_def split: option.splits if_splits)

lemma preferred_port_ok: "port_ok h \<Longrightarrow> \<exists>u'. urlForPreferredHost rb u (Some h) = Inr u'"
  by (auto simp: urlForPreferredHost_def port_ok_def Let_def split: option.split)

lemma preferred_own: "msidHostWithPortIfNecessary u = Some h \<Longrightarrow> urlForPreferredHost rb u (Some h) = Inr u"
  by (simp add: urlForPreferredHost_def)

lemma verified_port_ok:
  assumes "VerifyHostString rb v label al = Inr h"
  shows "v = Some (NSStr h) \<and> port_ok h"
proof -
  have fake: "port_ok ''fakeurl.contoso.com''" by code_simp
  obtain s where s: "v = Some (NSStr s)" "h = s" "\<exists>u. msidURLForHost rb fakeURL (Some s) = Inr u"
    using assms by (cases v) (auto simp: VerifyHostString_def split: option.splits sum.splits)
  have "port_ok s"
  proof (cases "msidHostWithPortIfNecessary fakeURL = Some s")
    case True
    moreover have "msidHostWithPortIfNecessary fakeURL = Some ''fakeurl.contoso.com''" by code_simp
    ultimately show ?thesis using fake by simp
  next
    case False
    with s(3) show ?thesis by (auto simp: msidURLForHost_def port_ok_def Let_def split: if_splits option.splits)
  qed
  with s show ?thesis by simp
qed

lemma verify_aliases_ok: "verify_aliases rb as = Inr hs \<Longrightarrow> as = map NSStr hs \<and> (\<forall>h\<in>set hs. port_ok h)"
  by (induction as arbitrary: hs) (auto split: sum.splits dest!: verified_port_ok)

definition entry_reads :: "nsobj \<Rightarrow> 'e aad_record \<Rightarrow> bool" where
  "entry_reads v r \<longleftrightarrow> (\<exists>d n h as. v = NSDict d \<and> dict_get d ''preferred_network'' = Some (NSStr n) \<and>
     dict_get d ''preferred_cache'' = Some (NSStr h) \<and> dict_get d ''aliases'' = Some (NSArr (map NSStr as)) \<and>
     arNetworkHost r = Some n \<and> arCacheHost r = Some h \<and> arAliases r = Some as)"

lemma readEnvironment_ok:
  assumes "readEnvironment rb ep v = Inr r"
  shows "entry_reads v r \<and> (\<forall>h\<in>record_hosts r. port_ok h)"
proof -
  obtain d where d: "v = NSDict d" using assms by (cases v) (auto simp: readEnvironment_def)
  obtain n where n: "VerifyHostString rb (dict_get d ''preferred_network'') ''preferred_network'' False = Inr n"
    using assms d by (auto simp: readEnvironment_def split: sum.splits)
  obtain h where h: "VerifyHostString rb (dict_get d ''preferred_cache'') ''preferred_cache'' False = Inr h"
    using assms d n by (auto simp: readEnvironment_def split: sum.splits)
  obtain as where as: "dict_get d ''aliases'' = Some (NSArr as)"
    using assms d n h by (auto simp: readEnvironment_def split: option.splits nsobj.splits)
  obtain hs where hs: "verify_aliases rb as = Inr hs"
    using assms d n h as by (auto simp: readEnvironment_def split: sum.splits)
  have "r = newRecord\<lparr>arValidated := True, arNetworkHost := Some n, arCacheHost := Some h,
                      arAliases := Some hs, arOpenIdConfigurationEndpoint := ep\<rparr>"
    using assms d n h as hs by (simp add: readEnvironment_def)
  with d as verified_port_ok [OF n] verified_port_ok [OF h] verify_aliases_ok [OF hs]
  show ?thesis by (auto simp: entry_reads_def record_hosts_def)
qed

lemma readEnvironments_ok:
  "readEnvironments rb ep es = Inr rs \<Longrightarrow>
   list_all2 entry_reads es rs \<and> (\<forall>r\<in>set rs. \<forall>h\<in>record_hosts r. port_ok h)"
  by (induction es arbitrary: rs) (auto split: sum.splits dest!: readEnvironment_ok)

lemma add_record_get:
  "dict_get (add_record c r) k =
     (if k \<in> (case arAliases r of None \<Rightarrow> {} | Some as \<Rightarrow> set as) then Some r else dict_get c k)"
proof -
  have "dict_get (foldl (\<lambda>c alias. dict_put alias r c) c as) k = (if k \<in> set as then Some r else dict_get c k)" for as
    by (induction as arbitrary: c) auto
  then show ?thesis by (simp add: add_record_def split: option.split)
qed

lemma add_records_get:
  "dict_get (foldl add_record c rs) k = Some r \<Longrightarrow> r \<in> set rs \<or> dict_get c k = Some r"
  by (induction rs arbitrary: c) (fastforce simp: add_record_get split: if_splits)+

lemma processImpl_cases:
  assumes "processImpl rb m ep a c = Inr (c', ok, e)"
  obtains "c' = c" "\<not> ok" "e \<noteq> None"
  | rs k where "ok" "e = None" "aaEnvironment a = Some k"
      "readEnvironments rb ep (case m of Some (NSArr es) \<Rightarrow> es | _ \<Rightarrow> []) = Inr rs"
      "acRecords c' = (let c1 = foldl add_record (acRecords c) rs in
         if dict_get c1 k = None then dict_put k (newRecord\<lparr>arValidated := True, arCacheHost := Some k,
                                                          arNetworkHost := Some k\<rparr>) c1 else c1)"
  using assms unfolding processImpl_def Let_def
  by (fastforce split: option.splits nsobj.splits sum.splits if_splits)

lemma processImpl_inv:
  assumes "aad_inv c" "processImpl rb m ep a c = Inr (c', ok, e)"
  shows "aad_inv c'"
  using assms(2)
proof (cases rule: processImpl_cases)
  case 1
  with assms show ?thesis by simp
next
  case (2 rs k)
  have all: "port_ok h \<or> h = k'" if "dict_get (foldl add_record (acRecords c) rs) k' = Some r" "h \<in> record_hosts r" for k' r h
    using add_records_get [OF that(1)] that(2) assms(1) readEnvironments_ok [OF 2(4)] by (auto simp: aad_inv_def)
  have "port_ok h \<or> h = k'" if "dict_get (acRecords c') k' = Some r" "h \<in> record_hosts r" for k' r h
    using that all unfolding 2(5) Let_def
    by (auto simp: record_hosts_def newRecord_def split: if_splits)
  then show ?thesis by (auto simp: aad_inv_def)
qed

lemma invalid_hosts: "record_hosts (newRecord\<lparr>arValidated := False, arError := e\<rparr>) = {}"
  by (simp add: record_hosts_def newRecord_def)

lemma addInvalidRecord_inv:
  assumes "aad_inv c" "addInvalidRecord a e c = Inr c'"
  shows "aad_inv c'"
proof -
  obtain k where c': "acRecords c' = dict_put k (newRecord\<lparr>arValidated := False, arError := e\<rparr>) (acRecords c)"
    using assms(2) by (auto simp: addInvalidRecord_def split: option.splits)
  have "port_ok h \<or> h = k'" if "dict_get (acRecords c') k' = Some r" "h \<in> record_hosts r" for k' r h
    using that assms(1) invalid_hosts by (auto simp: c' aad_inv_def split: if_splits)
  then show ?thesis by (auto simp: aad_inv_def)
qed

inductive aad_reachable :: "(string \<Rightarrow> string option) \<Rightarrow> 'e aad_cache \<Rightarrow> bool" for rb where
  start: "aad_reachable rb emptyAadCache"
| metadata: "aad_reachable rb c \<Longrightarrow> processMetadata rb m ep a c = Inr (c', calls) \<Longrightarrow> aad_reachable rb c'"
| invalid: "aad_reachable rb c \<Longrightarrow> addInvalidRecord a e c = Inr c' \<Longrightarrow> aad_reachable rb c'"

lemma aad_reachable_inv: "aad_reachable rb c \<Longrightarrow> aad_inv c"
proof (induction rule: aad_reachable.induct)
  case start
  show ?case by (simp add: aad_inv_def emptyAadCache_def)
next
  case (metadata c m ep a c' calls)
  then obtain ok e where "processImpl rb m ep a c = Inr (c', ok, e)"
    by (cases "processImpl rb m ep a c") (auto simp: processMetadata_def)
  with metadata processImpl_inv show ?case by blast
next
  case (invalid c a e c')
  with addInvalidRecord_inv show ?case by blast
qed

lemma urlsForHosts_ok: "\<forall>h\<in>set hs. \<exists>u'. urlForPreferredHost rb u (Some h) = Inr u' \<Longrightarrow> \<exists>us. urlsForHosts rb u hs = Inr us \<and> length us = length hs"
  by (induction hs) fastforce+

lemma inv_preferred:
  assumes "aad_inv c" "authority_ok a" "recordFor c (aaEnvironment a) = Some r" "h \<in> record_hosts r"
  shows "\<exists>u. urlForPreferredHost rb (aaURL a) (Some h) = Inr u"
proof -
  obtain k where k: "aaEnvironment a = Some k" "msidHostWithPortIfNecessary (aaURL a) = Some k"
    using assms(2) by (rule authority_okE)
  have "dict_get (acRecords c) k = Some r" using assms(3) k by (simp add: recordFor_def cache_objectForKey_def)
  then have "port_ok h \<or> h = k" using assms(1,4) by (auto simp: aad_inv_def)
  then show ?thesis using preferred_port_ok preferred_own [OF k(2)] by blast
qed

section \<open>Properties\<close>

text \<open>
  C37: whatever metadata the cache was given, asking it never raises: every authority gets a URL to
  send requests to, a URL to look tokens up under, and a list of URLs for the lookup that starts with
  the latter and contains the URL of the authority itself.
\<close>

theorem reachable_hosts_never_raise:
  assumes "aad_reachable rb c" "authority_ok a"
  shows "\<exists>n v us. networkUrlForAuthority rb c a = Inr n \<and> cacheUrlForAuthority rb c a = Inr v \<and>
    cacheAliasesForAuthority rb c (Some a) = Inr us \<and> hd us = v \<and> aaURL a \<in> set us"
proof -
  have inv: "aad_inv c" using assms(1) by (rule aad_reachable_inv)
  obtain k where k: "aaEnvironment a = Some k" "msidHostWithPortIfNecessary (aaURL a) = Some k"
    using assms(2) by (rule authority_okE)
  show ?thesis
  proof (cases "recordFor c (Some k)")
    case None
    with k show ?thesis by (simp add: networkUrlForAuthority_def cacheUrlForAuthority_def cacheAliasesForAuthority_def)
  next
    case (Some r)
    note ok = inv_preferred [OF inv assms(2), of r, unfolded k(1), OF Some]
    have net: "\<exists>n. urlForPreferredHost rb (aaURL a) (arNetworkHost r) = Inr n"
      using ok by (cases "arNetworkHost r") (auto simp: urlForPreferredHost_def record_hosts_def)
    obtain v where v: "urlForPreferredHost rb (aaURL a) (arCacheHost r) = Inr v"
      using ok by (cases "arCacheHost r") (auto simp: urlForPreferredHost_def record_hosts_def)
    let ?others = "filter (\<lambda>alias. Some alias \<noteq> Some k \<and> Some alias \<noteq> arCacheHost r)
                     (case arAliases r of None \<Rightarrow> [] | Some as \<Rightarrow> as)"
    have "\<forall>h\<in>set ?others. \<exists>u. urlForPreferredHost rb (aaURL a) (Some h) = Inr u"
      using ok by (cases "arAliases r") (auto simp: record_hosts_def)
    then obtain vs where vs: "urlsForHosts rb (aaURL a) ?others = Inr vs" using urlsForHosts_ok by blast
    show ?thesis
    proof (cases "arCacheHost r")
      case None
      with v have "v = aaURL a" by (simp add: urlForPreferredHost_def)
      with None net v vs k Some show ?thesis
        by (auto simp: networkUrlForAuthority_def cacheUrlForAuthority_def cacheAliasesForAuthority_def Let_def)
    next
      case h: (Some h)
      with v k have "h = k \<Longrightarrow> v = aaURL a" by (simp add: urlForPreferredHost_def)
      with h net v vs k Some show ?thesis
        by (auto simp: networkUrlForAuthority_def cacheUrlForAuthority_def cacheAliasesForAuthority_def Let_def)
    qed
  qed
qed

definition sample_authority :: aad_authority where
  "sample_authority = \<lparr>aaURL = \<lparr>auHost = Some ''Login.windows.net'', auPort = None, auRest = ''/common''\<rparr>,
                       aaEnvironment = Some ''login.windows.net''\<rparr>"

definition sample_metadata :: nsobj where
  "sample_metadata = NSArr [NSDict [(''preferred_network'', NSStr ''login.b.com''), (''preferred_cache'', NSStr ''a.net''),
     (''aliases'', NSArr [NSStr ''a.net'', NSStr ''login.windows.net'', NSStr ''c.net:8080''])]]"

lemma reachable_hosts_never_raise_witness:
  "\<exists>c :: nat aad_cache. aad_reachable Some c \<and> authority_ok sample_authority \<and>
     recordFor c (aaEnvironment sample_authority) \<noteq> None \<and>
     (\<exists>us. cacheAliasesForAuthority Some c (Some sample_authority) = Inr us \<and> aaURL sample_authority \<in> set us)"
proof -
  have a: "authority_ok sample_authority" by code_simp
  have run: "(case processMetadata Some (Some sample_metadata) None sample_authority (emptyAadCache :: nat aad_cache) of
          Inl _ \<Rightarrow> False | Inr (c, calls) \<Rightarrow> calls = [(True, None)] \<and> recordFor c (aaEnvironment sample_authority) \<noteq> None)"
    by code_simp
  then obtain c :: "nat aad_cache" where c: "processMetadata Some (Some sample_metadata) None sample_authority emptyAadCache = Inr (c, [(True, None)])"
    "recordFor c (aaEnvironment sample_authority) \<noteq> None"
    by (cases "processMetadata Some (Some sample_metadata) None sample_authority (emptyAadCache :: nat aad_cache)") auto
  have "aad_reachable Some c" by (rule aad_reachable.metadata [OF aad_reachable.start c(1)])
  with reachable_hosts_never_raise [OF this a] a c(2) show ?thesis by blast
qed



text \<open>
  A lookup by environment tries the preferred host first and every alias, but tries the preferred
  host twice: the loop over the aliases skips the environment only. The lookup by authority, which
  skips both, has one URL per alias.
\<close>

theorem environment_lookup_repeats_preferred_host:
  assumes "aad_reachable rb c" "authority_ok a" "aaEnvironment a = Some k"
    and "recordFor c (Some k) = Some r" "arCacheHost r = Some h" "arAliases r = Some as"
    and "h \<noteq> k" "h \<in> set as" "k \<in> set as" "distinct as"
  shows "hd (cacheAliasesForEnvironment c (Some k)) = h \<and>
    set (cacheAliasesForEnvironment c (Some k)) = set as \<and>
    count_list (cacheAliasesForEnvironment c (Some k)) h = 2 \<and>
    length (cacheAliasesForEnvironment c (Some k)) = Suc (length as) \<and>
    (\<exists>us. cacheAliasesForAuthority rb c (Some a) = Inr us \<and> length us = length as)"
proof -
  have k: "msidHostWithPortIfNecessary (aaURL a) = Some k"
    using assms(2,3) by (auto simp: authority_ok_def)
  have env: "cacheAliasesForEnvironment c (Some k) = h # k # filter (\<lambda>x. x \<noteq> k) as"
    using assms by (simp add: cacheAliasesForEnvironment_def)
  have len: "length (filter (\<lambda>x. x \<noteq> y) bs) = (if y \<in> set bs then length bs - 1 else length bs)" if "distinct bs" for y and bs :: "string list"
  proof -
    have "set (filter (\<lambda>x. x \<noteq> y) bs) = set bs - {y}" by auto
    with that show ?thesis
      by (metis card_Diff_singleton card_Diff_singleton_if distinct_card distinct_filter)
  qed
  have one: "count_list (filter (\<lambda>x. x \<noteq> k) as) h = 1"
    using assms(7,8,10) by (induction as) auto
  note ok = inv_preferred [OF aad_reachable_inv [OF assms(1)] assms(2), unfolded assms(3), OF assms(4)]
  let ?others = "filter (\<lambda>alias. alias \<noteq> k \<and> alias \<noteq> h) as"
  have split: "?others = filter (\<lambda>x. x \<noteq> h) (filter (\<lambda>x. x \<noteq> k) as)" by (simp add: conj_commute)
  have "length ?others = length as - 2"
    unfolding split by (subst len) (use assms(7-10) len in auto)
  moreover have "2 \<le> length as"
    using assms(7-9) by (cases as; cases "tl as") auto
  moreover obtain u where "urlForPreferredHost rb (aaURL a) (Some h) = Inr u"
    using ok [of h] assms(5) by (auto simp: record_hosts_def)
  moreover obtain us where "urlsForHosts rb (aaURL a) ?others = Inr us" "length us = length ?others"
    using urlsForHosts_ok [of ?others rb "aaURL a"] ok assms(6) by (auto simp: record_hosts_def)
  ultimately have "\<exists>us. cacheAliasesForAuthority rb c (Some a) = Inr us \<and> length us = length as"
    using assms(3-7) k by (simp add: cacheAliasesForAuthority_def Let_def)
  moreover have "length (filter (\<lambda>x. x \<noteq> k) as) = length as - 1" using len assms(9,10) by simp
  ultimately show ?thesis unfolding env using one assms(7-9) \<open>2 \<le> length as\<close> by auto
qed

lemma environment_lookup_repeats_preferred_host_witness:
  "\<exists>c :: nat aad_cache. aad_reachable Some c \<and>
     count_list (cacheAliasesForEnvironment c (Some ''login.windows.net'')) ''a.net'' = 2"
proof -
  have "(case processMetadata Some (Some sample_metadata) None sample_authority (emptyAadCache :: nat aad_cache) of
          Inl _ \<Rightarrow> False
        | Inr (c, _) \<Rightarrow> (case recordFor c (Some ''login.windows.net'') of None \<Rightarrow> False
            | Some r \<Rightarrow> arCacheHost r = Some ''a.net'' \<and> arAliases r = Some [''a.net'', ''login.windows.net'', ''c.net:8080'']))"
    by code_simp
  then obtain c :: "nat aad_cache" and calls r where c:
    "processMetadata Some (Some sample_metadata) None sample_authority emptyAadCache = Inr (c, calls)"
    "recordFor c (Some ''login.windows.net'') = Some r" "arCacheHost r = Some ''a.net''"
    "arAliases r = Some [''a.net'', ''login.windows.net'', ''c.net:8080'']"
    by (cases "processMetadata Some (Some sample_metadata) None sample_authority (emptyAadCache :: nat aad_cache)")
       (auto split: option.splits)
  have r: "aad_reachable Some c" by (rule aad_reachable.metadata [OF aad_reachable.start c(1)])
  moreover have "authority_ok sample_authority" "aaEnvironment sample_authority = Some ''login.windows.net''" by code_simp+
  ultimately have "count_list (cacheAliasesForEnvironment c (Some ''login.windows.net'')) ''a.net'' = 2"
    using environment_lookup_repeats_preferred_host [OF r _ _ c(2-4)] by simp
  with r show ?thesis by blast
qed

end
