(* ===== verification/RequestTelemetry.thy ===== *)
theory RequestTelemetry
  imports ErrorCodes ScopeSets
begin

text \<open>
  \<open>telemetry/request_telemetry/\<close>: the telemetry headers of a token request. The current request sends
  its api id; the last-request telemetry collects the errors of failed requests, sends as many of the
  newest as fit the header, and keeps the others, on disk as well, for the next request.
\<close>

section \<open>Constants and the telemetry of the current request\<close>

definition HTTP_REQUEST_TELEMETRY_SCHEMA_VERSION :: int where
  "HTTP_REQUEST_TELEMETRY_SCHEMA_VERSION = 4"

definition request_telemetry_names :: "(string \<times> string) list" where
  "request_telemetry_names =
     [(''MSID_CURRENT_TELEMETRY_HEADER_NAME'', ''x-client-current-telemetry''),
      (''MSID_LAST_TELEMETRY_HEADER_NAME'', ''x-client-last-telemetry''),
      (''MSID_WPJ_V2_TELEMETRY_KEY'', ''wpj-v2''),
      (''MSID_WPJ_V1_TELEMETRY_KEY'', ''wpj-v1'')]"

datatype token_cache_refresh_type =
    TokenCacheRefreshTypeNoCacheLookupInvolved
  | TokenCacheRefreshTypeForceRefresh
  | TokenCacheRefreshTypeNoCachedAT
  | TokenCacheRefreshTypeExpiredAT
  | TokenCacheRefreshTypeProactiveTokenRefresh
  | TokenCacheRefreshTypeCachingMechanismNotImplemented

fun refresh_index :: "token_cache_refresh_type \<Rightarrow> int" where
  "refresh_index TokenCacheRefreshTypeNoCacheLookupInvolved = 0"
| "refresh_index TokenCacheRefreshTypeForceRefresh = 1"
| "refresh_index TokenCacheRefreshTypeNoCachedAT = 2"
| "refresh_index TokenCacheRefreshTypeExpiredAT = 3"
| "refresh_index TokenCacheRefreshTypeProactiveTokenRefresh = 4"
| "refresh_index TokenCacheRefreshTypeCachingMechanismNotImplemented = 5"

record current_telemetry =
  ctSchemaVersion :: int
  ctApiId :: int
  ctTokenCacheRefreshType :: token_cache_refresh_type
  ctPlatformFields :: "string list option"

definition initCurrentTelemetry :: "int \<Rightarrow> token_cache_refresh_type \<Rightarrow> string list option \<Rightarrow> current_telemetry" where
  "initCurrentTelemetry appId refreshType platformFields =
     \<lparr>ctSchemaVersion = HTTP_REQUEST_TELEMETRY_SCHEMA_VERSION, ctApiId = appId,
      ctTokenCacheRefreshType = refreshType, ctPlatformFields = platformFields\<rparr>"

definition serializeFields :: "string list option \<Rightarrow> string" where
  "serializeFields fso = (case fso of None \<Rightarrow> [] | Some fs \<Rightarrow> componentsJoined '','' fs)"

record current_item =
  siSchemaVersion :: int
  siDefaultFields :: "string list option"
  siPlatformFields :: "string list option"

definition currentItem :: "current_telemetry \<Rightarrow> current_item" where
  "currentItem t =
     \<lparr>siSchemaVersion = ctSchemaVersion t,
      siDefaultFields = Some [int_str (ctApiId t), int_str (refresh_index (ctTokenCacheRefreshType t))],
      siPlatformFields = ctPlatformFields t\<rparr>"

text \<open>The size limit of the class, 100 until it is changed; a text over it is not sent at all.\<close>

definition currentSizeLimit :: nat where
  "currentSizeLimit = 100"

definition current_serialize :: "nat \<Rightarrow> 'a current_item_scheme \<Rightarrow> string option" where
  "current_serialize limit i =
     (let telemetryString = int_str (siSchemaVersion i) @ ''|'' @ serializeFields (siDefaultFields i) @ ''|'' @
                            serializeFields (siPlatformFields i)
      in if length telemetryString > limit then None else Some telemetryString)"

definition current_telemetryString :: "nat \<Rightarrow> current_telemetry \<Rightarrow> string option" where
  "current_telemetryString limit t = current_serialize limit (currentItem t)"

section \<open>Errors of earlier requests and their text\<close>

record error_info =
  reApiId :: int
  reCorrelationId :: "string option"
  reError :: "string option"

record last_item = current_item +
  siErrorsInfo :: "error_info list option"
  siUnserializedErrors :: "error_info list option"

definition lastSizeLimit :: nat where
  "lastSizeLimit = 350"

definition failedRequest :: "error_info \<Rightarrow> string" where
  "failedRequest e = int_str (reApiId e) @ '','' @ str_or_empty (reCorrelationId e)"

definition errorMessage :: "error_info \<Rightarrow> string" where
  "errorMessage e = str_or_empty (reError e)"

definition addRemainingErrorsToUnserializedTelemetry :: "error_info list \<Rightarrow> last_item \<Rightarrow> last_item" where
  "addRemainingErrorsToUnserializedTelemetry errors i =
     i\<lparr>siUnserializedErrors := Some ((case siUnserializedErrors i of None \<Rightarrow> [] | Some us \<Rightarrow> us) @ errors)\<rparr>"

text \<open>
  The loop runs from the newest error to the oldest; the list here is the newest first, and \<open>rev\<close>
  gives back the errors from index 0 to the current one.
\<close>

fun fill_errors ::
    "nat \<Rightarrow> nat \<Rightarrow> error_info list \<Rightarrow> string \<Rightarrow> string \<Rightarrow> last_item \<Rightarrow> string \<times> last_item" where
  "fill_errors limit startLength [] failedRequests messages i = (failedRequests @ ''|'' @ messages, i)"
| "fill_errors limit startLength (e # older) failedRequests messages i =
     (let newFailedRequests = failedRequest e @ '','' @ failedRequests;
          newMessages = errorMessage e @ '','' @ messages
      in if length newFailedRequests + length newMessages + startLength < limit
         then fill_errors limit startLength older newFailedRequests newMessages i
         else (failedRequests @ ''|'' @ messages, addRemainingErrorsToUnserializedTelemetry (rev (e # older)) i))"

definition serializeErrorsInfo :: "nat \<Rightarrow> nat \<Rightarrow> last_item \<Rightarrow> string \<times> last_item" where
  "serializeErrorsInfo limit startLength i =
     (case rev (case siErrorsInfo i of None \<Rightarrow> [] | Some es \<Rightarrow> es) of
        [] \<Rightarrow> (''|'', i)
      | newest # older \<Rightarrow>
          (if length (failedRequest newest) + length (errorMessage newest) + startLength < limit
           then fill_errors limit startLength older (failedRequest newest) (errorMessage newest) i
           else (''|'', addRemainingErrorsToUnserializedTelemetry (rev (newest # older)) i)))"

definition last_prefix :: "last_item \<Rightarrow> string" where
  "last_prefix i = int_str (siSchemaVersion i) @ ''|'' @ serializeFields (siDefaultFields i) @ ''|''"

definition last_serialize :: "nat \<Rightarrow> last_item \<Rightarrow> string \<times> last_item" where
  "last_serialize limit i =
     (case serializeErrorsInfo limit (length (last_prefix i)) i of
        (errors, i') \<Rightarrow> (last_prefix i @ errors @ ''|'' @ serializeFields (siPlatformFields i), i'))"

section \<open>Archives\<close>

text \<open>
  An api id is archived as a \<open>float\<close>, which has 24 significant bits; a larger number is rounded to
  the nearest one that has, ties to even.
\<close>

fun bit_length :: "nat \<Rightarrow> nat" where
  "bit_length n = (if n = 0 then 0 else Suc (bit_length (n div 2)))"

declare bit_length.simps [simp del]

definition round_magnitude :: "nat \<Rightarrow> nat" where
  "round_magnitude n =
     (let k = bit_length n - 24; q = n div 2 ^ k; r = n mod 2 ^ k
      in (if 2 * r > 2 ^ k \<or> (2 * r = 2 ^ k \<and> odd q) then q + 1 else q) * 2 ^ k)"

definition as_float :: "int \<Rightarrow> int" where
  "as_float n = (if n < 0 then - int (round_magnitude (nat (- n))) else int (round_magnitude (nat n)))"

record telemetry_archive =
  taSchemaVersion :: int
  taSilentSuccessfulCount :: int
  taErrorsInfo :: "error_info list option"

text \<open>What is in the file: nothing, bytes that are not an archive, or an archive.\<close>

datatype telemetry_file = NoFile | NotAnArchive | Archive telemetry_archive

definition encodeErrorInfo :: "error_info \<Rightarrow> error_info" where
  "encodeErrorInfo e = e\<lparr>reApiId := as_float (reApiId e)\<rparr>"

text \<open>An archived error without a correlation id is read as nil.\<close>

definition decodeErrorInfo :: "error_info \<Rightarrow> error_info option" where
  "decodeErrorInfo e = (if msidIsStringNilOrBlank (reCorrelationId e) then None else Some e)"

section \<open>The telemetry of the last request\<close>

record last_telemetry =
  ltSchemaVersion :: int
  ltSilentSuccessfulCount :: int
  ltErrorsInfo :: "error_info list option"
  ltPlatformFields :: "string list"
  ltSerializedItem :: "last_item option"

definition initInternal :: last_telemetry where
  "initInternal = \<lparr>ltSchemaVersion = HTTP_REQUEST_TELEMETRY_SCHEMA_VERSION, ltSilentSuccessfulCount = 0,
                   ltErrorsInfo = None, ltPlatformFields = [], ltSerializedItem = None\<rparr>"

text \<open>
  \<open>withNils\<close> is what the unarchiver makes of an array some of whose elements were read as nil.
\<close>

definition decodeTelemetry ::
    "(error_info option list \<Rightarrow> error_info list option) \<Rightarrow> telemetry_archive \<Rightarrow> last_telemetry" where
  "decodeTelemetry withNils a =
     (if taSchemaVersion a = HTTP_REQUEST_TELEMETRY_SCHEMA_VERSION then
        initInternal\<lparr>ltSilentSuccessfulCount := taSilentSuccessfulCount a,
          ltErrorsInfo := Option.bind (taErrorsInfo a)
             (\<lambda>es. if \<forall>e\<in>set es. decodeErrorInfo e \<noteq> None then Some es else withNils (map decodeErrorInfo es))\<rparr>
      else initInternal)"

definition initFromDisk ::
    "(error_info option list \<Rightarrow> error_info list option) \<Rightarrow> telemetry_file \<Rightarrow> last_telemetry" where
  "initFromDisk withNils f =
     (case f of NoFile \<Rightarrow> initInternal | NotAnArchive \<Rightarrow> initInternal | Archive a \<Rightarrow> decodeTelemetry withNils a)"

definition encodeTelemetry :: "last_telemetry \<Rightarrow> telemetry_archive" where
  "encodeTelemetry t = \<lparr>taSchemaVersion = ltSchemaVersion t, taSilentSuccessfulCount = ltSilentSuccessfulCount t,
                        taErrorsInfo = map_option (map encodeErrorInfo) (ltErrorsInfo t)\<rparr>"

definition maxErrorCountToArchive :: nat where
  "maxErrorCountToArchive = 75"

text \<open>The state is the shared instance and the file. Saving first drops the oldest errors over the limit.\<close>

type_synonym telemetry_state = "last_telemetry \<times> telemetry_file"

definition saveTelemetryToDisk :: "nat \<Rightarrow> last_telemetry \<Rightarrow> telemetry_state" where
  "saveTelemetryToDisk maxErrors t =
     (let t' = t\<lparr>ltErrorsInfo := map_option (\<lambda>es. drop (length es - maxErrors) es) (ltErrorsInfo t)\<rparr>
      in (t', Archive (encodeTelemetry t')))"

definition addErrorInfo :: "nat \<Rightarrow> error_info \<Rightarrow> telemetry_state \<Rightarrow> telemetry_state" where
  "addErrorInfo maxErrors e s =
     (let t = fst s; es = (case ltErrorsInfo t of None \<Rightarrow> [] | Some es \<Rightarrow> es)
      in saveTelemetryToDisk maxErrors (t\<lparr>ltErrorsInfo := Some (es @ [e])\<rparr>))"

definition resetTelemetry :: "nat \<Rightarrow> telemetry_state \<Rightarrow> telemetry_state" where
  "resetTelemetry maxErrors s =
     (let t = (fst s)\<lparr>ltSilentSuccessfulCount := 0\<rparr>
      in saveTelemetryToDisk maxErrors
           (case Option.bind (ltSerializedItem t) siUnserializedErrors of
              Some us \<Rightarrow> t\<lparr>ltErrorsInfo := Some us, ltPlatformFields := ltPlatformFields t @ [''1'']\<rparr>
            | None \<Rightarrow> t\<lparr>ltErrorsInfo := None\<rparr>))"

definition updateWithApiId ::
    "nat \<Rightarrow> int \<Rightarrow> string option \<Rightarrow> string option \<Rightarrow> telemetry_state \<Rightarrow> telemetry_state" where
  "updateWithApiId maxErrors apiId errorString correlationId s =
     (case errorString of
        Some err \<Rightarrow> addErrorInfo maxErrors \<lparr>reApiId = apiId, reCorrelationId = correlationId, reError = Some err\<rparr> s
      | None \<Rightarrow> resetTelemetry maxErrors s)"

definition increaseSilentSuccessfulCount :: "nat \<Rightarrow> telemetry_state \<Rightarrow> telemetry_state" where
  "increaseSilentSuccessfulCount maxErrors s =
     saveTelemetryToDisk maxErrors ((fst s)\<lparr>ltSilentSuccessfulCount := ltSilentSuccessfulCount (fst s) + 1\<rparr>)"

definition lastItem :: "last_telemetry \<Rightarrow> last_item" where
  "lastItem t = \<lparr>siSchemaVersion = ltSchemaVersion t, siDefaultFields = Some [int_str (ltSilentSuccessfulCount t)],
                 siPlatformFields = Some (ltPlatformFields t), siErrorsInfo = ltErrorsInfo t,
                 siUnserializedErrors = None\<rparr>"

definition telemetryString :: "nat \<Rightarrow> telemetry_state \<Rightarrow> string \<times> telemetry_state" where
  "telemetryString limit s =
     (case last_serialize limit (lastItem (fst s)) of
        (text, i) \<Rightarrow> (text, (fst s)\<lparr>ltSerializedItem := Some i\<rparr>, snd s))"

definition errorsInfo_copy :: "telemetry_state \<Rightarrow> error_info list" where
  "errorsInfo_copy s = (case ltErrorsInfo (fst s) of None \<Rightarrow> [] | Some es \<Rightarrow> es)"

text \<open>Every call runs one block of the serial queue of the shared instance.\<close>

datatype telemetry_call =
    RecordError int string "string option"
  | RecordSuccess
  | SilentSuccess
  | AskString

fun telemetry_step :: "nat \<Rightarrow> nat \<Rightarrow> telemetry_call \<Rightarrow> telemetry_state \<Rightarrow> telemetry_state" where
  "telemetry_step limit maxErrors (RecordError apiId err correlationId) s =
     updateWithApiId maxErrors apiId (Some err) correlationId s"
| "telemetry_step limit maxErrors RecordSuccess s = updateWithApiId maxErrors 0 None None s"
| "telemetry_step limit maxErrors SilentSuccess s = increaseSilentSuccessfulCount maxErrors s"
| "telemetry_step limit maxErrors AskString s = snd (telemetryString limit s)"

definition telemetry_start :: "(error_info option list \<Rightarrow> error_info list option) \<Rightarrow> telemetry_file \<Rightarrow> telemetry_state" where
  "telemetry_start withNils f = (initFromDisk withNils f, f)"

section \<open>What a header holds\<close>

definition joined_requests :: "error_info list \<Rightarrow> string" where
  "joined_requests es = componentsJoined '','' (map failedRequest es)"

definition joined_messages :: "error_info list \<Rightarrow> string" where
  "joined_messages es = componentsJoined '','' (map errorMessage es)"

definition fits :: "nat \<Rightarrow> nat \<Rightarrow> error_info list \<Rightarrow> bool" where
  "fits limit startLength es \<longleftrightarrow> length (joined_requests es) + length (joined_messages es) + startLength < limit"

lemma joined_Cons:
  "es \<noteq> [] \<Longrightarrow> joined_requests (e # es) = failedRequest e @ '','' @ joined_requests es"
  "es \<noteq> [] \<Longrightarrow> joined_messages (e # es) = errorMessage e @ '','' @ joined_messages es"
  by (cases es; simp add: joined_requests_def joined_messages_def)+

lemma joined_single [simp]:
  "joined_requests [e] = failedRequest e" "joined_messages [e] = errorMessage e"
  "joined_requests [] = []" "joined_messages [] = []"
  by (simp_all add: joined_requests_def joined_messages_def)

lemma fill_errors_split:
  assumes "sent \<noteq> []" "fits limit start sent" "siUnserializedErrors i = None"
  shows "\<exists>unsent more. rev older = unsent @ more \<and> fits limit start (more @ sent) \<and>
    (unsent \<noteq> [] \<longrightarrow> \<not> fits limit start (last unsent # more @ sent)) \<and>
    fill_errors limit start older (joined_requests sent) (joined_messages sent) i =
      (joined_requests (more @ sent) @ ''|'' @ joined_messages (more @ sent),
       i\<lparr>siUnserializedErrors := if unsent = [] then None else Some unsent\<rparr>)"
  using assms(1,2)
proof (induction older arbitrary: sent)
  case Nil
  then show ?case using assms(3) by simp
next
  case (Cons e older)
  have step: "fill_errors limit start (e # older) (joined_requests sent) (joined_messages sent) i =
    (if fits limit start (e # sent)
     then fill_errors limit start older (joined_requests (e # sent)) (joined_messages (e # sent)) i
     else (joined_requests sent @ ''|'' @ joined_messages sent, addRemainingErrorsToUnserializedTelemetry (rev (e # older)) i))"
    by (simp add: Let_def joined_Cons [OF Cons.prems(1)] fits_def)
  show ?case
  proof (cases "fits limit start (e # sent)")
    case True
    from Cons.IH [OF _ True] obtain unsent more where
      "rev older = unsent @ more" "fits limit start (more @ e # sent)"
      "unsent \<noteq> [] \<longrightarrow> \<not> fits limit start (last unsent # more @ e # sent)"
      "fill_errors limit start older (joined_requests (e # sent)) (joined_messages (e # sent)) i =
        (joined_requests (more @ e # sent) @ ''|'' @ joined_messages (more @ e # sent),
         i\<lparr>siUnserializedErrors := if unsent = [] then None else Some unsent\<rparr>)" by auto
    with step True show ?thesis
      by (intro exI [of _ unsent] exI [of _ "more @ [e]"]) simp
  next
    case False
    with step Cons.prems assms(3) show ?thesis
      by (intro exI [of _ "rev older @ [e]"] exI [of _ "[]"]) (simp add: addRemainingErrorsToUnserializedTelemetry_def)
  qed
qed

lemma serializeErrors_split:
  assumes "siUnserializedErrors i = None"
  shows "\<exists>unsent sent. (case siErrorsInfo i of None \<Rightarrow> [] | Some es \<Rightarrow> es) = unsent @ sent \<and>
    (sent \<noteq> [] \<longrightarrow> fits limit start sent) \<and> (unsent \<noteq> [] \<longrightarrow> \<not> fits limit start (last unsent # sent)) \<and>
    serializeErrorsInfo limit start i =
      (joined_requests sent @ ''|'' @ joined_messages sent,
       i\<lparr>siUnserializedErrors := if unsent = [] then None else Some unsent\<rparr>)"
proof (cases "rev (case siErrorsInfo i of None \<Rightarrow> [] | Some es \<Rightarrow> es)")
  case Nil
  then show ?thesis using assms
    by (intro exI [of _ "[]"]) (simp add: serializeErrorsInfo_def)
next
  case (Cons newest older)
  then have es: "(case siErrorsInfo i of None \<Rightarrow> [] | Some es \<Rightarrow> es) = rev older @ [newest]"
    by (metis rev.simps(2) rev_swap)
  have run: "serializeErrorsInfo limit start i =
    (if fits limit start [newest] then fill_errors limit start older (joined_requests [newest]) (joined_messages [newest]) i
     else (''|'', addRemainingErrorsToUnserializedTelemetry (rev (newest # older)) i))"
    using Cons by (simp add: serializeErrorsInfo_def fits_def)
  show ?thesis
  proof (cases "fits limit start [newest]")
    case True
    from fill_errors_split [OF _ True assms, of older] obtain unsent more where
      f: "rev older = unsent @ more" "fits limit start (more @ [newest])"
      "unsent \<noteq> [] \<longrightarrow> \<not> fits limit start (last unsent # more @ [newest])"
      "fill_errors limit start older (joined_requests [newest]) (joined_messages [newest]) i =
        (joined_requests (more @ [newest]) @ ''|'' @ joined_messages (more @ [newest]),
         i\<lparr>siUnserializedErrors := if unsent = [] then None else Some unsent\<rparr>)" by blast
    have "serializeErrorsInfo limit start i =
        (joined_requests (more @ [newest]) @ ''|'' @ joined_messages (more @ [newest]),
         i\<lparr>siUnserializedErrors := if unsent = [] then None else Some unsent\<rparr>)"
      unfolding run using True f(4) by simp
    moreover have "(case siErrorsInfo i of None \<Rightarrow> [] | Some es \<Rightarrow> es) = unsent @ more @ [newest]"
      unfolding es f(1) by simp
    ultimately show ?thesis using f(2,3) by blast
  next
    case False
    with run es assms show ?thesis
      by (intro exI [of _ "rev older @ [newest]"] exI [of _ "[]"])
         (simp add: addRemainingErrorsToUnserializedTelemetry_def)
  qed
qed

definition header_prefix :: "last_telemetry \<Rightarrow> string" where
  "header_prefix t = int_str (ltSchemaVersion t) @ ''|'' @ int_str (ltSilentSuccessfulCount t) @ ''|''"

lemma telemetryString_split:
  "\<exists>unsent sent. errorsInfo_copy s = unsent @ sent \<and>
    (sent \<noteq> [] \<longrightarrow> fits limit (length (header_prefix (fst s))) sent) \<and>
    (unsent \<noteq> [] \<longrightarrow> \<not> fits limit (length (header_prefix (fst s))) (last unsent # sent)) \<and>
    telemetryString limit s =
      (header_prefix (fst s) @ joined_requests sent @ ''|'' @ joined_messages sent @ ''|'' @
         serializeFields (Some (ltPlatformFields (fst s))),
       (fst s)\<lparr>ltSerializedItem := Some ((lastItem (fst s))\<lparr>siUnserializedErrors := if unsent = [] then None else Some unsent\<rparr>)\<rparr>,
       snd s)"
proof -
  have i: "siUnserializedErrors (lastItem (fst s)) = None" "siErrorsInfo (lastItem (fst s)) = ltErrorsInfo (fst s)"
    "siPlatformFields (lastItem (fst s)) = Some (ltPlatformFields (fst s))"
    "last_prefix (lastItem (fst s)) = header_prefix (fst s)"
    by (simp_all add: lastItem_def last_prefix_def header_prefix_def serializeFields_def)
  from serializeErrors_split [OF i(1), of limit "length (header_prefix (fst s))"]
  obtain unsent sent where
    "(case ltErrorsInfo (fst s) of None \<Rightarrow> [] | Some es \<Rightarrow> es) = unsent @ sent"
    "sent \<noteq> [] \<longrightarrow> fits limit (length (header_prefix (fst s))) sent"
    "unsent \<noteq> [] \<longrightarrow> \<not> fits limit (length (header_prefix (fst s))) (last unsent # sent)"
    "serializeErrorsInfo limit (length (header_prefix (fst s))) (lastItem (fst s)) =
      (joined_requests sent @ ''|'' @ joined_messages sent,
       (lastItem (fst s))\<lparr>siUnserializedErrors := if unsent = [] then None else Some unsent\<rparr>)"
    unfolding i by blast
  then show ?thesis
    by (intro exI [of _ unsent] exI [of _ sent])
       (simp add: telemetryString_def last_serialize_def i errorsInfo_copy_def del: append_assoc)
qed

lemma reset_keeps_unserialized:
  "errorsInfo_copy (resetTelemetry m s) =
     (case Option.bind (ltSerializedItem (fst s)) siUnserializedErrors of
        None \<Rightarrow> [] | Some us \<Rightarrow> drop (length us - m) us)"
  by (simp add: resetTelemetry_def saveTelemetryToDisk_def errorsInfo_copy_def Let_def split: option.split)

text \<open>The item built for the last header is only replaced by the next header.\<close>

lemma item_kept: "c \<noteq> AskString \<Longrightarrow> ltSerializedItem (fst (telemetry_step l m c s)) = ltSerializedItem (fst s)"
  by (cases c) (simp_all add: updateWithApiId_def addErrorInfo_def resetTelemetry_def increaseSilentSuccessfulCount_def
    saveTelemetryToDisk_def Let_def split: option.split)

lemma items_kept: "AskString \<notin> set cs \<Longrightarrow> ltSerializedItem (fst (fold (telemetry_step l m) cs s)) = ltSerializedItem (fst s)"
  by (induction cs arbitrary: s) (auto simp: item_kept)

section \<open>Archived numbers\<close>

lemma bit_length_le: "n < 2 ^ k \<Longrightarrow> bit_length n \<le> k"
proof (induction k arbitrary: n)
  case 0
  then show ?case by (simp add: bit_length.simps)
next
  case (Suc k)
  then have "n div 2 < 2 ^ k" by auto
  with Suc.IH show ?case by (subst bit_length.simps) simp
qed

lemma as_float_small: "\<bar>n\<bar> < 2 ^ 24 \<Longrightarrow> as_float n = n"
proof -
  have round: "round_magnitude m = m" if "m < 2 ^ 24" for m
    using bit_length_le [OF that] by (simp add: round_magnitude_def Let_def)
  assume "\<bar>n\<bar> < 2 ^ 24"
  then have "n < 2 ^ 24 \<and> - n < 2 ^ 24" by (simp only: abs_less_iff)
  then have "nat n < 2 ^ 24 \<and> nat (- n) < 2 ^ 24" by auto
  with round show ?thesis by (auto simp: as_float_def)
qed

section \<open>Cycles of a header and a success\<close>

definition send_cycle :: "nat \<Rightarrow> nat \<Rightarrow> telemetry_state \<Rightarrow> telemetry_state" where
  "send_cycle limit m s = telemetry_step limit m RecordSuccess (telemetry_step limit m AskString s)"

definition fits_alone :: "nat \<Rightarrow> last_telemetry \<Rightarrow> error_info \<Rightarrow> bool" where
  "fits_alone limit t e \<longleftrightarrow> fits limit (length (header_prefix t)) [e]"

lemma int_str_nonempty: "int_str n \<noteq> []"
proof -
  have "nat_str k \<noteq> []" for k by (subst nat_str.simps) simp
  then show ?thesis by (simp add: int_str_def)
qed

lemma header_shrinks:
  "length (header_prefix (t\<lparr>ltSilentSuccessfulCount := 0\<rparr>)) \<le> length (header_prefix t)"
proof -
  have "length (int_str 0) = 1" by code_simp
  moreover have "1 \<le> length (int_str (ltSilentSuccessfulCount t))" using int_str_nonempty by (simp add: Suc_le_eq)
  ultimately show ?thesis by (simp add: header_prefix_def)
qed

lemma reset_header:
  "header_prefix (fst (resetTelemetry m s)) = header_prefix ((fst s)\<lparr>ltSilentSuccessfulCount := 0\<rparr>)"
  by (simp add: resetTelemetry_def saveTelemetryToDisk_def header_prefix_def Let_def split: option.split)

lemma cycle_shrinks:
  assumes "\<forall>e\<in>set (errorsInfo_copy s). fits_alone limit (fst s) e"
  shows "\<exists>unsent. errorsInfo_copy (send_cycle limit m s) = drop (length unsent - m) unsent \<and>
    (length unsent < length (errorsInfo_copy s) \<or> errorsInfo_copy s = []) \<and>
    set unsent \<subseteq> set (errorsInfo_copy s) \<and>
    (\<forall>e\<in>set (errorsInfo_copy s). fits_alone limit (fst (send_cycle limit m s)) e)"
proof -
  obtain unsent sent where s: "errorsInfo_copy s = unsent @ sent"
    "unsent \<noteq> [] \<longrightarrow> \<not> fits limit (length (header_prefix (fst s))) (last unsent # sent)"
    "snd (telemetryString limit s) =
       ((fst s)\<lparr>ltSerializedItem := Some ((lastItem (fst s))\<lparr>siUnserializedErrors := if unsent = [] then None else Some unsent\<rparr>)\<rparr>, snd s)"
    using telemetryString_split [of s limit] by (metis snd_conv)
  have cyc: "send_cycle limit m s = resetTelemetry m (snd (telemetryString limit s))"
    by (simp add: send_cycle_def updateWithApiId_def)
  have "errorsInfo_copy (send_cycle limit m s) = drop (length unsent - m) unsent"
    unfolding cyc reset_keeps_unserialized s(3) by simp
  moreover have "sent \<noteq> [] \<or> unsent = []"
  proof (rule ccontr)
    assume "\<not> (sent \<noteq> [] \<or> unsent = [])"
    then have "last unsent \<in> set (errorsInfo_copy s)" "sent = []" "unsent \<noteq> []" using s(1) by auto
    with assms s(2) show False by (simp add: fits_alone_def)
  qed
  moreover have "length (header_prefix (fst (send_cycle limit m s))) \<le> length (header_prefix (fst s))"
    unfolding cyc reset_header s(3) using header_shrinks [of "fst s"] by (simp add: header_prefix_def)
  then have "\<forall>e\<in>set (errorsInfo_copy s). fits_alone limit (fst (send_cycle limit m s)) e"
    using assms by (fastforce simp: fits_alone_def fits_def)
  ultimately show ?thesis using s(1) by auto
qed

lemma cycles_drain:
  assumes "\<forall>e\<in>set (errorsInfo_copy s). fits_alone limit (fst s) e" "length (errorsInfo_copy s) \<le> n"
  shows "errorsInfo_copy ((send_cycle limit m ^^ n) s) = []"
  using assms
proof (induction n arbitrary: s)
  case 0
  then show ?case by simp
next
  case (Suc n)
  obtain unsent where u: "errorsInfo_copy (send_cycle limit m s) = drop (length unsent - m) unsent"
    "length unsent < length (errorsInfo_copy s) \<or> errorsInfo_copy s = []" "set unsent \<subseteq> set (errorsInfo_copy s)"
    "\<forall>e\<in>set (errorsInfo_copy s). fits_alone limit (fst (send_cycle limit m s)) e"
    using cycle_shrinks [OF Suc.prems(1)] by blast
  have sub: "set (errorsInfo_copy (send_cycle limit m s)) \<subseteq> set (errorsInfo_copy s)"
    using u(1,3) set_drop_subset by fastforce
  have "errorsInfo_copy ((send_cycle limit m ^^ n) (send_cycle limit m s)) = []"
  proof (rule Suc.IH)
    show "\<forall>e\<in>set (errorsInfo_copy (send_cycle limit m s)). fits_alone limit (fst (send_cycle limit m s)) e"
      using sub u(4) by blast
    show "length (errorsInfo_copy (send_cycle limit m s)) \<le> n"
      using u(1-3) Suc.prems(2) by auto
  qed
  then show ?case by (simp add: funpow_Suc_right del: funpow.simps)
qed

section \<open>The file\<close>

lemma archive_trimmed:
  "snd (saveTelemetryToDisk m t) = Archive (encodeTelemetry (fst (saveTelemetryToDisk m t))) \<and>
   length (errorsInfo_copy (saveTelemetryToDisk m t)) \<le> m"
  by (simp add: saveTelemetryToDisk_def errorsInfo_copy_def Let_def) (cases "ltErrorsInfo t"; simp; linarith)

definition on_disk :: "nat \<Rightarrow> telemetry_state \<Rightarrow> bool" where
  "on_disk m s \<longleftrightarrow> length (errorsInfo_copy s) \<le> m \<and> ltSchemaVersion (fst s) = HTTP_REQUEST_TELEMETRY_SCHEMA_VERSION \<and>
     (snd s = Archive (encodeTelemetry (fst s)) \<or>
      snd s = NoFile \<and> ltSilentSuccessfulCount (fst s) = 0 \<and> ltErrorsInfo (fst s) = None)"

lemma save_schema [simp]: "ltSchemaVersion (fst (saveTelemetryToDisk m t)) = ltSchemaVersion t"
  by (simp add: saveTelemetryToDisk_def Let_def)

lemma on_disk_save: "ltSchemaVersion t = HTTP_REQUEST_TELEMETRY_SCHEMA_VERSION \<Longrightarrow> on_disk m (saveTelemetryToDisk m t)"
  using archive_trimmed by (simp add: on_disk_def)

lemma on_disk_step: "on_disk m s \<Longrightarrow> on_disk m (telemetry_step l m c s)"
proof (cases c)
  case (RecordError a e i)
  assume "on_disk m s"
  then have v: "ltSchemaVersion (fst s) = HTTP_REQUEST_TELEMETRY_SCHEMA_VERSION" by (simp add: on_disk_def)
  show ?thesis unfolding RecordError telemetry_step.simps updateWithApiId_def addErrorInfo_def Let_def option.case
    by (rule on_disk_save) (simp add: v)
next
  case RecordSuccess
  assume "on_disk m s"
  then have v: "ltSchemaVersion (fst s) = HTTP_REQUEST_TELEMETRY_SCHEMA_VERSION" by (simp add: on_disk_def)
  show ?thesis unfolding RecordSuccess telemetry_step.simps updateWithApiId_def resetTelemetry_def Let_def option.case
    by (rule on_disk_save) (simp add: v split: option.split)
next
  case SilentSuccess
  assume "on_disk m s"
  then have v: "ltSchemaVersion (fst s) = HTTP_REQUEST_TELEMETRY_SCHEMA_VERSION" by (simp add: on_disk_def)
  show ?thesis unfolding SilentSuccess telemetry_step.simps increaseSilentSuccessfulCount_def
    by (rule on_disk_save) (simp add: v)
next
  case AskString
  assume s: "on_disk m s"
  obtain i where i: "snd (telemetryString l s) = ((fst s)\<lparr>ltSerializedItem := Some i\<rparr>, snd s)"
    using telemetryString_split [of s l] by (metis snd_conv)
  show ?thesis unfolding AskString telemetry_step.simps i
    using s by (auto simp: on_disk_def errorsInfo_copy_def encodeTelemetry_def)
qed

lemma on_disk_run: "on_disk m s \<Longrightarrow> on_disk m (fold (telemetry_step l m) cs s)"
  by (induction cs arbitrary: s) (simp_all add: on_disk_step)

lemma on_disk_start: "on_disk m (telemetry_start w NoFile)"
  by (simp add: on_disk_def telemetry_start_def initFromDisk_def initInternal_def errorsInfo_copy_def)

definition archivable :: "error_info \<Rightarrow> bool" where
  "archivable e \<longleftrightarrow> \<bar>reApiId e\<bar> < 2 ^ 24 \<and> \<not> msidIsStringNilOrBlank (reCorrelationId e)"

lemma encode_archivable: "archivable e \<Longrightarrow> encodeErrorInfo e = e \<and> decodeErrorInfo e = Some e"
  by (simp add: archivable_def encodeErrorInfo_def decodeErrorInfo_def as_float_small)

lemma decode_encoded:
  assumes "ltSchemaVersion t = HTTP_REQUEST_TELEMETRY_SCHEMA_VERSION"
    and "\<forall>e\<in>set (case ltErrorsInfo t of None \<Rightarrow> [] | Some es \<Rightarrow> es). archivable e"
  shows "decodeTelemetry w (encodeTelemetry t) =
    initInternal\<lparr>ltSilentSuccessfulCount := ltSilentSuccessfulCount t, ltErrorsInfo := ltErrorsInfo t\<rparr>"
proof (cases "ltErrorsInfo t")
  case None
  with assms show ?thesis by (simp add: decodeTelemetry_def encodeTelemetry_def)
next
  case (Some es)
  then have "map encodeErrorInfo es = es" "\<forall>e\<in>set es. decodeErrorInfo e \<noteq> None"
    using assms(2) encode_archivable by (auto simp: map_idI)
  with Some assms(1) show ?thesis by (simp add: decodeTelemetry_def encodeTelemetry_def)
qed

section \<open>Properties\<close>

text \<open>
  A header carries the newest errors, as many as fit the size limit, in the order they happened;
  the next success forgets exactly those and keeps the older ones (up to the limit of the archive).
  Separators and the platform fields come on top of the limit.
\<close>

theorem header_sends_the_newest_that_fit:
  "\<exists>unsent sent. errorsInfo_copy s = unsent @ sent \<and>
    (sent \<noteq> [] \<longrightarrow> fits limit (length (header_prefix (fst s))) sent) \<and>
    (unsent \<noteq> [] \<longrightarrow> \<not> fits limit (length (header_prefix (fst s))) (last unsent # sent)) \<and>
    fst (telemetryString limit s) = header_prefix (fst s) @ joined_requests sent @ ''|'' @ joined_messages sent @ ''|'' @
      serializeFields (Some (ltPlatformFields (fst s))) \<and>
    length (fst (telemetryString limit s)) \<le>
      max limit (length (header_prefix (fst s))) + 2 + length (serializeFields (Some (ltPlatformFields (fst s)))) \<and>
    errorsInfo_copy (updateWithApiId m a None c (snd (telemetryString limit s))) = drop (length unsent - m) unsent"
proof -
  obtain unsent sent where s: "errorsInfo_copy s = unsent @ sent"
    "sent \<noteq> [] \<longrightarrow> fits limit (length (header_prefix (fst s))) sent"
    "unsent \<noteq> [] \<longrightarrow> \<not> fits limit (length (header_prefix (fst s))) (last unsent # sent)"
    "telemetryString limit s =
      (header_prefix (fst s) @ joined_requests sent @ ''|'' @ joined_messages sent @ ''|'' @
         serializeFields (Some (ltPlatformFields (fst s))),
       (fst s)\<lparr>ltSerializedItem := Some ((lastItem (fst s))\<lparr>siUnserializedErrors := if unsent = [] then None else Some unsent\<rparr>)\<rparr>,
       snd s)"
    using telemetryString_split [of s limit] by blast
  have "errorsInfo_copy (updateWithApiId m a None c (snd (telemetryString limit s))) = drop (length unsent - m) unsent"
    by (simp add: updateWithApiId_def reset_keeps_unserialized s(4))
  moreover have "length (fst (telemetryString limit s)) \<le>
      max limit (length (header_prefix (fst s))) + 2 + length (serializeFields (Some (ltPlatformFields (fst s))))"
    using s(2) by (cases "sent = []") (auto simp: s(4) fits_def)
  ultimately show ?thesis using s by (intro exI [of _ unsent] exI [of _ sent]) simp
qed

definition sample_error :: "int \<Rightarrow> string \<Rightarrow> error_info" where
  "sample_error a msg = \<lparr>reApiId = a, reCorrelationId = Some ''id'', reError = Some msg\<rparr>"

definition sample_telemetry :: telemetry_state where
  "sample_telemetry = fold (telemetry_step 30 75)
     [RecordError 1 ''first'' (Some ''id''), RecordError 2 ''second'' (Some ''id''), SilentSuccess, RecordError 3 ''x'' (Some ''id'')]
     (telemetry_start (\<lambda>_. None) NoFile)"

lemma header_sends_the_newest_that_fit_witness:
  "fst (telemetryString 30 sample_telemetry) = ''4|1|2,id,3,id|second,x|'' \<and>
   errorsInfo_copy (updateWithApiId 75 0 None None (snd (telemetryString 30 sample_telemetry))) = [sample_error 1 ''first'']"
proof -
  have header: "fst (telemetryString 30 sample_telemetry) = ''4|1|2,id,3,id|second,x|''" by code_simp
  have es: "errorsInfo_copy sample_telemetry = [sample_error 1 ''first'', sample_error 2 ''second'', sample_error 3 ''x'']" by code_simp
  have fit: "length (header_prefix (fst sample_telemetry)) = 4" by code_simp
  have b: "fits 30 4 [sample_error 2 ''second'', sample_error 3 ''x'']"
      "\<not> fits 30 4 [sample_error 1 ''first'', sample_error 2 ''second'', sample_error 3 ''x'']" by code_simp+
  from header_sends_the_newest_that_fit [of sample_telemetry 30 75 0 None, unfolded fit es]
  obtain unsent sent where u: "[sample_error 1 ''first'', sample_error 2 ''second'', sample_error 3 ''x''] = unsent @ sent"
    "sent \<noteq> [] \<longrightarrow> fits 30 4 sent" "unsent \<noteq> [] \<longrightarrow> \<not> fits 30 4 (last unsent # sent)"
    "errorsInfo_copy (updateWithApiId 75 0 None None (snd (telemetryString 30 sample_telemetry))) = drop (length unsent - 75) unsent"
    by blast
  have c: "fits 30 4 [sample_error 3 ''x'']" by code_simp
  have "unsent = [sample_error 1 ''first'']"
    using u(1-3) b c by (auto simp: Cons_eq_append_conv split: if_splits)
  with header u(4) show ?thesis by simp
qed

text \<open>
  What a success leaves behind is decided by the last header alone. Whatever was recorded after it
  is lost with the success, and unsent errors come back with every success until the next header.
\<close>

theorem success_forgets_later_errors:
  assumes "AskString \<notin> set calls"
  shows "errorsInfo_copy (telemetry_step limit m RecordSuccess (fold (telemetry_step limit m) calls s)) =
         errorsInfo_copy (telemetry_step limit m RecordSuccess s)"
  using items_kept [OF assms, of limit m s] by (simp add: updateWithApiId_def reset_keeps_unserialized)

lemma success_forgets_later_errors_witness:
  "errorsInfo_copy (telemetry_step 350 75 RecordSuccess (fold (telemetry_step 350 75) [RecordError 7 ''lost'' (Some ''id'')]
     (snd (telemetryString 350 sample_telemetry)))) = []"
proof -
  have "errorsInfo_copy (telemetry_step 350 75 RecordSuccess (snd (telemetryString 350 sample_telemetry))) = []" by code_simp
  with success_forgets_later_errors [of "[RecordError 7 ''lost'' (Some ''id'')]" 350 75 "snd (telemetryString 350 sample_telemetry)"]
  show ?thesis by simp
qed

text \<open>
  The telemetry survives a restart: after any calls the file holds the shared instance, with at
  most as many errors as may be archived, and reading it gives back the errors and the count, if the
  errors have correlation ids and api ids that a float can hold.
\<close>

theorem telemetry_survives_restart:
  assumes "s = fold (telemetry_step limit m) calls (telemetry_start w NoFile)"
    and "\<forall>e\<in>set (errorsInfo_copy s). archivable e"
  shows "length (errorsInfo_copy s) \<le> m \<and>
    errorsInfo_copy (telemetry_start w (snd s)) = errorsInfo_copy s \<and>
    ltSilentSuccessfulCount (fst (telemetry_start w (snd s))) = ltSilentSuccessfulCount (fst s)"
proof -
  have d: "on_disk m s" unfolding assms(1) by (rule on_disk_run) (rule on_disk_start)
  then have v: "ltSchemaVersion (fst s) = HTTP_REQUEST_TELEMETRY_SCHEMA_VERSION" by (simp add: on_disk_def)
  show ?thesis
  proof (cases "snd s = NoFile")
    case True
    with d show ?thesis
      by (simp add: on_disk_def telemetry_start_def initFromDisk_def initInternal_def errorsInfo_copy_def)
  next
    case False
    with d have f: "snd s = Archive (encodeTelemetry (fst s))" by (auto simp: on_disk_def)
    have "initFromDisk w (snd s) =
        initInternal\<lparr>ltSilentSuccessfulCount := ltSilentSuccessfulCount (fst s), ltErrorsInfo := ltErrorsInfo (fst s)\<rparr>"
      unfolding f initFromDisk_def telemetry_file.case
      by (rule decode_encoded [OF v]) (use assms(2) in \<open>simp add: errorsInfo_copy_def\<close>)
    with d show ?thesis by (simp add: on_disk_def telemetry_start_def errorsInfo_copy_def)
  qed
qed

lemma telemetry_survives_restart_witness:
  "errorsInfo_copy (telemetry_start (\<lambda>_. None) (snd sample_telemetry)) =
     [sample_error 1 ''first'', sample_error 2 ''second'', sample_error 3 ''x'']"
proof -
  have es: "errorsInfo_copy sample_telemetry = [sample_error 1 ''first'', sample_error 2 ''second'', sample_error 3 ''x'']" by code_simp
  have "\<forall>e\<in>set (errorsInfo_copy sample_telemetry). archivable e" by code_simp
  with telemetry_survives_restart [OF sample_telemetry_def] es show ?thesis by simp
qed

text \<open>
  Sending ends. If every error fits a header on its own, as many headers with a following success
  as there are errors leave none behind.
\<close>

theorem sending_drains_the_errors:
  assumes "\<forall>e\<in>set (errorsInfo_copy s). fits_alone limit (fst s) e"
  shows "errorsInfo_copy ((send_cycle limit m ^^ length (errorsInfo_copy s)) s) = []"
  by (rule cycles_drain [OF assms order_refl])

lemma sending_drains_the_errors_witness:
  "errorsInfo_copy ((send_cycle 30 75 ^^ 3) sample_telemetry) = []"
proof -
  have "\<forall>e\<in>set (errorsInfo_copy sample_telemetry). fits_alone 30 (fst sample_telemetry) e"
    "length (errorsInfo_copy sample_telemetry) = 3" by code_simp+
  with sending_drains_the_errors [of sample_telemetry 30 75] show ?thesis by simp
qed

text \<open>
  An error that does not fit a header on its own blocks every older one: nothing is sent and nothing
  forgotten, however often the telemetry is sent.
\<close>

lemma oversized_error_blocks:
  assumes "errorsInfo_copy s = es @ [e]" "\<not> fits_alone limit (fst s) e" "length es < m"
  shows "errorsInfo_copy (send_cycle limit m s) = errorsInfo_copy s"
proof -
  obtain unsent sent where s: "errorsInfo_copy s = unsent @ sent"
    "sent \<noteq> [] \<longrightarrow> fits limit (length (header_prefix (fst s))) sent"
    "snd (telemetryString limit s) =
       ((fst s)\<lparr>ltSerializedItem := Some ((lastItem (fst s))\<lparr>siUnserializedErrors := if unsent = [] then None else Some unsent\<rparr>)\<rparr>, snd s)"
    using telemetryString_split [of s limit] by (metis snd_conv)
  have mono: "fits limit n (a # b) \<Longrightarrow> b \<noteq> [] \<Longrightarrow> fits limit n b" for n a b
    by (simp add: fits_def joined_Cons)
  have "fits limit n xs \<Longrightarrow> xs \<noteq> [] \<Longrightarrow> fits limit n [last xs]" for n xs
    by (induction xs) (auto dest: mono)
  with assms(1,2) s(1,2) have "sent = []" by (metis fits_alone_def last_appendR last_snoc)
  with s(1) assms(1,3) have "length unsent \<le> m" by (metis Suc_leI append_Nil2 length_append_singleton)
  with \<open>sent = []\<close> s(1,3) assms(1) show ?thesis
    by (auto simp add: send_cycle_def updateWithApiId_def reset_keeps_unserialized)
qed

end
