(* ===== verification/PKeyAuth.thy ===== *)
theory PKeyAuth
  imports RequestTelemetry Navigation Constants
begin

text \<open>
  The PKeyAuth challenge: \<open>webview/embeddedWebview/challangeHandlers/MSIDPKeyAuthHandler.m\<close>, which parses
  the challenge of a \<open>WWW-Authenticate\<close> header or of a redirect, and \<open>workplacejoin/MSIDPkeyAuthHelper.m\<close>,
  which builds the answer from the device registration. The registration and the signature come from
  the keychain and are parameters. A search that never ends is \<open>None\<close>, a raised exception \<open>Inl\<close>.
\<close>

section \<open>Searching a string\<close>

datatype foundation_exception = NSRangeException

definition quote_char :: char where
  "quote_char = CHR 0x22"

definition backslash :: char where
  "backslash = CHR 0x5C"

text \<open>\<open>rangeOfString:options:range:\<close> for one character, from a location to the end.\<close>

definition index_from :: "string \<Rightarrow> nat \<Rightarrow> char \<Rightarrow> nat option" where
  "index_from s loc c =
     (let n = length (takeWhile (\<lambda>x. x \<noteq> c) (drop loc s))
      in if loc + n < length s then Some (loc + n) else None)"

definition substring :: "string \<Rightarrow> nat \<Rightarrow> nat \<Rightarrow> string" where
  "substring s loc len = take len (drop loc s)"

definition is_alphanumeric :: "char \<Rightarrow> bool" where
  "is_alphanumeric c \<longleftrightarrow> is_digit c \<or> c \<in> set (map fst lower_table) \<or> c \<in> set (map snd lower_table)"

section \<open>Parsing the header\<close>

text \<open>
  The loop that looks for the closing quote searches again from the quote it has just found when that
  one follows a backslash.
\<close>

partial_function (option) closing_quote :: "string \<Rightarrow> nat \<Rightarrow> nat option option" where
  "closing_quote s found =
     (case index_from s found quote_char of
        None \<Rightarrow> Some None
      | Some q \<Rightarrow> if s ! (q - 1) = backslash then closing_quote s q else Some (Some q))"

text \<open>
  The value after \<open>=\<close> and the location after it. Without a comma after a quoted value the length used
  to step on is still that of the value.
\<close>

definition read_value ::
    "string \<Rightarrow> nat \<Rightarrow> (foundation_exception + (string \<times> nat) option) option" where
  "read_value s loc =
     (if length s \<le> loc then Some (Inl NSRangeException)
      else if s ! loc = quote_char then
        (let start = loc + 1
         in case closing_quote s start of
              None \<Rightarrow> None
            | Some None \<Rightarrow> Some (Inr None)
            | Some (Some q) \<Rightarrow>
                (let len = q - start + 1; after = start + len;
                     step = (case index_from s after (CHR '','') of None \<Rightarrow> len | Some c \<Rightarrow> c - after)
                 in Some (Inr (Some (substring s start (q - start), after + step + 1)))))
      else
        (let len = (case index_from s loc (CHR '','') of None \<Rightarrow> length s - loc | Some c \<Rightarrow> c - loc)
         in Some (Inr (Some (substring s loc len, loc + len + 1)))))"

definition add_param :: "(string, string) dict \<Rightarrow> string \<Rightarrow> string \<Rightarrow> (string, string) dict" where
  "add_param params key val =
     (case dict_get params key of
        Some existing \<Rightarrow> dict_put key (existing @ ''.'' @ val) params
      | None \<Rightarrow> dict_put key val params)"

definition skip_white :: "string \<Rightarrow> nat \<Rightarrow> nat" where
  "skip_white s loc = loc + length (takeWhile whitespaceAndNewline (drop loc s))"

lemma index_from_bounds: "index_from s loc c = Some q \<Longrightarrow> loc \<le> q \<and> q < length s \<and> s ! q = c"
proof -
  assume a: "index_from s loc c = Some q"
  let ?n = "length (takeWhile (\<lambda>x. x \<noteq> c) (drop loc s))"
  from a have q: "q = loc + ?n" "loc + ?n < length s" by (auto simp: index_from_def Let_def split: if_splits)
  then have "?n < length (drop loc s)" by simp
  then have "drop loc s ! ?n = c" using nth_length_takeWhile by blast
  with q show ?thesis by simp
qed

lemma skip_white_ge: "loc \<le> skip_white s loc"
  by (simp add: skip_white_def)

lemma read_value_progress: "read_value s loc = Some (Inr (Some (v, after))) \<Longrightarrow> loc < after"
  by (auto simp: read_value_def Let_def split: if_splits option.splits)

function parse_params ::
    "string \<Rightarrow> nat \<Rightarrow> (string, string) dict \<Rightarrow> (foundation_exception + (string, string) dict option) option" where
  "parse_params s loc params =
     (if length s \<le> loc then Some (Inr (Some params))
      else
        (let start = skip_white s loc
         in if length s \<le> start then Some (Inr (Some params))
            else if \<not> is_alphanumeric (s ! start) then Some (Inr None)
            else
              (case index_from s start (CHR ''='') of
                 None \<Rightarrow> Some (Inr None)
               | Some eq \<Rightarrow>
                   (case read_value s (eq + 1) of
                      None \<Rightarrow> None
                    | Some (Inl e) \<Rightarrow> Some (Inl e)
                    | Some (Inr None) \<Rightarrow> Some (Inr None)
                    | Some (Inr (Some (val, after))) \<Rightarrow>
                        parse_params s after (add_param params (substring s start (eq - start)) val)))))"
  by pat_completeness auto
termination
proof (relation "measure (\<lambda>(s, loc, params). length s - loc)", simp, goal_cases)
  case (1 s loc params start eq x y z val after)
  then have "loc \<le> eq" using skip_white_ge [of loc s] index_from_bounds by fastforce
  with 1 show ?case using read_value_progress [of s "eq + 1"] by fastforce
qed

declare parse_params.simps [simp del]

definition parseAuthHeader :: "string option \<Rightarrow> (foundation_exception + (string, string) dict option) option" where
  "parseAuthHeader authHeader =
     (case authHeader of
        None \<Rightarrow> Some (Inr None)
      | Some h \<Rightarrow>
          (let n = length ''PKeyAuth'' + 1
           in if length h < n then Some (Inl NSRangeException) else parse_params (drop n h) 0 []))"

section \<open>Issuers\<close>

definition is_hex_digit :: "char \<Rightarrow> bool" where
  "is_hex_digit c \<longleftrightarrow> c \<in> set ''0123456789abcdefABCDEF''"

text \<open>The regular expression for a UUID, and its matches from left to right, which do not overlap.\<close>

definition uuid_shape :: "string \<Rightarrow> bool" where
  "uuid_shape s \<longleftrightarrow> length s = 36 \<and>
     list_all (\<lambda>(i, c). if i \<in> {8, 13, 18, 23} then c = CHR ''-'' else is_hex_digit c) (zip [0..<36] s)"

function fixed_matches :: "nat \<Rightarrow> (string \<Rightarrow> bool) \<Rightarrow> string \<Rightarrow> string list" where
  "fixed_matches n p s =
     (if n = 0 \<or> length s < n then []
      else if p (take n s) then take n s # fixed_matches n p (drop n s)
      else fixed_matches n p (tl s))"
  by pat_completeness auto
termination by (relation "measure (\<lambda>(n, p, s). length s)") auto

declare fixed_matches.simps [simp del]

definition uppercaseString :: "string \<Rightarrow> string" where
  "uppercaseString s = map (\<lambda>c. case map_of (map (\<lambda>(u, l). (l, u)) lower_table) c of None \<Rightarrow> c | Some u \<Rightarrow> u) s"

definition getOrgUnitFromIssuer :: "string \<Rightarrow> string option" where
  "getOrgUnitFromIssuer issuer =
     (case fixed_matches 36 uuid_shape issuer of [] \<Rightarrow> None | m # _ \<Rightarrow> Some (''OU='' @ m))"

definition isValidIssuer :: "string \<Rightarrow> string option \<Rightarrow> bool" where
  "isValidIssuer certAuths keychainCertIssuer =
     list_ex (\<lambda>m. map_option uppercaseString keychainCertIssuer = Some m)
       (case msidURLDecode certAuths of
          None \<Rightarrow> []
        | Some d \<Rightarrow> fixed_matches 39 (\<lambda>x. take 3 x = ''OU='' \<and> uuid_shape (drop 3 x)) (uppercaseString d))"

section \<open>The answer of the device\<close>

record wpj_info =
  wiHasCertificate :: bool
  wiCertificateIssuer :: string
  wiCertificateData :: string
  wiAlgorithm :: "string option"

record jwt_request =
  jrAlgorithm :: string
  jrCertificates :: "string list"
  jrAudience :: string
  jrNonce :: string
  jrIssuedAt :: string

record challenge_url =
  cuBase :: string
  cuHost :: "string option"
  cuItems :: "(string \<times> string option) list"

text \<open>
  Parameters: the registration of a tenant in the external SSO context, if there is one, and in the
  keychain; the signature over a token; the clock; which URLs are ADFS authorities; the URL parser; the
  client version and whether the second registration group may be read; the correlation id of the request.
\<close>

record pkey_env =
  peSSOKeys :: "(string option \<Rightarrow> wpj_info option) option"
  peKeys :: "string option \<Rightarrow> wpj_info option"
  peSign :: "jwt_request \<Rightarrow> wpj_info \<Rightarrow> string option"
  peNow :: nsdate
  peADFS :: "challenge_url \<Rightarrow> bool"
  peURLWithString :: "string \<Rightarrow> challenge_url option"
  peVersion :: "string option"
  peV2Group :: bool
  peCorrelationId :: "string option"
  peMaxErrors :: nat
  peCurrentLimit :: nat

text \<open>The time is cast to 32 unsigned bits and printed as a signed number.\<close>

definition issued_at :: "nsdate \<Rightarrow> string" where
  "issued_at now =
     (let w = trunc_rat now mod 2 ^ 32 in int_str (if w < 2 ^ 31 then w else w - 2 ^ 32))"

definition signedDeviceAuthResponse ::
    "pkey_env \<Rightarrow> string option \<Rightarrow> string option \<Rightarrow> wpj_info \<Rightarrow> string option \<Rightarrow> string option" where
  "signedDeviceAuthResponse E audience nonce identity serverSupportedAlgs =
     (case (audience, nonce) of
        (Some a, Some n) \<Rightarrow>
          (case wiAlgorithm identity of
             None \<Rightarrow> None
           | Some alg \<Rightarrow>
               if msidIsStringNilOrBlank (Some alg) then None
               else if \<not> msidIsStringNilOrBlank serverSupportedAlgs \<and>
                       alg \<notin> set (componentsSeparatedBy (CHR '','') (the serverSupportedAlgs)) then None
               else peSign E \<lparr>jrAlgorithm = alg, jrCertificates = [wiCertificateData identity], jrAudience = a,
                             jrNonce = n, jrIssuedAt = issued_at (peNow E)\<rparr> identity)
      | _ \<Rightarrow> None)"

definition msidServerTelemetryErrorString :: "string \<Rightarrow> int \<Rightarrow> string" where
  "msidServerTelemetryErrorString domain code = domain @ ''_'' @ int_str code"

definition saveTelemetryForAdfsPkeyAuthChallenge ::
    "pkey_env \<Rightarrow> challenge_url option \<Rightarrow> int \<Rightarrow> telemetry_state \<Rightarrow> telemetry_state" where
  "saveTelemetryForAdfsPkeyAuthChallenge E adfsUrl code t =
     (case adfsUrl of
        None \<Rightarrow> t
      | Some u \<Rightarrow>
          if peADFS E u then
            updateWithApiId (peMaxErrors E) 0
              (Some (msidServerTelemetryErrorString (''ADFS_PKEYAUTH_CHLG_'' @ fmt_obj (cuHost u)) code))
              (peCorrelationId E) t
          else t)"

definition challenge_value :: "(string, string) dict option \<Rightarrow> string \<Rightarrow> string option" where
  "challenge_value challengeData key = (case challengeData of None \<Rightarrow> Some [] | Some d \<Rightarrow> dict_get d key)"

definition registration :: "pkey_env \<Rightarrow> string option \<Rightarrow> wpj_info option" where
  "registration E tenantId =
     (case Option.bind (peSSOKeys E) (\<lambda>f. f tenantId) of Some i \<Rightarrow> Some i | None \<Rightarrow> peKeys E tenantId)"

definition createDeviceAuthResponse ::
    "pkey_env \<Rightarrow> challenge_url option \<Rightarrow> (string, string) dict option \<Rightarrow> telemetry_state \<Rightarrow> string \<times> telemetry_state" where
  "createDeviceAuthResponse E authorizationServer challengeData t =
     (let info = registration E (challenge_value challengeData ''TenantId'');
          accepted = (case (challengeData, info) of
              (Some d, Some i) \<Rightarrow>
                if \<not> wiHasCertificate i then None
                else (case dict_get d ''CertAuthorities'' of
                        None \<Rightarrow> Some (d, i)
                      | Some certAuths \<Rightarrow>
                          if isValidIssuer certAuths (getOrgUnitFromIssuer (wiCertificateIssuer i)) then Some (d, i) else None)
            | _ \<Rightarrow> None);
          authToken = (case accepted of
              None \<Rightarrow> []
            | Some (d, i) \<Rightarrow>
                (case signedDeviceAuthResponse E (map_option cuBase authorizationServer) (dict_get d ''nonce'') i
                        (challenge_value challengeData ''SupportedAlgs'') of
                   None \<Rightarrow> []
                 | Some tok \<Rightarrow> ''AuthToken='' @ [quote_char] @ tok @ [quote_char] @ '',''));
          t' = (case accepted of
                  None \<Rightarrow> t
                | Some (d, i) \<Rightarrow> saveTelemetryForAdfsPkeyAuthChallenge E authorizationServer
                    (if dict_get d ''SubmitUrl'' \<noteq> None then 302 else 401) t)
      in (''PKeyAuth '' @ authToken @ '' Context='' @ [quote_char] @ fmt_obj (challenge_value challengeData ''Context'') @
            [quote_char] @ '', Version='' @ [quote_char] @ fmt_obj (challenge_value challengeData ''Version'') @ [quote_char], t'))"

section \<open>The two entry points\<close>

definition handleWwwAuthenticateHeader ::
    "pkey_env \<Rightarrow> string \<Rightarrow> challenge_url option \<Rightarrow> telemetry_state \<Rightarrow>
       (foundation_exception + (string option \<times> nserror option) \<times> telemetry_state) option" where
  "handleWwwAuthenticateHeader E wwwAuthHeaderValue requestUrl t =
     (case parseAuthHeader (Some wwwAuthHeaderValue) of
        None \<Rightarrow> None
      | Some (Inl e) \<Rightarrow> Some (Inl e)
      | Some (Inr authHeaderParams) \<Rightarrow>
          (case createDeviceAuthResponse E requestUrl authHeaderParams t of
             (authHeader, t') \<Rightarrow> Some (Inr ((Some authHeader, None), t'))))"

record challenge_response =
  crBase :: "string option"
  crQuery :: "string option"
  crHeaders :: "(string, string) dict"

definition isAADPublicCloud :: "string option \<Rightarrow> bool" where
  "isAADPublicCloud host = (case host of None \<Rightarrow> False | Some h \<Rightarrow> h \<in> snd ` set trusted_authorities)"

definition set_optional_header :: "string \<Rightarrow> string option \<Rightarrow> (string, string) dict \<Rightarrow> (string, string) dict" where
  "set_optional_header field vo hs =
     (case vo of None \<Rightarrow> dict_del (lowercaseString field) hs | Some v \<Rightarrow> setHTTPHeader (field, v) hs)"

text \<open>The telemetry object is made without an api id or refresh type: both are 0.\<close>

definition wpj_telemetry :: "pkey_env \<Rightarrow> string option" where
  "wpj_telemetry E =
     current_telemetryString (peCurrentLimit E)
       (initCurrentTelemetry 0 TokenCacheRefreshTypeNoCacheLookupInvolved
          (Some [if peV2Group E then ''wpj-v2'' else ''wpj-v1'']))"

definition handleChallenge ::
    "pkey_env \<Rightarrow> string \<Rightarrow> (string, string) dict \<Rightarrow> telemetry_state \<Rightarrow>
       foundation_exception + (challenge_response option \<times> nserror option) \<times> telemetry_state" where
  "handleChallenge E challengeUrl customHeaders t =
     (let parts = componentsSeparatedBy (CHR ''?'') challengeUrl
      in if length parts < 2 then Inl NSRangeException
         else
           (let queryParamsMap = msidDictionaryFromURLEncodedString (Some (parts ! 1)) False
            in case Option.bind queryParamsMap (\<lambda>d. map_option (\<lambda>s. (d, s)) (dict_get d ''SubmitUrl'')) of
                 None \<Rightarrow> Inr ((None, Some \<lparr>errDomain = ''MSIDOAuthErrorDomain'',
                                          errCode = error_code ''MSIDErrorServerOauth'',
                                          errUserInfo = [(''MSIDErrorDescriptionKey'',
                                            NSStr ''Incomplete PKeyAuth challenge received.'')]\<rparr>), t)
               | Some (params, submitUrl) \<Rightarrow>
                   (let url = peURLWithString E submitUrl;
                        answer = createDeviceAuthResponse E url (Some params) t;
                        items = (case url of None \<Rightarrow> [] | Some u \<Rightarrow> cuItems u);
                        queryDict = dict_assign ''x-client-Ver'' (peVersion E)
                                      (foldl (\<lambda>d (k, v). dict_assign k v d) [] items);
                        headers = set_optional_header ''x-client-current-telemetry'' (wpj_telemetry E)
                                    (setHTTPHeader (''authorization'', fst answer)
                                      (setHTTPHeader (''x-ms-PkeyAuth+'', ''1.0'') []));
                        host = map_option lowercaseString (Option.bind url cuHost);
                        headers' = (case dict_get customHeaders ''x-ms-RefreshTokenCredential'' of
                                      None \<Rightarrow> headers
                                    | Some credential \<Rightarrow>
                                        if isAADPublicCloud host
                                        then setHTTPHeader (''x-ms-RefreshTokenCredential'', credential) headers
                                        else headers)
                    in Inr ((Some \<lparr>crBase = map_option cuBase url,
                                   crQuery = (if url = None then None else msidEncodeStringFromDictionary queryDict False),
                                   crHeaders = headers'\<rparr>, None), snd answer))))"

section \<open>Lemmas on the search\<close>

lemma index_from_found: "c \<notin> set b \<Longrightarrow> index_from (a @ b @ c # r) (length a) c = Some (length a + length b)"
proof -
  assume "c \<notin> set b"
  then have "takeWhile (\<lambda>x. x \<noteq> c) (b @ c # r) = b" by (subst takeWhile_append2) auto
  then show ?thesis by (simp add: index_from_def Let_def)
qed

lemma length_takeWhile_all: "\<forall>x\<in>set b. P x \<Longrightarrow> length (takeWhile P b) = length b"
  by (induction b) auto

lemma index_from_missing: "c \<notin> set b \<Longrightarrow> index_from (a @ b) (length a) c = None"
proof -
  assume "c \<notin> set b"
  then have "\<forall>x\<in>set b. x \<noteq> c" by auto
  then have "length (takeWhile (\<lambda>x. x \<noteq> c) b) = length b" by (rule length_takeWhile_all)
  then show ?thesis by (simp add: index_from_def Let_def)
qed

lemma index_from_self: "q < length s \<Longrightarrow> s ! q = c \<Longrightarrow> index_from s q c = Some q"
  by (simp add: index_from_def Let_def Cons_nth_drop_Suc [symmetric] del: drop_Suc_Cons)

text \<open>The search for the closing quote ends exactly when the first quote does not follow a backslash.\<close>

lemma closing_quote_unescaped:
  assumes "closing_quote s found = Some r" "index_from s found quote_char = Some q"
  shows "s ! (q - 1) \<noteq> backslash"
proof -
  define P where "P = (\<lambda>s found (r :: nat option). \<forall>q. index_from s found quote_char = Some q \<longrightarrow> s ! (q - 1) \<noteq> backslash)"
  have "P s found r"
  proof (rule closing_quote.raw_induct [where P = P, OF _ assms(1)])
    fix f s found and r :: "nat option"
    assume IH: "\<And>s found r. f s found = Some r \<Longrightarrow> P s found r"
      and run: "(case index_from s found quote_char of None \<Rightarrow> Some None
                 | Some q \<Rightarrow> if s ! (q - 1) = backslash then f s q else Some (Some q)) = Some r"
    show "P s found r"
      unfolding P_def
    proof (intro allI impI notI)
      fix q assume q: "index_from s found quote_char = Some q" and esc: "s ! (q - 1) = backslash"
      with run have "f s q = Some r" by simp
      then have "P s q r" by (rule IH)
      moreover have "index_from s q quote_char = Some q"
        using index_from_bounds [OF q] by (simp add: index_from_self)
      ultimately show False using esc by (simp add: P_def)
    qed
  qed
  with assms(2) show ?thesis by (simp add: P_def)
qed

lemma closing_quote_eq:
  "closing_quote s found =
     (case index_from s found quote_char of
        None \<Rightarrow> Some None | Some q \<Rightarrow> if s ! (q - 1) = backslash then None else Some (Some q))"
proof (cases "index_from s found quote_char")
  case None
  then show ?thesis by (simp add: closing_quote.simps)
next
  case (Some q)
  show ?thesis
  proof (cases "s ! (q - 1) = backslash")
    case True
    with Some have "closing_quote s found = None"
      using closing_quote_unescaped [of s found _ q] by (cases "closing_quote s found") auto
    with Some True show ?thesis by simp
  next
    case False
    with Some show ?thesis by (subst closing_quote.simps) simp
  qed
qed

lemma alphanumeric_not_white: "is_alphanumeric c \<Longrightarrow> \<not> whitespaceAndNewline c"
  using digit_not_space lower_table_white by (auto simp: is_alphanumeric_def)

lemma quote_not_alphanumeric: "\<not> is_alphanumeric quote_char" by code_simp

definition key_text :: "string \<Rightarrow> bool" where
  "key_text k \<longleftrightarrow> k \<noteq> [] \<and> is_alphanumeric (hd k) \<and> CHR ''='' \<notin> set k"

definition value_text :: "string \<Rightarrow> bool" where
  "value_text v \<longleftrightarrow> quote_char \<notin> set v \<and> (v = [] \<or> last v \<noteq> backslash)"

text \<open>What the parser does with white space and a key in front of an equals sign.\<close>

lemma parse_key:
  assumes "key_text k" "list_all whitespaceAndNewline w"
    and s: "s = pre @ w @ k @ CHR ''='' # rest"
  shows "parse_params s (length pre) params =
    (case read_value s (length (pre @ w @ k) + 1) of
       None \<Rightarrow> None
     | Some (Inl e) \<Rightarrow> Some (Inl e)
     | Some (Inr None) \<Rightarrow> Some (Inr None)
     | Some (Inr (Some (val, after))) \<Rightarrow> parse_params s after (add_param params k val))"
proof -
  obtain c k' where k: "k = c # k'" "is_alphanumeric c" using assms(1) by (cases k) (auto simp: key_text_def)
  define n where "n = length (pre @ w)"
  have white: "takeWhile whitespaceAndNewline (w @ k @ CHR ''='' # rest) = w"
    using assms(2) alphanumeric_not_white [OF k(2)] by (simp add: k(1) takeWhile_append2 list_all_iff)
  then have start: "skip_white s (length pre) = n" by (simp add: skip_white_def s n_def)
  have char: "s ! n = c" unfolding s n_def k(1) by (metis append.assoc append_Cons nth_append_length)
  have eq: "index_from s n (CHR ''='') = Some (n + length k)"
    using index_from_found [of "CHR ''=''" k "pre @ w" rest] assms(1) by (simp add: s key_text_def n_def)
  have key: "substring s n (length k) = k" by (simp add: substring_def s n_def)
  have len: "n < length s" "length pre < length s" by (simp_all add: s k(1) n_def)
  have at: "length (pre @ w @ k) + 1 = n + length k + 1" by (simp add: n_def)
  show ?thesis
    unfolding at using len
    by (subst parse_params.simps) (simp only: Let_def start char k(2) eq key option.case not_less [symmetric] if_False simp_thms add_diff_cancel_left')
qed

lemma read_quoted:
  assumes "quote_char \<notin> set v" and s: "s = pre @ quote_char # v @ quote_char # rest"
  shows "read_value s (length pre) =
    (if v \<noteq> [] \<and> last v = backslash then None
     else Some (Inr (Some (v, length pre + 1 + length v + 1 +
            (case index_from s (length pre + 1 + length v + 1) (CHR '','') of
               None \<Rightarrow> length v + 1 | Some c \<Rightarrow> c - (length pre + 1 + length v + 1)) + 1))))"
proof -
  let ?q = "length pre + 1 + length v"
  have q: "index_from s (length pre + 1) quote_char = Some ?q"
    using index_from_found [OF assms(1), of "pre @ [quote_char]" rest] by (simp add: s)
  have before: "s ! (?q - 1) = (if v = [] then quote_char else last v)"
  proof (cases v rule: rev_cases)
    case Nil
    then show ?thesis by (simp add: s)
  next
    case (snoc u c)
    have "s ! length (pre @ quote_char # u) = c"
      unfolding s snoc by (metis append.assoc append_Cons append_Nil nth_append_length)
    with snoc show ?thesis by simp
  qed
  have differ: "quote_char \<noteq> backslash" by code_simp
  have cq: "closing_quote s (length pre + 1) = (if v \<noteq> [] \<and> last v = backslash then None else Some (Some ?q))"
    using q before differ by (subst closing_quote_eq) simp
  have char: "s ! length pre = quote_char" "length pre < length s" by (simp_all add: s)
  have sub: "substring s (length pre + 1) (length v) = v" by (simp add: substring_def s)
  show ?thesis
    unfolding read_value_def using char
    by (simp only: cq Let_def) (use sub in \<open>auto split: option.split\<close>)
qed

definition format_param :: "string \<times> string \<Rightarrow> string" where
  "format_param p = fst p @ ''='' @ [quote_char] @ snd p @ [quote_char]"

definition format_challenge :: "(string \<times> string) list \<Rightarrow> string" where
  "format_challenge ps = componentsJoined '', '' (map format_param ps)"

lemma parse_formatted:
  assumes "\<forall>p\<in>set ps. key_text (fst p) \<and> value_text (snd p)" "distinct (dict_keys (params @ ps))"
    and "list_all whitespaceAndNewline w" and s: "s = pre @ w @ format_challenge ps"
  shows "parse_params s (length pre) params = Some (Inr (Some (params @ ps)))"
  using assms
proof (induction ps arbitrary: pre w params)
  case Nil
  then have "length (takeWhile whitespaceAndNewline w) = length w" by (simp add: length_takeWhile_all list_all_iff)
  with Nil show ?case
    by (subst parse_params.simps) (simp add: format_challenge_def skip_white_def Let_def)
next
  case (Cons p ps)
  obtain k v where p: "p = (k, v)" by (cases p)
  have kv: "key_text k" "quote_char \<notin> set v" "v = [] \<or> last v \<noteq> backslash"
    using Cons.prems(1) by (auto simp: p value_text_def)
  have fresh: "dict_get params k = None" using Cons.prems(2) by (auto simp: p map_of_eq_None_iff)
  then have put: "add_param params k v = params @ [(k, v)]"
    by (simp add: add_param_def) (induction params; auto)
  define pre1 where "pre1 = pre @ w @ k @ ''=''"
  have at: "length (pre @ w @ k) + 1 = length pre1" by (simp add: pre1_def)
  show ?case
  proof (cases ps)
    case Nil
    have s: "s = pre1 @ quote_char # v @ quote_char # []"
      using Cons.prems(4) by (simp add: Nil p format_challenge_def format_param_def pre1_def)
    have s': "s = pre @ w @ k @ CHR ''='' # quote_char # v @ quote_char # []" by (simp add: s pre1_def)
    have comma: "index_from s (length pre1 + 1 + length v + 1) (CHR '','') = None"
      using index_from_missing [of "CHR '',''" "[]" s] by (simp add: s index_from_def)
    have "parse_params s (length pre) params =
        parse_params s (length pre1 + 1 + length v + 1 + (length v + 1) + 1) (params @ [(k, v)])"
      using parse_key [OF kv(1) Cons.prems(3) s', of params] read_quoted [OF kv(2) s] kv(3)
      unfolding at comma by (auto simp: put)
    also have "\<dots> = Some (Inr (Some (params @ [(k, v)])))"
      by (subst parse_params.simps) (simp add: s)
    finally show ?thesis by (simp add: Nil p)
  next
    case (Cons q qs)
    have s: "s = pre1 @ quote_char # v @ quote_char # '','' @ '' '' @ format_challenge ps"
      using Cons.prems(4) by (simp add: Cons p format_challenge_def format_param_def pre1_def)
    have s': "s = pre @ w @ k @ CHR ''='' # quote_char # v @ quote_char # '','' @ '' '' @ format_challenge ps"
      by (simp add: s pre1_def)
    define pre2 where "pre2 = pre1 @ quote_char # v @ [quote_char]"
    have len2: "length pre1 + 1 + length v + 1 = length pre2" by (simp add: pre2_def)
    have s2: "s = (pre2 @ '','') @ '' '' @ format_challenge ps" by (simp add: s pre2_def)
    have comma: "index_from s (length pre2) (CHR '','') = Some (length pre2)"
      using index_from_found [of "CHR '',''" "[]" pre2 "'' '' @ format_challenge ps"] by (simp add: s2)
    have "parse_params s (length pre) params = parse_params s (length pre2 + 1) (params @ [(k, v)])"
      using parse_key [OF kv(1) Cons.prems(3) s', of params] read_quoted [OF kv(2) s] kv(3)
      unfolding at len2 comma by (auto simp: put)
    also have "\<dots> = parse_params s (length (pre2 @ '','')) (params @ [(k, v)])" by simp
    also have "\<dots> = Some (Inr (Some ((params @ [(k, v)]) @ ps)))"
      by (rule Cons.IH [OF _ _ _ s2]) (use Cons.prems(1,2) p in \<open>auto simp: whitespaceAndNewline_def\<close>)
    finally show ?thesis by (simp add: p)
  qed
qed

section \<open>Properties\<close>

text \<open>
  The parameters of a challenge are read back from the text of the header, for any number of them,
  with values that hold commas, equals signs and white space.
\<close>

theorem challenge_roundtrip:
  assumes "\<forall>p\<in>set ps. key_text (fst p) \<and> value_text (snd p)" "distinct (dict_keys ps)"
  shows "parseAuthHeader (Some (''PKeyAuth '' @ format_challenge ps)) = Some (Inr (Some ps))"
  using parse_formatted [of ps "[]" "[]" "format_challenge ps" "[]"] assms
  by (simp add: parseAuthHeader_def)

lemma challenge_roundtrip_witness:
  "parseAuthHeader (Some (''PKeyAuth '' @ format_challenge [(''Context'', ''a=b, c''), (''Version'', ''1.0''), (''nonce'', '''')])) =
     Some (Inr (Some [(''Context'', ''a=b, c''), (''Version'', ''1.0''), (''nonce'', '''')]))"
proof (rule challenge_roundtrip)
  show "\<forall>p\<in>set [(''Context'', ''a=b, c''), (''Version'', ''1.0''), (''nonce'', '''')]. key_text (fst p) \<and> value_text (snd p)"
    by code_simp
qed simp

text \<open>
  C39: an escaped quotation mark in a value hangs the parser: it searches from the quote it has found,
  again and again, so neither the parser nor the handler of the challenge returns.
\<close>

theorem escaped_quote_never_returns:
  assumes "key_text k" "quote_char \<notin> set v"
  shows "handleWwwAuthenticateHeader E (''PKeyAuth '' @ k @ ''='' @ [quote_char] @ v @ [backslash, quote_char] @ rest) url t = None"
proof -
  let ?v = "v @ [backslash]"
  let ?s = "k @ CHR ''='' # quote_char # ?v @ quote_char # rest"
  have q: "quote_char \<notin> set ?v" using assms(2) by (simp add: quote_char_def backslash_def)
  have "read_value ?s (length (k @ ''='')) = None"
    using read_quoted [OF q, of ?s "k @ ''=''" rest] by simp
  then have "parse_params ?s 0 [] = None"
    using parse_key [OF assms(1), of "[]" ?s "[]" "quote_char # ?v @ quote_char # rest" "[]"] by simp
  then have "parseAuthHeader (Some (''PKeyAuth '' @ k @ ''='' @ [quote_char] @ v @ [backslash, quote_char] @ rest)) = None"
    by (simp add: parseAuthHeader_def)
  then show ?thesis by (simp add: handleWwwAuthenticateHeader_def)
qed

lemma escaped_quote_never_returns_witness:
  "\<forall>E url t. handleWwwAuthenticateHeader E (''PKeyAuth Context='' @ [quote_char] @ ''say '' @ [backslash, quote_char] @ ''hi'' @ [quote_char]) url t = None"
proof (intro allI)
  fix E url t
  show "handleWwwAuthenticateHeader E (''PKeyAuth Context='' @ [quote_char] @ ''say '' @ [backslash, quote_char] @ ''hi'' @ [quote_char]) url t = None"
    using escaped_quote_never_returns [of "''Context''" "''say ''" E "''hi'' @ [quote_char]" url t]
    by (simp add: key_text_def quote_char_def is_alphanumeric_def is_digit_def digits_def lower_table_def)
qed

lemma index_from_in: "index_from s loc c = Some q \<Longrightarrow> c \<in> set s"
  using index_from_bounds nth_mem by fastforce

lemma closing_quote_returns: "backslash \<notin> set s \<Longrightarrow> \<exists>r. closing_quote s found = Some r"
proof -
  assume b: "backslash \<notin> set s"
  have "s ! (q - 1) \<noteq> backslash" if "index_from s found quote_char = Some q" for q
    using b index_from_bounds [OF that] nth_mem [of "q - 1" s] by (metis less_imp_diff_less)
  then show ?thesis by (cases "index_from s found quote_char") (auto simp: closing_quote_eq)
qed

lemma read_value_returns:
  assumes "backslash \<notin> set s"
  shows "\<exists>r. read_value s loc = Some r \<and> (\<forall>e. r = Inl e \<longrightarrow> length s \<le> loc)"
proof -
  obtain r where "closing_quote s (loc + 1) = Some r" using closing_quote_returns [OF assms] by blast
  then show ?thesis by (cases r) (auto simp: read_value_def Let_def split: option.split)
qed

lemma parse_params_returns:
  "backslash \<notin> set s \<Longrightarrow>
   \<exists>r. parse_params s loc params = Some r \<and> (\<forall>e. r = Inl e \<longrightarrow> s \<noteq> [] \<and> last s = CHR ''='')"
proof (induction s loc params rule: parse_params.induct)
  case (1 s loc params)
  define start where "start = skip_white s loc"
  show ?case
  proof (cases "length s \<le> loc \<or> length s \<le> start \<or> \<not> is_alphanumeric (s ! start) \<or> index_from s start (CHR ''='') = None")
    case True
    then show ?thesis by (subst parse_params.simps) (auto simp: Let_def start_def)
  next
    case False
    then obtain eq where eq: "index_from s start (CHR ''='') = Some eq" by blast
    obtain r where r: "read_value s (eq + 1) = Some r" "\<forall>e. r = Inl e \<longrightarrow> length s \<le> eq + 1"
      using read_value_returns [OF "1.prems"] by blast
    have run: "parse_params s loc params =
        (case r of Inl e \<Rightarrow> Some (Inl e) | Inr None \<Rightarrow> Some (Inr None)
         | Inr (Some (val, after)) \<Rightarrow> parse_params s after (add_param params (substring s start (eq - start)) val))"
      using False eq r(1) by (subst parse_params.simps) (simp add: Let_def start_def [symmetric] split: sum.split)
    show ?thesis
    proof (cases r)
      case (Inl e)
      with r(2) index_from_bounds [OF eq] have "eq = length s - 1" "s \<noteq> []" "s ! eq = CHR ''=''" by auto
      with run Inl show ?thesis by (simp add: last_conv_nth)
    next
      case (Inr o')
      show ?thesis
      proof (cases o')
        case None
        with run Inr show ?thesis by simp
      next
        case (Some p)
        obtain val after where "p = (val, after)" by (cases p)
        with run Inr Some have step: "parse_params s loc params =
            parse_params s after (add_param params (substring s start (eq - start)) val)" by simp
        show ?thesis
          unfolding step
          by (rule "1.IH" [OF _ start_def _ _ eq, of r o' p val after])
             (use False Inr Some \<open>p = (val, after)\<close> r(1) "1.prems" in auto)
      qed
    qed
  qed
qed

text \<open>
  C36: without a backslash the parser returns, and raises only for a header that is shorter than the name
  of the scheme and a space, or that ends with an equals sign.
\<close>

theorem parser_returns_without_escapes:
  assumes "backslash \<notin> set h"
  shows "\<exists>r. parseAuthHeader (Some h) = Some r \<and>
    (\<forall>e. r = Inl e \<longrightarrow> length h < 9 \<or> last h = CHR ''='')"
proof (cases "length h < 9")
  case True
  then show ?thesis by (simp add: parseAuthHeader_def)
next
  case False
  have "backslash \<notin> set (drop 9 h)" using assms in_set_dropD by fastforce
  then obtain r where r: "parse_params (drop 9 h) 0 [] = Some r" "\<forall>e. r = Inl e \<longrightarrow> drop 9 h \<noteq> [] \<and> last (drop 9 h) = CHR ''=''"
    using parse_params_returns by blast
  have "length ''PKeyAuth'' + 1 = 9" by simp
  with False r(1) have "parseAuthHeader (Some h) = Some r" unfolding parseAuthHeader_def Let_def option.case by metis
  moreover have "last h = CHR ''=''" if "r = Inl e" for e
    using r(2) that by (cases "9 < length h") (auto simp: last_drop)
  ultimately show ?thesis by blast
qed

lemma parser_returns_without_escapes_witness:
  "parseAuthHeader (Some ''PKeyAuth'') = Some (Inl NSRangeException) \<and>
   parseAuthHeader (Some ''PKeyAuth nonce='') = Some (Inl NSRangeException) \<and>
   (\<exists>r. parseAuthHeader (Some ''PKeyAuth nonce=abc'') = Some (Inr r))"
proof -
  have "backslash \<notin> set ''PKeyAuth nonce=abc''" by code_simp
  from parser_returns_without_escapes [OF this] obtain r where
    r: "parseAuthHeader (Some ''PKeyAuth nonce=abc'') = Some r" "\<forall>e. r \<noteq> Inl e" by auto
  moreover have "\<exists>r'. r = Inr r'" using r(2) by (cases r) auto
  moreover have "parseAuthHeader (Some ''PKeyAuth'') = Some (Inl NSRangeException)" by (simp add: parseAuthHeader_def)
  moreover have "parseAuthHeader (Some ''PKeyAuth nonce='') = Some (Inl NSRangeException)"
  proof -
    have "key_text ''nonce''" by code_simp
    from parse_key [OF this, of "[]" "''nonce=''" "[]" "[]" "[]"] show ?thesis
      by (simp add: parseAuthHeader_def read_value_def)
  qed
  ultimately show ?thesis by auto
qed

text \<open>Every challenge whose header can be parsed at all is answered, with or without a registration.\<close>

lemma challenge_is_answered:
  assumes "handleWwwAuthenticateHeader E h url t = Some (Inr (answer, t'))"
  shows "\<exists>x. answer = (Some (''PKeyAuth '' @ x), None)"
  using assms by (auto simp: handleWwwAuthenticateHeader_def createDeviceAuthResponse_def Let_def
    split: option.splits sum.splits prod.splits)

lemma credential_header_name:
  "lowercaseString ''x-ms-RefreshTokenCredential'' = ''x-ms-refreshtokencredential''"
  "lowercaseString ''x-client-current-telemetry'' = ''x-client-current-telemetry''"
  "lowercaseString ''authorization'' = ''authorization''" "lowercaseString ''x-ms-PkeyAuth+'' = ''x-ms-pkeyauth+''"
  by code_simp+

text \<open>
  C8: the refresh token credential leaves the device only with an answer that goes to a trusted host, and
  then unchanged.
\<close>

theorem credential_is_confined:
  assumes "handleChallenge E challengeUrl customHeaders t = Inr ((Some r, e), t')"
    and "dict_get (crHeaders r) ''x-ms-refreshtokencredential'' = Some credential"
  shows "dict_get customHeaders ''x-ms-RefreshTokenCredential'' = Some credential \<and>
    (\<exists>params submitUrl u host. msidDictionaryFromURLEncodedString (Some (componentsSeparatedBy (CHR ''?'') challengeUrl ! 1)) False = Some params \<and>
       dict_get params ''SubmitUrl'' = Some submitUrl \<and> peURLWithString E submitUrl = Some u \<and> crBase r = Some (cuBase u) \<and>
       cuHost u = Some host \<and> lowercaseString host \<in> snd ` set trusted_authorities)"
proof -
  obtain params where params: "msidDictionaryFromURLEncodedString (Some (componentsSeparatedBy (CHR ''?'') challengeUrl ! 1)) False = Some params"
    using assms(1) by (cases "msidDictionaryFromURLEncodedString (Some (componentsSeparatedBy (CHR ''?'') challengeUrl ! 1)) False")
      (auto simp: handleChallenge_def Let_def split: if_splits)
  obtain submitUrl where submit: "dict_get params ''SubmitUrl'' = Some submitUrl"
    using assms(1) params by (cases "dict_get params ''SubmitUrl''") (auto simp: handleChallenge_def Let_def split: if_splits)
  let ?url = "peURLWithString E submitUrl"
  let ?headers = "set_optional_header ''x-client-current-telemetry'' (wpj_telemetry E)
      (setHTTPHeader (''authorization'', fst (createDeviceAuthResponse E ?url (Some params) t))
        (setHTTPHeader (''x-ms-PkeyAuth+'', ''1.0'') []))"
  have r: "crBase r = map_option cuBase ?url"
    "crHeaders r = (case dict_get customHeaders ''x-ms-RefreshTokenCredential'' of
        None \<Rightarrow> ?headers
      | Some c \<Rightarrow> if isAADPublicCloud (map_option lowercaseString (Option.bind ?url cuHost))
                  then setHTTPHeader (''x-ms-RefreshTokenCredential'', c) ?headers else ?headers)"
    using assms(1) params submit by (auto simp: handleChallenge_def Let_def split: if_splits)
  have none: "dict_get ?headers ''x-ms-refreshtokencredential'' = None"
    by (cases "wpj_telemetry E") (simp_all add: set_optional_header_def setHTTPHeader_def credential_header_name)
  show ?thesis
  proof (cases "dict_get customHeaders ''x-ms-RefreshTokenCredential''")
    case None
    with r(2) none assms(2) show ?thesis by simp
  next
    case (Some c)
    show ?thesis
    proof (cases "isAADPublicCloud (map_option lowercaseString (Option.bind ?url cuHost))")
      case False
      with Some r(2) none assms(2) show ?thesis by simp
    next
      case True
      then obtain u host where "?url = Some u" "cuHost u = Some host" "lowercaseString host \<in> snd ` set trusted_authorities"
        by (cases ?url) (auto simp: isAADPublicCloud_def split: option.splits)
      moreover have "c = credential"
        using Some r(2) True assms(2) by (simp add: setHTTPHeader_def credential_header_name)
      ultimately show ?thesis using params submit r(1) Some by auto
    qed
  qed
qed

definition witness_pkey_env :: pkey_env where
  "witness_pkey_env = \<lparr>peSSOKeys = None, peKeys = (\<lambda>_. None), peSign = (\<lambda>_ _. None), peNow = 0, peADFS = (\<lambda>_. False),
     peURLWithString = (\<lambda>s. Some \<lparr>cuBase = s, cuHost = Some ''Login.windows.net'', cuItems = []\<rparr>),
     peVersion = Some ''1.0'', peV2Group = True, peCorrelationId = None, peMaxErrors = 75, peCurrentLimit = 100\<rparr>"

definition witness_custom_headers :: "(string, string) dict" where
  "witness_custom_headers = [(''x-ms-RefreshTokenCredential'', ''prt'')]"

lemma credential_is_confined_witness:
  "\<exists>r t'. handleChallenge witness_pkey_env ''PKeyAuth?SubmitUrl=x'' witness_custom_headers (telemetry_start (\<lambda>_. None) NoFile) =
      Inr ((Some r, None), t') \<and> crBase r = Some ''x'' \<and> dict_get (crHeaders r) ''x-ms-refreshtokencredential'' = Some ''prt''"
proof -
  let ?run = "handleChallenge witness_pkey_env ''PKeyAuth?SubmitUrl=x'' witness_custom_headers (telemetry_start (\<lambda>_. None) NoFile)"
  have "(case ?run of Inr ((Some r, None), t') \<Rightarrow> dict_get (crHeaders r) ''x-ms-refreshtokencredential'' = Some ''prt'' | _ \<Rightarrow> False)"
    by code_simp
  then obtain r t' where run: "?run = Inr ((Some r, None), t')" "dict_get (crHeaders r) ''x-ms-refreshtokencredential'' = Some ''prt''"
    by (auto split: sum.splits prod.splits option.splits)
  from credential_is_confined [OF run] obtain params submitUrl u where
    p: "msidDictionaryFromURLEncodedString (Some (componentsSeparatedBy (CHR ''?'') ''PKeyAuth?SubmitUrl=x'' ! 1)) False = Some params"
    "dict_get params ''SubmitUrl'' = Some submitUrl" "peURLWithString witness_pkey_env submitUrl = Some u" "crBase r = Some (cuBase u)"
    by blast
  have "msidDictionaryFromURLEncodedString (Some (componentsSeparatedBy (CHR ''?'') ''PKeyAuth?SubmitUrl=x'' ! 1)) False =
      Some [(''SubmitUrl'', ''x'')]" by code_simp
  with p have "crBase r = Some ''x''" by (auto simp: witness_pkey_env_def)
  with run show ?thesis by blast
qed

end
