(* ===== verification/HttpRequest.thy ===== *)
theory HttpRequest
  imports PKeyAuth
begin

text \<open>
  \<open>network/\<close>: a request of the library (\<open>MSIDHttpRequest.m\<close>) with its serialiser, the filter for headers
  of an interceptor, the server telemetry and the handler of errors (\<open>MSIDAADRequestErrorHandler.m\<close>) that
  sends it again. The transport answers every request that is sent with one reply; the history of a
  request is a fold over the replies. The serialisers of responses, the cache of the URL loading system,
  its assignment of a dictionary of header fields and the interceptor are parameters.
\<close>

section \<open>Requests and responses\<close>

datatype cache_policy = NSURLRequestUseProtocolCachePolicy | NSURLRequestReloadIgnoringCacheData

record network_request =
  nqURL :: nsurl
  nqMethod :: string
  nqHeaders :: "(string, string) dict"
  nqBody :: "string option"
  nqTimeout :: rat
  nqCachePolicy :: cache_policy

record network_response = http_response +
  npStatus :: int

text \<open>What the transport hands to the completion of a data task.\<close>

record network_reply =
  npResponse :: "network_response option"
  npData :: "string option"
  npError :: "created_error option"

datatype interceptor_answer = AdditionalHeaders "(string, string) dict option" | AfterDeallocation

record 'r http_env =
  heParameters :: "(string, string) dict"
  heHeaders :: "(string, string) dict"
  heTimeout :: rat
  heWithQuery :: "nsurl \<Rightarrow> string option \<Rightarrow> nsurl"
  heAssignHeaders :: "(string, string) dict \<Rightarrow> (string, string) dict \<Rightarrow> (string, string) dict"
  heInterceptor :: "(nsurl \<Rightarrow> interceptor_answer) option"
  heShouldCache :: bool
  heCacheKey :: "network_request \<Rightarrow> string"
  heSerializer :: "network_response \<Rightarrow> string option \<Rightarrow> 'r option \<times> created_error option"
  heErrorSerializer :: "(network_response \<Rightarrow> string option \<Rightarrow> 'r option \<times> created_error option) option"
  heHasErrorHandler :: bool
  heServerTelemetry :: "current_telemetry option"
  heLastLimit :: nat
  heChallengeURL :: "nsurl \<Rightarrow> challenge_url"
  hePKeyAuth :: pkey_env
  heConverter :: "error_converter option"
  heStatusText :: "int \<Rightarrow> string"

text \<open>
  The state of one request: besides its properties, the telemetry and the response cache it shares with
  others, how many completion blocks are wrapped round the caller's, and the requests handed to the
  transport with the delay before each.
\<close>

record http_state =
  hsRequest :: network_request
  hsRetryCounter :: int
  hsRetryInterval :: rat
  hsTelemetry :: telemetry_state
  hsCache :: "(string, network_response \<times> string option) dict"
  hsWrappers :: nat
  hsSent :: "(rat \<times> network_request) list"

datatype 'r outcome =
    Waiting http_state
  | Completed "'r option" "created_error option" http_state
  | Hung http_state
  | Crashed http_state

definition retryCountSetting :: int where
  "retryCountSetting = 1"

definition retryIntervalSetting :: rat where
  "retryIntervalSetting = 1 / 2"

definition requestTimeoutInterval :: rat where
  "requestTimeoutInterval = 300"

definition initHttpRequest :: "network_request \<Rightarrow> telemetry_state \<Rightarrow> http_state" where
  "initHttpRequest request t =
     \<lparr>hsRequest = request, hsRetryCounter = retryCountSetting, hsRetryInterval = retryIntervalSetting,
      hsTelemetry = t, hsCache = [], hsWrappers = 0, hsSent = []\<rparr>"

section \<open>Serialising a request\<close>

definition shouldEncodeParametersInURL :: "network_request \<Rightarrow> bool" where
  "shouldEncodeParametersInURL request \<longleftrightarrow> uppercaseString (nqMethod request) \<in> {''GET'', ''HEAD'', ''DELETE''}"

definition serializeWithRequest ::
    "'r http_env \<Rightarrow> network_request \<Rightarrow> (string, string) dict \<Rightarrow> (string, string) dict \<Rightarrow> network_request" where
  "serializeWithRequest E request parameters headers =
     (let (q, requestHeaders) =
        (if parameters = [] then (request, headers)
         else if shouldEncodeParametersInURL request then
           (let inURL = (case msidDictionaryFromURLEncodedString (nuQuery (nqURL request)) False of
                           None \<Rightarrow> [] | Some d \<Rightarrow> d);
                urlParameters = addEntriesFromDictionary inURL parameters
            in (request\<lparr>nqURL := heWithQuery E (nqURL request) (msidEncodeStringFromDictionary urlParameters False)\<rparr>, headers))
         else (request\<lparr>nqBody := msidEncodeStringFromDictionary parameters True\<rparr>,
               dict_put ''Content-Type'' ''application/x-www-form-urlencoded'' headers))
      in q\<lparr>nqHeaders := heAssignHeaders E (nqHeaders q) requestHeaders\<rparr>)"

definition configure :: "'r http_env \<Rightarrow> network_request \<Rightarrow> network_request" where
  "configure E request =
     request\<lparr>nqTimeout := heTimeout E, nqCachePolicy := NSURLRequestReloadIgnoringCacheData\<rparr>"

section \<open>Headers of the interceptor\<close>

definition reserved_prefixes :: "string list" where
  "reserved_prefixes = [''x-ms-'', ''x-client-'', ''x-broker-'', ''x-app-'']"

definition isMissingRequiredXPrefix :: "string \<Rightarrow> bool" where
  "isMissingRequiredXPrefix fieldName \<longleftrightarrow> \<not> hasPrefix (lowercaseString fieldName) ''x-''"

definition reservedPrefixForFieldName :: "string \<Rightarrow> string option" where
  "reservedPrefixForFieldName fieldName = find (hasPrefix (lowercaseString fieldName)) reserved_prefixes"

definition isValidHeaderFieldName :: "string \<Rightarrow> bool" where
  "isValidHeaderFieldName fieldName \<longleftrightarrow>
     \<not> isMissingRequiredXPrefix fieldName \<and> reservedPrefixForFieldName fieldName = None"

definition validHeadersFromHeaders :: "(string, string) dict \<Rightarrow> (string, string) dict" where
  "validHeadersFromHeaders headers = filter (\<lambda>(field, v). isValidHeaderFieldName field) headers"

definition intercept :: "(string, string) dict option \<Rightarrow> network_request \<Rightarrow> network_request" where
  "intercept additionalHeaders request =
     request\<lparr>nqHeaders := fold setHTTPHeader (case additionalHeaders of None \<Rightarrow> [] | Some hs \<Rightarrow> validHeadersFromHeaders hs) (nqHeaders request)\<rparr>"

section \<open>Sending\<close>

definition record_outcome :: "'r http_env \<Rightarrow> created_error option \<Rightarrow> telemetry_state \<Rightarrow> telemetry_state" where
  "record_outcome E error t =
     (case heServerTelemetry E of
        None \<Rightarrow> t
      | Some current \<Rightarrow>
          updateWithApiId (peMaxErrors (hePKeyAuth E)) (ctApiId current)
            (map_option (\<lambda>e. msidServerTelemetryErrorString (errDomain e) (errCode e)) error)
            (peCorrelationId (hePKeyAuth E)) t)"

text \<open>
  The completion of a request that was sent again is the completion of the attempt before it, so calling
  it runs every wrapper before the caller's block.
\<close>

definition complete :: "'r http_env \<Rightarrow> 'r option \<Rightarrow> created_error option \<Rightarrow> http_state \<Rightarrow> 'r outcome" where
  "complete E response error st =
     Completed response error (st\<lparr>hsTelemetry := (record_outcome E error ^^ hsWrappers st) (hsTelemetry st)\<rparr>)"

definition setTelemetryToRequest :: "'r http_env \<Rightarrow> http_state \<Rightarrow> http_state" where
  "setTelemetryToRequest E st =
     (case heServerTelemetry E of
        None \<Rightarrow> st
      | Some current \<Rightarrow>
          (case telemetryString (heLastLimit E) (hsTelemetry st) of
             (lastString, t) \<Rightarrow>
               st\<lparr>hsRequest := (hsRequest st)\<lparr>nqHeaders :=
                    set_optional_header ''x-client-last-telemetry'' (Some lastString)
                      (set_optional_header ''x-client-current-telemetry''
                         (current_telemetryString (peCurrentLimit (hePKeyAuth E)) current) (nqHeaders (hsRequest st)))\<rparr>,
                  hsTelemetry := t\<rparr>))"

definition send_task :: "'r http_env \<Rightarrow> rat \<Rightarrow> http_state \<Rightarrow> 'r outcome" where
  "send_task E delay st =
     (let st' = setTelemetryToRequest E st in Waiting (st'\<lparr>hsSent := hsSent st' @ [(delay, hsRequest st')]\<rparr>))"

definition sendRequestWithCompletionBlock :: "'r http_env \<Rightarrow> rat \<Rightarrow> http_state \<Rightarrow> 'r outcome" where
  "sendRequestWithCompletionBlock E delay st =
     (let key = heCacheKey E (hsRequest st)
      in case (if heShouldCache E then dict_get (hsCache st) key else None) of
           None \<Rightarrow> send_task E delay st
         | Some (response, data) \<Rightarrow>
             (case heSerializer E response data of
                (Some obj, error) \<Rightarrow> complete E (Some obj) error st
              | (None, _) \<Rightarrow> send_task E delay (st\<lparr>hsCache := dict_del key (hsCache st)\<rparr>)))"

definition dealloc_error :: created_error where
  "dealloc_error =
     \<lparr>errDomain = ''MSIDErrorDomain'', errCode = error_internal,
      errUserInfo = [(''NSLocalizedDescription'', NSStr ''HTTP request object was deallocated before completion.'')],
      errUnderlying = None\<rparr>"

definition prepared :: "'r http_env \<Rightarrow> network_request \<Rightarrow> network_request" where
  "prepared E request = serializeWithRequest E (configure E request) (heParameters E) (heHeaders E)"

definition sendWithBlock :: "'r http_env \<Rightarrow> rat \<Rightarrow> http_state \<Rightarrow> 'r outcome" where
  "sendWithBlock E delay st =
     (let st' = st\<lparr>hsRequest := prepared E (hsRequest st)\<rparr>
      in case heInterceptor E of
           None \<Rightarrow> sendRequestWithCompletionBlock E delay st'
         | Some interceptor \<Rightarrow>
             (case interceptor (nqURL (hsRequest st')) of
                AfterDeallocation \<Rightarrow> complete E None (Some dealloc_error) st'
              | AdditionalHeaders additionalHeaders \<Rightarrow>
                  sendRequestWithCompletionBlock E delay (st'\<lparr>hsRequest := intercept additionalHeaders (hsRequest st')\<rparr>)))"

section \<open>Errors\<close>

definition NSURLErrorNotConnectedToInternet :: int where
  "NSURLErrorNotConnectedToInternet = - 1009"

text \<open>Timed out, host not found, cannot connect, connection lost, not connected.\<close>

definition shouldRetryNetworkingFailure :: "int \<Rightarrow> bool" where
  "shouldRetryNetworkingFailure errorCode \<longleftrightarrow>
     errorCode \<in> {- 1001, - 1003, - 1004, - 1005, NSURLErrorNotConnectedToInternet}"

definition server_error :: "int \<Rightarrow> bool" where
  "server_error status \<longleftrightarrow> 500 \<le> status \<and> status \<le> 599"

fun containsString :: "string \<Rightarrow> string \<Rightarrow> bool" where
  "containsString [] p \<longleftrightarrow> p = []"
| "containsString (c # s) p \<longleftrightarrow> hasPrefix (c # s) p \<or> containsString s p"

text \<open>The value of a \<open>WWW-Authenticate\<close> header that asks for the device certificate.\<close>

definition pkeyauth_challenge :: "network_response \<Rightarrow> string option" where
  "pkeyauth_challenge response =
     (if npStatus response \<in> {400, 401} then
        (case Option.bind (dict_get (hrHeaders response) ''WWW-Authenticate'') as_string of
           Some v \<Rightarrow> if \<not> msidIsStringNilOrBlank (Some v) \<and> containsString v ''PKeyAuth'' then Some v else None
         | None \<Rightarrow> None)
      else None)"

definition additional_info :: "network_response \<Rightarrow> string option \<Rightarrow> (string, nsobj) dict" where
  "additional_info response data =
     (let info = [(''MSIDHTTPHeadersKey'', NSDict (hrHeaders response))];
          info = dict_put ''MSIDHTTPResponseCodeKey'' (NSStr (int_str (npStatus response))) info;
          info = (if server_error (npStatus response)
                  then dict_put ''MSIDServerUnavailableStatusKey'' (NSNum 1) info else info)
      in if data \<noteq> Some [] \<and> \<not> msidIsStringNilOrBlank data
         then dict_put ''MSIDHTTPResponseStringKey'' (NSStr (take 10 (the data))) info else info)"

definition http_error :: "'r http_env \<Rightarrow> network_response \<Rightarrow> string option \<Rightarrow> created_error option" where
  "http_error E response data =
     (let description = Some (heStatusText E (npStatus response));
          correlationId = peCorrelationId (hePKeyAuth E);
          underlying = (if npStatus response \<in> {403, 404}
                        then MSIDCreateError (heConverter E) (Some ''MSIDHttpErrorCodeDomain'')
                               (error_code ''MSIDErrorUnexpectedHttpResponse'') description None None None correlationId None
                        else None)
      in MSIDCreateError (heConverter E) (Some ''MSIDHttpErrorCodeDomain'')
           (error_code ''MSIDErrorServerUnhandledResponse'') description None None
           (map_option nserror.truncate underlying) correlationId (Some (additional_info response data)))"

definition retry :: "'r http_env \<Rightarrow> http_state \<Rightarrow> 'r outcome" where
  "retry E st = sendWithBlock E (hsRetryInterval st) (st\<lparr>hsRetryCounter := hsRetryCounter st - 1\<rparr>)"

definition resend_with_authorization :: "'r http_env \<Rightarrow> string \<Rightarrow> http_state \<Rightarrow> 'r outcome" where
  "resend_with_authorization E authHeader st =
     sendWithBlock E 0 (st\<lparr>hsRequest := (hsRequest st)\<lparr>nqHeaders :=
        setHTTPHeader (''Authorization'', authHeader) (nqHeaders (hsRequest st))\<rparr>\<rparr>)"

definition answer_challenge :: "'r http_env \<Rightarrow> string \<Rightarrow> http_state \<Rightarrow> 'r outcome" where
  "answer_challenge E wwwAuthValue st =
     (case handleWwwAuthenticateHeader (hePKeyAuth E) wwwAuthValue
             (Some (heChallengeURL E (nqURL (hsRequest st)))) (hsTelemetry st) of
        None \<Rightarrow> Hung st
      | Some (Inl _) \<Rightarrow> Crashed st
      | Some (Inr ((authHeader, completionError), t)) \<Rightarrow>
          (let st' = st\<lparr>hsTelemetry := t\<rparr>
           in if msidIsStringNilOrBlank authHeader
              then complete E None (map_option (\<lambda>e. nserror.extend e \<lparr>errUnderlying = None\<rparr>) completionError) st'
              else resend_with_authorization E (the authHeader) st'))"

definition handleError ::
    "'r http_env \<Rightarrow> created_error option \<Rightarrow> network_response option \<Rightarrow> string option \<Rightarrow> http_state \<Rightarrow> 'r outcome" where
  "handleError E error httpResponse data st =
     (let shouldRetry = hsRetryCounter st > 0
      in case httpResponse of
           None \<Rightarrow>
             (case error of
                Some e \<Rightarrow>
                  if shouldRetry \<and> shouldRetryNetworkingFailure (errCode e) then
                    retry E (if errCode e = NSURLErrorNotConnectedToInternet then st\<lparr>hsRetryInterval := 2\<rparr> else st)
                  else complete E None error st
              | None \<Rightarrow> complete E None None st)
         | Some response \<Rightarrow>
             if shouldRetry \<and> server_error (npStatus response) then retry E st
             else if npStatus response \<in> {400, 401} then
               (case pkeyauth_challenge response of
                  Some v \<Rightarrow> answer_challenge E v st
                | None \<Rightarrow>
                    (case (case heErrorSerializer E of Some s \<Rightarrow> s | None \<Rightarrow> heSerializer E) response data of
                       (obj, e) \<Rightarrow> complete E obj e st))
             else complete E None (http_error E response data) st)"

definition enrich_with_client_data :: "network_response option \<Rightarrow> created_error \<Rightarrow> created_error" where
  "enrich_with_client_data httpResponse e =
     (case Option.bind httpResponse (\<lambda>r. dict_get (hrHeaders r) ''x-ms-clientdata'') of
        None \<Rightarrow> e
      | Some clientData \<Rightarrow> e\<lparr>errUserInfo := dict_put ''client_data'' clientData (errUserInfo e)\<rparr>)"

text \<open>The completion handler of the data task.\<close>

definition handleReply :: "'r http_env \<Rightarrow> network_reply \<Rightarrow> http_state \<Rightarrow> 'r outcome" where
  "handleReply E reply st0 =
     (let st = st0\<lparr>hsWrappers := Suc (hsWrappers st0)\<rparr>
      in case npError reply of
           Some e \<Rightarrow>
             (let error = Some (enrich_with_client_data (npResponse reply) e)
              in if heHasErrorHandler E then handleError E error None None st else complete E None error st)
         | None \<Rightarrow>
             (case npResponse reply of
                Some response \<Rightarrow>
                  if npStatus response = 200 then
                    (case heSerializer E response (npData reply) of
                       (obj, e) \<Rightarrow>
                         complete E obj e
                           (if obj \<noteq> None \<and> heShouldCache E
                            then st\<lparr>hsCache := dict_put (heCacheKey E (hsRequest st)) (response, npData reply) (hsCache st)\<rparr>
                            else st))
                  else if heHasErrorHandler E then handleError E None (Some response) (npData reply) st
                  else complete E None None st
              | None \<Rightarrow>
                  if heHasErrorHandler E then handleError E None None (npData reply) st else complete E None None st))"

fun exchange :: "'r http_env \<Rightarrow> network_reply list \<Rightarrow> 'r outcome \<Rightarrow> 'r outcome" where
  "exchange E [] result = result"
| "exchange E (reply # replies) result =
     (case result of Waiting st \<Rightarrow> exchange E replies (handleReply E reply st) | _ \<Rightarrow> result)"

definition run_http :: "'r http_env \<Rightarrow> network_reply list \<Rightarrow> http_state \<Rightarrow> 'r outcome" where
  "run_http E replies st = exchange E replies (sendWithBlock E 0 st)"

section \<open>How many times a request is sent\<close>

fun outcome_state :: "'r outcome \<Rightarrow> http_state" where
  "outcome_state (Waiting st) = st"
| "outcome_state (Completed obj error st) = st"
| "outcome_state (Hung st) = st"
| "outcome_state (Crashed st) = st"

fun waits :: "'r outcome \<Rightarrow> bool" where
  "waits (Waiting st) = True"
| "waits _ = False"

fun completes :: "'r outcome \<Rightarrow> bool" where
  "completes (Completed obj error st) = True"
| "completes _ = False"

definition sends :: "'r outcome \<Rightarrow> nat" where
  "sends result = length (hsSent (outcome_state result))"

definition challenge_of :: "network_reply \<Rightarrow> string option" where
  "challenge_of reply = (if npError reply = None then Option.bind (npResponse reply) pkeyauth_challenge else None)"

lemma complete_simps [simp]:
  "waits (complete E obj e st) = False" "completes (complete E obj e st) = True"
  "sends (complete E obj e st) = length (hsSent st)"
  by (simp_all add: complete_def sends_def)

lemma setTelemetryToRequest_simps [simp]:
  "hsSent (setTelemetryToRequest E st) = hsSent st"
  "hsRetryCounter (setTelemetryToRequest E st) = hsRetryCounter st"
  "hsRetryInterval (setTelemetryToRequest E st) = hsRetryInterval st"
  "hsWrappers (setTelemetryToRequest E st) = hsWrappers st"
  "hsCache (setTelemetryToRequest E st) = hsCache st"
  by (simp_all add: setTelemetryToRequest_def split: option.split prod.split)

text \<open>A step either hands one request to the transport and waits, or is over without sending.\<close>

definition one_send :: "'r outcome \<Rightarrow> http_state \<Rightarrow> bool" where
  "one_send result st \<longleftrightarrow>
     (if waits result
      then sends result = Suc (length (hsSent st)) \<and> hsRetryCounter (outcome_state result) = hsRetryCounter st \<and>
           hsWrappers (outcome_state result) = hsWrappers st
      else completes result \<and> sends result = length (hsSent st))"

lemma one_send_cong:
  "one_send result st' \<Longrightarrow> hsSent st' = hsSent st \<Longrightarrow> hsRetryCounter st' = hsRetryCounter st \<Longrightarrow>
   hsWrappers st' = hsWrappers st \<Longrightarrow> one_send result st"
  by (simp add: one_send_def)

lemma one_send_complete [simp]: "one_send (complete E obj e st) st"
  by (simp add: one_send_def)

lemma send_task_one: "one_send (send_task E delay st) st"
  by (simp add: send_task_def one_send_def sends_def Let_def)

lemma sendRequest_one: "one_send (sendRequestWithCompletionBlock E delay st) st"
  unfolding sendRequestWithCompletionBlock_def Let_def
  by (auto split: option.splits prod.splits intro: send_task_one one_send_cong [OF send_task_one])

lemma sendWithBlock_one: "one_send (sendWithBlock E delay st) st"
  unfolding sendWithBlock_def Let_def
  by (auto split: option.splits interceptor_answer.splits
      intro: one_send_cong [OF sendRequest_one] one_send_cong [OF one_send_complete])

lemma sendWithBlock_cases:
  "(\<exists>st'. sendWithBlock E delay st = Waiting st' \<and> length (hsSent st') = Suc (length (hsSent st)) \<and>
      hsRetryCounter st' = hsRetryCounter st \<and> hsWrappers st' = hsWrappers st) \<or>
   completes (sendWithBlock E delay st) \<and> sends (sendWithBlock E delay st) = length (hsSent st)"
  using sendWithBlock_one [of E delay st] by (cases "sendWithBlock E delay st") (auto simp: one_send_def sends_def)

text \<open>
  What a reply may lead to: the request is over; it is a challenge and the request goes out again; or
  an attempt is used up.
\<close>

definition spends :: "'r outcome \<Rightarrow> network_reply \<Rightarrow> http_state \<Rightarrow> bool" where
  "spends result reply st \<longleftrightarrow>
     (if waits result
      then sends result = Suc (length (hsSent st)) \<and>
           (if challenge_of reply \<noteq> None then hsRetryCounter (outcome_state result) = hsRetryCounter st
            else hsRetryCounter st > 0 \<and> hsRetryCounter (outcome_state result) = hsRetryCounter st - 1)
      else sends result = length (hsSent st))"

lemma spends_complete: "hsSent st' = hsSent st \<Longrightarrow> spends (complete E obj e st') reply st"
  by (simp add: spends_def)

lemma spends_over:
  "hsSent st' = hsSent st \<Longrightarrow> spends (Hung st') reply st"
  "hsSent st' = hsSent st \<Longrightarrow> spends (Crashed st') reply st"
  by (simp_all add: spends_def sends_def)

lemma spends_retry:
  "hsRetryCounter st > 0 \<Longrightarrow> challenge_of reply = None \<Longrightarrow> hsSent st' = hsSent st \<Longrightarrow>
   hsRetryCounter st' = hsRetryCounter st \<Longrightarrow> spends (retry E st') reply st"
  using sendWithBlock_one [of E "hsRetryInterval st'" "st'\<lparr>hsRetryCounter := hsRetryCounter st' - 1\<rparr>"]
  by (auto simp: retry_def spends_def one_send_def split: if_splits)

lemma challenge_not_server_error: "pkeyauth_challenge response = Some v \<Longrightarrow> \<not> server_error (npStatus response)"
  by (auto simp: pkeyauth_challenge_def server_error_def split: if_splits)

lemma spends_answer:
  assumes "challenge_of reply \<noteq> None" "hsSent st' = hsSent st" "hsRetryCounter st' = hsRetryCounter st"
  shows "spends (answer_challenge E v st') reply st"
proof -
  have "spends (resend_with_authorization E h (st'\<lparr>hsTelemetry := t\<rparr>)) reply st" for h t
    using assms sendWithBlock_one [of E 0 "st'\<lparr>hsTelemetry := t, hsRequest := (hsRequest st')\<lparr>nqHeaders :=
        setHTTPHeader (''Authorization'', h) (nqHeaders (hsRequest st'))\<rparr>\<rparr>"]
    by (auto simp: resend_with_authorization_def spends_def one_send_def split: if_splits)
  then show ?thesis
    using assms
    by (auto simp: answer_challenge_def Let_def spends_complete spends_over
        split: option.splits sum.splits prod.splits)
qed

lemma handleReply_spends: "spends (handleReply E reply st) reply st"
proof -
  let ?st = "st\<lparr>hsWrappers := Suc (hsWrappers st)\<rparr>"
  have complete: "spends (complete E obj e ?st) reply st" for obj e by (rule spends_complete) simp
  show ?thesis
  proof (cases "npError reply")
    case (Some e)
    then have "challenge_of reply = None" by (simp add: challenge_of_def)
    with Some complete show ?thesis
      by (auto simp: handleReply_def handleError_def Let_def intro!: spends_retry)
  next
    case None
    show ?thesis
    proof (cases "npResponse reply")
      case (Some response)
      have ch: "challenge_of reply = pkeyauth_challenge response" using None Some by (simp add: challenge_of_def)
      have "spends (handleError E None (Some response) d ?st) reply st" for d
        using ch complete challenge_not_server_error [of response]
        by (auto simp: handleError_def Let_def spends_retry spends_answer pkeyauth_challenge_def
            split: option.split prod.split)
      with None Some complete show ?thesis
        by (auto simp: handleReply_def Let_def intro!: spends_complete split: prod.split)
    next
      case None': None
      with None complete show ?thesis by (auto simp: handleReply_def handleError_def Let_def)
    qed
  qed
qed

lemma exchange_over: "\<not> waits result \<Longrightarrow> exchange E replies result = result"
  by (induction replies) (auto split: outcome.split)

definition challenges :: "network_reply list \<Rightarrow> nat" where
  "challenges replies = length (filter (\<lambda>r. challenge_of r \<noteq> None) replies)"

lemma challenges_simps [simp]:
  "challenges [] = 0"
  "challenges (r # rs) = (if challenge_of r \<noteq> None then Suc (challenges rs) else challenges rs)"
  by (simp_all add: challenges_def)

lemma exchange_budget:
  "sends (exchange E replies (Waiting st)) \<le> length (hsSent st) + nat (hsRetryCounter st) + challenges replies \<and>
   (waits (exchange E replies (Waiting st)) \<longrightarrow> length replies \<le> nat (hsRetryCounter st) + challenges replies)"
proof (induction replies arbitrary: st)
  case Nil
  then show ?case by (simp add: sends_def)
next
  case (Cons r replies)
  from handleReply_spends [of E r st] have s: "spends (handleReply E r st) r st" .
  show ?case
  proof (cases "handleReply E r st")
    case (Waiting st')
    with s have "length (hsSent st') = Suc (length (hsSent st))"
      "if challenge_of r \<noteq> None then hsRetryCounter st' = hsRetryCounter st
       else hsRetryCounter st > 0 \<and> hsRetryCounter st' = hsRetryCounter st - 1"
      by (auto simp: spends_def sends_def)
    with Cons.IH [of st'] Waiting show ?thesis by (auto split: if_splits)
  qed (use s in \<open>auto simp: exchange_over spends_def\<close>)
qed

text \<open>A challenge that can be parsed neither hangs nor crashes the request.\<close>

definition readable :: "string \<Rightarrow> bool" where
  "readable v \<longleftrightarrow> (case parseAuthHeader (Some v) of Some (Inr _) \<Rightarrow> True | _ \<Rightarrow> False)"

lemma readable_answer:
  assumes "readable v"
  obtains h t where "answer_challenge E v st = resend_with_authorization E h (st\<lparr>hsTelemetry := t\<rparr>)"
    "hasPrefix h ''PKeyAuth ''"
proof -
  from assms obtain p where p: "parseAuthHeader (Some v) = Some (Inr p)"
    by (auto simp: readable_def split: option.splits sum.splits)
  obtain h t where c: "createDeviceAuthResponse (hePKeyAuth E)
      (Some (heChallengeURL E (nqURL (hsRequest st)))) p (hsTelemetry st) = (h, t)" by (meson surj_pair)
  then have h: "hasPrefix h ''PKeyAuth ''"
    by (auto simp: createDeviceAuthResponse_def Let_def hasPrefix_def)
  then have "\<not> msidIsStringNilOrBlank (Some h)"
    by (cases h) (auto simp: hasPrefix_def msidIsStringNilOrBlank_def whitespaceAndNewline_def)
  with p c h that show thesis by (auto simp: answer_challenge_def handleWwwAuthenticateHeader_def)
qed


definition proceeds :: "'r outcome \<Rightarrow> bool" where
  "proceeds result \<longleftrightarrow> waits result \<or> completes result"

lemma proceeds_complete [simp]: "proceeds (complete E obj e st)"
  by (simp add: proceeds_def)

lemma proceeds_send [simp]: "proceeds (sendWithBlock E delay st)"
  using sendWithBlock_one [of E delay st] by (auto simp: proceeds_def one_send_def split: if_splits)

lemma proceeds_retry [simp]: "proceeds (retry E st)" "proceeds (resend_with_authorization E h st)"
  by (simp_all add: retry_def resend_with_authorization_def)

lemma handleReply_proceeds:
  assumes "\<And>v. challenge_of reply = Some v \<Longrightarrow> readable v"
  shows "proceeds (handleReply E reply st)"
proof -
  have answer: "proceeds (answer_challenge E v st')" if "challenge_of reply = Some v" for v st'
    by (rule readable_answer [OF assms [OF that], of E st']) simp
  have handle: "proceeds (handleError E e r d st')"
    if "\<And>response. r = Some response \<Longrightarrow> pkeyauth_challenge response = challenge_of reply" for e r d st'
    using answer that by (auto simp: handleError_def Let_def split: option.split prod.split)
  show ?thesis
    using handle by (auto simp: handleReply_def Let_def challenge_of_def split: option.split prod.split)
qed

lemma exchange_proceeds:
  assumes "\<And>reply v. reply \<in> set replies \<Longrightarrow> challenge_of reply = Some v \<Longrightarrow> readable v"
    and "proceeds result"
  shows "proceeds (exchange E replies result)"
  using assms
proof (induction replies arbitrary: result)
  case (Cons r replies)
  from Cons.prems(1) have "proceeds (handleReply E r st)" for st by (auto intro: handleReply_proceeds)
  with Cons show ?case by (cases result) auto
qed simp

section \<open>Headers an interceptor may set\<close>

lemma lowercase_valid: "isValidHeaderFieldName (lowercaseString f) = isValidHeaderFieldName f"
  by (simp add: isValidHeaderFieldName_def isMissingRequiredXPrefix_def reservedPrefixForFieldName_def)

lemma set_headers_other:
  assumes "\<And>k v. (k, v) \<in> set kvs \<Longrightarrow> lowercaseString k \<noteq> f"
  shows "dict_get (fold setHTTPHeader kvs hs) f = dict_get hs f"
  using assms
proof (induction kvs arbitrary: hs)
  case (Cons kv kvs)
  then have "dict_get (setHTTPHeader kv hs) f = dict_get hs f"
    by (cases kv) (auto simp: setHTTPHeader_def)
  moreover have "dict_get (fold setHTTPHeader kvs (setHTTPHeader kv hs)) f = dict_get (setHTTPHeader kv hs) f"
    using Cons.prems by (intro Cons.IH) auto
  ultimately show ?case by simp
qed simp

lemma intercept_protected:
  assumes "\<not> isValidHeaderFieldName f"
  shows "dict_get (nqHeaders (intercept hs request)) f = dict_get (nqHeaders request) f"
proof -
  have "lowercaseString k \<noteq> f" if "(k, v) \<in> set (validHeadersFromHeaders d)" for k v d
    using that assms lowercase_valid [of k] by (auto simp: validHeadersFromHeaders_def)
  then show ?thesis by (auto simp: intercept_def intro!: set_headers_other split: option.split)
qed

lemma intercept_frame [simp]:
  "nqURL (intercept hs request) = nqURL request" "nqMethod (intercept hs request) = nqMethod request"
  "nqBody (intercept hs request) = nqBody request" "nqTimeout (intercept hs request) = nqTimeout request"
  "nqCachePolicy (intercept hs request) = nqCachePolicy request"
  by (simp_all add: intercept_def)

text \<open>Two requests that differ in headers an interceptor may set at most.\<close>

definition same_but_extra :: "network_request \<Rightarrow> network_request \<Rightarrow> bool" where
  "same_but_extra q r \<longleftrightarrow> nqURL q = nqURL r \<and> nqMethod q = nqMethod r \<and> nqBody q = nqBody r \<and>
     nqTimeout q = nqTimeout r \<and> nqCachePolicy q = nqCachePolicy r \<and>
     (\<forall>f. \<not> isValidHeaderFieldName f \<longrightarrow> dict_get (nqHeaders q) f = dict_get (nqHeaders r) f)"

lemma same_but_extra_refl [simp]: "same_but_extra q q"
  by (simp add: same_but_extra_def)

lemma same_intercept: "same_but_extra (intercept hs request) request"
  by (simp add: same_but_extra_def intercept_protected)

lemma dict_get_set_optional: "field \<noteq> [] \<Longrightarrow> dict_get (set_optional_header field vo hs) =
    (dict_get hs)(lowercaseString field := vo)"
  by (auto simp: set_optional_header_def setHTTPHeader_def split: option.split)

lemma same_setTelemetry:
  assumes "same_but_extra (hsRequest s) (hsRequest s')" "hsTelemetry s = hsTelemetry s'"
  shows "same_but_extra (hsRequest (setTelemetryToRequest E s)) (hsRequest (setTelemetryToRequest E s'))"
  using assms
  by (auto simp: setTelemetryToRequest_def same_but_extra_def dict_get_set_optional split: option.split prod.split)

lemma sendRequest_waiting:
  assumes "sendRequestWithCompletionBlock E delay st = Waiting st'"
  shows "hsSent st' \<noteq> [] \<and> snd (last (hsSent st')) = hsRequest (setTelemetryToRequest E st)"
proof -
  have t: "hsRequest (setTelemetryToRequest E (st\<lparr>hsCache := c\<rparr>)) = hsRequest (setTelemetryToRequest E st)" for c
    by (simp add: setTelemetryToRequest_def split: option.split prod.split)
  show ?thesis
    using assms
    by (auto simp: sendRequestWithCompletionBlock_def send_task_def complete_def Let_def t
        split: option.splits prod.splits)
qed

lemma sendWithBlock_request:
  assumes "sendWithBlock E delay st = Waiting st'"
  shows "same_but_extra (snd (last (hsSent st')))
    (hsRequest (setTelemetryToRequest E (st\<lparr>hsRequest := prepared E (hsRequest st)\<rparr>)))"
proof (cases "heInterceptor E")
  case None
  then show ?thesis
    using assms sendRequest_waiting [of E delay "st\<lparr>hsRequest := prepared E (hsRequest st)\<rparr>" st']
    by (simp add: sendWithBlock_def)
next
  case (Some i)
  then obtain hs where "sendRequestWithCompletionBlock E delay
      (st\<lparr>hsRequest := intercept hs (prepared E (hsRequest st))\<rparr>) = Waiting st'"
    using assms by (auto simp: sendWithBlock_def complete_def Let_def split: interceptor_answer.splits)
  then have "snd (last (hsSent st')) = hsRequest (setTelemetryToRequest E (st\<lparr>hsRequest := intercept hs (prepared E (hsRequest st))\<rparr>))"
    using sendRequest_waiting by blast
  then show ?thesis by (auto intro!: same_setTelemetry same_intercept)
qed

lemma without_interceptor [simp]:
  "setTelemetryToRequest (E\<lparr>heInterceptor := i\<rparr>) st = setTelemetryToRequest E st"
  "prepared (E\<lparr>heInterceptor := i\<rparr>) request = prepared E request"
  by (cases "heServerTelemetry E"; simp add: setTelemetryToRequest_def split: prod.split)
    (simp add: prepared_def serializeWithRequest_def configure_def)

lemma same_but_extra_via: "same_but_extra q p \<Longrightarrow> same_but_extra r p \<Longrightarrow> same_but_extra q r"
  by (simp add: same_but_extra_def)

section \<open>What the telemetry learns\<close>

definition newest :: "nat \<Rightarrow> 'a list \<Rightarrow> 'a list" where
  "newest m es = drop (length es - m) es"

lemma newest_snoc: "newest m (newest m es @ [e]) = newest m (es @ [e])"
  by (cases "m \<le> length es") (auto simp: newest_def Suc_diff_le)

lemma errors_addErrorInfo: "errorsInfo_copy (addErrorInfo m e t) = newest m (errorsInfo_copy t @ [e])"
  by (simp add: errorsInfo_copy_def addErrorInfo_def saveTelemetryToDisk_def Let_def newest_def)

lemma errors_addErrorInfo_funpow:
  "errorsInfo_copy ((addErrorInfo m e ^^ Suc n) t) = newest m (errorsInfo_copy t @ replicate (Suc n) e)"
proof (induction n)
  case (Suc n)
  have "errorsInfo_copy ((addErrorInfo m e ^^ Suc (Suc n)) t) =
      newest m (errorsInfo_copy ((addErrorInfo m e ^^ Suc n) t) @ [e])"
    unfolding funpow.simps o_apply by (rule errors_addErrorInfo)
  also have "\<dots> = newest m ((errorsInfo_copy t @ replicate (Suc n) e) @ [e])" unfolding Suc.IH newest_snoc ..
  finally show ?case by (metis append_assoc replicate_Suc replicate_append_same)
qed (simp add: errors_addErrorInfo)

lemma errors_telemetryString [simp]: "errorsInfo_copy (snd (telemetryString limit t)) = errorsInfo_copy t"
  by (simp add: errorsInfo_copy_def telemetryString_def split: prod.split)

lemma errors_setTelemetry [simp]:
  "errorsInfo_copy (hsTelemetry (setTelemetryToRequest E st)) = errorsInfo_copy (hsTelemetry st)"
proof -
  have "errorsInfo_copy t = errorsInfo_copy (hsTelemetry st)"
    if "telemetryString (heLastLimit E) (hsTelemetry st) = (x, t)" for x t
    using errors_telemetryString [of "heLastLimit E" "hsTelemetry st"] that by simp
  then show ?thesis by (simp add: setTelemetryToRequest_def split: option.split prod.split)
qed

definition recorded :: "'r http_env \<Rightarrow> current_telemetry \<Rightarrow> created_error \<Rightarrow> error_info" where
  "recorded E current e =
     \<lparr>reApiId = ctApiId current, reCorrelationId = peCorrelationId (hePKeyAuth E),
      reError = Some (msidServerTelemetryErrorString (errDomain e) (errCode e))\<rparr>"

lemma record_outcome_error:
  "heServerTelemetry E = Some current \<Longrightarrow>
   record_outcome E (Some e) = addErrorInfo (peMaxErrors (hePKeyAuth E)) (recorded E current e)"
  by (simp add: fun_eq_iff record_outcome_def updateWithApiId_def recorded_def)

definition failed_connection :: "created_error \<Rightarrow> network_reply" where
  "failed_connection e = \<lparr>npResponse = None, npData = None, npError = Some e\<rparr>"

section \<open>The properties of a request\<close>

definition sample_request :: network_request where
  "sample_request =
     \<lparr>nqURL = \<lparr>nuScheme = Some ''https'', nuHost = Some ''h'', nuQuery = None, nuItems = []\<rparr>, nqMethod = ''POST'',
      nqHeaders = [], nqBody = None, nqTimeout = 60, nqCachePolicy = NSURLRequestUseProtocolCachePolicy\<rparr>"

definition sample_pkey :: pkey_env where
  "sample_pkey =
     \<lparr>peSSOKeys = None, peKeys = (\<lambda>t. None), peSign = (\<lambda>j i. None), peNow = 0, peADFS = (\<lambda>u. False),
      peURLWithString = (\<lambda>s. None), peVersion = None, peV2Group = False, peCorrelationId = Some ''c'',
      peMaxErrors = 75, peCurrentLimit = 100\<rparr>"

text \<open>An environment whose interceptor tries to set the authorization of the request.\<close>

definition sample_http :: "string http_env" where
  "sample_http =
     \<lparr>heParameters = [(''a'', ''b'')], heHeaders = [], heTimeout = 300, heWithQuery = (\<lambda>u q. u\<lparr>nuQuery := q\<rparr>),
      heAssignHeaders = (\<lambda>old new. fold setHTTPHeader new []),
      heInterceptor = Some (\<lambda>u. AdditionalHeaders (Some [(''X-Mine'', ''1''), (''Authorization'', ''evil''), (''x-client-Ver'', ''9'')])),
      heShouldCache = False, heCacheKey = (\<lambda>q. ''k''), heSerializer = (\<lambda>r d. (d, None)), heErrorSerializer = None,
      heHasErrorHandler = True,
      heServerTelemetry = Some (initCurrentTelemetry 7 TokenCacheRefreshTypeNoCachedAT None), heLastLimit = 350,
      heChallengeURL = (\<lambda>u. \<lparr>cuBase = ''b'', cuHost = nuHost u, cuItems = []\<rparr>), hePKeyAuth = sample_pkey,
      heConverter = None, heStatusText = (\<lambda>c. ''s'')\<rparr>"

definition sample_state :: http_state where
  "sample_state = initHttpRequest sample_request (telemetry_start (\<lambda>es. None) NoFile)"

text \<open>
  C9: An interceptor of the application cannot change what the library puts into a request: whatever it
  answers, the request handed to the transport has the URL, the method, the body and every header field
  it has without the interceptor, except fields that begin with \<open>x-\<close> and with none of the reserved
  prefixes.
\<close>

theorem interceptor_is_confined:
  assumes "sendWithBlock E delay st = Waiting st1"
    and "sendWithBlock (E\<lparr>heInterceptor := None\<rparr>) delay st = Waiting st2"
    and "\<not> (hasPrefix f ''x-'' \<and> (\<forall>p\<in>set reserved_prefixes. \<not> hasPrefix f p))" "lowercaseString f = f"
  shows "nqURL (snd (last (hsSent st1))) = nqURL (snd (last (hsSent st2))) \<and>
    nqMethod (snd (last (hsSent st1))) = nqMethod (snd (last (hsSent st2))) \<and>
    nqBody (snd (last (hsSent st1))) = nqBody (snd (last (hsSent st2))) \<and>
    dict_get (nqHeaders (snd (last (hsSent st1)))) f = dict_get (nqHeaders (snd (last (hsSent st2)))) f"
proof -
  have "\<not> isValidHeaderFieldName f"
    using assms(3,4)
    by (auto simp: isValidHeaderFieldName_def isMissingRequiredXPrefix_def reservedPrefixForFieldName_def find_None_iff)
  moreover have "same_but_extra (snd (last (hsSent st1))) (snd (last (hsSent st2)))"
    using sendWithBlock_request [OF assms(1)] sendWithBlock_request [OF assms(2)]
    by (auto intro: same_but_extra_via)
  ultimately show ?thesis by (simp add: same_but_extra_def)
qed

text \<open>
  C11: A request comes to an end: when the challenges among the replies can be parsed and there are more
  other replies than retries allowed, the caller's block is called, after at most one request, the
  retries and one resend for every challenge.
\<close>

theorem every_request_completes:
  assumes "\<forall>reply\<in>set replies. \<forall>v. challenge_of reply = Some v \<longrightarrow> readable v"
    and "nat (hsRetryCounter st) + challenges replies < length replies"
  shows "\<exists>obj error st'. run_http E replies st = Completed obj error st' \<and>
    length (hsSent st') \<le> length (hsSent st) + 1 + nat (hsRetryCounter st) + challenges replies"
proof -
  let ?result = "run_http E replies st"
  have "proceeds ?result"
    unfolding run_http_def using assms(1) by (intro exchange_proceeds) auto
  moreover have "\<not> waits ?result \<and> sends ?result \<le> length (hsSent st) + 1 + nat (hsRetryCounter st) + challenges replies"
  proof (cases "sendWithBlock E 0 st")
    case (Waiting st1)
    from sendWithBlock_one [of E 0 st, unfolded Waiting] have "length (hsSent st1) = Suc (length (hsSent st))" "hsRetryCounter st1 = hsRetryCounter st"
      by (simp_all add: one_send_def sends_def)
    with exchange_budget [of E replies st1] assms(2) Waiting show ?thesis by (auto simp: run_http_def)
  qed (use sendWithBlock_one [of E 0 st] in \<open>auto simp: run_http_def exchange_over one_send_def\<close>)
  ultimately show ?thesis by (cases ?result) (auto simp: proceeds_def sends_def)
qed

lemma every_request_completes_witness:
  "\<exists>obj error st'.
     run_http sample_http [\<lparr>npResponse = None, npData = None, npError = Some dealloc_error\<rparr>,
       \<lparr>npResponse = Some \<lparr>hrHeaders = [], hrURL = None, npStatus = 503\<rparr>, npData = None, npError = None\<rparr>] sample_state =
     Completed obj error st' \<and> length (hsSent st') \<le> 2"
  using every_request_completes [of "[\<lparr>npResponse = None, npData = None, npError = Some dealloc_error\<rparr>,
       \<lparr>npResponse = Some \<lparr>hrHeaders = [], hrURL = None, npStatus = 503\<rparr>, npData = None, npError = None\<rparr>]" sample_state sample_http]
  by (simp add: challenge_of_def pkeyauth_challenge_def sample_state_def initHttpRequest_def retryCountSetting_def
      numeral_2_eq_2)

lemma interceptor_is_confined_witness:
  "\<exists>st1 st2. sendWithBlock sample_http 0 sample_state = Waiting st1 \<and>
     sendWithBlock (sample_http\<lparr>heInterceptor := None\<rparr>) 0 sample_state = Waiting st2 \<and>
     dict_get (nqHeaders (snd (last (hsSent st1)))) ''x-mine'' = Some ''1'' \<and>
     dict_get (nqHeaders (snd (last (hsSent st1)))) ''authorization'' =
       dict_get (nqHeaders (snd (last (hsSent st2)))) ''authorization''"
proof -
  let ?r1 = "sendWithBlock sample_http 0 sample_state"
  let ?r2 = "sendWithBlock (sample_http\<lparr>heInterceptor := None\<rparr>) 0 sample_state"
  have "waits ?r1 \<and> dict_get (nqHeaders (snd (last (hsSent (outcome_state ?r1))))) ''x-mine'' = Some ''1''" by code_simp
  then obtain st1 where st1: "?r1 = Waiting st1" "dict_get (nqHeaders (snd (last (hsSent st1)))) ''x-mine'' = Some ''1''"
    by (cases ?r1) auto
  have "waits ?r2" by code_simp
  then obtain st2 where st2: "?r2 = Waiting st2" by (cases ?r2) auto
  have "\<not> hasPrefix ''authorization'' ''x-''" "lowercaseString ''authorization'' = ''authorization''" by code_simp+
  with interceptor_is_confined [OF st1(1) st2, of "''authorization''"] st1 st2 show ?thesis by blast
qed

text \<open>
  Nothing bounds how often a challenge is answered: a server that answers every request with a
  challenge keeps the request going for ever, one resend for each, and the caller's block is never called.
\<close>

theorem endless_challenges_are_answered:
  assumes "heHasErrorHandler E" "\<not> heShouldCache E" "heInterceptor E = None"
    and "challenge_of reply = Some v" "readable v"
  shows "\<exists>st'. run_http E (replicate n reply) st = Waiting st' \<and> length (hsSent st') = length (hsSent st) + 1 + n"
proof -
  have send: "\<exists>st'. sendWithBlock E d s = Waiting st' \<and> length (hsSent st') = Suc (length (hsSent s))" for d s
    using assms(2,3) by (simp add: sendWithBlock_def sendRequestWithCompletionBlock_def send_task_def Let_def)
  from assms(4) obtain response where r: "npError reply = None" "npResponse reply = Some response"
      "pkeyauth_challenge response = Some v"
    by (cases "npResponse reply") (auto simp: challenge_of_def split: if_splits)
  then have status: "npStatus response \<in> {400, 401}" by (auto simp: pkeyauth_challenge_def split: if_splits)
  then have "npStatus response \<noteq> 200" by auto
  with r status challenge_not_server_error [OF r(3)] assms(1)
  have reply: "handleReply E reply s = answer_challenge E v (s\<lparr>hsWrappers := Suc (hsWrappers s)\<rparr>)" for s
    by (simp add: handleReply_def handleError_def Let_def)
  have step: "\<exists>st'. handleReply E reply s = Waiting st' \<and> length (hsSent st') = Suc (length (hsSent s))" for s
    unfolding reply
  proof (rule readable_answer [OF assms(5), of E "s\<lparr>hsWrappers := Suc (hsWrappers s)\<rparr>"])
    fix h t
    assume "answer_challenge E v (s\<lparr>hsWrappers := Suc (hsWrappers s)\<rparr>) =
        resend_with_authorization E h (s\<lparr>hsWrappers := Suc (hsWrappers s), hsTelemetry := t\<rparr>)"
    then show "\<exists>st'. answer_challenge E v (s\<lparr>hsWrappers := Suc (hsWrappers s)\<rparr>) = Waiting st' \<and>
        length (hsSent st') = Suc (length (hsSent s))"
      using send [of 0 "s\<lparr>hsWrappers := Suc (hsWrappers s), hsTelemetry := t, hsRequest := (hsRequest s)\<lparr>nqHeaders :=
          setHTTPHeader (''Authorization'', h) (nqHeaders (hsRequest s))\<rparr>\<rparr>"]
      by (simp add: resend_with_authorization_def)
  qed
  have again: "\<exists>st'. exchange E (replicate n reply) (Waiting s) = Waiting st' \<and> length (hsSent st') = length (hsSent s) + n" for s
  proof (induction n arbitrary: s)
    case (Suc n)
    from step [of s] obtain s' where "handleReply E reply s = Waiting s'" "length (hsSent s') = Suc (length (hsSent s))" by blast
    with Suc.IH [of s'] show ?case by auto
  qed simp
  obtain st1 where "sendWithBlock E 0 st = Waiting st1" "length (hsSent st1) = Suc (length (hsSent st))"
    using send [of 0 st] by blast
  with again [of st1] show ?thesis by (simp add: run_http_def)
qed

definition sample_challenge :: network_reply where
  "sample_challenge =
     \<lparr>npResponse = Some \<lparr>hrHeaders = [(''WWW-Authenticate'', NSStr ''PKeyAuth '')], hrURL = None, npStatus = 401\<rparr>,
      npData = None, npError = None\<rparr>"

lemma endless_challenges_are_answered_witness:
  "\<exists>st'. run_http (sample_http\<lparr>heInterceptor := None\<rparr>) (replicate 3 sample_challenge) sample_state = Waiting st' \<and>
     length (hsSent st') = 4"
proof -
  have "challenge_of sample_challenge = Some ''PKeyAuth ''" by code_simp
  moreover have "readable ''PKeyAuth ''"
    by (simp add: readable_def parseAuthHeader_def parse_params.simps)
  ultimately show ?thesis
    using endless_challenges_are_answered [of "sample_http\<lparr>heInterceptor := None\<rparr>" sample_challenge "''PKeyAuth ''" 3 sample_state]
    by (simp add: sample_http_def sample_state_def initHttpRequest_def)
qed

text \<open>
  The outcome of a request is recorded once for every attempt: the completion of a retry is the
  wrapped completion of the attempt before, so when every attempt fails to connect, the error of the last
  one is added to the telemetry as many times as the request was sent (and the oldest are dropped above
  the limit).
\<close>

theorem outcome_recorded_per_attempt:
  assumes "heHasErrorHandler E" "\<not> heShouldCache E" "heInterceptor E = None"
    and telemetry: "heServerTelemetry E = Some current" and code: "shouldRetryNetworkingFailure (errCode e)"
    and "hsRetryCounter st = int n" "hsWrappers st = 0"
  shows "\<exists>st'. run_http E (replicate (Suc n) (failed_connection e)) st = Completed None (Some e) st' \<and>
    errorsInfo_copy (hsTelemetry st') =
      newest (peMaxErrors (hePKeyAuth E)) (errorsInfo_copy (hsTelemetry st) @ replicate (Suc n) (recorded E current e))"
proof -
  have send: "\<exists>s'. sendWithBlock E d s = Waiting s' \<and> hsRetryCounter s' = hsRetryCounter s \<and> hsWrappers s' = hsWrappers s \<and>
      errorsInfo_copy (hsTelemetry s') = errorsInfo_copy (hsTelemetry s)" for d s
    using assms(2,3) by (simp add: sendWithBlock_def sendRequestWithCompletionBlock_def send_task_def Let_def)
  have reply: "handleReply E (failed_connection e) s =
      (if hsRetryCounter s > 0
       then retry E (if errCode e = NSURLErrorNotConnectedToInternet
                     then s\<lparr>hsWrappers := Suc (hsWrappers s), hsRetryInterval := 2\<rparr> else s\<lparr>hsWrappers := Suc (hsWrappers s)\<rparr>)
       else complete E None (Some e) (s\<lparr>hsWrappers := Suc (hsWrappers s)\<rparr>))" for s
    using assms(1) code
    by (simp add: handleReply_def handleError_def failed_connection_def enrich_with_client_data_def Let_def)
  have "\<exists>s'. exchange E (replicate (Suc n) (failed_connection e)) (Waiting s) = Completed None (Some e) s' \<and>
      errorsInfo_copy (hsTelemetry s') = newest (peMaxErrors (hePKeyAuth E))
        (errorsInfo_copy (hsTelemetry s) @ replicate (Suc (hsWrappers s + n)) (recorded E current e))"
    if "hsRetryCounter s = int n" for s
    using that
  proof (induction n arbitrary: s)
    case 0
    then have h: "handleReply E (failed_connection e) s = complete E None (Some e) (s\<lparr>hsWrappers := Suc (hsWrappers s)\<rparr>)"
      by (simp add: reply)
    have one: "replicate (Suc 0) (failed_connection e) = [failed_connection e]" by simp
    show ?case
      unfolding one exchange.simps outcome.case h complete_def record_outcome_error [OF telemetry]
      by (simp add: errors_addErrorInfo_funpow del: funpow.simps replicate_Suc)
  next
    case (Suc n)
    let ?s = "if errCode e = NSURLErrorNotConnectedToInternet
              then s\<lparr>hsWrappers := Suc (hsWrappers s), hsRetryInterval := 2\<rparr> else s\<lparr>hsWrappers := Suc (hsWrappers s)\<rparr>"
    obtain s' where s': "retry E ?s = Waiting s'" "hsRetryCounter s' = hsRetryCounter ?s - 1" "hsWrappers s' = hsWrappers ?s"
        "errorsInfo_copy (hsTelemetry s') = errorsInfo_copy (hsTelemetry ?s)"
      using send [of "hsRetryInterval ?s" "?s\<lparr>hsRetryCounter := hsRetryCounter ?s - 1\<rparr>"] by (auto simp: retry_def)
    then have h: "handleReply E (failed_connection e) s = Waiting s'" using Suc.prems by (simp add: reply)
    from s' Suc.prems have s2: "hsRetryCounter s' = int n" "hsWrappers s' = Suc (hsWrappers s)"
        "errorsInfo_copy (hsTelemetry s') = errorsInfo_copy (hsTelemetry s)" by (auto split: if_splits)
    from Suc.IH [OF s2(1)] s2(2,3) have "\<exists>s''. exchange E (replicate (Suc n) (failed_connection e)) (Waiting s') = Completed None (Some e) s'' \<and>
        errorsInfo_copy (hsTelemetry s'') = newest (peMaxErrors (hePKeyAuth E))
          (errorsInfo_copy (hsTelemetry s) @ replicate (Suc (Suc (hsWrappers s) + n)) (recorded E current e))" by simp
    then show ?case by (subst replicate_Suc) (simp add: h del: replicate_Suc)
  qed
  moreover obtain s where "sendWithBlock E 0 st = Waiting s" "hsRetryCounter s = int n" "hsWrappers s = 0"
      "errorsInfo_copy (hsTelemetry s) = errorsInfo_copy (hsTelemetry st)"
    using send [of 0 st] assms(6,7) by auto
  ultimately show ?thesis unfolding run_http_def by (metis add_0)
qed

definition timed_out :: created_error where
  "timed_out = \<lparr>errDomain = ''NSURLErrorDomain'', errCode = - 1001, errUserInfo = [], errUnderlying = None\<rparr>"

lemma outcome_recorded_per_attempt_witness:
  "\<exists>st'. run_http (sample_http\<lparr>heInterceptor := None\<rparr>) (replicate 2 (failed_connection timed_out)) sample_state =
       Completed None (Some timed_out) st' \<and>
     map reError (errorsInfo_copy (hsTelemetry st')) = [Some ''NSURLErrorDomain_-1001'', Some ''NSURLErrorDomain_-1001'']"
proof -
  let ?E = "sample_http\<lparr>heInterceptor := None\<rparr>"
  let ?current = "initCurrentTelemetry 7 TokenCacheRefreshTypeNoCachedAT None"
  have "heHasErrorHandler ?E" "\<not> heShouldCache ?E" "heInterceptor ?E = None" "heServerTelemetry ?E = Some ?current"
    by (simp_all add: sample_http_def)
  moreover have "shouldRetryNetworkingFailure (errCode timed_out)" by code_simp
  moreover have "hsRetryCounter sample_state = int 1" "hsWrappers sample_state = 0"
    by (simp_all add: sample_state_def initHttpRequest_def retryCountSetting_def)
  ultimately have "\<exists>st'. run_http ?E (replicate (Suc 1) (failed_connection timed_out)) sample_state =
        Completed None (Some timed_out) st' \<and>
      errorsInfo_copy (hsTelemetry st') = newest (peMaxErrors (hePKeyAuth ?E))
        (errorsInfo_copy (hsTelemetry sample_state) @ replicate (Suc 1) (recorded ?E ?current timed_out))"
    by (rule outcome_recorded_per_attempt)
  moreover have "map reError (newest (peMaxErrors (hePKeyAuth ?E))
      (errorsInfo_copy (hsTelemetry sample_state) @ replicate (Suc 1) (recorded ?E ?current timed_out))) =
      [Some ''NSURLErrorDomain_-1001'', Some ''NSURLErrorDomain_-1001'']" by code_simp
  ultimately show ?thesis by (auto simp: numeral_2_eq_2 simp del: replicate_Suc)
qed

text \<open>
  \<open>allHTTPHeaderFields\<close> is documented to replace the header fields of a request. Were it so, the
  answer to a challenge would never reach the server: the resend serialises the request again.
\<close>

lemma authorization_lost_when_replaced:
  assumes "heAssignHeaders E = (\<lambda>old new. fold setHTTPHeader new [])"
    and "''authorization'' \<notin> lowercaseString ` set (dict_keys (heHeaders E))"
    and "sendWithBlock E delay st = Waiting st'"
  shows "dict_get (nqHeaders (snd (last (hsSent st')))) ''authorization'' = None"
proof -
  let ?p = "st\<lparr>hsRequest := prepared E (hsRequest st)\<rparr>"
  have "\<not> isValidHeaderFieldName ''authorization''" by code_simp
  with sendWithBlock_request [OF assms(3)]
  have "dict_get (nqHeaders (snd (last (hsSent st')))) ''authorization'' =
      dict_get (nqHeaders (hsRequest (setTelemetryToRequest E ?p))) ''authorization''"
    by (simp add: same_but_extra_def)
  also have "\<dots> = dict_get (nqHeaders (prepared E (hsRequest st))) ''authorization''"
  proof -
    have "lowercaseString ''x-client-last-telemetry'' \<noteq> ''authorization''"
        "lowercaseString ''x-client-current-telemetry'' \<noteq> ''authorization''" by code_simp+
    then show ?thesis by (auto simp: setTelemetryToRequest_def dict_get_set_optional split: option.split prod.split)
  qed
  also have "\<dots> = None"
  proof -
    have ct: "lowercaseString ''Content-Type'' \<noteq> ''authorization''" by code_simp
    have none: "dict_get (fold setHTTPHeader hs []) ''authorization'' = None"
      if "''authorization'' \<notin> lowercaseString ` set (dict_keys hs)" for hs
      using that by (subst set_headers_other) force+
    have "set (dict_keys (dict_put ''Content-Type'' t (heHeaders E))) = insert ''Content-Type'' (set (dict_keys (heHeaders E)))" for t
      unfolding set_dict_keys by (auto split: if_splits)
    with ct assms(2) have "''authorization'' \<notin> lowercaseString ` set (dict_keys (dict_put ''Content-Type'' t (heHeaders E)))" for t
      by auto
    with assms(1,2) none show ?thesis
      by (auto simp: prepared_def serializeWithRequest_def Let_def simp del: set_map split: if_splits prod.split)
  qed
  finally show ?thesis .
qed

end
