(* ===== verification/Tokens.thy ===== *)
theory Tokens
  imports CacheItems RequestParameters
begin

text \<open>
  \<open>oauth2/token/\<close> and \<open>cache/token/MSIDCredentialCacheItem+MSIDBaseToken.m\<close>: the tokens of the library
  and the cache items they are read from and written to. A subclass of tokens is a record that extends
  its superclass, a call to \<open>super\<close> the definition for the superclass. The session key of a primary refresh
  token is its base64url text; its decoder and \<open>floatValue\<close> are parameters. An item of a subclass of
  \<open>MSIDCredentialCacheItem\<close> is a credential item whose JSON holds the properties the subclass adds.
\<close>

section \<open>Tokens\<close>

record base_token =
  btStorageEnvironment :: "string option"
  btEnvironment :: "string option"
  btRealm :: "string option"
  btClientId :: "string option"
  btAdditionalServerInfo :: "(string, nsobj) dict option"
  btAccountIdentifier :: "account_identifier option"
  btSpeInfo :: "string option"
  btCreatedFromCacheItem :: bool

record access_token = base_token +
  atExpiresOn :: "nsdate option"
  atExtendedExpiresOn :: "nsdate option"
  atRefreshOn :: "nsdate option"
  atCachedAt :: "nsdate option"
  atAccessToken :: "string option"
  atTarget :: "string option"
  atEnrollmentId :: "string option"
  atApplicationIdentifier :: "string option"
  atKid :: "string option"
  atTokenType :: "string option"
  atRedirectUri :: "string option"
  atRequestedClaims :: "string option"

record legacy_single_token = access_token +
  lsRefreshToken :: "string option"
  lsFamilyId :: "string option"

record refresh_token = base_token +
  rtRefreshToken :: "string option"
  rtFamilyId :: "string option"

record bound_token = refresh_token +
  bdBoundDeviceId :: "string option"

record primary_token = refresh_token +
  ptSessionKey :: "string option"
  ptDeviceID :: "string option"
  ptPrtProtocolVersion :: "string option"
  ptExpiresOn :: "nsdate option"
  ptCachedAt :: "nsdate option"
  ptExpiryInterval :: int
  ptLastRecoveryAttempt :: "nsdate option"
  ptRecoveryAttemptCount :: int
  ptLastRecoveryAttemptFailed :: bool
  ptExternalKeyLocationType :: int

record id_token = base_token +
  itRawIdToken :: "string option"

datatype token =
    BaseToken base_token
  | AccessToken access_token
  | AccessTokenWithAuthScheme access_token
  | LegacySingleResourceToken legacy_single_token
  | RefreshToken refresh_token
  | FamilyRefreshToken refresh_token
  | BoundRefreshToken bound_token
  | PrimaryRefreshToken primary_token
  | IdToken id_token
  | V1IdToken id_token

fun token_credentialType :: "token \<Rightarrow> credential_type" where
  "token_credentialType (BaseToken _) = MSIDCredentialTypeOther"
| "token_credentialType (AccessToken _) = MSIDAccessTokenType"
| "token_credentialType (AccessTokenWithAuthScheme _) = MSIDAccessTokenWithAuthSchemeType"
| "token_credentialType (LegacySingleResourceToken _) = MSIDLegacySingleResourceTokenType"
| "token_credentialType (RefreshToken _) = MSIDRefreshTokenType"
| "token_credentialType (FamilyRefreshToken _) = MSIDFamilyRefreshTokenType"
| "token_credentialType (BoundRefreshToken _) = MSIDBoundRefreshTokenType"
| "token_credentialType (PrimaryRefreshToken _) = MSIDPrimaryRefreshTokenType"
| "token_credentialType (IdToken _) = MSIDIDTokenType"
| "token_credentialType (V1IdToken _) = MSIDLegacyIDTokenType"

record token_env =
  teDecode :: "string \<Rightarrow> string option"
  teFloatValue :: "string \<Rightarrow> rat"

section \<open>Reading a token from an item\<close>

definition base_initWithItem :: "credential_type list \<Rightarrow> credential_item \<Rightarrow> base_token option" where
  "base_initWithItem supported i =
     (if ciCredentialType i \<notin> set supported then None
      else if ciEnvironment i = None then None
      else if ciClientId i = None then None
      else Some \<lparr>btStorageEnvironment = None, btEnvironment = ciEnvironment i, btRealm = ciRealm i,
                 btClientId = ciClientId i, btAdditionalServerInfo = None,
                 btAccountIdentifier = map_option (\<lambda>h. initAccountIdentifier None (Some h)) (ciHomeAccountId i),
                 btSpeInfo = ciSpeInfo i, btCreatedFromCacheItem = True\<rparr>)"

definition access_initWithItem :: "credential_type list \<Rightarrow> credential_item \<Rightarrow> access_token option" where
  "access_initWithItem supported i =
     (case base_initWithItem supported i of
        None \<Rightarrow> None
      | Some b \<Rightarrow>
          (if ciSecret i = None \<or> ciTarget i = None then None
           else Some (base_token.extend b
             \<lparr>atExpiresOn = ciExpiresOn i, atExtendedExpiresOn = ciExtendedExpiresOn i, atRefreshOn = ciRefreshOn i,
              atCachedAt = ciCachedAt i, atAccessToken = ciSecret i, atTarget = ciTarget i,
              atEnrollmentId = ciEnrollmentId i, atApplicationIdentifier = ciApplicationIdentifier i,
              atKid = None, atTokenType = None, atRedirectUri = ciRedirectUri i,
              atRequestedClaims = ciRequestedClaims i\<rparr>)))"

definition authScheme_initWithItem :: "credential_item \<Rightarrow> access_token option" where
  "authScheme_initWithItem i =
     (case access_initWithItem [MSIDAccessTokenWithAuthSchemeType] i of
        None \<Rightarrow> None
      | Some t \<Rightarrow> if ciKid i = None \<or> ciTokenType i = None then None
                  else Some (t\<lparr>atKid := ciKid i, atTokenType := ciTokenType i\<rparr>))"

text \<open>A single resource token may be read from an access token as well.\<close>

definition legacySingle_initWithItem :: "credential_item \<Rightarrow> legacy_single_token option" where
  "legacySingle_initWithItem i =
     map_option (\<lambda>t. access_token.extend t \<lparr>lsRefreshToken = None, lsFamilyId = ciFamilyId i\<rparr>)
       (access_initWithItem [MSIDLegacySingleResourceTokenType, MSIDAccessTokenType] i)"

definition refresh_initWithItem :: "credential_type list \<Rightarrow> credential_item \<Rightarrow> refresh_token option" where
  "refresh_initWithItem supported i =
     (case base_initWithItem supported i of
        None \<Rightarrow> None
      | Some b \<Rightarrow> if ciSecret i = None then None
                  else Some (base_token.extend b \<lparr>rtRefreshToken = ciSecret i, rtFamilyId = ciFamilyId i\<rparr>))"

definition bound_initWithItem :: "credential_item \<Rightarrow> bound_token option" where
  "bound_initWithItem i =
     (case refresh_initWithItem [MSIDBoundRefreshTokenType] i of
        None \<Rightarrow> None
      | Some t \<Rightarrow>
          (let boundDeviceId = msidStringObjectForKey (credential_jsonDictionary i) ''bound_device_id''
           in if msidIsStringNilOrBlank boundDeviceId then None
              else Some (refresh_token.extend t \<lparr>bdBoundDeviceId = boundDeviceId\<rparr>)))"

definition minSupportedPRTVersion :: string where
  "minSupportedPRTVersion = ''3.0''"

definition upgraded_version :: "token_env \<Rightarrow> string option \<Rightarrow> string option" where
  "upgraded_version E version =
     (if (case version of None \<Rightarrow> 0 | Some v \<Rightarrow> teFloatValue E v) < teFloatValue E minSupportedPRTVersion
      then Some minSupportedPRTVersion else version)"

definition opt_integerValue :: "string option \<Rightarrow> int" where
  "opt_integerValue so = (case so of None \<Rightarrow> 0 | Some s \<Rightarrow> integerValue s)"

text \<open>An \<open>NSInteger\<close> kept in an \<open>NSUInteger\<close>, and one cast to \<open>int\<close> before it is printed.\<close>

definition unsigned64 :: "int \<Rightarrow> int" where
  "unsigned64 n = n mod 2 ^ 64"

definition cast_int :: "int \<Rightarrow> int" where
  "cast_int n = (let w = n mod 2 ^ 32 in if w < 2 ^ 31 then w else w - 2 ^ 32)"

definition primary_initWithItem :: "token_env \<Rightarrow> credential_item \<Rightarrow> primary_token option" where
  "primary_initWithItem E i =
     (case refresh_initWithItem [MSIDPrimaryRefreshTokenType] i of
        None \<Rightarrow> None
      | Some t \<Rightarrow>
          (let json = credential_jsonDictionary i;
               sessionKey = Option.bind (msidStringObjectForKey json ''session_key'') (teDecode E);
               keyType = opt_integerValue (msidStringObjectForKey json ''external_key_type'')
           in if sessionKey = None \<and> keyType = 0 then None
              else Some (refresh_token.extend t
                \<lparr>ptSessionKey = sessionKey, ptDeviceID = msidStringObjectForKey json ''device_id'',
                 ptPrtProtocolVersion = upgraded_version E (msidStringObjectForKey json ''prt_protocol_version''),
                 ptExpiresOn = ciExpiresOn i, ptCachedAt = ciCachedAt i,
                 ptExpiryInterval = unsigned64 (opt_integerValue (ciExpiryInterval i)),
                 ptLastRecoveryAttempt = ciLastRecoveryAttempt i,
                 ptRecoveryAttemptCount = unsigned64 (opt_integerValue (ciRecoveryAttemptCount i)),
                 ptLastRecoveryAttemptFailed = msidBoolObjectForKey json ''last_recovery_attempt_failed'',
                 ptExternalKeyLocationType = keyType\<rparr>)))"

definition idToken_initWithItem :: "credential_type \<Rightarrow> credential_item \<Rightarrow> id_token option" where
  "idToken_initWithItem ty i =
     (case base_initWithItem [ty] i of
        None \<Rightarrow> None
      | Some b \<Rightarrow> if ciSecret i = None then None else Some (base_token.extend b \<lparr>itRawIdToken = ciSecret i\<rparr>))"

definition tokenWithType :: "token_env \<Rightarrow> credential_item \<Rightarrow> credential_type \<Rightarrow> token option" where
  "tokenWithType E i ty =
     (case ty of
        MSIDAccessTokenType \<Rightarrow> map_option AccessToken (access_initWithItem [MSIDAccessTokenType] i)
      | MSIDAccessTokenWithAuthSchemeType \<Rightarrow> map_option AccessTokenWithAuthScheme (authScheme_initWithItem i)
      | MSIDRefreshTokenType \<Rightarrow> map_option RefreshToken (refresh_initWithItem [MSIDRefreshTokenType] i)
      | MSIDLegacySingleResourceTokenType \<Rightarrow> map_option LegacySingleResourceToken (legacySingle_initWithItem i)
      | MSIDIDTokenType \<Rightarrow> map_option IdToken (idToken_initWithItem MSIDIDTokenType i)
      | MSIDLegacyIDTokenType \<Rightarrow> map_option V1IdToken (idToken_initWithItem MSIDLegacyIDTokenType i)
      | MSIDPrimaryRefreshTokenType \<Rightarrow> map_option PrimaryRefreshToken (primary_initWithItem E i)
      | MSIDFamilyRefreshTokenType \<Rightarrow> map_option FamilyRefreshToken (refresh_initWithItem [MSIDFamilyRefreshTokenType] i)
      | MSIDBoundRefreshTokenType \<Rightarrow> map_option BoundRefreshToken (bound_initWithItem i)
      | _ \<Rightarrow> map_option BaseToken (base_initWithItem [MSIDCredentialTypeOther] i))"

section \<open>Writing a token to an item\<close>

definition initCredentialItem :: "credential_type \<Rightarrow> credential_item" where
  "initCredentialItem ty =
     \<lparr>ciClientId = None, ciCredentialType = ty, ciSecret = None, ciTarget = None, ciRealm = None,
      ciEnvironment = None, ciExpiresOn = None, ciExtendedExpiresOn = None, ciRefreshOn = None, ciCachedAt = None,
      ciLastRecoveryAttempt = None, ciRecoveryAttemptCount = None, ciLastRecoveryAttemptFailed = None,
      ciExpiryInterval = None, ciFamilyId = None, ciHomeAccountId = None, ciEnrollmentId = None,
      ciSpeInfo = None, ciLastModificationTime = None, ciLastModificationApp = None,
      ciApplicationIdentifier = None, ciKid = None, ciTokenType = None, ciRequestedClaims = None,
      ciRedirectUri = None, ciJson = None\<rparr>"

definition base_item :: "credential_type \<Rightarrow> 'a base_token_scheme \<Rightarrow> credential_item" where
  "base_item ty t =
     (initCredentialItem ty)\<lparr>
       ciEnvironment := (case btStorageEnvironment t of Some e \<Rightarrow> Some e | None \<Rightarrow> btEnvironment t),
       ciRealm := btRealm t, ciClientId := btClientId t, ciSpeInfo := btSpeInfo t,
       ciHomeAccountId := Option.bind (btAccountIdentifier t) account_identifier.aiHomeAccountId\<rparr>"

definition access_item :: "credential_type \<Rightarrow> 'a access_token_scheme \<Rightarrow> credential_item" where
  "access_item ty t =
     (base_item ty t)\<lparr>
       ciExpiresOn := atExpiresOn t, ciExtendedExpiresOn := atExtendedExpiresOn t, ciRefreshOn := atRefreshOn t,
       ciCachedAt := atCachedAt t, ciSecret := atAccessToken t, ciTarget := atTarget t,
       ciEnrollmentId := atEnrollmentId t, ciApplicationIdentifier := atApplicationIdentifier t,
       ciRequestedClaims := atRequestedClaims t, ciRedirectUri := atRedirectUri t\<rparr>"

definition refresh_item :: "credential_type \<Rightarrow> 'a refresh_token_scheme \<Rightarrow> credential_item" where
  "refresh_item ty t =
     (base_item ty t)\<lparr>ciSecret := rtRefreshToken t, ciFamilyId := rtFamilyId t, ciRealm := None\<rparr>"

definition bound_item :: "bound_token \<Rightarrow> credential_item option" where
  "bound_item t =
     (case bdBoundDeviceId t of
        None \<Rightarrow> None
      | Some d \<Rightarrow> initCredentialWithJSON (Some (dict_put ''bound_device_id'' (NSStr d)
                    (credential_jsonDictionary (refresh_item MSIDBoundRefreshTokenType t)))))"

definition prt_extras :: "primary_token \<Rightarrow> (string \<times> nsobj option) list" where
  "prt_extras t =
     [(''session_key'', json_str (ptSessionKey t)), (''device_id'', json_str (ptDeviceID t)),
      (''prt_protocol_version'', json_str (ptPrtProtocolVersion t)),
      (''external_key_type'', Some (NSStr (int_str (cast_int (ptExternalKeyLocationType t)))))]"

definition primary_item :: "primary_token \<Rightarrow> credential_item option" where
  "primary_item t =
     map_option (\<lambda>i. i\<lparr>
         ciCredentialType := MSIDPrimaryRefreshTokenType, ciExpiresOn := ptExpiresOn t, ciCachedAt := ptCachedAt t,
         ciLastRecoveryAttempt := ptLastRecoveryAttempt t,
         ciRecoveryAttemptCount := Some (int_str (ptRecoveryAttemptCount t)),
         ciLastRecoveryAttemptFailed := Some (if ptLastRecoveryAttemptFailed t then ''1'' else ''0''),
         ciExpiryInterval := Some (int_str (ptExpiryInterval t)),
         ciJson := map_option (assign_all (prt_extras t)) (ciJson i)\<rparr>)
       (initCredentialWithJSON (Some (credential_jsonDictionary (refresh_item MSIDRefreshTokenType t))))"

fun tokenCacheItem :: "token \<Rightarrow> credential_item option" where
  "tokenCacheItem (BaseToken t) = Some (base_item MSIDCredentialTypeOther t)"
| "tokenCacheItem (AccessToken t) = Some (access_item MSIDAccessTokenType t)"
| "tokenCacheItem (AccessTokenWithAuthScheme t) =
     Some ((access_item MSIDAccessTokenWithAuthSchemeType t)\<lparr>ciKid := atKid t, ciTokenType := atTokenType t\<rparr>)"
| "tokenCacheItem (LegacySingleResourceToken t) =
     Some ((access_item MSIDLegacySingleResourceTokenType t)\<lparr>ciFamilyId := lsFamilyId t\<rparr>)"
| "tokenCacheItem (RefreshToken t) = Some (refresh_item MSIDRefreshTokenType t)"
| "tokenCacheItem (FamilyRefreshToken t) = Some (refresh_item MSIDFamilyRefreshTokenType t)"
| "tokenCacheItem (BoundRefreshToken t) = bound_item t"
| "tokenCacheItem (PrimaryRefreshToken t) = primary_item t"
| "tokenCacheItem (IdToken t) = Some ((base_item MSIDIDTokenType t)\<lparr>ciSecret := itRawIdToken t\<rparr>)"
| "tokenCacheItem (V1IdToken t) = Some ((base_item MSIDLegacyIDTokenType t)\<lparr>ciSecret := itRawIdToken t\<rparr>)"

section \<open>Tokens made from refresh tokens\<close>

definition familyFromRefreshToken :: "refresh_token \<Rightarrow> refresh_token" where
  "familyFromRefreshToken t = t\<lparr>btCreatedFromCacheItem := False\<rparr>"

definition boundFromRefreshToken :: "refresh_token \<Rightarrow> string option \<Rightarrow> bound_token option" where
  "boundFromRefreshToken t boundDeviceId =
     (if msidIsStringNilOrBlank boundDeviceId then None
      else Some (refresh_token.extend (t\<lparr>btCreatedFromCacheItem := False\<rparr>) \<lparr>bdBoundDeviceId = boundDeviceId\<rparr>))"

section \<open>Expiry\<close>

definition expirationBuffer :: rat where
  "expirationBuffer = 300"

definition clock_went_back :: "nsdate \<Rightarrow> 'a access_token_scheme \<Rightarrow> bool" where
  "clock_went_back now t \<longleftrightarrow> (case atCachedAt t of None \<Rightarrow> False | Some c \<Rightarrow> now < c)"

definition isExpiredWithExpiryBuffer :: "nsdate \<Rightarrow> rat \<Rightarrow> 'a access_token_scheme \<Rightarrow> bool" where
  "isExpiredWithExpiryBuffer now expiryBuffer t \<longleftrightarrow>
     clock_went_back now t \<or> (case atExpiresOn t of None \<Rightarrow> False | Some e \<Rightarrow> e < now + expiryBuffer)"

definition isExpired :: "nsdate \<Rightarrow> 'a access_token_scheme \<Rightarrow> bool" where
  "isExpired now t = isExpiredWithExpiryBuffer now expirationBuffer t"

definition isExtendedLifetimeValid :: "nsdate \<Rightarrow> 'a access_token_scheme \<Rightarrow> bool" where
  "isExtendedLifetimeValid now t \<longleftrightarrow>
     (case atExtendedExpiresOn t of
        Some e \<Rightarrow> \<not> msidIsStringNilOrBlank (atAccessToken t) \<and> e > now
      | None \<Rightarrow> False)"

definition refreshNeeded :: "nsdate \<Rightarrow> 'a access_token_scheme \<Rightarrow> bool" where
  "refreshNeeded now t \<longleftrightarrow>
     clock_went_back now t \<or> (case atRefreshOn t of None \<Rightarrow> False | Some r \<Rightarrow> r < now)"

definition defaultPRTRefreshInterval :: int where
  "defaultPRTRefreshInterval = 10800"

definition refreshInterval :: "primary_token \<Rightarrow> int" where
  "refreshInterval t = (if ptExpiryInterval t > 0 then ptExpiryInterval t div 30 else defaultPRTRefreshInterval)"

text \<open>\<open>nilInterval\<close> is the interval since a date that is nil, which Foundation leaves undefined.\<close>

definition shouldRefreshWithInterval :: "rat \<Rightarrow> nsdate \<Rightarrow> int \<Rightarrow> primary_token \<Rightarrow> bool" where
  "shouldRefreshWithInterval nilInterval now interval t =
     (case ptExpiresOn t of
        None \<Rightarrow> True
      | Some e \<Rightarrow> e < now + of_int interval \<or>
                  (case ptCachedAt t of None \<Rightarrow> nilInterval | Some c \<Rightarrow> now - c) \<ge> of_int interval)"

definition isDevicelessPRT :: "token_env \<Rightarrow> primary_token \<Rightarrow> bool" where
  "isDevicelessPRT E t \<longleftrightarrow>
     (case ptPrtProtocolVersion t of None \<Rightarrow> 0 | Some v \<Rightarrow> teFloatValue E v) \<ge> 3 \<and> msidIsStringNilOrBlank (ptDeviceID t)"

section \<open>What a token keeps in the cache\<close>

lemma scan_int_str [simp]: "scan_int (int_str n) = n"
proof (cases "n < 0")
  case True
  have "\<not> whitespaceAndNewline (CHR ''-'')" by (simp add: whitespaceAndNewline_def)
  with True show ?thesis by (simp add: scan_int_def int_str_def)
qed (simp add: int_str_def)

lemma integerValue_str: "- (2 ^ 63) \<le> n \<Longrightarrow> n < 2 ^ 63 \<Longrightarrow> integerValue (int_str n) = n"
  by (simp add: integerValue_def saturate_def)

lemma cast_int_id: "- (2 ^ 31) \<le> n \<Longrightarrow> n < 2 ^ 31 \<Longrightarrow> cast_int n = n"
proof -
  assume n: "- (2 ^ 31) \<le> n" "n < 2 ^ 31"
  show ?thesis
  proof (cases "0 \<le> n")
    case False
    have "n mod 2 ^ 32 = (n + 2 ^ 32) mod 2 ^ 32" by simp
    also have "\<dots> = n + 2 ^ 32" using n False by (intro mod_pos_pos_trivial) auto
    finally show ?thesis using n False by (simp add: cast_int_def)
  qed (use n in \<open>simp add: cast_int_def\<close>)
qed

lemma base_item_simps [simp]:
  "ciCredentialType (base_item ty t) = ty" "ciClientId (base_item ty t) = btClientId t"
  "ciRealm (base_item ty t) = btRealm t" "ciSpeInfo (base_item ty t) = btSpeInfo t"
  "ciEnvironment (base_item ty t) = (case btStorageEnvironment t of Some e \<Rightarrow> Some e | None \<Rightarrow> btEnvironment t)"
  "ciHomeAccountId (base_item ty t) = Option.bind (btAccountIdentifier t) account_identifier.aiHomeAccountId"
  by (simp_all add: base_item_def initCredentialItem_def)

text \<open>
  What is read back of a token: the environment it is stored under, the account without its displayable
  id, nothing of the server's additional information.
\<close>

definition base_reread :: "'a base_token_scheme \<Rightarrow> 'a base_token_scheme" where
  "base_reread t =
     t\<lparr>btStorageEnvironment := None,
       btEnvironment := (case btStorageEnvironment t of Some e \<Rightarrow> Some e | None \<Rightarrow> btEnvironment t),
       btAdditionalServerInfo := None,
       btAccountIdentifier := map_option (\<lambda>h. initAccountIdentifier None (Some h))
         (Option.bind (btAccountIdentifier t) account_identifier.aiHomeAccountId),
       btCreatedFromCacheItem := True\<rparr>"

definition base_storable :: "'a base_token_scheme \<Rightarrow> bool" where
  "base_storable t \<longleftrightarrow> (btStorageEnvironment t \<noteq> None \<or> btEnvironment t \<noteq> None) \<and> btClientId t \<noteq> None"

fun reread :: "token_env \<Rightarrow> token \<Rightarrow> token" where
  "reread E (BaseToken t) = BaseToken (base_reread t)"
| "reread E (AccessToken t) = AccessToken ((base_reread t)\<lparr>atKid := None, atTokenType := None\<rparr>)"
| "reread E (AccessTokenWithAuthScheme t) = AccessTokenWithAuthScheme (base_reread t)"
| "reread E (LegacySingleResourceToken t) =
     LegacySingleResourceToken ((base_reread t)\<lparr>atKid := None, atTokenType := None, lsRefreshToken := None\<rparr>)"
| "reread E (RefreshToken t) = RefreshToken ((base_reread t)\<lparr>btRealm := None\<rparr>)"
| "reread E (FamilyRefreshToken t) = FamilyRefreshToken ((base_reread t)\<lparr>btRealm := None\<rparr>)"
| "reread E (BoundRefreshToken t) = BoundRefreshToken ((base_reread t)\<lparr>btRealm := None\<rparr>)"
| "reread E (PrimaryRefreshToken t) =
     PrimaryRefreshToken ((base_reread t)\<lparr>btRealm := None, ptPrtProtocolVersion := upgraded_version E (ptPrtProtocolVersion t)\<rparr>)"
| "reread E (IdToken t) = IdToken (base_reread t)"
| "reread E (V1IdToken t) = V1IdToken (base_reread t)"

definition access_storable :: "'a access_token_scheme \<Rightarrow> bool" where
  "access_storable t \<longleftrightarrow> base_storable t \<and> atAccessToken t \<noteq> None \<and> atTarget t \<noteq> None"

definition primary_storable :: "token_env \<Rightarrow> primary_token \<Rightarrow> bool" where
  "primary_storable E t \<longleftrightarrow> base_storable t \<and> rtRefreshToken t \<noteq> None \<and>
     (case ptSessionKey t of Some k \<Rightarrow> teDecode E k = Some k | None \<Rightarrow> ptExternalKeyLocationType t \<noteq> 0) \<and>
     - (2 ^ 31) \<le> ptExternalKeyLocationType t \<and> ptExternalKeyLocationType t < 2 ^ 31 \<and>
     0 \<le> ptRecoveryAttemptCount t \<and> ptRecoveryAttemptCount t < 2 ^ 63 \<and>
     0 \<le> ptExpiryInterval t \<and> ptExpiryInterval t < 2 ^ 63"

fun storable :: "token_env \<Rightarrow> token \<Rightarrow> bool" where
  "storable E (BaseToken t) = base_storable t"
| "storable E (AccessToken t) = access_storable t"
| "storable E (AccessTokenWithAuthScheme t) = (access_storable t \<and> atKid t \<noteq> None \<and> atTokenType t \<noteq> None)"
| "storable E (LegacySingleResourceToken t) = access_storable t"
| "storable E (RefreshToken t) = (base_storable t \<and> rtRefreshToken t \<noteq> None)"
| "storable E (FamilyRefreshToken t) = (base_storable t \<and> rtRefreshToken t \<noteq> None)"
| "storable E (BoundRefreshToken t) =
     (base_storable t \<and> rtRefreshToken t \<noteq> None \<and> \<not> msidIsStringNilOrBlank (bdBoundDeviceId t))"
| "storable E (PrimaryRefreshToken t) = primary_storable E t"
| "storable E (IdToken t) = (base_storable t \<and> itRawIdToken t \<noteq> None)"
| "storable E (V1IdToken t) = (base_storable t \<and> itRawIdToken t \<noteq> None)"

lemma base_roundtrip:
  assumes "base_storable t" "ty \<in> set supported"
    and "ciCredentialType i = ty" "ciEnvironment i = ciEnvironment (base_item ty t)" "ciRealm i = r"
    and "ciClientId i = btClientId t" "ciSpeInfo i = btSpeInfo t" "ciHomeAccountId i = ciHomeAccountId (base_item ty t)"
  shows "base_initWithItem supported i = Some ((base_reread (base_token.truncate t))\<lparr>btRealm := r\<rparr>)"
  using assms by (auto simp: base_initWithItem_def base_reread_def base_storable_def base_token.truncate_def split: option.splits)

lemma access_roundtrip:
  assumes "access_storable t" "ty \<in> set supported"
    and "ciCredentialType i = ty" "i = (access_item ty t)\<lparr>ciKid := k, ciTokenType := tt, ciFamilyId := f\<rparr>"
  shows "access_initWithItem supported i = Some ((base_reread (access_token.truncate t))\<lparr>atKid := None, atTokenType := None\<rparr>)"
proof -
  have "base_initWithItem supported i = Some ((base_reread (base_token.truncate t))\<lparr>btRealm := btRealm t\<rparr>)"
    using assms by (intro base_roundtrip) (auto simp: access_storable_def access_item_def)
  with assms show ?thesis
    by (auto simp: access_initWithItem_def access_item_def access_storable_def base_reread_def
        base_token.defs access_token.defs split: option.split)
qed

lemma refresh_roundtrip:
  assumes "base_storable t" "rtRefreshToken t \<noteq> None" "ty \<in> set supported"
    and "ciCredentialType i = ty" "ciEnvironment i = ciEnvironment (base_item ty t)" "ciRealm i = None"
    and "ciClientId i = btClientId t" "ciSpeInfo i = btSpeInfo t" "ciHomeAccountId i = ciHomeAccountId (base_item ty t)"
    and "ciSecret i = rtRefreshToken t" "ciFamilyId i = rtFamilyId t"
  shows "refresh_initWithItem supported i = Some ((base_reread (refresh_token.truncate t))\<lparr>btRealm := None\<rparr>)"
proof -
  have "base_initWithItem supported i = Some ((base_reread (base_token.truncate t))\<lparr>btRealm := None\<rparr>)"
    using assms by (intro base_roundtrip) auto
  with assms show ?thesis
    by (auto simp: refresh_initWithItem_def base_reread_def base_token.defs refresh_token.defs split: option.split)
qed

text \<open>The JSON of an item without dates, with the properties of a subclass added, is read back.\<close>

lemma refresh_item_json:
  assumes "rtRefreshToken t \<noteq> None"
    and "\<And>k. k \<in> set (map fst (credential_table (refresh_item ty t))) \<Longrightarrow>
      msidStringObjectForKey json k = msidStringObjectForKey (credential_jsonDictionary (refresh_item ty t)) k"
  shows "initCredentialWithJSON (Some json) = Some ((refresh_item ty t)\<lparr>ciJson := Some json\<rparr>)"
proof -
  have nil: "msidDateFromTimeStamp None = None" by (simp add: msidDateFromTimeStamp_def)
  let ?i = "refresh_item ty t"
  have f: "ciExpiresOn ?i = None" "ciExtendedExpiresOn ?i = None" "ciRefreshOn ?i = None" "ciCachedAt ?i = None"
      "ciLastRecoveryAttempt ?i = None" "ciLastModificationTime ?i = None" "ciSecret ?i = rtRefreshToken t"
    by (simp_all add: refresh_item_def base_item_def initCredentialItem_def)
  have keys: "set (map fst (credential_table ?i)) = {''client_id'', ''credential_type'', ''secret'', ''target'',
      ''realm'', ''environment'', ''expires_on'', ''extended_expires_on'', ''refresh_on'', ''cached_at'',
      ''recovery_attempted_at'', ''recovery_attempt_count'', ''last_recovery_attempt_failed'', ''family_id'',
      ''home_account_id'', ''enrollment_id'', ''spe_info'', ''expires_in'', ''last_modification_time'',
      ''last_modification_app'', ''application_cache_identifier'', ''kid'', ''token_type'', ''requested_claims'',
      ''redirect_uri''}"
    unfolding credential_table_def by (simp only: list.map fst_conv list.set)
  note eq = assms(2) [unfolded keys]
  show ?thesis
    using assms(1) f
    by (cases ?i) (simp add: initCredentialWithJSON_def Let_def eq credential_json_fields credential_type_roundtrip nil)
qed

lemma distinct_assign_all: "distinct (dict_keys d) \<Longrightarrow> distinct (dict_keys (assign_all table d))"
  unfolding assign_all_def by (induction table arbitrary: d) auto

lemma distinct_credential_json: "ciJson i = None \<Longrightarrow> distinct (dict_keys (credential_jsonDictionary i))"
  by (simp add: credential_jsonDictionary_def distinct_assign_all)

lemma string_put: "msidStringObjectForKey (dict_put k (NSStr v) d) k' = (if k' = k then Some v else msidStringObjectForKey d k')"
  by (simp add: msidStringObjectForKey_def msidObjectForKey_def)

lemma string_assign_all:
  assumes "distinct (map fst table)"
  shows "msidStringObjectForKey (assign_all table d) k =
    (case map_of table k of Some v \<Rightarrow> Option.bind v as_string | None \<Rightarrow> msidStringObjectForKey d k)"
proof (cases "map_of table k")
  case (Some v)
  then show ?thesis
    by (auto simp: msidStringObjectForKey_def msidObjectForKey_def assign_all_get [OF assms] Option.bind_eq_Some_conv
        split: option.split nsobj.split) (case_tac x2; simp)+
qed (simp add: msidStringObjectForKey_def msidObjectForKey_def assign_all_get [OF assms])

text \<open>A property the item class does not know is read from the JSON of the item.\<close>

lemma item_extra:
  assumes "ciJson i = Some json" "distinct (dict_keys json)" "k \<notin> set (map fst (credential_table i))"
  shows "msidStringObjectForKey (credential_jsonDictionary i) k = msidStringObjectForKey json k"
  using assign_all_other [OF credential_table_distinct assms(3,2)] assms(1)
  by (simp add: msidStringObjectForKey_def msidObjectForKey_def credential_jsonDictionary_def)

lemma extra_keys:
  "''bound_device_id'' \<notin> set (map fst (credential_table i))" "''session_key'' \<notin> set (map fst (credential_table i))"
  "''device_id'' \<notin> set (map fst (credential_table i))" "''prt_protocol_version'' \<notin> set (map fst (credential_table i))"
  "''external_key_type'' \<notin> set (map fst (credential_table i))"
  by (simp_all add: credential_table_def)

lemma refresh_item_simps [simp]:
  "ciCredentialType (refresh_item ty t) = ty" "ciEnvironment (refresh_item ty t) = ciEnvironment (base_item ty t)"
  "ciRealm (refresh_item ty t) = None" "ciClientId (refresh_item ty t) = btClientId t"
  "ciSpeInfo (refresh_item ty t) = btSpeInfo t" "ciHomeAccountId (refresh_item ty t) = ciHomeAccountId (base_item ty t)"
  "ciSecret (refresh_item ty t) = rtRefreshToken t" "ciFamilyId (refresh_item ty t) = rtFamilyId t"
  "ciJson (refresh_item ty t) = None"
  by (simp_all add: refresh_item_def) (simp add: base_item_def initCredentialItem_def)

lemma bound_roundtrip:
  assumes "storable E (BoundRefreshToken t)"
  shows "\<exists>i. bound_item t = Some i \<and> bound_initWithItem i = Some ((base_reread t)\<lparr>btRealm := None\<rparr>)"
proof -
  from assms obtain d where d: "bdBoundDeviceId t = Some d" "\<not> msidIsStringNilOrBlank (Some d)"
    by (cases "bdBoundDeviceId t") (auto simp: msidIsStringNilOrBlank_def)
  let ?i = "refresh_item MSIDBoundRefreshTokenType t"
  define json where "json = dict_put ''bound_device_id'' (NSStr d) (credential_jsonDictionary ?i)"
  have "initCredentialWithJSON (Some json) = Some (?i\<lparr>ciJson := Some json\<rparr>)"
    using assms by (intro refresh_item_json) (auto simp: json_def string_put extra_keys(1) simp del: set_map)
  then have item: "bound_item t = Some (?i\<lparr>ciJson := Some json\<rparr>)" using d(1) by (simp add: bound_item_def json_def)
  have "distinct (dict_keys json)" by (simp add: json_def distinct_credential_json)
  then have "msidStringObjectForKey (credential_jsonDictionary (?i\<lparr>ciJson := Some json\<rparr>)) ''bound_device_id'' = Some d"
    using extra_keys(1) by (subst item_extra [of _ json]) (auto simp: json_def string_put)
  moreover have "refresh_initWithItem [MSIDBoundRefreshTokenType] (?i\<lparr>ciJson := Some json\<rparr>) =
      Some ((base_reread (refresh_token.truncate t))\<lparr>btRealm := None\<rparr>)"
    using assms by (intro refresh_roundtrip) auto
  ultimately show ?thesis
    using d item by (cases t) (auto simp: bound_initWithItem_def base_reread_def refresh_token.defs split: option.split)
qed

lemma json_str_back: "Option.bind (json_str so) as_string = so"
  by (cases so) simp_all

lemma prt_extra_strings:
  "msidStringObjectForKey (assign_all (prt_extras t) d) ''session_key'' = ptSessionKey t"
  "msidStringObjectForKey (assign_all (prt_extras t) d) ''device_id'' = ptDeviceID t"
  "msidStringObjectForKey (assign_all (prt_extras t) d) ''prt_protocol_version'' = ptPrtProtocolVersion t"
  "msidStringObjectForKey (assign_all (prt_extras t) d) ''external_key_type'' = Some (int_str (cast_int (ptExternalKeyLocationType t)))"
proof -
  have keys: "distinct (map fst (prt_extras t))" by (simp add: prt_extras_def)
  have at: "map_of (prt_extras t) ''session_key'' = Some (json_str (ptSessionKey t))"
      "map_of (prt_extras t) ''device_id'' = Some (json_str (ptDeviceID t))"
      "map_of (prt_extras t) ''prt_protocol_version'' = Some (json_str (ptPrtProtocolVersion t))"
      "map_of (prt_extras t) ''external_key_type'' = Some (json_str (Some (int_str (cast_int (ptExternalKeyLocationType t)))))"
    by (simp_all add: prt_extras_def)
  show "msidStringObjectForKey (assign_all (prt_extras t) d) ''session_key'' = ptSessionKey t"
    "msidStringObjectForKey (assign_all (prt_extras t) d) ''device_id'' = ptDeviceID t"
    "msidStringObjectForKey (assign_all (prt_extras t) d) ''prt_protocol_version'' = ptPrtProtocolVersion t"
    "msidStringObjectForKey (assign_all (prt_extras t) d) ''external_key_type'' = Some (int_str (cast_int (ptExternalKeyLocationType t)))"
    unfolding string_assign_all [OF keys] at option.case json_str_back by (rule refl)+
qed

lemma bool_of_string:
  "msidStringObjectForKey d k = Some s \<Longrightarrow> msidBoolObjectForKey d k = string_boolValue s"
  by (auto simp: msidStringObjectForKey_def msidObjectForKey_def msidBoolObjectForKey_def msidAssertTypeIsOneOf_def
      Option.bind_eq_Some_conv split: option.splits if_splits)

lemma bool_texts: "string_boolValue ''1''" "\<not> string_boolValue ''0''"
  by code_simp+

lemma unsigned_text: "0 \<le> n \<Longrightarrow> n < 2 ^ 63 \<Longrightarrow> unsigned64 (opt_integerValue (Some (int_str n))) = n"
  by (simp add: opt_integerValue_def integerValue_str unsigned64_def)

lemma primary_roundtrip:
  assumes "primary_storable E t"
  shows "\<exists>i. primary_item t = Some i \<and>
    primary_initWithItem E i = Some ((base_reread t)\<lparr>btRealm := None, ptPrtProtocolVersion := upgraded_version E (ptPrtProtocolVersion t)\<rparr>)"
proof -
  let ?r = "refresh_item MSIDRefreshTokenType t"
  define base where "base = credential_jsonDictionary ?r"
  define json where "json = assign_all (prt_extras t) base"
  have keys: "distinct (map fst (prt_extras t))" by (simp add: prt_extras_def)
  have "initCredentialWithJSON (Some base) = Some (?r\<lparr>ciJson := Some base\<rparr>)"
    using assms by (intro refresh_item_json) (auto simp: base_def primary_storable_def)
  then obtain i where i: "primary_item t = Some i" "ciJson i = Some json" "ciCredentialType i = MSIDPrimaryRefreshTokenType"
      "ciEnvironment i = ciEnvironment (base_item MSIDPrimaryRefreshTokenType t)" "ciRealm i = None" "ciClientId i = btClientId t"
      "ciSpeInfo i = btSpeInfo t" "ciHomeAccountId i = ciHomeAccountId (base_item MSIDPrimaryRefreshTokenType t)"
      "ciSecret i = rtRefreshToken t" "ciFamilyId i = rtFamilyId t" "ciExpiresOn i = ptExpiresOn t" "ciCachedAt i = ptCachedAt t"
      "ciLastRecoveryAttempt i = ptLastRecoveryAttempt t" "ciRecoveryAttemptCount i = Some (int_str (ptRecoveryAttemptCount t))"
      "ciLastRecoveryAttemptFailed i = Some (if ptLastRecoveryAttemptFailed t then ''1'' else ''0'')"
      "ciExpiryInterval i = Some (int_str (ptExpiryInterval t))"
    by (simp add: primary_item_def base_def json_def)
  have "distinct (dict_keys json)"
    by (simp add: json_def base_def distinct_assign_all distinct_credential_json)
  note extra = item_extra [OF i(2) this]
  have json: "msidStringObjectForKey (credential_jsonDictionary i) ''session_key'' = ptSessionKey t"
      "msidStringObjectForKey (credential_jsonDictionary i) ''device_id'' = ptDeviceID t"
      "msidStringObjectForKey (credential_jsonDictionary i) ''prt_protocol_version'' = ptPrtProtocolVersion t"
      "msidStringObjectForKey (credential_jsonDictionary i) ''external_key_type'' = Some (int_str (cast_int (ptExternalKeyLocationType t)))"
    unfolding extra [OF extra_keys(2)] extra [OF extra_keys(3)] extra [OF extra_keys(4)] extra [OF extra_keys(5)]
      json_def prt_extra_strings by (rule refl)+
  have failed: "msidBoolObjectForKey (credential_jsonDictionary i) ''last_recovery_attempt_failed'' = ptLastRecoveryAttemptFailed t"
    using bool_of_string [of "credential_jsonDictionary i" "''last_recovery_attempt_failed''"] bool_texts i(15)
    by (simp add: credential_json_fields)
  have key: "opt_integerValue (Some (int_str (cast_int (ptExternalKeyLocationType t)))) = ptExternalKeyLocationType t"
    using assms by (simp add: primary_storable_def cast_int_id opt_integerValue_def integerValue_str)
  have session: "Option.bind (ptSessionKey t) (teDecode E) = ptSessionKey t"
    using assms by (cases "ptSessionKey t") (simp_all add: primary_storable_def)
  have some: "\<not> (ptSessionKey t = None \<and> ptExternalKeyLocationType t = 0)"
    using assms by (auto simp: primary_storable_def split: option.splits)
  have counts: "unsigned64 (opt_integerValue (ciRecoveryAttemptCount i)) = ptRecoveryAttemptCount t"
      "unsigned64 (opt_integerValue (ciExpiryInterval i)) = ptExpiryInterval t"
    using assms by (simp_all add: i primary_storable_def unsigned_text)
  have "refresh_initWithItem [MSIDPrimaryRefreshTokenType] i =
      Some ((base_reread (refresh_token.truncate t))\<lparr>btRealm := None\<rparr>)"
    using assms i by (intro refresh_roundtrip) (auto simp: primary_storable_def)
  moreover have "refresh_token.extend ((base_reread (refresh_token.truncate t))\<lparr>btRealm := None\<rparr>)
      \<lparr>ptSessionKey = ptSessionKey t, ptDeviceID = ptDeviceID t, ptPrtProtocolVersion = v, ptExpiresOn = ptExpiresOn t,
       ptCachedAt = ptCachedAt t, ptExpiryInterval = ptExpiryInterval t, ptLastRecoveryAttempt = ptLastRecoveryAttempt t,
       ptRecoveryAttemptCount = ptRecoveryAttemptCount t, ptLastRecoveryAttemptFailed = ptLastRecoveryAttemptFailed t,
       ptExternalKeyLocationType = ptExternalKeyLocationType t\<rparr> = (base_reread t)\<lparr>btRealm := None, ptPrtProtocolVersion := v\<rparr>" for v
    by (cases t) (auto simp: base_reread_def refresh_token.defs split: option.split)
  ultimately have "primary_initWithItem E i =
      Some ((base_reread t)\<lparr>btRealm := None, ptPrtProtocolVersion := upgraded_version E (ptPrtProtocolVersion t)\<rparr>)"
    using some by (simp add: primary_initWithItem_def Let_def json failed key session counts i(11-13))
  with i(1) show ?thesis by blast
qed

definition rereads :: "token_env \<Rightarrow> token \<Rightarrow> bool" where
  "rereads E t \<longleftrightarrow> Option.bind (tokenCacheItem t) (\<lambda>i. tokenWithType E i (token_credentialType t)) = Some (reread E t)"

lemma base_reread_token: "base_storable b \<Longrightarrow> rereads E (BaseToken b)"
  by (cases b) (simp add: base_roundtrip [where ty = MSIDCredentialTypeOther and t = b and r = "btRealm b"]
      rereads_def tokenWithType_def base_reread_def base_token.defs)

lemma access_reread_token:
  assumes "access_storable a"
  shows "rereads E (AccessToken a)"
proof -
  have "access_initWithItem [MSIDAccessTokenType] (access_item MSIDAccessTokenType a) =
      Some ((base_reread (access_token.truncate a))\<lparr>atKid := None, atTokenType := None\<rparr>)"
    using assms by (intro access_roundtrip [where k = None and tt = None and f = None])
      (auto simp: access_item_def base_item_def initCredentialItem_def)
  then show ?thesis by (cases a) (simp add: rereads_def tokenWithType_def base_reread_def access_token.defs)
qed

lemma authScheme_reread_token:
  assumes "access_storable a" "atKid a \<noteq> None" "atTokenType a \<noteq> None"
  shows "rereads E (AccessTokenWithAuthScheme a)"
proof -
  have "access_initWithItem [MSIDAccessTokenWithAuthSchemeType]
        ((access_item MSIDAccessTokenWithAuthSchemeType a)\<lparr>ciKid := atKid a, ciTokenType := atTokenType a\<rparr>) =
      Some ((base_reread (access_token.truncate a))\<lparr>atKid := None, atTokenType := None\<rparr>)"
    using assms by (intro access_roundtrip [where k = "atKid a" and tt = "atTokenType a" and f = None])
      (auto simp: access_item_def base_item_def initCredentialItem_def)
  with assms show ?thesis
    by (cases a) (auto simp: rereads_def tokenWithType_def authScheme_initWithItem_def base_reread_def access_token.defs)
qed

lemma legacySingle_reread_token:
  assumes "access_storable a"
  shows "rereads E (LegacySingleResourceToken a)"
proof -
  have "access_initWithItem [MSIDLegacySingleResourceTokenType, MSIDAccessTokenType]
        ((access_item MSIDLegacySingleResourceTokenType a)\<lparr>ciFamilyId := lsFamilyId a\<rparr>) =
      Some ((base_reread (access_token.truncate a))\<lparr>atKid := None, atTokenType := None\<rparr>)"
    using assms by (intro access_roundtrip [where k = None and tt = None and f = "lsFamilyId a" and
        ty = MSIDLegacySingleResourceTokenType]) (auto simp: access_item_def base_item_def initCredentialItem_def)
  then show ?thesis
    by (cases a) (simp add: rereads_def tokenWithType_def legacySingle_initWithItem_def base_reread_def access_token.defs
        split: option.split)
qed

lemma refresh_reread_token:
  assumes "base_storable a" "rtRefreshToken a \<noteq> None"
  shows "rereads E (RefreshToken a)" "rereads E (FamilyRefreshToken a)"
proof -
  have "refresh_initWithItem [ty] (refresh_item ty a) = Some ((base_reread (refresh_token.truncate a))\<lparr>btRealm := None\<rparr>)" for ty
    using assms by (intro refresh_roundtrip) auto
  then show "rereads E (RefreshToken a)" "rereads E (FamilyRefreshToken a)"
    by (cases a; simp add: rereads_def tokenWithType_def base_reread_def refresh_token.defs)+
qed

lemma id_reread_token:
  assumes "base_storable a" "itRawIdToken a \<noteq> None"
  shows "rereads E (IdToken a)" "rereads E (V1IdToken a)"
proof -
  have "base_initWithItem [ty] ((base_item ty a)\<lparr>ciSecret := itRawIdToken a\<rparr>) =
      Some ((base_reread (base_token.truncate a))\<lparr>btRealm := btRealm a\<rparr>)" for ty
    using assms by (intro base_roundtrip) auto
  then have "idToken_initWithItem ty ((base_item ty a)\<lparr>ciSecret := itRawIdToken a\<rparr>) = Some (base_reread a)" for ty
    using assms by (cases a) (auto simp: idToken_initWithItem_def base_reread_def base_token.defs split: option.split)
  then show "rereads E (IdToken a)" "rereads E (V1IdToken a)"
    by (simp_all add: rereads_def tokenWithType_def)
qed

lemma bound_reread_token: "storable E (BoundRefreshToken a) \<Longrightarrow> rereads E (BoundRefreshToken a)"
  using bound_roundtrip [of E a] by (auto simp: rereads_def tokenWithType_def)

lemma primary_reread_token: "primary_storable E a \<Longrightarrow> rereads E (PrimaryRefreshToken a)"
  using primary_roundtrip [of E a] by (auto simp: rereads_def tokenWithType_def)

lemmas token_rereads = base_reread_token access_reread_token authScheme_reread_token legacySingle_reread_token
  refresh_reread_token id_reread_token bound_reread_token primary_reread_token

text \<open>
  C18: A token survives the cache: written to a cache item and read back with its type it is the token
  it was, in the environment it is stored under, but for its realm if it is a refresh token, the
  displayable id of its account, the server's additional information, the key id and token type of an access
  token without an authentication scheme, and an outdated protocol version.
\<close>

theorem token_roundtrip:
  assumes "storable E t"
  shows "Option.bind (tokenCacheItem t) (\<lambda>i. tokenWithType E i (token_credentialType t)) = Some (reread E t)"
  unfolding rereads_def [symmetric] using assms by (cases t) (auto intro: token_rereads)


definition sample_env :: token_env where
  "sample_env = \<lparr>teDecode = Some, teFloatValue = (\<lambda>_. 3)\<rparr>"

definition sample_prt :: primary_token where
  "sample_prt =
     \<lparr>btStorageEnvironment = None, btEnvironment = Some ''login.microsoftonline.com'', btRealm = Some ''common'',
      btClientId = Some ''app'', btAdditionalServerInfo = None,
      btAccountIdentifier = Some (initAccountIdentifier None (Some ''uid.utid'')), btSpeInfo = None,
      btCreatedFromCacheItem = False, rtRefreshToken = Some ''prt'', rtFamilyId = Some ''1'',
      ptSessionKey = Some ''key'', ptDeviceID = Some ''device'', ptPrtProtocolVersion = Some ''3.0'',
      ptExpiresOn = Some 10, ptCachedAt = Some 1, ptExpiryInterval = 9, ptLastRecoveryAttempt = None,
      ptRecoveryAttemptCount = 2, ptLastRecoveryAttemptFailed = True, ptExternalKeyLocationType = 0\<rparr>"

theorem token_roundtrip_witness:
  "\<exists>p. Option.bind (tokenCacheItem (PrimaryRefreshToken sample_prt))
      (\<lambda>i. tokenWithType sample_env i MSIDPrimaryRefreshTokenType) = Some (PrimaryRefreshToken p) \<and>
    ptRecoveryAttemptCount p = 2 \<and> ptSessionKey p = Some ''key'' \<and> btRealm p = None"
proof -
  have "storable sample_env (PrimaryRefreshToken sample_prt)"
    by (simp add: primary_storable_def base_storable_def sample_prt_def sample_env_def)
  from token_roundtrip [OF this] show ?thesis by (simp add: sample_prt_def base_reread_def)
qed

text \<open>A token read for a request is given the environment of the request and remembers its own.\<close>

definition base_relocate :: "string option \<Rightarrow> 'a base_token_scheme \<Rightarrow> 'a base_token_scheme" where
  "base_relocate requestedEnvironment t =
     (let t' = t\<lparr>btStorageEnvironment := btEnvironment t\<rparr>
      in case requestedEnvironment of None \<Rightarrow> t' | Some e \<Rightarrow> t'\<lparr>btEnvironment := Some e\<rparr>)"

fun relocate :: "string option \<Rightarrow> token \<Rightarrow> token" where
  "relocate e (BaseToken t) = BaseToken (base_relocate e t)"
| "relocate e (AccessToken t) = AccessToken (base_relocate e t)"
| "relocate e (AccessTokenWithAuthScheme t) = AccessTokenWithAuthScheme (base_relocate e t)"
| "relocate e (LegacySingleResourceToken t) = LegacySingleResourceToken (base_relocate e t)"
| "relocate e (RefreshToken t) = RefreshToken (base_relocate e t)"
| "relocate e (FamilyRefreshToken t) = FamilyRefreshToken (base_relocate e t)"
| "relocate e (BoundRefreshToken t) = BoundRefreshToken (base_relocate e t)"
| "relocate e (PrimaryRefreshToken t) = PrimaryRefreshToken (base_relocate e t)"
| "relocate e (IdToken t) = IdToken (base_relocate e t)"
| "relocate e (V1IdToken t) = V1IdToken (base_relocate e t)"

text \<open>An item holds only what a token of its type keeps of a key.\<close>

definition fits_type :: "credential_item \<Rightarrow> bool" where
  "fits_type i \<longleftrightarrow>
     (case ciCredentialType i of
        MSIDAccessTokenType \<Rightarrow> ciFamilyId i = None \<and> ciTokenType i = None
      | MSIDAccessTokenWithAuthSchemeType \<Rightarrow> ciFamilyId i = None
      | MSIDLegacySingleResourceTokenType \<Rightarrow> ciTokenType i = None
      | ty \<Rightarrow> ciTarget i = None \<and> ciApplicationIdentifier i = None \<and> ciTokenType i = None \<and> ciRequestedClaims i = None \<and>
          (if ty \<in> {MSIDRefreshTokenType, MSIDFamilyRefreshTokenType, MSIDBoundRefreshTokenType, MSIDPrimaryRefreshTokenType}
           then ciRealm i = None else ciFamilyId i = None))"

definition normal_key :: "credential_item \<Rightarrow> credential_key" where
  "normal_key i = (credential_generateCacheKey i)\<lparr>ckHomeAccountId := norm_str (ciHomeAccountId i)\<rparr>"

lemma initAccountIdentifier_home [simp]:
  "account_identifier.aiHomeAccountId (initAccountIdentifier d h) = map_option msidNormalizedString h"
  by (simp add: initAccountIdentifier_def Let_def)

lemma key_of_fields:
  "credential_generateCacheKey i =
   \<lparr>ckHomeAccountId = ciHomeAccountId i, ckEnvironment = ciEnvironment i, ckRealm = ciRealm i, ckClientId = ciClientId i,
    ckFamilyId = ciFamilyId i, ckTarget = ciTarget i, ckApplicationIdentifier = ciApplicationIdentifier i,
    ckCredentialType = ciCredentialType i, ckTokenType = ciTokenType i, ckRequestedClaims = ciRequestedClaims i, ckAppKey = None\<rparr>"
  by (simp add: credential_generateCacheKey_def initCredentialKey_def)

lemma base_read_key:
  assumes "base_initWithItem supported i = Some b"
  shows "ciCredentialType i \<in> set supported" "ciEnvironment (base_item ty (base_relocate e b)) = ciEnvironment i"
    "ciClientId (base_item ty (base_relocate e b)) = ciClientId i" "ciRealm (base_item ty (base_relocate e b)) = ciRealm i"
    "ciHomeAccountId (base_item ty (base_relocate e b)) = norm_str (ciHomeAccountId i)"
  using assms
  by (auto simp: base_initWithItem_def base_relocate_def Let_def split: if_splits option.splits)
    (cases "ciHomeAccountId i"; simp)+

lemma base_item_extend:
  "base_item ty (base_relocate e (base_token.extend b m)) = base_item ty (base_relocate e b)"
  by (cases b; cases e) (auto simp: base_item_def base_relocate_def Let_def base_token.defs split: option.split)

lemma relocate_fields [simp]:
  "atTarget (base_relocate e a) = atTarget a" "atApplicationIdentifier (base_relocate e a) = atApplicationIdentifier a"
  "atRequestedClaims (base_relocate e a) = atRequestedClaims a" "atTokenType (base_relocate e a) = atTokenType a"
  "lsFamilyId (base_relocate e l) = lsFamilyId l"
  "rtFamilyId (base_relocate e r) = rtFamilyId r" "rtRefreshToken (base_relocate e r) = rtRefreshToken r"
  "bdBoundDeviceId (base_relocate e d) = bdBoundDeviceId d"
  by (cases e; simp add: base_relocate_def Let_def)+

lemma access_item_key:
  assumes "access_initWithItem supported i = Some a"
  shows "credential_generateCacheKey (access_item ty (base_relocate e a)) =
      (normal_key i)\<lparr>ckFamilyId := None, ckCredentialType := ty, ckTokenType := None\<rparr>" "ciCredentialType i \<in> set supported"
proof -
  obtain b m where b: "base_initWithItem supported i = Some b" "a = base_token.extend b m"
    using assms by (auto simp: access_initWithItem_def split: option.splits if_splits)
  have "atTarget a = ciTarget i" "atApplicationIdentifier a = ciApplicationIdentifier i" "atRequestedClaims a = ciRequestedClaims i"
    using assms by (auto simp: access_initWithItem_def base_token.defs split: option.splits if_splits)
  moreover have "base_item ty (base_relocate e a) = base_item ty (base_relocate e b)" by (simp add: b(2) base_item_extend)
  moreover have "ciFamilyId (base_item ty t) = None" "ciTokenType (base_item ty t) = None" for t :: base_token
    by (simp_all add: base_item_def initCredentialItem_def)
  moreover note base_read_key(2-5) [OF b(1), of ty e]
  ultimately show "credential_generateCacheKey (access_item ty (base_relocate e a)) =
      (normal_key i)\<lparr>ckFamilyId := None, ckCredentialType := ty, ckTokenType := None\<rparr>"
    by (simp add: key_of_fields normal_key_def access_item_def del: base_item_simps(2-6))
  show "ciCredentialType i \<in> set supported" using base_read_key(1) [OF b(1)] .
qed

lemma refresh_item_extend:
  "refresh_item ty (base_relocate e (refresh_token.extend r m)) = refresh_item ty (base_relocate e r)"
  by (cases r; cases e)
    (auto simp: refresh_item_def base_item_def base_relocate_def Let_def refresh_token.defs split: option.split)

lemma refresh_item_key:
  assumes "refresh_initWithItem supported i = Some r"
  shows "credential_generateCacheKey (refresh_item ty (base_relocate e r)) =
      (normal_key i)\<lparr>ckRealm := None, ckTarget := None, ckApplicationIdentifier := None, ckCredentialType := ty,
        ckTokenType := None, ckRequestedClaims := None\<rparr>" "ciCredentialType i \<in> set supported" "rtRefreshToken r \<noteq> None"
proof -
  obtain b m where b: "base_initWithItem supported i = Some b" "r = base_token.extend b m"
    using assms by (auto simp: refresh_initWithItem_def split: option.splits if_splits)
  have r: "rtFamilyId r = ciFamilyId i" "rtRefreshToken r = ciSecret i" "ciSecret i \<noteq> None"
    using assms by (auto simp: refresh_initWithItem_def base_token.defs split: option.splits if_splits)
  have "base_item ty (base_relocate e r) = base_item ty (base_relocate e b)" by (simp add: b(2) base_item_extend)
  moreover have "ciTarget (base_item ty t) = None" "ciTokenType (base_item ty t) = None" "ciRequestedClaims (base_item ty t) = None"
      "ciApplicationIdentifier (base_item ty t) = None" for t :: base_token
    by (simp_all add: base_item_def initCredentialItem_def)
  moreover note base_read_key(2-5) [OF b(1), of ty e] r(1)
  ultimately show "credential_generateCacheKey (refresh_item ty (base_relocate e r)) =
      (normal_key i)\<lparr>ckRealm := None, ckTarget := None, ckApplicationIdentifier := None, ckCredentialType := ty,
        ckTokenType := None, ckRequestedClaims := None\<rparr>"
    by (simp add: key_of_fields normal_key_def refresh_item_def del: base_item_simps(2-6))
  show "ciCredentialType i \<in> set supported" "rtRefreshToken r \<noteq> None" using base_read_key(1) [OF b(1)] r by simp_all
qed

lemma id_item_key:
  assumes "base_initWithItem supported i = Some b"
  shows "credential_generateCacheKey ((base_item ty (base_relocate e (base_token.extend b m)))\<lparr>ciSecret := sec\<rparr>) =
      (normal_key i)\<lparr>ckFamilyId := None, ckTarget := None, ckApplicationIdentifier := None, ckCredentialType := ty,
        ckTokenType := None, ckRequestedClaims := None\<rparr>"
proof -
  have "ciTarget (base_item ty t) = None" "ciTokenType (base_item ty t) = None" "ciRequestedClaims (base_item ty t) = None"
      "ciApplicationIdentifier (base_item ty t) = None" "ciFamilyId (base_item ty t) = None" for t :: base_token
    by (simp_all add: base_item_def initCredentialItem_def)
  moreover note base_read_key(2-5) [OF assms, of ty e]
  ultimately show ?thesis
    by (simp add: base_item_extend key_of_fields normal_key_def del: base_item_simps(2-6))
qed

lemma bound_item_form:
  assumes "rtRefreshToken t \<noteq> None" "bdBoundDeviceId t = Some d"
  shows "\<exists>json. bound_item t = Some ((refresh_item MSIDBoundRefreshTokenType t)\<lparr>ciJson := Some json\<rparr>)"
proof -
  let ?i = "refresh_item MSIDBoundRefreshTokenType t"
  have "initCredentialWithJSON (Some (dict_put ''bound_device_id'' (NSStr d) (credential_jsonDictionary ?i))) =
      Some (?i\<lparr>ciJson := Some (dict_put ''bound_device_id'' (NSStr d) (credential_jsonDictionary ?i))\<rparr>)"
    using assms by (intro refresh_item_json) (auto simp: string_put extra_keys(1) simp del: set_map)
  with assms(2) show ?thesis by (intro exI) (simp add: bound_item_def)
qed

lemma bound_item_key:
  assumes "rtRefreshToken t \<noteq> None" "bdBoundDeviceId t = Some d"
  shows "\<exists>i. bound_item t = Some i \<and>
    credential_generateCacheKey i = credential_generateCacheKey (refresh_item MSIDBoundRefreshTokenType t)"
  using bound_item_form [OF assms] by (auto simp: key_of_fields)

lemma primary_item_key:
  assumes "rtRefreshToken t \<noteq> None"
  shows "\<exists>i. primary_item t = Some i \<and>
    credential_generateCacheKey i = credential_generateCacheKey (refresh_item MSIDPrimaryRefreshTokenType t)"
  using refresh_item_json [OF assms refl]
  by (simp add: primary_item_def key_of_fields) (simp add: refresh_item_def base_item_def initCredentialItem_def)

definition keeps_key :: "string option \<Rightarrow> token \<Rightarrow> credential_item \<Rightarrow> bool" where
  "keeps_key e t i \<longleftrightarrow> (\<exists>i'. tokenCacheItem (relocate e t) = Some i' \<and> credential_generateCacheKey i' = normal_key i)"

lemma normal_key_same: "credentialKey_account (normal_key i) = credentialKey_account (credential_generateCacheKey i)"
  "credentialKey_service th (normal_key i) = credentialKey_service th (credential_generateCacheKey i)"
  by (cases "ciFamilyId i"; simp add: normal_key_def key_of_fields credentialKey_account_def credentialKey_service_def
      accountIdWithHomeAccountId_def key_clientId_def)+

lemma access_keeps_key:
  assumes "fits_type i" "access_initWithItem [MSIDAccessTokenType] i = Some a"
  shows "keeps_key e (AccessToken a) i"
  using access_item_key [OF assms(2)] assms(1)
  by (simp add: keeps_key_def fits_type_def normal_key_def key_of_fields)

lemma refresh_keeps_key:
  assumes "fits_type i"
    and "ciCredentialType i \<in> {MSIDRefreshTokenType, MSIDFamilyRefreshTokenType, MSIDBoundRefreshTokenType, MSIDPrimaryRefreshTokenType}"
    and "refresh_initWithItem supported i = Some r"
  shows "credential_generateCacheKey (refresh_item (ciCredentialType i) (base_relocate e r)) = normal_key i"
  using refresh_item_key(1) [OF assms(3), of "ciCredentialType i" e] assms(1,2)
  by (auto simp: fits_type_def normal_key_def key_of_fields)

lemma id_keeps_key:
  assumes "fits_type i" "ty = MSIDIDTokenType \<or> ty = MSIDLegacyIDTokenType" "idToken_initWithItem ty i = Some a"
  shows "credential_generateCacheKey ((base_item ty (base_relocate e a))\<lparr>ciSecret := s\<rparr>) = normal_key i"
proof -
  obtain b m where b: "base_initWithItem [ty] i = Some b" "a = base_token.extend b m"
    using assms(3) by (auto simp: idToken_initWithItem_def split: option.splits if_splits)
  have "ciCredentialType i = ty" using base_read_key(1) [OF b(1)] by simp
  then show ?thesis
    using id_item_key [OF b(1), where ty = ty and e = e and m = m and sec = s] assms(1,2) unfolding b(2)
    by (auto simp: fits_type_def normal_key_def key_of_fields)
qed

lemma authScheme_keeps_key:
  assumes "fits_type i" "authScheme_initWithItem i = Some a"
  shows "keeps_key e (AccessTokenWithAuthScheme a) i"
proof -
  obtain b where b: "access_initWithItem [MSIDAccessTokenWithAuthSchemeType] i = Some b"
      "a = b\<lparr>atKid := ciKid i, atTokenType := ciTokenType i\<rparr>"
    using assms(2) by (auto simp: authScheme_initWithItem_def split: option.splits if_splits)
  have "access_item ty (base_relocate e a) = access_item ty (base_relocate e b)" for ty
    unfolding b(2) by (cases b; cases e) (auto simp: access_item_def base_item_def base_relocate_def Let_def split: option.split)
  with access_item_key [OF b(1)] assms(1) show ?thesis
    by (simp add: b(2) keeps_key_def fits_type_def normal_key_def key_of_fields)
qed

lemma legacySingle_keeps_key:
  assumes "fits_type i" "ciCredentialType i = MSIDLegacySingleResourceTokenType" "legacySingle_initWithItem i = Some l"
  shows "keeps_key e (LegacySingleResourceToken l) i"
proof -
  obtain b where b: "access_initWithItem [MSIDLegacySingleResourceTokenType, MSIDAccessTokenType] i = Some b"
      "l = access_token.extend b \<lparr>lsRefreshToken = None, lsFamilyId = ciFamilyId i\<rparr>"
    using assms(3) by (auto simp: legacySingle_initWithItem_def)
  have "access_item ty (base_relocate e l) = access_item ty (base_relocate e b)" for ty
    unfolding b(2) by (cases b; cases e) (auto simp: access_item_def base_item_def base_relocate_def Let_def access_token.defs split: option.split)
  moreover have "lsFamilyId l = ciFamilyId i" unfolding b(2) by (cases b) (simp add: access_token.defs)
  ultimately show ?thesis
    using access_item_key [OF b(1)] assms(1,2)
    by (simp add: keeps_key_def fits_type_def normal_key_def key_of_fields)
qed

lemma bound_keeps_key:
  assumes "fits_type i" "bound_initWithItem i = Some d"
  shows "keeps_key e (BoundRefreshToken d) i"
proof -
  obtain r v where r: "refresh_initWithItem [MSIDBoundRefreshTokenType] i = Some r" "d = refresh_token.extend r \<lparr>bdBoundDeviceId = Some v\<rparr>"
    using assms(2)
    by (auto simp: bound_initWithItem_def Let_def msidIsStringNilOrBlank_def split: option.splits if_splits)
  have ty: "ciCredentialType i = MSIDBoundRefreshTokenType" using refresh_item_key(2) [OF r(1)] by simp
  have "rtRefreshToken (base_relocate e d) \<noteq> None" "bdBoundDeviceId (base_relocate e d) = Some v"
    using refresh_item_key(3) [OF r(1)] by (simp_all add: r(2) refresh_token.defs)
  from bound_item_key [OF this] refresh_keeps_key [OF assms(1) _ r(1), of e] show ?thesis
    by (auto simp: keeps_key_def ty r(2) refresh_item_extend)
qed

lemma primary_keeps_key:
  assumes "fits_type i" "primary_initWithItem E i = Some p"
  shows "keeps_key e (PrimaryRefreshToken p) i"
proof -
  obtain r m where r: "refresh_initWithItem [MSIDPrimaryRefreshTokenType] i = Some r" "p = refresh_token.extend r m"
    using assms(2) by (auto simp: primary_initWithItem_def Let_def split: option.splits if_splits)
  have ty: "ciCredentialType i = MSIDPrimaryRefreshTokenType" using refresh_item_key(2) [OF r(1)] by simp
  have "rtRefreshToken (base_relocate e p) \<noteq> None"
    using refresh_item_key(3) [OF r(1)] by (simp add: r(2) refresh_token.defs)
  from primary_item_key [OF this] refresh_keeps_key [OF assms(1) _ r(1), of e] show ?thesis
    by (auto simp: keeps_key_def ty r(2) refresh_item_extend)
qed

lemma other_keeps_key:
  assumes "fits_type i" "base_initWithItem [MSIDCredentialTypeOther] i = Some b"
  shows "keeps_key e (BaseToken b) i"
proof -
  have "ciCredentialType i = MSIDCredentialTypeOther" using base_read_key(1) [OF assms(2)] by simp
  moreover have "credential_generateCacheKey (base_item ty t) = credential_generateCacheKey ((base_item ty t)\<lparr>ciSecret := s\<rparr>)"
    for ty s and t :: base_token by (simp add: key_of_fields)
  moreover have "base_token.extend b () = b" by (cases b) (simp add: base_token.defs)
  ultimately show ?thesis
    using id_item_key [OF assms(2), where ty = MSIDCredentialTypeOther and e = e and m = "()" and sec = None] assms(1)
    by (simp add: keeps_key_def fits_type_def normal_key_def key_of_fields)
qed

lemma plain_refresh_keeps_key:
  assumes "fits_type i" "ciCredentialType i = ty" "ty = MSIDRefreshTokenType \<or> ty = MSIDFamilyRefreshTokenType"
    "refresh_initWithItem [ty] i = Some r"
  shows "credential_generateCacheKey (refresh_item ty (base_relocate e r)) = normal_key i"
  using refresh_keeps_key [OF assms(1) _ assms(4), of e] assms(2,3) by auto

lemma typed_token_keeps_key:
  assumes "fits_type i" "tokenWithType E i (ciCredentialType i) = Some t"
  shows "keeps_key e t i"
proof (cases "ciCredentialType i")
  case MSIDAccessTokenType
  then show ?thesis using assms access_keeps_key by (auto simp: tokenWithType_def)
next
  case MSIDAccessTokenWithAuthSchemeType
  then show ?thesis using assms authScheme_keeps_key by (auto simp: tokenWithType_def)
next
  case MSIDLegacySingleResourceTokenType
  then show ?thesis using assms legacySingle_keeps_key by (auto simp: tokenWithType_def)
next
  case MSIDRefreshTokenType
  then show ?thesis using assms plain_refresh_keeps_key by (auto simp: tokenWithType_def keeps_key_def)
next
  case MSIDFamilyRefreshTokenType
  then show ?thesis using assms plain_refresh_keeps_key by (auto simp: tokenWithType_def keeps_key_def)
next
  case MSIDBoundRefreshTokenType
  then show ?thesis using assms bound_keeps_key by (auto simp: tokenWithType_def)
next
  case MSIDPrimaryRefreshTokenType
  then show ?thesis using assms primary_keeps_key by (auto simp: tokenWithType_def)
next
  case MSIDIDTokenType
  then show ?thesis using assms id_keeps_key by (auto simp: tokenWithType_def keeps_key_def)
next
  case MSIDLegacyIDTokenType
  then show ?thesis using assms id_keeps_key by (auto simp: tokenWithType_def keeps_key_def)
qed (use assms other_keeps_key in \<open>auto simp: tokenWithType_def base_initWithItem_def split: if_splits\<close>)

text \<open>
  C21: A token that was read from the cache and given the environment of a request can be written back,
  and is written under the account and service of the entry it was read from (one that holds nothing
  a token of its type does not keep): storing it replaces the entry, removing it removes the entry.
\<close>

theorem token_keeps_its_key:
  assumes "tokenWithType E i (ciCredentialType i) = Some t" "fits_type i"
  shows "\<exists>i'. tokenCacheItem (relocate e t) = Some i' \<and>
    credentialKey_account (credential_generateCacheKey i') = credentialKey_account (credential_generateCacheKey i) \<and>
    credentialKey_service th (credential_generateCacheKey i') = credentialKey_service th (credential_generateCacheKey i)"
  using typed_token_keeps_key [OF assms(2,1), of e] by (auto simp: keeps_key_def normal_key_same)

definition sample_item :: credential_item where
  "sample_item = (initCredentialItem MSIDRefreshTokenType)\<lparr>ciEnvironment := Some ''login.windows.net'',
     ciClientId := Some ''app'', ciHomeAccountId := Some ''UID.utid'', ciSecret := Some ''rt'', ciFamilyId := Some ''1''\<rparr>"

theorem token_keeps_its_key_witness:
  "\<exists>i'. Option.bind (tokenWithType sample_env sample_item MSIDRefreshTokenType)
      (\<lambda>t. tokenCacheItem (relocate (Some ''login.microsoftonline.com'') t)) = Some i' \<and>
    credentialKey_account (credential_generateCacheKey i') = credentialKey_account (credential_generateCacheKey sample_item)"
proof -
  have ty: "ciCredentialType sample_item = MSIDRefreshTokenType" and fits: "fits_type sample_item"
    by (simp_all add: sample_item_def initCredentialItem_def fits_type_def)
  obtain r where "tokenWithType sample_env sample_item MSIDRefreshTokenType = Some (RefreshToken r)"
    by (simp add: tokenWithType_def refresh_initWithItem_def base_initWithItem_def sample_item_def initCredentialItem_def)
  with token_keeps_its_key [OF _ fits, where E = sample_env and e = "Some ''login.microsoftonline.com''"] ty
  show ?thesis by fastforce
qed

end
