(* ===== verification/Accounts.thy ===== *)
theory Accounts
  imports Tokens
begin

text \<open>
  \<open>oauth2/account/MSIDAccount.m\<close>: the accounts the library answers, their cache items and their equality, and
  what the token cache asks an authentication scheme. The claims of an id token are a JSON dictionary, a
  client info its raw text, as in an account item.
\<close>

section \<open>Accounts\<close>

record account =
  acAccountType :: account_type
  acLocalAccountId :: "string option"
  acStorageEnvironment :: "string option"
  acEnvironment :: "string option"
  acRealm :: "string option"
  acIdTokenClaims :: "(string, nsobj) dict option"
  acUsername :: "string option"
  acGivenName :: "string option"
  acMiddleName :: "string option"
  acFamilyName :: "string option"
  acName :: "string option"
  acAccountIdentifier :: "account_identifier option"
  acClientInfo :: "string option"
  acAlternativeAccountId :: "string option"
  acIsSSOAccount :: bool

definition account_initWithItem :: "account_item \<Rightarrow> account" where
  "account_initWithItem i =
     \<lparr>acAccountType = aiAccountType i, acLocalAccountId = account_item.aiLocalAccountId i, acStorageEnvironment = None,
      acEnvironment = aiEnvironment i, acRealm = aiRealm i, acIdTokenClaims = None, acUsername = aiUsername i,
      acGivenName = aiGivenName i, acMiddleName = aiMiddleName i, acFamilyName = aiFamilyName i, acName = aiName i,
      acAccountIdentifier = Some (initAccountIdentifier (aiUsername i) (account_item.aiHomeAccountId i)),
      acClientInfo = aiClientInfo i, acAlternativeAccountId = aiAlternativeAccountId i, acIsSSOAccount = False\<rparr>"

definition account_homeAccountId :: "account \<Rightarrow> string option" where
  "account_homeAccountId a = Option.bind (acAccountIdentifier a) account_identifier.aiHomeAccountId"

definition account_displayableId :: "account \<Rightarrow> string option" where
  "account_displayableId a = Option.bind (acAccountIdentifier a) aiDisplayableId"

definition accountCacheItem :: "account \<Rightarrow> account_item" where
  "accountCacheItem a =
     \<lparr>aiAccountType = acAccountType a, aiHomeAccountId = account_homeAccountId a, aiLocalAccountId = acLocalAccountId a,
      aiUsername = acUsername a, aiGivenName = acGivenName a, aiMiddleName = acMiddleName a,
      aiFamilyName = acFamilyName a, aiName = acName a, aiRealm = acRealm a, aiClientInfo = acClientInfo a,
      aiEnvironment = (case acStorageEnvironment a of Some e \<Rightarrow> Some e | None \<Rightarrow> acEnvironment a),
      aiAlternativeAccountId = None, aiLastModificationTime = None, aiLastModificationApp = None, aiJson = None\<rparr>"

definition isHomeTenantAccount :: "account \<Rightarrow> bool" where
  "isHomeTenantAccount a \<longleftrightarrow>
     (if acAccountType a = MSIDAccountTypeMSSTS
      then isEqualToString (acRealm a) (Option.bind (acAccountIdentifier a) aiUtid) else True)"

text \<open>
  Two accounts that both have a home account id are compared by their identifiers, others by their
  displayable ids. A set looks an account up by its hash first; the hash is the tuple of what it mixes.
\<close>

definition account_isEqual :: "account \<Rightarrow> account \<Rightarrow> bool" where
  "account_isEqual a b \<longleftrightarrow>
     (case (acAccountIdentifier a, acAccountIdentifier b) of
        (Some x, Some y) \<Rightarrow>
          if account_identifier.aiHomeAccountId x \<noteq> None \<and> account_identifier.aiHomeAccountId y \<noteq> None
          then account_identifier_isEqual x y else isEqualToString (aiDisplayableId x) (aiDisplayableId y)
      | _ \<Rightarrow> False) \<and>
     acAccountType a = acAccountType b \<and>
     eq_or_both_nil (acAlternativeAccountId a) (acAlternativeAccountId b) \<and>
     eq_or_both_nil (acEnvironment a) (acEnvironment b) \<and> eq_or_both_nil (acRealm a) (acRealm b) \<and>
     eq_or_both_nil (acUsername a) (acUsername b)"

definition account_hash :: "account \<Rightarrow> string option \<times> account_type \<times> string option \<times> string option \<times> string option \<times> string option" where
  "account_hash a =
     (account_displayableId a, acAccountType a, acEnvironment a, acRealm a, acAlternativeAccountId a, acUsername a)"

definition containsAccount :: "account list \<Rightarrow> account \<Rightarrow> bool" where
  "containsAccount accounts a \<longleftrightarrow> (\<exists>b\<in>set accounts. account_hash b = account_hash a \<and> account_isEqual a b)"

definition addAccount :: "account list \<Rightarrow> account \<Rightarrow> account list" where
  "addAccount accounts a = (if containsAccount accounts a then accounts else accounts @ [a])"

section \<open>Authentication schemes\<close>

text \<open>The schemes of proof of possession and of ssh certificates have their own class of access tokens.\<close>

fun scheme_credentialType :: "auth_scheme_type \<Rightarrow> credential_type" where
  "scheme_credentialType MSIDAuthSchemeBearer = MSIDAccessTokenType"
| "scheme_credentialType MSIDAuthSchemePop = MSIDAccessTokenWithAuthSchemeType"
| "scheme_credentialType MSIDAuthSchemeSshCert = MSIDAccessTokenWithAuthSchemeType"

fun scheme_tokenType :: "auth_scheme_type \<Rightarrow> string option" where
  "scheme_tokenType MSIDAuthSchemeBearer = None"
| "scheme_tokenType MSIDAuthSchemePop = Some ''Pop''"
| "scheme_tokenType MSIDAuthSchemeSshCert = Some ''ssh-cert''"

section \<open>Lemmas\<close>

lemma account_isEqual_hash: "account_isEqual a b \<Longrightarrow>
    account_hash a = account_hash b \<longleftrightarrow> account_displayableId a = account_displayableId b"
  by (auto simp: account_isEqual_def account_hash_def)

lemma set_addAccount: "set (addAccount as a) \<subseteq> insert a (set as)" "set as \<subseteq> set (addAccount as a)"
  by (auto simp: addAccount_def)

end
