(* ===== verification/TokenAccessor.thy ===== *)
theory TokenAccessor
  imports AccountCredentialCache Accounts
begin

text \<open>
  \<open>cache/accessor/MSIDDefaultTokenCacheAccessor.m\<close>: the token cache of the library, over the account
  credential cache and other accessors. A message to the data source answers the new state, the result
  and the error it set; \<open>then_op\<close> runs one message after another on the same error variable.
\<close>

section \<open>Interfaces\<close>

datatype accessor_error =
    NoTokenResponse | WrongIdTokenType | ClearWithoutAccount | RefreshTokenExpected
  | AccountIdentifierExpected | CannotRemoveToken | NoAppMetadata

text \<open>What an accessor asks other accessors, \<open>MSIDCacheAccessor\<close>.\<close>

record ('s, 'e) cache_accessor =
  caGetRefreshToken :: "account_identifier option \<Rightarrow> string option \<Rightarrow> configuration \<Rightarrow> ('s, token option, 'e) source_op"
  caGetPrimaryRefreshToken :: "account_identifier option \<Rightarrow> string option \<Rightarrow> configuration \<Rightarrow> ('s, token option, 'e) source_op"
  caAccountsWithAuthority :: "authority option \<Rightarrow> string option \<Rightarrow> string option \<Rightarrow> account_identifier option \<Rightarrow>
    ('s, account list, 'e) source_op"
  caClear :: "('s, bool, 'e) source_op"
  caClearCacheForAccount :: "account_identifier \<Rightarrow> authority option \<Rightarrow> string option \<Rightarrow> string option \<Rightarrow> ('s, bool, 'e) source_op"
  caValidateAndRemoveRefreshToken :: "token \<Rightarrow> ('s, bool, 'e) source_op"

text \<open>
  An accessor with what it meets while it runs: the flags of bound refresh tokens and of the single
  family refresh token, the certificate subject of the registration of a tenant (outer \<open>None\<close>: no
  registration can be read), the methods of an authority that its class decides, the claims of a raw
  id token, the server telemetry and the errors it makes.
\<close>

record ('s, 'e) token_accessor =
  taSource :: "('s, 'e) extended_data_source"
  taOthers :: "('s, 'e) cache_accessor list"
  taSkipBound :: bool
  taCredential :: "'e credential_env"
  taToken :: token_env
  taBartEnabled :: bool
  taDisableFRT :: bool
  taFlight :: "string option"
  taRegistration :: "string option \<Rightarrow> string option option"
  taAliases :: "authority \<Rightarrow> string list"
  taRealm :: "authority \<Rightarrow> string option"
  taCacheEnvironment :: "authority \<Rightarrow> string option"
  taClaims :: "string option \<Rightarrow> (string, nsobj) dict option"
  taReport :: "string \<Rightarrow> 's \<Rightarrow> 's"
  taError :: "accessor_error \<Rightarrow> 'e"

definition environmentAliases :: "('s, 'e) token_accessor \<Rightarrow> authority option \<Rightarrow> string list" where
  "environmentAliases A a = (case a of None \<Rightarrow> [] | Some au \<Rightarrow> taAliases A au)"

definition authority_environment :: "authority option \<Rightarrow> string option" where
  "authority_environment a = Option.bind a auEnvironment"

definition authority_realm :: "('s, 'e) token_accessor \<Rightarrow> authority option \<Rightarrow> string option" where
  "authority_realm A a = Option.bind a (taRealm A)"

definition identifier_home :: "account_identifier option \<Rightarrow> string option" where
  "identifier_home a = Option.bind a account_identifier.aiHomeAccountId"

definition identifier_displayable :: "account_identifier option \<Rightarrow> string option" where
  "identifier_displayable a = Option.bind a aiDisplayableId"

text \<open>Running messages in order, on one error variable; and without one.\<close>

definition answer :: "'r \<Rightarrow> ('s, 'r, 'e) source_op" where
  "answer r s = (s, r, None)"

definition fail :: "'r \<Rightarrow> 'e \<Rightarrow> ('s, 'r, 'e) source_op" where
  "fail r e s = (s, r, Some e)"

definition then_op :: "('s, 'r, 'e) source_op \<Rightarrow> ('r \<Rightarrow> ('s, 'q, 'e) source_op) \<Rightarrow> ('s, 'q, 'e) source_op" where
  "then_op m f s = (case m s of (s1, r, e) \<Rightarrow> keep_error e (f r s1))"

definition without_error :: "('s, 'r, 'e) source_op \<Rightarrow> ('s, 'r, 'e) source_op" where
  "without_error m s = (case m s of (s1, r, _) \<Rightarrow> (s1, r, None))"

text \<open>The first accessor that answers.\<close>

fun first_of :: "('s, 'r option, 'e) source_op list \<Rightarrow> ('s, 'r option, 'e) source_op" where
  "first_of [] = answer None"
| "first_of (m # ms) = then_op m (\<lambda>r. case r of None \<Rightarrow> first_of ms | Some x \<Rightarrow> answer (Some x))"

definition or_else :: "('s, 'r option, 'e) source_op \<Rightarrow> ('s, 'r option, 'e) source_op \<Rightarrow> ('s, 'r option, 'e) source_op" where
  "or_else m m' = then_op m (\<lambda>r. case r of None \<Rightarrow> m' | Some x \<Rightarrow> answer (Some x))"

section \<open>Parts of a token\<close>

fun base_part :: "token \<Rightarrow> base_token" where
  "base_part (BaseToken t) = t"
| "base_part (AccessToken t) = base_token.truncate t"
| "base_part (AccessTokenWithAuthScheme t) = base_token.truncate t"
| "base_part (LegacySingleResourceToken t) = base_token.truncate t"
| "base_part (RefreshToken t) = base_token.truncate t"
| "base_part (FamilyRefreshToken t) = base_token.truncate t"
| "base_part (BoundRefreshToken t) = base_token.truncate t"
| "base_part (PrimaryRefreshToken t) = base_token.truncate t"
| "base_part (IdToken t) = base_token.truncate t"
| "base_part (V1IdToken t) = base_token.truncate t"

fun access_part :: "token \<Rightarrow> access_token option" where
  "access_part (AccessToken t) = Some t"
| "access_part (AccessTokenWithAuthScheme t) = Some t"
| "access_part (LegacySingleResourceToken t) = Some (access_token.truncate t)"
| "access_part _ = None"

fun refresh_part :: "token \<Rightarrow> refresh_token option" where
  "refresh_part (RefreshToken t) = Some t"
| "refresh_part (FamilyRefreshToken t) = Some t"
| "refresh_part (BoundRefreshToken t) = Some (refresh_token.truncate t)"
| "refresh_part (PrimaryRefreshToken t) = Some (refresh_token.truncate t)"
| "refresh_part _ = None"

fun id_part :: "token \<Rightarrow> id_token option" where
  "id_part (IdToken t) = Some t"
| "id_part (V1IdToken t) = Some t"
| "id_part _ = None"

fun without_family :: "token \<Rightarrow> token" where
  "without_family (RefreshToken t) = RefreshToken (t\<lparr>rtFamilyId := None\<rparr>)"
| "without_family (FamilyRefreshToken t) = FamilyRefreshToken (t\<lparr>rtFamilyId := None\<rparr>)"
| "without_family (BoundRefreshToken t) = BoundRefreshToken (t\<lparr>rtFamilyId := None\<rparr>)"
| "without_family (PrimaryRefreshToken t) = PrimaryRefreshToken (t\<lparr>rtFamilyId := None\<rparr>)"
| "without_family t = t"

definition token_home :: "token \<Rightarrow> string option" where
  "token_home t = identifier_home (btAccountIdentifier (base_part t))"

section \<open>Bound refresh tokens\<close>

text \<open>The comparator: the item cached last comes first, items without a date come last.\<close>

definition newest_first :: "credential_item \<Rightarrow> credential_item \<Rightarrow> bool" where
  "newest_first a b \<longleftrightarrow>
     (case (ciCachedAt a, ciCachedAt b) of
        (_, None) \<Rightarrow> True
      | (None, Some _) \<Rightarrow> False
      | (Some x, Some y) \<Rightarrow> y \<le> x)"

fun insert_item :: "credential_item \<Rightarrow> credential_item list \<Rightarrow> credential_item list" where
  "insert_item i [] = [i]"
| "insert_item i (j # js) = (if newest_first i j then i # j # js else j # insert_item i js)"

definition sort_items :: "credential_item list \<Rightarrow> credential_item list" where
  "sort_items is = foldr insert_item is []"

definition bound_to_registration :: "('s, 'e) token_accessor \<Rightarrow> string option \<Rightarrow> credential_item \<Rightarrow> bool" where
  "bound_to_registration A tenantId i \<longleftrightarrow>
     (case tokenWithType (taToken A) i MSIDBoundRefreshTokenType of
        Some (BoundRefreshToken bart) \<Rightarrow>
          bdBoundDeviceId bart \<noteq> None \<and>
          (case taRegistration A tenantId of
             None \<Rightarrow> True
           | Some certificateSubject \<Rightarrow> isEqualToString (bdBoundDeviceId bart) certificateSubject)
      | _ \<Rightarrow> False)"

definition validateBoundAppRefreshTokens ::
  "('s, 'e) token_accessor \<Rightarrow> string option \<Rightarrow> credential_item list \<Rightarrow> credential_item list" where
  "validateBoundAppRefreshTokens A homeAccountId items =
     (let tenantId = aiUtid (initAccountIdentifier None homeAccountId)
      in filter (\<lambda>i. ciCredentialType i \<noteq> MSIDBoundRefreshTokenType) items @
         sort_items (filter (\<lambda>i. ciCredentialType i = MSIDBoundRefreshTokenType \<and> bound_to_registration A tenantId i) items))"

section \<open>Reading\<close>

definition checkFRT :: "('s, 'e) token_accessor \<Rightarrow> ('s, frt_enabled_status, 'e) source_op" where
  "checkFRT A = checkFRTEnabled (taSource A) (taDisableFRT A) (taFlight A)"

definition is_refresh_type :: "('s, 'e) token_accessor \<Rightarrow> credential_type \<Rightarrow> bool" where
  "is_refresh_type A ty \<longleftrightarrow> ty = MSIDRefreshTokenType \<or> ty = MSIDFamilyRefreshTokenType \<or>
     taBartEnabled A \<and> ty = MSIDBoundRefreshTokenType"

definition getTokensWithEnvironment ::
  "('s, 'e) token_accessor \<Rightarrow> string option \<Rightarrow> credential_query \<Rightarrow> ('s, token list, 'e) source_op" where
  "getTokensWithEnvironment A requestedEnvironment q =
     then_op (getCredentialsWithQuery (taCredential A) (taSource A) q)
       (\<lambda>items. answer (map (relocate requestedEnvironment)
          (List.map_filter (\<lambda>i. tokenWithType (taToken A) i (ckCredentialType q))
             (validateBoundAppRefreshTokens A (ckHomeAccountId q) (case items of None \<Rightarrow> [] | Some r \<Rightarrow> r)))))"

text \<open>When no refresh token is found the wipe information is read for telemetry.\<close>

definition getTokenWithEnvironment ::
  "('s, 'e) token_accessor \<Rightarrow> string option \<Rightarrow> credential_query \<Rightarrow> ('s, token option, 'e) source_op" where
  "getTokenWithEnvironment A requestedEnvironment q s =
     (case getTokensWithEnvironment A requestedEnvironment q s of
        (s1, _, Some cacheError) \<Rightarrow> (s1, None, Some cacheError)
      | (s1, t # _, None) \<Rightarrow> (s1, Some t, None)
      | (s1, [], None) \<Rightarrow>
          if is_refresh_type A (ckCredentialType q)
          then (fst (wipeInfoWithContext (taSource A) s1), None, None) else (s1, None, None))"

definition homeAccountIdForLegacyId ::
  "('s, 'e) token_accessor \<Rightarrow> string option \<Rightarrow> authority option \<Rightarrow> ('s, string option, 'e) source_op" where
  "homeAccountIdForLegacyId A legacyAccountId authority =
     then_op (getAccountsWithQuery (taSource A)
         (initAccountQuery\<lparr>akUsername := legacyAccountId, aqEnvironmentAliases := environmentAliases A authority,
            akAccountType := MSIDAccountTypeMSSTS\<rparr>))
       (\<lambda>items. answer (case items of Some (i # _) \<Rightarrow> account_item.aiHomeAccountId i | _ \<Rightarrow> None))"

definition refresh_query ::
  "('s, 'e) token_accessor \<Rightarrow> string option \<Rightarrow> authority option \<Rightarrow> string option \<Rightarrow> string option \<Rightarrow> credential_type \<Rightarrow>
     credential_query" where
  "refresh_query A homeAccountId authority clientId familyId ty =
     initCredentialQuery\<lparr>ckHomeAccountId := homeAccountId, qEnvironmentAliases := environmentAliases A authority,
       ckClientId := (if familyId \<noteq> None then None else clientId), ckFamilyId := familyId, ckCredentialType := ty\<rparr>"

definition getRefreshableTokenByDisplayableId ::
  "('s, 'e) token_accessor \<Rightarrow> account_identifier option \<Rightarrow> authority option \<Rightarrow> string option \<Rightarrow> string option \<Rightarrow>
     credential_type \<Rightarrow> ('s, token option, 'e) source_op" where
  "getRefreshableTokenByDisplayableId A accountIdentifier authority clientId familyId ty =
     then_op (homeAccountIdForLegacyId A (identifier_displayable accountIdentifier) authority)
       (\<lambda>homeAccountId.
          if msidIsStringNilOrBlank homeAccountId then answer None
          else getTokenWithEnvironment A (authority_environment authority)
                 (refresh_query A homeAccountId authority clientId familyId ty))"

definition getRefreshableToken ::
  "('s, 'e) token_accessor \<Rightarrow> account_identifier option \<Rightarrow> string option \<Rightarrow> credential_type \<Rightarrow> configuration \<Rightarrow>
     ('s, token option, 'e) source_op" where
  "getRefreshableToken A accountIdentifier familyId ty configuration =
     (if ty \<noteq> MSIDRefreshTokenType \<and> ty \<noteq> MSIDPrimaryRefreshTokenType \<and> ty \<noteq> MSIDFamilyRefreshTokenType \<and>
         (\<not> (taBartEnabled A \<and> \<not> taSkipBound A) \<or> ty \<noteq> MSIDBoundRefreshTokenType)
      then answer None
      else
        (let authority = cfAuthority configuration;
             clientId = (if configuration_isNestedAuthProtocol configuration
                         then cfNestedAuthBrokerClientId configuration else cfClientId configuration);
             homeAccountId = identifier_home accountIdentifier
         in or_else
              (if \<not> msidIsStringNilOrBlank homeAccountId
               then getTokenWithEnvironment A (authority_environment authority)
                      (refresh_query A homeAccountId authority clientId familyId ty)
               else answer None)
              (if \<not> msidIsStringNilOrBlank (identifier_displayable accountIdentifier)
               then getRefreshableTokenByDisplayableId A accountIdentifier authority clientId familyId ty
               else answer None)))"

definition getBoundApplicationRefreshToken ::
  "('s, 'e) token_accessor \<Rightarrow> account_identifier option \<Rightarrow> string option \<Rightarrow> configuration \<Rightarrow> ('s, token option, 'e) source_op" where
  "getBoundApplicationRefreshToken A accountIdentifier familyId configuration =
     (if taBartEnabled A \<and> \<not> taSkipBound A
      then or_else (getRefreshableToken A accountIdentifier familyId MSIDBoundRefreshTokenType configuration)
             (first_of (map (\<lambda>a. caGetRefreshToken a accountIdentifier familyId configuration) (taOthers A)))
      else answer None)"

fun frt_status_index :: "frt_enabled_status \<Rightarrow> nat" where
  "frt_status_index MSIDIsFRTEnabledStatusNotEnabled = 0"
| "frt_status_index MSIDIsFRTEnabledStatusEnabled = 1"
| "frt_status_index MSIDIsFRTEnabledStatusDisabledByClientApp = 2"
| "frt_status_index MSIDIsFRTEnabledStatusDisabledByKeychainError = 3"
| "frt_status_index MSIDIsFRTEnabledStatusDisabledByDeserializationError = 4"
| "frt_status_index MSIDIsFRTEnabledStatusDisabledByKeychainItem = 5"

definition report_frt :: "('s, 'e) token_accessor \<Rightarrow> frt_enabled_status \<Rightarrow> ('s, unit, 'e) source_op" where
  "report_frt A status s = (taReport A (''sfrt('' @ nat_str (frt_status_index status) @ '')'') s, (), None)"

definition getRefreshTokenWithAccount ::
  "('s, 'e) token_accessor \<Rightarrow> account_identifier option \<Rightarrow> string option \<Rightarrow> configuration \<Rightarrow> ('s, token option, 'e) source_op" where
  "getRefreshTokenWithAccount A accountIdentifier familyId configuration =
     or_else
       (if taSkipBound A then answer None
        else getBoundApplicationRefreshToken A accountIdentifier familyId configuration)
       (then_op (without_error (checkFRT A)) (\<lambda>frtStatus.
        then_op (report_frt A frtStatus) (\<lambda>_.
          (let frtEnabled = (frtStatus = MSIDIsFRTEnabledStatusEnabled);
               find = (\<lambda>ty. getRefreshableToken A accountIdentifier familyId ty configuration)
           in or_else (find (if frtEnabled then MSIDFamilyRefreshTokenType else MSIDRefreshTokenType))
                (or_else (if frtEnabled then find MSIDRefreshTokenType else answer None)
                   (first_of (map (\<lambda>a. caGetRefreshToken a accountIdentifier familyId configuration) (taOthers A))))))))"

definition getPrimaryRefreshTokenWithAccount ::
  "('s, 'e) token_accessor \<Rightarrow> account_identifier option \<Rightarrow> string option \<Rightarrow> configuration \<Rightarrow> ('s, token option, 'e) source_op" where
  "getPrimaryRefreshTokenWithAccount A accountIdentifier familyId configuration =
     or_else (getRefreshableToken A accountIdentifier familyId MSIDPrimaryRefreshTokenType configuration)
       (first_of (map (\<lambda>a. caGetPrimaryRefreshToken a accountIdentifier familyId configuration) (taOthers A)))"

definition getPrimaryRefreshTokensForConfiguration ::
  "('s, 'e) token_accessor \<Rightarrow> configuration \<Rightarrow> account_identifier option \<Rightarrow> ('s, token list, 'e) source_op" where
  "getPrimaryRefreshTokensForConfiguration A configuration accountIdentifier =
     getTokensWithEnvironment A (authority_environment (cfAuthority configuration))
       (initCredentialQuery\<lparr>qEnvironmentAliases := environmentAliases A (cfAuthority configuration),
          ckCredentialType := MSIDPrimaryRefreshTokenType, ckHomeAccountId := identifier_home accountIdentifier\<rparr>)"

definition validTokensFromCacheItems :: "('s, 'e) token_accessor \<Rightarrow> credential_item list \<Rightarrow> token list" where
  "validTokensFromCacheItems A items =
     map (relocate None) (List.map_filter (\<lambda>i. tokenWithType (taToken A) i (ciCredentialType i))
       (validateBoundAppRefreshTokens A None items))"

definition allTokens :: "('s, 'e) token_accessor \<Rightarrow> ('s, token list, 'e) source_op" where
  "allTokens A =
     then_op (getAllItems (taSource A))
       (\<lambda>items. answer (validTokensFromCacheItems A (case items of None \<Rightarrow> [] | Some r \<Rightarrow> r)))"

definition access_query :: "('s, 'e) token_accessor \<Rightarrow> account_identifier option \<Rightarrow> configuration \<Rightarrow> credential_query" where
  "access_query A accountIdentifier configuration =
     initCredentialQuery\<lparr>ckHomeAccountId := identifier_home accountIdentifier,
       qEnvironmentAliases := environmentAliases A (cfAuthority configuration),
       ckRealm := authority_realm A (cfAuthority configuration), ckClientId := cfClientId configuration,
       ckTarget := cfTarget configuration, qTargetMatching := MSIDSubSet,
       ckApplicationIdentifier := cfApplicationIdentifier configuration,
       ckCredentialType := (case cfAuthScheme configuration of
          None \<Rightarrow> MSIDCredentialTypeOther | Some sc \<Rightarrow> scheme_credentialType (asAuthScheme sc)),
       ckTokenType := Option.bind (cfAuthScheme configuration) (\<lambda>sc. scheme_tokenType (asAuthScheme sc))\<rparr>"

definition getAccessTokenForAccount ::
  "('s, 'e) token_accessor \<Rightarrow> account_identifier option \<Rightarrow> configuration \<Rightarrow> ('s, token option, 'e) source_op" where
  "getAccessTokenForAccount A accountIdentifier configuration =
     getTokenWithEnvironment A (authority_environment (cfAuthority configuration))
       (access_query A accountIdentifier configuration)"

definition id_query :: "('s, 'e) token_accessor \<Rightarrow> account_identifier option \<Rightarrow> authority option \<Rightarrow> string option \<Rightarrow>
    credential_type \<Rightarrow> credential_query" where
  "id_query A accountIdentifier authority clientId ty =
     initCredentialQuery\<lparr>ckHomeAccountId := identifier_home accountIdentifier,
       qEnvironmentAliases := environmentAliases A authority, ckRealm := authority_realm A authority,
       ckClientId := clientId, ckCredentialType := ty\<rparr>"

definition getIDTokenForAccount ::
  "('s, 'e) token_accessor \<Rightarrow> account_identifier option \<Rightarrow> configuration \<Rightarrow> credential_type \<Rightarrow> ('s, token option, 'e) source_op" where
  "getIDTokenForAccount A accountIdentifier configuration idTokenType =
     (if idTokenType \<noteq> MSIDIDTokenType \<and> idTokenType \<noteq> MSIDLegacyIDTokenType then fail None (taError A WrongIdTokenType)
      else getTokenWithEnvironment A (authority_environment (cfAuthority configuration))
             (id_query A accountIdentifier (cfAuthority configuration) (cfClientId configuration) idTokenType))"

definition idTokensWithAuthority ::
  "('s, 'e) token_accessor \<Rightarrow> authority option \<Rightarrow> account_identifier option \<Rightarrow> string option \<Rightarrow> ('s, token list, 'e) source_op" where
  "idTokensWithAuthority A authority accountIdentifier clientId =
     getTokensWithEnvironment A (authority_environment authority)
       (id_query A accountIdentifier authority clientId MSIDIDTokenType)"

section \<open>What an operation preserves\<close>

lemma keep_error_pair [simp]: "keep_error err (s, r, e) = (s, r, if e = None then err else e)"
  by (simp add: keep_error_def)

lemma keep_error_None [simp]: "keep_error None r = r"
  by (cases r) simp

lemma then_op_run: "m s = (s1, r, e) \<Longrightarrow> then_op m f s = keep_error e (f r s1)"
  by (simp add: then_op_def)

lemma then_op_answer [simp]: "then_op (answer r) f = f r" "then_op m answer = m"
  by (auto simp: fun_eq_iff then_op_def answer_def keep_error_def split: prod.split)

lemma then_op_assoc: "then_op (then_op m f) g = then_op m (\<lambda>r. then_op (f r) g)"
  by (auto simp: fun_eq_iff then_op_def keep_error_def split: prod.split)

text \<open>Every run takes a state that satisfies the invariant to one that is related to it.\<close>

definition keeps :: "('s \<Rightarrow> bool) \<Rightarrow> ('s \<Rightarrow> 's \<Rightarrow> bool) \<Rightarrow> ('s, 'r, 'e) source_op \<Rightarrow> bool" where
  "keeps I R m \<longleftrightarrow> (\<forall>s. I s \<longrightarrow> I (fst (m s)) \<and> R s (fst (m s)))"

lemma keepsI: "(\<And>s. I s \<Longrightarrow> I (fst (m s)) \<and> R s (fst (m s))) \<Longrightarrow> keeps I R m"
  by (simp add: keeps_def)

lemma keepsD: "keeps I R m \<Longrightarrow> I s \<Longrightarrow> m s = (s', r, e) \<Longrightarrow> I s' \<and> R s s'"
  unfolding keeps_def by (metis fst_conv)

lemma keeps_answer: "reflp R \<Longrightarrow> keeps I R (answer r)" "reflp R \<Longrightarrow> keeps I R (fail r e)"
  by (simp_all add: keeps_def answer_def fail_def reflpD)

lemma keeps_then:
  assumes "keeps I R m" "\<And>r. keeps I R (f r)" "transp R"
  shows "keeps I R (then_op m f)"
proof (rule keepsI)
  fix s assume s: "I s"
  obtain s1 r e where m: "m s = (s1, r, e)" by (cases "m s") auto
  obtain s2 q e' where f: "f r s1 = (s2, q, e')" by (cases "f r s1") auto
  have "I s1" "R s s1" using keepsD [OF assms(1) s m] by simp_all
  moreover have "I s2" "R s1 s2" using keepsD [OF assms(2) \<open>I s1\<close> f] by simp_all
  ultimately show "I (fst (then_op m f s)) \<and> R s (fst (then_op m f s))"
    using transpD [OF assms(3)] by (auto simp: then_op_def m f)
qed

lemma keeps_without_error: "keeps I R m \<Longrightarrow> keeps I R (without_error m)"
  by (auto simp: keeps_def without_error_def split: prod.splits)

lemma keeps_or_else: "keeps I R m \<Longrightarrow> keeps I R m' \<Longrightarrow> reflp R \<Longrightarrow> transp R \<Longrightarrow> keeps I R (or_else m m')"
  unfolding or_else_def by (rule keeps_then) (auto split: option.split intro: keeps_answer)

lemma keeps_first_of: "(\<And>m. m \<in> set ms \<Longrightarrow> keeps I R m) \<Longrightarrow> reflp R \<Longrightarrow> transp R \<Longrightarrow> keeps I R (first_of ms)"
  by (induction ms) (auto split: option.split intro!: keeps_then intro: keeps_answer)

lemma keeps_if: "keeps I R m \<Longrightarrow> keeps I R m' \<Longrightarrow> keeps I R (if b then m else m')"
  by simp

lemmas keeps_rules = keeps_then keeps_or_else keeps_without_error keeps_answer keeps_first_of

section \<open>Bound refresh tokens of the registration\<close>

lemma set_insert_item [simp]: "set (insert_item i js) = insert i (set js)"
  by (induction js) auto

lemma set_sort_items [simp]: "set (sort_items js) = set js"
  by (induction js) (simp_all add: sort_items_def)

lemma newest_first_total: "newest_first a b \<or> newest_first b a"
  by (auto simp: newest_first_def split: option.split)

lemma newest_first_trans: "newest_first a b \<Longrightarrow> newest_first b c \<Longrightarrow> newest_first a c"
  by (auto simp: newest_first_def split: option.splits)

lemma sorted_insert_item: "sorted_wrt newest_first js \<Longrightarrow> sorted_wrt newest_first (insert_item i js)"
  by (induction js) (use newest_first_total in \<open>auto elim: newest_first_trans\<close>)

lemma sorted_sort_items: "sorted_wrt newest_first (sort_items is)"
  by (induction "is") (simp_all add: sort_items_def sorted_insert_item)

lemma sort_items_undated: "\<forall>i\<in>set is. ciCachedAt i = None \<Longrightarrow> sort_items is = is"
proof (induction "is")
  case (Cons i "is")
  then have "sort_items is = is" by simp
  with Cons.prems show ?case by (cases "is") (auto simp: sort_items_def newest_first_def)
qed (simp add: sort_items_def)

lemma map_filter_set: "y \<in> set (List.map_filter f xs) \<longleftrightarrow> (\<exists>x\<in>set xs. f x = Some y)"
  by (induction xs) (auto simp: List.map_filter_simps split: option.split)

text \<open>A token of an answer was read from an item of the data source that the validation of bound tokens kept.\<close>

lemma getTokens_from_item:
  assumes "getTokensWithEnvironment A env q s = (s', tokens, e)" "t \<in> set tokens"
  obtains s1 items e1 i t' where "getCredentialsWithQuery (taCredential A) (taSource A) q s = (s1, Some items, e1)"
    "i \<in> set (validateBoundAppRefreshTokens A (ckHomeAccountId q) items)"
    "tokenWithType (taToken A) i (ckCredentialType q) = Some t'" "t = relocate env t'"
proof -
  obtain s1 items e1 where g: "getCredentialsWithQuery (taCredential A) (taSource A) q s = (s1, items, e1)"
    by (cases "getCredentialsWithQuery (taCredential A) (taSource A) q s") auto
  have tokens: "tokens = map (relocate env) (List.map_filter (\<lambda>i. tokenWithType (taToken A) i (ckCredentialType q))
      (validateBoundAppRefreshTokens A (ckHomeAccountId q) (case items of None \<Rightarrow> [] | Some r \<Rightarrow> r)))"
    using assms(1) by (auto simp: getTokensWithEnvironment_def then_op_def g answer_def)
  show thesis
  proof (cases items)
    case None
    then show thesis using assms(2) by (simp add: tokens validateBoundAppRefreshTokens_def sort_items_def List.map_filter_simps)
  next
    case (Some found)
    then show thesis using assms(2) that [OF g [unfolded Some]] by (auto simp: tokens map_filter_set)
  qed
qed

lemma validateBound_sub: "set (validateBoundAppRefreshTokens A h items) \<subseteq> set items"
  by (auto simp: validateBoundAppRefreshTokens_def Let_def)

lemma bound_token_type: "tokenWithType E i ty = Some (BoundRefreshToken b) \<Longrightarrow>
    ty = MSIDBoundRefreshTokenType \<and> ciCredentialType i = MSIDBoundRefreshTokenType \<and> bound_initWithItem i = Some b"
  by (cases ty) (auto simp: tokenWithType_def bound_initWithItem_def refresh_initWithItem_def base_initWithItem_def Let_def
      split: option.splits if_splits)

lemma relocate_bound: "relocate env t = BoundRefreshToken b \<longleftrightarrow> (\<exists>b'. t = BoundRefreshToken b' \<and> b = base_relocate env b')"
  by (cases t) auto


text \<open>A data source that answers a fixed list of items to every query, and knows nothing else.\<close>

definition sample_metadata_source :: "(credential_item list, unit) metadata_data_source" where
  "sample_metadata_source =
     \<lparr>dsSaveAccountMetadata = (\<lambda>_ _. answer True), dsAccountMetadataWithKey = (\<lambda>_. answer None),
      dsAccountsMetadataWithKey = (\<lambda>_. answer None), dsRemoveAccountMetadataForKey = (\<lambda>_. answer True),
      dsSaveAppMetadata = (\<lambda>_ _. answer True), dsAppMetadataEntriesWithKey = (\<lambda>_. answer None),
      dsRemoveMetadataItemsWithKey = (\<lambda>_. answer True)\<rparr>"

definition sample_source :: "(credential_item list, unit) extended_data_source" where
  "sample_source =
     \<lparr>dsSaveToken = (\<lambda>_ _. answer True), dsTokenWithKey = (\<lambda>_. answer None),
      dsTokensWithKey = (\<lambda>_ items. (items, Some items, None)), dsSaveWipeInfo = answer True, dsWipeInfo = answer None,
      dsRemoveTokensWithKey = (\<lambda>_. answer True), dsClear = answer True, dsMetadata = sample_metadata_source,
      dsSaveAccount = (\<lambda>_ _. answer True), dsAccountWithKey = (\<lambda>_. answer None), dsAccountsWithKey = (\<lambda>_. answer None),
      dsRemoveAccountsWithKey = (\<lambda>_. answer True), dsJsonObjectsWithKey = (\<lambda>_. answer None),
      dsSaveJsonObject = (\<lambda>_ _. answer True)\<rparr>"

definition sample_accessor :: "(credential_item list, unit) token_accessor" where
  "sample_accessor =
     \<lparr>taSource = sample_source, taOthers = [], taSkipBound = False,
      taCredential = \<lparr>ceNow = 10, ceNilIsPast = False, ceAppKey = (\<lambda>_. None), ceClientInfoOk = (\<lambda>_. True), ceHash = take 7,
         ceJsonError = None\<rparr>,
      taToken = sample_env, taBartEnabled = True, taDisableFRT = False, taFlight = None,
      taRegistration = (\<lambda>_. Some (Some ''device-1'')), taAliases = (\<lambda>_. [''login.microsoftonline.com'']),
      taRealm = (\<lambda>_. Some ''common''), taCacheEnvironment = (\<lambda>_. Some ''login.microsoftonline.com''), taClaims = (\<lambda>_. None),
      taReport = (\<lambda>_ s. s), taError = (\<lambda>_. ())\<rparr>"

definition sample_bound :: "string \<Rightarrow> credential_item" where
  "sample_bound device =
     (initCredentialItem MSIDBoundRefreshTokenType)\<lparr>ciEnvironment := Some ''login.microsoftonline.com'', ciClientId := Some ''app'',
        ciHomeAccountId := Some ''uid.utid'', ciSecret := Some ''rt'', ciJson := Some [(''bound_device_id'', NSStr device)]\<rparr>"

definition sample_bound_query :: credential_query where
  "sample_bound_query = initCredentialQuery\<lparr>ckHomeAccountId := Some ''uid.utid'', ckClientId := Some ''app'',
     ckCredentialType := MSIDBoundRefreshTokenType\<rparr>"

definition sample_bound_answer :: "token list" where
  "sample_bound_answer =
     fst (snd (getTokensWithEnvironment sample_accessor None sample_bound_query [sample_bound ''device-2'', sample_bound ''device-1'']))"


lemma bound_item_undated: "bound_item t = Some i \<Longrightarrow> rtRefreshToken t \<noteq> None \<Longrightarrow> ciCachedAt i = None"
proof -
  assume i: "bound_item t = Some i" "rtRefreshToken t \<noteq> None"
  then obtain d where "bdBoundDeviceId t = Some d" by (auto simp: bound_item_def split: option.splits)
  from bound_item_form [OF i(2) this] i(1) show ?thesis by (auto simp: refresh_item_def base_item_def initCredentialItem_def)
qed

text \<open>
  The bound refresh tokens the library writes carry no date, so that the sort by the time of caching
  leaves them in the order in which the data source answers them.
\<close>

theorem bound_tokens_keep_their_order:
  assumes "\<forall>i\<in>set items. ciCredentialType i = MSIDBoundRefreshTokenType \<longrightarrow>
      (\<exists>t. rtRefreshToken t \<noteq> None \<and> bound_item t = Some i)"
  shows "validateBoundAppRefreshTokens A h items =
    filter (\<lambda>i. ciCredentialType i \<noteq> MSIDBoundRefreshTokenType) items @
    filter (\<lambda>i. ciCredentialType i = MSIDBoundRefreshTokenType \<and>
      bound_to_registration A (aiUtid (initAccountIdentifier None h)) i) items"
  using assms bound_item_undated by (auto simp: validateBoundAppRefreshTokens_def Let_def intro!: sort_items_undated)

definition sample_bound_token :: "string \<Rightarrow> bound_token" where
  "sample_bound_token rt =
     \<lparr>btStorageEnvironment = None, btEnvironment = Some ''e'', btRealm = None, btClientId = Some ''app'',
      btAdditionalServerInfo = None, btAccountIdentifier = None, btSpeInfo = None, btCreatedFromCacheItem = False,
      rtRefreshToken = Some rt, rtFamilyId = None, bdBoundDeviceId = Some ''device-1''\<rparr>"

lemma sample_bound_item: "\<exists>i. bound_item (sample_bound_token rt) = Some i \<and> ciCredentialType i = MSIDBoundRefreshTokenType"
proof -
  have "rtRefreshToken (sample_bound_token rt) \<noteq> None" "bdBoundDeviceId (sample_bound_token rt) = Some ''device-1''"
    by (simp_all add: sample_bound_token_def)
  from bound_item_form [OF this] show ?thesis by auto
qed

theorem bound_tokens_keep_their_order_witness:
  "\<exists>a b. bound_item (sample_bound_token ''old'') = Some a \<and> bound_item (sample_bound_token ''new'') = Some b \<and>
     validateBoundAppRefreshTokens (sample_accessor\<lparr>taRegistration := \<lambda>_. None\<rparr>) None [a, b]
       = filter (bound_to_registration (sample_accessor\<lparr>taRegistration := \<lambda>_. None\<rparr>) None) [a, b]"
proof -
  obtain a b where ab: "bound_item (sample_bound_token ''old'') = Some a" "bound_item (sample_bound_token ''new'') = Some b"
      "ciCredentialType a = MSIDBoundRefreshTokenType" "ciCredentialType b = MSIDBoundRefreshTokenType"
    using sample_bound_item by metis
  have "rtRefreshToken (sample_bound_token rt) \<noteq> None" for rt by (simp add: sample_bound_token_def)
  then have "\<forall>i\<in>set [a, b]. ciCredentialType i = MSIDBoundRefreshTokenType \<longrightarrow> (\<exists>t. rtRefreshToken t \<noteq> None \<and> bound_item t = Some i)"
    using ab(1,2) unfolding list.set by blast
  from bound_tokens_keep_their_order [OF this, of "sample_accessor\<lparr>taRegistration := \<lambda>_. None\<rparr>" None] ab show ?thesis
    by (auto simp: initAccountIdentifier_def)
qed

end
