(* ===== verification/TokenAccessorUpdate.thy ===== *)
theory TokenAccessorUpdate
  imports TokenAccessor
begin

text \<open>
  \<open>cache/accessor/MSIDDefaultTokenCacheAccessor.m\<close>: saving the tokens of a response, removing tokens and
  clearing the cache.
\<close>

section \<open>Saving and removing\<close>

definition checkAccountIdentifier :: "('s, 'e) token_accessor \<Rightarrow> string option \<Rightarrow> ('s, bool, 'e) source_op" where
  "checkAccountIdentifier A accountIdentifier =
     (if accountIdentifier = None then fail False (taError A AccountIdentifierExpected) else answer True)"

text \<open>
  One step after another while they succeed. An item that could not be made fails the assertion of the
  credential cache, which is a failure that changes nothing.
\<close>

definition and_then :: "('s, bool, 'e) source_op \<Rightarrow> ('s, bool, 'e) source_op \<Rightarrow> ('s, bool, 'e) source_op" where
  "and_then m m' = then_op m (\<lambda>ok. if ok then m' else answer False)"

definition saveToken :: "('s, 'e) token_accessor \<Rightarrow> token \<Rightarrow> ('s, bool, 'e) source_op" where
  "saveToken A token =
     and_then (checkAccountIdentifier A (token_home token))
       (case tokenCacheItem token of
          None \<Rightarrow> answer False
        | Some cacheItem \<Rightarrow> saveCredential (taSource A) cacheItem)"

definition saveAccountOf :: "('s, 'e) token_accessor \<Rightarrow> account \<Rightarrow> ('s, bool, 'e) source_op" where
  "saveAccountOf A account =
     and_then (checkAccountIdentifier A (account_homeAccountId account))
       (saveAccount (taCredential A) (taSource A) (accountCacheItem account))"

definition removeToken :: "('s, 'e) token_accessor \<Rightarrow> token option \<Rightarrow> ('s, bool, 'e) source_op" where
  "removeToken A token =
     (case token of
        None \<Rightarrow> fail False (taError A CannotRemoveToken)
      | Some t \<Rightarrow>
          and_then
            (case tokenCacheItem t of
               None \<Rightarrow> answer False
             | Some item \<Rightarrow> removeCredential (taCredential A) (taSource A) item)
            (if is_refresh_type A (token_credentialType t)
             then then_op (without_error (saveWipeInfoWithContext (taSource A))) (\<lambda>_. answer True) else answer True))"

definition removeAccessToken :: "('s, 'e) token_accessor \<Rightarrow> token option \<Rightarrow> ('s, bool, 'e) source_op" where
  "removeAccessToken A token = removeToken A token"

text \<open>What the OAuth2 factory makes of a response: the tokens, the metadata and the account, if any.\<close>

record factory_answer =
  faAccessToken :: "token option"
  faIdToken :: "token option"
  faRefreshToken :: "token option"
  faAppMetadata :: "appmetadata_item option"
  faAccount :: "account option"

definition intersecting_query :: "token \<Rightarrow> access_token \<Rightarrow> credential_query" where
  "intersecting_query token a =
     initCredentialQuery\<lparr>ckHomeAccountId := identifier_home (btAccountIdentifier a), ckEnvironment := btStorageEnvironment a,
       ckRealm := btRealm a, ckClientId := btClientId a,
       ckTarget := map_option msidStringFromOrderedSet (msidScopeSet (atTarget a)), qTargetMatching := MSIDIntersect,
       ckCredentialType := token_credentialType token, ckApplicationIdentifier := atApplicationIdentifier a,
       ckTokenType := atTokenType a\<rparr>"

definition saveAccessToken :: "('s, 'e) token_accessor \<Rightarrow> factory_answer \<Rightarrow> ('s, bool, 'e) source_op" where
  "saveAccessToken A r =
     (case faAccessToken r of
        None \<Rightarrow> answer True
      | Some token \<Rightarrow>
          (case access_part token of
             None \<Rightarrow> answer True
           | Some a \<Rightarrow>
               and_then (checkAccountIdentifier A (identifier_home (btAccountIdentifier a)))
                 (and_then (removeCredentialsWithQuery (taCredential A) (taSource A) (intersecting_query token a))
                    (saveToken A token))))"

definition saveIDToken :: "('s, 'e) token_accessor \<Rightarrow> factory_answer \<Rightarrow> ('s, bool, 'e) source_op" where
  "saveIDToken A r = (case faIdToken r of None \<Rightarrow> answer True | Some idToken \<Rightarrow> saveToken A idToken)"

text \<open>
  A family refresh token is kept once if single family refresh tokens are on, and twice otherwise. The
  factory makes tokens of the class of refresh tokens only.
\<close>

definition saveRefreshToken :: "('s, 'e) token_accessor \<Rightarrow> factory_answer \<Rightarrow> ('s, bool, 'e) source_op" where
  "saveRefreshToken A r =
     (case faRefreshToken r of
        None \<Rightarrow> answer True
      | Some refreshToken \<Rightarrow>
          (case refresh_part refreshToken of
             None \<Rightarrow> answer True
           | Some part \<Rightarrow>
               (let isBound = (case refreshToken of BoundRefreshToken bart \<Rightarrow> bdBoundDeviceId bart \<noteq> None | _ \<Rightarrow> False);
                    separate = saveToken A (without_family refreshToken)
                in if msidIsStringNilOrBlank (rtFamilyId part) then separate
                   else if taBartEnabled A \<and> isBound then saveToken A refreshToken
                   else then_op (checkFRT A) (\<lambda>status.
                     if status = MSIDIsFRTEnabledStatusEnabled
                     then saveToken A (FamilyRefreshToken (familyFromRefreshToken part))
                     else and_then (saveToken A refreshToken) separate))))"

definition saveAppMetadataOf :: "('s, 'e) token_accessor \<Rightarrow> configuration \<Rightarrow> factory_answer \<Rightarrow> ('s, bool, 'e) source_op" where
  "saveAppMetadataOf A configuration r =
     (case faAppMetadata r of
        None \<Rightarrow> fail False (taError A NoAppMetadata)
      | Some metadata \<Rightarrow>
          saveAppMetadata (taSource A)
            (metadata\<lparr>miEnvironment := Option.bind (cfAuthority configuration) (taCacheEnvironment A)\<rparr>))"

definition saveAccountFrom :: "('s, 'e) token_accessor \<Rightarrow> factory_answer \<Rightarrow> ('s, bool, 'e) source_op" where
  "saveAccountFrom A r = (case faAccount r of None \<Rightarrow> answer True | Some account \<Rightarrow> saveAccountOf A account)"

definition saveSSOState ::
  "('s, 'e) token_accessor \<Rightarrow> configuration \<Rightarrow> bool \<Rightarrow> factory_answer \<Rightarrow> ('s, bool, 'e) source_op" where
  "saveSSOState A configuration responseGiven r =
     (if \<not> responseGiven then fail False (taError A NoTokenResponse)
      else and_then (saveRefreshToken A r) (and_then (saveAppMetadataOf A configuration r) (saveAccountFrom A r)))"

definition saveTokens ::
  "('s, 'e) token_accessor \<Rightarrow> configuration \<Rightarrow> bool \<Rightarrow> factory_answer \<Rightarrow> ('s, bool, 'e) source_op" where
  "saveTokens A configuration responseGiven r =
     and_then (saveAccessToken A r) (and_then (saveIDToken A r) (saveSSOState A configuration responseGiven r))"

section \<open>Removing a refresh token that was rejected\<close>

definition same_refresh_token :: "token option \<Rightarrow> refresh_token \<Rightarrow> bool" where
  "same_refresh_token tokenInCache r \<longleftrightarrow>
     (case Option.bind tokenInCache refresh_part of
        None \<Rightarrow> False | Some c \<Rightarrow> isEqualToString (rtRefreshToken c) (rtRefreshToken r))"

definition cached_query :: "refresh_token \<Rightarrow> credential_type \<Rightarrow> credential_query" where
  "cached_query r ty =
     initCredentialQuery\<lparr>ckHomeAccountId := identifier_home (btAccountIdentifier r),
       ckEnvironment := (case btStorageEnvironment r of Some e \<Rightarrow> Some e | None \<Rightarrow> btEnvironment r),
       ckClientId := btClientId r, ckFamilyId := rtFamilyId r, ckCredentialType := ty\<rparr>"

fun remove_from_others :: "('s, 'e) cache_accessor list \<Rightarrow> token \<Rightarrow> ('s, bool, 'e) source_op" where
  "remove_from_others [] token = answer True"
| "remove_from_others (a # as) token = and_then (caValidateAndRemoveRefreshToken a token) (remove_from_others as token)"

definition validateAndRemoveRefreshableToken ::
  "('s, 'e) token_accessor \<Rightarrow> token option \<Rightarrow> credential_type \<Rightarrow> ('s, bool, 'e) source_op" where
  "validateAndRemoveRefreshableToken A token ty =
     (if ty \<noteq> MSIDRefreshTokenType \<and> ty \<noteq> MSIDPrimaryRefreshTokenType \<and> ty \<noteq> MSIDFamilyRefreshTokenType \<and>
         (\<not> taBartEnabled A \<or> ty \<noteq> MSIDBoundRefreshTokenType)
      then answer False
      else
        (case token of
           None \<Rightarrow> fail False (taError A RefreshTokenExpected)
         | Some t \<Rightarrow>
             (case refresh_part t of
                None \<Rightarrow> fail False (taError A RefreshTokenExpected)
              | Some r \<Rightarrow>
                  if msidIsStringNilOrBlank (rtRefreshToken r) then fail False (taError A RefreshTokenExpected)
                  else then_op (getTokenWithEnvironment A (btEnvironment r) (cached_query r ty)) (\<lambda>tokenInCache.
                    if same_refresh_token tokenInCache r then removeToken A tokenInCache
                    else remove_from_others (taOthers A) t))))"

text \<open>The result for bound refresh tokens is not used, and with family refresh tokens only the last one is.\<close>

definition validateAndRemoveRefreshToken :: "('s, 'e) token_accessor \<Rightarrow> token option \<Rightarrow> ('s, bool, 'e) source_op" where
  "validateAndRemoveRefreshToken A token =
     (let remove = validateAndRemoveRefreshableToken A token
      in then_op (checkFRT A) (\<lambda>status.
         then_op (if taBartEnabled A then remove MSIDBoundRefreshTokenType else answer True) (\<lambda>_.
           if status = MSIDIsFRTEnabledStatusEnabled
           then then_op (remove MSIDFamilyRefreshTokenType) (\<lambda>_. remove MSIDRefreshTokenType)
           else remove MSIDRefreshTokenType)))"

definition validateAndRemovePrimaryRefreshToken :: "('s, 'e) token_accessor \<Rightarrow> token option \<Rightarrow> ('s, bool, 'e) source_op" where
  "validateAndRemovePrimaryRefreshToken A token = validateAndRemoveRefreshableToken A token MSIDPrimaryRefreshTokenType"

section \<open>Clearing\<close>

text \<open>On failure the error variable takes the error of the removal, also when there is none.\<close>

definition clear_matching ::
  "('s, 'e) token_accessor \<Rightarrow> string option \<Rightarrow> authority option \<Rightarrow> string option \<Rightarrow> string option \<Rightarrow> bool \<Rightarrow> 'e option \<Rightarrow>
     ('s, bool, 'e) source_op" where
  "clear_matching A homeAccountId authority clientId familyId clearAccounts err s =
     (let aliases = environmentAliases A authority;
          (s1, credentialResult, credentialError) =
            removeCredentialsWithQuery (taCredential A) (taSource A)
              (initCredentialQuery\<lparr>ckClientId := clientId, ckFamilyId := familyId, ckHomeAccountId := homeAccountId,
                 qEnvironmentAliases := aliases, qMatchAnyCredentialType := True\<rparr>) s;
          err1 = (if credentialResult then err else credentialError)
      in if \<not> clearAccounts then (s1, credentialResult, err1)
         else
           (case removeAccountsWithQuery (taSource A)
                (initAccountQuery\<lparr>akHomeAccountId := homeAccountId, aqEnvironmentAliases := aliases,
                   akAccountType := MSIDAccountTypeMSSTS\<rparr>) s1 of
              (s2, accountResult, accountError) \<Rightarrow>
                if accountResult then (s2, credentialResult, err1) else (s2, False, accountError)))"

fun clear_others ::
  "('s, 'e) cache_accessor list \<Rightarrow> account_identifier \<Rightarrow> authority option \<Rightarrow> string option \<Rightarrow> string option \<Rightarrow>
     ('s, unit, 'e) source_op" where
  "clear_others [] accountIdentifier authority clientId familyId = answer ()"
| "clear_others (a # as) accountIdentifier authority clientId familyId =
     then_op (caClearCacheForAccount a accountIdentifier authority clientId familyId)
       (\<lambda>_. clear_others as accountIdentifier authority clientId familyId)"

definition clearCacheForAccount ::
  "('s, 'e) token_accessor \<Rightarrow> account_identifier option \<Rightarrow> authority option \<Rightarrow> string option \<Rightarrow> string option \<Rightarrow> bool \<Rightarrow>
     ('s, bool, 'e) source_op" where
  "clearCacheForAccount A accountIdentifier authority clientId familyId clearAccounts s =
     (case accountIdentifier of
        None \<Rightarrow> fail False (taError A ClearWithoutAccount) s
      | Some account \<Rightarrow>
          (let home = account_identifier.aiHomeAccountId account;
               (s1, homeAccountId, err) =
                 (if msidIsStringNilOrBlank home \<and> \<not> msidIsStringNilOrBlank (aiDisplayableId account)
                  then homeAccountIdForLegacyId A (aiDisplayableId account) authority s else (s, home, None));
               (s2, result, err2) =
                 (if homeAccountId \<noteq> None
                  then clear_matching A homeAccountId authority clientId familyId clearAccounts err s1
                  else (s1, True, err))
           in (case keep_error err2 (clear_others (taOthers A) account authority clientId familyId s2) of
                 (s3, _, err3) \<Rightarrow> (s3, result, err3))))"

fun clear_all_others :: "('s, 'e) cache_accessor list \<Rightarrow> bool \<Rightarrow> 'e option \<Rightarrow> ('s, bool, 'e) source_op" where
  "clear_all_others [] result err s = (s, result, err)"
| "clear_all_others (a # as) result err s =
     (case caClear a s of
        (s1, ok, accountRemovalError) \<Rightarrow>
          if ok then clear_all_others as result err s1
          else clear_all_others as False (if result then accountRemovalError else err) s1)"

definition clearCacheForAllAccounts :: "('s, 'e) token_accessor \<Rightarrow> ('s, bool, 'e) source_op" where
  "clearCacheForAllAccounts A s =
     (case clearCredentialCache (taSource A) s of
        (s1, result, accountRemovalError) \<Rightarrow>
          clear_all_others (taOthers A) result (if result then None else accountRemovalError) s1)"

definition clearWithContext :: "('s, 'e) token_accessor \<Rightarrow> ('s, bool, 'e) source_op" where
  "clearWithContext A = clearCredentialCache (taSource A)"

section \<open>The entries of a source\<close>

text \<open>
  Every entry stands at the address of the key that saving its item makes, and holds no more than a
  token of its type keeps; and what removes entries with one secret only.
\<close>

definition keyed :: "(credential_key \<Rightarrow> 'a option) \<Rightarrow> ('a \<Rightarrow> credential_item option) \<Rightarrow> bool" where
  "keyed addr entries \<longleftrightarrow> (\<forall>a i. entries a = Some i \<longrightarrow> addr (saving_key i) = Some a \<and> fits_type i)"

definition only_removes :: "string option \<Rightarrow> ('a \<Rightarrow> credential_item option) \<Rightarrow> ('a \<Rightarrow> credential_item option) \<Rightarrow> bool" where
  "only_removes secret before after \<longleftrightarrow>
     (\<forall>a. after a = before a \<or> after a = None \<and> (\<exists>i. before a = Some i \<and> ciSecret i = secret))"

lemma only_removes_refl: "only_removes sec l l"
  by (simp add: only_removes_def)

lemma only_removes_trans: "only_removes sec l l' \<Longrightarrow> only_removes sec l' l'' \<Longrightarrow> only_removes sec l l''"
  unfolding only_removes_def by metis

lemma only_removes_keyed: "only_removes sec l l' \<Longrightarrow> keyed addr l \<Longrightarrow> keyed addr l'"
  unfolding only_removes_def keyed_def by (metis option.distinct(1))

lemma only_removes_one: "l a = Some i \<Longrightarrow> ciSecret i = sec \<Longrightarrow> only_removes sec l (l(a := None))"
  by (simp add: only_removes_def)

text \<open>
  A source whose queries answer entries and change none, and whose failed removals remove at most the
  entry they were asked to. The address of a key is decided by its type, account and service.
\<close>

locale accessor_source = credential_source +
  assumes query_law: "inv s \<Longrightarrow> dsTokensWithKey D (CredentialQuery q) s = (s', items, e) \<Longrightarrow>
      inv s' \<and> look s' = look s \<and> (\<forall>i\<in>set (case items of None \<Rightarrow> [] | Some r \<Rightarrow> r). \<exists>a. look s a = Some i)"
    and remove_failed_law: "inv s \<Longrightarrow> addr k = Some a \<Longrightarrow> dsRemoveTokensWithKey D (CredentialKey k) s = (s', False, e) \<Longrightarrow>
      inv s' \<and> (look s' = look s \<or> look s' = (look s)(a := None))"
    and accounts_law: "inv s \<Longrightarrow> inv (fst (dsAccountsWithKey D sk s)) \<and> look (fst (dsAccountsWithKey D sk s)) = look s"
    and wipe_read_law: "inv s \<Longrightarrow> inv (fst (dsWipeInfo D s)) \<and> look (fst (dsWipeInfo D s)) = look s"
    and json_law: "inv s \<Longrightarrow> inv (fst (dsJsonObjectsWithKey D sk s)) \<and> look (fst (dsJsonObjectsWithKey D sk s)) = look s"
    and json_save_law: "inv s \<Longrightarrow> inv (fst (dsSaveJsonObject D j sk s)) \<and> look (fst (dsSaveJsonObject D j sk s)) = look s"
    and addr_law: "ckCredentialType k = ckCredentialType k' \<Longrightarrow> ckAppKey k = ckAppKey k' \<Longrightarrow>
      credentialKey_account k = credentialKey_account k' \<Longrightarrow> (\<And>th. credentialKey_service th k = credentialKey_service th k') \<Longrightarrow>
      addr k = addr k'"
begin

abbreviation "same s s' \<equiv> look s' = look s"

lemma same_refl_trans: "reflp same" "transp same"
  by (auto intro: reflpI transpI)

lemma getCredentials_entries:
  assumes "inv s" "getCredentialsWithQuery E D q s = (s', items, e)"
  shows "inv s' \<and> look s' = look s \<and> (\<forall>i\<in>set (case items of None \<Rightarrow> [] | Some r \<Rightarrow> r). \<exists>a. look s a = Some i)"
proof -
  obtain s1 r e1 where r: "dsTokensWithKey D (CredentialQuery q) s = (s1, r, e1)"
    by (cases "dsTokensWithKey D (CredentialQuery q) s") auto
  show ?thesis using query_law [OF assms(1) r] assms(2) r
    by (auto simp: getCredentialsWithQuery_def split: option.splits if_splits)
qed

lemma keeps_getCredentials: "keeps inv same (getCredentialsWithQuery E D q)"
proof (rule keepsI)
  fix s assume "inv s"
  then show "inv (fst (getCredentialsWithQuery E D q s)) \<and> same s (fst (getCredentialsWithQuery E D q s))"
    using getCredentials_entries [of s E q] by (metis prod.collapse)
qed

lemma keeps_getAccounts: "keeps inv same (getAccountsWithQuery D q)"
proof (rule keepsI)
  fix s assume "inv s"
  from accounts_law [OF this, of "AccountQuery q"]
  show "inv (fst (getAccountsWithQuery D q s)) \<and> same s (fst (getAccountsWithQuery D q s))"
    by (auto simp: getAccountsWithQuery_def split: prod.split)
qed

lemma keeps_updateFRT: "inv s \<Longrightarrow> inv (fst (updateFRTSettings D b s)) \<and> same s (fst (updateFRTSettings D b s))"
  using json_save_law [of s "[(''use_single_frt'', NSNum (if b then 1 else 0))]" checkFRTCacheKey]
  by (auto simp: updateFRTSettings_def split: prod.split)

lemma keeps_flags: "inv s \<Longrightarrow> inv (fst (checkFeatureFlagsAndReturn D flight st s)) \<and> same s (fst (checkFeatureFlagsAndReturn D flight st s))"
  using keeps_updateFRT [of s True] keeps_updateFRT [of s False]
  by (cases st) (auto simp: checkFeatureFlagsAndReturn_def Let_def split: prod.split option.split)

lemma keeps_checkFRT: "taSource A = D \<Longrightarrow> keeps inv same (checkFRT A)"
proof (rule keepsI)
  fix s assume A: "taSource A = D" and s: "inv s"
  obtain s1 r e where j: "dsJsonObjectsWithKey D checkFRTCacheKey s = (s1, r, e)"
    by (cases "dsJsonObjectsWithKey D checkFRTCacheKey s") auto
  have s1: "inv s1" "look s1 = look s" using json_law [OF s, of checkFRTCacheKey] by (simp_all add: j)
  show "inv (fst (checkFRT A s)) \<and> same s (fst (checkFRT A s))"
    using keeps_flags [OF s, of "taFlight A"] keeps_flags [OF s1(1), of "taFlight A"] s1(2)
    by (auto simp: checkFRT_def A checkFRTEnabled_def j split: prod.split option.split) (metis fst_conv)+
qed

lemma keeps_getTokens: "taSource A = D \<Longrightarrow> keeps inv same (getTokensWithEnvironment A env q)"
  unfolding getTokensWithEnvironment_def
  by (intro keeps_then keeps_answer same_refl_trans) (simp add: keeps_getCredentials)

lemma keeps_getToken: "taSource A = D \<Longrightarrow> keeps inv same (getTokenWithEnvironment A env q)"
proof (rule keepsI)
  fix s assume A: "taSource A = D" and s: "inv s"
  obtain s1 ts e where g: "getTokensWithEnvironment A env q s = (s1, ts, e)"
    by (cases "getTokensWithEnvironment A env q s") auto
  note keepsD [OF keeps_getTokens [OF A] s g]
  then show "inv (fst (getTokenWithEnvironment A env q s)) \<and> same s (fst (getTokenWithEnvironment A env q s))"
    using wipe_read_law [of s1]
    by (auto simp: getTokenWithEnvironment_def g wipeInfoWithContext_def A split: option.split list.split)
qed

lemma getTokens_entry:
  assumes "taSource A = D" "inv s" "getTokensWithEnvironment A env q s = (s', tokens, e)" "t \<in> set tokens"
  obtains a i t' where "look s a = Some i" "tokenWithType (taToken A) i (ckCredentialType q) = Some t'" "t = relocate env t'"
proof -
  obtain s1 items e1 i t' where g: "getCredentialsWithQuery (taCredential A) D q s = (s1, Some items, e1)"
      "i \<in> set (validateBoundAppRefreshTokens A (ckHomeAccountId q) items)"
      "tokenWithType (taToken A) i (ckCredentialType q) = Some t'" "t = relocate env t'"
    using getTokens_from_item [OF assms(3,4)] assms(1) by metis
  moreover have "i \<in> set items" using validateBound_sub g(2) by fastforce
  ultimately show thesis using getCredentials_entries [OF assms(2) g(1)] that by auto
qed

lemma getToken_entry:
  assumes "taSource A = D" "inv s" "getTokenWithEnvironment A env q s = (s', Some t, e)"
  obtains a i t' where "look s a = Some i" "tokenWithType (taToken A) i (ckCredentialType q) = Some t'" "t = relocate env t'"
proof -
  obtain s1 ts e1 where g: "getTokensWithEnvironment A env q s = (s1, ts, e1)"
    by (cases "getTokensWithEnvironment A env q s") auto
  then have "t \<in> set ts" using assms(3) by (auto simp: getTokenWithEnvironment_def split: option.splits list.splits if_splits)
  then show thesis using getTokens_entry [OF assms(1,2) g] that by metis
qed

lemma addr_of_read:
  assumes "keyed addr (look s)" "look s a = Some i" "credential_generateCacheKey i' = normal_key i" "ceAppKey E i' = None"
  shows "addr (removing_key E i') = Some a"
proof -
  have keys: "removing_key E i' = normal_key i" "saving_key i = credential_generateCacheKey i"
    using assms(3,4) by (simp_all add: removing_key_def saving_key_def credential_generateCacheKey_def initCredentialKey_def)
  have "addr (normal_key i) = addr (credential_generateCacheKey i)"
    by (rule addr_law) (simp_all add: normal_key_same, simp_all add: normal_key_def key_of_fields)
  moreover have "addr (saving_key i) = Some a" using assms(1,2) by (simp add: keyed_def)
  ultimately show ?thesis by (simp add: keys)
qed

lemma removeCredential_any:
  assumes "inv s" "addr (removing_key E i) = Some a" "removeCredential E D i s = (s', r, e)"
  shows "inv s' \<and> (look s' = (look s)(a := None) \<or> \<not> r \<and> look s' = look s)"
proof (cases r)
  case True
  with removeCredential_clears [OF assms(1,2)] assms(3) show ?thesis by auto
next
  case False
  then have "dsRemoveTokensWithKey D (CredentialKey (removing_key E i)) s = (s', False, e)"
    using assms(3) by (auto simp: removeCredential_def split: prod.splits if_splits)
  with remove_failed_law [OF assms(1,2)] False show ?thesis by blast
qed

lemma removeToken_read:
  assumes "taSource A = D" "\<And>i. ceAppKey (taCredential A) i = None" "inv s" "keyed addr (look s)" "look s a = Some i"
    and "tokenWithType (taToken A) i (ciCredentialType i) = Some t" "removeToken A (Some (relocate env t)) s = (s', r, e)"
  shows "inv s' \<and> (look s' = (look s)(a := None) \<or> \<not> r \<and> look s' = look s)"
proof -
  have "fits_type i" using assms(4,5) by (simp add: keyed_def)
  then obtain i' where i': "tokenCacheItem (relocate env t) = Some i'" "credential_generateCacheKey i' = normal_key i"
    using typed_token_keeps_key [OF _ assms(6), of env] by (auto simp: keeps_key_def)
  obtain s1 r1 e1 where r: "removeCredential (taCredential A) D i' s = (s1, r1, e1)"
    by (cases "removeCredential (taCredential A) D i' s") auto
  note c = removeCredential_any [OF assms(3) addr_of_read [OF assms(4,5) i'(2) assms(2)] r]
  show ?thesis
    using c wipe_law [of s1] assms(7)
    by (auto simp: removeToken_def i'(1) assms(1) and_then_def then_op_def r without_error_def answer_def
        saveWipeInfoWithContext_def split: if_splits prod.splits)
qed

lemma refreshable_type:
  assumes "tokenWithType E i ty = Some t" "ty \<in> {MSIDRefreshTokenType, MSIDFamilyRefreshTokenType, MSIDBoundRefreshTokenType, MSIDPrimaryRefreshTokenType}"
  shows "ciCredentialType i = ty \<and> (\<exists>r. refresh_part t = Some r \<and> rtRefreshToken r = ciSecret i)"
  using assms
  by (auto simp: tokenWithType_def bound_initWithItem_def primary_initWithItem_def refresh_initWithItem_def base_initWithItem_def
      Let_def base_token.defs refresh_token.defs split: option.splits if_splits)

lemma refresh_part_relocate:
  "refresh_part (relocate env t) = map_option (base_relocate env) (refresh_part t)"
  by (cases t) (auto simp: base_relocate_def Let_def refresh_token.defs split: option.split)

lemma keeps_remove_others:
  assumes "\<forall>o'\<in>set others. keeps I R (caValidateAndRemoveRefreshToken o' t)" "reflp R" "transp R"
  shows "keeps I R (remove_from_others others t)"
  using assms by (induction others) (auto simp: and_then_def intro!: keeps_then intro: keeps_answer)

abbreviation "keyed_inv s \<equiv> inv s \<and> keyed addr (look s)"

abbreviation "rejects sec s s' \<equiv> only_removes sec (look s) (look s')"

lemma rejects_refl_trans: "reflp (rejects sec)" "transp (rejects sec)"
  by (auto intro!: reflpI transpI only_removes_refl dest: only_removes_trans)

lemma same_rejects: "keeps inv same m \<Longrightarrow> keeps keyed_inv (rejects sec) m"
  by (auto simp: keeps_def only_removes_refl)

lemma keeps_reject_type:
  assumes A: "taSource A = D" "\<And>i. ceAppKey (taCredential A) i = None"
    and others: "\<forall>o'\<in>set (taOthers A). keeps inv same (caValidateAndRemoveRefreshToken o' t)"
    and r: "refresh_part t = Some r"
  shows "keeps keyed_inv (rejects (rtRefreshToken r)) (validateAndRemoveRefreshableToken A (Some t) ty)"
proof (cases "ty \<in> {MSIDRefreshTokenType, MSIDFamilyRefreshTokenType, MSIDBoundRefreshTokenType, MSIDPrimaryRefreshTokenType} \<and>
    \<not> msidIsStringNilOrBlank (rtRefreshToken r) \<and> (ty = MSIDBoundRefreshTokenType \<longrightarrow> taBartEnabled A)")
  case False
  then show ?thesis
    by (auto simp: validateAndRemoveRefreshableToken_def r intro: keeps_answer rejects_refl_trans)
next
  case True
  let ?get = "getTokenWithEnvironment A (btEnvironment r) (cached_query r ty)"
  let ?next = "\<lambda>tok. if same_refresh_token tok r then removeToken A tok else remove_from_others (taOthers A) t"
  have run: "validateAndRemoveRefreshableToken A (Some t) ty = then_op ?get ?next"
    using True by (auto simp: validateAndRemoveRefreshableToken_def r)
  show ?thesis unfolding run
  proof (rule keepsI)
    fix s assume s: "keyed_inv s"
    obtain s1 tok e1 where g: "?get s = (s1, tok, e1)" by (cases "?get s") auto
    obtain s2 b e2 where n: "?next tok s1 = (s2, b, e2)" by (cases "?next tok s1") auto
    have s1: "inv s1" "look s1 = look s" using keepsD [OF keeps_getToken [OF A(1)] _ g] s by simp_all
    have fst: "fst (then_op ?get ?next s) = s2" by (simp add: then_op_def g n)
    show "keyed_inv (fst (then_op ?get ?next s)) \<and> rejects (rtRefreshToken r) s (fst (then_op ?get ?next s))"
    proof (cases "same_refresh_token tok r")
      case False
      with n have "remove_from_others (taOthers A) t s1 = (s2, b, e2)" by simp
      from keepsD [OF keeps_remove_others [OF others same_refl_trans] s1(1) this] s s1(2)
      show ?thesis by (simp add: fst only_removes_refl)
    next
      case same: True
      then obtain t0 where tok: "tok = Some t0" by (cases tok) (auto simp: same_refresh_token_def)
      obtain a i t' where i: "look s a = Some i" "tokenWithType (taToken A) i (ckCredentialType (cached_query r ty)) = Some t'"
          "t0 = relocate (btEnvironment r) t'"
        using getToken_entry [OF A(1) _ g [unfolded tok]] s by metis
      have "ckCredentialType (cached_query r ty) = ty" by (simp add: cached_query_def)
      then obtain r' where r': "ciCredentialType i = ty" "refresh_part t' = Some r'" "rtRefreshToken r' = ciSecret i"
        using refreshable_type [of "taToken A" i ty t'] i(2) True by auto
      have "ciSecret i = rtRefreshToken r"
        using same r' by (auto simp: same_refresh_token_def tok i(3) refresh_part_relocate isEqualToString_iff)
      moreover have "inv s2 \<and> (look s2 = (look s)(a := None) \<or> \<not> b \<and> look s2 = look s)"
        using removeToken_read [OF A s1(1), of a i t' "btEnvironment r" s2 b e2] s s1(2) i n same r'(1)
        by (simp add: tok cached_query_def)
      ultimately have "inv s2" "rejects (rtRefreshToken r) s s2"
        using i(1) only_removes_one [of "look s" a i] only_removes_refl by auto
      then show ?thesis using s only_removes_keyed by (auto simp: fst)
    qed
  qed
qed

lemma rejected_removal:
  assumes A: "taSource A = D" "\<And>i. ceAppKey (taCredential A) i = None"
    and others: "\<forall>o'\<in>set (taOthers A). keeps inv same (caValidateAndRemoveRefreshToken o' t)"
    and r: "refresh_part t = Some r"
  shows "keeps keyed_inv (rejects (rtRefreshToken r)) (validateAndRemoveRefreshToken A (Some t))"
  unfolding validateAndRemoveRefreshToken_def Let_def
  by (intro keeps_then keeps_if keeps_answer rejects_refl_trans keeps_reject_type [OF assms]
      same_rejects [OF keeps_checkFRT [OF A(1)]])

end

end
