(* ===== verification/TokenAccessorAccounts.thy ===== *)
theory TokenAccessorAccounts
  imports TokenAccessorUpdate AccountMetadata
begin

text \<open>
  \<open>cache/accessor/MSIDDefaultTokenCacheAccessor.m\<close>: the accounts of the cache, which the sign-in state of their
  metadata filters, and the metadata of applications.
\<close>

section \<open>Accounts\<close>

text \<open>
  The home account ids of the refresh tokens of an application, \<open>None\<close> when they cannot be read. A set that
  is nil stays nil when another one is added to it.
\<close>

definition homeAccountIdsOfType ::
  "('s, 'e) token_accessor \<Rightarrow> authority option \<Rightarrow> string option \<Rightarrow> string option \<Rightarrow> credential_type \<Rightarrow>
     ('s, string option list option, 'e) source_op" where
  "homeAccountIdsOfType A authority clientId familyId ty =
     then_op (getCredentialsWithQuery (taCredential A) (taSource A)
         (initCredentialQuery\<lparr>ckCredentialType := ty, ckClientId := clientId, ckFamilyId := familyId,
            qEnvironmentAliases := environmentAliases A authority, qClientIdMatching := MSIDSuperSet\<rparr>))
       (\<lambda>items. answer (map_option (map ciHomeAccountId) items))"

definition set_adding :: "'a list option \<Rightarrow> 'a list option \<Rightarrow> 'a list option" where
  "set_adding first second = map_option (\<lambda>xs. xs @ (case second of None \<Rightarrow> [] | Some ys \<Rightarrow> ys)) first"

definition homeAccountIdsFromRTs ::
  "('s, 'e) token_accessor \<Rightarrow> authority option \<Rightarrow> string option \<Rightarrow> string option \<Rightarrow>
     ('s, string option list option, 'e) source_op" where
  "homeAccountIdsFromRTs A authority clientId familyId =
     (let ids = homeAccountIdsOfType A authority clientId familyId
      in then_op (checkFRT A) (\<lambda>status.
         (let frtEnabled = (status = MSIDIsFRTEnabledStatusEnabled)
          in then_op (ids (if frtEnabled then MSIDFamilyRefreshTokenType else MSIDRefreshTokenType)) (\<lambda>firstSet.
             then_op (if taBartEnabled A \<and> \<not> taSkipBound A then ids MSIDBoundRefreshTokenType else answer None) (\<lambda>bartSet.
               if \<not> frtEnabled then answer (set_adding firstSet bartSet)
               else then_op (ids MSIDRefreshTokenType)
                      (\<lambda>secondSet. answer (set_adding (set_adding firstSet bartSet) secondSet)))))))"

text \<open>The metadata of accounts, a parameter that may be nil: the sign-in state of an account for a client.\<close>

type_synonym 's sign_in_op = "(string option \<Rightarrow> string option \<Rightarrow> 's \<Rightarrow> 's \<times> account_metadata_state) option"

definition signInState :: "'s sign_in_op \<Rightarrow> string option \<Rightarrow> string option \<Rightarrow> 's \<Rightarrow> 's \<times> account_metadata_state" where
  "signInState metadata homeAccountId clientId s =
     (case metadata of None \<Rightarrow> (s, MSIDAccountMetadataStateUnknown) | Some m \<Rightarrow> m homeAccountId clientId s)"

definition search_key :: "string option \<Rightarrow> string option \<Rightarrow> string option \<Rightarrow> string" where
  "search_key homeAccountId environment realm =
     fmt_obj homeAccountId @ ''-'' @ fmt_obj environment @ ''-'' @ fmt_obj realm"

definition idTokenSearchMap :: "token list \<Rightarrow> (string, id_token) dict" where
  "idTokenSearchMap tokens =
     fold (\<lambda>t d. (case id_part t of
         None \<Rightarrow> d
       | Some i \<Rightarrow> dict_put (search_key (identifier_home (btAccountIdentifier i)) (btEnvironment i) (btRealm i)) i d)) tokens []"

text \<open>Whether an account is answered: the sign-in state decides over the refresh tokens.\<close>

definition returned_state :: "string option list option \<Rightarrow> string option \<Rightarrow> account_metadata_state \<Rightarrow> bool" where
  "returned_state accountIdsFromRT homeAccountId state \<longleftrightarrow>
     (if state = MSIDAccountMetadataStateSignedIn then True
      else if state = MSIDAccountMetadataStateSignedOut then False
      else homeAccountId \<noteq> None \<and> homeAccountId \<in> set (case accountIdsFromRT of None \<Rightarrow> [] | Some ids \<Rightarrow> ids))"

definition filled_account :: "('s, 'e) token_accessor \<Rightarrow> authority option \<Rightarrow> (string, id_token) dict \<Rightarrow> account_item \<Rightarrow> account" where
  "filled_account A authority idTokens item =
     (let item' = (case authority_environment authority of None \<Rightarrow> item | Some e \<Rightarrow> item\<lparr>aiEnvironment := Some e\<rparr>);
          account = account_initWithItem item'
      in (case dict_get idTokens (search_key (account_homeAccountId account) (acEnvironment account) (acRealm account)) of
            None \<Rightarrow> account
          | Some idToken \<Rightarrow> account\<lparr>acIdTokenClaims := taClaims A (itRawIdToken idToken)\<rparr>))"

fun filterAndFillIdTokenClaims ::
  "('s, 'e) token_accessor \<Rightarrow> authority option \<Rightarrow> string option list option \<Rightarrow> (string, id_token) dict \<Rightarrow> string option \<Rightarrow>
     's sign_in_op \<Rightarrow> bool \<Rightarrow> account_item list \<Rightarrow> account list \<Rightarrow> string list \<Rightarrow> 's \<Rightarrow> 's \<times> account list \<times> string list" where
  "filterAndFillIdTokenClaims A authority ids idTokens clientId metadata signedInOnly [] accounts noReturn s =
     (s, accounts, noReturn)"
| "filterAndFillIdTokenClaims A authority ids idTokens clientId metadata signedInOnly (item # items) accounts noReturn s =
     (let (s1, state) = (if signedInOnly then signInState metadata (account_item.aiHomeAccountId item) clientId s
                         else (s, MSIDAccountMetadataStateUnknown));
          shouldReturn = (\<not> signedInOnly \<or> returned_state ids (account_item.aiHomeAccountId item) state)
      in filterAndFillIdTokenClaims A authority ids idTokens clientId metadata signedInOnly items
           (if shouldReturn then addAccount accounts (filled_account A authority idTokens item) else accounts)
           (case aiUsername item of
              Some u \<Rightarrow> if shouldReturn then noReturn else noReturn @ [u]
            | None \<Rightarrow> noReturn) s1)"

fun filterSignedOutAccounts ::
  "'s sign_in_op \<Rightarrow> string option \<Rightarrow> string list \<Rightarrow> account list \<Rightarrow> account list \<Rightarrow> 's \<Rightarrow> 's \<times> account list" where
  "filterSignedOutAccounts metadata clientId noReturn known [] s = (s, [])"
| "filterSignedOutAccounts metadata clientId noReturn known (a # as) s =
     (let home = account_homeAccountId a;
          (s1, kept) =
            (if msidIsStringNilOrBlank home
             then (s, \<not> (case acUsername a of None \<Rightarrow> False | Some u \<Rightarrow> u \<in> set noReturn))
             else if containsAccount known a then (s, False)
             else (case signInState metadata home clientId s of (s', state) \<Rightarrow> (s', state \<noteq> MSIDAccountMetadataStateSignedOut)));
          (s2, rest) = filterSignedOutAccounts metadata clientId noReturn known as s1
      in (s2, if kept then a # rest else rest))"

fun accounts_of_others ::
  "('s, 'e) cache_accessor list \<Rightarrow> authority option \<Rightarrow> string option \<Rightarrow> string option \<Rightarrow> account_identifier option \<Rightarrow>
     's sign_in_op \<Rightarrow> string list \<Rightarrow> account list \<Rightarrow> ('s, account list, 'e) source_op" where
  "accounts_of_others [] authority clientId familyId accountIdentifier metadata noReturn accounts = answer accounts"
| "accounts_of_others (a # as) authority clientId familyId accountIdentifier metadata noReturn accounts =
     then_op (caAccountsWithAuthority a authority clientId familyId accountIdentifier) (\<lambda>found s.
       (case filterSignedOutAccounts metadata clientId noReturn accounts found s of
          (s1, kept) \<Rightarrow>
            accounts_of_others as authority clientId familyId accountIdentifier metadata noReturn (foldl addAccount accounts kept) s1))"

definition accounts_query :: "('s, 'e) token_accessor \<Rightarrow> authority option \<Rightarrow> account_identifier option \<Rightarrow> account_query" where
  "accounts_query A authority accountIdentifier =
     initAccountQuery\<lparr>akAccountType := MSIDAccountTypeMSSTS, aqEnvironmentAliases := environmentAliases A authority,
       akHomeAccountId := identifier_home accountIdentifier, akUsername := identifier_displayable accountIdentifier\<rparr>"

definition accountsWithAuthority ::
  "('s, 'e) token_accessor \<Rightarrow> authority option \<Rightarrow> string option \<Rightarrow> string option \<Rightarrow> account_identifier option \<Rightarrow>
     's sign_in_op \<Rightarrow> bool \<Rightarrow> ('s, account list option, 'e) source_op" where
  "accountsWithAuthority A authority clientId familyId accountIdentifier metadata signedInOnly s =
     (case getAccountsWithQuery (taSource A) (accounts_query A authority accountIdentifier) s of
        (s1, None, e1) \<Rightarrow> (s1, None, e1)
      | (s1, Some allAccounts, e1) \<Rightarrow>
          (case (if signedInOnly then homeAccountIdsFromRTs A authority clientId familyId s1 else (s1, None, None)) of
             (s2, _, Some localError) \<Rightarrow> (s2, None, Some localError)
           | (s2, ids, None) \<Rightarrow>
               (let (s3, idTokens, _) = idTokensWithAuthority A authority accountIdentifier clientId s2;
                    (s4, accounts, noReturn) =
                      filterAndFillIdTokenClaims A authority ids (idTokenSearchMap idTokens) clientId metadata signedInOnly
                        allAccounts [] [] s3;
                    s5 = (if accounts = [] then fst (wipeInfoWithContext (taSource A) s4) else s4)
                in (case keep_error e1 (accounts_of_others (taOthers A) authority clientId familyId accountIdentifier
                          metadata noReturn accounts s5) of
                      (s6, all, e6) \<Rightarrow> (s6, Some all, e6)))))"

definition hasSuffix :: "string \<Rightarrow> string \<Rightarrow> bool" where
  "hasSuffix s suffix \<longleftrightarrow> length suffix \<le> length s \<and> drop (length s - length suffix) s = suffix"

text \<open>
  The account of an identifier: one in the realm of the hint, else the first one, or the first one of
  the home tenant if that is given. The flag says that the home tenant decided.
\<close>

fun select_account :: "string option \<Rightarrow> string option \<Rightarrow> account_item list \<Rightarrow> account option \<Rightarrow> bool \<Rightarrow> account option \<times> bool \<times> bool" where
  "select_account realmHint accountHomeTenantId [] first matched = (first, matched, False)"
| "select_account realmHint accountHomeTenantId (item # items) first matched =
     (let account = account_initWithItem item
      in if realmHint \<noteq> None \<and> isEqualToString (acRealm account) realmHint then (Some account, matched, True)
         else if first \<noteq> None then select_account realmHint accountHomeTenantId items first matched
         else
           (case accountHomeTenantId of
              None \<Rightarrow> select_account realmHint accountHomeTenantId items (Some account) matched
            | Some tenant \<Rightarrow>
                (case account_homeAccountId account of
                   Some h \<Rightarrow>
                     if hasSuffix h tenant then select_account realmHint accountHomeTenantId items (Some account) True
                     else select_account realmHint accountHomeTenantId items None matched
                 | None \<Rightarrow> select_account realmHint accountHomeTenantId items None matched)))"

definition selection_log :: "nat \<Rightarrow> string option \<Rightarrow> string option \<Rightarrow> bool \<Rightarrow> string" where
  "selection_log n realmHint accountHomeTenantId matched =
     (let flag = (\<lambda>b. if b then ''1'' else ''0'')
      in nat_str n @ '','' @ flag (realmHint \<noteq> None) @ '','' @ flag (accountHomeTenantId \<noteq> None) @ '','' @ flag matched)"

definition account_lookup_query :: "('s, 'e) token_accessor \<Rightarrow> account_identifier option \<Rightarrow> authority option \<Rightarrow> account_query" where
  "account_lookup_query A accountIdentifier authority =
     initAccountQuery\<lparr>akHomeAccountId := identifier_home accountIdentifier,
       aqEnvironmentAliases := environmentAliases A authority, akRealm := authority_realm A authority,
       akAccountType := MSIDAccountTypeMSSTS,
       akUsername := (if msidIsStringNilOrBlank (identifier_home accountIdentifier)
                      then identifier_displayable accountIdentifier else None)\<rparr>"

text \<open>The result and the selection log, which an account found by the hint leaves as it was.\<close>

definition getAccountForIdentifier ::
  "('s, 'e) token_accessor \<Rightarrow> account_identifier option \<Rightarrow> authority option \<Rightarrow> string option \<Rightarrow> string option \<Rightarrow>
     ('s, account option \<times> string option, 'e) source_op" where
  "getAccountForIdentifier A accountIdentifier authority realmHint accountHomeTenantId s =
     (case getAccountsWithQuery (taSource A) (account_lookup_query A accountIdentifier authority) s of
        (s1, None, e) \<Rightarrow> (fst (wipeInfoWithContext (taSource A) s1), (None, None), e)
      | (s1, Some items, e) \<Rightarrow>
          (case select_account realmHint accountHomeTenantId items None False of
             (found, matched, byHint) \<Rightarrow>
               (s1, (found, if \<not> byHint \<and> length items > 1
                            then Some (selection_log (length items) realmHint accountHomeTenantId matched) else None), e)))"

section \<open>App metadata\<close>

definition metadata_query :: "('s, 'e) token_accessor \<Rightarrow> string option \<Rightarrow> authority option \<Rightarrow> appmetadata_query" where
  "metadata_query A clientId authority =
     \<lparr>mkClientId = clientId, mkEnvironment = None, mkFamilyId = None, mkGeneralType = MSIDAppMetadataType,
      mqEnvironmentAliases = environmentAliases A authority\<rparr>"

definition getAppMetadataEntries ::
  "('s, 'e) token_accessor \<Rightarrow> configuration \<Rightarrow> ('s, appmetadata_item list option, 'e) source_op" where
  "getAppMetadataEntries A configuration =
     getAppMetadataEntriesWithQuery (taSource A)
       (metadata_query A (cfClientId configuration) (cfAuthority configuration))"

fun update_entries :: "('s, 'e) token_accessor \<Rightarrow> string option \<Rightarrow> appmetadata_item list \<Rightarrow> ('s, bool, 'e) source_op" where
  "update_entries A familyId [] = answer True"
| "update_entries A familyId (m # ms) =
     and_then (saveAppMetadata (taSource A) (m\<lparr>miFamilyId := familyId\<rparr>)) (update_entries A familyId ms)"

definition updateAppMetadataWithFamilyId ::
  "('s, 'e) token_accessor \<Rightarrow> string option \<Rightarrow> string option \<Rightarrow> authority option \<Rightarrow> ('s, bool, 'e) source_op" where
  "updateAppMetadataWithFamilyId A familyId clientId authority =
     then_op (getAppMetadataEntriesWithQuery (taSource A) (metadata_query A clientId authority)) (\<lambda>items.
       case items of
         None \<Rightarrow> answer False
       | Some [] \<Rightarrow>
           saveAppMetadata (taSource A)
             \<lparr>miClientId = clientId, miEnvironment = Option.bind authority (taCacheEnvironment A), miFamilyId = familyId,
              miJson = None\<rparr>
       | Some entries \<Rightarrow> update_entries A familyId entries)"

section \<open>The sign-in state decides\<close>

lemma filled_home:
  "account_homeAccountId (filled_account A authority idTokens i) = map_option msidNormalizedString (account_item.aiHomeAccountId i)"
  by (auto simp: filled_account_def account_initWithItem_def account_homeAccountId_def initAccountIdentifier_def Let_def
      split: option.split)

lemma addAccount_home:
  assumes "\<forall>b\<in>set as. account_homeAccountId b \<noteq> None" "account_homeAccountId a = Some h"
  shows "\<exists>b\<in>set (addAccount as a). account_homeAccountId b = Some h"
proof (cases "containsAccount as a")
  case True
  then obtain b where b: "b \<in> set as" "account_isEqual a b" by (auto simp: containsAccount_def)
  moreover have "account_homeAccountId b \<noteq> None" using assms(1) b(1) by blast
  ultimately have "account_homeAccountId b = Some h"
    using assms(2) by (auto simp: account_isEqual_def account_homeAccountId_def account_identifier_isEqual_def eq_or_both_nil_def
        isEqualToString_iff split: option.splits if_splits)
  with b True show ?thesis by (auto simp: addAccount_def)
qed (simp add: addAccount_def assms(2))

lemma foldl_addAccount: "set accounts \<subseteq> set (foldl addAccount accounts as)" "set (foldl addAccount accounts as) \<subseteq> set accounts \<union> set as"
proof (induction as arbitrary: accounts)
  case (Cons a as)
  { case 1 show ?case using Cons(1) [of "addAccount accounts a"] set_addAccount [of accounts a] by auto }
  { case 2 show ?case using Cons(2) [of "addAccount accounts a"] set_addAccount [of accounts a] by auto }
qed simp_all

definition normal_home :: "account_item \<Rightarrow> bool" where
  "normal_home i \<longleftrightarrow> (case account_item.aiHomeAccountId i of None \<Rightarrow> False | Some x \<Rightarrow> msidNormalizedString x = x)"

lemma normal_homeD: "normal_home i \<Longrightarrow> account_homeAccountId (filled_account A authority idTokens i) = account_item.aiHomeAccountId i"
  by (auto simp: normal_home_def filled_home split: option.splits)

lemma filter_drops:
  assumes "\<forall>s. snd (m (Some h) clientId s) = MSIDAccountMetadataStateSignedOut"
    and "\<forall>i\<in>set items. normal_home i" "\<forall>a\<in>set accounts. account_homeAccountId a \<noteq> Some h"
    and "filterAndFillIdTokenClaims A authority ids idTokens clientId (Some m) True items accounts noReturn s = (s', result, names)"
  shows "\<forall>a\<in>set result. account_homeAccountId a \<noteq> Some h"
  using assms(2-4)
proof (induction items arbitrary: accounts noReturn s)
  case (Cons i items)
  obtain s1 st where st: "m (account_item.aiHomeAccountId i) clientId s = (s1, st)" by fastforce
  let ?should = "returned_state ids (account_item.aiHomeAccountId i) st"
  let ?next = "if ?should then addAccount accounts (filled_account A authority idTokens i) else accounts"
  have "st = MSIDAccountMetadataStateSignedOut" if "account_item.aiHomeAccountId i = Some h"
    using assms(1) st that by (metis snd_conv)
  then have "\<forall>a\<in>set ?next. account_homeAccountId a \<noteq> Some h"
    using Cons.prems(1,2) set_addAccount(1) [of accounts "filled_account A authority idTokens i"]
    by (auto simp: normal_homeD returned_state_def split: if_splits)
  moreover have "filterAndFillIdTokenClaims A authority ids idTokens clientId (Some m) True items ?next
      (case aiUsername i of Some u \<Rightarrow> if ?should then noReturn else noReturn @ [u] | None \<Rightarrow> noReturn) s1 =
      (s', result, names)"
    using Cons.prems(3) by (simp add: signInState_def st Let_def)
  ultimately show ?case using Cons.IH Cons.prems(1) by (metis list.set_intros(2))
qed simp

lemma filter_lists:
  assumes "\<forall>s. snd (m (Some h) clientId s) = MSIDAccountMetadataStateSignedIn"
    and "\<forall>i\<in>set items. normal_home i" "\<forall>a\<in>set accounts. account_homeAccountId a \<noteq> None"
    and "(\<exists>a\<in>set accounts. account_homeAccountId a = Some h) \<or> (\<exists>i\<in>set items. account_item.aiHomeAccountId i = Some h)"
    and "filterAndFillIdTokenClaims A authority ids idTokens clientId (Some m) True items accounts noReturn s = (s', result, names)"
  shows "\<exists>a\<in>set result. account_homeAccountId a = Some h"
  using assms(2-5)
proof (induction items arbitrary: accounts noReturn s)
  case (Cons i items)
  obtain s1 st where st: "m (account_item.aiHomeAccountId i) clientId s = (s1, st)" by fastforce
  let ?a = "filled_account A authority idTokens i"
  let ?should = "returned_state ids (account_item.aiHomeAccountId i) st"
  let ?next = "if ?should then addAccount accounts ?a else accounts"
  have home: "account_homeAccountId ?a = account_item.aiHomeAccountId i" "account_homeAccountId ?a \<noteq> None"
    using Cons.prems(1) normal_homeD [of i] by (auto simp: normal_home_def split: option.splits)
  have nonnil: "\<forall>a\<in>set ?next. account_homeAccountId a \<noteq> None"
    using Cons.prems(2) home set_addAccount(1) [of accounts ?a] by auto
  have "\<exists>a\<in>set ?next. account_homeAccountId a = Some h" if "account_item.aiHomeAccountId i = Some h"
  proof -
    have "st = MSIDAccountMetadataStateSignedIn" using assms(1) st that by (metis snd_conv)
    then have ?should by (simp add: returned_state_def)
    then show ?thesis using addAccount_home [OF Cons.prems(2), of ?a h] home that by simp
  qed
  moreover have "\<exists>a\<in>set ?next. account_homeAccountId a = Some h" if "\<exists>a\<in>set accounts. account_homeAccountId a = Some h"
    using that set_addAccount(2) [of accounts ?a] by auto
  ultimately have left: "(\<exists>a\<in>set ?next. account_homeAccountId a = Some h) \<or> (\<exists>i\<in>set items. account_item.aiHomeAccountId i = Some h)"
    using Cons.prems(3) unfolding list.simps(15) by blast
  have step: "filterAndFillIdTokenClaims A authority ids idTokens clientId (Some m) True items ?next
      (case aiUsername i of Some u \<Rightarrow> if ?should then noReturn else noReturn @ [u] | None \<Rightarrow> noReturn) s1 =
      (s', result, names)"
    using Cons.prems(4) by (simp add: signInState_def st Let_def)
  from Cons.IH [OF _ nonnil left step] Cons.prems(1) show ?case by simp
qed auto

lemma signed_out_elsewhere:
  assumes "\<forall>s. snd (m (Some h) clientId s) = MSIDAccountMetadataStateSignedOut" "\<not> msidIsStringNilOrBlank (Some h)"
    and "filterSignedOutAccounts (Some m) clientId noReturn known as s = (s', kept)"
  shows "\<forall>a\<in>set kept. account_homeAccountId a \<noteq> Some h"
  using assms(3)
proof (induction as arbitrary: s kept)
  case (Cons a as)
  obtain s1 st where st: "m (account_homeAccountId a) clientId s = (s1, st)" by fastforce
  have "st = MSIDAccountMetadataStateSignedOut" if "account_homeAccountId a = Some h"
    using assms(1) st that by (metis snd_conv)
  with Cons show ?case using assms(2)
    by (auto simp: Let_def signInState_def st split: if_splits prod.splits)
qed simp

lemma others_drop:
  assumes "\<forall>s. snd (m (Some h) clientId s) = MSIDAccountMetadataStateSignedOut" "\<not> msidIsStringNilOrBlank (Some h)"
    and "\<forall>a\<in>set accounts. account_homeAccountId a \<noteq> Some h"
    and "accounts_of_others os authority clientId familyId ident (Some m) noReturn accounts s = (s', result, e)"
  shows "\<forall>a\<in>set result. account_homeAccountId a \<noteq> Some h"
  using assms(3,4)
proof (induction os arbitrary: accounts s e)
  case Nil
  then show ?case by (simp add: answer_def)
next
  case (Cons p os)
  obtain s1 found e1 where f: "caAccountsWithAuthority p authority clientId familyId ident s = (s1, found, e1)"
    by (cases "caAccountsWithAuthority p authority clientId familyId ident s") auto
  obtain s2 kept where k: "filterSignedOutAccounts (Some m) clientId noReturn accounts found s1 = (s2, kept)" by fastforce
  have "\<forall>a\<in>set (foldl addAccount accounts kept). account_homeAccountId a \<noteq> Some h"
    using Cons.prems(1) signed_out_elsewhere [OF assms(1,2) k] foldl_addAccount(2) [of accounts kept] by blast
  moreover obtain e2 where "accounts_of_others os authority clientId familyId ident (Some m) noReturn
      (foldl addAccount accounts kept) s2 = (s', result, e2)"
    using Cons.prems(2) by (auto simp: then_op_def f k keep_error_def split: prod.splits)
  ultimately show ?case using Cons.IH by blast
qed

lemma others_keep:
  assumes "accounts_of_others os authority clientId familyId ident m noReturn accounts s = (s', result, e)"
  shows "set accounts \<subseteq> set result"
  using assms
proof (induction os arbitrary: accounts s e)
  case Nil
  then show ?case by (simp add: answer_def)
next
  case (Cons p os)
  obtain s1 found e1 where f: "caAccountsWithAuthority p authority clientId familyId ident s = (s1, found, e1)"
    by (cases "caAccountsWithAuthority p authority clientId familyId ident s") auto
  obtain s2 kept where k: "filterSignedOutAccounts m clientId noReturn accounts found s1 = (s2, kept)" by fastforce
  obtain e2 where "accounts_of_others os authority clientId familyId ident m noReturn
      (foldl addAccount accounts kept) s2 = (s', result, e2)"
    using Cons.prems by (auto simp: then_op_def f k keep_error_def split: prod.splits)
  from Cons.IH [OF this] foldl_addAccount(1) [of accounts kept] show ?case by blast
qed

lemma accountsWithAuthority_run:
  assumes "getAccountsWithQuery (taSource A) (accounts_query A authority ident) s = (s1, Some items, e1)"
    and "accountsWithAuthority A authority clientId familyId ident m True s = (s', Some result, e)"
  obtains s3 ids idTokens s4 accounts noReturn s5 e5 where
    "filterAndFillIdTokenClaims A authority ids idTokens clientId m True items [] [] s3 = (s4, accounts, noReturn)"
    "accounts_of_others (taOthers A) authority clientId familyId ident m noReturn accounts s5 = (s', result, e5)"
  using assms
  by (auto simp: accountsWithAuthority_def keep_error_def Let_def split: prod.splits option.splits)

text \<open>
  C25: When the metadata of an account says that it is signed out, the list of accounts that are signed in
  does not have it, whatever refresh tokens it has and whatever other accessors answer; and when it
  says that it is signed in, the list has it, without any refresh token.
\<close>

theorem sign_in_state_decides_the_accounts:
  assumes "getAccountsWithQuery (taSource A) (accounts_query A authority ident) s = (s1, Some items, e1)"
    and "\<forall>i\<in>set items. normal_home i" "\<not> msidIsStringNilOrBlank (Some h)"
    and "accountsWithAuthority A authority clientId familyId ident (Some m) True s = (s', Some accounts, e)"
    and "\<forall>s. snd (m (Some h) clientId s) = state"
  shows "(state = MSIDAccountMetadataStateSignedOut \<longrightarrow> (\<forall>a\<in>set accounts. account_homeAccountId a \<noteq> Some h)) \<and>
    (state = MSIDAccountMetadataStateSignedIn \<longrightarrow> (\<exists>i\<in>set items. account_item.aiHomeAccountId i = Some h) \<longrightarrow>
      (\<exists>a\<in>set accounts. account_homeAccountId a = Some h))"
proof -
  obtain s3 ids idTokens s4 own noReturn s5 e5 where
    own: "filterAndFillIdTokenClaims A authority ids idTokens clientId (Some m) True items [] [] s3 = (s4, own, noReturn)" and
    all: "accounts_of_others (taOthers A) authority clientId familyId ident (Some m) noReturn own s5 = (s', accounts, e5)"
    using accountsWithAuthority_run [OF assms(1,4)] by metis
  have "\<forall>a\<in>set accounts. account_homeAccountId a \<noteq> Some h" if "state = MSIDAccountMetadataStateSignedOut"
    using others_drop [OF _ assms(3) filter_drops [OF _ assms(2) _ own] all] assms(5) that by simp
  moreover have "\<exists>a\<in>set accounts. account_homeAccountId a = Some h"
    if "state = MSIDAccountMetadataStateSignedIn" "\<exists>i\<in>set items. account_item.aiHomeAccountId i = Some h"
    using filter_lists [OF _ assms(2) _ _ own, of h] others_keep [OF all] assms(5) that by auto
  ultimately show ?thesis by blast
qed

definition sample_item :: "string \<Rightarrow> account_item" where
  "sample_item home =
     accountCacheItem \<lparr>acAccountType = MSIDAccountTypeMSSTS, acLocalAccountId = None, acStorageEnvironment = None,
       acEnvironment = Some ''login.microsoftonline.com'', acRealm = Some ''t'', acIdTokenClaims = None,
       acUsername = Some ''user@contoso.com'', acGivenName = None, acMiddleName = None, acFamilyName = None, acName = None,
       acAccountIdentifier = Some (initAccountIdentifier None (Some home)), acClientInfo = None, acAlternativeAccountId = None,
       acIsSSOAccount = False\<rparr>"

definition accounts_accessor :: "(credential_item list, unit) token_accessor" where
  "accounts_accessor = sample_accessor\<lparr>taSource := sample_source\<lparr>dsAccountsWithKey :=
     (\<lambda>_. answer (Some [sample_item ''u.t'', sample_item ''v.t'']))\<rparr>\<rparr>"

text \<open>The sign-in state of a metadata cache that does not change, after \<open>u.t\<close> signed out.\<close>

definition signed_out_metadata :: metadata_cache where
  "signed_out_metadata = fst (updateSignInStateForHomeAccountId (\<lambda>_. False) (\<lambda>_. False) sample_metadata (Some ''u.t'') (Some ''client'')
     MSIDAccountMetadataStateSignedOut)"

definition sample_sign_in :: "string option \<Rightarrow> string option \<Rightarrow> credential_item list \<Rightarrow> credential_item list \<times> account_metadata_state" where
  "sample_sign_in homeAccountId clientId s =
     (s, fst (snd (signInStateForHomeAccountId (\<lambda>_. False) signed_out_metadata homeAccountId clientId)))"

theorem sign_in_state_decides_the_accounts_witness:
  "\<exists>s' accounts e. accountsWithAuthority accounts_accessor None (Some ''client'') None None (Some sample_sign_in) True
       [sample_bound ''device-1''] = (s', Some accounts, e) \<and>
     Some ''u.t'' \<notin> set (map account_homeAccountId accounts)"
proof -
  let ?run = "accountsWithAuthority accounts_accessor None (Some ''client'') None None (Some sample_sign_in) True [sample_bound ''device-1'']"
  have some: "fst (snd ?run) \<noteq> None" by code_simp
  obtain s' as e where run: "?run = (s', as, e)" by (cases ?run) auto
  with some obtain accounts where run: "?run = (s', Some accounts, e)" by auto
  let ?get = "getAccountsWithQuery (taSource accounts_accessor) (accounts_query accounts_accessor None None) [sample_bound ''device-1'']"
  have "fst (snd ?get) = Some [sample_item ''u.t'', sample_item ''v.t'']" by code_simp
  then obtain s1 e1 where items: "?get = (s1, Some [sample_item ''u.t'', sample_item ''v.t''], e1)" by (cases ?get) auto
  have normal: "\<forall>i\<in>set [sample_item ''u.t'', sample_item ''v.t'']. normal_home i" by code_simp
  have "fst (snd (signInStateForHomeAccountId (\<lambda>_. False) signed_out_metadata (Some ''u.t'') (Some ''client''))) =
      MSIDAccountMetadataStateSignedOut" by code_simp
  then have state: "\<forall>s. snd (sample_sign_in (Some ''u.t'') (Some ''client'') s) = MSIDAccountMetadataStateSignedOut"
    by (simp add: sample_sign_in_def)
  have "\<not> msidIsStringNilOrBlank (Some ''u.t'')" by code_simp
  from sign_in_state_decides_the_accounts [OF items normal this run state] run show ?thesis by (auto simp: image_iff)
qed

end
