(* ===== verification/MacAccessor.thy ===== *)
theory MacAccessor
  imports TokenAccessorUpdate
begin

text \<open>
  The token cache over the macOS keychain cache: the keychain cache provides the contract
  \<open>accessor_source\<close>, and what the token cache does to the entries of its two blobs follows from it.
\<close>

section \<open>The macOS cache as the source of an accessor\<close>

text \<open>Refresh tokens are in the shared blob, and all other credentials in the one of the application.\<close>

definition mac_apart :: "mac_cache \<Rightarrow> bool" where
  "mac_apart c \<longleftrightarrow> (\<forall>b a i. item_at (blob_of b c) a = Some (CredentialItem i) \<longrightarrow> (fst a = ''RefreshToken'') = b)"

definition mac_ready :: "mac_env \<Rightarrow> mac_cache \<Rightarrow> bool" where
  "mac_ready M c \<longleftrightarrow> mac_inv M c \<and> mac_apart c"

lemma stored_item_at:
  assumes "storage_inv th st" "x \<in> set (storedItemsForKey th key st)"
  shows "\<exists>a. item_at st a = Some x"
proof (cases "getItemTypeFromCacheKey key")
  case None
  then show ?thesis using assms by (fastforce simp: storedItems_untyped item_at_def)
next
  case (Some ty)
  show ?thesis
  proof (cases "key_exact th key")
    case True
    then have "item_at st (ty, slot_of th key) = Some x"
      using assms(2) storedItems_exact [OF True, of "(ty, slot_of th key)" st] Some by (auto simp: key_addr_def split: option.splits)
    then show ?thesis by blast
  next
    case False
    then show ?thesis using assms Some by (fastforce simp: storedItems_partial item_at_def)
  qed
qed

lemma apart_look:
  assumes "mac_apart c" "item_at (blob_of b c) a = Some (CredentialItem i)"
  shows "mac_look c a = Some i"
proof -
  have "(fst a = ''RefreshToken'') = b" using assms unfolding mac_apart_def by blast
  then show ?thesis using assms(2) by (simp add: mac_look_def)
qed

lemma filterToken_credential: "i \<in> set (filterTokenItemsFromKeychainItems items) \<longleftrightarrow> CredentialItem i \<in> set items"
  by (force simp: filterTokenItemsFromKeychainItems_def map_filter_set elim: as_credential.elims)

lemma mac_apartI:
  assumes "mac_apart c" "\<And>b a i. item_at (blob_of b c') a = Some (CredentialItem i) \<Longrightarrow>
      item_at (blob_of b c) a = Some (CredentialItem i) \<or> (fst a = ''RefreshToken'') = b"
  shows "mac_apart c'"
  using assms unfolding mac_apart_def by blast

lemma mac_query:
  assumes "mac_ready M c"
  shows "\<exists>items. dsTokensWithKey (mac_data_source M) (CredentialQuery q) c = (c, Some items, None) \<and>
    (\<forall>i\<in>set items. \<exists>a. mac_look c a = Some i)"
proof -
  have login: "mkLoginKeychainEmpty c" and apart: "mac_apart c" using assms by (simp_all add: mac_ready_def mac_inv_def)
  have inv: "storage_inv (meHash M) (blob_of b c)" for b using assms mac_blob_inv by (simp add: mac_ready_def)
  have found: "\<exists>a. mac_look c a = Some i"
    if "i \<in> set (filterTokenItemsFromKeychainItems (storedItemsForKey (meHash M) (CredentialQuery q) (blob_of b c)))" for i b
    using stored_item_at [OF inv that [unfolded filterToken_credential]] apart_look [OF apart] by blast
  have blobs: "blob_of True c = mkShared c" "blob_of False c = mkApp c" by (simp_all add: blob_of_def)
  have "\<exists>items. mac_tokensWithKey M c (CredentialQuery q) = (c, items, None) \<and> (\<forall>i\<in>set items. \<exists>a. mac_look c a = Some i)"
  proof (cases "key_matchesAny (CredentialQuery q)")
    case True
    have "\<exists>a. mac_look c a = Some i" if "i \<in> set (filterTokenItemsFromKeychainItems
        (storedItemsForKey (meHash M) (CredentialQuery q) (mkApp c) @ storedItemsForKey (meHash M) (CredentialQuery q) (mkShared c)))" for i
      using that found [of i True] found [of i False] by (auto simp: filterToken_credential blobs simp del: split_paired_Ex)
    with True show ?thesis by (simp add: mac_tokensWithKey_def getAllItemsWithKey_def sync_memory_only [OF login] del: split_paired_Ex)
  next
    case False
    with found [of _ "key_isShared (CredentialQuery q)"] show ?thesis
      by (simp add: mac_tokensWithKey_def sync_memory_only [OF login] Let_def del: key_isShared.simps split_paired_Ex)
  qed
  then show ?thesis by (auto simp: mac_data_source_def answered_def)
qed

lemma mac_remove_any:
  assumes "mac_ready M c" "mac_addr M k = Some a" "mac_removeTokensWithKey M c (CredentialKey k) = (c', r, e)"
  shows "mac_ready M c' \<and> mac_look c' = (mac_look c)(a := None)"
proof -
  let ?b = "key_isShared (CredentialKey k)"
  let ?st = "removeStoredItemForKey (meHash M) (CredentialKey k) (blob_of ?b c)"
  have c: "mac_inv M c" "mac_apart c" "mkLoginKeychainEmpty c" using assms(1) by (simp_all add: mac_ready_def mac_inv_def)
  note p = mac_addr_parts [OF assms(2)] and inv = mac_blob_inv [OF c(1), of ?b]
  obtain d where c': "c' = set_disk ?b d (set_blob ?b ?st c) \<or> c' = set_blob ?b ?st c"
    using assms(3) c(3)
    by (auto simp: mac_removeTokensWithKey_def key_incomplete_def credential_key_exact removeAllMatchingTokens_def sync_memory_only
        Let_def with_error_def saveStorageItem_def removeStorageItem_def credential_cache_key_def
        simp del: key_isShared.simps split: if_splits)
  have st: "item_at ?st = (item_at (blob_of ?b c))(a := None)" by (rule blob.del_view [OF inv p(2)])
  have "mac_apart c'"
    using c' st by (intro mac_apartI [OF c(2)]) (auto simp del: key_isShared.simps split: if_splits)
  moreover have "mac_inv M c' \<and> mac_look c' = (mac_look c)(a := None)"
    using c' p(3) st blob.del_inv [OF inv, of "CredentialKey k"] c(1)
    by (auto simp: mac_inv_set mac_look_set fun_eq_iff mac_look_def simp del: key_isShared.simps)
  ultimately show ?thesis by (simp add: mac_ready_def)
qed

lemma mac_save_ready:
  assumes "mac_ready M c" "mac_addr M k = Some a" "mac_saveToken M c i (CredentialKey k) = (c', True, e)"
  shows "mac_ready M c' \<and> mac_look c' = (mac_look c)(a \<mapsto> mac_stamped M i)"
proof -
  let ?b = "key_isShared (CredentialKey k)"
  let ?st = "storeItem (meHash M) (CredentialItem (mac_stamped M i)) (CredentialKey k) (blob_of ?b c)"
  have c: "mac_inv M c" "mac_apart c" "mkLoginKeychainEmpty c" using assms(1) by (simp_all add: mac_ready_def mac_inv_def)
  note p = mac_addr_parts [OF assms(2)] and inv = mac_blob_inv [OF c(1), of ?b]
  have c': "c' = set_disk ?b (Some (storage_jsonDictionary (meHash M) ?st)) (set_blob ?b ?st c)"
    using assms(3) c(3) by (auto simp: mac_saveToken_def store_and_save_def sync_memory_only Let_def with_error_def
        saveStorageItem_def mac_stamped_def split: if_splits)
  have "item_at ?st = (item_at (blob_of ?b c))(a \<mapsto> CredentialItem (mac_stamped M i))"
    by (rule blob.put_view [OF inv p(1,2)])
  then have "mac_apart c'"
    using p(3) by (intro mac_apartI [OF c(2)]) (auto simp: c' simp del: key_isShared.simps split: if_splits)
  then show ?thesis using mac_save_law [OF c(1) assms(2,3)] by (simp add: mac_ready_def)
qed

lemma mac_unchanged:
  assumes "mac_ready M c"
  shows "fst (dsAccountsWithKey (mac_data_source M) sk c) = c" "fst (dsWipeInfo (mac_data_source M) c) = c"
    "fst (dsJsonObjectsWithKey (mac_data_source M) sk c) = c" "fst (dsSaveJsonObject (mac_data_source M) j sk c) = c"
    "fst (dsSaveWipeInfo (mac_data_source M) c) = c"
proof -
  have "mkLoginKeychainEmpty c" using assms by (simp add: mac_ready_def mac_inv_def)
  then show "fst (dsAccountsWithKey (mac_data_source M) sk c) = c"
    by (simp add: mac_data_source_def answered_def mac_accountsWithKey_def sync_memory_only)
qed (simp_all add: mac_data_source_def mac_saveWipeInfo_def)

lemma mac_addr_law:
  assumes "ckCredentialType k = ckCredentialType k'" "ckAppKey k = ckAppKey k'" "credentialKey_account k = credentialKey_account k'"
    and "\<And>th. credentialKey_service th k = credentialKey_service th k'"
  shows "mac_addr M k = mac_addr M k'"
  using assms by (simp add: mac_addr_def key_addr_def slot_of_def credential_cache_key_def)

interpretation macs: accessor_source "mac_data_source M" "mac_ready M" mac_look "mac_addr M" "mac_stamped M" for M
proof (unfold_locales, goal_cases)
  case (1 s k a i s' e)
  then show ?case using mac_save_ready by (simp add: mac_data_source_def)
next
  case (2 s k a s' e)
  then show ?case using mac_remove_any by (simp add: mac_data_source_def)
next
  case (3 s)
  then show ?case by (simp add: mac_unchanged)
next
  case (4 s k a)
  then show ?case using mac_read_law by (simp add: mac_data_source_def mac_ready_def)
next
  case (5 s q s' items e)
  from mac_query [OF 5(1), of q] 5 show ?case by (auto simp del: split_paired_Ex)
next
  case (6 s k a s' e)
  then show ?case using mac_remove_any [of M s k a s' False e] by (simp add: mac_data_source_def)
next
  case (11 k k')
  then show ?case by (rule mac_addr_law)
qed (simp_all add: mac_unchanged)

section \<open>A rejected refresh token\<close>

text \<open>The query for a refresh token that was read from an entry is exact, and names that entry.\<close>

lemma refresh_query_slot:
  fixes env :: "string option" and r :: refresh_token and i :: credential_item
  assumes "refresh_initWithItem [MSIDRefreshTokenType] i = Some r" "fits_type i" "ciHomeAccountId i \<noteq> None"
  defines "q \<equiv> cached_query (base_relocate env r) MSIDRefreshTokenType"
  shows "query_exactMatch th q" "slot_of th (CredentialQuery q) = slot_of th (CredentialKey (saving_key i))"
    "ckCredentialType q = MSIDRefreshTokenType" "\<not> qMatchAnyCredentialType q"
proof -
  have r: "r = \<lparr>btStorageEnvironment = None, btEnvironment = ciEnvironment i, btRealm = ciRealm i, btClientId = ciClientId i,
      btAdditionalServerInfo = None, btAccountIdentifier = map_option (\<lambda>h. initAccountIdentifier None (Some h)) (ciHomeAccountId i),
      btSpeInfo = ciSpeInfo i, btCreatedFromCacheItem = True, rtRefreshToken = ciSecret i, rtFamilyId = ciFamilyId i\<rparr>"
    and env: "ciEnvironment i \<noteq> None" "ciClientId i \<noteq> None" and ty: "ciCredentialType i = MSIDRefreshTokenType"
    using assms(1) by (auto simp: refresh_initWithItem_def base_initWithItem_def base_token.defs split: option.splits if_splits)
  obtain h e c where h: "ciHomeAccountId i = Some h" "ciEnvironment i = Some e" "ciClientId i = Some c" using assms(3) env by auto
  have "btAccountIdentifier (base_relocate env r) = Some (initAccountIdentifier None (Some h))"
      "btStorageEnvironment (base_relocate env r) = Some e" "btClientId (base_relocate env r) = Some c"
      "rtFamilyId (base_relocate env r) = ciFamilyId i"
    by (cases env; simp add: base_relocate_def Let_def r h)+
  then have fields: "ckHomeAccountId q = Some (msidNormalizedString h)" "ckEnvironment q = Some e" "ckClientId q = Some c"
      "ckFamilyId q = ciFamilyId i" "ckCredentialType q = MSIDRefreshTokenType" "qClientIdMatching q = MSIDExactStringMatch"
      "\<not> qMatchAnyCredentialType q" "ckAppKey q = None" "ckTokenType q = None"
    by (simp_all add: q_def cached_query_def initCredentialQuery_def identifier_home_def)
  have fits: "ciRealm i = None" "ciTarget i = None" "ciApplicationIdentifier i = None" "ciTokenType i = None" "ciRequestedClaims i = None"
    using assms(2) by (simp_all add: fits_type_def ty)
  show "query_exactMatch th q" "slot_of th (CredentialQuery q) = slot_of th (CredentialKey (saving_key i))"
    "ckCredentialType q = MSIDRefreshTokenType" "\<not> qMatchAnyCredentialType q"
    using fields h
    by (auto simp: query_exactMatch_def query_service_def serviceForRefreshToken_def queryClientId_def key_clientId_def query_account_def
        slot_of_def query_cache_key_def credential_cache_key_def credentialKey_account_def credentialKey_service_def saving_key_def
        initCredentialKey_def accountIdWithHomeAccountId_def ty fits split: option.split)
qed

lemma as_credential_Some: "as_credential x = Some i \<longleftrightarrow> x = CredentialItem i"
  by (cases x) auto

lemma mac_look_item: "mac_look c a = Some i \<Longrightarrow> item_at (blob_of (fst a = ''RefreshToken'') c) a = Some (CredentialItem i)"
  by (auto simp: mac_look_def Option.bind_eq_Some_conv as_credential_Some)

lemma refresh_query_finds:
  fixes env :: "string option" and r :: refresh_token
  assumes "mac_ready M c" "keyed (mac_addr M) (mac_look c)" "mac_look c a = Some i" "ciHomeAccountId i \<noteq> None"
    and "refresh_initWithItem [MSIDRefreshTokenType] i = Some r"
  defines "q \<equiv> cached_query (base_relocate env r) MSIDRefreshTokenType"
  shows "getCredentialsWithQuery E (mac_data_source M) q c = (c, Some [i], None)"
proof -
  have login: "mkLoginKeychainEmpty c" using assms(1) by (simp add: mac_ready_def mac_inv_def)
  have fits: "fits_type i" and addr: "mac_addr M (saving_key i) = Some a"
    using assms(2,3) unfolding keyed_def by blast+
  note q = refresh_query_slot [OF assms(5) fits assms(4), where env = env, folded q_def]
  have ty: "ciCredentialType i = MSIDRefreshTokenType"
    using assms(5) by (auto simp: refresh_initWithItem_def base_initWithItem_def split: option.splits if_splits)
  have a: "a = (''RefreshToken'', slot_of (meHash M) (CredentialQuery q))"
    using mac_addr_parts(2) [OF addr] q(2) by (simp add: key_addr_def saving_key_def initCredentialKey_def ty)
  have exact: "key_exact (meHash M) (CredentialQuery q)"
    using q(1) [of "meHash M"] by (simp add: key_exact_def query_exactMatch_def query_cache_key_def)
  have "storedItemsForKey (meHash M) (CredentialQuery q) (blob_of True c) = [CredentialItem i]"
    using storedItems_exact [OF exact, of a "blob_of True c"] mac_look_item [OF assms(3)] q(3) by (simp add: key_addr_def a)
  moreover have "key_isShared (CredentialQuery q)" using q(3) by (simp add: credentialKey_isShared_def)
  ultimately have "mac_tokensWithKey M c (CredentialQuery q) = (c, [i], None)"
    using q(4) by (simp add: mac_tokensWithKey_def key_matchesAny_def sync_memory_only [OF login] Let_def
        filterTokenItemsFromKeychainItems_def List.map_filter_simps del: key_isShared.simps)
  then show ?thesis using q(1) by (simp add: getCredentialsWithQuery_def mac_data_source_def answered_def)
qed

lemma refresh_removal_clears:
  assumes "mac_ready M c" "keyed (mac_addr M) (mac_look c)" "mac_look c a = Some i" "ciHomeAccountId i \<noteq> None"
    and "refresh_initWithItem [MSIDRefreshTokenType] i = Some r" "\<not> msidIsStringNilOrBlank (ciSecret i)"
    and A: "taSource A = mac_data_source M" "\<And>i. ceAppKey (taCredential A) i = None"
    and run: "validateAndRemoveRefreshableToken A (Some (RefreshToken (base_relocate env r))) MSIDRefreshTokenType c = (c', True, e)"
  shows "mac_look c' a = None"
proof -
  let ?r = "base_relocate env r"
  have ty: "ciCredentialType i = MSIDRefreshTokenType" and sec: "rtRefreshToken r = ciSecret i"
    using assms(5) by (auto simp: refresh_initWithItem_def base_initWithItem_def base_token.defs split: option.splits if_splits)
  have tok: "tokenWithType (taToken A) i MSIDRefreshTokenType = Some (RefreshToken r)"
    using assms(5) by (simp add: tokenWithType_def)
  have "getTokensWithEnvironment A (btEnvironment ?r) (cached_query ?r MSIDRefreshTokenType) c =
      (c, [relocate (btEnvironment ?r) (RefreshToken r)], None)"
    using refresh_query_finds [OF assms(1-5)] ty
    by (simp add: getTokensWithEnvironment_def then_op_def A(1) answer_def validateBoundAppRefreshTokens_def sort_items_def
        cached_query_def List.map_filter_simps tok)
  then have get: "getTokenWithEnvironment A (btEnvironment ?r) (cached_query ?r MSIDRefreshTokenType) c =
      (c, Some (relocate (btEnvironment ?r) (RefreshToken r)), None)"
    by (simp add: getTokenWithEnvironment_def)
  have "\<exists>e'. removeToken A (Some (relocate (btEnvironment ?r) (RefreshToken r))) c = (c', True, e')"
    using run get sec assms(6)
    by (auto simp: validateAndRemoveRefreshableToken_def then_op_def same_refresh_token_def isEqualToString_iff
        msidIsStringNilOrBlank_def split: option.splits prod.splits)
  then obtain e' where rm: "removeToken A (Some (relocate (btEnvironment ?r) (RefreshToken r))) c = (c', True, e')" by blast
  from macs.removeToken_read [OF A assms(1-3) _ rm] ty tok show ?thesis by simp
qed


definition rt_item :: credential_item where
  "rt_item = (initCredentialItem MSIDRefreshTokenType)\<lparr>ciClientId := Some ''app'', ciSecret := Some ''new'',
     ciEnvironment := Some ''login.windows.net'', ciHomeAccountId := Some ''uid.utid''\<rparr>"

definition mac_sample_accessor :: "(mac_cache, mac_error) token_accessor" where
  "mac_sample_accessor =
     \<lparr>taSource = mac_data_source witness_mac_env, taOthers = [], taSkipBound = False, taCredential = witness_credential_env,
      taToken = sample_env, taBartEnabled = True, taDisableFRT = False, taFlight = Some ''on'', taRegistration = (\<lambda>_. None),
      taAliases = (\<lambda>_. [''login.microsoftonline.com'', ''login.windows.net'']), taRealm = (\<lambda>_. Some ''common''),
      taCacheEnvironment = (\<lambda>_. Some ''login.windows.net''), taClaims = (\<lambda>_. None), taReport = (\<lambda>_ s. s),
      taError = (\<lambda>_. MacKeychainError)\<rparr>"

definition rt_cache :: mac_cache where
  "rt_cache = fst (saveCredential (mac_data_source witness_mac_env) rt_item witness_mac)"

definition rt_address :: "string \<times> slot" where
  "rt_address = (''RefreshToken'', slot_of (take 7) (CredentialKey (saving_key rt_item)))"

definition rt_token :: "string \<Rightarrow> token" where
  "rt_token secret = RefreshToken
     \<lparr>btStorageEnvironment = Some ''login.windows.net'', btEnvironment = Some ''login.microsoftonline.com'', btRealm = None,
      btClientId = Some ''app'', btAdditionalServerInfo = None,
      btAccountIdentifier = Some (initAccountIdentifier None (Some ''uid.utid'')), btSpeInfo = None,
      btCreatedFromCacheItem = True, rtRefreshToken = Some secret, rtFamilyId = None\<rparr>"

lemma rt_addr: "mac_addr witness_mac_env (saving_key rt_item) = Some rt_address"
  by (simp add: mac_addr_def key_addr_def rt_address_def witness_mac_env_def saving_key_def rt_item_def initCredentialItem_def
      initCredentialKey_def msidIsStringNilOrBlank_def)

lemma witness_mac_ready: "mac_ready witness_mac_env witness_mac"
  using witness_mac_inv by (simp add: mac_ready_def mac_apart_def witness_mac_def blob_of_def initStorage_def item_at_def entry_at_def)

lemma rt_cache_state:
  "mac_ready witness_mac_env rt_cache" "mac_look rt_cache = [rt_address \<mapsto> mac_stamped witness_mac_env rt_item]"
proof -
  obtain c' where c': "saveCredential (mac_data_source witness_mac_env) rt_item witness_mac = (c', True, None)"
    using mac_save_succeeds [of witness_mac witness_mac_env rt_item] by (auto simp: witness_mac_def witness_mac_env_def)
  have "mac_look witness_mac = Map.empty"
    by (simp add: mac_look_def witness_mac_def blob_of_def initStorage_def item_at_def entry_at_def fun_eq_iff)
  with macs.save_law [OF witness_mac_ready rt_addr] c'
  show "mac_ready witness_mac_env rt_cache" "mac_look rt_cache = [rt_address \<mapsto> mac_stamped witness_mac_env rt_item]"
    by (simp_all add: saveCredential_def rt_cache_def)
qed

lemma rt_cache_keyed: "keyed (mac_addr witness_mac_env) (mac_look rt_cache)"
  using rt_addr by (simp add: keyed_def rt_cache_state(2) saving_key_stamped)
    (simp add: fits_type_def mac_stamped_def rt_item_def initCredentialItem_def)

lemma mac_sample_parts:
  "taSource mac_sample_accessor = mac_data_source witness_mac_env" "taOthers mac_sample_accessor = []"
  "ceAppKey (taCredential mac_sample_accessor) i = None" "taToken mac_sample_accessor = sample_env"
  by (simp_all add: mac_sample_accessor_def witness_credential_env_def)

lemma rt_stamped:
  "ciSecret (mac_stamped M rt_item) = Some ''new''" "ciHomeAccountId (mac_stamped M rt_item) = Some ''uid.utid''"
  by (simp_all add: mac_stamped_def rt_item_def)



lemma rt_removed:
  "fst (snd (validateAndRemoveRefreshToken mac_sample_accessor (Some (rt_token ''new'')) rt_cache))"
  by code_simp

lemma rt_found:
  "\<exists>t. tokenWithType sample_env (mac_stamped witness_mac_env rt_item) MSIDRefreshTokenType = Some t \<and>
     relocate (Some ''login.microsoftonline.com'') t = rt_token ''new''"
  by (simp add: tokenWithType_def refresh_initWithItem_def base_initWithItem_def mac_stamped_def rt_item_def initCredentialItem_def
      base_token.defs refresh_token.defs rt_token_def base_relocate_def Let_def)


end
