(* ===== verification/TokenResponses.thy ===== *)
theory TokenResponses
  imports TokenAccessorUpdate ErrorCodes
begin

text \<open>
  \<open>oauth2/\<close>: the response of a token endpoint of AAD v2, the claims of its id token, and what the factory
  makes of it for the cache. A call to \<open>super\<close> is the definition for the superclass. Base64 and JSON
  decoding and the creation of authorities are parameters; the method and line in the user info of an
  internal error is left out.
\<close>

section \<open>Id token claims and client info\<close>

text \<open>One part of a raw id token, decoded.\<close>

datatype decoded_part = EmptyPart | InvalidJson | OtherJson | JsonDictionary "(string, nsobj) dict"

record factory_env =
  feNow :: nsdate
  fePart :: "string \<Rightarrow> decoded_part"
  feClientInfoJson :: "string \<Rightarrow> (string, nsobj) dict option"
  feIssuer :: "string \<Rightarrow> authority option"
  feTenantAuthority :: "string option \<Rightarrow> string \<Rightarrow> authority option"
  feRealm :: "authority \<Rightarrow> string option"
  feCacheEnvironment :: "authority \<Rightarrow> string option"
  feEnrollmentId :: "string option \<Rightarrow> string option \<Rightarrow> string option"
  feKid :: "authentication_scheme \<Rightarrow> string option"
  feConverter :: "error_converter option"
  feCorrelationId :: "string option"

record id_claims =
  icRawIdToken :: "string option"
  icJson :: "(string, nsobj) dict"
  icUniqueId :: "string option"
  icUserId :: "string option"
  icUserIdDisplayable :: bool
  icIssuerAuthority :: "authority option"

definition claim :: "id_claims \<Rightarrow> string \<Rightarrow> string option" where
  "claim c key = msidStringObjectForKey (icJson c) key"

definition normalizeUserId :: "string option \<Rightarrow> string option" where
  "normalizeUserId userId =
     (case userId of
        None \<Rightarrow> None
      | Some u \<Rightarrow> if length (msidNormalizedString u) > 0 then Some (msidNormalizedString u) else None)"

fun merge_parts :: "factory_env \<Rightarrow> string list \<Rightarrow> (string, nsobj) dict \<Rightarrow> (string, nsobj) dict option" where
  "merge_parts E [] allClaims = Some allClaims"
| "merge_parts E (part # parts) allClaims =
     (case fePart E part of
        EmptyPart \<Rightarrow> merge_parts E parts allClaims
      | JsonDictionary json \<Rightarrow> merge_parts E parts (addEntriesFromDictionary allClaims json)
      | _ \<Rightarrow> None)"

definition claims_from_raw :: "factory_env \<Rightarrow> string option \<Rightarrow> (string, nsobj) dict option" where
  "claims_from_raw E rawIdToken =
     (if msidIsStringNilOrBlank rawIdToken then None
      else
        (case merge_parts E (componentsSeparatedBy (CHR ''.'') (the rawIdToken)) [] of
           None \<Rightarrow> None
         | Some allClaims \<Rightarrow> if length allClaims = 0 then None else Some allClaims))"

text \<open>The derived properties of the claims of AAD v2, which override those of the base class.\<close>

definition initDerivedProperties :: "factory_env \<Rightarrow> id_claims \<Rightarrow> id_claims" where
  "initDerivedProperties E c =
     (let c = c\<lparr>icUniqueId := normalizeUserId (claim c ''sub''), icUserId := normalizeUserId (claim c ''sub''),
                icUserIdDisplayable := False, icIssuerAuthority := None\<rparr>;
          uniqueId = (if msidIsStringNilOrBlank (claim c ''oid'') then claim c ''sub'' else claim c ''oid'');
          userId = (if msidIsStringNilOrBlank (claim c ''preferred_username'') then claim c ''sub''
                    else claim c ''preferred_username'')
      in c\<lparr>icUniqueId := normalizeUserId uniqueId, icUserId := normalizeUserId userId, icUserIdDisplayable := True,
           icIssuerAuthority := Option.bind (claim c ''iss'') (feIssuer E)\<rparr>)"

definition tokenClaimsFromRawIdToken :: "factory_env \<Rightarrow> string option \<Rightarrow> id_claims option" where
  "tokenClaimsFromRawIdToken E rawIdToken =
     map_option (\<lambda>json. initDerivedProperties E
         \<lparr>icRawIdToken = rawIdToken, icJson = json, icUniqueId = None, icUserId = None, icUserIdDisplayable = False,
          icIssuerAuthority = None\<rparr>)
       (claims_from_raw E rawIdToken)"

definition claims_username :: "id_claims \<Rightarrow> string option" where
  "claims_username c = (case claim c ''preferred_username'' of Some u \<Rightarrow> Some u | None \<Rightarrow> icUserId c)"

definition claims_realm :: "id_claims \<Rightarrow> string option" where
  "claims_realm c = claim c ''tid''"

definition claims_alternativeAccountId :: "id_claims \<Rightarrow> string option" where
  "claims_alternativeAccountId c = claim c ''altsecid''"

text \<open>A client info that cannot be decoded is not made.\<close>

record client_info =
  nfRawClientInfo :: string
  nfJson :: "(string, nsobj) dict"

definition initWithRawClientInfo :: "factory_env \<Rightarrow> string \<Rightarrow> client_info option" where
  "initWithRawClientInfo E raw = map_option (\<lambda>json. \<lparr>nfRawClientInfo = raw, nfJson = json\<rparr>) (feClientInfoJson E raw)"

definition clientInfo_accountIdentifier :: "client_info \<Rightarrow> string option" where
  "clientInfo_accountIdentifier n =
     homeAccountIdentifierFromUid (msidStringObjectForKey (nfJson n) ''uid'') (msidStringObjectForKey (nfJson n) ''utid'')"

section \<open>Responses\<close>

record token_response =
  trError :: "string option"
  trErrorDescription :: "string option"
  trExpiresIn :: int
  trExpiresOn :: int
  trAccessToken :: "string option"
  trTokenType :: "string option"
  trRequestConf :: "string option"
  trRefreshToken :: "string option"
  trScope :: "string option"
  trState :: "string option"
  trIdToken :: "string option"
  trIdTokenObj :: "id_claims option"
  trAdditionalServerInfo :: "(string, nsobj) dict option"
  trClientAppVersion :: "string option"
  trStsErrorCodes :: "nsobj list option"
  trCcsRequestId :: "string option"
  trCcsRequestSequence :: "string option"
  trClientData :: "string option"
  trCreatedFromCache :: bool
  trBoundAppRefreshTokenDeviceId :: "string option"

record aad_response = token_response +
  arCorrelationId :: "string option"
  arExtendedExpiresIn :: int
  arExtendedExpiresOn :: int
  arRefreshIn :: int
  arRefreshOn :: int
  arClientInfo :: "client_info option"
  arFamilyId :: "string option"
  arSuberror :: "string option"
  arAdditionalUserId :: "string option"
  arSpeInfo :: "string option"

definition known_fields :: "string list" where
  "known_fields = [''error'', ''error_description'', ''access_token'', ''token_type'', ''refresh_token'', ''scope'', ''state'',
     ''id_token'', ''expires_in'', ''expires_on'']"

definition aad_known_fields :: "string list" where
  "aad_known_fields = [''correlation_id'', ''resource'', ''client_info'', ''foci'', ''spe_info'', ''ext_expires_in'', ''refresh_in'',
     ''refresh_on'', ''url'', ''ext_expires_on'', ''suberror'', ''ccs-requestid'', ''ccs-request-sequence'', ''client_data'']"

definition base_additional_info :: "(string, nsobj) dict \<Rightarrow> (string, nsobj) dict option" where
  "base_additional_info json =
     (let info = msidDictionaryByRemovingFields json known_fields in if length info > 0 then Some info else None)"

definition additional_server_info :: "(string, nsobj) dict \<Rightarrow> (string, nsobj) dict option" where
  "additional_server_info json = base_additional_info (msidDictionaryByRemovingFields json aad_known_fields)"

text \<open>The setter of the id token: a blank token is nil.\<close>

definition given_id_token :: "string option \<Rightarrow> string option" where
  "given_id_token idToken = (if msidIsStringNilOrBlank idToken then None else idToken)"

definition initResponse :: "factory_env \<Rightarrow> (string, nsobj) dict \<Rightarrow> token_response" where
  "initResponse E json =
     (let str = msidStringObjectForKey json; idToken = given_id_token (str ''id_token'')
      in \<lparr>trError = str ''error'', trErrorDescription = Option.bind (str ''error_description'') msidURLDecode,
          trExpiresIn = msidIntegerObjectForKey json ''expires_in'', trExpiresOn = msidIntegerObjectForKey json ''expires_on'',
          trAccessToken = str ''access_token'', trTokenType = str ''token_type'', trRequestConf = str ''req_cnf'',
          trRefreshToken = str ''refresh_token'', trScope = str ''scope'', trState = str ''state'', trIdToken = idToken,
          trIdTokenObj = Option.bind idToken (\<lambda>t. tokenClaimsFromRawIdToken E (Some t)),
          trAdditionalServerInfo = additional_server_info json, trClientAppVersion = str ''client_app_version'',
          trStsErrorCodes = msidArrayOfIntegersForKey json ''error_codes'', trCcsRequestId = None, trCcsRequestSequence = None,
          trClientData = None, trCreatedFromCache = False, trBoundAppRefreshTokenDeviceId = str ''bart_device_id''\<rparr>)"

definition initAADResponse :: "factory_env \<Rightarrow> (string, nsobj) dict \<Rightarrow> aad_response" where
  "initAADResponse E json =
     (let str = msidStringObjectForKey json
      in token_response.extend
           ((initResponse E json)\<lparr>trCcsRequestId := str ''ccs-requestid'', trCcsRequestSequence := str ''ccs-request-sequence'',
              trClientData := str ''client_data''\<rparr>)
           \<lparr>arCorrelationId = str ''correlation_id'', arExtendedExpiresIn = msidIntegerObjectForKey json ''ext_expires_in'',
            arExtendedExpiresOn = msidIntegerObjectForKey json ''ext_expires_on'',
            arRefreshIn = msidIntegerObjectForKey json ''refresh_in'', arRefreshOn = msidIntegerObjectForKey json ''refresh_on'',
            arClientInfo = Option.bind (str ''client_info'') (initWithRawClientInfo E), arFamilyId = str ''foci'',
            arSuberror = str ''suberror'', arAdditionalUserId = str ''adi'', arSpeInfo = str ''spe_info''\<rparr>)"

text \<open>With a refresh token that the request was made with, which a response without one answers again.\<close>

definition initAADResponseWithRefreshToken :: "factory_env \<Rightarrow> (string, nsobj) dict \<Rightarrow> refresh_token option \<Rightarrow> aad_response" where
  "initAADResponseWithRefreshToken E json token =
     (let r = initAADResponse E json
      in case token of
           Some t \<Rightarrow> if msidIsStringNilOrBlank (trRefreshToken r) then r\<lparr>trRefreshToken := rtRefreshToken t\<rparr> else r
         | None \<Rightarrow> r)"

definition response_json :: "string \<Rightarrow> 'a token_response_scheme \<Rightarrow> (string, nsobj) dict" where
  "response_json provider r =
     (let json = addEntriesFromDictionary [] (case trAdditionalServerInfo r of None \<Rightarrow> [] | Some info \<Rightarrow> info);
          put = (\<lambda>key value d. dict_assign key (json_str value) d);
          json = (case trError r of
            Some e \<Rightarrow>
              (let d = put ''error_description'' (map_option msidURLEncode (trErrorDescription r)) (put ''error'' (Some e) json)
               in case trStsErrorCodes r of Some codes \<Rightarrow> dict_put ''error_codes'' (NSArr codes) d | None \<Rightarrow> d)
          | None \<Rightarrow>
              put ''req_cnf'' (trRequestConf r) (put ''id_token'' (trIdToken r) (put ''scope'' (trScope r)
                (put ''token_type'' (trTokenType r) (put ''expires_on'' (Some (int_str (trExpiresOn r)))
                  (put ''expires_in'' (Some (int_str (trExpiresIn r))) (put ''refresh_token'' (trRefreshToken r)
                    (put ''access_token'' (trAccessToken r) json))))))))
      in put ''client_app_version'' (trClientAppVersion r) (put ''provider_type'' (Some provider) (put ''state'' (trState r) json)))"

definition aad_response_json :: "string \<Rightarrow> aad_response \<Rightarrow> (string, nsobj) dict" where
  "aad_response_json provider r =
     (let put = (\<lambda>key value d. dict_assign key (json_str value) d);
          json = put ''client_data'' (trClientData r) (put ''ccs-request-sequence'' (trCcsRequestSequence r)
            (put ''ccs-requestid'' (trCcsRequestId r) (put ''client_info'' (map_option nfRawClientInfo (arClientInfo r))
              (put ''adi'' (arAdditionalUserId r) (put ''suberror'' (arSuberror r) (put ''spe_info'' (arSpeInfo r)
                (put ''foci'' (arFamilyId r) (put ''correlation_id'' (arCorrelationId r) (response_json provider r)))))))))
      in if trError r \<noteq> None then json
         else put ''refresh_on'' (Some (int_str (arRefreshOn r))) (put ''refresh_in'' (Some (int_str (arRefreshIn r)))
           (put ''ext_expires_on'' (Some (int_str (arExtendedExpiresOn r)))
             (put ''ext_expires_in'' (Some (int_str (arExtendedExpiresIn r))) json))))"

definition date_of :: "nsdate \<Rightarrow> int \<Rightarrow> int \<Rightarrow> nsdate option" where
  "date_of now on seconds =
     (if on \<noteq> 0 then Some (of_int on) else if seconds \<noteq> 0 then Some (now + of_int seconds) else None)"

definition expiryDate :: "nsdate \<Rightarrow> 'a token_response_scheme \<Rightarrow> nsdate option" where
  "expiryDate now r = date_of now (trExpiresOn r) (trExpiresIn r)"

definition extendedExpiresOnDate :: "nsdate \<Rightarrow> aad_response \<Rightarrow> nsdate option" where
  "extendedExpiresOnDate now r = date_of now (arExtendedExpiresOn r) (arExtendedExpiresIn r)"

definition refreshOnDate :: "nsdate \<Rightarrow> aad_response \<Rightarrow> nsdate option" where
  "refreshOnDate now r = date_of now (arRefreshOn r) (arRefreshIn r)"

definition oauthErrorCode :: "'a token_response_scheme \<Rightarrow> int" where
  "oauthErrorCode r =
     MSIDErrorCodeForOAuthErrorWithSTSErrorCodes (trError r) (error_code ''MSIDErrorServerOauth'')
       (map_option (map (\<lambda>c. object_intValue (Some c))) (trStsErrorCodes r))"

section \<open>Verification\<close>

definition verifyToken :: "string option \<Rightarrow> bool" where
  "verifyToken token \<longleftrightarrow> \<not> msidIsStringNilOrBlank token"

text \<open>Whether a response is good, and the error otherwise.\<close>

definition base_verifyResponse :: "factory_env \<Rightarrow> 'a token_response_scheme \<Rightarrow> bool \<times> created_error option" where
  "base_verifyResponse E r =
     (if trError r \<noteq> None then
        (False,
         MSIDCreateError (feConverter E) (Some ''MSIDOAuthErrorDomain'') (oauthErrorCode r) (trErrorDescription r) (trError r)
           None None (feCorrelationId E)
           (Some (dict_assign ''MSIDSTSErrorCodesKey'' (map_option NSArr (trStsErrorCodes r))
             (dict_assign ''MSIDBrokerVersionKey'' (json_str (trClientAppVersion r)) []))))
      else if \<not> verifyToken (trAccessToken r) \<and> \<not> verifyToken (trIdToken r) then
        (False,
         MSIDCreateError (feConverter E) (Some ''MSIDErrorDomain'') (error_code ''MSIDErrorInternal'')
           (Some ''Authentication response received without expected accessToken and idToken'') None None None
           (feCorrelationId E) (Some []))
      else (True, None))"

text \<open>The sub error of AAD decides whether an unauthorized client is one without the required policies.\<close>

definition aad_error :: "factory_env \<Rightarrow> aad_response \<Rightarrow> created_error option \<Rightarrow> created_error option" where
  "aad_error E r parent =
     (let info = (case parent of None \<Rightarrow> [] | Some e \<Rightarrow> errUserInfo e);
          code = (case parent of None \<Rightarrow> 0 | Some e \<Rightarrow> errCode e);
          policies = (MSIDErrorCodeForOAuthError (trError r) (error_code ''MSIDErrorServerOauth'') =
                        error_code ''MSIDErrorServerUnauthorizedClient'' \<and>
                      isEqualToString (arSuberror r) (Some ''protection_policy_required''));
          home = Option.bind (arClientInfo r) clientInfo_accountIdentifier;
          info' = dict_assign ''MSIDUserDisplayableIdkey'' (json_str (arAdditionalUserId r)) info
      in MSIDCreateError (feConverter E) (map_option errDomain parent)
           (if policies then error_code ''MSIDErrorServerProtectionPoliciesRequired'' else code)
           (trErrorDescription r) (trError r) (arSuberror r) None (feCorrelationId E)
           (Some (if policies then (case home of None \<Rightarrow> info' | Some h \<Rightarrow> dict_put ''MSIDHomeAccountIdkey'' (NSStr h) info')
                  else info)))"

definition aad_verifyResponse :: "factory_env \<Rightarrow> aad_response \<Rightarrow> bool \<times> created_error option" where
  "aad_verifyResponse E r =
     (case base_verifyResponse E r of
        (False, e) \<Rightarrow> (False, if trError r \<noteq> None then aad_error E r e else e)
      | (True, _) \<Rightarrow> (True, None))"

definition verifyResponse :: "factory_env \<Rightarrow> aad_response \<Rightarrow> bool \<times> created_error option" where
  "verifyResponse E r =
     (case aad_verifyResponse E r of
        (False, e) \<Rightarrow> (False, e)
      | (True, _) \<Rightarrow>
          if arClientInfo r = None then
            (False,
             MSIDCreateError (feConverter E) (Some ''MSIDErrorDomain'') (error_code ''MSIDErrorInternal'')
               (Some ''Client info was not returned in the server response'') None None None (feCorrelationId E) (Some []))
          else (True, None))"

section \<open>Tokens of a response\<close>

definition accountIdentifierFromResponse :: "aad_response \<Rightarrow> account_identifier" where
  "accountIdentifierFromResponse r =
     initAccountIdentifier (Option.bind (trIdTokenObj r) claims_username)
       (Option.bind (arClientInfo r) clientInfo_accountIdentifier)"

definition cacheAuthority :: "factory_env \<Rightarrow> configuration \<Rightarrow> aad_response \<Rightarrow> authority option" where
  "cacheAuthority E configuration r =
     (case Option.bind (trIdTokenObj r) claims_realm of
        Some realm \<Rightarrow> feTenantAuthority E (Option.bind (cfAuthority configuration) auEnvironment) realm
      | None \<Rightarrow> cfAuthority configuration)"

definition resultAuthority :: "factory_env \<Rightarrow> configuration \<Rightarrow> aad_response \<Rightarrow> authority option" where
  "resultAuthority E configuration r =
     (case Option.bind (trIdTokenObj r) claims_realm of
        Some realm \<Rightarrow> feTenantAuthority E (Option.bind (cfAuthority configuration) auEnvironment) realm
      | None \<Rightarrow> cfAuthority configuration)"

definition fillBaseToken :: "factory_env \<Rightarrow> configuration \<Rightarrow> aad_response \<Rightarrow> base_token option" where
  "fillBaseToken E configuration r =
     map_option (\<lambda>a.
         \<lparr>btStorageEnvironment = feCacheEnvironment E a, btEnvironment = auEnvironment a, btRealm = feRealm E a,
          btClientId = cfClientId configuration, btAdditionalServerInfo = trAdditionalServerInfo r,
          btAccountIdentifier = Some (accountIdentifierFromResponse r), btSpeInfo = arSpeInfo r, btCreatedFromCacheItem = False\<rparr>)
       (cacheAuthority E configuration r)"

definition configuration_scheme :: "configuration \<Rightarrow> auth_scheme_type option" where
  "configuration_scheme configuration = map_option asAuthScheme (cfAuthScheme configuration)"

text \<open>
  The scheme of the configuration makes the blank access token; without a scheme there is none, and
  filling it answers none.
\<close>

definition blank_kid :: "factory_env \<Rightarrow> configuration \<Rightarrow> string option" where
  "blank_kid E configuration =
     (if configuration_scheme configuration \<in> {Some MSIDAuthSchemePop, Some MSIDAuthSchemeSshCert}
      then Option.bind (cfAuthScheme configuration) (feKid E) else None)"

definition seconds :: "nsdate \<Rightarrow> nsdate" where
  "seconds d = of_int (trunc_rat d)"

definition base_fillAccessToken :: "factory_env \<Rightarrow> configuration \<Rightarrow> aad_response \<Rightarrow> access_token option" where
  "base_fillAccessToken E configuration r =
     (case fillBaseToken E configuration r of
        None \<Rightarrow> None
      | Some b \<Rightarrow>
          if trAccessToken r = None then None
          else Some (base_token.extend b
            \<lparr>atExpiresOn = Some (seconds (case expiryDate (feNow E) r of Some d \<Rightarrow> d | None \<Rightarrow> feNow E + 3600)),
             atExtendedExpiresOn = None, atRefreshOn = None, atCachedAt = Some (seconds (feNow E)),
             atAccessToken = trAccessToken r, atTarget = map_option msidStringFromOrderedSet (msidScopeSet (trScope r)),
             atEnrollmentId = None, atApplicationIdentifier = None, atKid = blank_kid E configuration,
             atTokenType = Option.bind (configuration_scheme configuration) scheme_tokenType, atRedirectUri = None,
             atRequestedClaims = None\<rparr>))"

definition aad_fillAccessToken :: "factory_env \<Rightarrow> configuration \<Rightarrow> aad_response \<Rightarrow> access_token option" where
  "aad_fillAccessToken E configuration r =
     map_option (\<lambda>t. t\<lparr>
         atEnrollmentId := feEnrollmentId E (identifier_home (btAccountIdentifier t)) (identifier_displayable (btAccountIdentifier t)),
         atApplicationIdentifier := cfApplicationIdentifier configuration,
         atExtendedExpiresOn := extendedExpiresOnDate (feNow E) r, atRefreshOn := refreshOnDate (feNow E) r\<rparr>)
       (base_fillAccessToken E configuration r)"

definition fillAccessToken :: "factory_env \<Rightarrow> configuration \<Rightarrow> aad_response \<Rightarrow> access_token option" where
  "fillAccessToken E configuration r =
     map_option (\<lambda>t.
       (let t = (if atTarget t = None
                 then t\<lparr>atTarget := map_option msidStringFromOrderedSet (cfScopes configuration)\<rparr> else t);
            t = (if \<not> msidIsStringNilOrBlank (cfNestedAuthBrokerClientId configuration)
                 then t\<lparr>atRedirectUri := cfRedirectUri configuration\<rparr> else t)
        in if Option.bind (configuration_scheme configuration) scheme_tokenType = Some ''ssh-cert''
           then t\<lparr>atTokenType := Some ''ssh-cert''\<rparr> else t))
       (aad_fillAccessToken E configuration r)"

definition accessTokenFromResponse :: "factory_env \<Rightarrow> configuration \<Rightarrow> aad_response \<Rightarrow> token option" where
  "accessTokenFromResponse E configuration r =
     (case configuration_scheme configuration of
        None \<Rightarrow> None
      | Some scheme \<Rightarrow>
          map_option (if scheme = MSIDAuthSchemeBearer then AccessToken else AccessTokenWithAuthScheme)
            (fillAccessToken E configuration r))"

definition fillRefreshToken :: "factory_env \<Rightarrow> configuration \<Rightarrow> aad_response \<Rightarrow> refresh_token option" where
  "fillRefreshToken E configuration r =
     (case fillBaseToken E configuration r of
        None \<Rightarrow> None
      | Some b \<Rightarrow>
          if trRefreshToken r = None then None
          else
            (let b = (if \<not> msidIsStringNilOrBlank (cfNestedAuthBrokerClientId configuration)
                      then b\<lparr>btClientId := cfNestedAuthBrokerClientId configuration\<rparr> else b)
             in Some (base_token.extend b \<lparr>rtRefreshToken = trRefreshToken r, rtFamilyId = arFamilyId r\<rparr>)))"

definition doesResponseHaveBoundAppRefreshToken :: "'a token_response_scheme \<Rightarrow> bool" where
  "doesResponseHaveBoundAppRefreshToken r \<longleftrightarrow>
     \<not> msidIsStringNilOrBlank (trBoundAppRefreshTokenDeviceId r) \<or>
     \<not> msidIsStringNilOrBlank (Option.bind (trAdditionalServerInfo r) (\<lambda>i. msidStringObjectForKey i ''bart_device_id''))"

definition refreshTokenFromResponse :: "factory_env \<Rightarrow> configuration \<Rightarrow> aad_response \<Rightarrow> token option" where
  "refreshTokenFromResponse E configuration r =
     (case fillRefreshToken E configuration r of
        None \<Rightarrow> None
      | Some t \<Rightarrow>
          if doesResponseHaveBoundAppRefreshToken r
          then map_option BoundRefreshToken (boundFromRefreshToken t (trBoundAppRefreshTokenDeviceId r))
          else Some (RefreshToken t))"

definition idTokenFromResponse :: "factory_env \<Rightarrow> configuration \<Rightarrow> aad_response \<Rightarrow> token option" where
  "idTokenFromResponse E configuration r =
     (case fillBaseToken E configuration r of
        None \<Rightarrow> None
      | Some b \<Rightarrow> if trIdToken r = None then None else Some (IdToken (base_token.extend b \<lparr>itRawIdToken = trIdToken r\<rparr>)))"

definition accountFromResponse :: "factory_env \<Rightarrow> configuration \<Rightarrow> aad_response \<Rightarrow> account option" where
  "accountFromResponse E configuration r =
     (let c = trIdTokenObj r; str = (\<lambda>key. Option.bind c (\<lambda>c. claim c key));
          home = (case Option.bind c icUserId of
                    Some u \<Rightarrow> Some u | None \<Rightarrow> Option.bind (arClientInfo r) clientInfo_accountIdentifier)
      in if home = None then None
         else map_option (\<lambda>a.
             \<lparr>acAccountType = MSIDAccountTypeMSSTS, acLocalAccountId = Option.bind c icUniqueId,
              acStorageEnvironment = feCacheEnvironment E a, acEnvironment = auEnvironment a, acRealm = feRealm E a,
              acIdTokenClaims = None, acUsername = Option.bind c claims_username, acGivenName = str ''given_name'',
              acMiddleName = str ''middle_name'', acFamilyName = str ''family_name'', acName = str ''name'',
              acAccountIdentifier = Some (accountIdentifierFromResponse r),
              acClientInfo = map_option nfRawClientInfo (arClientInfo r),
              acAlternativeAccountId = Option.bind c claims_alternativeAccountId, acIsSSOAccount = False\<rparr>)
           (cacheAuthority E configuration r))"

definition appMetadataFromResponse :: "factory_env \<Rightarrow> configuration \<Rightarrow> aad_response \<Rightarrow> appmetadata_item option" where
  "appMetadataFromResponse E configuration r =
     map_option (\<lambda>a.
         \<lparr>miClientId = cfClientId configuration, miEnvironment = auEnvironment a,
          miFamilyId = (case arFamilyId r of Some f \<Rightarrow> Some f | None \<Rightarrow> Some []), miJson = None\<rparr>)
       (cacheAuthority E configuration r)"

definition factory_makes :: "factory_env \<Rightarrow> configuration \<Rightarrow> aad_response \<Rightarrow> factory_answer" where
  "factory_makes E configuration r =
     \<lparr>faAccessToken = accessTokenFromResponse E configuration r, faIdToken = idTokenFromResponse E configuration r,
      faRefreshToken = refreshTokenFromResponse E configuration r, faAppMetadata = appMetadataFromResponse E configuration r,
      faAccount = accountFromResponse E configuration r\<rparr>"

section \<open>What a response keeps\<close>

lemma removing_fields: "dict_get (msidDictionaryByRemovingFields d fs) k = (if k \<in> set fs then None else dict_get d k)"
  unfolding msidDictionaryByRemovingFields_def by (induction fs arbitrary: d) auto

lemma distinct_removing_fields: "distinct (dict_keys d) \<Longrightarrow> distinct (dict_keys (msidDictionaryByRemovingFields d fs))"
  unfolding msidDictionaryByRemovingFields_def by (induction fs arbitrary: d) auto

lemma additional_info_get:
  assumes "distinct (dict_keys json)"
  shows "dict_get (addEntriesFromDictionary [] (case additional_server_info json of None \<Rightarrow> [] | Some i \<Rightarrow> i)) k =
    (if k \<in> set known_fields \<union> set aad_known_fields then None else dict_get json k)"
proof -
  let ?info = "msidDictionaryByRemovingFields (msidDictionaryByRemovingFields json aad_known_fields) known_fields"
  have "(case additional_server_info json of None \<Rightarrow> [] | Some i \<Rightarrow> i) = ?info"
    by (simp add: additional_server_info_def base_additional_info_def Let_def)
  moreover have "dict_get (addEntriesFromDictionary [] ?info) = dict_get ?info"
    using distinct_removing_fields [OF distinct_removing_fields [OF assms]] by (simp add: dict_get_addEntries)
  ultimately show ?thesis by (simp add: removing_fields)
qed

lemma str_int: "msidIntegerObjectForKey d k = integerValue s" if "dict_get d k = Some (NSStr s)"
  using that by (simp add: msidIntegerObjectForKey_def msidAssertTypeIsOneOf_def)

lemma string_lookup: "msidStringObjectForKey d k = Option.bind (dict_get d k) as_string"
proof (cases "dict_get d k")
  case (Some v)
  then show ?thesis by (cases v) (simp_all add: msidStringObjectForKey_def msidObjectForKey_def)
qed (simp add: msidStringObjectForKey_def msidObjectForKey_def)

lemma bind_json_str: "Option.bind (json_str so) as_string = so"
  by (cases so) simp_all

definition int64 :: "int \<Rightarrow> bool" where
  "int64 n \<longleftrightarrow> - (2 ^ 63) \<le> n \<and> n < 2 ^ 63"

lemma integer_lookup: "dict_get d k = Some (NSStr (int_str n)) \<Longrightarrow> int64 n \<Longrightarrow> msidIntegerObjectForKey d k = n"
  by (simp add: str_int integerValue_str int64_def)

text \<open>The fields of a response in terms of its JSON.\<close>

lemma init_fields:
  "trError (initAADResponse E j) = msidStringObjectForKey j ''error''"
  "trErrorDescription (initAADResponse E j) = Option.bind (msidStringObjectForKey j ''error_description'') msidURLDecode"
  "trExpiresIn (initAADResponse E j) = msidIntegerObjectForKey j ''expires_in''"
  "trExpiresOn (initAADResponse E j) = msidIntegerObjectForKey j ''expires_on''"
  "trAccessToken (initAADResponse E j) = msidStringObjectForKey j ''access_token''"
  "trTokenType (initAADResponse E j) = msidStringObjectForKey j ''token_type''"
  "trRequestConf (initAADResponse E j) = msidStringObjectForKey j ''req_cnf''"
  "trRefreshToken (initAADResponse E j) = msidStringObjectForKey j ''refresh_token''"
  "trScope (initAADResponse E j) = msidStringObjectForKey j ''scope''"
  "trState (initAADResponse E j) = msidStringObjectForKey j ''state''"
  "trIdToken (initAADResponse E j) = given_id_token (msidStringObjectForKey j ''id_token'')"
  "trIdTokenObj (initAADResponse E j) =
     Option.bind (given_id_token (msidStringObjectForKey j ''id_token'')) (\<lambda>t. tokenClaimsFromRawIdToken E (Some t))"
  "trAdditionalServerInfo (initAADResponse E j) = additional_server_info j"
  "trClientAppVersion (initAADResponse E j) = msidStringObjectForKey j ''client_app_version''"
  "trStsErrorCodes (initAADResponse E j) = msidArrayOfIntegersForKey j ''error_codes''"
  "trCcsRequestId (initAADResponse E j) = msidStringObjectForKey j ''ccs-requestid''"
  "trCcsRequestSequence (initAADResponse E j) = msidStringObjectForKey j ''ccs-request-sequence''"
  "trClientData (initAADResponse E j) = msidStringObjectForKey j ''client_data''"
  "\<not> trCreatedFromCache (initAADResponse E j)"
  "trBoundAppRefreshTokenDeviceId (initAADResponse E j) = msidStringObjectForKey j ''bart_device_id''"
  "arCorrelationId (initAADResponse E j) = msidStringObjectForKey j ''correlation_id''"
  "arExtendedExpiresIn (initAADResponse E j) = msidIntegerObjectForKey j ''ext_expires_in''"
  "arExtendedExpiresOn (initAADResponse E j) = msidIntegerObjectForKey j ''ext_expires_on''"
  "arRefreshIn (initAADResponse E j) = msidIntegerObjectForKey j ''refresh_in''"
  "arRefreshOn (initAADResponse E j) = msidIntegerObjectForKey j ''refresh_on''"
  "arClientInfo (initAADResponse E j) = Option.bind (msidStringObjectForKey j ''client_info'') (initWithRawClientInfo E)"
  "arFamilyId (initAADResponse E j) = msidStringObjectForKey j ''foci''"
  "arSuberror (initAADResponse E j) = msidStringObjectForKey j ''suberror''"
  "arAdditionalUserId (initAADResponse E j) = msidStringObjectForKey j ''adi''"
  "arSpeInfo (initAADResponse E j) = msidStringObjectForKey j ''spe_info''"
  by (simp_all add: initAADResponse_def initResponse_def Let_def token_response.defs)

lemma raw_client_info:
  "Option.bind (map_option nfRawClientInfo (Option.bind so (initWithRawClientInfo E))) (initWithRawClientInfo E) =
   Option.bind so (initWithRawClientInfo E)"
  by (cases so; cases "feClientInfoJson E (the so)") (simp_all add: initWithRawClientInfo_def)

lemma given_twice: "given_id_token (given_id_token so) = given_id_token so"
  by (simp add: given_id_token_def)


section \<open>What the tokens of a response are\<close>

definition response_home :: "aad_response \<Rightarrow> string option" where
  "response_home r = map_option msidNormalizedString (Option.bind (arClientInfo r) clientInfo_accountIdentifier)"

lemma fillBase_parts:
  assumes "fillBaseToken E configuration r = Some b"
  shows "btClientId b = cfClientId configuration" "identifier_home (btAccountIdentifier b) = response_home r"
    and "\<exists>a. cacheAuthority E configuration r = Some a \<and> btStorageEnvironment b = feCacheEnvironment E a \<and> btEnvironment b = auEnvironment a"
  using assms by (auto simp: fillBaseToken_def identifier_home_def accountIdentifierFromResponse_def initAccountIdentifier_def
      response_home_def Let_def)

definition authority_has_host :: "factory_env \<Rightarrow> authority option \<Rightarrow> bool" where
  "authority_has_host E a \<longleftrightarrow> (case a of None \<Rightarrow> True | Some au \<Rightarrow> feCacheEnvironment E au \<noteq> None \<or> auEnvironment au \<noteq> None)"

lemma fillBase_storable:
  assumes "authority_has_host E (cacheAuthority E configuration r)" "cfClientId configuration \<noteq> None"
    and "fillBaseToken E configuration r = Some b"
  shows "base_storable b"
  using fillBase_parts [OF assms(3)] assms(1,2) by (auto simp: base_storable_def authority_has_host_def)

lemma fillAccess_parts:
  assumes "fillAccessToken E configuration r = Some t"
  shows "\<exists>b. fillBaseToken E configuration r = Some b \<and> base_token.truncate t = b \<and> atAccessToken t = trAccessToken r \<and>
    atAccessToken t \<noteq> None \<and> atKid t = blank_kid E configuration \<and>
    atTokenType t = Option.bind (configuration_scheme configuration) scheme_tokenType \<and>
    atTarget t = (case msidScopeSet (trScope r) of
       Some s \<Rightarrow> Some (msidStringFromOrderedSet s) | None \<Rightarrow> map_option msidStringFromOrderedSet (cfScopes configuration))"
  using assms
  by (auto simp: fillAccessToken_def aad_fillAccessToken_def base_fillAccessToken_def Let_def base_token.defs
      split: option.splits if_splits)

definition made_by :: "factory_answer \<Rightarrow> token \<Rightarrow> bool" where
  "made_by r t \<longleftrightarrow> Some t \<in> {faAccessToken r, faIdToken r, faRefreshToken r}"

lemma nested_refresh:
  assumes "fillRefreshToken E configuration r = Some t" "cfClientId configuration \<noteq> None"
  shows "\<exists>b. fillBaseToken E configuration r = Some b \<and> btStorageEnvironment t = btStorageEnvironment b \<and>
    btEnvironment t = btEnvironment b \<and> btAccountIdentifier t = btAccountIdentifier b \<and> btClientId t \<noteq> None \<and>
    rtRefreshToken t \<noteq> None"
proof -
  obtain b where b: "fillBaseToken E configuration r = Some b"
    using assms(1) by (auto simp: fillRefreshToken_def split: option.splits)
  have "cfNestedAuthBrokerClientId configuration \<noteq> None" if "\<not> msidIsStringNilOrBlank (cfNestedAuthBrokerClientId configuration)"
    using that by (auto simp: msidIsStringNilOrBlank_def split: option.splits)
  then show ?thesis
    using assms b fillBase_parts(1) [OF b] by (auto simp: fillRefreshToken_def Let_def base_token.defs split: if_splits)
qed

lemma made_storable:
  assumes host: "authority_has_host E (cacheAuthority E configuration r)" "cfClientId configuration \<noteq> None"
    and scopes: "trScope r \<noteq> None \<or> cfScopes configuration \<noteq> None"
    and scheme: "configuration_scheme configuration = Some MSIDAuthSchemeBearer \<or> blank_kid E configuration \<noteq> None"
    and made: "made_by (factory_makes E configuration r) t"
  shows "storable T t \<and> token_home t = response_home r"
proof -
  note base = fillBase_storable [OF host] and parts = fillBase_parts
  from made consider (access) "accessTokenFromResponse E configuration r = Some t"
    | (id) "idTokenFromResponse E configuration r = Some t" | (refresh) "refreshTokenFromResponse E configuration r = Some t"
    by (auto simp: made_by_def factory_makes_def)
  then show ?thesis
  proof cases
    case access
    then obtain a sc where a: "fillAccessToken E configuration r = Some a" "configuration_scheme configuration = Some sc"
        "t = (if sc = MSIDAuthSchemeBearer then AccessToken else AccessTokenWithAuthScheme) a"
      by (auto simp: accessTokenFromResponse_def split: option.splits if_splits)
    from fillAccess_parts [OF a(1)] obtain b where b: "fillBaseToken E configuration r = Some b" "base_token.truncate a = b"
        "atAccessToken a \<noteq> None" "atKid a = blank_kid E configuration"
        "atTokenType a = Option.bind (configuration_scheme configuration) scheme_tokenType"
        "atTarget a = (case msidScopeSet (trScope r) of
           Some s \<Rightarrow> Some (msidStringFromOrderedSet s) | None \<Rightarrow> map_option msidStringFromOrderedSet (cfScopes configuration))"
      by blast
    have "base_storable a" using base [OF b(1)] b(2) by (auto simp: base_storable_def base_token.defs)
    moreover have "atTarget a \<noteq> None" using b(6) scopes by (cases "trScope r") (simp_all add: msidScopeSet_def)
    moreover have "identifier_home (btAccountIdentifier a) = response_home r"
      using parts(2) [OF b(1)] b(2) by (auto simp: base_token.defs)
    ultimately show ?thesis using b(3-5) scheme a(2,3)
      by (cases sc) (auto simp: access_storable_def token_home_def base_token.defs)
  next
    case id
    then obtain b where b: "fillBaseToken E configuration r = Some b" "trIdToken r \<noteq> None"
        "t = IdToken (base_token.extend b \<lparr>itRawIdToken = trIdToken r\<rparr>)"
      by (auto simp: idTokenFromResponse_def split: option.splits if_splits)
    then show ?thesis using base [OF b(1)] parts(2) [OF b(1)]
      by (simp add: token_home_def base_token.defs base_storable_def)
  next
    case refresh
    then obtain f where f: "fillRefreshToken E configuration r = Some f"
        "t = RefreshToken f \<or> (\<exists>bd. t = BoundRefreshToken bd \<and> boundFromRefreshToken f (trBoundAppRefreshTokenDeviceId r) = Some bd)"
      by (auto simp: refreshTokenFromResponse_def split: option.splits if_splits)
    from nested_refresh [OF f(1) host(2)] obtain b where b: "fillBaseToken E configuration r = Some b"
        "btStorageEnvironment f = btStorageEnvironment b" "btEnvironment f = btEnvironment b"
        "btAccountIdentifier f = btAccountIdentifier b" "btClientId f \<noteq> None" "rtRefreshToken f \<noteq> None" by blast
    then have "base_storable f" using base [OF b(1)] by (auto simp: base_storable_def)
    with f(2) b parts(2) [OF b(1)] show ?thesis
      by (auto simp: token_home_def base_token.defs refresh_token.defs boundFromRefreshToken_def base_storable_def split: if_splits)
  qed
qed

lemma storable_rereads: "storable T t \<Longrightarrow> rereads T t"
  by (cases t) (auto intro: token_rereads)


definition msidSubError :: "'a nserror_scheme \<Rightarrow> string option" where
  "msidSubError e = Option.bind (dict_get (errUserInfo e) ''MSIDOAuthSubErrorKey'') as_string"

text \<open>
  C15: A response with an OAuth error is never taken as good, and the error that is reported carries the
  OAuth error and the sub error of the server, on which the removal of tokens is decided; its code is that
  of the OAuth error unless the client lacks the policies its tenant requires.
\<close>

theorem error_response_is_reported:
  assumes "feConverter E = None" "trError r = Some err"
  shows "\<exists>e. verifyResponse E r = (False, Some e) \<and> errDomain e = ''MSIDOAuthErrorDomain'' \<and>
    msidOauthError (nserror.truncate e) = Some err \<and> msidSubError e = arSuberror r \<and>
    errCode e = (if MSIDErrorCodeForOAuthError (Some err) (error_code ''MSIDErrorServerOauth'') =
                      error_code ''MSIDErrorServerUnauthorizedClient'' \<and>
                    isEqualToString (arSuberror r) (Some ''protection_policy_required'')
                 then error_code ''MSIDErrorServerProtectionPoliciesRequired'' else oauthErrorCode r)"
proof -
  let ?c = "error_code ''MSIDErrorServerOauth''"
  obtain p where p: "base_verifyResponse E r = (False, Some p)" "errDomain p = ''MSIDOAuthErrorDomain''" "errCode p = oauthErrorCode r"
      "dict_get (errUserInfo p) ''MSIDOAuthSubErrorKey'' = None" "dict_get (errUserInfo p) ''MSIDOAuthErrorKey'' = Some (NSStr err)"
      "distinct (dict_keys (errUserInfo p))"
    using assms by (auto simp: base_verifyResponse_def MSIDCreateError_def errorWithDomain_def Let_def dict_get_addEntries map_add_def)
  have "verifyResponse E r = (False, aad_error E r (Some p))"
    using p(1) assms(2) by (simp add: verifyResponse_def aad_verifyResponse_def)
  moreover obtain e where "aad_error E r (Some p) = Some e" "errDomain e = ''MSIDOAuthErrorDomain''"
      "errCode e = (if MSIDErrorCodeForOAuthError (Some err) ?c = error_code ''MSIDErrorServerUnauthorizedClient'' \<and>
                    isEqualToString (arSuberror r) (Some ''protection_policy_required'')
                 then error_code ''MSIDErrorServerProtectionPoliciesRequired'' else oauthErrorCode r)"
      "dict_get (errUserInfo e) ''MSIDOAuthErrorKey'' = Some (NSStr err)"
      "dict_get (errUserInfo e) ''MSIDOAuthSubErrorKey'' = json_str (arSuberror r)"
    using assms p(2-6)
    by (cases "arSuberror r")
      (auto simp: aad_error_def MSIDCreateError_def errorWithDomain_def Let_def dict_get_addEntries map_add_def split: option.split)
  ultimately show ?thesis
    by (intro exI [of _ e]) (simp add: msidOauthError_def msidSubError_def nserror.defs bind_json_str)
qed

section \<open>A sample\<close>

definition sample_factory :: factory_env where
  "sample_factory =
     \<lparr>feNow = 1000,
      fePart = (\<lambda>p. if p = ''claims'' then JsonDictionary [(''tid'', NSStr ''t''), (''preferred_username'', NSStr ''user@contoso.com''), (''oid'', NSStr ''o'')]
                     else EmptyPart),
      feClientInfoJson = (\<lambda>raw. if raw = ''info'' then Some [(''uid'', NSStr ''u''), (''utid'', NSStr ''t'')] else None),
      feIssuer = (\<lambda>_. None),
      feTenantAuthority = (\<lambda>e realm. Some \<lparr>auUrl = ''https://login.microsoftonline.com/t'', auEnvironment = e,
         auSupportsClientIDAsScope = False, auSupportsMAMScenarios = True\<rparr>),
      feRealm = (\<lambda>_. Some ''t''), feCacheEnvironment = (\<lambda>_. Some ''login.windows.net''), feEnrollmentId = (\<lambda>_ _. None),
      feKid = (\<lambda>_. None), feConverter = None, feCorrelationId = Some ''c''\<rparr>"

definition sample_json :: "(string, nsobj) dict" where
  "sample_json =
     [(''access_token'', NSStr ''at''), (''refresh_token'', NSStr ''rt''), (''id_token'', NSStr ''header.claims.signature''),
      (''expires_in'', NSNum 3599), (''ext_expires_in'', NSStr ''7200''), (''scope'', NSStr ''user.read''), (''foci'', NSStr ''1''),
      (''client_info'', NSStr ''info''), (''token_type'', NSStr ''Bearer'')]"

definition sample_configuration :: configuration where
  "sample_configuration =
     initConfiguration (Some \<lparr>auUrl = ''https://login.microsoftonline.com/common'', auEnvironment = Some ''login.microsoftonline.com'',
         auSupportsClientIDAsScope = False, auSupportsMAMScenarios = True\<rparr>)
       (Some ''app://redirect'') (Some ''app'') (Some ''user.read'') None None"

definition sample_refusal :: "(string, nsobj) dict" where
  "sample_refusal = [(''error'', NSStr ''invalid_grant''), (''suberror'', NSStr ''bad_token'')]"



theorem error_response_is_reported_witness:
  "\<exists>e. verifyResponse sample_factory (initAADResponse sample_factory sample_refusal) = (False, Some e) \<and>
     msidOauthError (nserror.truncate e) = Some ''invalid_grant'' \<and> msidSubError e = Some ''bad_token''"
proof -
  let ?r = "initAADResponse sample_factory sample_refusal"
  have pre: "feConverter sample_factory = None" "trError ?r = Some ''invalid_grant''" and "arSuberror ?r = Some ''bad_token''"
    by code_simp+
  with error_response_is_reported [OF pre] show ?thesis by auto
qed

end
