(* ===== verification/Spec2Isabelle.thy ===== *)
theory Spec2Isabelle
  imports LRUCache Throttling Thumbprint ScopeSets CacheItems AccountMetadata CredentialStorage
    KeychainCache ErrorCodes Constants DIContainer ExecutionFlow RequestParameters Onboarding
    OnboardingBlob Navigation SystemSession MATSReport AccountCredentialCache CredentialSessions
    AuthorityCache RequestTelemetry PKeyAuth HttpRequest Tokens Accounts TokenAccessor
    TokenAccessorUpdate TokenAccessorAccounts MacAccessor TokenResponses
begin

text \<open>
  A verification of the core of the Microsoft Authentication Library common code for iOS and macOS
  (\<open>IdentityCore/src\<close>, written in Objective-C). All paths below are relative to that directory.

  \<^bold>\<open>The program.\<close> An application asks for a token. The parameters of the request are collected and
  validated (\<open>parameters/\<close>, \<open>configuration/\<close>); the authority is resolved with what instance discovery
  said about its hosts (\<open>validation/\<close>); the caches are searched (\<open>cache/\<close>): an account credential cache
  over a data source, which on macOS is a keychain cache of two blobs; the sign-in state of an account
  is read from the metadata cache. If a token must be fetched, the throttling service (\<open>throttling/\<close>)
  first decides whether a recent failure answers the request; it keeps its records in an LRU cache under
  thumbprints of the request. An interactive request shows a web view (\<open>webview/\<close>) whose redirects are
  resolved to decisions, some of which hand the user over to a system browser session. Along the way
  telemetry is collected (\<open>telemetry/\<close>): execution flows, the onboarding blob, the headers of a request.

  \<^bold>\<open>Conventions of the model\<close> (\<open>Prelude\<close>, \<open>Foundation\<close>). \<open>nil\<close> is \<open>None\<close>; a string is ASCII text; an
  \<open>NSDictionary\<close> is an association list with distinct keys whose order stands for the unspecified order of
  enumeration; a property list is a value of \<open>nsobj\<close>; \<open>NSUInteger\<close> arithmetic wraps at 64 bits where it
  matters; dates are rational seconds. A method that changes its object returns the new state; an
  \<open>NSError\<close> out parameter is a component of the result; a raised exception is the left side of a sum. A
  serial dispatch queue makes its blocks atomic, so the state after a history of calls is a fold over
  them; where blocks are queued and run later, the queue is part of the state. Code outside the
  repository (Security framework, JSON serialisation, URL parsing, date formatters, the application's
  callbacks) is a parameter of the definitions that use it.

  \<^bold>\<open>Interfaces\<close> (\<open>Interfaces\<close>). Two contracts are stated as locales: \<open>record_cache\<close>, a bounded cache that may
  evict, provided by the LRU cache and used by throttling; \<open>keyed_store\<close>, a store of items under keys,
  provided by the credential blob and used by the keychain cache. \<open>AccountCredentialCache\<close> has
  \<open>credential_source\<close> and \<open>CredentialSessions\<close> has \<open>keeping_source\<close>, what the account credential cache asks
  of its data source; \<open>TokenAccessorUpdate\<close> extends the first to \<open>accessor_source\<close>, what the token cache asks. Each is interpreted on the model of the code that provides it.

  \<^bold>\<open>Theories and the code they model.\<close>
  \<^item> \<open>LRUCache\<close>: \<open>throttling/cache/MSIDLRUCache.m\<close>, a doubly linked list kept in a dictionary of nodes, with
    a second dictionary from keys to node signatures. Every public operation refines an abstract
    most-recently-used list; no operation on a reachable cache raises; the walk of the list ends (its
    bound is the number of nodes).
  \<^item> \<open>Thumbprint\<close>, \<open>Throttling\<close>: \<open>throttling/\<close>. The thumbprints of a request, the 429 and the UI-required
    models, the service. The decision refines one stated over the abstract contents of the cache.
  \<^item> \<open>ScopeSets\<close>, \<open>CacheKeys\<close>, \<open>CacheItems\<close>: scopes as ordered sets; keys and queries; credentials, accounts
    and application metadata with their JSON. The service part of a key determines what it was made of;
    an exact query reads the key it describes; JSON round trips.
  \<^item> \<open>AccountMetadata\<close>: \<open>cache/metadata/\<close>, the sign-in state and the authority map behind a cache in
    memory, which always agrees with the keychain.
  \<^item> \<open>CredentialStorage\<close>, \<open>KeychainCache\<close>: \<open>cache/mac/\<close>, the blob and the two-blob cache over two keychain
    items. The blob refines a map from addresses to items.
  \<^item> \<open>AccountCredentialCache\<close>, \<open>CredentialSessions\<close>: \<open>cache/accessor/MSIDAccountCredentialCache.m\<close> over any data
    source, and whole sessions of requests against the macOS cache: what is saved is read, what has
    expired is removed and nothing else, every session keeps the blobs well formed.
  \<^item> \<open>AuthorityCache\<close>: \<open>MSIDCache.m\<close>, \<open>validation/MSIDAadAuthorityCache.m\<close>: metadata is taken whole or not at
    all; asking the cache never raises.
  \<^item> \<open>ErrorCodes\<close>, \<open>Constants\<close>: \<open>MSIDError.h\<close> and the tables of constants and enumerations of the headers.
  \<^item> \<open>DIContainer\<close>: \<open>util/MSIDDIContainer.m\<close>. A resolution is a read, a build and a finish, any of which may
    be interleaved with other threads; a singleton is still built once.
  \<^item> \<open>RequestParameters\<close>: \<open>parameters/MSIDRequestParameters.m\<close> with configurations and account identifiers;
    after every setter the configuration agrees with the parameters.
  \<^item> \<open>Onboarding\<close>, \<open>OnboardingBlob\<close>: the onboarding status applications share and the blob of its steps.
  \<^item> \<open>Navigation\<close>, \<open>SystemSession\<close>: the decisions of the web view, the hand-off to a system browser, which
    goes to allowed hosts only, and the manager that answers every session request exactly once.
  \<^item> \<open>ExecutionFlow\<close>, \<open>MATSReport\<close>, \<open>RequestTelemetry\<close>: telemetry. Every retrieval of a flow completes; flows
    and blobs are bounded; the headers carry the newest errors that fit, and sending drains them.
  \<^item> \<open>PKeyAuth\<close>: \<open>workplacejoin/\<close>, the device certificate challenge: a credential goes only where the guards
    allow, a challenge written out is read back, the parser ends unless the header escapes a quote. The
    parser is a partial function, so that the loop which never ends is \<open>None\<close>.
  \<^item> \<open>HttpRequest\<close>: \<open>network/\<close>, a request with its serialiser, interceptor, response cache, server telemetry and
    the error handler that retries it. The replies of the transport are a list; a request completes after a
    bounded number of sends, and an interceptor changes nothing but the header fields left to it.
  \<^item> \<open>Tokens\<close>: \<open>oauth2/token/\<close>, the classes of tokens, a record each that extends its superclass: what survives
    the cache, that a token read from an entry is written back under its key, and expiry.
  \<^item> \<open>Accounts\<close>, \<open>TokenAccessor\<close>, \<open>TokenAccessorUpdate\<close>, \<open>TokenAccessorAccounts\<close>: \<open>oauth2/account/MSIDAccount.m\<close> and
    \<open>cache/accessor/MSIDDefaultTokenCacheAccessor.m\<close>, the token cache over any account credential cache and any
    other accessors: reading, saving, removing and clearing tokens, and listing accounts. A bound token is
    answered for the registered device only; the sign-in state decides which accounts are listed.
  \<^item> \<open>MacAccessor\<close>: the token cache over the macOS keychain cache. A rejected refresh token that was read from
    the cache is gone after its removal, and nothing that holds another secret is.
  \<^item> \<open>TokenResponses\<close>: \<open>oauth2/\<close>, the responses of AAD v2, their id token claims and client info, their
    verification, and the tokens, account and metadata its factory makes of them. A response survives its
    JSON and its tokens survive the cache; an OAuth error reaches the caller with its sub error.

  \<^bold>\<open>Bounds and fuel.\<close> No definition takes fuel: recursion is structural or has a measure, except for the
  walk over the linked list of the LRU cache, a partial function whose value is \<open>None\<close> when the list has a
  cycle (that it returns on every reachable cache is part of \<open>lru_calls_are_safe\<close>), and the parser of
  \<open>PKeyAuth\<close>. The capacity of the LRU
  cache is assumed to leave room for the two sentinel nodes below \<open>2 ^ 64\<close>.

  \<^bold>\<open>Not modelled\<close>, with the reasons: user interface, WebKit, view controllers and platform queries (effects
  with no result of their own); Security framework calls (SecItem, certificates, encryption, access control
  lists), which are library code; the sessions of the network and the parsing of responses, the token
  requests and controllers above them, the Swift layer; logging, which no result depends on; the
  legacy cache and its accessor, the responses of other providers than AAD v2, claims requests and
  authorities, which are still to be done.
\<close>

end
